(* ===== verification/BT_Prelude.thy ===== *)
theory BT_Prelude
  imports Main "HOL-Library.Word" "HOL-Library.Monad_Syntax"
begin

text \<open>
  Shared vocabulary of the development: the machine types of the C++ sources, the reading
  of undefined behaviour as \<^const>\<open>None\<close>, and the generic facts on options, lists and
  words that the component theories use.

  A C++ expression that may run into undefined behaviour (an array access out of range, a
  dereferenced end iterator, a division by zero, a failed assertion) is modelled by a
  definition of type \<open>'a ub\<close>: \<^const>\<open>None\<close> is the undefined execution, \<^const>\<open>Some\<close> a
  defined one with its value. That a routine is free of undefined behaviour is then a theorem
  (\<open>f x = Some y\<close>), never an assumption built into the model.
\<close>

unbundle bit_operations_syntax

type_synonym u8 = "8 word"
type_synonym u16 = "16 word"
type_synonym u32 = "32 word"
type_synonym u64 = "64 word"
type_synonym 'a ub = "'a option"

named_theorems ub_simps \<open>equations that show an operation to be defined\<close>
named_theorems unfold_ops \<open>definitions unfolded together in component proofs\<close>

subsection \<open>Options\<close>

lemma bind_SomeE:
  assumes "Option.bind m f = Some y"
  obtains x where "m = Some x" and "f x = Some y"
  using assms by (cases m) auto

lemma bind_cong_Some: "m = Some x \<Longrightarrow> Option.bind m f = f x"
  by simp

subsection \<open>Words\<close>

lemma bit_mask_word:
  "bit (push_bit m (1 :: 'a :: len word)) n \<longleftrightarrow> n = m \<and> n < LENGTH('a)"
  by (auto simp: bit_simps)

lemma and_one_drop_bit:
  "(drop_bit n w AND 1 \<noteq> 0) \<longleftrightarrow> bit (w :: 'a :: len word) n"
  by (simp add: and_one_eq bit_iff_odd_drop_bit odd_iff_mod_2_eq_one)

lemma and_one_drop_bit_int:
  "(drop_bit n w AND 1 \<noteq> 0) \<longleftrightarrow> bit (w :: int) n"
  by (simp add: and_one_eq bit_iff_odd_drop_bit odd_iff_mod_2_eq_one)

lemma xor_eq_0_iff: "(a XOR b = 0) \<longleftrightarrow> a = (b :: 'a :: len word)"
  by (metis bit.xor_cancel_left xor.assoc xor.right_neutral xor_self_eq)

lemma uint_take_bit_word_of_int:
  assumes "n \<le> LENGTH('a)"
  shows "uint (take_bit n (word_of_int x :: 'a :: len word)) = x mod 2 ^ n"
proof -
  have "uint (take_bit n (word_of_int x :: 'a word)) = take_bit n (take_bit LENGTH('a) x)"
    by (simp only: unsigned_take_bit_eq uint_word_of_int_eq)
  also have "\<dots> = take_bit n x" using assms by (simp only: take_bit_take_bit min_absorb1)
  finally show ?thesis by (simp only: take_bit_eq_mod)
qed

subsection \<open>Integers\<close>

lemma div_mono_nonneg: "(a :: int) \<le> b \<Longrightarrow> 0 \<le> d \<Longrightarrow> a div d \<le> b div d"
  by (cases "d = 0") (auto intro: zdiv_mono1)

end
