(* ===== verification/Audio_Types.thy ===== *)
theory Audio_Types
  imports BT_Prelude
begin

text \<open>
  The data the Bluetooth audio sources exchange. The types are generated from AIDL interface
  files that are not part of the repository; a datatype or record here holds the enumerators
  and fields the C++ sources name, and an enumerator of a union or enumeration that the sources
  never name is covered by a catch-all constructor. Numeric values of enumerators that matter
  to the code are parameters of the definitions that use them.
\<close>

section \<open>Enumerations\<close>

datatype session_type =
    ST_UNKNOWN
  | A2DP_SOFTWARE_ENCODING_DATAPATH
  | A2DP_HARDWARE_OFFLOAD_ENCODING_DATAPATH
  | HEARING_AID_SOFTWARE_ENCODING_DATAPATH
  | LE_AUDIO_SOFTWARE_ENCODING_DATAPATH
  | LE_AUDIO_SOFTWARE_DECODING_DATAPATH
  | LE_AUDIO_HARDWARE_OFFLOAD_ENCODING_DATAPATH
  | LE_AUDIO_HARDWARE_OFFLOAD_DECODING_DATAPATH
  | LE_AUDIO_BROADCAST_SOFTWARE_ENCODING_DATAPATH
  | LE_AUDIO_BROADCAST_HARDWARE_OFFLOAD_ENCODING_DATAPATH
  | A2DP_SOFTWARE_DECODING_DATAPATH
  | A2DP_HARDWARE_OFFLOAD_DECODING_DATAPATH
  | HFP_SOFTWARE_ENCODING_DATAPATH
  | HFP_SOFTWARE_DECODING_DATAPATH
  | HFP_HARDWARE_OFFLOAD_DATAPATH

datatype channel_mode = CM_UNKNOWN | CM_MONO | CM_STEREO | CM_DUALMONO

datatype latency_mode =
    LM_UNKNOWN
  | LOW_LATENCY
  | FREE
  | DYNAMIC_SPATIAL_AUDIO_SOFTWARE
  | DYNAMIC_SPATIAL_AUDIO_HARDWARE

datatype bluetooth_audio_status =
    BAS_UNKNOWN | BAS_SUCCESS | BAS_UNSUPPORTED_CODEC_CONFIGURATION | BAS_FAILURE | BAS_RECONFIGURATION

datatype a2dp_status =
    A2DP_OK
  | BAD_LENGTH
  | NOT_SUPPORTED_CODEC_TYPE
  | INVALID_SAMPLING_FREQUENCY
  | NOT_SUPPORTED_SAMPLING_FREQUENCY
  | INVALID_CHANNEL_MODE
  | NOT_SUPPORTED_CHANNEL_MODE
  | INVALID_SUBBANDS
  | NOT_SUPPORTED_SUBBANDS
  | INVALID_ALLOCATION_METHOD
  | NOT_SUPPORTED_ALLOCATION_METHOD
  | INVALID_MINIMUM_BITPOOL_VALUE
  | NOT_SUPPORTED_MINIMUM_BITPOOL_VALUE
  | INVALID_MAXIMUM_BITPOOL_VALUE
  | NOT_SUPPORTED_MAXIMUM_BITPOOL_VALUE
  | INVALID_BLOCK_LENGTH
  | INVALID_OBJECT_TYPE
  | NOT_SUPPORTED_OBJECT_TYPE
  | INVALID_CHANNELS
  | NOT_SUPPORTED_CHANNELS
  | NOT_SUPPORTED_VBR
  | NOT_SUPPORTED_BIT_RATE

section \<open>A2DP codec data\<close>

text \<open>A codec identifier is an AIDL union the sources only compare for equality.\<close>

datatype codec_id = CodecId_A2dp_SBC | CodecId_A2dp_AAC | CodecId_other nat

record codec_parameters =
  cp_channelMode :: channel_mode
  cp_samplingFrequencyHz :: int
  cp_bitdepth :: int
  cp_minBitrate :: int
  cp_maxBitrate :: int

text \<open>The \<open>a2dp\<close> alternative of \<open>CodecInfo::Transport\<close>, the only one the codecs set.\<close>

record codec_info =
  ci_id :: codec_id
  ci_name :: string
  ci_capabilities :: "u8 list"
  ci_samplingFrequencyHz :: "int list"
  ci_channelMode :: "channel_mode list"
  ci_bitdepth :: "int list"

end
