(* ===== verification/LeAudio_Offload.thy ===== *)
theory LeAudio_Offload
  imports Audio_Types "HOL-Library.AList" "HOL-Library.Monad_Syntax"
begin

text \<open>
  \<^verbatim>\<open>bluetooth/audio/hal/LeAudioOffloadAudioProvider.cpp\<close>: how the LE audio offload provider matches
  the configuration settings it knows with the capabilities of the remote device and with the
  requirements of the Bluetooth stack: ASE configurations, their quality of service, and broadcast
  configurations.

  The AIDL structures keep the fields the code reads; the others are in an \<open>_other\<close> field, which is
  copied. A call of \<open>value()\<close> on an empty optional, an index out of range and a write through a null
  pointer are \<^const>\<open>None\<close>.
\<close>

section \<open>Data\<close>

datatype sampling_frequency =
    SF_unset | HZ8000 | HZ11025 | HZ16000 | HZ22050 | HZ24000 | HZ32000 | HZ44100 | HZ48000 | HZ88200
  | HZ96000 | HZ176400 | HZ192000 | HZ384000

datatype frame_duration = FD_unset | US7500 | US10000

datatype cfg_ltv =
    Cfg_samplingFrequency sampling_frequency
  | Cfg_frameDuration frame_duration
  | Cfg_audioChannelAllocation int
  | Cfg_octetsPerCodecFrame int
  | Cfg_codecFrameBlocksPerSDU int

datatype cfg_tag = T_samplingFrequency | T_frameDuration | T_audioChannelAllocation | T_octetsPerCodecFrame
  | T_codecFrameBlocksPerSDU

fun cfg_getTag :: "cfg_ltv \<Rightarrow> cfg_tag" where
  "cfg_getTag (Cfg_samplingFrequency _) = T_samplingFrequency"
| "cfg_getTag (Cfg_frameDuration _) = T_frameDuration"
| "cfg_getTag (Cfg_audioChannelAllocation _) = T_audioChannelAllocation"
| "cfg_getTag (Cfg_octetsPerCodecFrame _) = T_octetsPerCodecFrame"
| "cfg_getTag (Cfg_codecFrameBlocksPerSDU _) = T_codecFrameBlocksPerSDU"

datatype cap_ltv =
    Cap_supportedSamplingFrequencies u32
  | Cap_supportedFrameDurations u32
  | Cap_supportedAudioChannelCounts u32
  | Cap_supportedOctetsPerCodecFrame int int
  | Cap_supportedMaxCodecFramesPerSDU int

text \<open>The tag of the configuration a capability is about.\<close>

fun cap_to_cfg_tag_map :: "cap_ltv \<Rightarrow> cfg_tag" where
  "cap_to_cfg_tag_map (Cap_supportedSamplingFrequencies _) = T_samplingFrequency"
| "cap_to_cfg_tag_map (Cap_supportedMaxCodecFramesPerSDU _) = T_codecFrameBlocksPerSDU"
| "cap_to_cfg_tag_map (Cap_supportedFrameDurations _) = T_frameDuration"
| "cap_to_cfg_tag_map (Cap_supportedAudioChannelCounts _) = T_audioChannelAllocation"
| "cap_to_cfg_tag_map (Cap_supportedOctetsPerCodecFrame _ _) = T_octetsPerCodecFrame"

datatype metadata_ltv = MD_preferredAudioContexts u32 | MD_other nat

record le_device_capabilities =
  dc_codecId :: codec_id
  dc_codecSpecificCapabilities :: "cap_ltv list"
  dc_metadata :: "metadata_ltv option list option"

datatype target_latency = TL_UNDEFINED | TL_LOWER | TL_BALANCED_LATENCY_RELIABILITY | TL_HIGHER_RELIABILITY

datatype phy = ONE_M | TWO_M | CODED

record ase_configuration =
  ase_targetLatency :: target_latency
  ase_targetPhy :: phy
  ase_codecId :: "codec_id option"
  ase_codecConfiguration :: "cfg_ltv list"
  ase_other :: nat

record qos_configuration =
  qos_retransmissionNum :: int
  qos_maxTransportLatencyMs :: int
  qos_other :: nat

record data_path_configuration =
  dp_dataPathId :: int
  dp_isTransparent :: bool
  dp_other :: nat

record direction_configuration =
  dir_aseConfiguration :: ase_configuration
  dir_qosConfiguration :: "qos_configuration option"
  dir_dataPathConfiguration :: "data_path_configuration option"

type_synonym directions = "direction_configuration option list"

record ase_setting =
  set_audioContext :: u32
  set_packing :: nat
  set_sinkAseConfiguration :: "directions option"
  set_sourceAseConfiguration :: "directions option"
  set_flags :: nat

text \<open>Of a requirement on a direction only the ASE configuration is read.\<close>

record ase_requirement =
  req_audioContext :: u32
  req_sinkAseRequirement :: "ase_configuration option list option"
  req_sourceAseRequirement :: "ase_configuration option list option"

record qos_direction_requirement =
  qr_aseConfiguration :: ase_configuration
  qr_preferredRetransmissionNum :: int
  qr_maxTransportLatencyMs :: int

record qos_requirement =
  qq_audioContext :: u32
  qq_sinkAseQosRequirement :: "qos_direction_requirement option"
  qq_sourceAseQosRequirement :: "qos_direction_requirement option"

record qos_pair =
  qp_sinkQosConfiguration :: "qos_configuration option"
  qp_sourceQosConfiguration :: "qos_configuration option"

text \<open>
  Constants of the AIDL interface: the bits of the supported sampling frequencies and frame
  durations, the bit of the front centre channel, and the priority that disables a codec.
\<close>

record le_consts =
  lc_freq_bit :: "sampling_frequency \<Rightarrow> u32"
  lc_duration_bit :: "frame_duration \<Rightarrow> u32"
  lc_front_center :: int
  lc_priority_disabled :: int

text \<open>The priorities a provider was told: \<open>codec_priority_map_\<close> keeps them as unsigned numbers.\<close>

type_synonym priorities = "(codec_id \<times> u32) list"

definition setCodecPriority :: "codec_id \<Rightarrow> int \<Rightarrow> priorities \<Rightarrow> priorities" where
  "setCodecPriority codec priority m = AList.update codec (word_of_int priority) m"

section \<open>Matching\<close>

definition freq_to_support_bitmask_map :: "sampling_frequency list" where
  "freq_to_support_bitmask_map =
     [HZ8000, HZ11025, HZ16000, HZ22050, HZ24000, HZ32000, HZ48000, HZ88200, HZ96000, HZ176400, HZ192000, HZ384000]"

definition fduration_to_support_fduration_map :: "frame_duration list" where
  "fduration_to_support_fduration_map = [US7500, US10000]"

definition isMatchedValidCodec :: "le_consts \<Rightarrow> priorities \<Rightarrow> codec_id \<Rightarrow> codec_id \<Rightarrow> bool" where
  "isMatchedValidCodec k prio cfg_codec req_codec =
     (case map_of prio cfg_codec of
        Some p \<Rightarrow> if p = word_of_int (lc_priority_disabled k) then False else cfg_codec = req_codec
      | None \<Rightarrow> cfg_codec = req_codec)"

fun matches_metadata :: "u32 \<Rightarrow> metadata_ltv option list \<Rightarrow> bool" where
  "matches_metadata ctx [] = False"
| "matches_metadata ctx (md # mds) =
     (case md of
        Some (MD_preferredAudioContexts bits) \<Rightarrow> if ctx AND bits \<noteq> 0 then True else matches_metadata ctx mds
      | _ \<Rightarrow> matches_metadata ctx mds)"

definition isCapabilitiesMatchedContext :: "u32 \<Rightarrow> le_device_capabilities \<Rightarrow> bool" where
  "isCapabilitiesMatchedContext ctx cap =
     (case dc_metadata cap of None \<Rightarrow> True | Some mds \<Rightarrow> matches_metadata ctx mds)"

definition isMatchedSamplingFreq :: "le_consts \<Rightarrow> sampling_frequency \<Rightarrow> u32 \<Rightarrow> bool" where
  "isMatchedSamplingFreq k freq bits =
     (List.member freq_to_support_bitmask_map freq \<and> bits AND lc_freq_bit k freq \<noteq> 0)"

definition isMatchedFrameDuration :: "le_consts \<Rightarrow> frame_duration \<Rightarrow> u32 \<Rightarrow> bool" where
  "isMatchedFrameDuration k fd bits =
     (List.member fduration_to_support_fduration_map fd \<and> bits AND lc_duration_bit k fd \<noteq> 0)"

definition isMatchedAudioChannel :: "int \<Rightarrow> u32 \<Rightarrow> bool" where
  "isMatchedAudioChannel cfg cap = True"

definition isMatchedCodecFramesPerSDU :: "int \<Rightarrow> int \<Rightarrow> bool" where
  "isMatchedCodecFramesPerSDU cfg cap = (cfg \<le> cap)"

definition isMatchedOctetsPerCodecFrame :: "int \<Rightarrow> int \<Rightarrow> int \<Rightarrow> bool" where
  "isMatchedOctetsPerCodecFrame cfg mn mx = (cfg \<ge> mn \<and> cfg \<le> mx)"

text \<open>The map from tags to configurations: a later entry replaces an earlier one of its tag.\<close>

definition cfg_tag_map :: "cfg_ltv list \<Rightarrow> cfg_tag \<rightharpoonup> cfg_ltv" where
  "cfg_tag_map cfgs = foldl (\<lambda>m c. m(cfg_getTag c \<mapsto> c)) Map.empty cfgs"

text \<open>One capability against the configuration found for it; the tags agree by construction of the map.\<close>

fun matches_capability :: "le_consts \<Rightarrow> cap_ltv \<Rightarrow> cfg_ltv \<Rightarrow> bool" where
  "matches_capability k (Cap_supportedSamplingFrequencies b) (Cfg_samplingFrequency f) = isMatchedSamplingFreq k f b"
| "matches_capability k (Cap_supportedFrameDurations b) (Cfg_frameDuration d) = isMatchedFrameDuration k d b"
| "matches_capability k (Cap_supportedAudioChannelCounts b) (Cfg_audioChannelAllocation a) = isMatchedAudioChannel a b"
| "matches_capability k (Cap_supportedMaxCodecFramesPerSDU n) (Cfg_codecFrameBlocksPerSDU b) = isMatchedCodecFramesPerSDU b n"
| "matches_capability k (Cap_supportedOctetsPerCodecFrame mn mx) (Cfg_octetsPerCodecFrame x) = isMatchedOctetsPerCodecFrame x mn mx"
| "matches_capability k _ _ = False"

fun match_capabilities :: "le_consts \<Rightarrow> (cfg_tag \<rightharpoonup> cfg_ltv) \<Rightarrow> cap_ltv list \<Rightarrow> bool" where
  "match_capabilities k m [] = True"
| "match_capabilities k m (cap # caps) =
     (case m (cap_to_cfg_tag_map cap) of
        None \<Rightarrow> False
      | Some cfg \<Rightarrow> if \<not> matches_capability k cap cfg then False else match_capabilities k m caps)"

definition isCapabilitiesMatchedCodecConfiguration :: "le_consts \<Rightarrow> cfg_ltv list \<Rightarrow> cap_ltv list \<Rightarrow> bool" where
  "isCapabilitiesMatchedCodecConfiguration k cfgs caps = match_capabilities k (cfg_tag_map cfgs) caps"

fun match_requirements :: "(cfg_tag \<rightharpoonup> cfg_ltv) \<Rightarrow> cfg_ltv list \<Rightarrow> bool" where
  "match_requirements m [] = True"
| "match_requirements m (r # rs) =
     (case m (cfg_getTag r) of
        None \<Rightarrow> False
      | Some cfg \<Rightarrow> if cfg \<noteq> r then False else match_requirements m rs)"

definition isMatchedAseConfiguration ::
  "le_consts \<Rightarrow> priorities \<Rightarrow> ase_configuration \<Rightarrow> ase_configuration \<Rightarrow> bool" where
  "isMatchedAseConfiguration k prio setting req =
     (if (case ase_codecId req of
            None \<Rightarrow> False
          | Some rc \<Rightarrow> (case ase_codecId setting of None \<Rightarrow> True | Some sc \<Rightarrow> \<not> isMatchedValidCodec k prio sc rc))
      then False
      else if ase_targetLatency setting \<noteq> ase_targetLatency req then False
      else match_requirements (cfg_tag_map (ase_codecConfiguration setting)) (ase_codecConfiguration req))"

definition capability_admits ::
  "le_consts \<Rightarrow> priorities \<Rightarrow> le_device_capabilities \<Rightarrow> direction_configuration option \<Rightarrow> bool" where
  "capability_admits k prio cap dc =
     (case dc of
        None \<Rightarrow> False
      | Some d \<Rightarrow>
          (case ase_codecId (dir_aseConfiguration d) of
             None \<Rightarrow> False
           | Some c \<Rightarrow> isMatchedValidCodec k prio c (dc_codecId cap) \<and>
               isCapabilitiesMatchedCodecConfiguration k (ase_codecConfiguration (dir_aseConfiguration d))
                 (dc_codecSpecificCapabilities cap)))"

definition filterCapabilitiesAseDirectionConfiguration ::
  "le_consts \<Rightarrow> priorities \<Rightarrow> directions \<Rightarrow> le_device_capabilities \<Rightarrow> directions" where
  "filterCapabilitiesAseDirectionConfiguration k prio dirs cap = filter (capability_admits k prio cap) dirs"

definition requirement_admits ::
  "le_consts \<Rightarrow> priorities \<Rightarrow> ase_configuration option list \<Rightarrow> direction_configuration option \<Rightarrow> bool" where
  "requirement_admits k prio reqs dc =
     (case dc of
        None \<Rightarrow> False
      | Some d \<Rightarrow> list_ex (\<lambda>r. case r of None \<Rightarrow> False
            | Some rq \<Rightarrow> isMatchedAseConfiguration k prio (dir_aseConfiguration d) rq) reqs)"

definition filterRequirementAseDirectionConfiguration ::
  "le_consts \<Rightarrow> priorities \<Rightarrow> directions \<Rightarrow> ase_configuration option list option \<Rightarrow> directions" where
  "filterRequirementAseDirectionConfiguration k prio dirs requirements =
     (case requirements of None \<Rightarrow> dirs | Some reqs \<Rightarrow> filter (requirement_admits k prio reqs) dirs)"

section \<open>ASE configurations\<close>

datatype le_direction = Sink | Source

definition new_setting :: "ase_setting \<Rightarrow> le_direction \<Rightarrow> directions \<Rightarrow> ase_setting" where
  "new_setting setting dir dirs =
     \<lparr>set_audioContext = set_audioContext setting, set_packing = set_packing setting,
      set_sinkAseConfiguration = (case dir of Sink \<Rightarrow> Some dirs | Source \<Rightarrow> None),
      set_sourceAseConfiguration = (case dir of Sink \<Rightarrow> None | Source \<Rightarrow> Some dirs),
      set_flags = set_flags setting\<rparr>"

definition direction_of :: "ase_setting \<Rightarrow> le_direction \<Rightarrow> directions option" where
  "direction_of setting dir =
     (case dir of Sink \<Rightarrow> set_sinkAseConfiguration setting | Source \<Rightarrow> set_sourceAseConfiguration setting)"

definition getCapabilitiesMatchedAseConfigurationSettings ::
  "le_consts \<Rightarrow> priorities \<Rightarrow> ase_setting \<Rightarrow> le_device_capabilities \<Rightarrow> le_direction \<Rightarrow> ase_setting option" where
  "getCapabilitiesMatchedAseConfigurationSettings k prio setting cap dir =
     (if \<not> isCapabilitiesMatchedContext (set_audioContext setting) cap then None
      else case direction_of setting dir of
          None \<Rightarrow> None
        | Some dirs \<Rightarrow>
            let valid = filterCapabilitiesAseDirectionConfiguration k prio dirs cap in
            if valid = [] then None else Some (new_setting setting dir valid))"

definition getRequirementMatchedAseConfigurationSettings ::
  "le_consts \<Rightarrow> priorities \<Rightarrow> ase_setting \<Rightarrow> ase_requirement \<Rightarrow> ase_setting option ub" where
  "getRequirementMatchedAseConfigurationSettings k prio setting req =
     (if set_audioContext setting \<noteq> req_audioContext req then Some None
      else
        let dir = (if set_sinkAseConfiguration setting \<noteq> None then Sink else Source);
            reqs = (case dir of Sink \<Rightarrow> req_sinkAseRequirement req | Source \<Rightarrow> req_sourceAseRequirement req)
        in do {
          dirs \<leftarrow> direction_of setting dir;
          let valid = filterRequirementAseDirectionConfiguration k prio dirs reqs;
          Some (if valid = [] then None else Some (new_setting setting dir valid))
        })"

fun match_remote ::
  "le_consts \<Rightarrow> priorities \<Rightarrow> le_direction \<Rightarrow> le_device_capabilities option list option \<Rightarrow> ase_setting list \<Rightarrow>
   ase_setting list ub" where
  "match_remote k prio dir remote [] = Some []"
| "match_remote k prio dir remote (s # ss) =
     do {
       caps \<leftarrow> remote;
       rest \<leftarrow> match_remote k prio dir remote ss;
       Some (List.map_filter (\<lambda>c. Option.bind c (\<lambda>cap.
           getCapabilitiesMatchedAseConfigurationSettings k prio s cap dir)) caps @ rest)
     }"

fun match_one_setting ::
  "le_consts \<Rightarrow> priorities \<Rightarrow> ase_setting \<Rightarrow> ase_requirement list \<Rightarrow> ase_setting list ub" where
  "match_one_setting k prio s [] = Some []"
| "match_one_setting k prio s (r # rs) =
     do {
       x \<leftarrow> getRequirementMatchedAseConfigurationSettings k prio s r;
       rest \<leftarrow> match_one_setting k prio s rs;
       Some ((case x of None \<Rightarrow> [] | Some s' \<Rightarrow> [s']) @ rest)
     }"

fun match_required ::
  "le_consts \<Rightarrow> priorities \<Rightarrow> ase_requirement list \<Rightarrow> ase_setting list \<Rightarrow> ase_setting list ub" where
  "match_required k prio reqs [] = Some []"
| "match_required k prio reqs (s # ss) =
     do {
       xs \<leftarrow> match_one_setting k prio s reqs;
       ys \<leftarrow> match_required k prio reqs ss;
       Some (xs @ ys)
     }"

text \<open>\<open>settings\<close> are those \<open>BluetoothAudioCodecs::GetLeAudioAseConfigurationSettings\<close> returns.\<close>

definition getLeAudioAseConfiguration ::
  "le_consts \<Rightarrow> priorities \<Rightarrow> ase_setting list \<Rightarrow> le_device_capabilities option list option \<Rightarrow>
   le_device_capabilities option list option \<Rightarrow> ase_requirement list \<Rightarrow> ase_setting list ub" where
  "getLeAudioAseConfiguration k prio settings sink source requirements =
     (let (dir, remote) = (if sink \<noteq> None then (Sink, sink) else (Source, source)) in
      do {
        matched \<leftarrow> match_remote k prio dir remote settings;
        match_required k prio requirements matched
      })"

section \<open>Quality of service\<close>

definition isMatchedQosRequirement :: "qos_configuration \<Rightarrow> qos_direction_requirement \<Rightarrow> bool" where
  "isMatchedQosRequirement setting req =
     (if qos_retransmissionNum setting \<noteq> qr_preferredRetransmissionNum req then False
      else if qos_maxTransportLatencyMs setting > qr_maxTransportLatencyMs req then False
      else True)"

definition qos_result :: "le_direction \<Rightarrow> qos_configuration option \<Rightarrow> qos_pair" where
  "qos_result dir q = \<lparr>qp_sinkQosConfiguration = (case dir of Sink \<Rightarrow> q | Source \<Rightarrow> None),
     qp_sourceQosConfiguration = (case dir of Sink \<Rightarrow> None | Source \<Rightarrow> q)\<rparr>"

text \<open>The first configuration of a direction that decides; \<^const>\<open>None\<close> to go on with the next setting.\<close>

fun qos_in_directions ::
  "le_consts \<Rightarrow> priorities \<Rightarrow> le_direction \<Rightarrow> qos_direction_requirement option \<Rightarrow> directions \<Rightarrow> qos_pair option" where
  "qos_in_directions k prio dir req [] = None"
| "qos_in_directions k prio dir req (dc # dcs) =
     (case dc of
        None \<Rightarrow> qos_in_directions k prio dir req dcs
      | Some d \<Rightarrow>
          (case req of
             None \<Rightarrow> Some \<lparr>qp_sinkQosConfiguration = dir_qosConfiguration d,
                           qp_sourceQosConfiguration = dir_qosConfiguration d\<rparr>
           | Some r \<Rightarrow>
               (case dir_qosConfiguration d of
                  None \<Rightarrow> qos_in_directions k prio dir req dcs
                | Some q \<Rightarrow>
                    if isMatchedAseConfiguration k prio (dir_aseConfiguration d) (qr_aseConfiguration r) \<and>
                       isMatchedQosRequirement q r
                    then Some (qos_result dir (Some q))
                    else qos_in_directions k prio dir req dcs)))"

fun qos_in_settings ::
  "le_consts \<Rightarrow> priorities \<Rightarrow> le_direction \<Rightarrow> qos_direction_requirement option \<Rightarrow> u32 \<Rightarrow> ase_setting list \<Rightarrow> qos_pair option" where
  "qos_in_settings k prio dir req ctx [] = None"
| "qos_in_settings k prio dir req ctx (s # ss) =
     (if set_audioContext s \<noteq> ctx then qos_in_settings k prio dir req ctx ss
      else case direction_of s dir of
          None \<Rightarrow> qos_in_settings k prio dir req ctx ss
        | Some dirs \<Rightarrow>
            (case qos_in_directions k prio dir req dirs of
               Some r \<Rightarrow> Some r
             | None \<Rightarrow> qos_in_settings k prio dir req ctx ss))"

text \<open>Without a requirement the direction is neither, and the code takes the source configurations.\<close>

definition getLeAudioAseQosConfiguration ::
  "le_consts \<Rightarrow> priorities \<Rightarrow> ase_setting list \<Rightarrow> qos_requirement \<Rightarrow> qos_pair" where
  "getLeAudioAseQosConfiguration k prio settings q =
     (let (dir, req) =
        (case qq_sinkAseQosRequirement q of
           Some r \<Rightarrow> (Sink, Some r)
         | None \<Rightarrow> (Source, qq_sourceAseQosRequirement q))
      in case qos_in_settings k prio dir req (qq_audioContext q) settings of
           Some r \<Rightarrow> r
         | None \<Rightarrow> \<lparr>qp_sinkQosConfiguration = None, qp_sourceQosConfiguration = None\<rparr>)"

section \<open>Broadcast\<close>

text \<open>The LE audio alternative of the transport of a codec information; other transports are \<^const>\<open>None\<close>.\<close>

record le_transport =
  lt_samplingFrequencyHz :: "int list"
  lt_bitdepth :: "int list"
  lt_frameDurationUs :: "int list"
  lt_channelMode :: "channel_mode list"

record le_codec_info =
  li_name :: string
  li_id :: codec_id
  li_transport :: "le_transport option"

record bis_configuration =
  bis_codecId :: codec_id
  bis_codecConfiguration :: "cfg_ltv list"

record subgroup_bis =
  sb_numBis :: int
  sb_bisConfiguration :: bis_configuration

record broadcast_setting =
  bc_numBis :: int
  bc_subgroupsConfigurations :: "subgroup_bis list list"
  bc_other :: nat

text \<open>An absent key of the two maps yields the value-initialised enumerator.\<close>

definition sampling_freq_map :: "int \<Rightarrow> sampling_frequency" where
  "sampling_freq_map hz =
     (if hz = 16000 then HZ16000 else if hz = 48000 then HZ48000 else if hz = 96000 then HZ96000 else SF_unset)"

definition frame_duration_map :: "int \<Rightarrow> frame_duration" where
  "frame_duration_map us = (if us = 7500 then US7500 else if us = 10000 then US10000 else FD_unset)"

definition first :: "'a list \<Rightarrow> 'a ub" where
  "first xs = (case xs of [] \<Rightarrow> None | x # _ \<Rightarrow> Some x)"

definition broadcast_setting_of :: "le_consts \<Rightarrow> codec_id \<Rightarrow> le_transport \<Rightarrow> broadcast_setting ub" where
  "broadcast_setting_of k codec t =
     do {
       bits \<leftarrow> first (lt_bitdepth t);
       hz \<leftarrow> first (lt_samplingFrequencyHz t);
       us \<leftarrow> first (lt_frameDurationUs t);
       let bis = \<lparr>bis_codecId = codec, bis_codecConfiguration =
         [Cfg_samplingFrequency (sampling_freq_map hz), Cfg_octetsPerCodecFrame bits,
          Cfg_frameDuration (frame_duration_map us), Cfg_audioChannelAllocation (lc_front_center k)]\<rparr>;
       Some \<lparr>bc_numBis = 1, bc_subgroupsConfigurations = [[\<lparr>sb_numBis = 1, sb_bisConfiguration = bis\<rparr>]], bc_other = 0\<rparr>
     }"

fun load_broadcast :: "le_consts \<Rightarrow> le_codec_info list \<Rightarrow> broadcast_setting list ub" where
  "load_broadcast k [] = Some []"
| "load_broadcast k (i # is) =
     (case li_transport i of
        None \<Rightarrow> load_broadcast k is
      | Some t \<Rightarrow> do { s \<leftarrow> broadcast_setting_of k (li_id i) t; ss \<leftarrow> load_broadcast k is; Some (s # ss) })"

text \<open>\<open>db\<close> is what \<open>BluetoothAudioCodecs::GetLeAudioOffloadCodecInfo\<close> returns for the broadcast session.\<close>

definition getBroadcastSettings ::
  "le_consts \<Rightarrow> le_codec_info list \<Rightarrow> broadcast_setting list \<Rightarrow> broadcast_setting list ub" where
  "getBroadcastSettings k db broadcast_settings =
     (if broadcast_settings \<noteq> [] then Some broadcast_settings else load_broadcast k db)"

definition isMatchedBISConfiguration ::
  "le_consts \<Rightarrow> priorities \<Rightarrow> bis_configuration \<Rightarrow> le_device_capabilities \<Rightarrow> bool" where
  "isMatchedBISConfiguration k prio bis cap =
     (if \<not> isMatchedValidCodec k prio (bis_codecId bis) (dc_codecId cap) then False
      else if \<not> isCapabilitiesMatchedCodecConfiguration k (bis_codecConfiguration bis) (dc_codecSpecificCapabilities cap)
      then False else True)"

definition getCapabilitiesMatchedBroadcastConfigurationSettings ::
  "le_consts \<Rightarrow> priorities \<Rightarrow> broadcast_setting \<Rightarrow> le_device_capabilities \<Rightarrow> broadcast_setting option" where
  "getCapabilitiesMatchedBroadcastConfigurationSettings k prio setting cap =
     (let subgroups = filter (\<lambda>g. g \<noteq> [])
        (map (filter (\<lambda>b. isMatchedBISConfiguration k prio (sb_bisConfiguration b) cap))
          (bc_subgroupsConfigurations setting))
      in if subgroups = [] then None else Some (setting\<lparr>bc_subgroupsConfigurations := subgroups\<rparr>))"

text \<open>
  \<open>bis_nums\<close> are the numbers of BIS the subgroup requirements ask for. The output parameter is set to
  null at the start, so the two places that store a result write through a null pointer; the result
  of a call that returns is therefore only the settings loaded.
\<close>

fun first_required :: "int list \<Rightarrow> broadcast_setting list \<Rightarrow> broadcast_setting option" where
  "first_required bis_nums [] = None"
| "first_required bis_nums (s # ss) =
     (let subgroups = filter (\<lambda>g. list_ex (\<lambda>n. n = int (length g)) bis_nums) (bc_subgroupsConfigurations s) in
      if subgroups \<noteq> [] then Some (s\<lparr>bc_subgroupsConfigurations := subgroups\<rparr>) else first_required bis_nums ss)"

definition match_broadcast ::
  "le_consts \<Rightarrow> priorities \<Rightarrow> le_device_capabilities option list \<Rightarrow> broadcast_setting list \<Rightarrow> broadcast_setting list" where
  "match_broadcast k prio caps loaded =
     concat (map (\<lambda>s. List.map_filter (\<lambda>c. Option.bind c (\<lambda>cap.
       getCapabilitiesMatchedBroadcastConfigurationSettings k prio s cap)) caps) loaded)"

definition getLeAudioBroadcastConfiguration ::
  "le_consts \<Rightarrow> priorities \<Rightarrow> le_codec_info list \<Rightarrow> le_device_capabilities option list option \<Rightarrow> int list \<Rightarrow>
   broadcast_setting list \<Rightarrow> broadcast_setting list ub" where
  "getLeAudioBroadcastConfiguration k prio db remote bis_nums loaded =
     do {
       loaded \<leftarrow> getBroadcastSettings k db loaded;
       case remote of
         None \<Rightarrow> Some loaded
       | Some caps \<Rightarrow>
           let filtered = match_broadcast k prio caps loaded in
           if filtered = [] then Some loaded
              else if bis_nums = [] then None
              else case first_required bis_nums filtered of
                  Some _ \<Rightarrow> None
                | None \<Rightarrow> Some loaded
     }"

section \<open>What matching means\<close>

lemma cfg_tag_map_snoc: "cfg_tag_map (cfgs @ [c]) = (cfg_tag_map cfgs)(cfg_getTag c \<mapsto> c)"
  by (simp add: cfg_tag_map_def)

lemma cfg_tag_map_Some:
  "cfg_tag_map cfgs t = Some c \<Longrightarrow> cfg_getTag c = t \<and> c \<in> set cfgs"
proof (induction cfgs rule: rev_induct)
  case Nil
  then show ?case by (simp add: cfg_tag_map_def)
next
  case (snoc x xs)
  then show ?case by (auto simp: cfg_tag_map_snoc split: if_splits)
qed

text \<open>The last entry of a tag decides.\<close>

lemma cfg_tag_map_last:
  "cfg_tag_map cfgs t = Some c \<longleftrightarrow>
     (\<exists>xs ys. cfgs = xs @ c # ys \<and> cfg_getTag c = t \<and> (\<forall>y \<in> set ys. cfg_getTag y \<noteq> t))"
proof (induction cfgs rule: rev_induct)
  case Nil
  then show ?case by (simp add: cfg_tag_map_def)
next
  case (snoc x zs)
  show ?case
  proof (cases "cfg_getTag x = t")
    case True
    have "x = c" if "zs @ [x] = xs @ c # ys" "\<forall>y \<in> set ys. cfg_getTag y \<noteq> t" for xs ys
      using that True by (cases ys rule: rev_cases) auto
    moreover have "\<exists>xs ys. zs @ [x] = xs @ x # ys \<and> (\<forall>y \<in> set ys. cfg_getTag y \<noteq> t)"
      by (intro exI [of _ zs] exI [of _ "[]"]) simp
    ultimately show ?thesis using True by (auto simp: cfg_tag_map_snoc)
  next
    case False
    show ?thesis (is "?l \<longleftrightarrow> ?r")
    proof
      assume ?l
      then obtain xs ys where "zs = xs @ c # ys" "cfg_getTag c = t" "\<forall>y \<in> set ys. cfg_getTag y \<noteq> t"
        using False snoc.IH by (auto simp: cfg_tag_map_snoc)
      then show ?r using False by (intro exI [of _ xs] exI [of _ "ys @ [x]"]) auto
    next
      assume ?r
      then obtain xs ys where c: "zs @ [x] = xs @ c # ys" "cfg_getTag c = t" "\<forall>y \<in> set ys. cfg_getTag y \<noteq> t"
        by blast
      then obtain ys' where "ys = ys' @ [x]" using False by (cases ys rule: rev_cases) auto
      then have "cfg_tag_map zs t = Some c" using c unfolding snoc.IH by (intro exI [of _ xs] exI [of _ ys']) auto
      then show ?l using False by (simp add: cfg_tag_map_snoc)
    qed
  qed
qed

lemma match_capabilities_iff:
  "match_capabilities k m caps \<longleftrightarrow>
     (\<forall>cap \<in> set caps. \<exists>cfg. m (cap_to_cfg_tag_map cap) = Some cfg \<and> matches_capability k cap cfg)"
  by (induction caps) (auto split: option.splits)

lemma match_requirements_iff:
  "match_requirements m rs \<longleftrightarrow> (\<forall>r \<in> set rs. m (cfg_getTag r) = Some r)"
  by (induction rs) (auto split: option.splits)

lemma matches_metadata_iff:
  "matches_metadata ctx mds \<longleftrightarrow> (\<exists>bits. Some (MD_preferredAudioContexts bits) \<in> set mds \<and> ctx AND bits \<noteq> 0)"
proof (induction mds)
  case (Cons md mds)
  then show ?case
  proof (cases md)
    case (Some m)
    then show ?thesis using Cons by (cases m) auto
  qed auto
qed simp

definition enabled :: "le_consts \<Rightarrow> priorities \<Rightarrow> codec_id \<Rightarrow> bool" where
  "enabled k prio c \<longleftrightarrow> map_of prio c \<noteq> Some (word_of_int (lc_priority_disabled k))"

lemma isMatchedValidCodec_iff: "isMatchedValidCodec k prio c r \<longleftrightarrow> c = r \<and> enabled k prio c"
  by (auto simp: isMatchedValidCodec_def enabled_def split: option.splits)

lemma capability_admits_iff:
  "capability_admits k prio cap dc \<longleftrightarrow>
     (\<exists>d. dc = Some d \<and> ase_codecId (dir_aseConfiguration d) = Some (dc_codecId cap) \<and>
        enabled k prio (dc_codecId cap) \<and>
        (\<forall>c \<in> set (dc_codecSpecificCapabilities cap). \<exists>cfg.
           cfg_tag_map (ase_codecConfiguration (dir_aseConfiguration d)) (cap_to_cfg_tag_map c) = Some cfg \<and>
           matches_capability k c cfg))"
  by (auto simp: capability_admits_def isMatchedValidCodec_iff isCapabilitiesMatchedCodecConfiguration_def
      match_capabilities_iff split: option.splits)

lemma isMatchedAseConfiguration_iff:
  "isMatchedAseConfiguration k prio s r \<longleftrightarrow>
     (\<forall>c. ase_codecId r = Some c \<longrightarrow> ase_codecId s = Some c \<and> enabled k prio c) \<and>
     ase_targetLatency s = ase_targetLatency r \<and>
     (\<forall>c \<in> set (ase_codecConfiguration r). cfg_tag_map (ase_codecConfiguration s) (cfg_getTag c) = Some c)"
  by (auto simp: isMatchedAseConfiguration_def match_requirements_iff isMatchedValidCodec_iff split: option.splits)

section \<open>ASE configurations\<close>

definition requirement_of :: "ase_requirement \<Rightarrow> le_direction \<Rightarrow> ase_configuration option list option" where
  "requirement_of req dir = (case dir of Sink \<Rightarrow> req_sinkAseRequirement req | Source \<Rightarrow> req_sourceAseRequirement req)"

lemma direction_of_new: "direction_of (new_setting s dir dirs) dir' = (if dir' = dir then Some dirs else None)"
  by (cases dir; cases dir') (simp_all add: direction_of_def new_setting_def)

lemma new_setting_direction: "set_sinkAseConfiguration (new_setting s dir dirs) \<noteq> None \<longleftrightarrow> dir = Sink"
  by (cases dir) (simp_all add: new_setting_def)

lemma new_setting_twice [simp]: "new_setting (new_setting s dir dirs) dir dirs' = new_setting s dir dirs'"
  by (simp add: new_setting_def)

lemma new_setting_context [simp]: "set_audioContext (new_setting s dir dirs) = set_audioContext s"
  by (simp add: new_setting_def)

lemma getCapabilitiesMatched_Some:
  "getCapabilitiesMatchedAseConfigurationSettings k prio s c dir = Some y \<longleftrightarrow>
      isCapabilitiesMatchedContext (set_audioContext s) c \<and> (\<exists>dirs. direction_of s dir = Some dirs \<and>
        filterCapabilitiesAseDirectionConfiguration k prio dirs c \<noteq> [] \<and>
        y = new_setting s dir (filterCapabilitiesAseDirectionConfiguration k prio dirs c))"
  by (auto simp: getCapabilitiesMatchedAseConfigurationSettings_def Let_def split: option.splits)

lemma match_remote_set:
  assumes "match_remote k prio dir (Some caps) ss = Some out"
  shows "x \<in> set out \<longleftrightarrow> (\<exists>s \<in> set ss. \<exists>cap. Some cap \<in> set caps \<and>
     getCapabilitiesMatchedAseConfigurationSettings k prio s cap dir = Some x)"
  using assms
proof (induction ss arbitrary: out)
  case (Cons s ss)
  then obtain rest where r: "match_remote k prio dir (Some caps) ss = Some rest"
    and o: "out = List.map_filter (\<lambda>c. Option.bind c (\<lambda>cap.
       getCapabilitiesMatchedAseConfigurationSettings k prio s cap dir)) caps @ rest" by (auto elim!: bind_SomeE)
  have "x \<in> set (List.map_filter f caps) \<longleftrightarrow> (\<exists>c \<in> set caps. f c = Some x)"
    for f :: "le_device_capabilities option \<Rightarrow> ase_setting option"
    by (force simp: List.map_filter_def)
  then show ?case using Cons.IH [OF r] unfolding o by (auto simp: bind_eq_Some_conv)
qed simp

lemma match_remote_defined: "\<exists>out. match_remote k prio dir (Some caps) ss = Some out"
  by (induction ss) auto

text \<open>After the first phase every setting has the direction, so the second never reads an empty optional.\<close>

lemma getRequirement_new:
  "getRequirementMatchedAseConfigurationSettings k prio (new_setting s dir dirs) req =
     Some (if set_audioContext s \<noteq> req_audioContext req then None
       else let valid = filterRequirementAseDirectionConfiguration k prio dirs (requirement_of req dir) in
            if valid = [] then None else Some (new_setting s dir valid))"
proof -
  have "(if set_sinkAseConfiguration (new_setting s dir dirs) \<noteq> None then Sink else Source) = dir"
    using new_setting_direction [of s dir dirs] by (cases dir) auto
  then show ?thesis
    unfolding getRequirementMatchedAseConfigurationSettings_def
    by (simp add: direction_of_new requirement_of_def Let_def)
qed

lemma match_one_new:
  "\<exists>out. match_one_setting k prio (new_setting s dir dirs) reqs = Some out \<and>
     (\<forall>x. x \<in> set out \<longleftrightarrow> (\<exists>req \<in> set reqs. set_audioContext s = req_audioContext req \<and>
        filterRequirementAseDirectionConfiguration k prio dirs (requirement_of req dir) \<noteq> [] \<and>
        x = new_setting s dir (filterRequirementAseDirectionConfiguration k prio dirs (requirement_of req dir))))"
proof (induction reqs)
  case (Cons r reqs)
  then obtain out where o: "match_one_setting k prio (new_setting s dir dirs) reqs = Some out"
    "\<forall>x. x \<in> set out \<longleftrightarrow> (\<exists>req \<in> set reqs. set_audioContext s = req_audioContext req \<and>
        filterRequirementAseDirectionConfiguration k prio dirs (requirement_of req dir) \<noteq> [] \<and>
        x = new_setting s dir (filterRequirementAseDirectionConfiguration k prio dirs (requirement_of req dir)))"
    by blast
  let ?first = "case (if set_audioContext s \<noteq> req_audioContext r then None
       else let valid = filterRequirementAseDirectionConfiguration k prio dirs (requirement_of r dir) in
            if valid = [] then None else Some (new_setting s dir valid)) of None \<Rightarrow> [] | Some x \<Rightarrow> [x]"
  have "match_one_setting k prio (new_setting s dir dirs) (r # reqs) = Some (?first @ out)"
    using o(1) by (simp add: getRequirement_new)
  then show ?case using o(2) by (intro exI [of _ "?first @ out"]) (auto simp: Let_def split: option.splits if_splits)
qed simp

lemma match_required_new:
  assumes "\<forall>x \<in> set ss. \<exists>s dirs. x = new_setting s dir dirs"
  shows "\<exists>out. match_required k prio reqs ss = Some out \<and>
     (\<forall>x. x \<in> set out \<longleftrightarrow> (\<exists>y \<in> set ss. \<exists>ys. match_one_setting k prio y reqs = Some ys \<and> x \<in> set ys))"
  using assms
proof (induction ss)
  case (Cons s ss)
  obtain out where "match_required k prio reqs ss = Some out"
    "\<forall>x. x \<in> set out \<longleftrightarrow> (\<exists>y \<in> set ss. \<exists>ys. match_one_setting k prio y reqs = Some ys \<and> x \<in> set ys)"
    using Cons by auto
  moreover obtain ys where "match_one_setting k prio s reqs = Some ys"
    using Cons.prems match_one_new by (metis list.set_intros(1))
  ultimately show ?case by auto
qed simp

definition admitted ::
  "le_consts \<Rightarrow> priorities \<Rightarrow> le_device_capabilities \<Rightarrow> ase_configuration option list option \<Rightarrow>
   direction_configuration option \<Rightarrow> bool" where
  "admitted k prio cap reqs dc \<longleftrightarrow> capability_admits k prio cap dc \<and>
     (case reqs of None \<Rightarrow> True | Some rs \<Rightarrow> requirement_admits k prio rs dc)"

lemma filter_both:
  "filterRequirementAseDirectionConfiguration k prio (filterCapabilitiesAseDirectionConfiguration k prio dirs cap) reqs
     = filter (admitted k prio cap reqs) dirs"
  by (cases reqs) (auto simp: filterRequirementAseDirectionConfiguration_def
      filterCapabilitiesAseDirectionConfiguration_def admitted_def fun_eq_iff intro!: filter_cong)

section \<open>Quality of service and broadcast\<close>

definition qos_matches ::
  "le_consts \<Rightarrow> priorities \<Rightarrow> qos_direction_requirement \<Rightarrow> direction_configuration option \<Rightarrow> qos_configuration \<Rightarrow> bool" where
  "qos_matches k prio r dc q \<longleftrightarrow> (\<exists>d. dc = Some d \<and> dir_qosConfiguration d = Some q \<and>
     isMatchedAseConfiguration k prio (dir_aseConfiguration d) (qr_aseConfiguration r) \<and>
     qos_retransmissionNum q = qr_preferredRetransmissionNum r \<and>
     qos_maxTransportLatencyMs q \<le> qr_maxTransportLatencyMs r)"

lemma isMatchedQosRequirement_iff:
  "isMatchedQosRequirement q r \<longleftrightarrow> qos_retransmissionNum q = qr_preferredRetransmissionNum r \<and>
     qos_maxTransportLatencyMs q \<le> qr_maxTransportLatencyMs r"
  by (auto simp: isMatchedQosRequirement_def)

lemma qos_in_directions_Some:
  "qos_in_directions k prio dir (Some r) dcs = Some p \<Longrightarrow>
   \<exists>dc \<in> set dcs. \<exists>q. qos_matches k prio r dc q \<and> p = qos_result dir (Some q)"
  by (induction dcs) (auto simp: qos_matches_def isMatchedQosRequirement_iff split: option.splits if_splits)

lemma qos_in_directions_None:
  "qos_in_directions k prio dir (Some r) dcs = None \<longleftrightarrow> (\<forall>dc \<in> set dcs. \<forall>q. \<not> qos_matches k prio r dc q)"
  by (induction dcs) (auto simp: qos_matches_def isMatchedQosRequirement_iff split: option.splits if_splits)

definition qos_offered ::
  "le_consts \<Rightarrow> priorities \<Rightarrow> le_direction \<Rightarrow> qos_direction_requirement \<Rightarrow> u32 \<Rightarrow> ase_setting list \<Rightarrow> qos_configuration \<Rightarrow> bool" where
  "qos_offered k prio dir r ctx ss q \<longleftrightarrow> (\<exists>s \<in> set ss. set_audioContext s = ctx \<and>
     (\<exists>dirs. direction_of s dir = Some dirs \<and> (\<exists>dc \<in> set dirs. qos_matches k prio r dc q)))"

lemma qos_offered_Cons:
  "qos_offered k prio dir r ctx (s # ss) q \<longleftrightarrow> (set_audioContext s = ctx \<and>
     (\<exists>dirs. direction_of s dir = Some dirs \<and> (\<exists>dc \<in> set dirs. qos_matches k prio r dc q))) \<or>
   qos_offered k prio dir r ctx ss q"
  by (auto simp: qos_offered_def)

lemma qos_in_settings_Some:
  "qos_in_settings k prio dir (Some r) ctx ss = Some p \<Longrightarrow>
   \<exists>q. qos_offered k prio dir r ctx ss q \<and> p = qos_result dir (Some q)"
proof (induction ss)
  case (Cons s ss)
  show ?case
  proof (cases "qos_in_settings k prio dir (Some r) ctx ss = Some p")
    case True
    then show ?thesis using Cons.IH unfolding qos_offered_Cons by blast
  next
    case False
    then obtain dirs where "set_audioContext s = ctx" "direction_of s dir = Some dirs"
      "qos_in_directions k prio dir (Some r) dirs = Some p"
      using Cons.prems by (auto split: if_splits option.splits)
    then show ?thesis using qos_in_directions_Some [of k prio dir r dirs p] unfolding qos_offered_Cons by blast
  qed
qed simp

lemma qos_in_settings_None:
  "qos_in_settings k prio dir (Some r) ctx ss = None \<longleftrightarrow> (\<forall>q. \<not> qos_offered k prio dir r ctx ss q)"
proof (induction ss)
  case (Cons s ss)
  then show ?case
    unfolding qos_offered_Cons by (auto simp: qos_in_directions_None split: option.splits)
      (blast dest: qos_in_directions_Some)
qed (simp add: qos_offered_def)

section \<open>Properties\<close>

text \<open>What both filters together leave.\<close>

lemma matched_settings_iff:
  assumes ms: "match_remote k prio dir (Some caps) settings = Some m"
    and o: "\<forall>x. x \<in> set out \<longleftrightarrow> (\<exists>y \<in> set m. \<exists>ys. match_one_setting k prio y reqs = Some ys \<and> x \<in> set ys)"
  shows "x \<in> set out \<longleftrightarrow> (\<exists>s \<in> set settings. \<exists>c. Some c \<in> set caps \<and> (\<exists>req \<in> set reqs. \<exists>dirs.
       isCapabilitiesMatchedContext (set_audioContext s) c \<and> set_audioContext s = req_audioContext req \<and>
       direction_of s dir = Some dirs \<and>
       filter (admitted k prio c (requirement_of req dir)) dirs \<noteq> [] \<and>
       x = new_setting s dir (filter (admitted k prio c (requirement_of req dir)) dirs)))"
    (is "_ \<longleftrightarrow> (\<exists>s \<in> _. \<exists>c. _ \<and> (\<exists>req \<in> _. \<exists>dirs. ?P s c req dirs))")
proof -
  note ms = match_remote_set [OF ms]
  have one: "(\<exists>ys. match_one_setting k prio (new_setting s dir dirs) reqs = Some ys \<and> x \<in> set ys) \<longleftrightarrow>
      (\<exists>req \<in> set reqs. set_audioContext s = req_audioContext req \<and>
        filterRequirementAseDirectionConfiguration k prio dirs (requirement_of req dir) \<noteq> [] \<and>
        x = new_setting s dir (filterRequirementAseDirectionConfiguration k prio dirs (requirement_of req dir)))"
    for s dirs x using match_one_new [of k prio s dir dirs reqs] by auto
  have empty: "filterRequirementAseDirectionConfiguration k prio [] rq = []" for rq
    by (cases rq) (simp_all add: filterRequirementAseDirectionConfiguration_def)
  show ?thesis
  proof
    assume "x \<in> set out"
    then obtain y ys where y: "y \<in> set m" "match_one_setting k prio y reqs = Some ys" "x \<in> set ys" using o by blast
    obtain s c dirs where s: "s \<in> set settings" "Some c \<in> set caps" "isCapabilitiesMatchedContext (set_audioContext s) c"
      "direction_of s dir = Some dirs" "y = new_setting s dir (filterCapabilitiesAseDirectionConfiguration k prio dirs c)"
      using y(1) unfolding ms getCapabilitiesMatched_Some by blast
    then obtain req where "req \<in> set reqs" "set_audioContext s = req_audioContext req"
      "filter (admitted k prio c (requirement_of req dir)) dirs \<noteq> []"
      "x = new_setting s dir (filter (admitted k prio c (requirement_of req dir)) dirs)"
      using y(2,3) one unfolding filter_both [symmetric] by blast
    then show "\<exists>s \<in> set settings. \<exists>c. Some c \<in> set caps \<and> (\<exists>req \<in> set reqs. \<exists>dirs. ?P s c req dirs)"
      using s(1-4) by blast
  next
    assume "\<exists>s \<in> set settings. \<exists>c. Some c \<in> set caps \<and> (\<exists>req \<in> set reqs. \<exists>dirs. ?P s c req dirs)"
    then obtain s c req dirs where s: "s \<in> set settings" "Some c \<in> set caps" "req \<in> set reqs" "?P s c req dirs" by blast
    let ?y = "new_setting s dir (filterCapabilitiesAseDirectionConfiguration k prio dirs c)"
    have "filterCapabilitiesAseDirectionConfiguration k prio dirs c \<noteq> []"
      using s(4) empty [of "requirement_of req dir"] unfolding filter_both [symmetric] by metis
    then have "?y \<in> set m" using s unfolding ms getCapabilitiesMatched_Some by blast
    moreover have "\<exists>ys. match_one_setting k prio ?y reqs = Some ys \<and> x \<in> set ys"
      using s(3,4) unfolding one filter_both by blast
    ultimately show "x \<in> set out" using o by blast
  qed
qed

lemma getLeAudioAseConfiguration_values:
  assumes "(dir, Some caps) = (if sink \<noteq> None then (Sink, sink) else (Source, source))"
  shows "\<exists>result. getLeAudioAseConfiguration k prio settings sink source reqs = Some result \<and>
     (\<forall>x. x \<in> set result \<longleftrightarrow>
        (\<exists>s \<in> set settings. \<exists>cap. Some cap \<in> set caps \<and> (\<exists>req \<in> set reqs. \<exists>dirs.
           isCapabilitiesMatchedContext (set_audioContext s) cap \<and> set_audioContext s = req_audioContext req \<and>
           direction_of s dir = Some dirs \<and>
           filter (admitted k prio cap (requirement_of req dir)) dirs \<noteq> [] \<and>
           x = new_setting s dir (filter (admitted k prio cap (requirement_of req dir)) dirs))))"
proof -
  obtain m where m: "match_remote k prio dir (Some caps) settings = Some m" using match_remote_defined by blast
  note ms = match_remote_set [OF m]
  have new: "\<forall>x \<in> set m. \<exists>s dirs. x = new_setting s dir dirs"
    unfolding Ball_def ms getCapabilitiesMatched_Some by blast
  obtain out where o: "match_required k prio reqs m = Some out"
    "\<forall>x. x \<in> set out \<longleftrightarrow> (\<exists>y \<in> set m. \<exists>ys. match_one_setting k prio y reqs = Some ys \<and> x \<in> set ys)"
    using match_required_new [OF new] by blast
  have r: "getLeAudioAseConfiguration k prio settings sink source reqs = Some out"
    using assms m o(1) by (auto simp: getLeAudioAseConfiguration_def split: if_splits)
  have "x \<in> set out \<longleftrightarrow> (\<exists>s \<in> set settings. \<exists>c. Some c \<in> set caps \<and> (\<exists>req \<in> set reqs. \<exists>dirs.
       isCapabilitiesMatchedContext (set_audioContext s) c \<and> set_audioContext s = req_audioContext req \<and>
       direction_of s dir = Some dirs \<and>
       filter (admitted k prio c (requirement_of req dir)) dirs \<noteq> [] \<and>
       x = new_setting s dir (filter (admitted k prio c (requirement_of req dir)) dirs)))" for x
    by (rule matched_settings_iff [OF m o(2)])
  then show ?thesis using r by blast
qed

text \<open>C14: with the capabilities of the remote device at hand, \<open>getLeAudioAseConfiguration\<close> never reads
  an empty optional, and it returns exactly the settings one gets by choosing a known setting, a
  capability whose preferred contexts meet the setting's, and a requirement for its context, and
  keeping, in the direction asked for, the configurations that the capability and the requirement both
  admit, when there is one.\<close>

theorem getLeAudioAseConfiguration_exact:
  assumes "(dir, Some caps) = (if sink \<noteq> None then (Sink, sink) else (Source, source))"
  shows "\<exists>result. getLeAudioAseConfiguration k prio settings sink source reqs = Some result \<and>
     (\<forall>x. x \<in> set result \<longleftrightarrow>
        (\<exists>s \<in> set settings. \<exists>cap. Some cap \<in> set caps \<and> (\<exists>req \<in> set reqs. \<exists>dirs.
           isCapabilitiesMatchedContext (set_audioContext s) cap \<and> set_audioContext s = req_audioContext req \<and>
           direction_of s dir = Some dirs \<and>
           filter (admitted k prio cap (requirement_of req dir)) dirs \<noteq> [] \<and>
           x = new_setting s dir (filter (admitted k prio cap (requirement_of req dir)) dirs))))"
  by (rule getLeAudioAseConfiguration_values [OF assms])


definition le_unit :: le_consts where
  "le_unit = \<lparr>lc_freq_bit = (\<lambda>f. case f of HZ16000 \<Rightarrow> 0x4 | HZ48000 \<Rightarrow> 0x80 | _ \<Rightarrow> 0), lc_duration_bit = (\<lambda>d. 1),
     lc_front_center = 4, lc_priority_disabled = -1\<rparr>"

definition lc3_48k :: direction_configuration where
  "lc3_48k = \<lparr>dir_aseConfiguration = \<lparr>ase_targetLatency = TL_LOWER, ase_targetPhy = TWO_M, ase_codecId = Some (CodecId_other 3),
     ase_codecConfiguration = [Cfg_samplingFrequency HZ48000, Cfg_octetsPerCodecFrame 100], ase_other = 0\<rparr>,
     dir_qosConfiguration = Some \<lparr>qos_retransmissionNum = 5, qos_maxTransportLatencyMs = 20, qos_other = 0\<rparr>,
     dir_dataPathConfiguration = None\<rparr>"

definition lc3_setting :: ase_setting where
  "lc3_setting = \<lparr>set_audioContext = 4, set_packing = 0, set_sinkAseConfiguration = Some [None, Some lc3_48k],
     set_sourceAseConfiguration = None, set_flags = 0\<rparr>"

definition lc3_capability :: le_device_capabilities where
  "lc3_capability = \<lparr>dc_codecId = (CodecId_other 3), dc_codecSpecificCapabilities = [Cap_supportedSamplingFrequencies 0x84,
     Cap_supportedOctetsPerCodecFrame 40 120], dc_metadata = None\<rparr>"

theorem getLeAudioAseConfiguration_exact_witness:
  "\<exists>result. getLeAudioAseConfiguration le_unit [] [lc3_setting] (Some [Some lc3_capability]) None
       [\<lparr>req_audioContext = 4, req_sinkAseRequirement = None, req_sourceAseRequirement = None\<rparr>] = Some result \<and>
     new_setting lc3_setting Sink [Some lc3_48k] \<in> set result"
proof -
  let ?req = "\<lparr>req_audioContext = 4, req_sinkAseRequirement = None, req_sourceAseRequirement = None\<rparr> :: ase_requirement"
  have f: "admitted le_unit [] lc3_capability (requirement_of ?req Sink) (Some lc3_48k)"
    "\<not> admitted le_unit [] lc3_capability (requirement_of ?req Sink) None"
    by (simp_all add: admitted_def requirement_of_def capability_admits_def lc3_48k_def lc3_capability_def isMatchedValidCodec_def
        isCapabilitiesMatchedCodecConfiguration_def cfg_tag_map_def isMatchedSamplingFreq_def isMatchedOctetsPerCodecFrame_def
        freq_to_support_bitmask_map_def le_unit_def)
  have d: "direction_of lc3_setting Sink = Some [None, Some lc3_48k]" "set_audioContext lc3_setting = 4"
    by (simp_all add: lc3_setting_def direction_of_def)
  have m: "isCapabilitiesMatchedContext 4 lc3_capability"
    by (simp add: isCapabilitiesMatchedContext_def lc3_capability_def)
  show ?thesis
    using getLeAudioAseConfiguration_exact [of Sink "[Some lc3_capability]" "Some [Some lc3_capability]" None le_unit "[]"
        "[lc3_setting]" "[?req]"]
    by (simp only: if_True option.distinct(2) not_False_eq_True simp_thms list.set bex_simps d f m) (auto simp: d f m)
qed

text \<open>C22: \<open>getLeAudioAseQosConfiguration\<close>, asked for the quality of service of one direction, returns in
  that direction one that a known setting of the context offers for a configuration that meets the
  requirement, with the retransmission number preferred and a latency that is not above the maximum;
  when none is offered the result is empty. The other direction is always empty.\<close>

theorem getLeAudioAseQosConfiguration_offered:
  assumes "(dir, Some r) = (case qq_sinkAseQosRequirement q of
      Some r \<Rightarrow> (Sink, Some r) | None \<Rightarrow> (Source, qq_sourceAseQosRequirement q))"
  shows "(\<exists>c. qos_offered k prio dir r (qq_audioContext q) settings c \<and>
            getLeAudioAseQosConfiguration k prio settings q = qos_result dir (Some c)) \<or>
         (\<forall>c. \<not> qos_offered k prio dir r (qq_audioContext q) settings c) \<and>
            getLeAudioAseQosConfiguration k prio settings q = qos_result dir None"
proof -
  have e: "getLeAudioAseQosConfiguration k prio settings q =
      (case qos_in_settings k prio dir (Some r) (qq_audioContext q) settings of Some p \<Rightarrow> p | None \<Rightarrow> qos_result dir None)"
    unfolding getLeAudioAseQosConfiguration_def assms [symmetric]
    by (simp add: qos_result_def split: option.split le_direction.split)
  show ?thesis
  proof (cases "qos_in_settings k prio dir (Some r) (qq_audioContext q) settings")
    case None
    then show ?thesis using e qos_in_settings_None [of k prio dir r "qq_audioContext q" settings] by simp
  next
    case (Some p)
    then show ?thesis using e qos_in_settings_Some [OF Some] by auto
  qed
qed

theorem getLeAudioAseQosConfiguration_offered_witness:
  "let r = \<lparr>qr_aseConfiguration = dir_aseConfiguration lc3_48k, qr_preferredRetransmissionNum = 5,
            qr_maxTransportLatencyMs = 10\<rparr>;
       q = \<lparr>qq_audioContext = 4, qq_sinkAseQosRequirement = Some r, qq_sourceAseQosRequirement = None\<rparr>
   in getLeAudioAseQosConfiguration le_unit [] [lc3_setting] q = qos_result Sink None"
proof -
  let ?r = "\<lparr>qr_aseConfiguration = dir_aseConfiguration lc3_48k, qr_preferredRetransmissionNum = 5,
      qr_maxTransportLatencyMs = 10\<rparr> :: qos_direction_requirement"
  let ?q = "\<lparr>qq_audioContext = 4, qq_sinkAseQosRequirement = Some ?r, qq_sourceAseQosRequirement = None\<rparr> :: qos_requirement"
  have "\<not> qos_offered le_unit [] Sink ?r 4 [lc3_setting] c" for c
    by (auto simp: qos_offered_def qos_matches_def lc3_setting_def direction_of_def lc3_48k_def)
  then show ?thesis
    using getLeAudioAseQosConfiguration_offered [of Sink ?r ?q le_unit "[]" "[lc3_setting]"] by (simp add: Let_def)
qed

text \<open>No capability of a remote device that lists sampling frequencies admits a configuration at 44.1
  kHz, whatever its bits are: the table that translates frequencies to bits has no entry for it.\<close>

lemma HZ44100_never_admitted:
  assumes "Cap_supportedSamplingFrequencies bits \<in> set (dc_codecSpecificCapabilities cap)"
    and "cfg_tag_map (ase_codecConfiguration (dir_aseConfiguration d)) T_samplingFrequency = Some (Cfg_samplingFrequency HZ44100)"
  shows "\<not> capability_admits k prio cap (Some d)"
proof
  assume "capability_admits k prio cap (Some d)"
  then have "matches_capability k (Cap_supportedSamplingFrequencies bits) (Cfg_samplingFrequency HZ44100)"
    using assms unfolding capability_admits_iff by fastforce
  then show False by (simp add: isMatchedSamplingFreq_def freq_to_support_bitmask_map_def)
qed

lemma HZ44100_never_admitted_witness:
  "\<not> capability_admits le_unit [] lc3_capability
      (Some (lc3_48k\<lparr>dir_aseConfiguration := \<lparr>ase_targetLatency = TL_LOWER, ase_targetPhy = TWO_M, ase_codecId = Some (CodecId_other 3),
         ase_codecConfiguration = [Cfg_samplingFrequency HZ44100, Cfg_octetsPerCodecFrame 100], ase_other = 0\<rparr>\<rparr>))"
  by (rule HZ44100_never_admitted [where bits = "0x84"])
     (simp_all add: lc3_capability_def lc3_48k_def cfg_tag_map_def)

text \<open>The settings a broadcast request is left with after the capabilities were applied.\<close>

definition broadcast_candidates ::
  "le_consts \<Rightarrow> priorities \<Rightarrow> le_device_capabilities option list \<Rightarrow> broadcast_setting list \<Rightarrow> broadcast_setting set" where
  "broadcast_candidates k prio caps loaded =
     {s'. \<exists>s \<in> set loaded. \<exists>cap. Some cap \<in> set caps \<and>
        getCapabilitiesMatchedBroadcastConfigurationSettings k prio s cap = Some s'}"

lemma filtered_candidates:
  "set (match_broadcast k prio caps loaded)
   = broadcast_candidates k prio caps loaded"
proof -
  have mf: "x \<in> set (List.map_filter f caps) \<longleftrightarrow> (\<exists>c \<in> set caps. f c = Some x)"
    for f :: "le_device_capabilities option \<Rightarrow> broadcast_setting option" and x
    by (force simp: List.map_filter_def)
  show ?thesis by (auto simp: mf match_broadcast_def broadcast_candidates_def bind_eq_Some_conv) blast+
qed

lemma first_required_iff:
  "first_required ns ss \<noteq> None \<longleftrightarrow>
     (\<exists>s \<in> set ss. \<exists>g \<in> set (bc_subgroupsConfigurations s). int (length g) \<in> set ns)"
  by (induction ss) (auto simp: Let_def filter_empty_conv list_ex_iff)

text \<open>C40: \<open>getLeAudioBroadcastConfiguration\<close> never returns a configuration. The output is set to null first,
  so the call is undefined exactly when there is something to return: a setting that the remote device
  can receive and that has a subgroup of a size the requirements ask for, or any such setting when there
  is no requirement.\<close>

theorem getLeAudioBroadcastConfiguration_null:
  assumes "getBroadcastSettings k db loaded = Some settings"
  shows "getLeAudioBroadcastConfiguration k prio db (Some caps) bis_nums loaded =
     (if \<exists>s \<in> broadcast_candidates k prio caps settings. bis_nums = [] \<or>
           (\<exists>g \<in> set (bc_subgroupsConfigurations s). int (length g) \<in> set bis_nums)
      then None else Some settings)"
proof -
  let ?fs = "match_broadcast k prio caps settings"
  have s: "broadcast_candidates k prio caps settings = set ?fs" unfolding filtered_candidates ..
  have "getLeAudioBroadcastConfiguration k prio db (Some caps) bis_nums loaded =
     (if ?fs = [] then Some settings else if bis_nums = [] then None
      else case first_required bis_nums ?fs of Some _ \<Rightarrow> None | None \<Rightarrow> Some settings)"
    using assms by (simp add: getLeAudioBroadcastConfiguration_def)
  then show ?thesis using first_required_iff [of bis_nums ?fs] unfolding s by (auto split: option.splits)
qed

theorem getLeAudioBroadcastConfiguration_null_witness:
  "let k = le_unit\<lparr>lc_freq_bit := \<lambda>f. 1\<rparr>;
       t = \<lparr>lt_samplingFrequencyHz = [48000], lt_bitdepth = [24], lt_frameDurationUs = [10000], lt_channelMode = [CM_STEREO]\<rparr>;
       cap = \<lparr>dc_codecId = (CodecId_other 3), dc_codecSpecificCapabilities = [Cap_supportedSamplingFrequencies 1], dc_metadata = None\<rparr>
   in getLeAudioBroadcastConfiguration k [] [\<lparr>li_name = ''LC3'', li_id = (CodecId_other 3), li_transport = Some t\<rparr>] (Some [Some cap]) [1] [] = None"
proof -
  let ?k = "le_unit\<lparr>lc_freq_bit := \<lambda>f. 1\<rparr>"
  let ?t = "\<lparr>lt_samplingFrequencyHz = [48000], lt_bitdepth = [24], lt_frameDurationUs = [10000], lt_channelMode = [CM_STEREO]\<rparr> :: le_transport"
  let ?cap = "\<lparr>dc_codecId = (CodecId_other 3), dc_codecSpecificCapabilities = [Cap_supportedSamplingFrequencies 1],
      dc_metadata = None\<rparr> :: le_device_capabilities"
  obtain s where s: "broadcast_setting_of ?k (CodecId_other 3) ?t = Some s" "getBroadcastSettings ?k [\<lparr>li_name = ''LC3'', li_id = (CodecId_other 3), li_transport = Some ?t\<rparr>] [] = Some [s]"
    by (simp add: getBroadcastSettings_def broadcast_setting_of_def first_def)
  then have "getCapabilitiesMatchedBroadcastConfigurationSettings ?k [] s ?cap = Some s"
    by (auto simp: broadcast_setting_of_def first_def getCapabilitiesMatchedBroadcastConfigurationSettings_def
        isMatchedBISConfiguration_def isMatchedValidCodec_def isCapabilitiesMatchedCodecConfiguration_def cfg_tag_map_def
        isMatchedSamplingFreq_def freq_to_support_bitmask_map_def sampling_freq_map_def)
  then have "s \<in> broadcast_candidates ?k [] [Some ?cap] [s]" by (auto simp: broadcast_candidates_def)
  moreover have "\<exists>g \<in> set (bc_subgroupsConfigurations s). int (length g) \<in> set [1]"
    using s(1) by (auto simp: broadcast_setting_of_def first_def)
  ultimately show ?thesis
    using getLeAudioBroadcastConfiguration_null [OF s(2), of "[]" "[Some ?cap]" "[1]"] unfolding Let_def by auto
qed

end
