(* ===== verification/Audio_Codecs.thy ===== *)
theory Audio_Codecs
  imports Audio_Types
begin

text \<open>
  \<^verbatim>\<open>bluetooth/audio/utils/aidl_session/BluetoothAudioCodecs.cpp\<close>: the capabilities the
  providers advertise and the validation of the configurations they are given. The audio
  configuration union, which the sessions and the providers share, is declared here. A field of
  an integer type is an \<open>int\<close>: the sources only compare these fields and take quotients of them.
\<close>

section \<open>Configurations\<close>

datatype codec_type =
    CT_UNKNOWN | CT_SBC | CT_AAC | CT_APTX | CT_APTX_HD | CT_LDAC | CT_LC3 | CT_VENDOR
  | CT_APTX_ADAPTIVE | CT_OPUS | CT_APTX_ADAPTIVE_LE | CT_APTX_ADAPTIVE_LEX

datatype sbc_channel_mode = SCM_UNKNOWN | SCM_JOINT_STEREO | SCM_STEREO | SCM_DUAL | SCM_MONO
datatype sbc_alloc_method = ALLOC_MD_S | ALLOC_MD_L
datatype aac_object = MPEG2_LC | MPEG4_LC | MPEG4_LTP | MPEG4_SCALABLE
datatype ldac_channel_mode = LCM_UNKNOWN | LCM_STEREO | LCM_DUAL | LCM_MONO
datatype ldac_quality_index = LQ_HIGH | LQ_MID | LQ_LOW | LQ_ABR

record pcm_configuration =
  pcm_sampleRateHz :: int
  pcm_channelMode :: channel_mode
  pcm_bitsPerSample :: int
  pcm_dataIntervalUs :: int

record sbc_configuration =
  sbcc_sampleRateHz :: int
  sbcc_channelMode :: sbc_channel_mode
  sbcc_blockLength :: int
  sbcc_numSubbands :: int
  sbcc_allocMethod :: sbc_alloc_method
  sbcc_bitsPerSample :: int
  sbcc_minBitpool :: int
  sbcc_maxBitpool :: int

record aac_configuration =
  aacc_objectType :: aac_object
  aacc_sampleRateHz :: int
  aacc_channelMode :: channel_mode
  aacc_variableBitRateEnabled :: bool
  aacc_bitsPerSample :: int

record ldac_configuration =
  ldacc_sampleRateHz :: int
  ldacc_channelMode :: ldac_channel_mode
  ldacc_qualityIndex :: ldac_quality_index
  ldacc_bitsPerSample :: int

record aptx_configuration =
  aptxc_sampleRateHz :: int
  aptxc_channelMode :: channel_mode
  aptxc_bitsPerSample :: int

record opus_configuration =
  opusc_samplingFrequencyHz :: int
  opusc_frameDurationUs :: int
  opusc_channelMode :: channel_mode

text \<open>The union \<open>CodecConfiguration::CodecSpecific\<close>; the alternatives the sources do not read are one.\<close>

datatype codec_specific =
    CS_sbc sbc_configuration
  | CS_aac aac_configuration
  | CS_ldac ldac_configuration
  | CS_aptx aptx_configuration
  | CS_opus "opus_configuration option"
  | CS_other nat

record codec_configuration =
  cc_codecType :: codec_type
  cc_encodedAudioBitrate :: int
  cc_peerMtu :: int
  cc_isScmstEnabled :: bool
  cc_config :: codec_specific

record a2dp_stream_configuration =
  as_codecId :: codec_id
  as_configuration :: "u8 list"

record lc3_configuration =
  lc3_pcmBitDepth :: int
  lc3_samplingFrequencyHz :: int
  lc3_frameDurationUs :: int
  lc3_octetsPerFrame :: int
  lc3_blocksPerSdu :: int

datatype le_audio_codec_configuration = LE_lc3 lc3_configuration | LE_other nat

record le_audio_configuration =
  le_streamMap :: "int list"  \<comment> \<open>the \<open>audioChannelAllocation\<close> of each entry\<close>
  le_leAudioCodecConfig :: le_audio_codec_configuration

record le_broadcast_configuration =
  lb_streamMap :: "(int \<times> le_audio_codec_configuration) list"

text \<open>\<open>HfpConfiguration\<close> is stored and handed on, never read.\<close>

datatype audio_configuration =
    AC_pcmConfig pcm_configuration
  | AC_a2dpConfig codec_configuration
  | AC_a2dp a2dp_stream_configuration
  | AC_hfpConfig nat
  | AC_leAudioConfig le_audio_configuration
  | AC_leAudioBroadcastConfig le_broadcast_configuration

datatype audio_configuration_tag =
  Tag_pcmConfig | Tag_a2dpConfig | Tag_a2dp | Tag_hfpConfig | Tag_leAudioConfig | Tag_leAudioBroadcastConfig

fun getTag :: "audio_configuration \<Rightarrow> audio_configuration_tag" where
  "getTag (AC_pcmConfig _) = Tag_pcmConfig"
| "getTag (AC_a2dpConfig _) = Tag_a2dpConfig"
| "getTag (AC_a2dp _) = Tag_a2dp"
| "getTag (AC_hfpConfig _) = Tag_hfpConfig"
| "getTag (AC_leAudioConfig _) = Tag_leAudioConfig"
| "getTag (AC_leAudioBroadcastConfig _) = Tag_leAudioBroadcastConfig"

section \<open>Capabilities\<close>

record pcm_capabilities =
  pcmk_sampleRateHz :: "int list"
  pcmk_channelMode :: "channel_mode list"
  pcmk_bitsPerSample :: "int list"
  pcmk_dataIntervalUs :: "int list"

record sbc_capabilities =
  sbck_sampleRateHz :: "int list"
  sbck_channelMode :: "sbc_channel_mode list"
  sbck_blockLength :: "int list"
  sbck_numSubbands :: "int list"
  sbck_allocMethod :: "sbc_alloc_method list"
  sbck_bitsPerSample :: "int list"
  sbck_minBitpool :: int
  sbck_maxBitpool :: int

record aac_capabilities =
  aack_objectType :: "aac_object list"
  aack_sampleRateHz :: "int list"
  aack_channelMode :: "channel_mode list"
  aack_variableBitRateSupported :: bool
  aack_bitsPerSample :: "int list"

record ldac_capabilities =
  ldack_sampleRateHz :: "int list"
  ldack_channelMode :: "ldac_channel_mode list"
  ldack_qualityIndex :: "ldac_quality_index list"
  ldack_bitsPerSample :: "int list"

record aptx_capabilities =
  aptxk_sampleRateHz :: "int list"
  aptxk_channelMode :: "channel_mode list"
  aptxk_bitsPerSample :: "int list"

record opus_capabilities =
  opusk_samplingFrequencyHz :: "int list"
  opusk_frameDurationUs :: "int list"
  opusk_channelMode :: "channel_mode list"

datatype capabilities =
    CK_default
  | CK_sbc sbc_capabilities
  | CK_aac aac_capabilities
  | CK_ldac ldac_capabilities
  | CK_aptx aptx_capabilities
  | CK_opus opus_capabilities

record codec_capabilities =
  ck_codecType :: codec_type
  ck_capabilities :: capabilities

definition kDefaultSoftwarePcmCapabilities :: pcm_capabilities where
  "kDefaultSoftwarePcmCapabilities = \<lparr>
     pcmk_sampleRateHz = [8000, 16000, 24000, 32000, 44100, 48000, 88200, 96000],
     pcmk_channelMode = [CM_MONO, CM_STEREO],
     pcmk_bitsPerSample = [16, 24, 32],
     pcmk_dataIntervalUs = []\<rparr>"

definition kDefaultOffloadSbcCapability :: sbc_capabilities where
  "kDefaultOffloadSbcCapability = \<lparr>
     sbck_sampleRateHz = [44100],
     sbck_channelMode = [SCM_MONO, SCM_JOINT_STEREO],
     sbck_blockLength = [4, 8, 12, 16],
     sbck_numSubbands = [8],
     sbck_allocMethod = [ALLOC_MD_L],
     sbck_bitsPerSample = [16],
     sbck_minBitpool = 2,
     sbck_maxBitpool = 53\<rparr>"

definition kDefaultOffloadAacCapability :: aac_capabilities where
  "kDefaultOffloadAacCapability = \<lparr>
     aack_objectType = [MPEG2_LC],
     aack_sampleRateHz = [44100],
     aack_channelMode = [CM_STEREO],
     aack_variableBitRateSupported = True,
     aack_bitsPerSample = [16]\<rparr>"

definition kDefaultOffloadLdacCapability :: ldac_capabilities where
  "kDefaultOffloadLdacCapability = \<lparr>
     ldack_sampleRateHz = [44100, 48000, 88200, 96000],
     ldack_channelMode = [LCM_DUAL, LCM_STEREO],
     ldack_qualityIndex = [LQ_HIGH],
     ldack_bitsPerSample = [16, 24, 32]\<rparr>"

definition kDefaultOffloadAptxCapability :: aptx_capabilities where
  "kDefaultOffloadAptxCapability = \<lparr>
     aptxk_sampleRateHz = [44100, 48000],
     aptxk_channelMode = [CM_STEREO],
     aptxk_bitsPerSample = [16]\<rparr>"

definition kDefaultOffloadAptxHdCapability :: aptx_capabilities where
  "kDefaultOffloadAptxHdCapability = \<lparr>
     aptxk_sampleRateHz = [44100, 48000],
     aptxk_channelMode = [CM_STEREO],
     aptxk_bitsPerSample = [24]\<rparr>"

definition kDefaultOffloadOpusCapability :: opus_capabilities where
  "kDefaultOffloadOpusCapability = \<lparr>
     opusk_samplingFrequencyHz = [48000],
     opusk_frameDurationUs = [10000, 20000],
     opusk_channelMode = [CM_MONO, CM_STEREO]\<rparr>"

definition kDefaultOffloadA2dpCodecCapabilities :: "codec_capabilities list" where
  "kDefaultOffloadA2dpCodecCapabilities =
     map (\<lambda>t. \<lparr>ck_codecType = t, ck_capabilities = CK_default\<rparr>)
       [CT_SBC, CT_AAC, CT_LDAC, CT_APTX, CT_APTX_HD, CT_OPUS]"

section \<open>Validation\<close>

definition ContainedInVector :: "'a list \<Rightarrow> 'a \<Rightarrow> bool" where
  "ContainedInVector v target \<longleftrightarrow> List.member v target"

fun IsOffloadSbcConfigurationValid :: "codec_specific \<Rightarrow> bool" where
  "IsOffloadSbcConfigurationValid (CS_sbc d) \<longleftrightarrow>
     ContainedInVector (sbck_sampleRateHz kDefaultOffloadSbcCapability) (sbcc_sampleRateHz d) \<and>
     ContainedInVector (sbck_blockLength kDefaultOffloadSbcCapability) (sbcc_blockLength d) \<and>
     ContainedInVector (sbck_numSubbands kDefaultOffloadSbcCapability) (sbcc_numSubbands d) \<and>
     ContainedInVector (sbck_bitsPerSample kDefaultOffloadSbcCapability) (sbcc_bitsPerSample d) \<and>
     ContainedInVector (sbck_channelMode kDefaultOffloadSbcCapability) (sbcc_channelMode d) \<and>
     ContainedInVector (sbck_allocMethod kDefaultOffloadSbcCapability) (sbcc_allocMethod d) \<and>
     sbcc_minBitpool d \<le> sbcc_maxBitpool d \<and>
     sbck_minBitpool kDefaultOffloadSbcCapability \<le> sbcc_minBitpool d \<and>
     sbck_maxBitpool kDefaultOffloadSbcCapability \<ge> sbcc_maxBitpool d"
| "IsOffloadSbcConfigurationValid _ \<longleftrightarrow> False"

fun IsOffloadAacConfigurationValid :: "codec_specific \<Rightarrow> bool" where
  "IsOffloadAacConfigurationValid (CS_aac d) \<longleftrightarrow>
     ContainedInVector (aack_sampleRateHz kDefaultOffloadAacCapability) (aacc_sampleRateHz d) \<and>
     ContainedInVector (aack_bitsPerSample kDefaultOffloadAacCapability) (aacc_bitsPerSample d) \<and>
     ContainedInVector (aack_channelMode kDefaultOffloadAacCapability) (aacc_channelMode d) \<and>
     ContainedInVector (aack_objectType kDefaultOffloadAacCapability) (aacc_objectType d) \<and>
     (\<not> aacc_variableBitRateEnabled d \<or> aack_variableBitRateSupported kDefaultOffloadAacCapability)"
| "IsOffloadAacConfigurationValid _ \<longleftrightarrow> False"

fun IsOffloadLdacConfigurationValid :: "codec_specific \<Rightarrow> bool" where
  "IsOffloadLdacConfigurationValid (CS_ldac d) \<longleftrightarrow>
     ContainedInVector (ldack_sampleRateHz kDefaultOffloadLdacCapability) (ldacc_sampleRateHz d) \<and>
     ContainedInVector (ldack_bitsPerSample kDefaultOffloadLdacCapability) (ldacc_bitsPerSample d) \<and>
     ContainedInVector (ldack_channelMode kDefaultOffloadLdacCapability) (ldacc_channelMode d) \<and>
     ContainedInVector (ldack_qualityIndex kDefaultOffloadLdacCapability) (ldacc_qualityIndex d)"
| "IsOffloadLdacConfigurationValid _ \<longleftrightarrow> False"

fun IsOffloadAptxConfigurationValid :: "codec_specific \<Rightarrow> bool" where
  "IsOffloadAptxConfigurationValid (CS_aptx d) \<longleftrightarrow>
     ContainedInVector (aptxk_sampleRateHz kDefaultOffloadAptxCapability) (aptxc_sampleRateHz d) \<and>
     ContainedInVector (aptxk_bitsPerSample kDefaultOffloadAptxCapability) (aptxc_bitsPerSample d) \<and>
     ContainedInVector (aptxk_channelMode kDefaultOffloadAptxCapability) (aptxc_channelMode d)"
| "IsOffloadAptxConfigurationValid _ \<longleftrightarrow> False"

fun IsOffloadAptxHdConfigurationValid :: "codec_specific \<Rightarrow> bool" where
  "IsOffloadAptxHdConfigurationValid (CS_aptx d) \<longleftrightarrow>
     ContainedInVector (aptxk_sampleRateHz kDefaultOffloadAptxHdCapability) (aptxc_sampleRateHz d) \<and>
     ContainedInVector (aptxk_bitsPerSample kDefaultOffloadAptxHdCapability) (aptxc_bitsPerSample d) \<and>
     ContainedInVector (aptxk_channelMode kDefaultOffloadAptxHdCapability) (aptxc_channelMode d)"
| "IsOffloadAptxHdConfigurationValid _ \<longleftrightarrow> False"

fun IsOffloadOpusConfigurationValid :: "codec_specific \<Rightarrow> bool" where
  "IsOffloadOpusConfigurationValid (CS_opus (Some d)) \<longleftrightarrow>
     ContainedInVector (opusk_samplingFrequencyHz kDefaultOffloadOpusCapability) (opusc_samplingFrequencyHz d) \<and>
     ContainedInVector (opusk_frameDurationUs kDefaultOffloadOpusCapability) (opusc_frameDurationUs d) \<and>
     ContainedInVector (opusk_channelMode kDefaultOffloadOpusCapability) (opusc_channelMode d)"
| "IsOffloadOpusConfigurationValid _ \<longleftrightarrow> False"

definition GetSoftwarePcmCapabilities :: "pcm_capabilities list" where
  "GetSoftwarePcmCapabilities = [kDefaultSoftwarePcmCapabilities]"

definition a2dp_offload_session :: "session_type \<Rightarrow> bool" where
  "a2dp_offload_session st \<longleftrightarrow>
     st = A2DP_HARDWARE_OFFLOAD_ENCODING_DATAPATH \<or> st = A2DP_HARDWARE_OFFLOAD_DECODING_DATAPATH"

text \<open>The \<open>switch\<close> in the loop that fills in the capabilities of each codec.\<close>

fun fill_capability :: "codec_capabilities \<Rightarrow> codec_capabilities" where
  "fill_capability c = (case ck_codecType c of
       CT_SBC \<Rightarrow> c\<lparr>ck_capabilities := CK_sbc kDefaultOffloadSbcCapability\<rparr>
     | CT_AAC \<Rightarrow> c\<lparr>ck_capabilities := CK_aac kDefaultOffloadAacCapability\<rparr>
     | CT_LDAC \<Rightarrow> c\<lparr>ck_capabilities := CK_ldac kDefaultOffloadLdacCapability\<rparr>
     | CT_APTX \<Rightarrow> c\<lparr>ck_capabilities := CK_aptx kDefaultOffloadAptxCapability\<rparr>
     | CT_APTX_HD \<Rightarrow> c\<lparr>ck_capabilities := CK_aptx kDefaultOffloadAptxHdCapability\<rparr>
     | CT_OPUS \<Rightarrow> c\<lparr>ck_capabilities := CK_opus kDefaultOffloadOpusCapability\<rparr>
     | _ \<Rightarrow> c)"

definition GetA2dpOffloadCodecCapabilities :: "session_type \<Rightarrow> codec_capabilities list" where
  "GetA2dpOffloadCodecCapabilities st =
     (if \<not> a2dp_offload_session st then []
      else map fill_capability kDefaultOffloadA2dpCodecCapabilities)"

definition IsSoftwarePcmConfigurationValid :: "pcm_configuration \<Rightarrow> bool" where
  "IsSoftwarePcmConfigurationValid p \<longleftrightarrow>
     ContainedInVector (pcmk_sampleRateHz kDefaultSoftwarePcmCapabilities) (pcm_sampleRateHz p) \<and>
     ContainedInVector (pcmk_bitsPerSample kDefaultSoftwarePcmCapabilities) (pcm_bitsPerSample p) \<and>
     ContainedInVector (pcmk_channelMode kDefaultSoftwarePcmCapabilities) (pcm_channelMode p)"

definition IsOffloadCodecConfigurationValid :: "session_type \<Rightarrow> codec_configuration \<Rightarrow> bool" where
  "IsOffloadCodecConfigurationValid st c \<longleftrightarrow>
     (if \<not> a2dp_offload_session st then False
      else case cc_codecType c of
          CT_SBC \<Rightarrow> IsOffloadSbcConfigurationValid (cc_config c)
        | CT_AAC \<Rightarrow> IsOffloadAacConfigurationValid (cc_config c)
        | CT_LDAC \<Rightarrow> IsOffloadLdacConfigurationValid (cc_config c)
        | CT_APTX \<Rightarrow> IsOffloadAptxConfigurationValid (cc_config c)
        | CT_APTX_HD \<Rightarrow> IsOffloadAptxHdConfigurationValid (cc_config c)
        | CT_OPUS \<Rightarrow> IsOffloadOpusConfigurationValid (cc_config c)
        | _ \<Rightarrow> False)"

section \<open>LE audio: the cached settings\<close>

text \<open>
  The two globals of the file. The setting file is read and interpreted by
  \<open>BluetoothLeAudioCodecsProvider\<close>: its results for the file on the device are the
  arguments \<open>parsed_caps\<close> and \<open>parsed_info\<close>. The global map of codec informations is a map
  from session types.
\<close>

record 'cap codec_globals =
  g_LeAudioCapabilities :: "'cap list"
  g_LeAudioCodecInfoMap :: "session_type \<rightharpoonup> codec_info list"

definition le_offload_session :: "session_type \<Rightarrow> bool" where
  "le_offload_session st \<longleftrightarrow>
     st = LE_AUDIO_HARDWARE_OFFLOAD_ENCODING_DATAPATH \<or>
     st = LE_AUDIO_HARDWARE_OFFLOAD_DECODING_DATAPATH \<or>
     st = LE_AUDIO_BROADCAST_HARDWARE_OFFLOAD_ENCODING_DATAPATH"

definition GetLeAudioOffloadCodecCapabilities ::
  "'cap list \<Rightarrow> session_type \<Rightarrow> 'cap codec_globals \<Rightarrow> 'cap list \<times> 'cap codec_globals" where
  "GetLeAudioOffloadCodecCapabilities parsed_caps st g =
     (if \<not> le_offload_session st then ([], g)
      else
        let g = (if g_LeAudioCapabilities g = [] then g\<lparr>g_LeAudioCapabilities := parsed_caps\<rparr> else g)
        in (g_LeAudioCapabilities g, g))"

text \<open>
  The assignment in \<open>GetLeAudioOffloadCodecInfo\<close> declares a local variable with the name of
  the global (\<open>auto kDefaultOffloadLeAudioCodecInfoMap = \<dots>\<close>): the parsed map is bound to that
  local, \<open>shadow\<close> below, and dropped at the end of the block. Emptiness of the global is read off
  the finitely many session types.
\<close>

definition all_session_types :: "session_type list" where
  "all_session_types =
     [ST_UNKNOWN, A2DP_SOFTWARE_ENCODING_DATAPATH, A2DP_HARDWARE_OFFLOAD_ENCODING_DATAPATH,
      HEARING_AID_SOFTWARE_ENCODING_DATAPATH, LE_AUDIO_SOFTWARE_ENCODING_DATAPATH,
      LE_AUDIO_SOFTWARE_DECODING_DATAPATH, LE_AUDIO_HARDWARE_OFFLOAD_ENCODING_DATAPATH,
      LE_AUDIO_HARDWARE_OFFLOAD_DECODING_DATAPATH, LE_AUDIO_BROADCAST_SOFTWARE_ENCODING_DATAPATH,
      LE_AUDIO_BROADCAST_HARDWARE_OFFLOAD_ENCODING_DATAPATH, A2DP_SOFTWARE_DECODING_DATAPATH,
      A2DP_HARDWARE_OFFLOAD_DECODING_DATAPATH, HFP_SOFTWARE_ENCODING_DATAPATH,
      HFP_SOFTWARE_DECODING_DATAPATH, HFP_HARDWARE_OFFLOAD_DATAPATH]"

definition GetLeAudioOffloadCodecInfo ::
  "(session_type \<rightharpoonup> codec_info list) \<Rightarrow> session_type \<Rightarrow> 'cap codec_globals \<Rightarrow>
   codec_info list \<times> 'cap codec_globals" where
  "GetLeAudioOffloadCodecInfo parsed_info st g =
     (if \<not> le_offload_session st then ([], g)
      else
        let is_empty = list_all (\<lambda>t. g_LeAudioCodecInfoMap g t = None) all_session_types;
            g = (if is_empty then (let shadow = parsed_info in g) else g)
        in (case g_LeAudioCodecInfoMap g st of None \<Rightarrow> ([], g) | Some infos \<Rightarrow> (infos, g)))"

section \<open>What the validation accepts\<close>

text \<open>A configuration lies within an advertised capability.\<close>

fun within :: "capabilities \<Rightarrow> codec_specific \<Rightarrow> bool" where
  "within (CK_sbc k) (CS_sbc d) \<longleftrightarrow>
     sbcc_sampleRateHz d \<in> set (sbck_sampleRateHz k) \<and> sbcc_channelMode d \<in> set (sbck_channelMode k) \<and>
     sbcc_blockLength d \<in> set (sbck_blockLength k) \<and> sbcc_numSubbands d \<in> set (sbck_numSubbands k) \<and>
     sbcc_allocMethod d \<in> set (sbck_allocMethod k) \<and> sbcc_bitsPerSample d \<in> set (sbck_bitsPerSample k) \<and>
     sbcc_minBitpool d \<le> sbcc_maxBitpool d \<and>
     {sbcc_minBitpool d .. sbcc_maxBitpool d} \<subseteq> {sbck_minBitpool k .. sbck_maxBitpool k}"
| "within (CK_aac k) (CS_aac d) \<longleftrightarrow>
     aacc_objectType d \<in> set (aack_objectType k) \<and> aacc_sampleRateHz d \<in> set (aack_sampleRateHz k) \<and>
     aacc_channelMode d \<in> set (aack_channelMode k) \<and> aacc_bitsPerSample d \<in> set (aack_bitsPerSample k) \<and>
     (aacc_variableBitRateEnabled d \<longrightarrow> aack_variableBitRateSupported k)"
| "within (CK_ldac k) (CS_ldac d) \<longleftrightarrow>
     ldacc_sampleRateHz d \<in> set (ldack_sampleRateHz k) \<and> ldacc_channelMode d \<in> set (ldack_channelMode k) \<and>
     ldacc_qualityIndex d \<in> set (ldack_qualityIndex k) \<and> ldacc_bitsPerSample d \<in> set (ldack_bitsPerSample k)"
| "within (CK_aptx k) (CS_aptx d) \<longleftrightarrow>
     aptxc_sampleRateHz d \<in> set (aptxk_sampleRateHz k) \<and> aptxc_channelMode d \<in> set (aptxk_channelMode k) \<and>
     aptxc_bitsPerSample d \<in> set (aptxk_bitsPerSample k)"
| "within (CK_opus k) (CS_opus (Some d)) \<longleftrightarrow>
     opusc_samplingFrequencyHz d \<in> set (opusk_samplingFrequencyHz k) \<and>
     opusc_frameDurationUs d \<in> set (opusk_frameDurationUs k) \<and> opusc_channelMode d \<in> set (opusk_channelMode k)"
| "within _ _ \<longleftrightarrow> False"

lemma ContainedInVector_iff [simp]: "ContainedInVector v x \<longleftrightarrow> x \<in> set v"
  by (simp add: ContainedInVector_def)

lemma valid_sbc: "IsOffloadSbcConfigurationValid d \<longleftrightarrow> within (CK_sbc kDefaultOffloadSbcCapability) d"
  by (cases d) auto

lemma valid_aac: "IsOffloadAacConfigurationValid d \<longleftrightarrow> within (CK_aac kDefaultOffloadAacCapability) d"
  by (cases d) auto

lemma valid_ldac: "IsOffloadLdacConfigurationValid d \<longleftrightarrow> within (CK_ldac kDefaultOffloadLdacCapability) d"
  by (cases d) auto

lemma valid_aptx: "IsOffloadAptxConfigurationValid d \<longleftrightarrow> within (CK_aptx kDefaultOffloadAptxCapability) d"
  by (cases d) auto

lemma valid_aptx_hd: "IsOffloadAptxHdConfigurationValid d \<longleftrightarrow> within (CK_aptx kDefaultOffloadAptxHdCapability) d"
  by (cases d) auto

lemma valid_opus: "IsOffloadOpusConfigurationValid d \<longleftrightarrow> within (CK_opus kDefaultOffloadOpusCapability) d"
  by (cases "(CK_opus kDefaultOffloadOpusCapability, d)" rule: within.cases) auto

lemmas valid_iff = valid_sbc valid_aac valid_ldac valid_aptx valid_aptx_hd valid_opus

lemma pcm_valid_iff:
  "IsSoftwarePcmConfigurationValid p \<longleftrightarrow>
     pcm_sampleRateHz p \<in> {8000, 16000, 24000, 32000, 44100, 48000, 88200, 96000} \<and>
     pcm_bitsPerSample p \<in> {16, 24, 32} \<and> pcm_channelMode p \<in> {CM_MONO, CM_STEREO}"
  by (simp add: IsSoftwarePcmConfigurationValid_def kDefaultSoftwarePcmCapabilities_def)

lemma fill_capability_type [simp]: "ck_codecType (fill_capability c) = ck_codecType c"
  by (cases "ck_codecType c") simp_all

lemma a2dp_capabilities_of_type:
  "(\<exists>k \<in> set (GetA2dpOffloadCodecCapabilities st). ck_codecType k = t \<and> P (ck_capabilities k)) \<longleftrightarrow>
   a2dp_offload_session st \<and> (case t of
       CT_SBC \<Rightarrow> P (CK_sbc kDefaultOffloadSbcCapability)
     | CT_AAC \<Rightarrow> P (CK_aac kDefaultOffloadAacCapability)
     | CT_LDAC \<Rightarrow> P (CK_ldac kDefaultOffloadLdacCapability)
     | CT_APTX \<Rightarrow> P (CK_aptx kDefaultOffloadAptxCapability)
     | CT_APTX_HD \<Rightarrow> P (CK_aptx kDefaultOffloadAptxHdCapability)
     | CT_OPUS \<Rightarrow> P (CK_opus kDefaultOffloadOpusCapability)
     | _ \<Rightarrow> False)"
  by (cases t) (auto simp: GetA2dpOffloadCodecCapabilities_def kDefaultOffloadA2dpCodecCapabilities_def)

lemma le_info_from_empty:
  "g_LeAudioCodecInfoMap g = Map.empty \<Longrightarrow> GetLeAudioOffloadCodecInfo parsed_info st g = ([], g)"
  by (simp add: GetLeAudioOffloadCodecInfo_def)

section \<open>Properties\<close>

text \<open>C34: \<open>IsOffloadCodecConfigurationValid\<close> accepts a configuration exactly when it lies within
  one of the capabilities that \<open>GetA2dpOffloadCodecCapabilities\<close> advertises for the same session
  type and codec type; what the provider advertises and what it accepts never differ.\<close>

theorem offload_validation_matches_advertisement:
  "IsOffloadCodecConfigurationValid st c \<longleftrightarrow>
     (\<exists>k \<in> set (GetA2dpOffloadCodecCapabilities st).
        ck_codecType k = cc_codecType c \<and> within (ck_capabilities k) (cc_config c))"
  unfolding a2dp_capabilities_of_type [of st "cc_codecType c" "\<lambda>k. within k (cc_config c)"]
  by (cases "cc_codecType c") (simp_all add: IsOffloadCodecConfigurationValid_def valid_iff)

text \<open>Whatever codec informations the LE audio setting file defines,
  \<open>GetLeAudioOffloadCodecInfo\<close> started with its empty global map returns no codec information and
  leaves the map empty, so every later call returns none either.\<close>

lemma le_codec_info_never_loaded:
  assumes "g_LeAudioCodecInfoMap g = Map.empty"
  shows "GetLeAudioOffloadCodecInfo parsed_info st g = ([], g)"
  by (rule le_info_from_empty [OF assms])

lemma le_codec_info_never_loaded_witness:
  "GetLeAudioOffloadCodecInfo
     (\<lambda>_. Some [\<lparr>ci_id = CodecId_other 0, ci_name = ''lc3'', ci_capabilities = [],
        ci_samplingFrequencyHz = [48000], ci_channelMode = [CM_STEREO], ci_bitdepth = [16]\<rparr>])
     LE_AUDIO_HARDWARE_OFFLOAD_ENCODING_DATAPATH
     \<lparr>g_LeAudioCapabilities = ([] :: nat list), g_LeAudioCodecInfoMap = Map.empty\<rparr> =
   ([], \<lparr>g_LeAudioCapabilities = [], g_LeAudioCodecInfoMap = Map.empty\<rparr>)"
  by (rule le_codec_info_never_loaded) simp

end
