(* ===== verification/Audio_Session.thy ===== *)
theory Audio_Session
  imports Audio_Codecs "HOL-Library.AList"
begin

text \<open>
  \<^verbatim>\<open>bluetooth/audio/utils/aidl_session\<close>: \<open>BluetoothAudioSession\<close>, the state the Bluetooth
  stack and the audio module share, \<open>BluetoothAudioSessionInstance\<close>, the table of sessions, and
  the wrappers \<open>BluetoothAudioSessionReport\<close> and \<open>BluetoothAudioSessionControl\<close>.

  The Bluetooth stack is another process. A call to it is an element of a list of
  \<open>stack_call\<close>s, and whether the call succeeded is an argument of the definition. The callbacks
  the audio module registers are closures over an object of that module: a callback that is
  invoked is a \<open>notification\<close> that names the object. Every operation holds the session's
  mutex, so an operation is one step.
\<close>

section \<open>Data\<close>

text \<open>
  \<open>PortStatusCallbacks\<close>: the object the four functions belong to, and which of the functions
  are set. Invoking one that is not set throws; this is undefined here.
\<close>

record port_status_callbacks =
  cb_client :: nat
  cb_control_result :: bool
  cb_session_changed :: bool
  cb_audio_configuration_changed :: bool
  cb_low_latency_mode_allowed :: bool

datatype notification =
    N_control_result nat u16 bool bluetooth_audio_status
  | N_session_changed nat u16
  | N_audio_configuration_changed nat u16
  | N_low_latency_mode_allowed nat u16 bool

text \<open>A queue descriptor, with what \<open>isValid()\<close> reports for a queue opened on it.\<close>

record data_mq =
  mq_id :: nat
  mq_isValid :: bool

text \<open>The fields of the track descriptions the sources copy; a gain is the pattern of its 32 bits.\<close>

record playback_track =
  pt_usage :: int
  pt_content_type :: int
  pt_gain :: u32
  pt_tags :: "string list"

record record_track =
  rt_source :: int
  rt_gain :: u32
  rt_tags :: "string list"

datatype stack_call =
    SC_startStream bool
  | SC_suspendStream
  | SC_stopStream
  | SC_getPresentationPosition
  | SC_updateSourceMetadata "playback_track list"
  | SC_updateSinkMetadata "record_track list"
  | SC_setLatencyMode latency_mode

record presentation_position =
  pp_remoteDeviceAudioDelayNanos :: int
  pp_transmittedOctets :: int
  pp_tvSec :: int
  pp_tvNSec :: int

text \<open>
  The session. \<open>observers_\<close> is a hash table; it is an association list here, and its order
  stands for the unspecified iteration order.
\<close>

record audio_session =
  s_session_type :: session_type
  s_stack_iface :: "nat option"
  s_data_mq :: "data_mq option"
  s_audio_config :: "audio_configuration option"
  s_latency_modes :: "latency_mode list"
  s_low_latency_allowed :: bool
  s_observers :: "(u16 \<times> port_status_callbacks) list"

definition BluetoothAudioSession :: "session_type \<Rightarrow> audio_session" where
  "BluetoothAudioSession st =
     \<lparr>s_session_type = st, s_stack_iface = None, s_data_mq = None, s_audio_config = None,
      s_latency_modes = [], s_low_latency_allowed = True, s_observers = []\<rparr>"

section \<open>Cookies\<close>

text \<open>
  A cookie holds the numeric value of the session type in its high byte. The numeric values
  are those of an AIDL enumeration: \<open>code\<close> is \<open>static_cast<uint16_t>\<close> on it.
\<close>

definition kObserversCookieSize :: u16 where "kObserversCookieSize = 0x0010"

definition ObserversCookieGetInitValue :: "(session_type \<Rightarrow> u16) \<Rightarrow> session_type \<Rightarrow> u16" where
  "ObserversCookieGetInitValue code st = push_bit 8 (code st) AND 0xff00"

definition ObserversCookieGetUpperBound :: "(session_type \<Rightarrow> u16) \<Rightarrow> session_type \<Rightarrow> u16" where
  "ObserversCookieGetUpperBound code st = (push_bit 8 (code st) AND 0xff00) + kObserversCookieSize"

definition kObserversCookieUndefined :: "(session_type \<Rightarrow> u16) \<Rightarrow> u16" where
  "kObserversCookieUndefined code = push_bit 8 (code ST_UNKNOWN) AND 0xff00"

text \<open>The numeric value of the session type a cookie belongs to.\<close>

definition ObserversCookieGetSessionType :: "u16 \<Rightarrow> u16" where
  "ObserversCookieGetSessionType cookie = drop_bit 8 cookie AND 0x00ff"

section \<open>Readiness and configuration\<close>

definition IsSessionReady :: "audio_session \<Rightarrow> bool" where
  "IsSessionReady s \<longleftrightarrow>
     (let st = s_session_type s;
          is_mq_valid =
            (st = A2DP_HARDWARE_OFFLOAD_ENCODING_DATAPATH \<or>
             st = LE_AUDIO_HARDWARE_OFFLOAD_ENCODING_DATAPATH \<or>
             st = LE_AUDIO_HARDWARE_OFFLOAD_DECODING_DATAPATH \<or>
             st = LE_AUDIO_BROADCAST_HARDWARE_OFFLOAD_ENCODING_DATAPATH \<or>
             st = A2DP_HARDWARE_OFFLOAD_DECODING_DATAPATH \<or>
             st = HFP_HARDWARE_OFFLOAD_DATAPATH \<or>
             (case s_data_mq s of None \<Rightarrow> False | Some q \<Rightarrow> mq_isValid q))
      in s_stack_iface s \<noteq> None \<and> is_mq_valid \<and> s_audio_config s \<noteq> None)"

definition UpdateDataPath :: "data_mq option \<Rightarrow> audio_session \<Rightarrow> bool \<times> audio_session" where
  "UpdateDataPath mq_desc s =
     (case mq_desc of
        None \<Rightarrow> (True, s\<lparr>s_data_mq := None\<rparr>)
      | Some d \<Rightarrow>
          if \<not> mq_isValid d then (False, s\<lparr>s_data_mq := None\<rparr>)
          else (True, s\<lparr>s_data_mq := Some d\<rparr>))"

definition UpdateAudioConfig :: "audio_configuration \<Rightarrow> audio_session \<Rightarrow> bool \<times> audio_session" where
  "UpdateAudioConfig audio_config s =
     (let st = s_session_type s;
          is_software_session =
            (st = A2DP_SOFTWARE_ENCODING_DATAPATH \<or>
             st = HEARING_AID_SOFTWARE_ENCODING_DATAPATH \<or>
             st = HFP_SOFTWARE_ENCODING_DATAPATH \<or>
             st = HFP_SOFTWARE_DECODING_DATAPATH \<or>
             st = LE_AUDIO_SOFTWARE_DECODING_DATAPATH \<or>
             st = LE_AUDIO_SOFTWARE_ENCODING_DATAPATH \<or>
             st = LE_AUDIO_BROADCAST_SOFTWARE_ENCODING_DATAPATH \<or>
             st = A2DP_SOFTWARE_DECODING_DATAPATH);
          is_offload_a2dp_session =
            (st = A2DP_HARDWARE_OFFLOAD_ENCODING_DATAPATH \<or>
             st = A2DP_HARDWARE_OFFLOAD_DECODING_DATAPATH);
          is_offload_hfp_session = (st = HFP_HARDWARE_OFFLOAD_DATAPATH);
          is_offload_le_audio_unicast_session =
            (st = LE_AUDIO_HARDWARE_OFFLOAD_ENCODING_DATAPATH \<or>
             st = LE_AUDIO_HARDWARE_OFFLOAD_DECODING_DATAPATH);
          is_offload_le_audio_broadcast_session =
            (st = LE_AUDIO_BROADCAST_HARDWARE_OFFLOAD_ENCODING_DATAPATH);
          tag = getTag audio_config;
          is_software_audio_config = (is_software_session \<and> tag = Tag_pcmConfig);
          is_a2dp_offload_audio_config =
            (is_offload_a2dp_session \<and> (tag = Tag_a2dp \<or> tag = Tag_a2dpConfig));
          is_hfp_offload_audio_config = (is_offload_hfp_session \<and> tag = Tag_hfpConfig);
          is_le_audio_offload_unicast_audio_config =
            (is_offload_le_audio_unicast_session \<and> tag = Tag_leAudioConfig);
          is_le_audio_offload_broadcast_audio_config =
            (is_offload_le_audio_broadcast_session \<and> tag = Tag_leAudioBroadcastConfig)
      in if \<not> is_software_audio_config \<and> \<not> is_a2dp_offload_audio_config \<and>
            \<not> is_hfp_offload_audio_config \<and> \<not> is_le_audio_offload_unicast_audio_config \<and>
            \<not> is_le_audio_offload_broadcast_audio_config
         then (False, s)
         else (True, s\<lparr>s_audio_config := Some audio_config\<rparr>))"

text \<open>The value-initialised configurations, whose fields have the defaults of the AIDL types.\<close>

record config_defaults =
  def_CodecConfiguration :: codec_configuration
  def_HfpConfiguration :: nat
  def_LeAudioConfiguration :: le_audio_configuration
  def_LeAudioBroadcastConfiguration :: le_broadcast_configuration
  def_PcmConfiguration :: pcm_configuration

fun default_config :: "config_defaults \<Rightarrow> session_type \<Rightarrow> audio_configuration" where
  "default_config d A2DP_HARDWARE_OFFLOAD_ENCODING_DATAPATH = AC_a2dpConfig (def_CodecConfiguration d)"
| "default_config d A2DP_HARDWARE_OFFLOAD_DECODING_DATAPATH = AC_a2dpConfig (def_CodecConfiguration d)"
| "default_config d HFP_HARDWARE_OFFLOAD_DATAPATH = AC_hfpConfig (def_HfpConfiguration d)"
| "default_config d LE_AUDIO_HARDWARE_OFFLOAD_ENCODING_DATAPATH = AC_leAudioConfig (def_LeAudioConfiguration d)"
| "default_config d LE_AUDIO_HARDWARE_OFFLOAD_DECODING_DATAPATH = AC_leAudioConfig (def_LeAudioConfiguration d)"
| "default_config d LE_AUDIO_BROADCAST_HARDWARE_OFFLOAD_ENCODING_DATAPATH =
     AC_leAudioBroadcastConfig (def_LeAudioBroadcastConfiguration d)"
| "default_config d _ = AC_pcmConfig (def_PcmConfiguration d)"

definition GetAudioConfig :: "config_defaults \<Rightarrow> audio_session \<Rightarrow> audio_configuration ub" where
  "GetAudioConfig d s =
     (if \<not> IsSessionReady s then Some (default_config d (s_session_type s)) else s_audio_config s)"

section \<open>Notifications\<close>

text \<open>The loops \<open>for (auto& observer : observers_)\<close>.\<close>

fun for_observers ::
  "(u16 \<Rightarrow> 'cb \<Rightarrow> notification list ub) \<Rightarrow> (u16 \<times> 'cb) list \<Rightarrow> notification list ub" where
  "for_observers f [] = Some []"
| "for_observers f ((cookie, cb) # obs) = do {
     n \<leftarrow> f cookie cb;
     rest \<leftarrow> for_observers f obs;
     Some (n @ rest)
   }"

definition ReportSessionStatus :: "audio_session \<Rightarrow> notification list ub" where
  "ReportSessionStatus s = for_observers
     (\<lambda>cookie cb. if cb_session_changed cb then Some [N_session_changed (cb_client cb) cookie] else None)
     (s_observers s)"

definition OnSessionStarted ::
  "nat option \<Rightarrow> data_mq option \<Rightarrow> audio_configuration \<Rightarrow> latency_mode list \<Rightarrow> audio_session \<Rightarrow>
   (notification list \<times> audio_session) ub" where
  "OnSessionStarted stack_iface mq_desc audio_config latency_modes s =
     (if stack_iface = None then Some ([], s)
      else
        let (config_ok, s) = UpdateAudioConfig audio_config s in
        if \<not> config_ok then Some ([], s)
        else
          let (path_ok, s) = UpdateDataPath mq_desc s in
          if \<not> path_ok then Some ([], s\<lparr>s_audio_config := None\<rparr>)
          else
            let s = s\<lparr>s_stack_iface := stack_iface, s_latency_modes := latency_modes\<rparr> in
            do { ns \<leftarrow> ReportSessionStatus s; Some (ns, s) })"

definition OnSessionEnded :: "audio_session \<Rightarrow> (notification list \<times> audio_session) ub" where
  "OnSessionEnded s =
     (let toggled = IsSessionReady s;
          s = s\<lparr>s_audio_config := None, s_stack_iface := None\<rparr>;
          (_, s) = UpdateDataPath None s
      in if toggled then do { ns \<leftarrow> ReportSessionStatus s; Some (ns, s) } else Some ([], s))"

definition ReportAudioConfigChanged ::
  "audio_configuration \<Rightarrow> audio_session \<Rightarrow> (notification list \<times> audio_session) ub" where
  "ReportAudioConfigChanged audio_config s =
     (if s_session_type s \<noteq> LE_AUDIO_HARDWARE_OFFLOAD_ENCODING_DATAPATH \<and>
         s_session_type s \<noteq> LE_AUDIO_HARDWARE_OFFLOAD_DECODING_DATAPATH then Some ([], s)
      else if getTag audio_config \<noteq> Tag_leAudioConfig then Some ([], s)
      else
        let s = s\<lparr>s_audio_config := Some audio_config\<rparr> in
        do {
          ns \<leftarrow> for_observers
            (\<lambda>cookie cb. Some (if cb_audio_configuration_changed cb
               then [N_audio_configuration_changed (cb_client cb) cookie] else []))
            (s_observers s);
          Some (ns, s)
        })"

definition ReportControlStatus ::
  "bool \<Rightarrow> bluetooth_audio_status \<Rightarrow> audio_session \<Rightarrow> (notification list \<times> audio_session) ub" where
  "ReportControlStatus start_resp status s = do {
     ns \<leftarrow> for_observers
       (\<lambda>cookie cb. if cb_control_result cb
          then Some [N_control_result (cb_client cb) cookie start_resp status] else None)
       (s_observers s);
     Some (ns, s)
   }"

definition ReportLowLatencyModeAllowedChanged ::
  "bool \<Rightarrow> audio_session \<Rightarrow> (notification list \<times> audio_session) ub" where
  "ReportLowLatencyModeAllowedChanged allowed s =
     (if s_session_type s \<noteq> A2DP_HARDWARE_OFFLOAD_ENCODING_DATAPATH then Some ([], s)
      else
        let s = s\<lparr>s_low_latency_allowed := allowed\<rparr>;
            s = (if s_low_latency_allowed s \<and> LOW_LATENCY \<notin> set (s_latency_modes s)
                 then s\<lparr>s_latency_modes := s_latency_modes s @ [LOW_LATENCY]\<rparr> else s)
        in do {
          ns \<leftarrow> for_observers
            (\<lambda>cookie cb. Some (if cb_low_latency_mode_allowed cb
               then [N_low_latency_mode_allowed (cb_client cb) cookie allowed] else []))
            (s_observers s);
          Some (ns, s)
        })"

section \<open>Observers\<close>

text \<open>The search for a free cookie below the upper bound.\<close>

function find_cookie :: "(u16 \<times> 'cb) list \<Rightarrow> u16 \<Rightarrow> u16 \<Rightarrow> u16" where
  "find_cookie obs upper cookie =
     (if cookie < upper then
        if map_of obs cookie = None then cookie else find_cookie obs upper (cookie + 1)
      else cookie)"
  by pat_completeness auto

lemma unat_suc_below: "(c :: u16) < u \<Longrightarrow> unat (c + 1) = unat c + 1"
proof -
  assume "c < u"
  then have "unat c + 1 < 2 ^ 16" using unsigned_less [of u, where ?'a = nat] by (simp add: word_less_nat_alt)
  then show ?thesis by (simp add: unat_word_ariths)
qed

termination find_cookie
  by (relation "measure (\<lambda>(obs, upper, cookie). unat upper - unat cookie)")
    (auto simp: unat_suc_below word_less_nat_alt)

declare find_cookie.simps [simp del]

definition RegisterStatusCback ::
  "(session_type \<Rightarrow> u16) \<Rightarrow> port_status_callbacks \<Rightarrow> audio_session \<Rightarrow> u16 \<times> audio_session" where
  "RegisterStatusCback code callbacks s =
     (let upper = ObserversCookieGetUpperBound code (s_session_type s);
          cookie = find_cookie (s_observers s) upper (ObserversCookieGetInitValue code (s_session_type s))
      in if cookie \<ge> upper then (kObserversCookieUndefined code, s)
         else (cookie, s\<lparr>s_observers := AList.update cookie callbacks (s_observers s)\<rparr>))"

definition UnregisterStatusCback :: "u16 \<Rightarrow> audio_session \<Rightarrow> audio_session" where
  "UnregisterStatusCback cookie s = s\<lparr>s_observers := AList.delete cookie (s_observers s)\<rparr>"

section \<open>Stream control\<close>

text \<open>In these operations \<open>ok\<close> is what \<open>isOk()\<close> reports of the reply of the Bluetooth stack.\<close>

definition StartStream :: "bool \<Rightarrow> bool \<Rightarrow> audio_session \<Rightarrow> bool \<times> stack_call list" where
  "StartStream ok is_low_latency s =
     (if \<not> IsSessionReady s then (False, [])
      else if \<not> ok then (False, [SC_startStream is_low_latency])
      else (True, [SC_startStream is_low_latency]))"

definition SuspendStream :: "bool \<Rightarrow> audio_session \<Rightarrow> bool \<times> stack_call list" where
  "SuspendStream ok s =
     (if \<not> IsSessionReady s then (False, [])
      else if \<not> ok then (False, [SC_suspendStream])
      else (True, [SC_suspendStream]))"

definition StopStream :: "audio_session \<Rightarrow> stack_call list" where
  "StopStream s = (if \<not> IsSessionReady s then [] else [SC_stopStream])"

text \<open>\<open>reply\<close>: whether the stack answered, and the position it wrote through the reference.\<close>

definition GetPresentationPosition ::
  "bool \<times> presentation_position \<Rightarrow> presentation_position \<Rightarrow> audio_session \<Rightarrow>
   bool \<times> presentation_position \<times> stack_call list" where
  "GetPresentationPosition reply pos s =
     (if \<not> IsSessionReady s then (False, pos, [])
      else
        let retval = False; (ok, pos) = reply in
        if \<not> ok then (False, pos, [SC_getPresentationPosition])
        else (retval, pos, [SC_getPresentationPosition]))"

definition metadata_refused :: "session_type \<Rightarrow> bool" where
  "metadata_refused st \<longleftrightarrow>
     st = A2DP_SOFTWARE_ENCODING_DATAPATH \<or> st = A2DP_HARDWARE_OFFLOAD_ENCODING_DATAPATH \<or>
     st = A2DP_SOFTWARE_DECODING_DATAPATH \<or> st = A2DP_HARDWARE_OFFLOAD_DECODING_DATAPATH"

definition UpdateSourceMetadata ::
  "bool \<Rightarrow> playback_track list \<Rightarrow> audio_session \<Rightarrow> bool \<times> stack_call list" where
  "UpdateSourceMetadata ok hal_source_metadata s =
     (if \<not> IsSessionReady s then (False, [])
      else if metadata_refused (s_session_type s) then (False, [])
      else if \<not> ok then (False, [SC_updateSourceMetadata hal_source_metadata])
      else (True, [SC_updateSourceMetadata hal_source_metadata]))"

definition UpdateSinkMetadata ::
  "bool \<Rightarrow> record_track list \<Rightarrow> audio_session \<Rightarrow> bool \<times> stack_call list" where
  "UpdateSinkMetadata ok hal_sink_metadata s =
     (if \<not> IsSessionReady s then (False, [])
      else if metadata_refused (s_session_type s) then (False, [])
      else if \<not> ok then (False, [SC_updateSinkMetadata hal_sink_metadata])
      else (True, [SC_updateSinkMetadata hal_sink_metadata]))"

text \<open>
  The overloads for the C structures: \<open>track_count\<close> tracks are copied out of an array. A read
  past the end of the array is undefined.
\<close>

fun copy_tracks :: "('a \<Rightarrow> 'b) \<Rightarrow> 'a list \<Rightarrow> nat \<Rightarrow> nat \<Rightarrow> 'b list ub" where
  "copy_tracks conv tracks i 0 = Some []"
| "copy_tracks conv tracks i (Suc n) =
     (if i < length tracks then
        do { rest \<leftarrow> copy_tracks conv tracks (Suc i) n; Some (conv (tracks ! i) # rest) }
      else None)"

record playback_track_metadata =
  ct_usage :: int
  ct_content_type :: int
  ct_gain :: u32

record record_track_metadata =
  kt_source :: int
  kt_gain :: u32

record source_metadata =
  sm_track_count :: nat
  sm_tracks :: "playback_track_metadata list"

record sink_metadata =
  km_track_count :: nat
  km_tracks :: "record_track_metadata list"

definition UpdateSourceMetadata_legacy ::
  "bool \<Rightarrow> source_metadata \<Rightarrow> audio_session \<Rightarrow> stack_call list ub" where
  "UpdateSourceMetadata_legacy ok m s = do {
     tracks \<leftarrow> copy_tracks (\<lambda>t. \<lparr>pt_usage = ct_usage t, pt_content_type = ct_content_type t,
         pt_gain = ct_gain t, pt_tags = []\<rparr>) (sm_tracks m) 0 (sm_track_count m);
     Some (snd (UpdateSourceMetadata ok tracks s))
   }"

definition UpdateSinkMetadata_legacy ::
  "bool \<Rightarrow> sink_metadata \<Rightarrow> audio_session \<Rightarrow> stack_call list ub" where
  "UpdateSinkMetadata_legacy ok m s = do {
     tracks \<leftarrow> copy_tracks (\<lambda>t. \<lparr>rt_source = kt_source t, rt_gain = kt_gain t, rt_tags = []\<rparr>)
       (km_tracks m) 0 (km_track_count m);
     Some (snd (UpdateSinkMetadata ok tracks s))
   }"

definition GetSupportedLatencyModes :: "audio_session \<Rightarrow> latency_mode list" where
  "GetSupportedLatencyModes s =
     (if \<not> IsSessionReady s then []
      else if s_session_type s = LE_AUDIO_HARDWARE_OFFLOAD_ENCODING_DATAPATH then
        filter (\<lambda>mode. mode \<noteq> LOW_LATENCY) (s_latency_modes s)
      else
        filter (\<lambda>mode. \<not> (\<not> s_low_latency_allowed s \<and> mode = LOW_LATENCY) \<and>
           \<not> (mode = DYNAMIC_SPATIAL_AUDIO_SOFTWARE \<or> mode = DYNAMIC_SPATIAL_AUDIO_HARDWARE))
          (s_latency_modes s))"

definition SetLatencyMode :: "latency_mode \<Rightarrow> audio_session \<Rightarrow> stack_call list" where
  "SetLatencyMode mode s = (if \<not> IsSessionReady s then [] else [SC_setLatencyMode mode])"

text \<open>\<open>IsAidlAvailable\<close> caches the answer of the service manager in two static flags.\<close>

record aidl_flags =
  is_aidl_checked :: bool
  is_aidl_available :: bool

definition IsAidlAvailable :: "bool \<Rightarrow> aidl_flags \<Rightarrow> bool \<times> aidl_flags" where
  "IsAidlAvailable service_found f =
     (if is_aidl_checked f then (is_aidl_available f, f)
      else
        let f = f\<lparr>is_aidl_available := service_found\<rparr>;
            f = f\<lparr>is_aidl_checked := True\<rparr>
        in (is_aidl_available f, f))"

section \<open>The data path\<close>

text \<open>
  The two loops take the lock anew in each iteration, so other threads and the process at the
  other end of the queue act between iterations. What an iteration sees is an argument: for
  each iteration the session, what the queue has to offer, and whether the transfer succeeds. The
  counters are \<open>size_t\<close>; \<open>total\<close> never exceeds \<open>bytes\<close>, so \<open>bytes - total\<close> does not wrap and
  they are natural numbers here.
\<close>

record pcm_obs =
  ob_session :: audio_session
  ob_available :: nat
  ob_ok :: bool

definition kFmqSendTimeoutMs :: int where "kFmqSendTimeoutMs = 1000"
definition kFmqReceiveTimeoutMs :: int where "kFmqReceiveTimeoutMs = 1000"
definition kWritePollMs :: int where "kWritePollMs = 1"
definition kReadPollMs :: int where "kReadPollMs = 1"

text \<open>The result is the count returned and the elements written to the queue.\<close>

function OutWrite_loop ::
  "(nat \<Rightarrow> pcm_obs) \<Rightarrow> 'b list \<Rightarrow> nat \<Rightarrow> nat \<Rightarrow> nat \<Rightarrow> int \<Rightarrow> 'b list \<Rightarrow> (nat \<times> 'b list) ub" where
  "OutWrite_loop env buffer bytes i total_written timeout_ms out =
     (let s = ob_session (env i) in
      if \<not> IsSessionReady s then Some (total_written, out)
      else if s_data_mq s = None then None
      else
        let num_bytes_to_write = ob_available (env i) in
        if num_bytes_to_write \<noteq> 0 then
          let n = (if num_bytes_to_write > bytes - total_written then bytes - total_written
                   else num_bytes_to_write) in
          if \<not> ob_ok (env i) then Some (total_written, out)
          else
            let out' = out @ take n (drop total_written buffer); total' = total_written + n in
            if total' < bytes then OutWrite_loop env buffer bytes (Suc i) total' timeout_ms out'
            else Some (total', out')
        else if timeout_ms \<ge> kWritePollMs then
          let timeout' = timeout_ms - kWritePollMs in
          if total_written < bytes then OutWrite_loop env buffer bytes (Suc i) total_written timeout' out
          else Some (total_written, out)
        else Some (total_written, out))"
  by pat_completeness auto

termination OutWrite_loop
  by (relation "measure (\<lambda>(env, buffer, bytes, i, total, timeout, out). (bytes - total) + nat timeout)")
    (auto simp: kWritePollMs_def)

declare OutWrite_loop.simps [simp del]

definition OutWritePcmData ::
  "(nat \<Rightarrow> pcm_obs) \<Rightarrow> 'b list option \<Rightarrow> nat \<Rightarrow> (nat \<times> 'b list) ub" where
  "OutWritePcmData env buffer bytes =
     (case buffer of
        None \<Rightarrow> Some (0, [])
      | Some b \<Rightarrow> if bytes = 0 then Some (0, []) else OutWrite_loop env b bytes 0 0 kFmqSendTimeoutMs [])"

text \<open>
  Reading: an iteration sees the elements waiting in the queue, in \<open>src\<close>; the elements read so
  far are the contents of the caller's buffer.
\<close>

function InRead_loop ::
  "(nat \<Rightarrow> pcm_obs) \<Rightarrow> (nat \<Rightarrow> 'b list) \<Rightarrow> nat \<Rightarrow> nat \<Rightarrow> nat \<Rightarrow> int \<Rightarrow> 'b list \<Rightarrow> (nat \<times> 'b list) ub" where
  "InRead_loop env src bytes i total_read timeout_ms buffer =
     (let s = ob_session (env i) in
      if \<not> IsSessionReady s then Some (total_read, buffer)
      else if s_data_mq s = None then None
      else
        let num_bytes_to_read = length (src i) in
        if num_bytes_to_read \<noteq> 0 then
          let n = (if num_bytes_to_read > bytes - total_read then bytes - total_read
                   else num_bytes_to_read) in
          if \<not> ob_ok (env i) then Some (total_read, buffer)
          else
            let buffer' = buffer @ take n (src i); total' = total_read + n in
            if total' < bytes then InRead_loop env src bytes (Suc i) total' timeout_ms buffer'
            else Some (total', buffer')
        else if timeout_ms \<ge> kReadPollMs then
          let timeout' = timeout_ms - kReadPollMs in
          if total_read < bytes then InRead_loop env src bytes (Suc i) total_read timeout' buffer
          else Some (total_read, buffer)
        else Some (total_read, buffer))"
  by pat_completeness auto

termination InRead_loop
  by (relation "measure (\<lambda>(env, src, bytes, i, total, timeout, buffer). (bytes - total) + nat timeout)")
    (auto simp: kReadPollMs_def simp flip: length_greater_0_conv)

declare InRead_loop.simps [simp del]

definition InReadPcmData ::
  "(nat \<Rightarrow> pcm_obs) \<Rightarrow> (nat \<Rightarrow> 'b list) \<Rightarrow> bool \<Rightarrow> nat \<Rightarrow> (nat \<times> 'b list) ub" where
  "InReadPcmData env src buffer_null bytes =
     (if buffer_null \<or> bytes = 0 then Some (0, [])
      else InRead_loop env src bytes 0 0 kFmqReceiveTimeoutMs [])"

section \<open>The table of sessions and its wrappers\<close>

type_synonym sessions = "session_type \<rightharpoonup> audio_session"

definition GetSessionInstance :: "session_type \<Rightarrow> sessions \<Rightarrow> audio_session \<times> sessions" where
  "GetSessionInstance st m =
     (case m st of
        Some s \<Rightarrow> (s, m)
      | None \<Rightarrow> (BluetoothAudioSession st, m(st \<mapsto> BluetoothAudioSession st)))"

text \<open>
  The wrappers fetch the session, which is never null, and apply the operation to the shared
  object.
\<close>

definition on_session ::
  "session_type \<Rightarrow> (audio_session \<Rightarrow> ('r \<times> audio_session) ub) \<Rightarrow> sessions \<Rightarrow> ('r \<times> sessions) ub" where
  "on_session st f m =
     (let (s, m) = GetSessionInstance st m in
      do { (r, s') \<leftarrow> f s; Some (r, m(st \<mapsto> s')) })"

definition read_session :: "session_type \<Rightarrow> (audio_session \<Rightarrow> 'r) \<Rightarrow> sessions \<Rightarrow> 'r \<times> sessions" where
  "read_session st f m = (let (s, m) = GetSessionInstance st m in (f s, m))"

definition Report_OnSessionStarted ::
  "session_type \<Rightarrow> nat option \<Rightarrow> data_mq option \<Rightarrow> audio_configuration \<Rightarrow> latency_mode list \<Rightarrow> sessions \<Rightarrow>
   (notification list \<times> sessions) ub" where
  "Report_OnSessionStarted st host_iface data_mq audio_config latency_modes =
     on_session st (OnSessionStarted host_iface data_mq audio_config latency_modes)"

definition Report_OnSessionEnded :: "session_type \<Rightarrow> sessions \<Rightarrow> (notification list \<times> sessions) ub" where
  "Report_OnSessionEnded st = on_session st OnSessionEnded"

definition Report_ReportControlStatus ::
  "session_type \<Rightarrow> bool \<Rightarrow> bluetooth_audio_status \<Rightarrow> sessions \<Rightarrow> (notification list \<times> sessions) ub" where
  "Report_ReportControlStatus st start_resp status = on_session st (ReportControlStatus start_resp status)"

definition Report_ReportAudioConfigChanged ::
  "session_type \<Rightarrow> audio_configuration \<Rightarrow> sessions \<Rightarrow> (notification list \<times> sessions) ub" where
  "Report_ReportAudioConfigChanged st audio_config = on_session st (ReportAudioConfigChanged audio_config)"

definition Report_ReportLowLatencyModeAllowedChanged ::
  "session_type \<Rightarrow> bool \<Rightarrow> sessions \<Rightarrow> (notification list \<times> sessions) ub" where
  "Report_ReportLowLatencyModeAllowedChanged st allowed =
     on_session st (ReportLowLatencyModeAllowedChanged allowed)"

definition Control_IsSessionReady :: "session_type \<Rightarrow> sessions \<Rightarrow> bool \<times> sessions" where
  "Control_IsSessionReady st = read_session st IsSessionReady"

definition Control_RegisterControlResultCback ::
  "(session_type \<Rightarrow> u16) \<Rightarrow> session_type \<Rightarrow> port_status_callbacks \<Rightarrow> sessions \<Rightarrow> (u16 \<times> sessions) ub" where
  "Control_RegisterControlResultCback code st cbacks =
     on_session st (\<lambda>s. Some (RegisterStatusCback code cbacks s))"

definition Control_UnregisterControlResultCback ::
  "session_type \<Rightarrow> u16 \<Rightarrow> sessions \<Rightarrow> (unit \<times> sessions) ub" where
  "Control_UnregisterControlResultCback st cookie =
     on_session st (\<lambda>s. Some ((), UnregisterStatusCback cookie s))"

definition Control_GetAudioConfig ::
  "config_defaults \<Rightarrow> session_type \<Rightarrow> sessions \<Rightarrow> audio_configuration ub \<times> sessions" where
  "Control_GetAudioConfig d st = read_session st (GetAudioConfig d)"

definition Control_StartStream ::
  "bool \<Rightarrow> session_type \<Rightarrow> bool \<Rightarrow> sessions \<Rightarrow> (bool \<times> stack_call list) \<times> sessions" where
  "Control_StartStream ok st low_latency = read_session st (StartStream ok low_latency)"

definition Control_SuspendStream ::
  "bool \<Rightarrow> session_type \<Rightarrow> sessions \<Rightarrow> (bool \<times> stack_call list) \<times> sessions" where
  "Control_SuspendStream ok st = read_session st (SuspendStream ok)"

definition Control_StopStream :: "session_type \<Rightarrow> sessions \<Rightarrow> stack_call list \<times> sessions" where
  "Control_StopStream st = read_session st StopStream"

definition Control_GetPresentationPosition ::
  "bool \<times> presentation_position \<Rightarrow> session_type \<Rightarrow> presentation_position \<Rightarrow> sessions \<Rightarrow>
   (bool \<times> presentation_position \<times> stack_call list) \<times> sessions" where
  "Control_GetPresentationPosition reply st pos = read_session st (GetPresentationPosition reply pos)"

definition Control_UpdateSourceMetadata ::
  "bool \<Rightarrow> session_type \<Rightarrow> source_metadata \<Rightarrow> sessions \<Rightarrow> stack_call list ub \<times> sessions" where
  "Control_UpdateSourceMetadata ok st m = read_session st (UpdateSourceMetadata_legacy ok m)"

definition Control_UpdateSinkMetadata ::
  "bool \<Rightarrow> session_type \<Rightarrow> sink_metadata \<Rightarrow> sessions \<Rightarrow> stack_call list ub \<times> sessions" where
  "Control_UpdateSinkMetadata ok st m = read_session st (UpdateSinkMetadata_legacy ok m)"

definition Control_UpdateSourceMetadata_aidl ::
  "bool \<Rightarrow> session_type \<Rightarrow> playback_track list \<Rightarrow> sessions \<Rightarrow> (bool \<times> stack_call list) \<times> sessions" where
  "Control_UpdateSourceMetadata_aidl ok st tracks = read_session st (UpdateSourceMetadata ok tracks)"

definition Control_UpdateSinkMetadata_aidl ::
  "bool \<Rightarrow> session_type \<Rightarrow> record_track list \<Rightarrow> sessions \<Rightarrow> (bool \<times> stack_call list) \<times> sessions" where
  "Control_UpdateSinkMetadata_aidl ok st tracks = read_session st (UpdateSinkMetadata ok tracks)"

definition Control_GetSupportedLatencyModes :: "session_type \<Rightarrow> sessions \<Rightarrow> latency_mode list \<times> sessions" where
  "Control_GetSupportedLatencyModes st = read_session st GetSupportedLatencyModes"

definition Control_SetLatencyMode ::
  "session_type \<Rightarrow> latency_mode \<Rightarrow> sessions \<Rightarrow> stack_call list \<times> sessions" where
  "Control_SetLatencyMode st mode = read_session st (SetLatencyMode mode)"

end
