(* ===== verification/Session_Laws.thy ===== *)
theory Session_Laws
  imports Audio_Session
begin

text \<open>
  What a session guarantees: the cookies it hands out, the registry of observers as an interface
  (\<open>observer_registry\<close>), the invariant of the reachable states, which changes of readiness are
  announced, and the loops of the data path.
\<close>

section \<open>Cookies\<close>

text \<open>What the code relies on of the numeric values of \<open>SessionType\<close>.\<close>

definition numbering :: "(session_type \<Rightarrow> u16) \<Rightarrow> bool" where
  "numbering code \<longleftrightarrow> inj code \<and> (\<forall>st. code st < 256) \<and> code ST_UNKNOWN = 0"

lemma init_value_eq: "ObserversCookieGetInitValue code st = push_bit 8 (take_bit 8 (code st))"
proof -
  have m: "(0xff00 :: u16) = push_bit 8 (mask 8)" by (simp add: mask_eq_exp_minus_1)
  show ?thesis unfolding ObserversCookieGetInitValue_def m
    by (rule bit_word_eqI) (auto simp: bit_simps)
qed

lemma unat_init_value: "unat (ObserversCookieGetInitValue code st) = 256 * (unat (code st) mod 256)"
proof -
  have "unat (take_bit 8 (code st)) = unat (code st) mod 256"
    unfolding unsigned_take_bit_eq by (simp add: take_bit_eq_mod)
  then show ?thesis
    by (simp add: init_value_eq push_bit_eq_mult unat_word_ariths)
qed

lemma unat_upper_bound:
  "unat (ObserversCookieGetUpperBound code st) = unat (ObserversCookieGetInitValue code st) + 16"
proof -
  have "ObserversCookieGetUpperBound code st = ObserversCookieGetInitValue code st + 16"
    by (simp add: ObserversCookieGetUpperBound_def ObserversCookieGetInitValue_def kObserversCookieSize_def)
  then show ?thesis using unat_init_value [of code st] by (simp add: unat_word_ariths)
qed

lemma cookie_bounds_le: "ObserversCookieGetInitValue code st \<le> ObserversCookieGetUpperBound code st"
  by (simp add: word_le_nat_alt unat_upper_bound)

definition own_cookie :: "(session_type \<Rightarrow> u16) \<Rightarrow> session_type \<Rightarrow> u16 \<Rightarrow> bool" where
  "own_cookie code st c \<longleftrightarrow>
     ObserversCookieGetInitValue code st \<le> c \<and> c < ObserversCookieGetUpperBound code st"

lemma own_cookie_unat:
  "own_cookie code st c \<longleftrightarrow>
     256 * (unat (code st) mod 256) \<le> unat c \<and> unat c < 256 * (unat (code st) mod 256) + 16"
  by (simp add: own_cookie_def word_le_nat_alt word_less_nat_alt unat_upper_bound unat_init_value)

lemma cookie_session_type_div: "unat (ObserversCookieGetSessionType c) = unat c div 256"
proof -
  have "(0x00ff :: u16) = mask 8" by (simp add: mask_eq_exp_minus_1)
  then have "ObserversCookieGetSessionType c = take_bit 8 (drop_bit 8 c)"
    by (simp add: ObserversCookieGetSessionType_def take_bit_eq_mask)
  moreover have "unat c < 65536" using unsigned_less [of c, where ?'a = nat] by simp
  then have "unat c div 256 < 256" by (simp add: less_mult_imp_div_less)
  ultimately show ?thesis using \<open>unat c < 65536\<close>
    by (simp only: unsigned_take_bit_eq unsigned_drop_bit_eq) (simp add: take_bit_eq_mod drop_bit_eq_div)
qed

lemma own_cookie_session_type:
  assumes "numbering code" "own_cookie code st c"
  shows "ObserversCookieGetSessionType c = code st"
proof -
  have "unat (code st) < 256" using assms(1) by (simp add: numbering_def word_less_nat_alt)
  then have "unat c div 256 = unat (code st)"
    using assms(2) by (intro div_nat_eqI) (auto simp: own_cookie_unat)
  then show ?thesis by (simp add: cookie_session_type_div word_unat_eq_iff)
qed

lemma own_cookie_defined:
  assumes "numbering code" "st \<noteq> ST_UNKNOWN" "own_cookie code st c"
  shows "c \<noteq> kObserversCookieUndefined code"
proof
  assume "c = kObserversCookieUndefined code"
  then have "ObserversCookieGetSessionType c = 0"
    using assms(1) by (simp add: numbering_def kObserversCookieUndefined_def ObserversCookieGetSessionType_def)
  then have "code st = code ST_UNKNOWN"
    using own_cookie_session_type [OF assms(1,3)] assms(1) by (simp add: numbering_def)
  then show False using assms(1,2) by (metis injD numbering_def)
qed

section \<open>The search for a cookie\<close>

lemma find_cookie_spec:
  "c \<le> u \<Longrightarrow> c \<le> find_cookie obs u c \<and> find_cookie obs u c \<le> u \<and>
     (\<forall>k. c \<le> k \<and> k < find_cookie obs u c \<longrightarrow> map_of obs k \<noteq> None) \<and>
     (find_cookie obs u c < u \<longrightarrow> map_of obs (find_cookie obs u c) = None)"
proof (induction obs u c rule: find_cookie.induct)
  case (1 obs upper cookie)
  show ?case
  proof (cases "cookie < upper \<and> map_of obs cookie \<noteq> None")
    case True
    then have s: "unat (cookie + 1) = unat cookie + 1" using unat_suc_below by blast
    with True have "cookie + 1 \<le> upper" by (simp add: word_le_nat_alt word_less_nat_alt)
    note IH = 1(1) [OF conjunct1 [OF True] conjunct2 [OF True] this]
    have k: "k = cookie \<or> cookie + 1 \<le> k" if "cookie \<le> k" for k
      using that s by (auto simp: word_le_nat_alt word_unat_eq_iff)
    have e: "find_cookie obs upper cookie = find_cookie obs upper (cookie + 1)"
      using True by (subst find_cookie.simps) auto
    show ?thesis unfolding e
    proof (intro conjI allI impI)
      show "cookie \<le> find_cookie obs upper (cookie + 1)"
        using IH s by (simp add: word_le_nat_alt)
    next
      fix j assume "cookie \<le> j \<and> j < find_cookie obs upper (cookie + 1)"
      then show "map_of obs j \<noteq> None" using IH k [of j] True by blast
    qed (use IH in blast)+
  next
    case False
    then have "find_cookie obs upper cookie = cookie" by (subst find_cookie.simps) auto
    then show ?thesis using 1 False by auto
  qed
qed

lemma register_cases:
  obtains (full) "RegisterStatusCback code cb s = (kObserversCookieUndefined code, s)"
      "\<forall>k. own_cookie code (s_session_type s) k \<longrightarrow> map_of (s_observers s) k \<noteq> None"
    | (free) c where
      "RegisterStatusCback code cb s = (c, s\<lparr>s_observers := AList.update c cb (s_observers s)\<rparr>)"
      "own_cookie code (s_session_type s) c" "map_of (s_observers s) c = None"
      "\<forall>k. own_cookie code (s_session_type s) k \<and> k < c \<longrightarrow> map_of (s_observers s) k \<noteq> None"
proof -
  define st where "st = s_session_type s"
  define u where "u = ObserversCookieGetUpperBound code st"
  define i where "i = ObserversCookieGetInitValue code st"
  define r where "r = find_cookie (s_observers s) u i"
  have sp: "i \<le> r" "r \<le> u" "\<forall>k. i \<le> k \<and> k < r \<longrightarrow> map_of (s_observers s) k \<noteq> None"
    "r < u \<longrightarrow> map_of (s_observers s) r = None"
    using find_cookie_spec [of i u "s_observers s"] cookie_bounds_le [of code st] by (auto simp: i_def u_def r_def)
  show thesis
  proof (cases "r < u")
    case True
    then have "\<not> u \<le> r" by simp
    then have "RegisterStatusCback code cb s = (r, s\<lparr>s_observers := AList.update r cb (s_observers s)\<rparr>)"
      by (simp add: RegisterStatusCback_def r_def i_def u_def st_def Let_def)
    moreover have "own_cookie code st r" using True sp(1) by (simp add: own_cookie_def i_def u_def)
    moreover have "\<forall>k. own_cookie code st k \<and> k < r \<longrightarrow> map_of (s_observers s) k \<noteq> None"
      using sp(3) by (simp add: own_cookie_def i_def)
    ultimately show thesis using free [of r] True sp(4) by (simp add: st_def)
  next
    case False
    then have "r = u" using sp(2) by simp
    then have "RegisterStatusCback code cb s = (kObserversCookieUndefined code, s)"
      by (simp add: RegisterStatusCback_def r_def i_def u_def st_def Let_def)
    moreover have "\<forall>k. own_cookie code st k \<longrightarrow> map_of (s_observers s) k \<noteq> None"
      using sp(3) \<open>r = u\<close> by (simp add: own_cookie_def i_def u_def)
    ultimately show thesis using full by (simp add: st_def)
  qed
qed

section \<open>The table of sessions\<close>

abbreviation session_of :: "session_type \<Rightarrow> sessions \<Rightarrow> audio_session" where
  "session_of st m \<equiv> fst (GetSessionInstance st m)"

lemma session_of_create [simp]:
  "session_of st' (snd (GetSessionInstance st m)) = session_of st' m"
  by (auto simp: GetSessionInstance_def split: option.split)

lemma session_of_upd: "session_of st' (m(st \<mapsto> s)) = (if st' = st then s else session_of st' m)"
  by (auto simp: GetSessionInstance_def split: option.split)

lemma read_session_eq: "read_session st f m = (f (session_of st m), snd (GetSessionInstance st m))"
  by (simp add: read_session_def case_prod_beta)

lemma on_session_eq:
  "on_session st f m = map_option (\<lambda>(r, s'). (r, m(st \<mapsto> s'))) (f (session_of st m))"
proof -
  have u: "(snd (GetSessionInstance st m))(st \<mapsto> s) = m(st \<mapsto> s)" for s
    by (simp add: GetSessionInstance_def split: option.split)
  show ?thesis
    by (cases "f (session_of st m)")
      (auto simp: on_session_def case_prod_beta u split: prod.split)
qed

section \<open>The registry of observers\<close>

text \<open>
  What a port relies on of the session it registers with: a cookie it gets is new, names its
  callbacks until it is given back, and no other cookie is affected. A failed registration
  changes nothing.
\<close>

locale observer_registry =
  fixes reg :: "'cb \<Rightarrow> 's \<Rightarrow> u16 \<times> 's"
    and unreg :: "u16 \<Rightarrow> 's \<Rightarrow> 's"
    and observer :: "'s \<Rightarrow> u16 \<Rightarrow> 'cb option"
    and undef :: u16
    and inv :: "'s \<Rightarrow> bool"
  assumes reg_new: "inv s \<Longrightarrow> reg cb s = (c, s') \<Longrightarrow> c \<noteq> undef \<Longrightarrow>
      observer s c = None \<and> observer s' = (observer s)(c \<mapsto> cb)"
    and reg_full: "inv s \<Longrightarrow> reg cb s = (undef, s') \<Longrightarrow> s' = s"
    and reg_inv: "inv s \<Longrightarrow> reg cb s = (c, s') \<Longrightarrow> inv s'"
    and unreg_observer: "observer (unreg c s) = (observer s)(c := None)"
    and unreg_inv: "inv s \<Longrightarrow> inv (unreg c s)"
begin

lemma reg_unreg:
  assumes "inv s" "reg cb s = (c, s')" "c \<noteq> undef"
  shows "observer (unreg c s') = observer s"
  using reg_new [OF assms] by (auto simp: unreg_observer)

lemma reg_twice:
  assumes "inv s" "reg cb s = (c, s')" "c \<noteq> undef" "reg cb' s' = (c', s'')" "c' \<noteq> undef"
  shows "c \<noteq> c' \<and> observer s'' c = Some cb \<and> observer s'' c' = Some cb'"
  using reg_new [OF assms(1-3)] reg_new [OF reg_inv [OF assms(1,2)] assms(4,5)] by auto

lemma reg_keeps:
  assumes "inv s" "reg cb s = (c, s')" "observer s k = Some cb'"
  shows "observer s' k = Some cb'"
proof (cases "c = undef")
  case True
  then show ?thesis using reg_full [of s cb s'] assms by simp
next
  case False
  then show ?thesis using reg_new [OF assms(1,2)] assms(3) by auto
qed

end

text \<open>The invariant of the table of one session.\<close>

definition registry_inv :: "(session_type \<Rightarrow> u16) \<Rightarrow> audio_session \<Rightarrow> bool" where
  "registry_inv code s \<longleftrightarrow>
     numbering code \<and> s_session_type s \<noteq> ST_UNKNOWN \<and>
     distinct (map fst (s_observers s)) \<and>
     (\<forall>c \<in> fst ` set (s_observers s). own_cookie code (s_session_type s) c)"

lemma registry_inv_update:
  "registry_inv code s \<Longrightarrow> own_cookie code (s_session_type s) c \<Longrightarrow>
   registry_inv code (s\<lparr>s_observers := AList.update c cb (s_observers s)\<rparr>)"
  by (auto simp: registry_inv_def dom_update distinct_update)

lemma registry_inv_delete:
  "registry_inv code s \<Longrightarrow> registry_inv code (UnregisterStatusCback c s)"
  by (auto simp: registry_inv_def UnregisterStatusCback_def distinct_removeAll delete_keys
      simp flip: set_map)

interpretation aidl: observer_registry
  "RegisterStatusCback code" UnregisterStatusCback "\<lambda>s. map_of (s_observers s)"
  "kObserversCookieUndefined code" "registry_inv code" for code
proof unfold_locales
  fix s cb c s'
  assume i: "registry_inv code s" and r: "RegisterStatusCback code cb s = (c, s')"
  show "c \<noteq> kObserversCookieUndefined code \<Longrightarrow>
      map_of (s_observers s) c = None \<and> map_of (s_observers s') = (map_of (s_observers s))(c \<mapsto> cb)"
    using r by (cases rule: register_cases [of code cb s]) (auto simp: update_conv')
  show "registry_inv code s'"
    using r i registry_inv_update [OF i]
    by (cases rule: register_cases [of code cb s]) auto
next
  fix s cb s'
  assume i: "registry_inv code s" and r: "RegisterStatusCback code cb s = (kObserversCookieUndefined code, s')"
  show "s' = s"
    using r i own_cookie_defined [of code "s_session_type s"]
    by (cases rule: register_cases [of code cb s]) (auto simp: registry_inv_def)
qed (auto simp: UnregisterStatusCback_def delete_conv' registry_inv_delete [unfolded UnregisterStatusCback_def])

section \<open>Notifications\<close>

lemma for_observers_total:
  "(\<forall>(c, cb) \<in> set obs. f c cb = Some (g c cb)) \<Longrightarrow>
   for_observers f obs = Some (concat (map (\<lambda>(c, cb). g c cb) obs))"
  by (induction obs) auto

lemma for_observers_Some [simp]:
  "for_observers (\<lambda>c cb. Some (g c cb)) obs = Some (concat (map (\<lambda>(c, cb). g c cb) obs))"
  by (rule for_observers_total) auto

text \<open>Observers whose mandatory callbacks are set, as the audio module's ports register them.\<close>

definition callbacks_set :: "audio_session \<Rightarrow> bool" where
  "callbacks_set s \<longleftrightarrow>
     list_all (\<lambda>(c, cb). cb_control_result cb \<and> cb_session_changed cb) (s_observers s)"

definition session_changed_all :: "audio_session \<Rightarrow> notification list" where
  "session_changed_all s = map (\<lambda>(c, cb). N_session_changed (cb_client cb) c) (s_observers s)"

lemma ReportSessionStatus_all:
  assumes "callbacks_set s"
  shows "ReportSessionStatus s = Some (session_changed_all s)"
proof -
  have "ReportSessionStatus s = Some (concat (map (\<lambda>(c, cb). [N_session_changed (cb_client cb) c]) (s_observers s)))"
    unfolding ReportSessionStatus_def
    by (rule for_observers_total) (use assms in \<open>auto simp: callbacks_set_def list_all_iff\<close>)
  also have "concat (map (\<lambda>(c, cb). [N_session_changed (cb_client cb) c]) obs)
      = map (\<lambda>(c, cb). N_session_changed (cb_client cb) c) obs" for obs
    by (induction obs) auto
  finally show ?thesis by (simp add: session_changed_all_def)
qed

lemma ReportControlStatus_all:
  assumes "callbacks_set s"
  shows "ReportControlStatus b st s =
     Some (map (\<lambda>(c, cb). N_control_result (cb_client cb) c b st) (s_observers s), s)"
proof -
  have "for_observers (\<lambda>cookie cb. if cb_control_result cb
          then Some [N_control_result (cb_client cb) cookie b st] else None) (s_observers s)
      = Some (concat (map (\<lambda>(c, cb). [N_control_result (cb_client cb) c b st]) (s_observers s)))"
    by (rule for_observers_total) (use assms in \<open>auto simp: callbacks_set_def list_all_iff\<close>)
  also have "concat (map (\<lambda>(c, cb). [N_control_result (cb_client cb) c b st]) obs)
      = map (\<lambda>(c, cb). N_control_result (cb_client cb) c b st) obs" for obs
    by (induction obs) auto
  finally show ?thesis by (simp add: ReportControlStatus_def)
qed

section \<open>The invariant of a session\<close>

text \<open>The kind of configuration that belongs to a session type.\<close>

fun config_tags :: "session_type \<Rightarrow> audio_configuration_tag list" where
  "config_tags ST_UNKNOWN = []"
| "config_tags A2DP_HARDWARE_OFFLOAD_ENCODING_DATAPATH = [Tag_a2dp, Tag_a2dpConfig]"
| "config_tags A2DP_HARDWARE_OFFLOAD_DECODING_DATAPATH = [Tag_a2dp, Tag_a2dpConfig]"
| "config_tags HFP_HARDWARE_OFFLOAD_DATAPATH = [Tag_hfpConfig]"
| "config_tags LE_AUDIO_HARDWARE_OFFLOAD_ENCODING_DATAPATH = [Tag_leAudioConfig]"
| "config_tags LE_AUDIO_HARDWARE_OFFLOAD_DECODING_DATAPATH = [Tag_leAudioConfig]"
| "config_tags LE_AUDIO_BROADCAST_HARDWARE_OFFLOAD_ENCODING_DATAPATH = [Tag_leAudioBroadcastConfig]"
| "config_tags _ = [Tag_pcmConfig]"

definition offload_session :: "session_type \<Rightarrow> bool" where
  "offload_session st \<longleftrightarrow> a2dp_offload_session st \<or> le_offload_session st \<or> st = HFP_HARDWARE_OFFLOAD_DATAPATH"

lemma IsSessionReady_iff:
  "IsSessionReady s \<longleftrightarrow>
     s_stack_iface s \<noteq> None \<and> s_audio_config s \<noteq> None \<and>
     (offload_session (s_session_type s) \<or> (\<exists>q. s_data_mq s = Some q \<and> mq_isValid q))"
  by (auto simp: IsSessionReady_def offload_session_def a2dp_offload_session_def le_offload_session_def
      Let_def split: option.splits)

lemma UpdateAudioConfig_iff:
  "UpdateAudioConfig c s =
     (if getTag c \<in> set (config_tags (s_session_type s)) then (True, s\<lparr>s_audio_config := Some c\<rparr>) else (False, s))"
  by (cases "s_session_type s") (simp_all add: UpdateAudioConfig_def Let_def)

lemma tag_le_audio:
  "st = LE_AUDIO_HARDWARE_OFFLOAD_ENCODING_DATAPATH \<or> st = LE_AUDIO_HARDWARE_OFFLOAD_DECODING_DATAPATH \<Longrightarrow>
   Tag_leAudioConfig \<in> set (config_tags st)"
  by auto

definition session_inv :: "session_type \<Rightarrow> audio_session \<Rightarrow> bool" where
  "session_inv st s \<longleftrightarrow>
     s_session_type s = st \<and>
     (\<forall>c. s_audio_config s = Some c \<longrightarrow> getTag c \<in> set (config_tags st)) \<and>
     (\<forall>q. s_data_mq s = Some q \<longrightarrow> mq_isValid q)"

text \<open>One step: a whole operation that may change the session, with its notifications.\<close>

inductive session_step ::
  "(session_type \<Rightarrow> u16) \<Rightarrow> audio_session \<Rightarrow> notification list \<Rightarrow> audio_session \<Rightarrow> bool" for code where
  started: "OnSessionStarted iface mq cfg modes s = Some (ns, s') \<Longrightarrow> session_step code s ns s'"
| ended: "OnSessionEnded s = Some (ns, s') \<Longrightarrow> session_step code s ns s'"
| config: "ReportAudioConfigChanged cfg s = Some (ns, s') \<Longrightarrow> session_step code s ns s'"
| control: "ReportControlStatus b st s = Some (ns, s') \<Longrightarrow> session_step code s ns s'"
| latency: "ReportLowLatencyModeAllowedChanged b s = Some (ns, s') \<Longrightarrow> session_step code s ns s'"
| reg: "RegisterStatusCback code cb s = (c, s') \<Longrightarrow> session_step code s [] s'"
| unreg: "session_step code s [] (UnregisterStatusCback c s)"

inductive session_reachable :: "(session_type \<Rightarrow> u16) \<Rightarrow> session_type \<Rightarrow> audio_session \<Rightarrow> bool" for code st where
  init: "session_reachable code st (BluetoothAudioSession st)"
| step: "session_reachable code st s \<Longrightarrow> session_step code s ns s' \<Longrightarrow> session_reachable code st s'"

text \<open>The branches of the operations.\<close>

lemma OnSessionStarted_eq:
  "OnSessionStarted iface mq cfg modes s =
     (if iface = None \<or> getTag cfg \<notin> set (config_tags (s_session_type s)) then Some ([], s)
      else if \<exists>q. mq = Some q \<and> \<not> mq_isValid q then Some ([], s\<lparr>s_audio_config := None, s_data_mq := None\<rparr>)
      else let s' = s\<lparr>s_audio_config := Some cfg, s_data_mq := mq, s_stack_iface := iface, s_latency_modes := modes\<rparr>
        in map_option (\<lambda>ns. (ns, s')) (ReportSessionStatus s'))"
  by (cases mq) (simp_all add: OnSessionStarted_def UpdateAudioConfig_iff UpdateDataPath_def map_option_case
      Let_def split: option.split bind_split)

lemma started_cases:
  assumes "OnSessionStarted iface mq cfg modes s = Some (ns, s')"
  obtains (refused) "iface = None \<or> getTag cfg \<notin> set (config_tags (s_session_type s))" "ns = []" "s' = s"
    | (bad_queue) q where "mq = Some q" "\<not> mq_isValid q" "ns = []"
        "s' = s\<lparr>s_audio_config := None, s_data_mq := None\<rparr>"
    | (started) p where "iface = Some p" "getTag cfg \<in> set (config_tags (s_session_type s))"
        "\<forall>q. mq = Some q \<longrightarrow> mq_isValid q"
        "s' = s\<lparr>s_audio_config := Some cfg, s_data_mq := mq, s_stack_iface := iface, s_latency_modes := modes\<rparr>"
        "ReportSessionStatus s' = Some ns"
proof -
  show thesis
  proof (cases "iface = None \<or> getTag cfg \<notin> set (config_tags (s_session_type s))")
    case True
    then show thesis using refused assms by (auto simp: OnSessionStarted_eq)
  next
    case False
    then obtain p where p: "iface = Some p" "getTag cfg \<in> set (config_tags (s_session_type s))" by auto
    show thesis
    proof (cases "\<exists>q. mq = Some q \<and> \<not> mq_isValid q")
      case True
      then obtain q where "mq = Some q" "\<not> mq_isValid q" by auto
      then show thesis using bad_queue [of q] p assms by (simp add: OnSessionStarted_eq)
    next
      case False
      then have "\<forall>q. mq = Some q \<longrightarrow> mq_isValid q" by simp
      then show thesis using started [of p] p assms by (auto simp: OnSessionStarted_eq Let_def split: if_splits)
    qed
  qed
qed

lemma ended_state:
  "OnSessionEnded s = Some (ns, s') \<Longrightarrow>
   s' = s\<lparr>s_audio_config := None, s_stack_iface := None, s_data_mq := None\<rparr>"
  by (auto simp: OnSessionEnded_def UpdateDataPath_def Let_def split: if_splits elim: bind_SomeE)

lemma config_changed_cases:
  "ReportAudioConfigChanged cfg s = Some (ns, s') \<Longrightarrow>
   s' = s \<or> (s' = s\<lparr>s_audio_config := Some cfg\<rparr> \<and> getTag cfg \<in> set (config_tags (s_session_type s)))"
  using tag_le_audio [of "s_session_type s"]
  by (auto simp: ReportAudioConfigChanged_def Let_def split: if_splits elim: bind_SomeE)

lemma control_state: "ReportControlStatus b st s = Some (ns, s') \<Longrightarrow> s' = s"
  by (auto simp: ReportControlStatus_def elim: bind_SomeE)

lemma latency_state:
  assumes "ReportLowLatencyModeAllowedChanged b s = Some (ns, s')"
  shows "\<exists>a modes. s' = s\<lparr>s_low_latency_allowed := a, s_latency_modes := modes\<rparr>"
proof -
  have "s' = s\<lparr>s_low_latency_allowed := s_low_latency_allowed s', s_latency_modes := s_latency_modes s'\<rparr>"
    using assms by (auto simp: ReportLowLatencyModeAllowedChanged_def Let_def split: if_splits elim!: bind_SomeE)
  then show ?thesis by blast
qed

lemma register_state:
  assumes "RegisterStatusCback code cb s = (c, s')"
  shows "\<exists>obs. s' = s\<lparr>s_observers := obs\<rparr>"
proof -
  have "s' = s\<lparr>s_observers := s_observers s'\<rparr>"
    using assms by (auto simp: RegisterStatusCback_def Let_def split: if_splits)
  then show ?thesis by blast
qed

lemmas step_states = ended_state config_changed_cases control_state latency_state register_state

lemma session_step_inv: "session_step code s ns s' \<Longrightarrow> session_inv st s \<Longrightarrow> session_inv st s'"
proof (induction rule: session_step.induct)
  case (started iface mq cfg modes s ns s')
  from started(1) show ?case
    by (cases rule: started_cases) (use started(2) in \<open>auto simp: session_inv_def\<close>)
qed (auto simp: session_inv_def UnregisterStatusCback_def dest!: step_states)

lemma registry_inv_cong:
  "registry_inv code s \<Longrightarrow> s_session_type s' = s_session_type s \<Longrightarrow> s_observers s' = s_observers s \<Longrightarrow>
   registry_inv code s'"
  by (simp add: registry_inv_def)

lemma session_step_registry:
  "session_step code s ns s' \<Longrightarrow> registry_inv code s \<Longrightarrow> registry_inv code s'"
proof (induction rule: session_step.induct)
  case (started iface mq cfg modes s ns s')
  from started(1) show ?case
    by (cases rule: started_cases) (use started(2) in \<open>auto elim: registry_inv_cong\<close>)
next
  case (reg cb s c s')
  then show ?case using aidl.reg_inv by blast
next
  case (unreg s c)
  then show ?case by (rule registry_inv_delete)
qed (auto elim: registry_inv_cong dest!: ended_state config_changed_cases control_state latency_state)

lemma session_reachable_inv: "session_reachable code st s \<Longrightarrow> session_inv st s"
proof (induction rule: session_reachable.induct)
  case init
  show ?case by (simp add: session_inv_def BluetoothAudioSession_def)
qed (rule session_step_inv)

lemma session_reachable_registry:
  "session_reachable code st s \<Longrightarrow> numbering code \<Longrightarrow> st \<noteq> ST_UNKNOWN \<Longrightarrow> registry_inv code s"
proof (induction rule: session_reachable.induct)
  case init
  then show ?case by (simp add: registry_inv_def BluetoothAudioSession_def)
qed (blast intro: session_step_registry)

lemma default_config_tag: "st \<noteq> ST_UNKNOWN \<Longrightarrow> getTag (default_config d st) \<in> set (config_tags st)"
  by (cases st) simp_all

section \<open>How many observers a session has\<close>

lemma own_cookie_set:
  "{c. own_cookie code st c} = of_nat ` {256 * (unat (code st) mod 256) ..< 256 * (unat (code st) mod 256) + 16}"
proof -
  let ?a = "256 * (unat (code st) mod 256)"
  have b: "n < 65536" if "n < ?a + 16" for n using that by simp
  show ?thesis
  proof (intro set_eqI iffI)
    fix c assume "c \<in> {c. own_cookie code st c}"
    then have "unat c \<in> {?a ..< ?a + 16}" by (simp add: own_cookie_unat)
    then show "c \<in> of_nat ` {?a ..< ?a + 16}" by (intro image_eqI [where x = "unat c"]) simp_all
  next
    fix c :: u16 assume "c \<in> of_nat ` {?a ..< ?a + 16}"
    then obtain n where n: "c = of_nat n" "?a \<le> n" "n < ?a + 16" by auto
    then have "unat c = n" using b [of n] by (simp add: unat_of_nat)
    then show "c \<in> {c. own_cookie code st c}" using n by (simp add: own_cookie_unat)
  qed
qed

lemma card_own_cookies: "card {c. own_cookie code st c} = 16"
proof -
  let ?a = "256 * (unat (code st) mod 256)"
  have "inj_on (of_nat :: nat \<Rightarrow> u16) {?a ..< ?a + 16}"
  proof (rule inj_on_inverseI)
    fix n assume "n \<in> {?a ..< ?a + 16}"
    then have "n < 65536" by auto
    then show "unat (of_nat n :: u16) = n" by (simp add: unat_of_nat)
  qed
  then show ?thesis by (simp add: own_cookie_set card_image)
qed

lemma observers_card:
  assumes "registry_inv code s"
  shows "length (s_observers s) = card (fst ` set (s_observers s))"
    and "fst ` set (s_observers s) \<subseteq> {c. own_cookie code (s_session_type s) c}"
  using assms distinct_card [of "map fst (s_observers s)"] by (auto simp: registry_inv_def)

lemma observers_at_most_16:
  assumes "registry_inv code s"
  shows "length (s_observers s) \<le> 16"
  using observers_card [OF assms] card_own_cookies [of code "s_session_type s"]
  by (metis card_mono finite.emptyI card.infinite zero_neq_numeral)

lemma register_fails_iff:
  assumes "registry_inv code s"
  shows "fst (RegisterStatusCback code cb s) = kObserversCookieUndefined code \<longleftrightarrow> length (s_observers s) = 16"
proof (cases rule: register_cases [of code cb s])
  case full
  then have "{c. own_cookie code (s_session_type s) c} \<subseteq> fst ` set (s_observers s)"
    by (force simp: dom_map_of_conv_image_fst [symmetric])
  then have "fst ` set (s_observers s) = {c. own_cookie code (s_session_type s) c}"
    using observers_card(2) [OF assms] by blast
  then show ?thesis using full(1) observers_card(1) [OF assms] by (simp add: card_own_cookies)
next
  case (free c)
  then have "c \<notin> fst ` set (s_observers s)" by (simp add: map_of_eq_None_iff)
  then have "fst ` set (s_observers s) \<noteq> {c. own_cookie code (s_session_type s) c}" using free(2) by blast
  then have "length (s_observers s) < 16"
    using observers_card [OF assms] card_own_cookies [of code "s_session_type s"]
    by (metis psubset_card_mono psubsetI card.infinite zero_neq_numeral)
  moreover have "c \<noteq> kObserversCookieUndefined code"
    using own_cookie_defined [of code "s_session_type s" c] free(2) assms by (simp add: registry_inv_def)
  ultimately show ?thesis using free(1) by simp
qed

section \<open>Readiness\<close>

text \<open>The state a refused queue descriptor leaves behind: a stack interface, but no configuration.\<close>

definition half_open :: "audio_session \<Rightarrow> bool" where
  "half_open s \<longleftrightarrow> s_stack_iface s \<noteq> None \<and> s_audio_config s = None"

lemma session_step_notifies:
  assumes "session_step code s ns s'" "callbacks_set s" "\<not> half_open s" "\<not> half_open s'"
    and "IsSessionReady s \<noteq> IsSessionReady s'"
  shows "ns = session_changed_all s'"
  using assms
proof (induction rule: session_step.induct)
  case (started iface mq cfg modes s ns s')
  from started(1) show ?case
  proof (cases rule: started_cases)
    case (started p)
    then have "callbacks_set s'" using \<open>callbacks_set s\<close> by (simp add: callbacks_set_def)
    then show ?thesis using started(5) ReportSessionStatus_all by simp
  qed (use started in \<open>auto simp: half_open_def IsSessionReady_iff\<close>)
next
  case (ended s ns s')
  note s' = ended_state [OF ended(1)]
  then have "\<not> IsSessionReady s'" by (simp add: IsSessionReady_iff)
  then have "IsSessionReady s" using ended by simp
  then have "ReportSessionStatus s' = Some ns"
    using ended(1) s' by (auto simp: OnSessionEnded_def UpdateDataPath_def Let_def elim: bind_SomeE)
  moreover have "callbacks_set s'" using s' ended(2) by (simp add: callbacks_set_def)
  ultimately show ?case by (simp add: ReportSessionStatus_all)
qed (auto simp: half_open_def IsSessionReady_iff UnregisterStatusCback_def dest!: step_states)

section \<open>The data path\<close>

text \<open>
  The two loops have the same control flow: one iteration transfers some elements and then
  stops or goes on, with what is left of the time.
\<close>

datatype pcm_outcome = P_undef | P_stop nat | P_more nat int

definition pcm_next :: "pcm_obs \<Rightarrow> nat \<Rightarrow> nat \<Rightarrow> int \<Rightarrow> pcm_outcome" where
  "pcm_next ob bytes tot timeout =
     (if \<not> IsSessionReady (ob_session ob) then P_stop 0
      else if s_data_mq (ob_session ob) = None then P_undef
      else if ob_available ob \<noteq> 0 then
        if \<not> ob_ok ob then P_stop 0
        else if tot + min (ob_available ob) (bytes - tot) < bytes
        then P_more (min (ob_available ob) (bytes - tot)) timeout
        else P_stop (min (ob_available ob) (bytes - tot))
      else if timeout \<ge> 1 \<and> tot < bytes then P_more 0 (timeout - 1)
      else P_stop 0)"

lemma pcm_next_stop: "pcm_next ob bytes tot timeout = P_stop n \<Longrightarrow> n \<le> bytes - tot"
  by (auto simp: pcm_next_def split: if_splits)

lemma pcm_next_more:
  "pcm_next ob bytes tot timeout = P_more n t' \<Longrightarrow>
   tot + n < bytes \<and> t' \<le> timeout \<and> (bytes - (tot + n)) + nat t' < (bytes - tot) + nat timeout"
  by (auto simp: pcm_next_def split: if_splits)

lemma OutWrite_loop_next:
  "OutWrite_loop env buffer bytes i tot timeout out =
     (case pcm_next (env i) bytes tot timeout of
        P_undef \<Rightarrow> None
      | P_stop n \<Rightarrow> Some (tot + n, out @ take n (drop tot buffer))
      | P_more n t' \<Rightarrow> OutWrite_loop env buffer bytes (Suc i) (tot + n) t' (out @ take n (drop tot buffer)))"
  by (subst OutWrite_loop.simps) (auto simp: pcm_next_def Let_def min_def kWritePollMs_def)

lemma InRead_loop_next:
  "InRead_loop env src bytes i tot timeout buffer =
     (case pcm_next ((env i)\<lparr>ob_available := length (src i)\<rparr>) bytes tot timeout of
        P_undef \<Rightarrow> None
      | P_stop n \<Rightarrow> Some (tot + n, buffer @ take n (src i))
      | P_more n t' \<Rightarrow> InRead_loop env src bytes (Suc i) (tot + n) t' (buffer @ take n (src i)))"
  by (subst InRead_loop.simps) (auto simp: pcm_next_def Let_def min_def kReadPollMs_def)

text \<open>An induction that follows the iterations.\<close>

lemma pcm_loop_induct [case_names iterate]:
  assumes "\<And>i tot timeout.
      (\<And>n t'. pcm_next (ob i) bytes tot timeout = P_more n t' \<Longrightarrow> P (Suc i) (tot + n) t') \<Longrightarrow>
      P i tot timeout"
  shows "P i tot timeout"
proof (induction "(bytes - tot) + nat timeout" arbitrary: i tot timeout rule: less_induct)
  case less
  show ?case
  proof (rule assms)
    fix n t' assume "pcm_next (ob i) bytes tot timeout = P_more n t'"
    then show "P (Suc i) (tot + n) t'" using less pcm_next_more by blast
  qed
qed

lemma OutWrite_loop_sound:
  assumes "bytes \<le> length buffer" "tot \<le> bytes"
    and "OutWrite_loop env buffer bytes i tot timeout (take tot buffer) = Some (t, w)"
  shows "tot \<le> t \<and> t \<le> bytes \<and> w = take t buffer"
  using assms(2,3)
proof (induction i tot timeout rule: pcm_loop_induct [of env bytes])
  case (iterate i tot timeout)
  show ?case
  proof (cases "pcm_next (env i) bytes tot timeout")
    case P_undef
    then show ?thesis using iterate.prems by (simp add: OutWrite_loop_next [of _ _ _ i])
  next
    case (P_stop n)
    then show ?thesis using iterate.prems pcm_next_stop [OF P_stop] assms(1)
      by (auto simp: OutWrite_loop_next [of _ _ _ i] take_add [symmetric])
  next
    case (P_more n t')
    then show ?thesis using iterate pcm_next_more [OF P_more] assms(1)
      by (fastforce simp: OutWrite_loop_next [of _ _ _ i] take_add [symmetric])
  qed
qed

text \<open>Whenever the session an iteration sees is ready, it has a queue.\<close>

definition queue_present :: "(nat \<Rightarrow> pcm_obs) \<Rightarrow> bool" where
  "queue_present env \<longleftrightarrow> (\<forall>j. IsSessionReady (ob_session (env j)) \<longrightarrow> s_data_mq (ob_session (env j)) \<noteq> None)"

lemma queue_present_next:
  "queue_present env \<Longrightarrow> pcm_next (env i) bytes tot timeout \<noteq> P_undef"
  "queue_present env \<Longrightarrow> pcm_next ((env i)\<lparr>ob_available := a\<rparr>) bytes tot timeout \<noteq> P_undef"
  by (auto simp: queue_present_def pcm_next_def split: if_splits)

lemma software_queue_present:
  assumes "\<forall>j. session_reachable code (f j) (ob_session (env j)) \<and> \<not> offload_session (f j)"
  shows "queue_present env"
  unfolding queue_present_def
proof (intro allI impI)
  fix j
  assume r: "IsSessionReady (ob_session (env j))"
  have "s_session_type (ob_session (env j)) = f j"
    using session_reachable_inv assms by (force simp: session_inv_def)
  then show "s_data_mq (ob_session (env j)) \<noteq> None" using r assms by (auto simp: IsSessionReady_iff)
qed

lemma OutWrite_loop_defined:
  assumes "queue_present env"
  shows "\<exists>t w. OutWrite_loop env buffer bytes i tot timeout out = Some (t, w)"
proof (induction i tot timeout arbitrary: out rule: pcm_loop_induct [of env bytes])
  case (iterate i tot timeout)
  then show ?case using queue_present_next(1) [OF assms, of i bytes tot timeout]
    by (cases "pcm_next (env i) bytes tot timeout") (auto simp: OutWrite_loop_next [of _ _ _ i])
qed

lemma InRead_loop_sound:
  assumes "queue_present env" "tot \<le> bytes" "length buffer = tot"
  shows "\<exists>t w. InRead_loop env src bytes i tot timeout buffer = Some (t, w) \<and>
     tot \<le> t \<and> t \<le> bytes \<and> length w = t \<and> (\<exists>read. w = buffer @ read)"
  using assms(2,3)
proof (induction i tot timeout arbitrary: buffer
    rule: pcm_loop_induct [of "\<lambda>i. (env i)\<lparr>ob_available := length (src i)\<rparr>" bytes])
  case (iterate i tot timeout)
  let ?ob = "(env i)\<lparr>ob_available := length (src i)\<rparr>"
  have n: "n \<le> length (src i)" if "pcm_next ?ob bytes tot timeout \<in> {P_stop n, P_more n t'}" for n t'
    using that by (auto simp: pcm_next_def split: if_splits)
  show ?case
  proof (cases "pcm_next ?ob bytes tot timeout")
    case P_undef
    then show ?thesis using queue_present_next(2) [OF assms(1)] by blast
  next
    case (P_stop k)
    then show ?thesis using iterate.prems pcm_next_stop [OF P_stop] n [of k]
      by (auto simp: InRead_loop_next [of _ _ _ i])
  next
    case (P_more k t')
    then have "length (buffer @ take k (src i)) = tot + k" using iterate.prems n [of k t'] by simp
    moreover have "tot + k \<le> bytes" using pcm_next_more [OF P_more] by simp
    ultimately obtain t w where "InRead_loop env src bytes (Suc i) (tot + k) t' (buffer @ take k (src i)) = Some (t, w)"
      "tot + k \<le> t" "t \<le> bytes" "length w = t" "\<exists>read. w = (buffer @ take k (src i)) @ read"
      using iterate.IH [OF P_more] by blast
    then show ?thesis using P_more by (auto simp: InRead_loop_next [of _ _ _ i])
  qed
qed

text \<open>The loop looks at no more iterations than there are elements to write and milliseconds to wait.\<close>

lemma OutWrite_loop_bounded:
  assumes "\<forall>j. i \<le> j \<and> j \<le> i + (bytes - tot) + nat timeout \<longrightarrow> env j = env' j"
  shows "OutWrite_loop env buffer bytes i tot timeout out = OutWrite_loop env' buffer bytes i tot timeout out"
  using assms
proof (induction i tot timeout arbitrary: out rule: pcm_loop_induct [of env bytes])
  case (iterate i tot timeout)
  have e: "env i = env' i" using iterate.prems by simp
  show ?case
  proof (cases "pcm_next (env i) bytes tot timeout")
    case (P_more n t')
    then have "\<forall>j. Suc i \<le> j \<and> j \<le> Suc i + (bytes - (tot + n)) + nat t' \<longrightarrow> env j = env' j"
      using iterate.prems pcm_next_more [OF P_more] by auto
    then show ?thesis using iterate.IH [OF P_more] e P_more by (simp add: OutWrite_loop_next [of _ _ _ i])
  qed (simp_all add: OutWrite_loop_next [of _ _ _ i] e [symmetric])
qed

definition accepting :: "(nat \<Rightarrow> pcm_obs) \<Rightarrow> bool" where
  "accepting env \<longleftrightarrow> (\<forall>j. IsSessionReady (ob_session (env j)) \<and> s_data_mq (ob_session (env j)) \<noteq> None \<and>
     ob_available (env j) \<noteq> 0 \<and> ob_ok (env j))"

lemma OutWrite_loop_all:
  assumes "accepting env" "tot < bytes"
  shows "\<exists>w. OutWrite_loop env buffer bytes i tot timeout out = Some (bytes, w)"
  using assms(2)
proof (induction i tot timeout arbitrary: out rule: pcm_loop_induct [of env bytes])
  case (iterate i tot timeout)
  have nx: "pcm_next (env i) bytes tot timeout =
      (if tot + min (ob_available (env i)) (bytes - tot) < bytes
       then P_more (min (ob_available (env i)) (bytes - tot)) timeout
       else P_stop (min (ob_available (env i)) (bytes - tot)))"
    using assms(1) [unfolded accepting_def, rule_format, of i] by (auto simp: pcm_next_def)
  show ?case
  proof (cases "tot + min (ob_available (env i)) (bytes - tot) < bytes")
    case True
    then show ?thesis
      using iterate.IH [of "min (ob_available (env i)) (bytes - tot)" timeout] nx
      by (simp add: OutWrite_loop_next [of _ _ _ i])
  next
    case False
    then have "tot + min (ob_available (env i)) (bytes - tot) = bytes" using iterate.prems by simp
    then show ?thesis using nx False by (simp add: OutWrite_loop_next [of _ _ _ i])
  qed
qed

section \<open>Properties\<close>

text \<open>Concrete values for the witnesses: the session types numbered in the order of their declaration.\<close>

fun example_code :: "session_type \<Rightarrow> u16" where
  "example_code ST_UNKNOWN = 0"
| "example_code A2DP_SOFTWARE_ENCODING_DATAPATH = 1"
| "example_code A2DP_HARDWARE_OFFLOAD_ENCODING_DATAPATH = 2"
| "example_code HEARING_AID_SOFTWARE_ENCODING_DATAPATH = 3"
| "example_code LE_AUDIO_SOFTWARE_ENCODING_DATAPATH = 4"
| "example_code LE_AUDIO_SOFTWARE_DECODING_DATAPATH = 5"
| "example_code LE_AUDIO_HARDWARE_OFFLOAD_ENCODING_DATAPATH = 6"
| "example_code LE_AUDIO_HARDWARE_OFFLOAD_DECODING_DATAPATH = 7"
| "example_code LE_AUDIO_BROADCAST_SOFTWARE_ENCODING_DATAPATH = 8"
| "example_code LE_AUDIO_BROADCAST_HARDWARE_OFFLOAD_ENCODING_DATAPATH = 9"
| "example_code A2DP_SOFTWARE_DECODING_DATAPATH = 10"
| "example_code A2DP_HARDWARE_OFFLOAD_DECODING_DATAPATH = 11"
| "example_code HFP_SOFTWARE_ENCODING_DATAPATH = 12"
| "example_code HFP_SOFTWARE_DECODING_DATAPATH = 13"
| "example_code HFP_HARDWARE_OFFLOAD_DATAPATH = 14"

lemma numbering_example: "numbering example_code"
proof -
  have "inj example_code"
  proof (rule injI)
    fix x y assume "example_code x = example_code y"
    then show "x = y" by (cases x; cases y) simp_all
  qed
  moreover have "example_code st < 256" for st by (cases st) simp_all
  ultimately show ?thesis by (simp add: numbering_def)
qed

definition example_cb :: "nat \<Rightarrow> port_status_callbacks" where
  "example_cb k = \<lparr>cb_client = k, cb_control_result = True, cb_session_changed = True,
     cb_audio_configuration_changed = False, cb_low_latency_mode_allowed = True\<rparr>"

definition example_pcm :: pcm_configuration where
  "example_pcm = \<lparr>pcm_sampleRateHz = 44100, pcm_channelMode = CM_STEREO, pcm_bitsPerSample = 16, pcm_dataIntervalUs = 0\<rparr>"

definition example_defaults :: config_defaults where
  "example_defaults = \<lparr>
     def_CodecConfiguration = \<lparr>cc_codecType = CT_UNKNOWN, cc_encodedAudioBitrate = 0, cc_peerMtu = 0,
       cc_isScmstEnabled = False, cc_config = CS_other 0\<rparr>,
     def_HfpConfiguration = 0,
     def_LeAudioConfiguration = \<lparr>le_streamMap = [], le_leAudioCodecConfig = LE_other 0\<rparr>,
     def_LeAudioBroadcastConfiguration = \<lparr>lb_streamMap = []\<rparr>,
     def_PcmConfiguration = \<lparr>pcm_sampleRateHz = 0, pcm_channelMode = CM_UNKNOWN, pcm_bitsPerSample = 0,
       pcm_dataIntervalUs = 0\<rparr>\<rparr>"

definition example_mq :: data_mq where "example_mq = \<lparr>mq_id = 1, mq_isValid = True\<rparr>"

text \<open>A software session that has been started, with one observer.\<close>

definition example_session :: audio_session where
  "example_session = (BluetoothAudioSession A2DP_SOFTWARE_ENCODING_DATAPATH)
     \<lparr>s_stack_iface := Some 9, s_data_mq := Some example_mq, s_audio_config := Some (AC_pcmConfig example_pcm),
      s_latency_modes := [FREE], s_observers := [(256, example_cb 3)]\<rparr>"

lemma example_session_reachable:
  "session_reachable example_code A2DP_SOFTWARE_ENCODING_DATAPATH example_session"
proof -
  let ?s0 = "BluetoothAudioSession A2DP_SOFTWARE_ENCODING_DATAPATH"
  let ?s1 = "?s0\<lparr>s_observers := [(256, example_cb 3)]\<rparr>"
  have "RegisterStatusCback example_code (example_cb 3) ?s0 = (256, ?s1)"
    by (simp add: RegisterStatusCback_def BluetoothAudioSession_def ObserversCookieGetUpperBound_def
        ObserversCookieGetInitValue_def kObserversCookieSize_def find_cookie.simps [of "[]"])
  then have "session_reachable example_code A2DP_SOFTWARE_ENCODING_DATAPATH ?s1"
    using session_reachable.init session_reachable.step session_step.reg by blast
  moreover have "OnSessionStarted (Some 9) (Some example_mq) (AC_pcmConfig example_pcm) [FREE] ?s1 =
      Some ([N_session_changed 3 256], example_session)"
    by (simp add: OnSessionStarted_eq ReportSessionStatus_def example_session_def BluetoothAudioSession_def
        example_mq_def example_cb_def)
  ultimately show ?thesis using session_reachable.step session_step.started by blast
qed

text \<open>C1: in every state a session can reach by its operations, its configuration is of the kind of
  its session type, its queue is valid, its cookies are distinct and lie in the block of its session
  type, and it has at most sixteen observers.\<close>

theorem session_invariant:
  assumes "session_reachable code st s" "numbering code" "st \<noteq> ST_UNKNOWN"
  shows "session_inv st s \<and> registry_inv code s \<and> length (s_observers s) \<le> 16"
  using session_reachable_inv [OF assms(1)] session_reachable_registry [OF assms]
    observers_at_most_16 by blast

theorem session_invariant_witness:
  "session_inv A2DP_SOFTWARE_ENCODING_DATAPATH example_session \<and> registry_inv example_code example_session \<and>
   length (s_observers example_session) \<le> 16"
  by (rule session_invariant [OF example_session_reachable numbering_example]) simp

text \<open>Whatever state a session has reached, \<open>GetAudioConfig\<close> returns a configuration, and
  it is of the kind that belongs to the session type.\<close>

lemma GetAudioConfig_kind:
  assumes "session_reachable code st s" "st \<noteq> ST_UNKNOWN"
  shows "\<exists>c. GetAudioConfig d s = Some c \<and> getTag c \<in> set (config_tags st)"
  using session_reachable_inv [OF assms(1)] default_config_tag [OF assms(2), of d]
  by (auto simp: GetAudioConfig_def session_inv_def IsSessionReady_iff)

lemma GetAudioConfig_kind_witness:
  "\<exists>c. GetAudioConfig example_defaults example_session = Some c \<and> getTag c \<in> set (config_tags A2DP_SOFTWARE_ENCODING_DATAPATH)"
  by (rule GetAudioConfig_kind [OF example_session_reachable]) simp

text \<open>A step that changes whether the session is ready notifies every observer, in the states
  before and after which the session does not hold a stack interface without a configuration.\<close>

lemma session_readiness_notified:
  assumes "session_step code s ns s'" "callbacks_set s" "\<not> half_open s" "\<not> half_open s'"
    and "IsSessionReady s \<noteq> IsSessionReady s'"
  shows "ns = map (\<lambda>(c, cb). N_session_changed (cb_client cb) c) (s_observers s')"
  using session_step_notifies [OF assms] by (simp add: session_changed_all_def)

lemma session_readiness_notified_witness:
  "\<exists>ns s'. OnSessionEnded example_session = Some (ns, s') \<and> ns = [N_session_changed 3 256]"
proof -
  let ?s' = "example_session\<lparr>s_audio_config := None, s_stack_iface := None, s_data_mq := None\<rparr>"
  have e: "OnSessionEnded example_session = Some ([N_session_changed 3 256], ?s')"
    by (simp add: OnSessionEnded_def UpdateDataPath_def ReportSessionStatus_def example_session_def
        IsSessionReady_iff example_mq_def example_cb_def BluetoothAudioSession_def)
  have "[N_session_changed 3 256] = map (\<lambda>(c, cb). N_session_changed (cb_client cb) c) (s_observers ?s')"
    by (rule session_readiness_notified [OF session_step.ended [OF e, of example_code]])
      (simp_all add: callbacks_set_def half_open_def example_session_def IsSessionReady_iff example_mq_def
        example_cb_def)
  then show ?thesis using e by blast
qed

text \<open>Starting a session that is ready with a queue descriptor that turns out invalid leaves
  it not ready, and no observer is told: their view of the session is stale.\<close>

lemma started_bad_queue_silent:
  assumes "IsSessionReady s" "\<not> offload_session (s_session_type s)" "iface \<noteq> None"
    and "getTag cfg \<in> set (config_tags (s_session_type s))" "\<not> mq_isValid q"
  shows "\<exists>s'. OnSessionStarted iface (Some q) cfg modes s = Some ([], s') \<and> \<not> IsSessionReady s'"
  using assms by (auto simp: OnSessionStarted_eq IsSessionReady_iff)

lemma started_bad_queue_silent_witness:
  "\<exists>s'. OnSessionStarted (Some 9) (Some \<lparr>mq_id = 2, mq_isValid = False\<rparr>) (AC_pcmConfig example_pcm) []
     example_session = Some ([], s') \<and> \<not> IsSessionReady s'"
  by (rule started_bad_queue_silent)
    (simp_all add: example_session_def BluetoothAudioSession_def IsSessionReady_iff example_mq_def
      offload_session_def a2dp_offload_session_def le_offload_session_def)

text \<open>C3: registering an observer with a session fails exactly when it has sixteen; otherwise the
  cookie is new, lies in the block of the session type, from which the session type can be read
  back, names the callbacks given, and giving it back restores the table of observers.\<close>

theorem register_observer:
  assumes "registry_inv code s" "RegisterStatusCback code cb s = (c, s')"
  shows "(c = kObserversCookieUndefined code \<longleftrightarrow> length (s_observers s) = 16) \<and>
     (c = kObserversCookieUndefined code \<longrightarrow> s' = s) \<and>
     (c \<noteq> kObserversCookieUndefined code \<longrightarrow>
        map_of (s_observers s) c = None \<and> map_of (s_observers s') = (map_of (s_observers s))(c \<mapsto> cb) \<and>
        ObserversCookieGetSessionType c = code (s_session_type s) \<and>
        map_of (s_observers (UnregisterStatusCback c s')) = map_of (s_observers s))"
proof -
  have "ObserversCookieGetSessionType c = code (s_session_type s)" if "c \<noteq> kObserversCookieUndefined code"
    using that assms own_cookie_session_type [of code "s_session_type s" c]
    by (cases rule: register_cases [of code cb s]) (auto simp: registry_inv_def)
  then show ?thesis
    using register_fails_iff [OF assms(1), of cb] aidl.reg_new [OF assms] aidl.reg_full [OF assms(1)]
      aidl.reg_unreg [OF assms] assms(2) by auto
qed

theorem register_observer_witness:
  "\<exists>c s'. RegisterStatusCback example_code (example_cb 4) example_session = (c, s') \<and>
     c \<noteq> kObserversCookieUndefined example_code \<and> map_of (s_observers s') c = Some (example_cb 4)"
proof -
  obtain c s' where r: "RegisterStatusCback example_code (example_cb 4) example_session = (c, s')"
    by (cases "RegisterStatusCback example_code (example_cb 4) example_session")
  have i: "registry_inv example_code example_session"
    by (rule session_reachable_registry [OF example_session_reachable numbering_example]) simp
  have "length (s_observers example_session) = 1" by (simp add: example_session_def)
  then show ?thesis using register_observer [OF i r] r by auto
qed

text \<open>\<open>GetPresentationPosition\<close> never reports success, not even when the session is ready and the
  Bluetooth stack answered and filled in the position.\<close>

lemma GetPresentationPosition_never_succeeds [simp]:
  "\<not> fst (GetPresentationPosition reply pos s)"
  by (simp add: GetPresentationPosition_def split: prod.split)

text \<open>C4: writing to a software session always returns, whatever the other threads and the reader of
  the queue do meanwhile: it writes a prefix of the buffer, in order and without gaps, and the
  count it returns is the length of that prefix.\<close>

theorem OutWritePcmData_writes_prefix:
  assumes "\<forall>j. session_reachable code (st j) (ob_session (env j)) \<and> \<not> offload_session (st j)"
    and "bytes \<le> length buffer"
  shows "\<exists>t. OutWritePcmData env (Some buffer) bytes = Some (t, take t buffer) \<and> t \<le> bytes"
proof -
  obtain t w where r: "OutWrite_loop env buffer bytes 0 0 kFmqSendTimeoutMs (take 0 buffer) = Some (t, w)"
    using OutWrite_loop_defined [OF software_queue_present [OF assms(1)]] by blast
  show ?thesis
    using r OutWrite_loop_sound [OF assms(2) _ r] by (auto simp: OutWritePcmData_def)
qed

definition example_env :: "nat \<Rightarrow> pcm_obs" where
  "example_env i = \<lparr>ob_session = example_session, ob_available = (if i = 1 then 0 else 2), ob_ok = True\<rparr>"

theorem OutWritePcmData_writes_prefix_witness:
  "\<exists>t. OutWritePcmData example_env (Some [1, 2, 3, 4, 5 :: int]) 5 = Some (t, take t [1, 2, 3, 4, 5]) \<and> t \<le> 5"
  by (rule OutWritePcmData_writes_prefix [of example_code "\<lambda>_. A2DP_SOFTWARE_ENCODING_DATAPATH"])
    (simp_all add: example_env_def example_session_reachable offload_session_def a2dp_offload_session_def
      le_offload_session_def)

text \<open>\<open>OutWritePcmData\<close> is bounded: its result is determined by its first \<open>bytes + 1001\<close>
  iterations, so it neither loops for ever nor waits longer than the timeout of 1000 ms.\<close>

lemma OutWritePcmData_bounded:
  assumes "\<forall>j \<le> bytes + 1000. env j = env' j"
  shows "OutWritePcmData env buffer bytes = OutWritePcmData env' buffer bytes"
  using OutWrite_loop_bounded [of 0 bytes 0 kFmqSendTimeoutMs env env'] assms
  by (auto simp: OutWritePcmData_def kFmqSendTimeoutMs_def split: option.split)

lemma OutWritePcmData_bounded_witness:
  "OutWritePcmData example_env (Some [7 :: int]) 1 =
   OutWritePcmData (\<lambda>j. if j \<le> 1001 then example_env j else (example_env j)\<lparr>ob_ok := False\<rparr>) (Some [7]) 1"
  by (rule OutWritePcmData_bounded) simp

text \<open>As long as the session stays ready and the queue keeps accepting at least one element
  per iteration, \<open>OutWritePcmData\<close> writes the whole buffer.\<close>

lemma OutWritePcmData_writes_all:
  assumes "accepting env" "bytes \<le> length buffer"
  shows "OutWritePcmData env (Some buffer) bytes = Some (bytes, take bytes buffer)"
proof (cases "bytes = 0")
  case False
  then obtain w where r: "OutWrite_loop env buffer bytes 0 0 kFmqSendTimeoutMs (take 0 buffer) = Some (bytes, w)"
    using OutWrite_loop_all [OF assms(1), of 0 bytes buffer 0 kFmqSendTimeoutMs "take 0 buffer"] by blast
  then show ?thesis using OutWrite_loop_sound [OF assms(2) _ r] False by (simp add: OutWritePcmData_def)
qed (simp add: OutWritePcmData_def)

lemma example_session_ready: "IsSessionReady example_session" "s_data_mq example_session \<noteq> None"
  by (simp_all add: IsSessionReady_iff example_session_def example_mq_def)

lemma OutWritePcmData_writes_all_witness:
  "OutWritePcmData (\<lambda>i. \<lparr>ob_session = example_session, ob_available = 2, ob_ok = True\<rparr>) (Some [1, 2, 3 :: int]) 3
     = Some (3, [1, 2, 3])"
  using OutWritePcmData_writes_all [of "\<lambda>i. \<lparr>ob_session = example_session, ob_available = 2, ob_ok = True\<rparr>" 3 "[1, 2, 3]"]
    example_session_ready by (simp add: accepting_def)

text \<open>Writing to a session that is ready without a queue, as the sessions of the hardware
  offload paths are, dereferences a null pointer.\<close>

lemma OutWritePcmData_offload_undefined:
  assumes "IsSessionReady (ob_session (env 0))" "s_data_mq (ob_session (env 0)) = None" "0 < bytes"
  shows "OutWritePcmData env (Some buffer) bytes = None"
  using assms by (simp add: OutWritePcmData_def OutWrite_loop.simps)

lemma OutWritePcmData_offload_undefined_witness:
  "OutWritePcmData (\<lambda>_. \<lparr>ob_session = (BluetoothAudioSession HFP_HARDWARE_OFFLOAD_DATAPATH)
      \<lparr>s_stack_iface := Some 9, s_audio_config := Some (AC_hfpConfig 0)\<rparr>, ob_available = 0, ob_ok = True\<rparr>)
     (Some [1 :: int]) 1 = None"
  by (rule OutWritePcmData_offload_undefined)
    (simp_all add: IsSessionReady_iff BluetoothAudioSession_def offload_session_def)

text \<open>Reading from a software session always returns; the count it returns is the number of
  elements it stored, and at most the number asked for.\<close>

lemma InReadPcmData_sound:
  assumes "\<forall>j. session_reachable code (st j) (ob_session (env j)) \<and> \<not> offload_session (st j)"
  shows "\<exists>t w. InReadPcmData env src null bytes = Some (t, w) \<and> t \<le> bytes \<and> length w = t"
  using InRead_loop_sound [OF software_queue_present [OF assms], of 0 bytes "[]" src 0 kFmqReceiveTimeoutMs]
  by (auto simp: InReadPcmData_def)

lemma InReadPcmData_sound_witness:
  "\<exists>t w. InReadPcmData example_env (\<lambda>i. [1, 2 :: int]) False 3 = Some (t, w) \<and> t \<le> 3 \<and> length w = t"
  by (rule InReadPcmData_sound [of example_code "\<lambda>_. A2DP_SOFTWARE_ENCODING_DATAPATH"])
    (simp add: example_env_def example_session_reachable offload_session_def a2dp_offload_session_def
      le_offload_session_def)

text \<open>Once the stack of an offloaded A2DP session has allowed or forbidden the low latency mode, the
  session offers that mode exactly when it was allowed, and its other latency modes are the same.\<close>

lemma low_latency_follows_stack:
  assumes "s_session_type s = A2DP_HARDWARE_OFFLOAD_ENCODING_DATAPATH" "IsSessionReady s"
  shows "\<exists>ns s'. ReportLowLatencyModeAllowedChanged allowed s = Some (ns, s') \<and>
     (LOW_LATENCY \<in> set (GetSupportedLatencyModes s') \<longleftrightarrow> allowed) \<and>
     (\<forall>m. m \<noteq> LOW_LATENCY \<longrightarrow> (m \<in> set (GetSupportedLatencyModes s') \<longleftrightarrow> m \<in> set (GetSupportedLatencyModes s)))"
proof -
  let ?modes = "if allowed \<and> LOW_LATENCY \<notin> set (s_latency_modes s) then s_latency_modes s @ [LOW_LATENCY]
    else s_latency_modes s"
  let ?s' = "s\<lparr>s_low_latency_allowed := allowed, s_latency_modes := ?modes\<rparr>"
  obtain ns where r: "ReportLowLatencyModeAllowedChanged allowed s = Some (ns, ?s')"
    using assms(1) by (auto simp: ReportLowLatencyModeAllowedChanged_def Let_def)
  have ready: "IsSessionReady ?s'" using assms(2) by (simp add: IsSessionReady_iff)
  have "GetSupportedLatencyModes ?s' = filter (\<lambda>m. (allowed \<or> m \<noteq> LOW_LATENCY) \<and>
      m \<noteq> DYNAMIC_SPATIAL_AUDIO_SOFTWARE \<and> m \<noteq> DYNAMIC_SPATIAL_AUDIO_HARDWARE) ?modes"
    using ready assms(1) by (simp add: GetSupportedLatencyModes_def)
  moreover have "GetSupportedLatencyModes s = filter (\<lambda>m. (s_low_latency_allowed s \<or> m \<noteq> LOW_LATENCY) \<and>
      m \<noteq> DYNAMIC_SPATIAL_AUDIO_SOFTWARE \<and> m \<noteq> DYNAMIC_SPATIAL_AUDIO_HARDWARE) (s_latency_modes s)"
    using assms by (simp add: GetSupportedLatencyModes_def)
  ultimately show ?thesis using r by auto
qed

lemma low_latency_follows_stack_witness:
  "\<exists>ns s'. ReportLowLatencyModeAllowedChanged True
      ((BluetoothAudioSession A2DP_HARDWARE_OFFLOAD_ENCODING_DATAPATH)
        \<lparr>s_stack_iface := Some 9, s_audio_config := Some (AC_a2dp \<lparr>as_codecId = CodecId_A2dp_SBC, as_configuration = []\<rparr>)\<rparr>)
     = Some (ns, s') \<and> LOW_LATENCY \<in> set (GetSupportedLatencyModes s')"
  using low_latency_follows_stack [of "(BluetoothAudioSession A2DP_HARDWARE_OFFLOAD_ENCODING_DATAPATH)
        \<lparr>s_stack_iface := Some 9, s_audio_config := Some (AC_a2dp \<lparr>as_codecId = CodecId_A2dp_SBC, as_configuration = []\<rparr>)\<rparr>" True]
  by (auto simp: BluetoothAudioSession_def IsSessionReady_iff offload_session_def a2dp_offload_session_def)

end
