(* ===== verification/A2dp_Bits.thy ===== *)
theory A2dp_Bits
  imports BT_Prelude
begin

text \<open>
  \<^verbatim>\<open>bluetooth/audio/hal/A2dpBits.h\<close>: access to the bits of an A2DP codec element, most
  significant bit of the first octet first. The class holds a pointer to the octets of a
  vector; here the vector itself is the argument and \<open>set\<close> returns the updated vector. An
  access outside of the vector is undefined (\<^const>\<open>None\<close>).

  The second half gives the class an abstract reading: the vector is a sequence of booleans
  (\<open>bits_at\<close>), \<open>get\<close> and \<open>set\<close> read and write one position, a range is a big-endian
  number, and \<open>find_active_bit\<close> finds the position of the only bit set in a range.
\<close>

section \<open>The class\<close>

record a2dp_range =
  rfirst :: nat
  rlen :: nat

definition Range2 :: "nat \<Rightarrow> nat \<Rightarrow> a2dp_range" where
  "Range2 f l = \<lparr>rfirst = f, rlen = l - f + 1\<rparr>"

definition Range1 :: "nat \<Rightarrow> a2dp_range" where
  "Range1 i = \<lparr>rfirst = i, rlen = 1\<rparr>"

definition octet :: "u8 list \<Rightarrow> int \<Rightarrow> u8 ub" where
  "octet bs i = (if 0 \<le> i \<and> i < int (length bs) then Some (bs ! nat i) else None)"

definition a2dp_get :: "u8 list \<Rightarrow> int \<Rightarrow> bool ub" where
  "a2dp_get bs b = do {
     c \<leftarrow> octet bs (drop_bit 3 b);
     Some (drop_bit (nat (7 - (b AND 7))) c AND 1 \<noteq> 0)
   }"

function get_range_loop :: "u8 list \<Rightarrow> a2dp_range \<Rightarrow> nat \<Rightarrow> u32 \<Rightarrow> u32 ub" where
  "get_range_loop bs r i v =
     (if i < rlen r
      then do {
        b \<leftarrow> a2dp_get bs (int (rfirst r) + int i);
        get_range_loop bs r (Suc i) (v OR push_bit ((rlen r - 1) - i) (of_bool b))
      }
      else Some v)"
  by pat_completeness auto
termination
  by (relation "measure (\<lambda>(bs, r, i, v). rlen r - i)") auto

declare get_range_loop.simps [simp del]

definition get_range :: "u8 list \<Rightarrow> a2dp_range \<Rightarrow> u32 ub" where
  "get_range bs r = get_range_loop bs r 0 0"

definition a2dp_set :: "u8 list \<Rightarrow> int \<Rightarrow> int \<Rightarrow> u8 list ub" where
  "a2dp_set bs b val =
     (let m = push_bit (nat (7 - (b AND 7))) (1 :: u8); i = drop_bit 3 b in do {
        c \<leftarrow> octet bs i;
        Some (bs[nat i := (if val \<noteq> 0 then c OR m else c AND NOT m)])
      })"

function set_range_loop :: "u8 list \<Rightarrow> a2dp_range \<Rightarrow> int \<Rightarrow> nat \<Rightarrow> u8 list ub" where
  "set_range_loop bs r val i =
     (if i < rlen r
      then do {
        bs' \<leftarrow> a2dp_set bs (int (rfirst r) + int i) (drop_bit ((rlen r - 1) - i) val AND 1);
        set_range_loop bs' r val (Suc i)
      }
      else Some bs)"
  by pat_completeness auto
termination
  by (relation "measure (\<lambda>(bs, r, val, i). rlen r - i)") auto

declare set_range_loop.simps [simp del]

definition set_range :: "u8 list \<Rightarrow> a2dp_range \<Rightarrow> int \<Rightarrow> u8 list ub" where
  "set_range bs r val = set_range_loop bs r val 0"

function low_bit_loop :: "u32 \<Rightarrow> nat \<Rightarrow> nat \<Rightarrow> nat" where
  "low_bit_loop v n i = (if i < n \<and> drop_bit i v AND 1 = 0 then low_bit_loop v n (Suc i) else i)"
  by pat_completeness auto
termination
  by (relation "measure (\<lambda>(v, n, i). n - i)") auto

declare low_bit_loop.simps [simp del]

definition find_active_bit :: "u8 list \<Rightarrow> a2dp_range \<Rightarrow> int ub" where
  "find_active_bit bs r = do {
     v \<leftarrow> get_range bs r;
     let i = low_bit_loop v (rlen r) 0;
     Some (if i < rlen r \<and> v XOR push_bit i 1 = 0
           then int (rfirst r) + (int (rlen r) - 1) - int i else -1)
   }"

section \<open>The vector as a sequence of booleans\<close>

definition bits_at :: "u8 list \<Rightarrow> nat \<Rightarrow> bool" where
  "bits_at bs k \<longleftrightarrow> bit (bs ! (k div 8)) (7 - k mod 8)"

definition set_at :: "u8 list \<Rightarrow> nat \<Rightarrow> bool \<Rightarrow> u8 list" where
  "set_at bs k x =
     (let m = push_bit (7 - k mod 8) 1; c = bs ! (k div 8)
      in bs[k div 8 := (if x then c OR m else c AND NOT m)])"

lemma length_set_at [simp]: "length (set_at bs k x) = length bs"
  by (simp add: set_at_def Let_def)

lemma nat_and_7: "nat (7 - (int k AND 7)) = 7 - k mod 8"
proof -
  have "int k AND 7 = int (k mod 8)"
    using take_bit_eq_mask [of 3 "int k"] by (simp add: mask_eq_exp_minus_1 take_bit_eq_mod zmod_int)
  then show ?thesis by simp
qed

lemma octet_index: "drop_bit 3 (int k) = int (k div 8)"
  by (simp add: drop_bit_eq_div zdiv_int)

lemma octet_in [ub_simps]:
  "k < 8 * length bs \<Longrightarrow> octet bs (int (k div 8)) = Some (bs ! (k div 8))"
  by (simp add: octet_def)

lemma get_bit_in: "k < 8 * length bs \<Longrightarrow> a2dp_get bs (int k) = Some (bits_at bs k)"
  unfolding a2dp_get_def octet_index
  by (simp add: octet_in nat_and_7 bits_at_def and_one_drop_bit)

lemma set_bit_in: "k < 8 * length bs \<Longrightarrow> a2dp_set bs (int k) x = Some (set_at bs k (x \<noteq> 0))"
  unfolding a2dp_set_def octet_index
  by (simp add: octet_in nat_and_7 set_at_def Let_def)

lemma bits_at_set_at:
  assumes "k < 8 * length bs" "j < 8 * length bs"
  shows "bits_at (set_at bs k x) j = (if j = k then x else bits_at bs j)"
proof (cases "j div 8 = k div 8")
  case True
  have "(7 - j mod 8 = 7 - k mod 8) \<longleftrightarrow> j mod 8 = k mod 8"
    using mod_less_divisor [of 8 j] mod_less_divisor [of 8 k] by linarith
  moreover have "j = k \<longleftrightarrow> j mod 8 = k mod 8"
    using True by (metis div_mult_mod_eq)
  moreover have "7 - j mod 8 < 8" by simp
  ultimately show ?thesis
    using assms True
    by (auto simp: bits_at_def set_at_def Let_def bit_simps)
next
  case False
  then show ?thesis
    using assms by (auto simp: bits_at_def set_at_def Let_def)
qed

lemma bits_at_set_at_True:
  "k < 8 * length bs \<Longrightarrow> j < 8 * length bs \<Longrightarrow>
   bits_at (set_at bs k True) j \<longleftrightarrow> j = k \<or> bits_at bs j"
  by (simp add: bits_at_set_at)

text \<open>Two vectors of the same length with the same bits are equal.\<close>

lemma bits_at_eqI:
  assumes len: "length xs = length ys"
    and eq: "\<And>k. k < 8 * length xs \<Longrightarrow> bits_at xs k = bits_at ys k"
  shows "xs = ys"
proof (rule nth_equalityI [OF len], rule bit_word_eqI)
  fix i n assume i: "i < length xs" and n: "n < LENGTH(8)"
  let ?k = "8 * i + (7 - n)"
  have "?k < 8 * length xs" using i by linarith
  moreover have "?k div 8 = i" "?k mod 8 = 7 - n"
    using n div_mult_self4 [of 8 i "7 - n"] mod_mult_self4 [of 8 i "7 - n"] by simp_all
  moreover have "7 - (7 - n) = n" using n by simp
  ultimately show "bit (xs ! i) n = bit (ys ! i) n"
    using eq [of ?k] unfolding bits_at_def by metis
qed

lemma bits_at_replicate_0 [simp]: "k < 8 * n \<Longrightarrow> bits_at (replicate n 0) k = False"
  by (simp add: bits_at_def)

section \<open>Ranges are big-endian numbers\<close>

definition range_in :: "a2dp_range \<Rightarrow> u8 list \<Rightarrow> bool" where
  "range_in r bs \<longleftrightarrow> rfirst r + rlen r \<le> 8 * length bs \<and> rlen r \<le> 32"

lemma get_range_loop_in:
  assumes "range_in r bs"
  shows "\<exists>w. get_range_loop bs r i v = Some w \<and>
     (\<forall>k. bit w k \<longleftrightarrow> bit v k \<or> (k + i < rlen r \<and> bits_at bs (rfirst r + (rlen r - 1 - k))))"
  using assms
proof (induction bs r i v rule: get_range_loop.induct)
  case (1 bs r i v)
  show ?case
  proof (cases "i < rlen r")
    case True
    let ?b = "bits_at bs (rfirst r + i)"
    let ?v = "v OR push_bit (rlen r - 1 - i) (of_bool ?b)"
    have g: "a2dp_get bs (int (rfirst r) + int i) = Some ?b"
      using get_bit_in [of "rfirst r + i" bs] True 1(2) by (simp add: range_in_def)
    from 1(1) [OF True g 1(2)] obtain w where
      w: "get_range_loop bs r (Suc i) ?v = Some w"
      and bw: "\<And>k. bit w k \<longleftrightarrow> bit ?v k \<or> (k + Suc i < rlen r \<and> bits_at bs (rfirst r + (rlen r - 1 - k)))"
      by auto
    have bv: "bit ?v k \<longleftrightarrow> bit v k \<or> (k = rlen r - 1 - i \<and> ?b)" for k
      using True 1(2) by (auto simp: bit_simps range_in_def)
    have sp: "k + i < rlen r \<longleftrightarrow> k = rlen r - 1 - i \<or> k + Suc i < rlen r" for k
      using True by linarith
    have "k = rlen r - 1 - i \<Longrightarrow> rfirst r + (rlen r - 1 - k) = rfirst r + i" for k
      using True by simp
    then have "\<And>k. bit w k \<longleftrightarrow> bit v k \<or> (k + i < rlen r \<and> bits_at bs (rfirst r + (rlen r - 1 - k)))"
      unfolding bw bv sp by auto
    then show ?thesis
      using True g w by (subst get_range_loop.simps) simp
  next
    case False
    then show ?thesis by (subst get_range_loop.simps) simp
  qed
qed

definition range_val :: "u8 list \<Rightarrow> a2dp_range \<Rightarrow> u32" where
  "range_val bs r = (case get_range bs r of Some v \<Rightarrow> v | None \<Rightarrow> 0)"

lemma get_range_val:
  assumes "range_in r bs"
  shows "get_range bs r = Some (range_val bs r) \<and>
    (\<forall>k. bit (range_val bs r) k \<longleftrightarrow>
       k < rlen r \<and> bits_at bs (rfirst r + (rlen r - 1 - k)))"
proof -
  obtain w where w: "get_range_loop bs r 0 0 = Some w"
    and b: "\<forall>k. bit w k \<longleftrightarrow> bit (0 :: u32) k \<or>
      (k + 0 < rlen r \<and> bits_at bs (rfirst r + (rlen r - 1 - k)))"
    using get_range_loop_in [OF assms, of 0 0] by blast
  have "range_val bs r = w" using w by (simp add: range_val_def get_range_def)
  then show ?thesis using w b by (simp add: get_range_def)
qed

lemmas get_range_in = get_range_val [THEN conjunct1]
lemmas bit_range_val = get_range_val [THEN conjunct2, rule_format]

lemma range_val_less: "range_in r bs \<Longrightarrow> unat (range_val bs r) < 2 ^ rlen r"
proof -
  assume r: "range_in r bs"
  have "take_bit (rlen r) (range_val bs r) = range_val bs r"
    by (rule bit_word_eqI) (auto simp: bit_simps bit_range_val [OF r])
  then have "unat (range_val bs r) = take_bit (rlen r) (unat (range_val bs r))"
    by (metis unsigned_take_bit_eq)
  then show ?thesis by (metis take_bit_nat_less_exp)
qed

lemma set_range_loop_in:
  assumes "rfirst r + rlen r \<le> 8 * length bs"
  shows "\<exists>bs'. set_range_loop bs r x i = Some bs' \<and> length bs' = length bs \<and>
     (\<forall>k < 8 * length bs. bits_at bs' k =
        (if rfirst r + i \<le> k \<and> k < rfirst r + rlen r
         then bit x (rfirst r + rlen r - 1 - k) else bits_at bs k))"
  using assms
proof (induction bs r x i rule: set_range_loop.induct)
  case (1 bs r x i)
  show ?case
  proof (cases "i < rlen r")
    case True
    let ?p = "rfirst r + i"
    let ?y = "bit x (rlen r - 1 - i)"
    have p: "?p < 8 * length bs" using True 1(2) by simp
    have s: "a2dp_set bs (int (rfirst r) + int i) (drop_bit (rlen r - 1 - i) x AND 1)
        = Some (set_at bs ?p ?y)"
      using set_bit_in [OF p, of "drop_bit (rlen r - 1 - i) x AND 1"] and_one_drop_bit_int
      by simp
    have l: "rfirst r + rlen r \<le> 8 * length (set_at bs ?p ?y)" using 1(2) by simp
    obtain bs' where b: "set_range_loop (set_at bs ?p ?y) r x (Suc i) = Some bs'"
      "length bs' = length bs"
      and bb: "\<And>k. k < 8 * length bs \<Longrightarrow> bits_at bs' k =
        (if rfirst r + Suc i \<le> k \<and> k < rfirst r + rlen r
         then bit x (rfirst r + rlen r - 1 - k) else bits_at (set_at bs ?p ?y) k)"
      using 1(1) [OF True s l] by auto
    have "bits_at bs' k =
        (if ?p \<le> k \<and> k < rfirst r + rlen r
         then bit x (rfirst r + rlen r - 1 - k) else bits_at bs k)"
      if k: "k < 8 * length bs" for k
    proof (cases "k = ?p")
      case kp: True
      have "rlen r - 1 - i = rfirst r + rlen r - 1 - k" using kp True by simp
      then show ?thesis using bb [OF k] kp True bits_at_set_at [OF p k] by simp
    next
      case False
      then have "(rfirst r + Suc i \<le> k) = (?p \<le> k)" by linarith
      then show ?thesis using bb [OF k] False bits_at_set_at [OF p k] by simp
    qed
    then show ?thesis
      using True s b by (subst set_range_loop.simps) simp
  next
    case False
    then show ?thesis by (subst set_range_loop.simps) auto
  qed
qed

definition set_range_at :: "u8 list \<Rightarrow> a2dp_range \<Rightarrow> int \<Rightarrow> u8 list" where
  "set_range_at bs r x = (case set_range bs r x of Some bs' \<Rightarrow> bs' | None \<Rightarrow> bs)"

lemma set_range_in: "range_in r bs \<Longrightarrow> set_range bs r x = Some (set_range_at bs r x)"
  using set_range_loop_in [of r bs x 0] by (auto simp: set_range_def set_range_at_def range_in_def)

lemma length_set_range_at [simp]: "range_in r bs \<Longrightarrow> length (set_range_at bs r x) = length bs"
  using set_range_loop_in [of r bs x 0] by (auto simp: set_range_def set_range_at_def range_in_def)

lemma bits_at_set_range_at:
  "range_in r bs \<Longrightarrow> k < 8 * length bs \<Longrightarrow>
   bits_at (set_range_at bs r x) k =
     (if rfirst r \<le> k \<and> k < rfirst r + rlen r
      then bit x (rfirst r + rlen r - 1 - k) else bits_at bs k)"
  using set_range_loop_in [of r bs x 0] by (auto simp: set_range_def set_range_at_def range_in_def)

lemma range_in_set_range_at [simp]:
  "range_in r bs \<Longrightarrow> range_in r' (set_range_at bs r x) = range_in r' bs"
  by (simp add: range_in_def [of r'])

lemma range_in_set_at [simp]: "range_in r (set_at bs k x) = range_in r bs"
  by (simp add: range_in_def)

text \<open>Reading back what was written to a range gives the value cut to the width of the range.\<close>

lemma range_val_set_range_at:
  assumes r: "range_in r bs"
  shows "range_val (set_range_at bs r x) r = take_bit (rlen r) (word_of_int x)"
proof (rule bit_word_eqI)
  fix n assume n: "n < LENGTH(32)"
  have r': "range_in r (set_range_at bs r x)" using r by simp
  show "bit (range_val (set_range_at bs r x) r) n = bit (take_bit (rlen r) (word_of_int x :: u32)) n"
  proof (cases "n < rlen r")
    case True
    let ?k = "rfirst r + (rlen r - 1 - n)"
    have k: "?k < 8 * length bs" using True r unfolding range_in_def by linarith
    have "rfirst r + rlen r - 1 - ?k = n" "rfirst r \<le> ?k" "?k < rfirst r + rlen r"
      using True by simp_all
    then have "bits_at (set_range_at bs r x) ?k = bit x n"
      unfolding bits_at_set_range_at [OF r k] by simp
    then show ?thesis
      unfolding bit_range_val [OF r'] using True n by (simp add: bit_simps)
  next
    case False
    then show ?thesis unfolding bit_range_val [OF r'] by (simp add: bit_simps)
  qed
qed

lemma range_val_cong:
  assumes "range_in r bs" "range_in r bs'"
    and "\<And>k. rfirst r \<le> k \<Longrightarrow> k < rfirst r + rlen r \<Longrightarrow> bits_at bs k = bits_at bs' k"
  shows "range_val bs r = range_val bs' r"
proof (rule bit_word_eqI)
  fix n
  have "n < rlen r \<Longrightarrow>
      bits_at bs (rfirst r + (rlen r - 1 - n)) = bits_at bs' (rfirst r + (rlen r - 1 - n))"
    by (rule assms(3)) auto
  then show "bit (range_val bs r) n = bit (range_val bs' r) n"
    unfolding bit_range_val [OF assms(1)] bit_range_val [OF assms(2)] by blast
qed

section \<open>The only active bit of a range\<close>

lemma low_bit_loop_le: "i \<le> n \<Longrightarrow> low_bit_loop v n i \<le> n"
proof (induction v n i rule: low_bit_loop.induct)
  case (1 v n i)
  then show ?case by (subst low_bit_loop.simps) auto
qed

lemma low_bit_loop_below:
  "i \<le> k \<Longrightarrow> k < low_bit_loop v n i \<Longrightarrow> \<not> bit v k"
proof (induction v n i rule: low_bit_loop.induct)
  case (1 v n i)
  show ?case
  proof (cases "i < n \<and> drop_bit i v AND 1 = 0")
    case True
    then have "\<not> bit v i" using and_one_drop_bit by blast
    moreover have "k < low_bit_loop v n (Suc i)"
      using 1(3) True by (simp add: low_bit_loop.simps [of v n i])
    ultimately show ?thesis using 1(1) [OF True] 1(2) by (metis Suc_leI le_neq_implies_less)
  next
    case False
    then show ?thesis using 1(2,3) by (simp add: low_bit_loop.simps [of v n i] split: if_splits)
  qed
qed

lemma low_bit_loop_at: "low_bit_loop v n i < n \<Longrightarrow> bit v (low_bit_loop v n i)"
proof (induction v n i rule: low_bit_loop.induct)
  case (1 v n i)
  show ?case
  proof (cases "i < n \<and> drop_bit i v AND 1 = 0")
    case True
    then show ?thesis using 1(1) [OF True] 1(2) by (simp add: low_bit_loop.simps [of v n i])
  next
    case False
    then have "low_bit_loop v n i = i" by (auto simp: low_bit_loop.simps [of v n i])
    then show ?thesis using 1(2) False and_one_drop_bit by metis
  qed
qed

text \<open>Position \<open>k\<close> is the only one of the range whose bit is set.\<close>

definition only_active :: "u8 list \<Rightarrow> a2dp_range \<Rightarrow> nat \<Rightarrow> bool" where
  "only_active bs r k \<longleftrightarrow>
     k \<in> {rfirst r ..< rfirst r + rlen r} \<and> bits_at bs k \<and>
     (\<forall>j \<in> {rfirst r ..< rfirst r + rlen r}. bits_at bs j \<longrightarrow> j = k)"

lemma only_active_bit:
  assumes r: "range_in r bs" and m: "m < rlen r"
  shows "only_active bs r (rfirst r + (rlen r - 1 - m)) \<longleftrightarrow> range_val bs r = push_bit m 1"
proof -
  let ?pos = "\<lambda>j. rfirst r + (rlen r - 1 - j)"
  have n: "rlen r \<le> 32" using r by (simp add: range_in_def)
  have img: "{rfirst r ..< rfirst r + rlen r} = ?pos ` {..< rlen r}"
  proof (intro set_eqI iffI)
    fix k assume "k \<in> {rfirst r ..< rfirst r + rlen r}"
    then have "k = ?pos (rfirst r + rlen r - 1 - k)" "rfirst r + rlen r - 1 - k < rlen r" by auto
    then show "k \<in> ?pos ` {..< rlen r}" by blast
  qed auto
  have inj: "j < rlen r \<Longrightarrow> (?pos j = ?pos m) = (j = m)" for j using m by auto
  have "only_active bs r (?pos m) \<longleftrightarrow> (\<forall>j < rlen r. bits_at bs (?pos j) \<longleftrightarrow> j = m)"
    unfolding only_active_def img ball_simps(9) Ball_def lessThan_iff using m inj by blast
  also have "\<dots> \<longleftrightarrow> (\<forall>j. bit (range_val bs r) j \<longleftrightarrow> j = m)"
    unfolding bit_range_val [OF r] using m by blast
  also have "\<dots> \<longleftrightarrow> range_val bs r = push_bit m 1"
  proof
    assume "\<forall>j. bit (range_val bs r) j \<longleftrightarrow> j = m"
    then show "range_val bs r = push_bit m 1"
      by (intro bit_word_eqI) (simp only: bit_mask_word, simp)
  next
    assume "range_val bs r = push_bit m 1"
    then show "\<forall>j. bit (range_val bs r) j \<longleftrightarrow> j = m"
      using m n by (simp only: bit_mask_word) auto
  qed
  finally show ?thesis .
qed

lemma low_bit_loop_push_bit:
  assumes "m < n" "m < 32" shows "low_bit_loop (push_bit m 1) n 0 = m"
proof -
  let ?i = "low_bit_loop (push_bit m 1) n 0"
  have "?i \<le> m"
  proof (rule ccontr)
    assume "\<not> ?i \<le> m"
    then have "\<not> bit (push_bit m (1 :: u32)) m"
      using low_bit_loop_below [of 0 m] by (metis le0 linorder_not_le)
    then show False using assms unfolding bit_mask_word by simp
  qed
  moreover from this have "bit (push_bit m (1 :: u32)) ?i"
    using low_bit_loop_at [of "push_bit m 1" n 0] assms by simp
  ultimately show ?thesis unfolding bit_mask_word by blast
qed

lemma find_active_bit_only:
  assumes r: "range_in r bs" and o: "only_active bs r k"
  shows "find_active_bit bs r = Some (int k)"
proof -
  let ?m = "rfirst r + rlen r - 1 - k"
  have k: "rfirst r \<le> k" "k < rfirst r + rlen r" using o by (auto simp: only_active_def)
  then have m: "?m < rlen r" "k = rfirst r + (rlen r - 1 - ?m)" by auto
  have v: "range_val bs r = push_bit ?m 1"
    using only_active_bit [OF r m(1)] o m(2) by simp
  have "low_bit_loop (push_bit ?m 1) (rlen r) 0 = ?m"
    using low_bit_loop_push_bit m(1) r by (simp add: range_in_def)
  then show ?thesis
    using get_range_in [OF r] v m k by (simp add: find_active_bit_def)
qed

lemma find_active_bit_none:
  assumes r: "range_in r bs" and o: "\<nexists>k. only_active bs r k"
  shows "find_active_bit bs r = Some (-1)"
proof -
  let ?i = "low_bit_loop (range_val bs r) (rlen r) 0"
  have "?i < rlen r \<Longrightarrow> range_val bs r XOR push_bit ?i 1 \<noteq> 0"
    using only_active_bit [OF r, of ?i] o xor_eq_0_iff by metis
  then show ?thesis using get_range_in [OF r] by (auto simp: find_active_bit_def Let_def)
qed

lemma only_active_unique: "only_active bs r k \<Longrightarrow> only_active bs r k' \<Longrightarrow> k = k'"
  by (auto simp: only_active_def)

text \<open>
  The complete characterisation: \<open>find_active_bit\<close> is always defined on a range inside of
  the vector, and returns a position exactly when that position is the only active one.
\<close>

lemma find_active_bit_cases:
  assumes "range_in r bs"
  obtains (found) k where "only_active bs r k" "find_active_bit bs r = Some (int k)"
    | (none) "\<nexists>k. only_active bs r k" "find_active_bit bs r = Some (-1)"
  using find_active_bit_only [OF assms] find_active_bit_none [OF assms] by blast

lemma only_active_cong:
  assumes "\<And>k. k \<in> {rfirst r ..< rfirst r + rlen r} \<Longrightarrow> bits_at bs k = bits_at bs' k"
  shows "only_active bs r k = only_active bs' r k"
  using assms by (auto simp: only_active_def)

text \<open>The result of \<open>find_active_bit\<close> as a total function, for ranges inside of the vector.\<close>

definition active :: "u8 list \<Rightarrow> a2dp_range \<Rightarrow> int" where
  "active bs r = (case find_active_bit bs r of Some b \<Rightarrow> b | None \<Rightarrow> -1)"

lemma find_active_bit_active: "range_in r bs \<Longrightarrow> find_active_bit bs r = Some (active bs r)"
  by (erule find_active_bit_cases) (auto simp: active_def)

lemma active_only: "range_in r bs \<Longrightarrow> only_active bs r k \<Longrightarrow> active bs r = int k"
  by (simp add: active_def find_active_bit_only)

lemma active_cases:
  assumes "range_in r c"
  shows "active c r = -1 \<or> int (rfirst r) \<le> active c r \<and> active c r < int (rfirst r + rlen r)"
  by (rule find_active_bit_cases [OF assms]) (auto simp: active_def only_active_def)

lemma active_ge_first:
  "range_in r c \<Longrightarrow> 0 \<le> active c r \<Longrightarrow> int (rfirst r) \<le> active c r"
  using active_cases [of r c] by auto

text \<open>A range of eight bits read into a \<open>uint8_t\<close>.\<close>

definition octet_val :: "u8 list \<Rightarrow> a2dp_range \<Rightarrow> int" where
  "octet_val c r = uint (range_val c r)"

lemma uint_ucast_range:
  assumes "range_in r c" "rlen r = 8"
  shows "uint (ucast (range_val c r) :: u8) = octet_val c r"
proof -
  have "unat (range_val c r) < 2 ^ 8" using range_val_less [OF assms(1)] assms(2) by simp
  then have "uint (range_val c r) < 2 ^ 8" by (metis of_nat_less_iff of_nat_numeral of_nat_power uint_nat)
  then show ?thesis
    unfolding octet_val_def unsigned_ucast_eq by (simp add: take_bit_int_eq_self)
qed

lemma octet_val_set_range_at:
  assumes "range_in r c" "rlen r = 8" "x \<in> {0..255}"
  shows "octet_val (set_range_at c r x) r = x"
proof -
  have "take_bit 8 x = x" using assms(3) by (simp add: take_bit_int_eq_self)
  then show ?thesis
    by (simp add: octet_val_def range_val_set_range_at [OF assms(1)] assms(2) unsigned_take_bit_eq
        uint_word_of_int_eq take_bit_take_bit)
qed

end
