(* ===== verification/A2dp_Codec.thy ===== *)
theory A2dp_Codec
  imports A2dp_Bits Audio_Types
begin

text \<open>
  What the offload codecs have in common: the selection of the first capability that both
  sides support, and the contract of \<^verbatim>\<open>bluetooth/audio/hal/A2dpOffloadCodec.h\<close>, stated
  as the locale \<open>a2dp_codec\<close>. The codec factory is a client of that contract only.
\<close>

section \<open>Selecting a common capability\<close>

text \<open>\<open>lcaps.get(b) && rcaps.get(b)\<close>: the second read happens only when the first is true.\<close>

definition both_caps :: "u8 list \<Rightarrow> u8 list \<Rightarrow> int \<Rightarrow> bool ub" where
  "both_caps lcaps rcaps b = do { l \<leftarrow> a2dp_get lcaps b; if l then a2dp_get rcaps b else Some False }"

text \<open>
  The chains \<open>if (lcaps.get(a) && rcaps.get(a)) config.set(a); else if \<dots> else return false;\<close>
  of the \<open>BuildConfiguration\<close> methods, over the list of the bits they try. The inner
  \<^const>\<open>None\<close> is \<open>return false\<close>.
\<close>

fun select_first :: "u8 list \<Rightarrow> u8 list \<Rightarrow> u8 list \<Rightarrow> int list \<Rightarrow> u8 list option ub" where
  "select_first lcaps rcaps config [] = Some None"
| "select_first lcaps rcaps config (b # bs) = do {
     x \<leftarrow> both_caps lcaps rcaps b;
     if x then do { c \<leftarrow> a2dp_set config b 1; Some (Some c) }
     else select_first lcaps rcaps config bs
   }"

text \<open>A hint is tried first, when it names a bit at all (\<open>hint_bit >= 0\<close>).\<close>

definition hinted :: "int \<Rightarrow> int list \<Rightarrow> int list" where
  "hinted h bs = (if h \<ge> 0 then h # bs else bs)"

text \<open>\<open>for (auto v : {\<dots>}) if (capabilities.get(bit_of(v))) out.push_back(v);\<close>\<close>

fun filter_caps :: "u8 list \<Rightarrow> ('v \<Rightarrow> int) \<Rightarrow> 'v list \<Rightarrow> 'v list ub" where
  "filter_caps caps bit_of [] = Some []"
| "filter_caps caps bit_of (v # vs) = do {
     x \<leftarrow> a2dp_get caps (bit_of v);
     rest \<leftarrow> filter_caps caps bit_of vs;
     Some (if x then v # rest else rest)
   }"

lemma both_caps_in:
  "k < 8 * length l \<Longrightarrow> k < 8 * length r \<Longrightarrow>
   both_caps l r (int k) = Some (bits_at l k \<and> bits_at r k)"
  by (simp add: both_caps_def get_bit_in)

definition choice :: "u8 list \<Rightarrow> u8 list \<Rightarrow> int list \<Rightarrow> nat option" where
  "choice l r bs = find (\<lambda>k. bits_at l k \<and> bits_at r k) (map nat bs)"

lemma select_first_in:
  assumes "length r = length l" "length c = length l"
    and "\<forall>b \<in> set bs. 0 \<le> b \<and> b < 8 * int (length l)"
  shows "select_first l r c bs =
     Some (map_option (\<lambda>k. set_at c k True) (choice l r bs))"
  using assms(3)
proof (induction bs)
  case Nil
  then show ?case by (simp add: choice_def)
next
  case (Cons b bs)
  then have k: "b = int (nat b)" "nat b < 8 * length l" by auto
  then have "both_caps l r b = Some (bits_at l (nat b) \<and> bits_at r (nat b))"
    and "a2dp_set c b 1 = Some (set_at c (nat b) True)"
    using both_caps_in [of "nat b" l r] set_bit_in [of "nat b" c 1] assms by simp_all
  then show ?case using Cons by (simp add: choice_def)
qed

lemma choice_SomeD:
  "choice l r bs = Some k \<Longrightarrow> k \<in> nat ` set bs \<and> bits_at l k \<and> bits_at r k"
  by (auto simp: choice_def find_Some_iff)

lemma choice_None_iff:
  "choice l r bs = None \<longleftrightarrow> (\<forall>b \<in> set bs. \<not> (bits_at l (nat b) \<and> bits_at r (nat b)))"
  by (auto simp: choice_def find_None_iff)

section \<open>The codec contract\<close>

text \<open>
  A codec as the factory sees it: its identifier and the two virtual methods. A parse yields
  a status and the parameters it filled in; a build yields whether a configuration was found
  and the octets it wrote.
\<close>

record offload_codec =
  oc_info :: codec_info
  oc_parse :: "u8 list \<Rightarrow> codec_parameters \<Rightarrow> (a2dp_status \<times> codec_parameters) ub"
  oc_build :: "u8 list \<Rightarrow> codec_parameters option \<Rightarrow> u8 list \<Rightarrow> (bool \<times> u8 list) ub"

text \<open>
  The laws the factory relies on: both methods are free of undefined behaviour, and a
  configuration that was built is one that parses.
\<close>

locale a2dp_codec =
  fixes codec :: offload_codec
  assumes parse_defined: "\<exists>st cp'. oc_parse codec cfg cp = Some (st, cp')"
    and build_defined: "\<exists>ok cfg'. oc_build codec rcaps hint cfg = Some (ok, cfg')"
    and build_parses: "oc_build codec rcaps hint cfg = Some (True, cfg') \<Longrightarrow>
      \<exists>cp'. oc_parse codec cfg' cp = Some (A2DP_OK, cp')"
begin

lemma build_cases:
  obtains (built) cfg' cp' where
      "oc_build codec rcaps hint cfg = Some (True, cfg')"
      "oc_parse codec cfg' cp = Some (A2DP_OK, cp')"
    | (refused) cfg' where "oc_build codec rcaps hint cfg = Some (False, cfg')"
proof -
  obtain ok cfg' where b: "oc_build codec rcaps hint cfg = Some (ok, cfg')"
    using build_defined by blast
  show thesis
  proof (cases ok)
    case True
    with b have t: "oc_build codec rcaps hint cfg = Some (True, cfg')" by simp
    then show thesis using build_parses [OF t] built [OF t] by blast
  next
    case False
    then show thesis using b refused by simp
  qed
qed

end

end
