(* ===== verification/Codec_Sbc.thy ===== *)
theory Codec_Sbc
  imports A2dp_Codec
begin

text \<open>
  \<^verbatim>\<open>bluetooth/audio/hal/A2dpOffloadCodecSbc.cpp\<close>: the SBC codec element, its parser, the
  frame size, bitrate and bitpool computations, and the negotiation of a configuration from
  the capabilities of both sides.

  The sources compute with 32-bit \<open>int\<close> and \<open>unsigned\<close>; the operands are bounded by the
  element's fields, and \<open>Sbc_bitrate_bound\<close> shows that no intermediate value leaves the
  range, so the integers below agree with the machine's.
\<close>

section \<open>Local capabilities and signalling format\<close>

abbreviation (input) kEnable :: int where "kEnable \<equiv> 1"

definition Sbc_kSamplingFrequency :: a2dp_range where "Sbc_kSamplingFrequency = Range2 0 3"
definition Sbc_kChannelMode :: a2dp_range where "Sbc_kChannelMode = Range2 4 7"
definition Sbc_kBlockLength :: a2dp_range where "Sbc_kBlockLength = Range2 8 11"
definition Sbc_kSubbands :: a2dp_range where "Sbc_kSubbands = Range2 12 13"
definition Sbc_kAllocationMethod :: a2dp_range where "Sbc_kAllocationMethod = Range2 14 15"
definition Sbc_kMinimumBitpool :: a2dp_range where "Sbc_kMinimumBitpool = Range2 16 23"
definition Sbc_kMaximumBitpool :: a2dp_range where "Sbc_kMaximumBitpool = Range2 24 31"

definition Sbc_kCapabilitiesSize :: nat where "Sbc_kCapabilitiesSize = 32 div 8"
definition Sbc_kBitdepth :: int where "Sbc_kBitdepth = 16"
definition Sbc_kDefaultMinimumBitpool :: int where "Sbc_kDefaultMinimumBitpool = 2"
definition Sbc_kDefaultMaximumBitpool :: int where "Sbc_kDefaultMaximumBitpool = 250"

abbreviation (input) Sbc_kSamplingFrequency16000 :: int where "Sbc_kSamplingFrequency16000 \<equiv> 0"
abbreviation (input) Sbc_kSamplingFrequency32000 :: int where "Sbc_kSamplingFrequency32000 \<equiv> 1"
abbreviation (input) Sbc_kSamplingFrequency44100 :: int where "Sbc_kSamplingFrequency44100 \<equiv> 2"
abbreviation (input) Sbc_kSamplingFrequency48000 :: int where "Sbc_kSamplingFrequency48000 \<equiv> 3"

abbreviation (input) kChannelModeMono :: int where "kChannelModeMono \<equiv> 4"
abbreviation (input) kChannelModeDualChannel :: int where "kChannelModeDualChannel \<equiv> 5"
abbreviation (input) kChannelModeStereo :: int where "kChannelModeStereo \<equiv> 6"
abbreviation (input) kChannelModeJointStereo :: int where "kChannelModeJointStereo \<equiv> 7"

abbreviation (input) kBlockLength4 :: int where "kBlockLength4 \<equiv> 8"
abbreviation (input) kBlockLength8 :: int where "kBlockLength8 \<equiv> 9"
abbreviation (input) kBlockLength12 :: int where "kBlockLength12 \<equiv> 10"
abbreviation (input) kBlockLength16 :: int where "kBlockLength16 \<equiv> 11"

abbreviation (input) kSubbands8 :: int where "kSubbands8 \<equiv> 12"
abbreviation (input) kSubbands4 :: int where "kSubbands4 \<equiv> 13"

abbreviation (input) kAllocationMethodSnr :: int where "kAllocationMethodSnr \<equiv> 14"
abbreviation (input) kAllocationMethodLoudness :: int where "kAllocationMethodLoudness \<equiv> 15"

section \<open>Conversion functions\<close>

definition Sbc_GetSamplingFrequencyBit :: "int \<Rightarrow> int" where
  "Sbc_GetSamplingFrequencyBit f =
     (if f = 16000 then Sbc_kSamplingFrequency16000
      else if f = 32000 then Sbc_kSamplingFrequency32000
      else if f = 44100 then Sbc_kSamplingFrequency44100
      else if f = 48000 then Sbc_kSamplingFrequency48000
      else -1)"

definition Sbc_GetSamplingFrequencyValue :: "int \<Rightarrow> int" where
  "Sbc_GetSamplingFrequencyValue b =
     (if b = Sbc_kSamplingFrequency16000 then 16000
      else if b = Sbc_kSamplingFrequency32000 then 32000
      else if b = Sbc_kSamplingFrequency44100 then 44100
      else if b = Sbc_kSamplingFrequency48000 then 48000
      else 0)"

fun Sbc_GetChannelModeBit :: "channel_mode \<Rightarrow> int" where
  "Sbc_GetChannelModeBit CM_STEREO = kChannelModeJointStereo OR kChannelModeStereo"
| "Sbc_GetChannelModeBit CM_DUALMONO = kChannelModeDualChannel"
| "Sbc_GetChannelModeBit CM_MONO = kChannelModeMono"
| "Sbc_GetChannelModeBit CM_UNKNOWN = -1"

definition Sbc_GetChannelModeEnum :: "int \<Rightarrow> channel_mode" where
  "Sbc_GetChannelModeEnum b =
     (if b = kChannelModeMono then CM_MONO
      else if b = kChannelModeDualChannel then CM_DUALMONO
      else if b = kChannelModeStereo \<or> b = kChannelModeJointStereo then CM_STEREO
      else CM_UNKNOWN)"

definition GetBlockLengthValue :: "int \<Rightarrow> int" where
  "GetBlockLengthValue b =
     (if b = kBlockLength4 then 4
      else if b = kBlockLength8 then 8
      else if b = kBlockLength12 then 12
      else if b = kBlockLength16 then 16
      else 0)"

definition GetSubbandsValue :: "int \<Rightarrow> int" where
  "GetSubbandsValue b = (if b = kSubbands4 then 4 else if b = kSubbands8 then 8 else 0)"

datatype sbc_allocation_method = SNR | LOUDNESS

definition GetAllocationMethodEnum :: "int \<Rightarrow> sbc_allocation_method" where
  "GetAllocationMethodEnum b = (if b = kAllocationMethodSnr then SNR else LOUDNESS)"

definition Sbc_GetSamplingFrequencyValue_config :: "u8 list \<Rightarrow> int ub" where
  "Sbc_GetSamplingFrequencyValue_config cfg =
     map_option Sbc_GetSamplingFrequencyValue (find_active_bit cfg Sbc_kSamplingFrequency)"

definition GetBlockLengthValue_config :: "u8 list \<Rightarrow> int ub" where
  "GetBlockLengthValue_config cfg = map_option GetBlockLengthValue (find_active_bit cfg Sbc_kBlockLength)"

definition GetSubbandsValue_config :: "u8 list \<Rightarrow> int ub" where
  "GetSubbandsValue_config cfg = map_option GetSubbandsValue (find_active_bit cfg Sbc_kSubbands)"

section \<open>Frame size, bitrate and bitpool\<close>

definition GetFrameSize :: "u8 list \<Rightarrow> int \<Rightarrow> int ub" where
  "GetFrameSize cfg bitpool = do {
     subbands \<leftarrow> GetSubbandsValue_config cfg;
     blocks \<leftarrow> GetBlockLengthValue_config cfg;
     mono \<leftarrow> a2dp_get cfg kChannelModeMono;
     dual \<leftarrow> a2dp_get cfg kChannelModeDualChannel;
     joint \<leftarrow> a2dp_get cfg kChannelModeJointStereo;
     let bits = (4 * subbands) * 2 ^ of_bool (\<not> mono)
              + (blocks * bitpool) * 2 ^ of_bool dual
              + (if joint then subbands else 0);
     Some (4 + (bits + 7) div 8)
   }"

text \<open>The division is undefined when the configuration has no block length or subbands.\<close>

definition GetBitrate :: "u8 list \<Rightarrow> int \<Rightarrow> int ub" where
  "GetBitrate cfg bitpool = do {
     sampling_frequency \<leftarrow> Sbc_GetSamplingFrequencyValue_config cfg;
     subbands \<leftarrow> GetSubbandsValue_config cfg;
     blocks \<leftarrow> GetBlockLengthValue_config cfg;
     frame_size \<leftarrow> GetFrameSize cfg bitpool;
     let bits = 8 * frame_size;
     if blocks * subbands = 0 then None
     else Some ((bits * sampling_frequency) div (blocks * subbands))
   }"

function GetBitpool_loop :: "u8 list \<Rightarrow> int \<Rightarrow> nat \<Rightarrow> int \<Rightarrow> int ub" where
  "GetBitpool_loop cfg bitrate i bitpool =
     (if i \<noteq> 0
      then do {
        rate \<leftarrow> GetBitrate cfg (bitpool + int i);
        GetBitpool_loop cfg bitrate (i div 2) (if bitrate > rate then bitpool + int i else bitpool)
      }
      else Some bitpool)"
  by pat_completeness auto
termination
  by (relation "measure (\<lambda>(cfg, bitrate, i, bitpool). i)") auto

declare GetBitpool_loop.simps [simp del]

definition clamp :: "int \<Rightarrow> int \<Rightarrow> int \<Rightarrow> int" where
  "clamp x lo hi = (if x < lo then lo else if hi < x then hi else x)"

definition GetBitpool :: "u8 list \<Rightarrow> int \<Rightarrow> int ub" where
  "GetBitpool cfg bitrate = do {
     bitpool \<leftarrow> GetBitpool_loop cfg bitrate 128 0;
     Some (clamp bitpool 2 250)
   }"

section \<open>The class\<close>

definition A2dpOffloadCodecSbc :: "codec_info ub" where
  "A2dpOffloadCodecSbc = do {
     let caps = replicate Sbc_kCapabilitiesSize (0 :: u8);
     caps \<leftarrow> a2dp_set caps Sbc_kSamplingFrequency44100 kEnable;
     caps \<leftarrow> a2dp_set caps Sbc_kSamplingFrequency48000 kEnable;
     caps \<leftarrow> a2dp_set caps kChannelModeMono kEnable;
     caps \<leftarrow> a2dp_set caps kChannelModeDualChannel kEnable;
     caps \<leftarrow> a2dp_set caps kChannelModeStereo kEnable;
     caps \<leftarrow> a2dp_set caps kChannelModeJointStereo kEnable;
     caps \<leftarrow> a2dp_set caps kBlockLength4 kEnable;
     caps \<leftarrow> a2dp_set caps kBlockLength8 kEnable;
     caps \<leftarrow> a2dp_set caps kBlockLength12 kEnable;
     caps \<leftarrow> a2dp_set caps kBlockLength16 kEnable;
     caps \<leftarrow> a2dp_set caps kSubbands4 kEnable;
     caps \<leftarrow> a2dp_set caps kSubbands8 kEnable;
     caps \<leftarrow> a2dp_set caps kSubbands4 kEnable;
     caps \<leftarrow> a2dp_set caps kSubbands8 kEnable;
     caps \<leftarrow> a2dp_set caps kAllocationMethodSnr kEnable;
     caps \<leftarrow> a2dp_set caps kAllocationMethodLoudness kEnable;
     caps \<leftarrow> set_range caps Sbc_kMinimumBitpool Sbc_kDefaultMinimumBitpool;
     caps \<leftarrow> set_range caps Sbc_kMaximumBitpool Sbc_kDefaultMaximumBitpool;
     sf \<leftarrow> filter_caps caps Sbc_GetSamplingFrequencyBit [16000, 32000, 44100, 48000];
     cm \<leftarrow> filter_caps caps Sbc_GetChannelModeBit [CM_MONO, CM_DUALMONO, CM_STEREO];
     Some \<lparr>ci_id = CodecId_A2dp_SBC, ci_name = ''SBC'', ci_capabilities = caps,
           ci_samplingFrequencyHz = sf, ci_channelMode = cm, ci_bitdepth = [Sbc_kBitdepth]\<rparr>
   }"

record sbc_parameters =
  sbc_allocation_method :: sbc_allocation_method
  sbc_block_length :: int
  sbc_subbands :: int
  sbc_min_bitpool :: int
  sbc_max_bitpool :: int

text \<open>
  \<open>ParseConfiguration\<close> writes the parameters only when it succeeds; \<open>sp\<close> is the optional
  \<open>sbc_parameters\<close> pointer.
\<close>

definition Sbc_ParseConfiguration ::
  "codec_info \<Rightarrow> u8 list \<Rightarrow> codec_parameters \<Rightarrow> sbc_parameters option \<Rightarrow>
   (a2dp_status \<times> codec_parameters \<times> sbc_parameters option) ub" where
  "Sbc_ParseConfiguration info configuration cp sp =
     (let lcaps = ci_capabilities info; config = configuration;
          fail = (\<lambda>st. Some (st, cp, sp)) in
      if length configuration \<noteq> length lcaps then fail BAD_LENGTH else do {
        sampling_frequency \<leftarrow> find_active_bit config Sbc_kSamplingFrequency;
        if sampling_frequency < 0 then fail INVALID_SAMPLING_FREQUENCY else do {
        sf_ok \<leftarrow> a2dp_get lcaps sampling_frequency;
        if \<not> sf_ok then fail NOT_SUPPORTED_SAMPLING_FREQUENCY else do {
        channel_mode \<leftarrow> find_active_bit config Sbc_kChannelMode;
        if channel_mode < 0 then fail INVALID_CHANNEL_MODE else do {
        cm_ok \<leftarrow> a2dp_get lcaps channel_mode;
        if \<not> cm_ok then fail NOT_SUPPORTED_CHANNEL_MODE else do {
        block_length \<leftarrow> find_active_bit config Sbc_kBlockLength;
        if block_length < 0 then fail INVALID_BLOCK_LENGTH else do {
        subbands \<leftarrow> find_active_bit config Sbc_kSubbands;
        if subbands < 0 then fail INVALID_SUBBANDS else do {
        sb_ok \<leftarrow> a2dp_get lcaps subbands;
        if \<not> sb_ok then fail NOT_SUPPORTED_SUBBANDS else do {
        allocation_method \<leftarrow> find_active_bit config Sbc_kAllocationMethod;
        if allocation_method < 0 then fail INVALID_ALLOCATION_METHOD else do {
        am_ok \<leftarrow> a2dp_get lcaps allocation_method;
        if \<not> am_ok then fail NOT_SUPPORTED_ALLOCATION_METHOD else do {
        min_v \<leftarrow> get_range config Sbc_kMinimumBitpool;
        let min_bitpool = uint (ucast min_v :: u8);
        if min_bitpool < 2 \<or> min_bitpool > 250 then fail INVALID_MINIMUM_BITPOOL_VALUE else do {
        lmin \<leftarrow> get_range lcaps Sbc_kMinimumBitpool;
        if min_bitpool < uint lmin then fail NOT_SUPPORTED_MINIMUM_BITPOOL_VALUE else do {
        max_v \<leftarrow> get_range config Sbc_kMaximumBitpool;
        let max_bitpool = uint (ucast max_v :: u8);
        if max_bitpool < 2 \<or> max_bitpool > 250 then fail INVALID_MAXIMUM_BITPOOL_VALUE else do {
        lmax \<leftarrow> get_range lcaps Sbc_kMaximumBitpool;
        if max_bitpool > uint lmax then fail NOT_SUPPORTED_MAXIMUM_BITPOOL_VALUE else do {
        minBitrate \<leftarrow> GetBitrate config min_bitpool;
        maxBitrate \<leftarrow> GetBitrate config max_bitpool;
        Some (A2DP_OK,
          cp\<lparr>cp_channelMode := Sbc_GetChannelModeEnum channel_mode,
             cp_samplingFrequencyHz := Sbc_GetSamplingFrequencyValue sampling_frequency,
             cp_bitdepth := Sbc_kBitdepth,
             cp_minBitrate := minBitrate,
             cp_maxBitrate := maxBitrate\<rparr>,
          map_option (\<lambda>p.
            p\<lparr>sbc_block_length := GetBlockLengthValue block_length,
              sbc_subbands := GetSubbandsValue subbands,
              sbc_allocation_method := GetAllocationMethodEnum allocation_method,
              sbc_min_bitpool := min_bitpool,
              sbc_max_bitpool := max_bitpool\<rparr>) sp)
      }}}}}}}}}}}}}})"

text \<open>The selections of \<open>BuildConfiguration\<close>, in the order of the source.\<close>

definition Sbc_SelectSamplingFrequency ::
  "u8 list \<Rightarrow> u8 list \<Rightarrow> codec_parameters option \<Rightarrow> u8 list \<Rightarrow> u8 list option ub" where
  "Sbc_SelectSamplingFrequency lcaps rcaps hint config =
     (let sf_hint = (case hint of Some h \<Rightarrow> Sbc_GetSamplingFrequencyBit (cp_samplingFrequencyHz h)
                                | None \<Rightarrow> -1)
      in select_first lcaps rcaps config
           (hinted sf_hint [Sbc_kSamplingFrequency44100, Sbc_kSamplingFrequency48000]))"

definition Sbc_SelectChannelMode ::
  "u8 list \<Rightarrow> u8 list \<Rightarrow> codec_parameters option \<Rightarrow> u8 list \<Rightarrow> u8 list option ub" where
  "Sbc_SelectChannelMode lcaps rcaps hint config =
     (let cm_hint = (case hint of Some h \<Rightarrow> Sbc_GetChannelModeBit (cp_channelMode h)
                                | None \<Rightarrow> -1)
      in select_first lcaps rcaps config
           (hinted cm_hint [kChannelModeJointStereo, kChannelModeStereo,
                            kChannelModeDualChannel, kChannelModeMono]))"

definition Sbc_SelectBlockLength ::
  "u8 list \<Rightarrow> u8 list \<Rightarrow> u8 list \<Rightarrow> u8 list option ub" where
  "Sbc_SelectBlockLength lcaps rcaps config =
     select_first lcaps rcaps config [kBlockLength16, kBlockLength12, kBlockLength8, kBlockLength4]"

definition Sbc_SelectSubbands ::
  "u8 list \<Rightarrow> u8 list \<Rightarrow> u8 list \<Rightarrow> u8 list option ub" where
  "Sbc_SelectSubbands lcaps rcaps config = select_first lcaps rcaps config [kSubbands8, kSubbands4]"

definition Sbc_SelectAllocationMethod ::
  "u8 list \<Rightarrow> u8 list \<Rightarrow> u8 list \<Rightarrow> u8 list option ub" where
  "Sbc_SelectAllocationMethod lcaps rcaps config =
     select_first lcaps rcaps config [kAllocationMethodLoudness, kAllocationMethodSnr]"

definition Sbc_SelectBitpool ::
  "u8 list \<Rightarrow> u8 list \<Rightarrow> codec_parameters option \<Rightarrow> u8 list \<Rightarrow> (int \<times> int) ub" where
  "Sbc_SelectBitpool lcaps rcaps hint config = do {
     rmin \<leftarrow> get_range rcaps Sbc_kMinimumBitpool;
     rmax \<leftarrow> get_range rcaps Sbc_kMaximumBitpool;
     let min_bitpool = uint (ucast rmin :: u8);
     let max_bitpool = uint (ucast rmax :: u8);
     let (min_bitpool, max_bitpool) =
       (if min_bitpool < 2 \<or> min_bitpool > 250 \<or> max_bitpool < 2 \<or> max_bitpool > 250
           \<or> min_bitpool > max_bitpool then (2, 250) else (min_bitpool, max_bitpool));
     lmin \<leftarrow> get_range lcaps Sbc_kMinimumBitpool;
     let min_bitpool = max min_bitpool (uint (ucast lmin :: u8));
     lmax \<leftarrow> get_range lcaps Sbc_kMaximumBitpool;
     let max_bitpool = max max_bitpool (uint (ucast lmax :: u8));
     (case hint of
        None \<Rightarrow> Some (min_bitpool, max_bitpool)
      | Some h \<Rightarrow> do {
          bp_min \<leftarrow> GetBitpool config (cp_minBitrate h);
          let min_bitpool = max min_bitpool bp_min;
          if cp_maxBitrate h \<noteq> 0 \<and> cp_maxBitrate h \<ge> cp_minBitrate h
          then do {
            bp_max \<leftarrow> GetBitpool config (cp_maxBitrate h);
            Some (min_bitpool, min max_bitpool bp_max)
          }
          else Some (min_bitpool, max_bitpool)
        })
   }"

definition Sbc_BuildConfiguration ::
  "codec_info \<Rightarrow> u8 list \<Rightarrow> codec_parameters option \<Rightarrow> u8 list \<Rightarrow> (bool \<times> u8 list) ub" where
  "Sbc_BuildConfiguration info remote_capabilities hint configuration =
     (let lcaps = ci_capabilities info; rcaps = remote_capabilities in
      if length remote_capabilities \<noteq> length lcaps then Some (False, configuration) else do {
        let c0 = replicate (length lcaps) (0 :: u8);
        s1 \<leftarrow> Sbc_SelectSamplingFrequency lcaps rcaps hint c0;
        (case s1 of None \<Rightarrow> Some (False, c0) | Some c1 \<Rightarrow> do {
        s2 \<leftarrow> Sbc_SelectChannelMode lcaps rcaps hint c1;
        (case s2 of None \<Rightarrow> Some (False, c1) | Some c2 \<Rightarrow> do {
        s3 \<leftarrow> Sbc_SelectBlockLength lcaps rcaps c2;
        (case s3 of None \<Rightarrow> Some (False, c2) | Some c3 \<Rightarrow> do {
        s4 \<leftarrow> Sbc_SelectSubbands lcaps rcaps c3;
        (case s4 of None \<Rightarrow> Some (False, c3) | Some c4 \<Rightarrow> do {
        s5 \<leftarrow> Sbc_SelectAllocationMethod lcaps rcaps c4;
        (case s5 of None \<Rightarrow> Some (False, c4) | Some c5 \<Rightarrow> do {
        (min_bitpool, max_bitpool) \<leftarrow> Sbc_SelectBitpool lcaps rcaps hint c5;
        c6 \<leftarrow> set_range c5 Sbc_kMinimumBitpool min_bitpool;
        c7 \<leftarrow> set_range c6 Sbc_kMaximumBitpool max_bitpool;
        Some (True, c7) })})})})})
      })"

section \<open>The constructed codec\<close>

definition Sbc_info :: codec_info where
  "Sbc_info = \<lparr>ci_id = CodecId_A2dp_SBC, ci_name = ''SBC'',
     ci_capabilities = [63, 255, 2, 250], ci_samplingFrequencyHz = [44100, 48000],
     ci_channelMode = [CM_MONO, CM_DUALMONO, CM_STEREO], ci_bitdepth = [16]\<rparr>"

lemma Sbc_constructed: "A2dpOffloadCodecSbc = Some Sbc_info"
  by code_simp

abbreviation Sbc_lcaps :: "u8 list" where "Sbc_lcaps \<equiv> ci_capabilities Sbc_info"

lemma length_Sbc_lcaps [simp]: "length Sbc_lcaps = 4"
  by (simp add: Sbc_info_def)

lemmas Sbc_ranges =
  Sbc_kSamplingFrequency_def Sbc_kChannelMode_def Sbc_kBlockLength_def Sbc_kSubbands_def
  Sbc_kAllocationMethod_def Sbc_kMinimumBitpool_def Sbc_kMaximumBitpool_def Range2_def

lemma Sbc_range_fields [simp]:
  "rfirst Sbc_kSamplingFrequency = 0" "rlen Sbc_kSamplingFrequency = 4"
  "rfirst Sbc_kChannelMode = 4" "rlen Sbc_kChannelMode = 4"
  "rfirst Sbc_kBlockLength = 8" "rlen Sbc_kBlockLength = 4"
  "rfirst Sbc_kSubbands = 12" "rlen Sbc_kSubbands = 2"
  "rfirst Sbc_kAllocationMethod = 14" "rlen Sbc_kAllocationMethod = 2"
  "rfirst Sbc_kMinimumBitpool = 16" "rlen Sbc_kMinimumBitpool = 8"
  "rfirst Sbc_kMaximumBitpool = 24" "rlen Sbc_kMaximumBitpool = 8"
  by (simp_all add: Sbc_ranges)

lemma Sbc_range_in [simp]:
  assumes "length c = 4"
  shows "range_in Sbc_kSamplingFrequency c" "range_in Sbc_kChannelMode c"
    "range_in Sbc_kBlockLength c" "range_in Sbc_kSubbands c" "range_in Sbc_kAllocationMethod c"
    "range_in Sbc_kMinimumBitpool c" "range_in Sbc_kMaximumBitpool c"
  using assms by (simp_all add: range_in_def)

lemma Sbc_lcaps_bits: "k < 16 \<Longrightarrow> bits_at Sbc_lcaps k \<longleftrightarrow> 2 \<le> k"
proof -
  have "\<forall>k < 16. bits_at Sbc_lcaps k \<longleftrightarrow> 2 \<le> k" by code_simp
  then show "k < 16 \<Longrightarrow> ?thesis" by blast
qed

lemma Sbc_lcaps_bitpool:
  "get_range Sbc_lcaps Sbc_kMinimumBitpool = Some 2"
  "get_range Sbc_lcaps Sbc_kMaximumBitpool = Some 250"
  by code_simp+

section \<open>Bitrate and bitpool\<close>

definition Sbc_frame_bits :: "u8 list \<Rightarrow> int \<Rightarrow> int" where
  "Sbc_frame_bits c p =
     4 * GetSubbandsValue (active c Sbc_kSubbands) * (if bits_at c 4 then 1 else 2)
     + GetBlockLengthValue (active c Sbc_kBlockLength) * p * (if bits_at c 5 then 2 else 1)
     + (if bits_at c 7 then GetSubbandsValue (active c Sbc_kSubbands) else 0)"

definition Sbc_rate :: "u8 list \<Rightarrow> int \<Rightarrow> int" where
  "Sbc_rate c p =
     8 * (4 + (Sbc_frame_bits c p + 7) div 8)
       * Sbc_GetSamplingFrequencyValue (active c Sbc_kSamplingFrequency)
     div (GetBlockLengthValue (active c Sbc_kBlockLength) * GetSubbandsValue (active c Sbc_kSubbands))"

definition Sbc_framed :: "u8 list \<Rightarrow> bool" where
  "Sbc_framed c \<longleftrightarrow> length c = 4 \<and> active c Sbc_kBlockLength \<ge> 0 \<and> active c Sbc_kSubbands \<ge> 0"

lemma Sbc_value_ranges:
  "GetSubbandsValue b \<in> {0, 4, 8}" "GetBlockLengthValue b \<in> {0, 4, 8, 12, 16}"
  "Sbc_GetSamplingFrequencyValue b \<in> {0, 16000, 32000, 44100, 48000}"
  by (auto simp: GetSubbandsValue_def GetBlockLengthValue_def Sbc_GetSamplingFrequencyValue_def)

lemma Sbc_framed_values:
  assumes "Sbc_framed c"
  shows "GetSubbandsValue (active c Sbc_kSubbands) \<in> {4, 8}"
    and "GetBlockLengthValue (active c Sbc_kBlockLength) \<in> {4, 8, 12, 16}"
proof -
  have l: "length c = 4" using assms by (simp add: Sbc_framed_def)
  have "active c Sbc_kSubbands \<in> {12, 13}" "active c Sbc_kBlockLength \<in> {8, 9, 10, 11}"
    using active_cases [of Sbc_kSubbands c] active_cases [of Sbc_kBlockLength c] assms l
    by (auto simp: Sbc_framed_def)
  then show "GetSubbandsValue (active c Sbc_kSubbands) \<in> {4, 8}"
    and "GetBlockLengthValue (active c Sbc_kBlockLength) \<in> {4, 8, 12, 16}"
    by (auto simp: GetSubbandsValue_def GetBlockLengthValue_def)
qed

lemma get_bit_numeral:
  assumes "length c = 4"
  shows "a2dp_get c 4 = Some (bits_at c 4)" "a2dp_get c 5 = Some (bits_at c 5)"
    "a2dp_get c 7 = Some (bits_at c 7)"
  using get_bit_in [of 4 c] get_bit_in [of 5 c] get_bit_in [of 7 c] assms by simp_all

lemma GetFrameSize_eq:
  "length c = 4 \<Longrightarrow> GetFrameSize c p = Some (4 + (Sbc_frame_bits c p + 7) div 8)"
  by (simp add: GetFrameSize_def GetSubbandsValue_config_def GetBlockLengthValue_config_def
      find_active_bit_active get_bit_numeral Sbc_frame_bits_def)

lemma GetBitrate_eq:
  assumes "Sbc_framed c" shows "GetBitrate c p = Some (Sbc_rate c p)"
proof -
  have "length c = 4" using assms by (simp add: Sbc_framed_def)
  moreover have "GetBlockLengthValue (active c Sbc_kBlockLength) \<noteq> 0"
    "GetSubbandsValue (active c Sbc_kSubbands) \<noteq> 0"
    using Sbc_framed_values [OF assms] by auto
  ultimately show ?thesis
    by (simp add: GetBitrate_def GetFrameSize_eq Sbc_GetSamplingFrequencyValue_config_def
        GetSubbandsValue_config_def GetBlockLengthValue_config_def find_active_bit_active Sbc_rate_def)
qed

lemma Sbc_frame_bits_mono: "p \<le> q \<Longrightarrow> Sbc_frame_bits c p \<le> Sbc_frame_bits c q"
  using Sbc_value_ranges(2) [of "active c Sbc_kBlockLength"]
  by (auto simp: Sbc_frame_bits_def mult_left_mono)

lemma Sbc_rate_mono: "p \<le> q \<Longrightarrow> Sbc_rate c p \<le> Sbc_rate c q"
proof -
  let ?sf = "Sbc_GetSamplingFrequencyValue (active c Sbc_kSamplingFrequency)"
  let ?bl = "GetBlockLengthValue (active c Sbc_kBlockLength)"
  let ?sb = "GetSubbandsValue (active c Sbc_kSubbands)"
  assume "p \<le> q"
  then have "(Sbc_frame_bits c p + 7) div 8 \<le> (Sbc_frame_bits c q + 7) div 8"
    by (intro zdiv_mono1) (auto intro: Sbc_frame_bits_mono)
  moreover have "0 \<le> ?sf" "0 \<le> ?bl" "0 \<le> ?sb"
    using Sbc_value_ranges(3) [of "active c Sbc_kSamplingFrequency"]
      Sbc_value_ranges(1) [of "active c Sbc_kSubbands"]
      Sbc_value_ranges(2) [of "active c Sbc_kBlockLength"] by auto
  ultimately show ?thesis
    unfolding Sbc_rate_def by (intro div_mono_nonneg mult_right_mono mult_nonneg_nonneg) simp_all
qed

text \<open>No intermediate value of the bitrate computation overflows a 32-bit \<open>int\<close>.\<close>

lemma Sbc_bitrate_bound:
  assumes "0 \<le> p" "p \<le> 255"
  shows "0 \<le> Sbc_frame_bits c p"
    and "8 * (4 + (Sbc_frame_bits c p + 7) div 8)
       * Sbc_GetSamplingFrequencyValue (active c Sbc_kSamplingFrequency) < 2 ^ 31"
proof -
  have nn: "0 \<le> Sbc_frame_bits c p" "Sbc_frame_bits c p \<le> 64 + 16 * 255 * 2 + 8"
    using Sbc_value_ranges(1) [of "active c Sbc_kSubbands"]
      Sbc_value_ranges(2) [of "active c Sbc_kBlockLength"] assms
    by (auto simp: Sbc_frame_bits_def)
  show "0 \<le> Sbc_frame_bits c p" by (rule nn)
  have "(Sbc_frame_bits c p + 7) div 8 \<le> (64 + 16 * 255 * 2 + 8 + 7) div 8"
    using nn by (intro zdiv_mono1) auto
  then have "8 * (4 + (Sbc_frame_bits c p + 7) div 8) \<le> 8264" by simp
  moreover have "0 \<le> 8 * (4 + (Sbc_frame_bits c p + 7) div 8)" using nn by simp
  moreover have "0 \<le> Sbc_GetSamplingFrequencyValue (active c Sbc_kSamplingFrequency)"
    "Sbc_GetSamplingFrequencyValue (active c Sbc_kSamplingFrequency) \<le> 48000"
    using Sbc_value_ranges(3) [of "active c Sbc_kSamplingFrequency"] by auto
  ultimately have "8 * (4 + (Sbc_frame_bits c p + 7) div 8)
       * Sbc_GetSamplingFrequencyValue (active c Sbc_kSamplingFrequency) \<le> 8264 * 48000"
    by (intro mult_mono) auto
  then show "8 * (4 + (Sbc_frame_bits c p + 7) div 8)
       * Sbc_GetSamplingFrequencyValue (active c Sbc_kSamplingFrequency) < 2 ^ 31" by simp
qed

text \<open>The loop of \<open>GetBitpool\<close> is a binary search for the largest bitpool under the bitrate.\<close>

lemma GetBitpool_loop_search:
  assumes "Sbc_framed c"
  shows "\<exists>b'. GetBitpool_loop c R (2 ^ j) b = Some b' \<and> b \<le> b' \<and> b' < b + 2 ^ Suc j \<and>
     (\<forall>x. b < x \<and> x < b + 2 ^ Suc j \<longrightarrow> (x \<le> b' \<longleftrightarrow> Sbc_rate c x < R))"
proof (induction j arbitrary: b)
  case 0
  have "b < x \<and> x < b + 2 ^ Suc 0 \<longleftrightarrow> x = b + 1" for x by auto
  then show ?case
    by (subst GetBitpool_loop.simps)
       (simp add: GetBitrate_eq [OF assms] GetBitpool_loop.simps [of c R 0])
next
  case (Suc j)
  let ?x = "b + 2 ^ Suc j"
  let ?b = "if R > Sbc_rate c ?x then ?x else b"
  obtain b' where b': "GetBitpool_loop c R (2 ^ j) ?b = Some b'" "?b \<le> b'" "b' < ?b + 2 ^ Suc j"
    and s: "\<And>x. ?b < x \<Longrightarrow> x < ?b + 2 ^ Suc j \<Longrightarrow> (x \<le> b') = (Sbc_rate c x < R)"
    using Suc by blast
  have l: "GetBitpool_loop c R (2 ^ Suc j) b = Some b'"
    using b'(1) by (subst GetBitpool_loop.simps) (simp add: GetBitrate_eq [OF assms] split: if_splits)
  have "(x \<le> b') = (Sbc_rate c x < R)" if x: "b < x" "x < b + 2 ^ Suc (Suc j)" for x
  proof (cases "R > Sbc_rate c ?x")
    case True
    show ?thesis
    proof (cases "x \<le> ?x")
      case le: True
      then show ?thesis using True b'(2) Sbc_rate_mono [OF le, of c] by simp
    next
      case False
      then show ?thesis using s [of x] x True by simp
    qed
  next
    case False
    show ?thesis
    proof (cases "x < ?x")
      case True
      then show ?thesis using s [of x] x False by simp
    next
      case ge: False
      then have "Sbc_rate c ?x \<le> Sbc_rate c x" by (intro Sbc_rate_mono) simp
      then show ?thesis using ge False b'(3) by simp
    qed
  qed
  moreover have "b \<le> b'" "b' < b + 2 ^ Suc (Suc j)" using b'(2,3) by (auto split: if_splits)
  ultimately show ?case using l by blast
qed

lemma GetBitpool_search:
  assumes "Sbc_framed c"
  obtains b where "GetBitpool c R = Some (clamp b 2 250)" "0 \<le> b" "b \<le> 255"
    "\<forall>x \<in> {1..255}. x \<le> b \<longleftrightarrow> Sbc_rate c x < R"
proof -
  obtain b where "GetBitpool_loop c R 128 0 = Some b" "0 \<le> b" "b < 256"
    "\<forall>x. 0 < x \<and> x < 256 \<longrightarrow> (x \<le> b \<longleftrightarrow> Sbc_rate c x < R)"
    using GetBitpool_loop_search [OF assms, of R 7 0] by auto
  then show thesis using that [of b] by (simp add: GetBitpool_def)
qed

lemma clamp_bounds: "lo \<le> hi \<Longrightarrow> lo \<le> clamp x lo hi \<and> clamp x lo hi \<le> hi"
  by (auto simp: clamp_def)

lemma GetBitpool_defined:
  assumes "Sbc_framed c" obtains p where "GetBitpool c R = Some p" "2 \<le> p" "p \<le> 250"
  by (rule GetBitpool_search [OF assms, of R]) (use clamp_bounds [of 2 250] in auto)

section \<open>Parsing\<close>

lemma get_lcaps_active:
  assumes "length c = 4" "r \<in> {Sbc_kSamplingFrequency, Sbc_kChannelMode, Sbc_kBlockLength,
      Sbc_kSubbands, Sbc_kAllocationMethod}" "0 \<le> active c r"
  shows "a2dp_get Sbc_lcaps (active c r) = Some (2 \<le> active c r)"
proof -
  have "range_in r c" using assms by auto
  then have "active c r < 16" using active_cases [of r c] assms by auto
  then have "a2dp_get Sbc_lcaps (int (nat (active c r))) = Some (2 \<le> nat (active c r))"
    using get_bit_in [of "nat (active c r)" Sbc_lcaps] Sbc_lcaps_bits [of "nat (active c r)"] assms(3)
    by simp
  then show ?thesis using assms(3) by (simp add: nat_le_eq_zle le_nat_iff)
qed

definition Sbc_parsed_cp :: "u8 list \<Rightarrow> codec_parameters \<Rightarrow> codec_parameters" where
  "Sbc_parsed_cp c cp =
     cp\<lparr>cp_channelMode := Sbc_GetChannelModeEnum (active c Sbc_kChannelMode),
        cp_samplingFrequencyHz := Sbc_GetSamplingFrequencyValue (active c Sbc_kSamplingFrequency),
        cp_bitdepth := 16,
        cp_minBitrate := Sbc_rate c (octet_val c Sbc_kMinimumBitpool),
        cp_maxBitrate := Sbc_rate c (octet_val c Sbc_kMaximumBitpool)\<rparr>"

definition Sbc_parsed_sp :: "u8 list \<Rightarrow> sbc_parameters \<Rightarrow> sbc_parameters" where
  "Sbc_parsed_sp c p =
     p\<lparr>sbc_block_length := GetBlockLengthValue (active c Sbc_kBlockLength),
       sbc_subbands := GetSubbandsValue (active c Sbc_kSubbands),
       sbc_allocation_method := GetAllocationMethodEnum (active c Sbc_kAllocationMethod),
       sbc_min_bitpool := octet_val c Sbc_kMinimumBitpool,
       sbc_max_bitpool := octet_val c Sbc_kMaximumBitpool\<rparr>"

definition Sbc_status :: "u8 list \<Rightarrow> a2dp_status" where
  "Sbc_status c =
     (if length c \<noteq> 4 then BAD_LENGTH
      else if active c Sbc_kSamplingFrequency < 0 then INVALID_SAMPLING_FREQUENCY
      else if active c Sbc_kSamplingFrequency < 2 then NOT_SUPPORTED_SAMPLING_FREQUENCY
      else if active c Sbc_kChannelMode < 0 then INVALID_CHANNEL_MODE
      else if active c Sbc_kBlockLength < 0 then INVALID_BLOCK_LENGTH
      else if active c Sbc_kSubbands < 0 then INVALID_SUBBANDS
      else if active c Sbc_kAllocationMethod < 0 then INVALID_ALLOCATION_METHOD
      else if octet_val c Sbc_kMinimumBitpool \<notin> {2..250} then INVALID_MINIMUM_BITPOOL_VALUE
      else if octet_val c Sbc_kMaximumBitpool \<notin> {2..250} then INVALID_MAXIMUM_BITPOOL_VALUE
      else A2DP_OK)"

lemma Sbc_parse_eq:
  "Sbc_ParseConfiguration Sbc_info c cp sp =
     Some (Sbc_status c,
       if Sbc_status c = A2DP_OK then Sbc_parsed_cp c cp else cp,
       if Sbc_status c = A2DP_OK then map_option (Sbc_parsed_sp c) sp else sp)"
proof (cases "length c = 4")
  case False
  then show ?thesis by (simp add: Sbc_ParseConfiguration_def Sbc_status_def)
next
  case l: True
  note f = find_active_bit_active get_range_in l
  have ge: "0 \<le> active c Sbc_kChannelMode \<Longrightarrow> 2 \<le> active c Sbc_kChannelMode"
    "0 \<le> active c Sbc_kSubbands \<Longrightarrow> 2 \<le> active c Sbc_kSubbands"
    "0 \<le> active c Sbc_kAllocationMethod \<Longrightarrow> 2 \<le> active c Sbc_kAllocationMethod"
    using active_ge_first [of Sbc_kChannelMode c] active_ge_first [of Sbc_kSubbands c]
      active_ge_first [of Sbc_kAllocationMethod c] l by auto
  have rate: "0 \<le> active c Sbc_kBlockLength \<Longrightarrow> 0 \<le> active c Sbc_kSubbands \<Longrightarrow>
      GetBitrate c p = Some (Sbc_rate c p)" for p
    using GetBitrate_eq [of c p] l by (simp add: Sbc_framed_def)
  have sp: "(\<lambda>p. p\<lparr>sbc_block_length := GetBlockLengthValue (active c Sbc_kBlockLength),
       sbc_subbands := GetSubbandsValue (active c Sbc_kSubbands),
       sbc_allocation_method := GetAllocationMethodEnum (active c Sbc_kAllocationMethod),
       sbc_min_bitpool := octet_val c Sbc_kMinimumBitpool,
       sbc_max_bitpool := octet_val c Sbc_kMaximumBitpool\<rparr>) = Sbc_parsed_sp c"
    by (simp add: Sbc_parsed_sp_def fun_eq_iff)
  show ?thesis
    using l
    by (simp add: Sbc_ParseConfiguration_def Sbc_status_def f get_lcaps_active uint_ucast_range
        Sbc_lcaps_bitpool rate ge Sbc_parsed_cp_def sp Sbc_kBitdepth_def Let_def)
qed


section \<open>Building\<close>

definition Sbc_sf_candidates :: "codec_parameters option \<Rightarrow> int list" where
  "Sbc_sf_candidates hint =
     hinted (case hint of Some h \<Rightarrow> Sbc_GetSamplingFrequencyBit (cp_samplingFrequencyHz h) | None \<Rightarrow> -1)
       [2, 3]"

definition Sbc_cm_candidates :: "codec_parameters option \<Rightarrow> int list" where
  "Sbc_cm_candidates hint =
     hinted (case hint of Some h \<Rightarrow> Sbc_GetChannelModeBit (cp_channelMode h) | None \<Rightarrow> -1)
       [7, 6, 5, 4]"

lemma Sbc_sf_candidates_range: "set (Sbc_sf_candidates hint) \<subseteq> {0..3}"
  by (auto simp: Sbc_sf_candidates_def hinted_def Sbc_GetSamplingFrequencyBit_def split: option.splits if_splits)

lemma Sbc_cm_candidates_range: "set (Sbc_cm_candidates hint) \<subseteq> {4..7}"
proof -
  have "Sbc_GetChannelModeBit m \<in> {-1, 4, 5, 7}" for m by (cases m) simp_all
  from this [of "cp_channelMode (the hint)"] show ?thesis
    by (cases hint) (auto simp: Sbc_cm_candidates_def hinted_def)
qed

lemma Sbc_select:
  assumes "length r = 4" "length c = 4"
  shows "Sbc_SelectSamplingFrequency Sbc_lcaps r hint c =
      Some (map_option (\<lambda>k. set_at c k True) (choice Sbc_lcaps r (Sbc_sf_candidates hint)))"
    "Sbc_SelectChannelMode Sbc_lcaps r hint c =
      Some (map_option (\<lambda>k. set_at c k True) (choice Sbc_lcaps r (Sbc_cm_candidates hint)))"
    "Sbc_SelectBlockLength Sbc_lcaps r c =
      Some (map_option (\<lambda>k. set_at c k True) (choice Sbc_lcaps r [11, 10, 9, 8]))"
    "Sbc_SelectSubbands Sbc_lcaps r c =
      Some (map_option (\<lambda>k. set_at c k True) (choice Sbc_lcaps r [12, 13]))"
    "Sbc_SelectAllocationMethod Sbc_lcaps r c =
      Some (map_option (\<lambda>k. set_at c k True) (choice Sbc_lcaps r [15, 14]))"
proof -
  show "Sbc_SelectSamplingFrequency Sbc_lcaps r hint c =
      Some (map_option (\<lambda>k. set_at c k True) (choice Sbc_lcaps r (Sbc_sf_candidates hint)))"
    unfolding Sbc_SelectSamplingFrequency_def Let_def Sbc_sf_candidates_def [symmetric]
    using Sbc_sf_candidates_range [of hint] assms by (intro select_first_in) auto
  show "Sbc_SelectChannelMode Sbc_lcaps r hint c =
      Some (map_option (\<lambda>k. set_at c k True) (choice Sbc_lcaps r (Sbc_cm_candidates hint)))"
    unfolding Sbc_SelectChannelMode_def Let_def Sbc_cm_candidates_def [symmetric]
    using Sbc_cm_candidates_range [of hint] assms by (intro select_first_in) auto
qed (unfold Sbc_SelectBlockLength_def Sbc_SelectSubbands_def Sbc_SelectAllocationMethod_def,
    (rule select_first_in; use assms in simp)+)

text \<open>
  What becomes of the bitpool range. Of the remote's range only the minimum is used, and only when the whole range is
  legal; the maximum is 250, the local one, whatever the remote announces, unless the hint gives a bitrate for it.
\<close>

definition Sbc_remote_min :: "u8 list \<Rightarrow> int" where
  "Sbc_remote_min r =
     (let m = octet_val r Sbc_kMinimumBitpool; x = octet_val r Sbc_kMaximumBitpool
      in if 2 \<le> m \<and> m \<le> x \<and> x \<le> 250 then m else 2)"

definition Sbc_bitpools :: "u8 list \<Rightarrow> codec_parameters option \<Rightarrow> u8 list \<Rightarrow> int \<Rightarrow> int \<Rightarrow> bool" where
  "Sbc_bitpools r hint c mn mx \<longleftrightarrow>
     (case hint of
        None \<Rightarrow> mn = Sbc_remote_min r \<and> mx = 250
      | Some h \<Rightarrow> (\<exists>p q. GetBitpool c (cp_minBitrate h) = Some p \<and> GetBitpool c (cp_maxBitrate h) = Some q \<and>
          mn = max (Sbc_remote_min r) p \<and> mx = (if cp_maxBitrate h \<noteq> 0 \<and> cp_maxBitrate h \<ge> cp_minBitrate h then q else 250)))"

lemma Sbc_remote_min_range: "Sbc_remote_min r \<in> {2..250}"
  by (simp add: Sbc_remote_min_def Let_def)

lemma Sbc_SelectBitpool_range:
  assumes "Sbc_framed c" "length r = 4"
  obtains mn mx where "Sbc_SelectBitpool Sbc_lcaps r hint c = Some (mn, mx)"
    "mn \<in> {2..250}" "mx \<in> {2..250}" "Sbc_bitpools r hint c mn mx"
proof -
  let ?m = "octet_val r Sbc_kMinimumBitpool" and ?x = "octet_val r Sbc_kMaximumBitpool"
  obtain m x where mx: "(if ?m < 2 \<or> 250 < ?m \<or> ?x < 2 \<or> 250 < ?x \<or> ?x < ?m
      then (2, 250) else (?m, ?x)) = (m, x)" and b: "m \<in> {2..250}" "x \<in> {2..250}" and m: "m = Sbc_remote_min r"
    by (cases "?m < 2 \<or> 250 < ?m \<or> ?x < 2 \<or> 250 < ?x \<or> ?x < ?m") (auto simp: Sbc_remote_min_def Let_def)
  note eqs = Sbc_SelectBitpool_def get_range_in uint_ucast_range Sbc_lcaps_bitpool mx Let_def
  show thesis
  proof (cases hint)
    case None
    show thesis
      by (rule that [of m 250])
        (use None b m assms in \<open>simp_all add: eqs Sbc_bitpools_def cong: if_cong split del: if_split\<close>)
  next
    case (Some h)
    obtain p where p: "GetBitpool c (cp_minBitrate h) = Some p" "2 \<le> p" "p \<le> 250"
      by (rule GetBitpool_defined [OF assms(1)])
    obtain q where q: "GetBitpool c (cp_maxBitrate h) = Some q" "2 \<le> q" "q \<le> 250"
      by (rule GetBitpool_defined [OF assms(1)])
    show thesis
    proof (cases "cp_maxBitrate h \<noteq> 0 \<and> cp_maxBitrate h \<ge> cp_minBitrate h")
      case True
      have bp: "Sbc_bitpools r hint c (max m p) q" using Some p q m True by (simp add: Sbc_bitpools_def)
      show thesis
        by (rule that [OF _ _ _ bp]) (use Some p q b assms True in \<open>simp_all add: eqs cong: if_cong split del: if_split\<close>)
    next
      case False
      then have bp: "Sbc_bitpools r hint c (max m p) 250" using Some p q m by (auto simp: Sbc_bitpools_def)
      show thesis
        by (rule that [OF _ _ _ bp]) (use Some p b assms False in \<open>auto simp: eqs cong: if_cong split del: if_split\<close>)
    qed
  qed
qed

text \<open>The bitpools are computed before their octets are written, which makes no difference.\<close>

lemma GetBitpool_loop_cong:
  "(\<And>p. GetBitrate c p = GetBitrate c' p) \<Longrightarrow> GetBitpool_loop c R i b = GetBitpool_loop c' R i b"
proof (induction c R i b rule: GetBitpool_loop.induct)
  case (1 c R i b)
  show ?case
  proof (cases "i = 0")
    case False
    note loop = GetBitpool_loop.simps [of c R i b] GetBitpool_loop.simps [of c' R i b]
    show ?thesis
    proof (cases "GetBitrate c (b + int i)")
      case None
      then have "GetBitrate c' (b + int i) = None" using "1.prems" by metis
      with None show ?thesis unfolding loop by simp
    next
      case (Some rate)
      then have "GetBitrate c' (b + int i) = Some rate" using "1.prems" by metis
      with Some False show ?thesis using "1.IH" [OF False Some "1.prems"] unfolding loop by simp
    qed
  qed (simp add: GetBitpool_loop.simps)
qed

lemma GetBitpool_cong:
  assumes "Sbc_framed c" "Sbc_framed c'" "active c Sbc_kSubbands = active c' Sbc_kSubbands"
    "active c Sbc_kBlockLength = active c' Sbc_kBlockLength" "active c Sbc_kSamplingFrequency = active c' Sbc_kSamplingFrequency"
    "bits_at c 4 = bits_at c' 4" "bits_at c 5 = bits_at c' 5" "bits_at c 7 = bits_at c' 7"
  shows "GetBitpool c R = GetBitpool c' R"
proof -
  have "Sbc_rate c p = Sbc_rate c' p" for p unfolding Sbc_rate_def Sbc_frame_bits_def assms(3-) ..
  then have "GetBitrate c p = GetBitrate c' p" for p using GetBitrate_eq assms(1,2) by simp
  then have "GetBitpool_loop c R 128 0 = GetBitpool_loop c' R 128 0" by (rule GetBitpool_loop_cong)
  then show ?thesis by (simp add: GetBitpool_def)
qed

lemma Sbc_fields_only:
  assumes "length c = 4" "\<forall>k < 16. bits_at c k \<longleftrightarrow> k \<in> {a, b, d, e, f}"
    and "a \<in> {0..3}" "b \<in> {4..7}" "d \<in> {8..11}" "e \<in> {12, 13}" "f \<in> {14, 15}"
  shows "active c Sbc_kSamplingFrequency = int a" "active c Sbc_kChannelMode = int b"
    "active c Sbc_kBlockLength = int d" "active c Sbc_kSubbands = int e"
    "active c Sbc_kAllocationMethod = int f"
proof -
  have "only_active c Sbc_kSamplingFrequency a" "only_active c Sbc_kChannelMode b"
    "only_active c Sbc_kBlockLength d" "only_active c Sbc_kSubbands e"
    "only_active c Sbc_kAllocationMethod f"
    using assms(2-) by (auto simp: only_active_def)
  then show "active c Sbc_kSamplingFrequency = int a" "active c Sbc_kChannelMode = int b"
    "active c Sbc_kBlockLength = int d" "active c Sbc_kSubbands = int e"
    "active c Sbc_kAllocationMethod = int f"
    using assms(1) by (simp_all add: active_only)
qed

text \<open>The outcome of the five selections.\<close>

definition Sbc_choices ::
  "u8 list \<Rightarrow> codec_parameters option \<Rightarrow> nat option \<times> nat option \<times> nat option \<times> nat option \<times> nat option" where
  "Sbc_choices r hint =
     (choice Sbc_lcaps r (Sbc_sf_candidates hint), choice Sbc_lcaps r (Sbc_cm_candidates hint),
      choice Sbc_lcaps r [11, 10, 9, 8], choice Sbc_lcaps r [12, 13], choice Sbc_lcaps r [15, 14])"

lemma Sbc_choices_in:
  assumes "Sbc_choices r hint = (Some a, Some b, Some d, Some e, Some f)"
  shows "a \<in> {0..3}" "b \<in> {4..7}" "d \<in> {8..11}" "e \<in> {12, 13}" "f \<in> {14, 15}"
    "\<forall>k \<in> {a, b, d, e, f}. bits_at Sbc_lcaps k \<and> bits_at r k"
proof -
  have c: "choice Sbc_lcaps r (Sbc_sf_candidates hint) = Some a"
    "choice Sbc_lcaps r (Sbc_cm_candidates hint) = Some b" "choice Sbc_lcaps r [11, 10, 9, 8] = Some d"
    "choice Sbc_lcaps r [12, 13] = Some e" "choice Sbc_lcaps r [15, 14] = Some f"
    using assms by (simp_all add: Sbc_choices_def)
  show "a \<in> {0..3}" using choice_SomeD [OF c(1)] Sbc_sf_candidates_range [of hint] by fastforce
  show "b \<in> {4..7}" using choice_SomeD [OF c(2)] Sbc_cm_candidates_range [of hint] by fastforce
  show "d \<in> {8..11}" using choice_SomeD [OF c(3)] by auto
  show "e \<in> {12, 13}" using choice_SomeD [OF c(4)] by auto
  show "f \<in> {14, 15}" using choice_SomeD [OF c(5)] by auto
  show "\<forall>k \<in> {a, b, d, e, f}. bits_at Sbc_lcaps k \<and> bits_at r k"
    using c [THEN choice_SomeD] by blast
qed

lemma Sbc_build_eq:
  assumes "length r = 4" "Sbc_choices r hint = (Some a, Some b, Some d, Some e, Some f)"
  obtains c mn mx where "Sbc_BuildConfiguration Sbc_info r hint cfg = Some (True, c)"
    "length c = 4" "\<forall>k < 16. bits_at c k \<longleftrightarrow> k \<in> {a, b, d, e, f}"
    "octet_val c Sbc_kMinimumBitpool = mn" "octet_val c Sbc_kMaximumBitpool = mx"
    "mn \<in> {2..250}" "mx \<in> {2..250}" "Sbc_bitpools r hint c mn mx"
proof -
  note ch = Sbc_choices_in [OF assms(2)]
  define c5 where "c5 = set_at (set_at (set_at (set_at (set_at (replicate 4 0) a True) b True) d True) e True) f True"
  have l5: "length c5 = 4" by (simp add: c5_def)
  have b5: "\<forall>k < 32. bits_at c5 k \<longleftrightarrow> k \<in> {a, b, d, e, f}"
    using ch(1-5) by (auto simp: c5_def bits_at_set_at_True)
  have b16: "\<forall>k < 16. bits_at c5 k \<longleftrightarrow> k \<in> {a, b, d, e, f}" using b5 by simp
  note f5 = Sbc_fields_only [OF l5 b16 ch(1-5)]
  have fr5: "Sbc_framed c5" using f5 l5 by (simp add: Sbc_framed_def)
  then obtain mn mx where bp: "Sbc_SelectBitpool Sbc_lcaps r hint c5 = Some (mn, mx)"
    "mn \<in> {2..250}" "mx \<in> {2..250}" "Sbc_bitpools r hint c5 mn mx"
    using Sbc_SelectBitpool_range assms(1) by blast
  define c6 where "c6 = set_range_at c5 Sbc_kMinimumBitpool mn"
  define c7 where "c7 = set_range_at c6 Sbc_kMaximumBitpool mx"
  have l: "length c6 = 4" "length c7 = 4" using l5 by (simp_all add: c6_def c7_def)
  have build: "Sbc_BuildConfiguration Sbc_info r hint cfg = Some (True, c7)"
    using assms bp(1) l l5
    by (simp add: Sbc_BuildConfiguration_def Sbc_select Sbc_choices_def c5_def [symmetric]
        set_range_in c6_def c7_def)
  have b7: "\<forall>k < 16. bits_at c7 k \<longleftrightarrow> k \<in> {a, b, d, e, f}"
    using b5 l l5 by (simp add: c7_def c6_def bits_at_set_range_at)
  note f7 = Sbc_fields_only [OF l(2) b7 ch(1-5)]
  have fr7: "Sbc_framed c7" using f7 l by (simp add: Sbc_framed_def)
  have "GetBitpool c7 R = GetBitpool c5 R" for R
    by (rule GetBitpool_cong [OF fr7 fr5]) (use f5 f7 b16 b7 in simp_all)
  then have eq: "GetBitpool c7 = GetBitpool c5" by (rule ext)
  have "Sbc_bitpools r hint c7 mn mx" using bp(4) unfolding Sbc_bitpools_def eq .
  moreover have "octet_val c7 Sbc_kMaximumBitpool = mx"
    using octet_val_set_range_at [of Sbc_kMaximumBitpool c6 mx] bp(3) l by (simp add: c7_def)
  moreover have "range_val c7 Sbc_kMinimumBitpool = range_val c6 Sbc_kMinimumBitpool"
    by (rule range_val_cong) (use l in \<open>auto simp: c7_def bits_at_set_range_at\<close>)
  then have "octet_val c7 Sbc_kMinimumBitpool = mn"
    using octet_val_set_range_at [of Sbc_kMinimumBitpool c5 mn] bp(2) l5
    by (simp add: octet_val_def c6_def)
  ultimately show thesis using that [of c7 mn mx] build b7 l bp(2,3) by blast
qed

section \<open>Negotiation\<close>

text \<open>The two sides have a capability in common in each of the five fields that are bit masks; the two octets of the bitpool range
  are treated below.\<close>

definition Sbc_common :: "u8 list \<Rightarrow> bool" where
  "Sbc_common r \<longleftrightarrow> length r = 4 \<and> (\<exists>k \<in> {2, 3}. bits_at r k) \<and> (\<exists>k \<in> {4..7}. bits_at r k) \<and>
     (\<exists>k \<in> {8..11}. bits_at r k) \<and> (\<exists>k \<in> {12, 13}. bits_at r k) \<and> (\<exists>k \<in> {14, 15}. bits_at r k)"

lemma Sbc_choice_iff:
  assumes "nat ` set bs \<subseteq> {..<16}"
  shows "(\<exists>k. choice Sbc_lcaps r bs = Some k) \<longleftrightarrow> (\<exists>b \<in> set bs. 2 \<le> nat b \<and> bits_at r (nat b))"
proof -
  have "\<forall>b \<in> set bs. bits_at Sbc_lcaps (nat b) \<longleftrightarrow> 2 \<le> nat b"
    using assms Sbc_lcaps_bits by blast
  then show ?thesis
    using choice_None_iff [of Sbc_lcaps r bs] by (metis not_None_eq)
qed

lemma nat_atLeastAtMost_4_7: "{4..7 :: nat} = {4, 5, 6, 7}" "{8..11 :: nat} = {8, 9, 10, 11}" by auto

lemma Sbc_candidates_iff:
  "(\<exists>k. choice Sbc_lcaps r (Sbc_sf_candidates hint) = Some k) \<longleftrightarrow> (\<exists>k \<in> {2, 3}. bits_at r k)"
  "(\<exists>k. choice Sbc_lcaps r (Sbc_cm_candidates hint) = Some k) \<longleftrightarrow> (\<exists>k \<in> {4..7}. bits_at r k)"
  "(\<exists>k. choice Sbc_lcaps r [11, 10, 9, 8] = Some k) \<longleftrightarrow> (\<exists>k \<in> {8..11}. bits_at r k)"
  "(\<exists>k. choice Sbc_lcaps r [12, 13] = Some k) \<longleftrightarrow> (\<exists>k \<in> {12, 13}. bits_at r k)"
  "(\<exists>k. choice Sbc_lcaps r [15, 14] = Some k) \<longleftrightarrow> (\<exists>k \<in> {14, 15}. bits_at r k)"
proof -
  have s: "set (Sbc_sf_candidates hint) \<subseteq> {0, 1, 2, 3}" "{2, 3} \<subseteq> set (Sbc_sf_candidates hint)"
    using Sbc_sf_candidates_range [of hint] by (auto simp: Sbc_sf_candidates_def hinted_def)
  have c: "set (Sbc_cm_candidates hint) = {4, 5, 6, 7}"
    using Sbc_cm_candidates_range [of hint] by (auto simp: Sbc_cm_candidates_def hinted_def)
  have "nat ` set (Sbc_sf_candidates hint) \<subseteq> {..<16}" using s by auto
  note sf = Sbc_choice_iff [OF this, of r]
  have "b \<in> set (Sbc_sf_candidates hint) \<Longrightarrow> 2 \<le> nat b \<Longrightarrow> b = 2 \<or> b = 3" for b
    using s(1) by auto
  then show "(\<exists>k. choice Sbc_lcaps r (Sbc_sf_candidates hint) = Some k) \<longleftrightarrow> (\<exists>k \<in> {2, 3}. bits_at r k)"
    unfolding sf using s(2) by force
  show "(\<exists>k. choice Sbc_lcaps r (Sbc_cm_candidates hint) = Some k) \<longleftrightarrow> (\<exists>k \<in> {4..7}. bits_at r k)"
    using Sbc_choice_iff [of "Sbc_cm_candidates hint" r] unfolding c by (simp add: nat_atLeastAtMost_4_7)
qed (simp_all add: Sbc_choice_iff nat_atLeastAtMost_4_7, blast+)

lemma Sbc_choices_iff:
  assumes "length r = 4"
  shows "Sbc_common r \<longleftrightarrow> (\<exists>a b d e f. Sbc_choices r hint = (Some a, Some b, Some d, Some e, Some f))"
  unfolding Sbc_common_def Sbc_candidates_iff(1,2) [of r hint, symmetric]
    Sbc_candidates_iff(3-5) [of r, symmetric] Sbc_choices_def
  using assms by simp

lemma Sbc_build_refused:
  assumes "\<not> Sbc_common r"
  shows "\<exists>c. Sbc_BuildConfiguration Sbc_info r hint cfg = Some (False, c)"
proof (cases "length r = 4")
  case False
  then show ?thesis by (simp add: Sbc_BuildConfiguration_def)
next
  case l: True
  let ?c = "\<lambda>bs. choice Sbc_lcaps r bs"
  let ?sf = "Sbc_sf_candidates hint" and ?cm = "Sbc_cm_candidates hint"
  have n: "\<not> (\<exists>a b d e f. Sbc_choices r hint = (Some a, Some b, Some d, Some e, Some f))"
    using assms Sbc_choices_iff [OF l, of hint] by blast
  consider "?c ?sf = None"
    | a where "?c ?sf = Some a" "?c ?cm = None"
    | a b where "?c ?sf = Some a" "?c ?cm = Some b" "?c [11, 10, 9, 8] = None"
    | a b d where "?c ?sf = Some a" "?c ?cm = Some b" "?c [11, 10, 9, 8] = Some d" "?c [12, 13] = None"
    | a b d e where "?c ?sf = Some a" "?c ?cm = Some b" "?c [11, 10, 9, 8] = Some d"
        "?c [12, 13] = Some e" "?c [15, 14] = None"
    using n unfolding Sbc_choices_def by (metis option.exhaust)
  then show ?thesis
    using l by cases (simp_all add: Sbc_BuildConfiguration_def Sbc_select Let_def)
qed

text \<open>The bits of the five fields that are masks, and what a good configuration has in them: one bit each.\<close>

definition Sbc_mask_fields :: "nat set list" where
  "Sbc_mask_fields = [{0..3}, {4..7}, {8..11}, {12, 13}, {14, 15}]"

lemma Sbc_build_common:
  assumes "Sbc_common r"
  obtains c where "Sbc_BuildConfiguration Sbc_info r hint cfg = Some (True, c)"
    "Sbc_status c = A2DP_OK" "\<forall>k < 16. bits_at c k \<longrightarrow> bits_at Sbc_lcaps k \<and> bits_at r k"
    "\<forall>F \<in> set Sbc_mask_fields. \<exists>!k. k \<in> F \<and> bits_at c k"
    "Sbc_bitpools r hint c (octet_val c Sbc_kMinimumBitpool) (octet_val c Sbc_kMaximumBitpool)"
proof -
  have l: "length r = 4" using assms by (simp add: Sbc_common_def)
  then obtain a b d e f where ch: "Sbc_choices r hint = (Some a, Some b, Some d, Some e, Some f)"
    using assms Sbc_choices_iff [OF l, of hint] by auto
  note i = Sbc_choices_in [OF ch]
  obtain c mn mx where c: "Sbc_BuildConfiguration Sbc_info r hint cfg = Some (True, c)"
    "length c = 4" "\<forall>k < 16. bits_at c k \<longleftrightarrow> k \<in> {a, b, d, e, f}"
    "octet_val c Sbc_kMinimumBitpool = mn" "octet_val c Sbc_kMaximumBitpool = mx"
    "mn \<in> {2..250}" "mx \<in> {2..250}" "Sbc_bitpools r hint c mn mx"
    by (rule Sbc_build_eq [OF l ch, of cfg])
  have "2 \<le> a" using i(1,6) Sbc_lcaps_bits [of a] by auto
  then have ok: "Sbc_status c = A2DP_OK"
    using c(2,4-7) Sbc_fields_only [OF c(2,3) i(1-5)] by (simp add: Sbc_status_def)
  have f: "a < 4" "b < 8" "4 \<le> b" "d < 12" "8 \<le> d" "12 \<le> e" "e < 14" "14 \<le> f" "f < 16" using i(1-5) by auto
  have one: "\<exists>!k. k \<in> F \<and> bits_at c k" if "x \<in> F" "F \<subseteq> {..<16}" "\<And>k. k \<in> F \<Longrightarrow> k \<in> {a, b, d, e, f} \<Longrightarrow> k = x" "x \<in> {a, b, d, e, f}"
    for F x
  proof (rule ex1I [of _ x])
    show "x \<in> F \<and> bits_at c x" using that c(3) by blast
    show "k = x" if "k \<in> F \<and> bits_at c k" for k
      using that c(3) \<open>F \<subseteq> {..<16}\<close> \<open>\<And>k. k \<in> F \<Longrightarrow> k \<in> {a, b, d, e, f} \<Longrightarrow> k = x\<close> by blast
  qed
  have "\<exists>!k. k \<in> {0..3} \<and> bits_at c k" by (rule one [of a]) (use f in auto)
  moreover have "\<exists>!k. k \<in> {4..7} \<and> bits_at c k" by (rule one [of b]) (use f in auto)
  moreover have "\<exists>!k. k \<in> {8..11} \<and> bits_at c k" by (rule one [of d]) (use f in auto)
  moreover have "\<exists>!k. k \<in> {12, 13} \<and> bits_at c k" by (rule one [of e]) (use f i(4) in auto)
  moreover have "\<exists>!k. k \<in> {14, 15} \<and> bits_at c k" by (rule one [of f]) (use f i(5) in auto)
  ultimately have "\<forall>F \<in> set Sbc_mask_fields. \<exists>!k. k \<in> F \<and> bits_at c k" by (simp add: Sbc_mask_fields_def)
  then show thesis using that [of c] c ok i(6) by blast
qed

section \<open>The codec contract\<close>

text \<open>The virtual methods: the two-argument \<open>ParseConfiguration\<close> passes no codec parameters.\<close>

definition sbc_codec :: "codec_info \<Rightarrow> offload_codec" where
  "sbc_codec info = \<lparr>oc_info = info,
     oc_parse = (\<lambda>cfg cp. map_option (\<lambda>(st, cp', p). (st, cp')) (Sbc_ParseConfiguration info cfg cp None)),
     oc_build = Sbc_BuildConfiguration info\<rparr>"

interpretation sbc: a2dp_codec "sbc_codec Sbc_info"
proof unfold_locales
  fix cfg cp
  show "\<exists>st cp'. oc_parse (sbc_codec Sbc_info) cfg cp = Some (st, cp')"
    by (simp add: sbc_codec_def Sbc_parse_eq)
next
  fix rcaps hint cfg
  show "\<exists>ok cfg'. oc_build (sbc_codec Sbc_info) rcaps hint cfg = Some (ok, cfg')"
  proof (cases "Sbc_common rcaps")
    case True
    obtain c where "Sbc_BuildConfiguration Sbc_info rcaps hint cfg = Some (True, c)"
      by (rule Sbc_build_common [OF True, of hint cfg])
    then show ?thesis by (auto simp: sbc_codec_def)
  next
    case False
    then show ?thesis using Sbc_build_refused [of rcaps hint cfg] by (auto simp: sbc_codec_def)
  qed
next
  fix rcaps hint cfg cfg' cp
  assume b: "oc_build (sbc_codec Sbc_info) rcaps hint cfg = Some (True, cfg')"
  then have "Sbc_common rcaps"
    using Sbc_build_refused [of rcaps hint cfg] by (auto simp: sbc_codec_def)
  then obtain c where "Sbc_BuildConfiguration Sbc_info rcaps hint cfg = Some (True, c)"
    "Sbc_status c = A2DP_OK"
    by (rule Sbc_build_common [of rcaps hint cfg])
  then show "\<exists>cp'. oc_parse (sbc_codec Sbc_info) cfg' cp = Some (A2DP_OK, cp')"
    using b by (simp add: sbc_codec_def Sbc_parse_eq)
qed

section \<open>Properties\<close>

text \<open>For every sequence of octets, \<open>ParseConfiguration\<close> of the SBC codec is free of
  undefined behaviour and returns the status of the first field that is wrong; it succeeds
  exactly when the element has four octets, one supported bit in each field and both bitpools
  between 2 and 250, and only then writes the parameters.\<close>

lemma Sbc_parse_functional:
  "Sbc_ParseConfiguration Sbc_info c cp sp =
     Some (Sbc_status c,
       if Sbc_status c = A2DP_OK then Sbc_parsed_cp c cp else cp,
       if Sbc_status c = A2DP_OK then map_option (Sbc_parsed_sp c) sp else sp)"
  by (rule Sbc_parse_eq)



text \<open>The bitpool search returns the largest bitpool of at most 255 whose bitrate is below
  the requested one (none if even bitpool 1 is too fast), brought into the legal interval from
  2 to 250, whenever the configuration has a block length and a number of subbands.\<close>

lemma GetBitpool_largest_below:
  assumes "Sbc_framed c"
  shows "\<exists>b \<in> {0..255}. GetBitpool c R = Some (clamp b 2 250) \<and>
     (\<forall>x \<in> {1..255}. x \<le> b \<longleftrightarrow> (\<exists>rate. GetBitrate c x = Some rate \<and> rate < R))"
  by (rule GetBitpool_search [OF assms, of R]) (auto simp: GetBitrate_eq [OF assms])

lemma GetBitpool_largest_below_witness:
  "Sbc_framed [33, 21, 2, 53] \<and> (\<exists>b \<in> {0..255}. GetBitpool [33, 21, 2, 53] 328000 = Some (clamp b 2 250))"
proof -
  have h: "Sbc_framed [33, 21, 2, 53]" by code_simp
  show ?thesis using h GetBitpool_largest_below [OF h, of 328000] by blast
qed

text \<open>Without a hint the negotiated maximum bitpool is 250 whatever the remote side
  announces, because the two maxima are combined with \<open>std::max\<close>.\<close>

lemma Sbc_max_bitpool_ignores_remote:
  assumes "Sbc_common r"
  shows "\<exists>c. Sbc_BuildConfiguration Sbc_info r None cfg = Some (True, c) \<and>
     get_range c Sbc_kMaximumBitpool = Some 250"
proof -
  obtain c where c: "Sbc_BuildConfiguration Sbc_info r None cfg = Some (True, c)" "Sbc_status c = A2DP_OK"
    "Sbc_bitpools r None c (octet_val c Sbc_kMinimumBitpool) (octet_val c Sbc_kMaximumBitpool)"
    by (rule Sbc_build_common [OF assms, of None cfg])
  have c250: "octet_val c Sbc_kMaximumBitpool = 250" using c(3) by (simp add: Sbc_bitpools_def)
  have "length c = 4" using c(2) by (simp add: Sbc_status_def split: if_splits)
  moreover have "range_val c Sbc_kMaximumBitpool = 250"
    using c250 by (simp add: octet_val_def word_uint_eq_iff)
  ultimately show ?thesis using c(1) by (simp add: get_range_in)
qed

lemma Sbc_max_bitpool_ignores_remote_witness:
  "Sbc_common [255, 255, 2, 53] \<and> get_range [255, 255, 2, 53] Sbc_kMaximumBitpool = Some 53 \<and>
   (\<exists>c. Sbc_BuildConfiguration Sbc_info [255, 255, 2, 53] None [] = Some (True, c) \<and>
      get_range c Sbc_kMaximumBitpool = Some 250)"
proof -
  have h: "Sbc_common [255, 255, 2, 53]" by code_simp
  moreover have "get_range [255, 255, 2, 53] Sbc_kMaximumBitpool = Some 53" by code_simp
  ultimately show ?thesis using Sbc_max_bitpool_ignores_remote [OF h, of "[]"] by blast
qed

end
