(* ===== verification/Codec_Aac.thy ===== *)
theory Codec_Aac
  imports A2dp_Codec
begin

text \<open>
  \<^verbatim>\<open>bluetooth/audio/hal/A2dpOffloadCodecAac.cpp\<close>: the AAC codec element of six octets,
  its parser and the negotiation of a configuration.
\<close>

section \<open>Local capabilities and signalling format\<close>

definition Aac_kObjectType :: a2dp_range where "Aac_kObjectType = Range2 0 6"
definition Aac_kSamplingFrequency :: a2dp_range where "Aac_kSamplingFrequency = Range2 8 19"
definition Aac_kChannels :: a2dp_range where "Aac_kChannels = Range2 20 23"
definition Aac_kVbrSupported :: a2dp_range where "Aac_kVbrSupported = Range1 24"
definition Aac_kBitrate :: a2dp_range where "Aac_kBitrate = Range2 25 47"

definition Aac_kCapabilitiesSize :: nat where "Aac_kCapabilitiesSize = 48 div 8"
definition Aac_kBitdepth :: int where "Aac_kBitdepth = 24"

definition kEnableSamplingFrequency88200 :: int where "kEnableSamplingFrequency88200 = 0"
definition kEnableSamplingFrequency96000 :: int where "kEnableSamplingFrequency96000 = 0"

abbreviation (input) kObjectTypeMpeg2AacLc :: int where "kObjectTypeMpeg2AacLc \<equiv> 0"
abbreviation (input) kObjectTypeMpeg4AacLc :: int where "kObjectTypeMpeg4AacLc \<equiv> 1"

abbreviation (input) Aac_kSamplingFrequency8000 :: int where "Aac_kSamplingFrequency8000 \<equiv> 8"
abbreviation (input) Aac_kSamplingFrequency11025 :: int where "Aac_kSamplingFrequency11025 \<equiv> 9"
abbreviation (input) Aac_kSamplingFrequency12000 :: int where "Aac_kSamplingFrequency12000 \<equiv> 10"
abbreviation (input) Aac_kSamplingFrequency16000 :: int where "Aac_kSamplingFrequency16000 \<equiv> 11"
abbreviation (input) Aac_kSamplingFrequency22050 :: int where "Aac_kSamplingFrequency22050 \<equiv> 12"
abbreviation (input) Aac_kSamplingFrequency24000 :: int where "Aac_kSamplingFrequency24000 \<equiv> 13"
abbreviation (input) Aac_kSamplingFrequency32000 :: int where "Aac_kSamplingFrequency32000 \<equiv> 14"
abbreviation (input) Aac_kSamplingFrequency44100 :: int where "Aac_kSamplingFrequency44100 \<equiv> 15"
abbreviation (input) Aac_kSamplingFrequency48000 :: int where "Aac_kSamplingFrequency48000 \<equiv> 16"
abbreviation (input) Aac_kSamplingFrequency64000 :: int where "Aac_kSamplingFrequency64000 \<equiv> 17"
abbreviation (input) Aac_kSamplingFrequency88200 :: int where "Aac_kSamplingFrequency88200 \<equiv> 18"
abbreviation (input) Aac_kSamplingFrequency96000 :: int where "Aac_kSamplingFrequency96000 \<equiv> 19"

abbreviation (input) kChannels1 :: int where "kChannels1 \<equiv> 20"
abbreviation (input) kChannels2 :: int where "kChannels2 \<equiv> 21"

section \<open>Conversion functions\<close>

datatype aac_object_type = MPEG2_AAC_LC | MPEG4_AAC_LC

definition GetObjectTypeEnum :: "int \<Rightarrow> aac_object_type" where
  "GetObjectTypeEnum b = (if b = kObjectTypeMpeg2AacLc then MPEG2_AAC_LC else MPEG4_AAC_LC)"

definition Aac_GetSamplingFrequencyBit :: "int \<Rightarrow> int" where
  "Aac_GetSamplingFrequencyBit f =
     (if f = 8000 then Aac_kSamplingFrequency8000
      else if f = 11025 then Aac_kSamplingFrequency11025
      else if f = 12000 then Aac_kSamplingFrequency12000
      else if f = 16000 then Aac_kSamplingFrequency16000
      else if f = 22050 then Aac_kSamplingFrequency22050
      else if f = 24000 then Aac_kSamplingFrequency24000
      else if f = 32000 then Aac_kSamplingFrequency32000
      else if f = 44100 then Aac_kSamplingFrequency44100
      else if f = 48000 then Aac_kSamplingFrequency48000
      else if f = 64000 then Aac_kSamplingFrequency64000
      else if f = 88200 then Aac_kSamplingFrequency88200
      else if f = 96000 then Aac_kSamplingFrequency96000
      else -1)"

definition Aac_GetSamplingFrequencyValue :: "int \<Rightarrow> int" where
  "Aac_GetSamplingFrequencyValue b =
     (if b = Aac_kSamplingFrequency8000 then 8000
      else if b = Aac_kSamplingFrequency11025 then 11025
      else if b = Aac_kSamplingFrequency12000 then 12000
      else if b = Aac_kSamplingFrequency16000 then 16000
      else if b = Aac_kSamplingFrequency22050 then 22050
      else if b = Aac_kSamplingFrequency24000 then 24000
      else if b = Aac_kSamplingFrequency32000 then 32000
      else if b = Aac_kSamplingFrequency44100 then 44100
      else if b = Aac_kSamplingFrequency48000 then 48000
      else if b = Aac_kSamplingFrequency64000 then 64000
      else if b = Aac_kSamplingFrequency88200 then 88200
      else if b = Aac_kSamplingFrequency96000 then 96000
      else 0)"

fun GetChannelsBit :: "channel_mode \<Rightarrow> int" where
  "GetChannelsBit CM_MONO = kChannels1"
| "GetChannelsBit CM_STEREO = kChannels2"
| "GetChannelsBit CM_DUALMONO = -1"
| "GetChannelsBit CM_UNKNOWN = -1"

definition Aac_GetChannelModeEnum :: "int \<Rightarrow> channel_mode" where
  "Aac_GetChannelModeEnum b =
     (if b = kChannels1 then CM_MONO else if b = kChannels2 then CM_STEREO else CM_UNKNOWN)"

section \<open>The class\<close>

definition A2dpOffloadCodecAac :: "codec_info ub" where
  "A2dpOffloadCodecAac = do {
     let caps = replicate Aac_kCapabilitiesSize (0 :: u8);
     caps \<leftarrow> a2dp_set caps kObjectTypeMpeg2AacLc 1;
     caps \<leftarrow> a2dp_set caps kObjectTypeMpeg4AacLc 1;
     caps \<leftarrow> a2dp_set caps Aac_kSamplingFrequency44100 1;
     caps \<leftarrow> a2dp_set caps Aac_kSamplingFrequency48000 1;
     caps \<leftarrow> a2dp_set caps Aac_kSamplingFrequency88200 kEnableSamplingFrequency88200;
     caps \<leftarrow> a2dp_set caps Aac_kSamplingFrequency96000 kEnableSamplingFrequency96000;
     caps \<leftarrow> a2dp_set caps kChannels1 1;
     caps \<leftarrow> a2dp_set caps kChannels2 1;
     caps \<leftarrow> set_range caps Aac_kVbrSupported 1;
     sf \<leftarrow> filter_caps caps Aac_GetSamplingFrequencyBit
       [8000, 11025, 12000, 16000, 22050, 24000, 32000, 44100, 48000, 64000, 88200, 96000];
     cm \<leftarrow> filter_caps caps GetChannelsBit [CM_MONO, CM_STEREO];
     Some \<lparr>ci_id = CodecId_A2dp_AAC, ci_name = ''AAC'', ci_capabilities = caps,
           ci_samplingFrequencyHz = sf, ci_channelMode = cm, ci_bitdepth = [Aac_kBitdepth]\<rparr>
   }"

record aac_parameters =
  aac_object_type :: aac_object_type

definition Aac_ParseConfiguration ::
  "codec_info \<Rightarrow> u8 list \<Rightarrow> codec_parameters \<Rightarrow> aac_parameters option \<Rightarrow>
   (a2dp_status \<times> codec_parameters \<times> aac_parameters option) ub" where
  "Aac_ParseConfiguration info configuration cp ap =
     (let lcaps = ci_capabilities info; config = configuration;
          fail = (\<lambda>st. Some (st, cp, ap)) in
      if length configuration \<noteq> length lcaps then fail BAD_LENGTH else do {
        object_type \<leftarrow> find_active_bit config Aac_kObjectType;
        if object_type < 0 then fail INVALID_OBJECT_TYPE else do {
        ot_ok \<leftarrow> a2dp_get lcaps object_type;
        if \<not> ot_ok then fail NOT_SUPPORTED_OBJECT_TYPE else do {
        sampling_frequency \<leftarrow> find_active_bit config Aac_kSamplingFrequency;
        if sampling_frequency < 0 then fail INVALID_SAMPLING_FREQUENCY else do {
        sf_ok \<leftarrow> a2dp_get lcaps sampling_frequency;
        if \<not> sf_ok then fail NOT_SUPPORTED_SAMPLING_FREQUENCY else do {
        channels \<leftarrow> find_active_bit config Aac_kChannels;
        if channels < 0 then fail INVALID_CHANNELS else do {
        ch_ok \<leftarrow> a2dp_get lcaps channels;
        if \<not> ch_ok then fail NOT_SUPPORTED_CHANNELS else do {
        vbr_v \<leftarrow> get_range config Aac_kVbrSupported;
        lvbr \<leftarrow> get_range lcaps Aac_kVbrSupported;
        let vbr = (vbr_v \<noteq> 0);
        if vbr \<and> lvbr = 0 then fail NOT_SUPPORTED_VBR else do {
        bitrate_v \<leftarrow> get_range config Aac_kBitrate;
        lbitrate \<leftarrow> get_range lcaps Aac_kBitrate;
        let bitrate = uint bitrate_v;
        if vbr \<and> lbitrate \<noteq> 0 \<and> bitrate > uint lbitrate then fail NOT_SUPPORTED_BIT_RATE else
        Some (A2DP_OK,
          cp\<lparr>cp_channelMode := Aac_GetChannelModeEnum channels,
             cp_samplingFrequencyHz := Aac_GetSamplingFrequencyValue sampling_frequency,
             cp_bitdepth := Aac_kBitdepth,
             cp_minBitrate := (if vbr then 0 else bitrate),
             cp_maxBitrate := bitrate\<rparr>,
          map_option (\<lambda>p. p\<lparr>aac_object_type := GetObjectTypeEnum object_type\<rparr>) ap)
      }}}}}}}})"

definition Aac_SelectObjectType :: "u8 list \<Rightarrow> u8 list \<Rightarrow> u8 list \<Rightarrow> u8 list option ub" where
  "Aac_SelectObjectType lcaps rcaps config =
     select_first lcaps rcaps config [kObjectTypeMpeg2AacLc, kObjectTypeMpeg4AacLc]"

definition Aac_sf_candidates :: "codec_parameters option \<Rightarrow> int list" where
  "Aac_sf_candidates hint =
     hinted (case hint of Some h \<Rightarrow> Aac_GetSamplingFrequencyBit (cp_samplingFrequencyHz h) | None \<Rightarrow> -1)
       [Aac_kSamplingFrequency96000, Aac_kSamplingFrequency88200,
        Aac_kSamplingFrequency48000, Aac_kSamplingFrequency44100]"

definition Aac_SelectSamplingFrequency ::
  "u8 list \<Rightarrow> u8 list \<Rightarrow> codec_parameters option \<Rightarrow> u8 list \<Rightarrow> u8 list option ub" where
  "Aac_SelectSamplingFrequency lcaps rcaps hint config =
     select_first lcaps rcaps config (Aac_sf_candidates hint)"

definition Aac_ch_candidates :: "codec_parameters option \<Rightarrow> int list" where
  "Aac_ch_candidates hint =
     hinted (case hint of Some h \<Rightarrow> GetChannelsBit (cp_channelMode h) | None \<Rightarrow> -1)
       [kChannels2, kChannels1]"

definition Aac_SelectChannels ::
  "u8 list \<Rightarrow> u8 list \<Rightarrow> codec_parameters option \<Rightarrow> u8 list \<Rightarrow> u8 list option ub" where
  "Aac_SelectChannels lcaps rcaps hint config =
     select_first lcaps rcaps config (Aac_ch_candidates hint)"

text \<open>The bitrate is an \<open>int32_t\<close>; \<open>set\<close> stores its low 23 bits.\<close>

definition Aac_SelectBitrate ::
  "u8 list \<Rightarrow> u8 list \<Rightarrow> codec_parameters option \<Rightarrow> u8 list \<Rightarrow> u8 list ub" where
  "Aac_SelectBitrate lcaps rcaps hint config = do {
     config \<leftarrow> (if (case hint of None \<Rightarrow> True | Some h \<Rightarrow> cp_minBitrate h = 0)
                then do {
                  lvbr \<leftarrow> get_range lcaps Aac_kVbrSupported;
                  rvbr \<leftarrow> get_range rcaps Aac_kVbrSupported;
                  set_range config Aac_kVbrSupported (of_bool (lvbr \<noteq> 0 \<and> rvbr \<noteq> 0))
                }
                else Some config);
     lbitrate \<leftarrow> get_range lcaps Aac_kBitrate;
     let bitrate = uint lbitrate;
     let bitrate = (case hint of
         Some h \<Rightarrow> (if cp_maxBitrate h > 0 \<and> bitrate \<noteq> 0 then min (cp_maxBitrate h) bitrate
                    else if cp_maxBitrate h > 0 then cp_maxBitrate h else bitrate)
       | None \<Rightarrow> bitrate);
     set_range config Aac_kBitrate bitrate
   }"

definition Aac_BuildConfiguration ::
  "codec_info \<Rightarrow> u8 list \<Rightarrow> codec_parameters option \<Rightarrow> u8 list \<Rightarrow> (bool \<times> u8 list) ub" where
  "Aac_BuildConfiguration info remote_capabilities hint configuration =
     (let lcaps = ci_capabilities info; rcaps = remote_capabilities in
      if length remote_capabilities \<noteq> length lcaps then Some (False, configuration) else do {
        let c0 = replicate (length lcaps) (0 :: u8);
        s1 \<leftarrow> Aac_SelectObjectType lcaps rcaps c0;
        (case s1 of None \<Rightarrow> Some (False, c0) | Some c1 \<Rightarrow> do {
        s2 \<leftarrow> Aac_SelectSamplingFrequency lcaps rcaps hint c1;
        (case s2 of None \<Rightarrow> Some (False, c1) | Some c2 \<Rightarrow> do {
        s3 \<leftarrow> Aac_SelectChannels lcaps rcaps hint c2;
        (case s3 of None \<Rightarrow> Some (False, c2) | Some c3 \<Rightarrow> do {
        c4 \<leftarrow> Aac_SelectBitrate lcaps rcaps hint c3;
        Some (True, c4) })})})
      })"

section \<open>The constructed codec\<close>

definition Aac_info :: codec_info where
  "Aac_info = \<lparr>ci_id = CodecId_A2dp_AAC, ci_name = ''AAC'',
     ci_capabilities = [192, 1, 140, 128, 0, 0], ci_samplingFrequencyHz = [44100, 48000],
     ci_channelMode = [CM_MONO, CM_STEREO], ci_bitdepth = [24]\<rparr>"

lemma Aac_constructed: "A2dpOffloadCodecAac = Some Aac_info"
  by code_simp

abbreviation Aac_lcaps :: "u8 list" where "Aac_lcaps \<equiv> ci_capabilities Aac_info"

lemma length_Aac_lcaps [simp]: "length Aac_lcaps = 6"
  by (simp add: Aac_info_def)

lemma Aac_range_fields [simp]:
  "rfirst Aac_kObjectType = 0" "rlen Aac_kObjectType = 7"
  "rfirst Aac_kSamplingFrequency = 8" "rlen Aac_kSamplingFrequency = 12"
  "rfirst Aac_kChannels = 20" "rlen Aac_kChannels = 4"
  "rfirst Aac_kVbrSupported = 24" "rlen Aac_kVbrSupported = 1"
  "rfirst Aac_kBitrate = 25" "rlen Aac_kBitrate = 23"
  by (simp_all add: Aac_kObjectType_def Aac_kSamplingFrequency_def Aac_kChannels_def
      Aac_kVbrSupported_def Aac_kBitrate_def Range1_def Range2_def)

lemma Aac_range_in [simp]:
  assumes "length c = 6"
  shows "range_in Aac_kObjectType c" "range_in Aac_kSamplingFrequency c"
    "range_in Aac_kChannels c" "range_in Aac_kVbrSupported c" "range_in Aac_kBitrate c"
  using assms by (simp_all add: range_in_def)

definition Aac_local :: "nat set" where "Aac_local = {0, 1, 15, 16, 20, 21}"

lemma Aac_lcaps_bits: "k < 24 \<Longrightarrow> bits_at Aac_lcaps k \<longleftrightarrow> k \<in> Aac_local"
proof -
  have "\<forall>k < 24. bits_at Aac_lcaps k \<longleftrightarrow> k \<in> Aac_local" by code_simp
  then show "k < 24 \<Longrightarrow> ?thesis" by blast
qed

lemma Aac_lcaps_bitrate:
  "get_range Aac_lcaps Aac_kVbrSupported = Some 1"
  "get_range Aac_lcaps Aac_kBitrate = Some 0"
  by code_simp+

section \<open>Parsing\<close>

lemma Aac_get_lcaps_active:
  assumes "length c = 6" "r \<in> {Aac_kObjectType, Aac_kSamplingFrequency, Aac_kChannels}"
    "0 \<le> active c r"
  shows "a2dp_get Aac_lcaps (active c r) = Some (nat (active c r) \<in> Aac_local)"
proof -
  have "range_in r c" using assms by auto
  then have "active c r < 24" using active_cases [of r c] assms by auto
  then have "a2dp_get Aac_lcaps (int (nat (active c r))) = Some (nat (active c r) \<in> Aac_local)"
    using get_bit_in [of "nat (active c r)" Aac_lcaps] Aac_lcaps_bits [of "nat (active c r)"] assms(3)
    by simp
  then show ?thesis using assms(3) by simp
qed

definition Aac_bitrate :: "u8 list \<Rightarrow> int" where
  "Aac_bitrate c = uint (range_val c Aac_kBitrate)"

definition Aac_vbr :: "u8 list \<Rightarrow> bool" where
  "Aac_vbr c \<longleftrightarrow> range_val c Aac_kVbrSupported \<noteq> 0"

definition Aac_parsed_cp :: "u8 list \<Rightarrow> codec_parameters \<Rightarrow> codec_parameters" where
  "Aac_parsed_cp c cp =
     cp\<lparr>cp_channelMode := Aac_GetChannelModeEnum (active c Aac_kChannels),
        cp_samplingFrequencyHz := Aac_GetSamplingFrequencyValue (active c Aac_kSamplingFrequency),
        cp_bitdepth := 24,
        cp_minBitrate := (if Aac_vbr c then 0 else Aac_bitrate c),
        cp_maxBitrate := Aac_bitrate c\<rparr>"

definition Aac_parsed_ap :: "u8 list \<Rightarrow> aac_parameters \<Rightarrow> aac_parameters" where
  "Aac_parsed_ap c p = p\<lparr>aac_object_type := GetObjectTypeEnum (active c Aac_kObjectType)\<rparr>"

definition Aac_status :: "u8 list \<Rightarrow> a2dp_status" where
  "Aac_status c =
     (if length c \<noteq> 6 then BAD_LENGTH
      else if active c Aac_kObjectType < 0 then INVALID_OBJECT_TYPE
      else if nat (active c Aac_kObjectType) \<notin> Aac_local then NOT_SUPPORTED_OBJECT_TYPE
      else if active c Aac_kSamplingFrequency < 0 then INVALID_SAMPLING_FREQUENCY
      else if nat (active c Aac_kSamplingFrequency) \<notin> Aac_local then NOT_SUPPORTED_SAMPLING_FREQUENCY
      else if active c Aac_kChannels < 0 then INVALID_CHANNELS
      else if nat (active c Aac_kChannels) \<notin> Aac_local then NOT_SUPPORTED_CHANNELS
      else A2DP_OK)"

lemma Aac_parse_eq:
  "Aac_ParseConfiguration Aac_info c cp ap =
     Some (Aac_status c,
       if Aac_status c = A2DP_OK then Aac_parsed_cp c cp else cp,
       if Aac_status c = A2DP_OK then map_option (Aac_parsed_ap c) ap else ap)"
proof (cases "length c = 6")
  case False
  then show ?thesis by (simp add: Aac_ParseConfiguration_def Aac_status_def)
next
  case l: True
  have ap: "(\<lambda>p. p\<lparr>aac_object_type := GetObjectTypeEnum (active c Aac_kObjectType)\<rparr>) = Aac_parsed_ap c"
    by (simp add: Aac_parsed_ap_def fun_eq_iff)
  show ?thesis
    using l
    by (simp add: Aac_ParseConfiguration_def Aac_status_def find_active_bit_active get_range_in
        Aac_get_lcaps_active Aac_lcaps_bitrate Aac_parsed_cp_def ap Aac_kBitdepth_def
        Aac_bitrate_def Aac_vbr_def Let_def)
qed

section \<open>Building\<close>

lemma Aac_sf_candidates_set:
  "set (Aac_sf_candidates hint) \<subseteq> {8..19}" "{15, 16} \<subseteq> set (Aac_sf_candidates hint)"
proof -
  have "Aac_GetSamplingFrequencyBit f = -1 \<or> Aac_GetSamplingFrequencyBit f \<in> {8..19}" for f
    by (simp add: Aac_GetSamplingFrequencyBit_def)
  from this [of "cp_samplingFrequencyHz (the hint)"] show "set (Aac_sf_candidates hint) \<subseteq> {8..19}"
    by (cases hint) (auto simp: Aac_sf_candidates_def hinted_def)
  show "{15, 16} \<subseteq> set (Aac_sf_candidates hint)"
    by (auto simp: Aac_sf_candidates_def hinted_def)
qed

lemma Aac_ch_candidates_set: "set (Aac_ch_candidates hint) = {20, 21}"
proof -
  have "GetChannelsBit m \<in> {-1, 20, 21}" for m by (cases m) simp_all
  from this [of "cp_channelMode (the hint)"] show ?thesis
    by (cases hint) (auto simp: Aac_ch_candidates_def hinted_def)
qed

lemma Aac_select:
  assumes "length r = 6" "length c = 6"
  shows "Aac_SelectObjectType Aac_lcaps r c =
      Some (map_option (\<lambda>k. set_at c k True) (choice Aac_lcaps r [0, 1]))"
    "Aac_SelectSamplingFrequency Aac_lcaps r hint c =
      Some (map_option (\<lambda>k. set_at c k True) (choice Aac_lcaps r (Aac_sf_candidates hint)))"
    "Aac_SelectChannels Aac_lcaps r hint c =
      Some (map_option (\<lambda>k. set_at c k True) (choice Aac_lcaps r (Aac_ch_candidates hint)))"
  unfolding Aac_SelectObjectType_def Aac_SelectSamplingFrequency_def Aac_SelectChannels_def
  by (rule select_first_in;
      use Aac_sf_candidates_set(1) [of hint] Aac_ch_candidates_set [of hint] assms in auto)+

text \<open>Selecting the bitrate leaves the fields before it alone.\<close>

lemma Aac_SelectBitrate_keeps:
  assumes "length c = 6" "length r = 6"
  obtains c' where "Aac_SelectBitrate Aac_lcaps r hint c = Some c'" "length c' = 6"
    "\<forall>k < 24. bits_at c' k = bits_at c k"
    "range_val c' Aac_kBitrate =
       take_bit 23 (word_of_int (case hint of Some h \<Rightarrow> max 0 (cp_maxBitrate h) | None \<Rightarrow> 0))"
proof -
  let ?rate = "case hint of Some h \<Rightarrow> max 0 (cp_maxBitrate h) | None \<Rightarrow> 0"
  define v where "v = (if (case hint of None \<Rightarrow> True | Some h \<Rightarrow> cp_minBitrate h = 0)
     then set_range_at c Aac_kVbrSupported (of_bool (range_val r Aac_kVbrSupported \<noteq> 0)) else c)"
  have lv: "length v = 6" using assms by (simp add: v_def)
  have bv: "\<forall>k < 24. bits_at v k = bits_at c k"
    using assms by (simp add: v_def bits_at_set_range_at)
  have "Aac_SelectBitrate Aac_lcaps r hint c = set_range v Aac_kBitrate ?rate"
    using assms
    by (cases hint) (auto simp: Aac_SelectBitrate_def get_range_in set_range_in Aac_lcaps_bitrate v_def Let_def)
  then have "Aac_SelectBitrate Aac_lcaps r hint c = Some (set_range_at v Aac_kBitrate ?rate)"
    using lv by (simp add: set_range_in)
  moreover have "\<forall>k < 24. bits_at (set_range_at v Aac_kBitrate ?rate) k = bits_at c k"
    using bv lv by (simp add: bits_at_set_range_at)
  ultimately show thesis
    using that [of "set_range_at v Aac_kBitrate ?rate"] lv
      range_val_set_range_at [of Aac_kBitrate v ?rate] by simp
qed

definition Aac_common :: "u8 list \<Rightarrow> bool" where
  "Aac_common r \<longleftrightarrow> length r = 6 \<and> (\<exists>k \<in> {0, 1}. bits_at r k) \<and> (\<exists>k \<in> {15, 16}. bits_at r k) \<and>
     (\<exists>k \<in> {20, 21}. bits_at r k)"

lemma Aac_choice_iff:
  assumes "nat ` set bs \<subseteq> {..<24}"
  shows "(\<exists>k. choice Aac_lcaps r bs = Some k) \<longleftrightarrow> (\<exists>b \<in> set bs. nat b \<in> Aac_local \<and> bits_at r (nat b))"
proof -
  have "\<forall>b \<in> set bs. bits_at Aac_lcaps (nat b) \<longleftrightarrow> nat b \<in> Aac_local"
    using assms Aac_lcaps_bits by blast
  then show ?thesis
    using choice_None_iff [of Aac_lcaps r bs] by (metis not_None_eq)
qed

lemma Aac_candidates_iff:
  "(\<exists>k. choice Aac_lcaps r [0, 1] = Some k) \<longleftrightarrow> (\<exists>k \<in> {0, 1}. bits_at r k)"
  "(\<exists>k. choice Aac_lcaps r (Aac_sf_candidates hint) = Some k) \<longleftrightarrow> (\<exists>k \<in> {15, 16}. bits_at r k)"
  "(\<exists>k. choice Aac_lcaps r (Aac_ch_candidates hint) = Some k) \<longleftrightarrow> (\<exists>k \<in> {20, 21}. bits_at r k)"
proof -
  show "(\<exists>k. choice Aac_lcaps r [0, 1] = Some k) \<longleftrightarrow> (\<exists>k \<in> {0, 1}. bits_at r k)"
    using Aac_choice_iff [of "[0, 1]" r] by (simp add: Aac_local_def)
  show "(\<exists>k. choice Aac_lcaps r (Aac_ch_candidates hint) = Some k) \<longleftrightarrow> (\<exists>k \<in> {20, 21}. bits_at r k)"
    using Aac_choice_iff [of "Aac_ch_candidates hint" r]
    by (simp add: Aac_ch_candidates_set Aac_local_def)
  have "nat ` set (Aac_sf_candidates hint) \<subseteq> {..<24}"
    using Aac_sf_candidates_set(1) [of hint] by fastforce
  note sf = Aac_choice_iff [OF this, of r]
  have "b = 15 \<or> b = 16" if "b \<in> set (Aac_sf_candidates hint)" "nat b \<in> Aac_local" for b
  proof -
    have "8 \<le> b" "b \<le> 19" using Aac_sf_candidates_set(1) [of hint] that(1) by auto
    then show ?thesis using that(2) by (simp add: Aac_local_def nat_eq_iff)
  qed
  then have "(\<exists>b \<in> set (Aac_sf_candidates hint). nat b \<in> Aac_local \<and> bits_at r (nat b)) \<longleftrightarrow>
      (\<exists>b \<in> {15, 16}. nat b \<in> Aac_local \<and> bits_at r (nat b))"
    using Aac_sf_candidates_set(2) [of hint] by blast
  then show "(\<exists>k. choice Aac_lcaps r (Aac_sf_candidates hint) = Some k) \<longleftrightarrow> (\<exists>k \<in> {15, 16}. bits_at r k)"
    unfolding sf by (simp add: Aac_local_def)
qed

lemma Aac_build_refused:
  assumes "\<not> Aac_common r"
  shows "\<exists>c. Aac_BuildConfiguration Aac_info r hint cfg = Some (False, c)"
proof (cases "length r = 6")
  case False
  then show ?thesis by (simp add: Aac_BuildConfiguration_def)
next
  case l: True
  let ?c = "\<lambda>bs. choice Aac_lcaps r bs"
  consider "?c [0, 1] = None"
    | a where "?c [0, 1] = Some a" "?c (Aac_sf_candidates hint) = None"
    | a b where "?c [0, 1] = Some a" "?c (Aac_sf_candidates hint) = Some b" "?c (Aac_ch_candidates hint) = None"
    using assms l Aac_candidates_iff(1) [of r] Aac_candidates_iff(2,3) [of r hint]
    unfolding Aac_common_def by (metis option.exhaust)
  then show ?thesis
    using l by cases (simp_all add: Aac_BuildConfiguration_def Aac_select Let_def)
qed

lemma Aac_build_common:
  assumes "Aac_common r"
  obtains c where "Aac_BuildConfiguration Aac_info r hint cfg = Some (True, c)"
    "Aac_status c = A2DP_OK" "\<forall>k < 24. bits_at c k \<longrightarrow> bits_at Aac_lcaps k \<and> bits_at r k"
    "Aac_bitrate c = (case hint of Some h \<Rightarrow> max 0 (cp_maxBitrate h) | None \<Rightarrow> 0) mod 2 ^ 23"
proof -
  have l: "length r = 6" using assms by (simp add: Aac_common_def)
  obtain a b d where ch: "choice Aac_lcaps r [0, 1] = Some a"
    "choice Aac_lcaps r (Aac_sf_candidates hint) = Some b"
    "choice Aac_lcaps r (Aac_ch_candidates hint) = Some d"
    using assms Aac_candidates_iff(1) [of r] Aac_candidates_iff(2,3) [of r hint]
    unfolding Aac_common_def by blast
  have i: "a \<in> {0, 1}" "b \<in> {8..19}" "d \<in> {20, 21}"
    using choice_SomeD [OF ch(1)] choice_SomeD [OF ch(2)] choice_SomeD [OF ch(3)]
      Aac_sf_candidates_set(1) [of hint] by (fastforce simp: Aac_ch_candidates_set)+
  have lr: "\<forall>k \<in> {a, b, d}. bits_at Aac_lcaps k \<and> bits_at r k"
    using ch [THEN choice_SomeD] by blast
  define c3 where "c3 = set_at (set_at (set_at (replicate 6 0) a True) b True) d True"
  have l3: "length c3 = 6" by (simp add: c3_def)
  have b3: "\<forall>k < 24. bits_at c3 k \<longleftrightarrow> k \<in> {a, b, d}"
    using i by (auto simp: c3_def bits_at_set_at_True)
  obtain c where c: "Aac_SelectBitrate Aac_lcaps r hint c3 = Some c" "length c = 6"
    "\<forall>k < 24. bits_at c k = bits_at c3 k"
    "range_val c Aac_kBitrate =
       take_bit 23 (word_of_int (case hint of Some h \<Rightarrow> max 0 (cp_maxBitrate h) | None \<Rightarrow> 0))"
    by (rule Aac_SelectBitrate_keeps [OF l3 l, of hint])
  have bc: "\<forall>k < 24. bits_at c k \<longleftrightarrow> k \<in> {a, b, d}" using b3 c(3) by simp
  have "only_active c Aac_kObjectType a" "only_active c Aac_kSamplingFrequency b"
    "only_active c Aac_kChannels d"
    using bc i by (auto simp: only_active_def)
  then have "active c Aac_kObjectType = int a" "active c Aac_kSamplingFrequency = int b"
    "active c Aac_kChannels = int d" using c(2) by (simp_all add: active_only)
  moreover have "a \<in> Aac_local" "b \<in> Aac_local" "d \<in> Aac_local"
    using lr i Aac_lcaps_bits [of a] Aac_lcaps_bits [of b] Aac_lcaps_bits [of d] by auto
  ultimately have st: "Aac_status c = A2DP_OK" using c(2) by (simp add: Aac_status_def)
  have "Aac_BuildConfiguration Aac_info r hint cfg = Some (True, c)"
    using l ch c(1) by (simp add: Aac_BuildConfiguration_def Aac_select c3_def)
  moreover have "Aac_bitrate c = (case hint of Some h \<Rightarrow> max 0 (cp_maxBitrate h) | None \<Rightarrow> 0) mod 2 ^ 23"
    unfolding Aac_bitrate_def c(4) by (rule uint_take_bit_word_of_int) simp
  ultimately show thesis using that [of c] st bc lr by blast
qed

section \<open>The codec contract\<close>

text \<open>The virtual methods: the two-argument \<open>ParseConfiguration\<close> passes no codec parameters.\<close>

definition aac_codec :: "codec_info \<Rightarrow> offload_codec" where
  "aac_codec info = \<lparr>oc_info = info,
     oc_parse = (\<lambda>cfg cp. map_option (\<lambda>(st, cp', p). (st, cp')) (Aac_ParseConfiguration info cfg cp None)),
     oc_build = Aac_BuildConfiguration info\<rparr>"

interpretation aac: a2dp_codec "aac_codec Aac_info"
proof unfold_locales
  fix cfg cp
  show "\<exists>st cp'. oc_parse (aac_codec Aac_info) cfg cp = Some (st, cp')"
    by (simp add: aac_codec_def Aac_parse_eq)
next
  fix rcaps hint cfg
  show "\<exists>ok cfg'. oc_build (aac_codec Aac_info) rcaps hint cfg = Some (ok, cfg')"
  proof (cases "Aac_common rcaps")
    case True
    obtain c where "Aac_BuildConfiguration Aac_info rcaps hint cfg = Some (True, c)"
      by (rule Aac_build_common [OF True, of hint cfg])
    then show ?thesis by (auto simp: aac_codec_def)
  next
    case False
    then show ?thesis using Aac_build_refused [of rcaps hint cfg] by (auto simp: aac_codec_def)
  qed
next
  fix rcaps hint cfg cfg' cp
  assume b: "oc_build (aac_codec Aac_info) rcaps hint cfg = Some (True, cfg')"
  then have "Aac_common rcaps"
    using Aac_build_refused [of rcaps hint cfg] by (auto simp: aac_codec_def)
  then obtain c where "Aac_BuildConfiguration Aac_info rcaps hint cfg = Some (True, c)"
    "Aac_status c = A2DP_OK"
    by (rule Aac_build_common [of rcaps hint cfg])
  then show "\<exists>cp'. oc_parse (aac_codec Aac_info) cfg' cp = Some (A2DP_OK, cp')"
    using b by (simp add: aac_codec_def Aac_parse_eq)
qed

section \<open>Properties\<close>

text \<open>For every sequence of octets, \<open>ParseConfiguration\<close> of the AAC codec is free of
  undefined behaviour, returns the status of the first field that is wrong, and writes the
  parameters only when every field is valid and supported.\<close>

lemma Aac_parse_functional:
  "Aac_ParseConfiguration Aac_info c cp ap =
     Some (Aac_status c,
       if Aac_status c = A2DP_OK then Aac_parsed_cp c cp else cp,
       if Aac_status c = A2DP_OK then map_option (Aac_parsed_ap c) ap else ap)"
  by (rule Aac_parse_eq)

text \<open>The AAC negotiation succeeds exactly when the sides share an object type, a sampling
  frequency and a number of channels; what it writes parses, enables only common bits, and
  carries the hinted maximum bitrate cut to the 23 bits of its field.\<close>

lemma Aac_negotiation:
  "\<exists>ok c. Aac_BuildConfiguration Aac_info r hint cfg = Some (ok, c) \<and> (ok \<longleftrightarrow> Aac_common r) \<and>
     (ok \<longrightarrow> (\<exists>cp' ap'. Aac_ParseConfiguration Aac_info c cp ap = Some (A2DP_OK, cp', ap') \<and>
          cp_maxBitrate cp' = (case hint of Some h \<Rightarrow> max 0 (cp_maxBitrate h) | None \<Rightarrow> 0) mod 2 ^ 23) \<and>
        (\<forall>k < 24. bits_at c k \<longrightarrow> bits_at (ci_capabilities Aac_info) k \<and> bits_at r k))"
proof (cases "Aac_common r")
  case True
  then obtain c where "Aac_BuildConfiguration Aac_info r hint cfg = Some (True, c)"
    "Aac_status c = A2DP_OK" "\<forall>k < 24. bits_at c k \<longrightarrow> bits_at Aac_lcaps k \<and> bits_at r k"
    "Aac_bitrate c = (case hint of Some h \<Rightarrow> max 0 (cp_maxBitrate h) | None \<Rightarrow> 0) mod 2 ^ 23"
    by (rule Aac_build_common [of r hint cfg])
  then show ?thesis using True by (auto simp: Aac_parse_eq Aac_parsed_cp_def)
next
  case False
  then show ?thesis using Aac_build_refused [OF False, of hint cfg] by auto
qed

lemma Aac_negotiation_witness:
  "\<exists>c. Aac_BuildConfiguration Aac_info [128, 1, 140, 131, 232, 0] None [] = Some (True, c) \<and>
     (\<exists>cp' ap'. Aac_ParseConfiguration Aac_info c
        \<lparr>cp_channelMode = CM_UNKNOWN, cp_samplingFrequencyHz = 0, cp_bitdepth = 0,
         cp_minBitrate = 0, cp_maxBitrate = 0\<rparr> None = Some (A2DP_OK, cp', ap'))"
proof -
  have "Aac_common [128, 1, 140, 131, 232, 0]" by code_simp
  then show ?thesis
    using Aac_negotiation [of "[128, 1, 140, 131, 232, 0]" None "[]"
      "\<lparr>cp_channelMode = CM_UNKNOWN, cp_samplingFrequencyHz = 0, cp_bitdepth = 0,
         cp_minBitrate = 0, cp_maxBitrate = 0\<rparr>" None] by auto
qed

end
