(* ===== verification/Codec_Factory.thy ===== *)
theory Codec_Factory
  imports Codec_Sbc Codec_Aac
begin

text \<open>
  \<^verbatim>\<open>bluetooth/audio/hal/A2dpOffloadCodecFactory.cpp\<close>: the ranked list of codecs, the lookup
  of a codec by its identifier and the choice of a configuration for a remote device. The
  factory uses its codecs through the contract \<open>a2dp_codec\<close> only; \<open>codec_factory\<close> states
  what it needs of the whole list and is interpreted on the list the constructor builds.
\<close>

section \<open>Data\<close>

record a2dp_remote_capabilities =
  rc_id :: codec_id
  rc_seid :: int
  rc_capabilities :: "u8 list"

record a2dp_configuration_hint =
  hint_codecId :: "codec_id option"
  hint_codecParameters :: "codec_parameters option"

record a2dp_configuration =
  ac_remoteSeid :: int
  ac_id :: codec_id
  ac_parameters :: codec_parameters
  ac_configuration :: "u8 list"

section \<open>The class\<close>

definition A2dpOffloadCodecFactory :: "offload_codec list ub" where
  "A2dpOffloadCodecFactory = do {
     aac \<leftarrow> A2dpOffloadCodecAac;
     sbc \<leftarrow> A2dpOffloadCodecSbc;
     Some [aac_codec aac, sbc_codec sbc]
   }"

definition codec_has_id :: "codec_id \<Rightarrow> offload_codec \<Rightarrow> bool" where
  "codec_has_id i c \<longleftrightarrow> i = ci_id (oc_info c)"

definition GetCodec :: "offload_codec list \<Rightarrow> codec_id \<Rightarrow> offload_codec option" where
  "GetCodec ranked i = find (codec_has_id i) ranked"

text \<open>\<open>std::find_if\<close> as the position found; the end iterator is \<^const>\<open>None\<close>.\<close>

fun find_index :: "('a \<Rightarrow> bool) \<Rightarrow> 'a list \<Rightarrow> nat option" where
  "find_index P [] = None"
| "find_index P (x # xs) = (if P x then Some 0 else map_option Suc (find_index P xs))"

text \<open>
  The codecs in the order they are tried: the hinted one, then every other one. The predicate
  of \<open>std::copy_if\<close> dereferences \<open>hinted_codec\<close> for each element; when no codec matches the
  hint this is the end iterator, and the execution is undefined.
\<close>

definition codec_order :: "offload_codec list \<Rightarrow> codec_id option \<Rightarrow> offload_codec list ub" where
  "codec_order ranked hinted_id =
     (case find_index (\<lambda>c. hinted_id = Some (ci_id (oc_info c))) ranked of
        Some i \<Rightarrow> Some (ranked ! i # [ranked ! j. j \<leftarrow> [0..<length ranked], j \<noteq> i])
      | None \<Rightarrow> (if ranked = [] then Some [] else None))"

text \<open>The loop over the codecs; a failed \<open>assert\<close> is an undefined execution.\<close>

fun try_codecs ::
  "a2dp_remote_capabilities list \<Rightarrow> a2dp_configuration_hint \<Rightarrow> offload_codec list \<Rightarrow>
   a2dp_configuration \<Rightarrow> (bool \<times> a2dp_configuration) ub" where
  "try_codecs rcs hint [] conf = Some (False, conf)"
| "try_codecs rcs hint (codec # codecs) conf =
     (case find (\<lambda>rc. ci_id (oc_info codec) = rc_id rc) rcs of
        None \<Rightarrow> try_codecs rcs hint codecs conf
      | Some rc \<Rightarrow> do {
          (ok, octets) \<leftarrow> oc_build codec (rc_capabilities rc) (hint_codecParameters hint) (ac_configuration conf);
          let conf = conf\<lparr>ac_configuration := octets\<rparr>;
          if \<not> ok then try_codecs rcs hint codecs conf
          else do {
            let conf = conf\<lparr>ac_id := ci_id (oc_info codec)\<rparr>;
            (status, cp) \<leftarrow> oc_parse codec (ac_configuration conf) (ac_parameters conf);
            let conf = conf\<lparr>ac_parameters := cp\<rparr>;
            if status \<noteq> A2DP_OK then None
            else Some (True, conf\<lparr>ac_remoteSeid := rc_seid rc\<rparr>)
          }
        })"

definition GetConfiguration ::
  "offload_codec list \<Rightarrow> a2dp_remote_capabilities list \<Rightarrow> a2dp_configuration_hint \<Rightarrow>
   a2dp_configuration \<Rightarrow> (bool \<times> a2dp_configuration) ub" where
  "GetConfiguration ranked rcs hint conf = do {
     codecs \<leftarrow> codec_order ranked (hint_codecId hint);
     try_codecs rcs hint codecs conf
   }"

section \<open>What the factory needs of its codecs\<close>

text \<open>A codec and a remote endpoint fit when the build succeeds on the endpoint's capabilities.\<close>

definition fits ::
  "a2dp_remote_capabilities list \<Rightarrow> a2dp_configuration_hint \<Rightarrow> u8 list \<Rightarrow> offload_codec \<Rightarrow>
   a2dp_remote_capabilities \<Rightarrow> u8 list \<Rightarrow> bool" where
  "fits rcs hint old codec rc octets \<longleftrightarrow>
     find (\<lambda>rc. ci_id (oc_info codec) = rc_id rc) rcs = Some rc \<and>
     oc_build codec (rc_capabilities rc) (hint_codecParameters hint) old = Some (True, octets)"

text \<open>What it means for a codec to have produced the configuration the caller receives.\<close>

definition negotiated ::
  "a2dp_remote_capabilities list \<Rightarrow> a2dp_configuration_hint \<Rightarrow> a2dp_configuration \<Rightarrow> offload_codec \<Rightarrow> bool" where
  "negotiated rcs hint conf' codec \<longleftrightarrow> (\<exists>rc old cp.
     fits rcs hint old codec rc (ac_configuration conf') \<and>
     ac_id conf' = ci_id (oc_info codec) \<and> ac_remoteSeid conf' = rc_seid rc \<and>
     oc_parse codec (ac_configuration conf') cp = Some (A2DP_OK, ac_parameters conf'))"

locale codec_factory =
  fixes ranked :: "offload_codec list"
  assumes contract: "codec \<in> set ranked \<Longrightarrow> a2dp_codec codec"
begin

text \<open>No assertion fails and nothing is undefined, and a success is one of the codecs' builds.\<close>

lemma try_codecs_result:
  assumes "set codecs \<subseteq> set ranked"
  shows "\<exists>ok conf'. try_codecs rcs hint codecs conf = Some (ok, conf') \<and>
     (ok \<longrightarrow> (\<exists>codec \<in> set codecs. negotiated rcs hint conf' codec))"
  using assms
proof (induction codecs arbitrary: conf)
  case Nil
  then show ?case by auto
next
  case (Cons codec codecs)
  have IH: "\<exists>ok conf'. try_codecs rcs hint codecs cf = Some (ok, conf') \<and>
     (ok \<longrightarrow> (\<exists>codec \<in> set codecs. negotiated rcs hint conf' codec))" for cf
    using Cons by simp
  have ctr: "a2dp_codec codec" using Cons.prems contract by simp
  show ?case
  proof (cases "find (\<lambda>rc. ci_id (oc_info codec) = rc_id rc) rcs")
    case None
    then show ?thesis using IH [of conf] by auto
  next
    case (Some rc)
    show ?thesis
    proof (rule a2dp_codec.build_cases [OF ctr, of "rc_capabilities rc" "hint_codecParameters hint"
          "ac_configuration conf" "ac_parameters conf"])
      fix cfg' cp'
      assume b: "oc_build codec (rc_capabilities rc) (hint_codecParameters hint) (ac_configuration conf) = Some (True, cfg')"
        and p: "oc_parse codec cfg' (ac_parameters conf) = Some (A2DP_OK, cp')"
      then show ?thesis using Some by (auto simp: fits_def negotiated_def)
    next
      fix cfg'
      assume "oc_build codec (rc_capabilities rc) (hint_codecParameters hint) (ac_configuration conf) = Some (False, cfg')"
      then show ?thesis using Some IH [of "conf\<lparr>ac_configuration := cfg'\<rparr>"] by auto
    qed
  qed
qed

end

text \<open>The list the constructor builds.\<close>

abbreviation ranked_codecs :: "offload_codec list" where
  "ranked_codecs \<equiv> [aac_codec Aac_info, sbc_codec Sbc_info]"

lemma Factory_constructed: "A2dpOffloadCodecFactory = Some ranked_codecs"
  by (simp add: A2dpOffloadCodecFactory_def Aac_constructed Sbc_constructed)

interpretation factory: codec_factory ranked_codecs
  by (rule codec_factory.intro) (auto intro: aac.a2dp_codec_axioms sbc.a2dp_codec_axioms)

lemma codec_ids [simp]:
  "ci_id (oc_info (aac_codec Aac_info)) = CodecId_A2dp_AAC"
  "ci_id (oc_info (sbc_codec Sbc_info)) = CodecId_A2dp_SBC"
  by (simp_all add: aac_codec_def sbc_codec_def Aac_info_def Sbc_info_def)

lemma codec_order_known:
  "codec_order ranked_codecs (Some CodecId_A2dp_AAC) = Some [aac_codec Aac_info, sbc_codec Sbc_info]"
  "codec_order ranked_codecs (Some CodecId_A2dp_SBC) = Some [sbc_codec Sbc_info, aac_codec Aac_info]"
  by (simp_all add: codec_order_def)

lemma codec_order_unknown:
  "i \<notin> {Some CodecId_A2dp_AAC, Some CodecId_A2dp_SBC} \<Longrightarrow> codec_order ranked_codecs i = None"
  by (auto simp: codec_order_def)

section \<open>Properties\<close>

text \<open>C33: when the hint names one of the factory's codecs, \<open>GetConfiguration\<close> is free of
  undefined behaviour, its assertion never fails, and a configuration it returns was built by
  one of its codecs from the capabilities of the remote endpoint it names, and parses.\<close>

theorem GetConfiguration_sound:
  assumes "hint_codecId hint \<in> {Some CodecId_A2dp_AAC, Some CodecId_A2dp_SBC}"
  shows "\<exists>ok conf'. GetConfiguration ranked_codecs rcs hint conf = Some (ok, conf') \<and>
     (ok \<longrightarrow> (\<exists>codec \<in> set ranked_codecs. negotiated rcs hint conf' codec))"
proof -
  obtain cs where "codec_order ranked_codecs (hint_codecId hint) = Some cs"
    and "set cs = set ranked_codecs"
    using assms codec_order_known by fastforce
  then show ?thesis
    using factory.try_codecs_result [of cs rcs hint conf] by (simp add: GetConfiguration_def)
qed

definition example_hint :: "codec_id option \<Rightarrow> a2dp_configuration_hint" where
  "example_hint i = \<lparr>hint_codecId = i, hint_codecParameters = None\<rparr>"

definition example_conf :: a2dp_configuration where
  "example_conf = \<lparr>ac_remoteSeid = 0, ac_id = CodecId_other 0,
     ac_parameters = \<lparr>cp_channelMode = CM_UNKNOWN, cp_samplingFrequencyHz = 0, cp_bitdepth = 0,
       cp_minBitrate = 0, cp_maxBitrate = 0\<rparr>, ac_configuration = []\<rparr>"

definition example_remote :: "a2dp_remote_capabilities list" where
  "example_remote = [\<lparr>rc_id = CodecId_A2dp_SBC, rc_seid = 7, rc_capabilities = [255, 255, 2, 53]\<rparr>]"

theorem GetConfiguration_sound_witness:
  "\<exists>conf'. GetConfiguration ranked_codecs example_remote (example_hint (Some CodecId_A2dp_AAC)) example_conf
     = Some (True, conf') \<and> ac_remoteSeid conf' = 7"
proof -
  have h: "hint_codecId (example_hint (Some CodecId_A2dp_AAC)) \<in> {Some CodecId_A2dp_AAC, Some CodecId_A2dp_SBC}"
    by (simp add: example_hint_def)
  have e: "map_option (\<lambda>(ok, c). (ok, ac_remoteSeid c)) (GetConfiguration ranked_codecs example_remote
      (example_hint (Some CodecId_A2dp_AAC)) example_conf) = Some (True, 7)" by code_simp
  then show ?thesis using GetConfiguration_sound [OF h, of example_remote example_conf] by auto
qed

text \<open>When the hint names no codec of the factory (or none at all), \<open>GetConfiguration\<close>
  dereferences the end iterator: the execution is undefined for every remote device.\<close>

lemma GetConfiguration_unknown_hint_undefined:
  assumes "hint_codecId hint \<notin> {Some CodecId_A2dp_AAC, Some CodecId_A2dp_SBC}"
  shows "GetConfiguration ranked_codecs rcs hint conf = None"
  using codec_order_unknown [OF assms] by (simp add: GetConfiguration_def)

lemma GetConfiguration_unknown_hint_undefined_witness:
  "GetConfiguration ranked_codecs example_remote (example_hint None) example_conf = None"
proof -
  have h: "hint_codecId (example_hint None) \<notin> {Some CodecId_A2dp_AAC, Some CodecId_A2dp_SBC}"
    by (simp add: example_hint_def)
  show ?thesis by (rule GetConfiguration_unknown_hint_undefined [OF h])
qed

end
