(* ===== verification/Providers.thy ===== *)
theory Providers
  imports Session_Laws Codec_Factory
begin

text \<open>
  \<^verbatim>\<open>bluetooth/audio/hal\<close>: the audio providers the Bluetooth stack opens and drives, and the
  factory that opens them. A provider checks the configuration it is given, creates the queue
  of its data path and reports to the session of its session type. The classes derived from
  \<open>BluetoothAudioProvider\<close> are told apart by a \<open>provider_kind\<close>.

  Queues are created by the message queue library: \<open>new_mq\<close> gives the queue for a size in bytes.
  A queue that cannot be allocated is one that is not valid.
\<close>

section \<open>Data\<close>

datatype astatus = AS_OK | EX_ILLEGAL_ARGUMENT | EX_UNSUPPORTED_OPERATION | STATUS_UNKNOWN_TRANSACTION

text \<open>What a call wrote through \<open>DataMQDesc* _aidl_return\<close>: nothing, an empty descriptor, or a queue's.\<close>

datatype mq_return = Ret_unset | Ret_empty | Ret_desc data_mq

datatype provider_kind =
  PK_A2dpSoftware | PK_A2dpOffload | PK_HearingAid | PK_LeAudioSoftware | PK_LeAudioOffload |
  PK_HfpSoftware | PK_HfpOffload

text \<open>\<open>session_type_\<close> is \<^const>\<open>None\<close> while no constructor has assigned it.\<close>

record provider =
  p_kind :: provider_kind
  p_session_type :: "session_type option"
  p_stack_iface :: "nat option"
  p_audio_config :: "audio_configuration option"
  p_latency_modes :: "latency_mode list"
  p_data_mq :: "data_mq option"

text \<open>
  The shared state: the table of sessions, and the death notifications the binder library keeps,
  each a process interface with the cookie it was linked with. A cookie is the context the
  provider allocates or the provider itself.
\<close>

datatype death_cookie = Context session_type | This

record audio_world =
  w_sessions :: sessions
  w_links :: "(nat \<times> death_cookie) list"

definition report ::
  "(sessions \<Rightarrow> (notification list \<times> sessions) ub) \<Rightarrow> audio_world \<Rightarrow> (notification list \<times> audio_world) ub" where
  "report f w = do { (ns, m) \<leftarrow> f (w_sessions w); Some (ns, w\<lparr>w_sessions := m\<rparr>) }"

definition binderDiedCallbackAidl :: "death_cookie \<Rightarrow> audio_world \<Rightarrow> (notification list \<times> audio_world) ub" where
  "binderDiedCallbackAidl cookie w =
     (case cookie of Context st \<Rightarrow> report (Report_OnSessionEnded st) w | This \<Rightarrow> None)"

definition BluetoothAudioProvider :: "provider_kind \<Rightarrow> provider" where
  "BluetoothAudioProvider k =
     \<lparr>p_kind = k, p_session_type = None, p_stack_iface = None, p_audio_config = None,
      p_latency_modes = [], p_data_mq = None\<rparr>"

section \<open>Constructors\<close>

definition A2dp_kDataMqSize :: nat where "A2dp_kDataMqSize = (4 * 96) * 10 * 2"
definition HearingAid_kDataMqSize :: nat where "HearingAid_kDataMqSize = (4 * 128) * 7 * 1"

definition A2dpSoftwareAudioProvider :: "(nat \<Rightarrow> data_mq) \<Rightarrow> provider" where
  "A2dpSoftwareAudioProvider new_mq =
     (let p = BluetoothAudioProvider PK_A2dpSoftware; data_mq = new_mq A2dp_kDataMqSize in
      if mq_isValid data_mq then p\<lparr>p_data_mq := Some data_mq\<rparr> else p)"

definition HearingAidAudioProvider :: "(nat \<Rightarrow> data_mq) \<Rightarrow> provider" where
  "HearingAidAudioProvider new_mq =
     (let p = BluetoothAudioProvider PK_HearingAid; data_mq = new_mq HearingAid_kDataMqSize in
      if mq_isValid data_mq then
        p\<lparr>p_data_mq := Some data_mq, p_session_type := Some HEARING_AID_SOFTWARE_ENCODING_DATAPATH\<rparr>
      else p)"

text \<open>The derived constructors that only choose the session type.\<close>

definition with_session_type :: "session_type \<Rightarrow> provider \<Rightarrow> provider" where
  "with_session_type st p = p\<lparr>p_session_type := Some st\<rparr>"

section \<open>Validity and session start\<close>

definition queue_valid :: "provider \<Rightarrow> bool" where
  "queue_valid p \<longleftrightarrow> (case p_data_mq p of None \<Rightarrow> False | Some q \<Rightarrow> mq_isValid q)"

fun isValid_kind :: "provider_kind \<Rightarrow> session_type \<Rightarrow> provider \<Rightarrow> bool" where
  "isValid_kind PK_A2dpSoftware st p \<longleftrightarrow> p_session_type p = Some st \<and> queue_valid p"
| "isValid_kind PK_HearingAid st p \<longleftrightarrow> p_session_type p = Some st \<and> queue_valid p"
| "isValid_kind _ st p \<longleftrightarrow> p_session_type p = Some st"

definition isValid :: "session_type \<Rightarrow> provider \<Rightarrow> bool" where
  "isValid st p = isValid_kind (p_kind p) st p"

text \<open>\<open>onSessionReady\<close>: the software providers hand their queue to the session.\<close>

definition software_onSessionReady ::
  "provider \<Rightarrow> audio_world \<Rightarrow> (astatus \<times> mq_return \<times> notification list \<times> audio_world) ub" where
  "software_onSessionReady p w =
     (case p_data_mq p of
        None \<Rightarrow> Some (EX_ILLEGAL_ARGUMENT, Ret_empty, [], w)
      | Some q \<Rightarrow>
          if \<not> mq_isValid q then Some (EX_ILLEGAL_ARGUMENT, Ret_empty, [], w)
          else do {
            st \<leftarrow> p_session_type p;
            cfg \<leftarrow> p_audio_config p;
            (ns, w) \<leftarrow> report (Report_OnSessionStarted st (p_stack_iface p) (Some q) cfg (p_latency_modes p)) w;
            Some (AS_OK, Ret_desc q, ns, w)
          })"

definition offload_onSessionReady ::
  "provider \<Rightarrow> audio_world \<Rightarrow> (astatus \<times> mq_return \<times> notification list \<times> audio_world) ub" where
  "offload_onSessionReady p w = do {
     st \<leftarrow> p_session_type p;
     cfg \<leftarrow> p_audio_config p;
     (ns, w) \<leftarrow> report (Report_OnSessionStarted st (p_stack_iface p) None cfg (p_latency_modes p)) w;
     Some (AS_OK, Ret_empty, ns, w)
   }"

fun onSessionReady_kind ::
  "provider_kind \<Rightarrow> provider \<Rightarrow> audio_world \<Rightarrow> (astatus \<times> mq_return \<times> notification list \<times> audio_world) ub" where
  "onSessionReady_kind PK_A2dpSoftware p w = software_onSessionReady p w"
| "onSessionReady_kind PK_HearingAid p w = software_onSessionReady p w"
| "onSessionReady_kind PK_LeAudioSoftware p w = software_onSessionReady p w"
| "onSessionReady_kind PK_HfpSoftware p w = software_onSessionReady p w"
| "onSessionReady_kind PK_A2dpOffload p w = offload_onSessionReady p w"
| "onSessionReady_kind PK_LeAudioOffload p w = offload_onSessionReady p w"
| "onSessionReady_kind PK_HfpOffload p w = offload_onSessionReady p w"

type_synonym start_result = "(astatus \<times> mq_return \<times> notification list \<times> provider \<times> audio_world) ub"

definition base_startSession ::
  "nat option \<Rightarrow> audio_configuration \<Rightarrow> latency_mode list \<Rightarrow> provider \<Rightarrow> audio_world \<Rightarrow> start_result" where
  "base_startSession host_if audio_config latencyModes p w =
     (case host_if of
        None \<Rightarrow> Some (EX_ILLEGAL_ARGUMENT, Ret_empty, [], p, w)
      | Some h \<Rightarrow>
          let p = p\<lparr>p_latency_modes := latencyModes, p_audio_config := Some audio_config, p_stack_iface := host_if\<rparr>
          in do {
            st \<leftarrow> p_session_type p;
            let w = w\<lparr>w_links := (h, Context st) # w_links w\<rparr>;
            (_, ret, ns, w) \<leftarrow> onSessionReady_kind (p_kind p) p w;
            Some (AS_OK, ret, ns, p, w)
          })"

definition refuse :: "mq_return \<Rightarrow> provider \<Rightarrow> audio_world \<Rightarrow> start_result" where
  "refuse ret p w = Some (EX_ILLEGAL_ARGUMENT, ret, [], p, w)"

definition pcm_startSession ::
  "nat option \<Rightarrow> audio_configuration \<Rightarrow> latency_mode list \<Rightarrow> provider \<Rightarrow> audio_world \<Rightarrow> start_result" where
  "pcm_startSession host_if audio_config latency_modes p w =
     (case audio_config of
        AC_pcmConfig pcm \<Rightarrow>
          if \<not> IsSoftwarePcmConfigurationValid pcm then refuse Ret_empty p w
          else base_startSession host_if audio_config latency_modes p w
      | _ \<Rightarrow> refuse Ret_empty p w)"

definition HfpOffload_startSession ::
  "nat option \<Rightarrow> audio_configuration \<Rightarrow> latency_mode list \<Rightarrow> provider \<Rightarrow> audio_world \<Rightarrow> start_result" where
  "HfpOffload_startSession host_if audio_config latency_modes p w =
     (if getTag audio_config \<noteq> Tag_hfpConfig then refuse Ret_empty p w
      else base_startSession host_if audio_config latency_modes p w)"

definition LeAudioOffload_startSession ::
  "nat option \<Rightarrow> audio_configuration \<Rightarrow> latency_mode list \<Rightarrow> provider \<Rightarrow> audio_world \<Rightarrow> start_result" where
  "LeAudioOffload_startSession host_if audio_config latency_modes p w = do {
     st \<leftarrow> p_session_type p;
     if st = LE_AUDIO_BROADCAST_HARDWARE_OFFLOAD_ENCODING_DATAPATH then
       if getTag audio_config \<noteq> Tag_leAudioBroadcastConfig then refuse Ret_empty p w
       else base_startSession host_if audio_config latency_modes p w
     else if getTag audio_config \<noteq> Tag_leAudioConfig then refuse Ret_empty p w
     else base_startSession host_if audio_config latency_modes p w
   }"

text \<open>
  The status of the parse does not depend on which parameter structures the caller asks to be
  filled in; \<open>startSession\<close> only uses the status.
\<close>

definition no_codec_parameters :: codec_parameters where
  "no_codec_parameters = \<lparr>cp_channelMode = CM_UNKNOWN, cp_samplingFrequencyHz = 0, cp_bitdepth = 0,
     cp_minBitrate = 0, cp_maxBitrate = 0\<rparr>"

definition A2dpOffload_startSession ::
  "offload_codec list \<Rightarrow> nat option \<Rightarrow> audio_configuration \<Rightarrow> latency_mode list \<Rightarrow> provider \<Rightarrow> audio_world \<Rightarrow> start_result" where
  "A2dpOffload_startSession codecs host_if audio_config latency_modes p w =
     (case audio_config of
        AC_a2dp a2dp_config \<Rightarrow>
          (case GetCodec codecs (as_codecId a2dp_config) of
             None \<Rightarrow> refuse Ret_unset p w
           | Some codec \<Rightarrow> do {
               a2dp_status \<leftarrow>
                 (if ci_id (oc_info codec) = CodecId_A2dp_SBC \<or> ci_id (oc_info codec) = CodecId_A2dp_AAC then
                    map_option fst (oc_parse codec (as_configuration a2dp_config) no_codec_parameters)
                  else Some NOT_SUPPORTED_CODEC_TYPE);
               if a2dp_status \<noteq> A2DP_OK then refuse Ret_empty p w
               else base_startSession host_if audio_config latency_modes p w
             })
      | AC_a2dpConfig c \<Rightarrow> do {
          st \<leftarrow> p_session_type p;
          if \<not> IsOffloadCodecConfigurationValid st c then refuse Ret_empty p w
          else base_startSession host_if audio_config latency_modes p w
        }
      | _ \<Rightarrow> refuse Ret_empty p w)"

text \<open>The size of the queue is computed in 32-bit unsigned arithmetic.\<close>

definition Hfp_data_mq_size :: "pcm_configuration \<Rightarrow> u32" where
  "Hfp_data_mq_size pcm =
     (let bytes_per_sample = pcm_bitsPerSample pcm div 8 in
      2 * word_of_int bytes_per_sample * word_of_int (pcm_sampleRateHz pcm div 1000) *
        word_of_int (pcm_dataIntervalUs pcm) div 1000)"

definition HfpSoftware_startSession ::
  "(nat \<Rightarrow> data_mq) \<Rightarrow> nat option \<Rightarrow> audio_configuration \<Rightarrow> latency_mode list \<Rightarrow> provider \<Rightarrow> audio_world \<Rightarrow> start_result" where
  "HfpSoftware_startSession new_mq host_if audio_config latency_modes p w =
     (case audio_config of
        AC_pcmConfig pcm \<Rightarrow>
          if \<not> IsSoftwarePcmConfigurationValid pcm then refuse Ret_empty p w
          else if \<not> (pcm_bitsPerSample pcm = 16 \<and>
              (pcm_sampleRateHz pcm = 8000 \<or> pcm_sampleRateHz pcm = 16000 \<or> pcm_sampleRateHz pcm = 32000) \<and>
              pcm_channelMode pcm = CM_MONO \<and> pcm_dataIntervalUs pcm = 7500) then refuse Ret_unset p w
          else
            let temp_data_mq = new_mq (unat (Hfp_data_mq_size pcm)) in
            if \<not> mq_isValid temp_data_mq then refuse Ret_empty p w
            else base_startSession host_if audio_config latency_modes (p\<lparr>p_data_mq := Some temp_data_mq\<rparr>) w
      | _ \<Rightarrow> refuse Ret_empty p w)"

fun channel_mode_to_channel_count :: "channel_mode \<Rightarrow> int" where
  "channel_mode_to_channel_count CM_MONO = 1"
| "channel_mode_to_channel_count CM_STEREO = 2"
| "channel_mode_to_channel_count _ = 0"

text \<open>
  The size of the LE audio queue is a product in \<open>double\<close>: the sampling rate over 1000 times
  integers, converted to \<open>uint32_t\<close>. For the sampling rates that pass the validation the quotient
  is exact or is 44.1 or 88.2, whose representations lie just above them, and the product stays
  below \<open>2\<^sup>32\<close>; the conversion therefore gives the whole part of the exact product, \<open>v / 1000\<close> below.
  The conversion of a value that is -1 or less is undefined. The division of the data interval
  by 1000 is integer division, which truncates towards zero.
\<close>

definition int_div_trunc :: "int \<Rightarrow> int \<Rightarrow> int" where
  "int_div_trunc a b = (if a \<ge> 0 then a div b else - ((- a) div b))"

definition Le_data_mq_size :: "session_type \<Rightarrow> pcm_configuration \<Rightarrow> nat ub" where
  "Le_data_mq_size st pcm =
     (let buffer_modifier =
            (if st = LE_AUDIO_SOFTWARE_ENCODING_DATAPATH \<or> st = LE_AUDIO_BROADCAST_SOFTWARE_ENCODING_DATAPATH then 2
             else if st = LE_AUDIO_SOFTWARE_DECODING_DATAPATH then 2 else 0);
          bytes_per_sample = (if pcm_bitsPerSample pcm = 24 then 4 else pcm_bitsPerSample pcm div 8);
          v = pcm_sampleRateHz pcm * channel_mode_to_channel_count (pcm_channelMode pcm) * bytes_per_sample *
                int_div_trunc (pcm_dataIntervalUs pcm) 1000 * buffer_modifier
      in if v \<le> - 1000 then None else Some (nat (int_div_trunc v 1000)))"

definition LeAudioSoftware_startSession ::
  "(nat \<Rightarrow> data_mq) \<Rightarrow> nat option \<Rightarrow> audio_configuration \<Rightarrow> latency_mode list \<Rightarrow> provider \<Rightarrow> audio_world \<Rightarrow> start_result" where
  "LeAudioSoftware_startSession new_mq host_if audio_config latency_modes p w =
     (case audio_config of
        AC_pcmConfig pcm \<Rightarrow>
          if \<not> IsSoftwarePcmConfigurationValid pcm then refuse Ret_unset p w
          else do {
            st \<leftarrow> p_session_type p;
            data_mq_size \<leftarrow> Le_data_mq_size st pcm;
            if data_mq_size = 0 then refuse Ret_unset p w
            else
              let temp_data_mq = new_mq data_mq_size in
              if \<not> mq_isValid temp_data_mq then refuse Ret_empty p w
              else base_startSession host_if audio_config latency_modes (p\<lparr>p_data_mq := Some temp_data_mq\<rparr>) w
          }
      | _ \<Rightarrow> refuse Ret_unset p w)"

definition startSession ::
  "(nat \<Rightarrow> data_mq) \<Rightarrow> offload_codec list \<Rightarrow> nat option \<Rightarrow> audio_configuration \<Rightarrow> latency_mode list \<Rightarrow>
   provider \<Rightarrow> audio_world \<Rightarrow> start_result" where
  "startSession new_mq codecs host_if audio_config latency_modes p w =
     (case p_kind p of
        PK_A2dpSoftware \<Rightarrow> pcm_startSession host_if audio_config latency_modes p w
      | PK_HearingAid \<Rightarrow> pcm_startSession host_if audio_config latency_modes p w
      | PK_A2dpOffload \<Rightarrow> A2dpOffload_startSession codecs host_if audio_config latency_modes p w
      | PK_LeAudioSoftware \<Rightarrow> LeAudioSoftware_startSession new_mq host_if audio_config latency_modes p w
      | PK_LeAudioOffload \<Rightarrow> LeAudioOffload_startSession host_if audio_config latency_modes p w
      | PK_HfpSoftware \<Rightarrow> HfpSoftware_startSession new_mq host_if audio_config latency_modes p w
      | PK_HfpOffload \<Rightarrow> HfpOffload_startSession host_if audio_config latency_modes p w)"

section \<open>The other operations\<close>

text \<open>
  \<open>endSession\<close> unlinks with the provider itself as cookie. What the binder library does with the
  request is the argument \<open>unlink\<close>.
\<close>

definition endSession ::
  "(nat \<Rightarrow> death_cookie \<Rightarrow> (nat \<times> death_cookie) list \<Rightarrow> (nat \<times> death_cookie) list) \<Rightarrow>
   provider \<Rightarrow> audio_world \<Rightarrow> (astatus \<times> notification list \<times> provider \<times> audio_world) ub" where
  "endSession unlink p w = do {
     (ns, w) \<leftarrow>
       (case p_stack_iface p of
          Some h \<Rightarrow> do {
            st \<leftarrow> p_session_type p;
            (ns, w) \<leftarrow> report (Report_OnSessionEnded st) w;
            Some (ns, w\<lparr>w_links := unlink h This (w_links w)\<rparr>)
          }
        | None \<Rightarrow> Some ([], w));
     Some (AS_OK, ns, p\<lparr>p_stack_iface := None, p_audio_config := None\<rparr>, w)
   }"

definition streamStarted ::
  "bluetooth_audio_status \<Rightarrow> provider \<Rightarrow> audio_world \<Rightarrow> (astatus \<times> notification list \<times> audio_world) ub" where
  "streamStarted status p w =
     (if p_stack_iface p \<noteq> None then do {
        st \<leftarrow> p_session_type p;
        (ns, w) \<leftarrow> report (Report_ReportControlStatus st True status) w;
        Some (AS_OK, ns, w)
      } else Some (AS_OK, [], w))"

definition streamSuspended ::
  "bluetooth_audio_status \<Rightarrow> provider \<Rightarrow> audio_world \<Rightarrow> (astatus \<times> notification list \<times> audio_world) ub" where
  "streamSuspended status p w =
     (if p_stack_iface p \<noteq> None then do {
        st \<leftarrow> p_session_type p;
        (ns, w) \<leftarrow> report (Report_ReportControlStatus st False status) w;
        Some (AS_OK, ns, w)
      } else Some (AS_OK, [], w))"

definition updateAudioConfiguration ::
  "audio_configuration \<Rightarrow> provider \<Rightarrow> audio_world \<Rightarrow> (astatus \<times> notification list \<times> provider \<times> audio_world) ub" where
  "updateAudioConfiguration audio_config p w =
     (case (p_stack_iface p, p_audio_config p) of
        (Some _, Some old) \<Rightarrow>
          if getTag audio_config \<noteq> getTag old then Some (EX_ILLEGAL_ARGUMENT, [], p, w)
          else do {
            st \<leftarrow> p_session_type p;
            let p = p\<lparr>p_audio_config := Some audio_config\<rparr>;
            (ns, w) \<leftarrow> report (Report_ReportAudioConfigChanged st audio_config) w;
            Some (AS_OK, ns, p, w)
          }
      | _ \<Rightarrow> Some (EX_ILLEGAL_ARGUMENT, [], p, w))"

definition setLowLatencyModeAllowed ::
  "bool \<Rightarrow> provider \<Rightarrow> audio_world \<Rightarrow> (astatus \<times> notification list \<times> audio_world) ub" where
  "setLowLatencyModeAllowed allowed p w =
     (if p_stack_iface p = None then Some (EX_ILLEGAL_ARGUMENT, [], w)
      else do {
        st \<leftarrow> p_session_type p;
        (ns, w) \<leftarrow> report (Report_ReportLowLatencyModeAllowedChanged st allowed) w;
        Some (AS_OK, ns, w)
      })"

definition kEnableA2dpCodecExtensibility :: bool where "kEnableA2dpCodecExtensibility = False"

text \<open>The out parameters of the two queries are \<^const>\<open>None\<close> when they are not written.\<close>

definition base_parseA2dpConfiguration :: astatus where
  "base_parseA2dpConfiguration = EX_ILLEGAL_ARGUMENT"

definition base_getA2dpConfiguration :: astatus where
  "base_getA2dpConfiguration = EX_ILLEGAL_ARGUMENT"

definition parseA2dpConfiguration ::
  "offload_codec list \<Rightarrow> codec_id \<Rightarrow> u8 list \<Rightarrow> codec_parameters \<Rightarrow> provider \<Rightarrow>
   (astatus \<times> a2dp_status option \<times> codec_parameters) ub" where
  "parseA2dpConfiguration codecs codec_id configuration cp p =
     (if p_kind p \<noteq> PK_A2dpOffload then Some (base_parseA2dpConfiguration, None, cp)
      else if \<not> kEnableA2dpCodecExtensibility then Some (STATUS_UNKNOWN_TRANSACTION, None, cp)
      else case GetCodec codecs codec_id of
          None \<Rightarrow> Some (EX_ILLEGAL_ARGUMENT, None, cp)
        | Some codec \<Rightarrow> do {
            (st, cp') \<leftarrow> oc_parse codec configuration cp;
            Some (AS_OK, Some st, cp')
          })"

definition getA2dpConfiguration ::
  "offload_codec list \<Rightarrow> a2dp_remote_capabilities list \<Rightarrow> a2dp_configuration_hint \<Rightarrow> a2dp_configuration \<Rightarrow>
   provider \<Rightarrow> (astatus \<times> a2dp_configuration option) ub" where
  "getA2dpConfiguration codecs remote hint default_configuration p =
     (if p_kind p \<noteq> PK_A2dpOffload then Some (base_getA2dpConfiguration, None)
      else if \<not> kEnableA2dpCodecExtensibility then Some (STATUS_UNKNOWN_TRANSACTION, None)
      else do {
        (ok, c) \<leftarrow> GetConfiguration codecs remote hint default_configuration;
        Some (AS_OK, if ok then Some c else None)
      })"

section \<open>The factory\<close>

definition make_provider :: "(nat \<Rightarrow> data_mq) \<Rightarrow> session_type \<Rightarrow> provider option" where
  "make_provider new_mq st =
     (case st of
        A2DP_SOFTWARE_ENCODING_DATAPATH \<Rightarrow> Some (with_session_type st (A2dpSoftwareAudioProvider new_mq))
      | A2DP_HARDWARE_OFFLOAD_ENCODING_DATAPATH \<Rightarrow> Some (with_session_type st (BluetoothAudioProvider PK_A2dpOffload))
      | HEARING_AID_SOFTWARE_ENCODING_DATAPATH \<Rightarrow> Some (HearingAidAudioProvider new_mq)
      | LE_AUDIO_SOFTWARE_ENCODING_DATAPATH \<Rightarrow> Some (with_session_type st (BluetoothAudioProvider PK_LeAudioSoftware))
      | LE_AUDIO_HARDWARE_OFFLOAD_ENCODING_DATAPATH \<Rightarrow> Some (with_session_type st (BluetoothAudioProvider PK_LeAudioOffload))
      | LE_AUDIO_SOFTWARE_DECODING_DATAPATH \<Rightarrow> Some (with_session_type st (BluetoothAudioProvider PK_LeAudioSoftware))
      | LE_AUDIO_HARDWARE_OFFLOAD_DECODING_DATAPATH \<Rightarrow> Some (with_session_type st (BluetoothAudioProvider PK_LeAudioOffload))
      | LE_AUDIO_BROADCAST_SOFTWARE_ENCODING_DATAPATH \<Rightarrow> Some (with_session_type st (BluetoothAudioProvider PK_LeAudioSoftware))
      | LE_AUDIO_BROADCAST_HARDWARE_OFFLOAD_ENCODING_DATAPATH \<Rightarrow> Some (with_session_type st (BluetoothAudioProvider PK_LeAudioOffload))
      | A2DP_SOFTWARE_DECODING_DATAPATH \<Rightarrow> Some (with_session_type st (A2dpSoftwareAudioProvider new_mq))
      | A2DP_HARDWARE_OFFLOAD_DECODING_DATAPATH \<Rightarrow> Some (with_session_type st (BluetoothAudioProvider PK_A2dpOffload))
      | HFP_SOFTWARE_ENCODING_DATAPATH \<Rightarrow> Some (with_session_type st (BluetoothAudioProvider PK_HfpSoftware))
      | HFP_SOFTWARE_DECODING_DATAPATH \<Rightarrow> Some (with_session_type st (BluetoothAudioProvider PK_HfpSoftware))
      | HFP_HARDWARE_OFFLOAD_DATAPATH \<Rightarrow> Some (with_session_type st (BluetoothAudioProvider PK_HfpOffload))
      | _ \<Rightarrow> None)"

definition openProvider :: "(nat \<Rightarrow> data_mq) \<Rightarrow> session_type \<Rightarrow> astatus \<times> provider option" where
  "openProvider new_mq st =
     (case make_provider new_mq st of
        None \<Rightarrow> (EX_ILLEGAL_ARGUMENT, None)
      | Some p \<Rightarrow> if \<not> isValid st p then (EX_ILLEGAL_ARGUMENT, None) else (AS_OK, Some p))"

datatype 'cap audio_capabilities = AK_a2dp codec_capabilities | AK_leAudio 'cap | AK_pcm pcm_capabilities

text \<open>The vector the caller passes is overwritten when the session type has capabilities to report.\<close>

definition getProviderCapabilities ::
  "'cap list \<Rightarrow> session_type \<Rightarrow> 'cap audio_capabilities list \<Rightarrow> 'cap codec_globals \<Rightarrow>
   'cap audio_capabilities list \<times> 'cap codec_globals" where
  "getProviderCapabilities parsed_caps st ret g =
     (if st = A2DP_HARDWARE_OFFLOAD_ENCODING_DATAPATH \<or> st = A2DP_HARDWARE_OFFLOAD_DECODING_DATAPATH then
        (map AK_a2dp (GetA2dpOffloadCodecCapabilities st), g)
      else if st = LE_AUDIO_HARDWARE_OFFLOAD_ENCODING_DATAPATH \<or> st = LE_AUDIO_HARDWARE_OFFLOAD_DECODING_DATAPATH \<or>
        st = LE_AUDIO_BROADCAST_HARDWARE_OFFLOAD_ENCODING_DATAPATH then
        let (db, g) = GetLeAudioOffloadCodecCapabilities parsed_caps st g in
        (if db \<noteq> [] then map AK_leAudio db else ret, g)
      else if st \<noteq> ST_UNKNOWN then (map AK_pcm GetSoftwarePcmCapabilities, g)
      else (ret, g))"

record provider_info =
  pi_name :: string
  pi_codecInfos :: "codec_info list"

definition getProviderInfo ::
  "(session_type \<rightharpoonup> codec_info list) \<Rightarrow> offload_codec list \<Rightarrow> session_type \<Rightarrow> 'cap codec_globals \<Rightarrow>
   astatus \<times> provider_info option \<times> 'cap codec_globals" where
  "getProviderInfo parsed_info codecs st g =
     (let a2dp = (st = A2DP_HARDWARE_OFFLOAD_ENCODING_DATAPATH \<or> st = A2DP_HARDWARE_OFFLOAD_DECODING_DATAPATH) in
      if a2dp \<and> \<not> kEnableA2dpCodecExtensibility then (STATUS_UNKNOWN_TRANSACTION, None, g)
      else
        let ret = (if a2dp then Some \<lparr>pi_name = ''Offload'', pi_codecInfos = map oc_info codecs\<rparr> else None)
        in if st = LE_AUDIO_HARDWARE_OFFLOAD_ENCODING_DATAPATH \<or> st = LE_AUDIO_HARDWARE_OFFLOAD_DECODING_DATAPATH \<or>
              st = LE_AUDIO_BROADCAST_HARDWARE_OFFLOAD_ENCODING_DATAPATH then
             let (db, g) = GetLeAudioOffloadCodecInfo parsed_info st g in
             if db \<noteq> [] then
               (AS_OK, Some \<lparr>pi_name = ''LE_AUDIO_OFFLOAD_HARDWARE_OFFLOAD_PROVIDER'', pi_codecInfos = db\<rparr>, g)
             else (AS_OK, ret, g)
           else (AS_OK, ret, g))"

section \<open>The table of sessions\<close>

definition sessions_ok :: "sessions \<Rightarrow> bool" where
  "sessions_ok m \<longleftrightarrow> (\<forall>st s. m st = Some s \<longrightarrow> s_session_type s = st \<and> callbacks_set s)"

abbreviation current :: "session_type \<Rightarrow> audio_world \<Rightarrow> audio_session" where
  "current st w \<equiv> fst (GetSessionInstance st (w_sessions w))"

lemma current_ok:
  "sessions_ok (w_sessions w) \<Longrightarrow> s_session_type (current st w) = st \<and> callbacks_set (current st w)"
  by (auto simp: sessions_ok_def GetSessionInstance_def BluetoothAudioSession_def callbacks_set_def
      split: option.split)

text \<open>What a started session looks like.\<close>

definition started_session ::
  "audio_session \<Rightarrow> nat \<Rightarrow> data_mq option \<Rightarrow> audio_configuration \<Rightarrow> latency_mode list \<Rightarrow> audio_session" where
  "started_session s h mq cfg modes =
     s\<lparr>s_audio_config := Some cfg, s_data_mq := mq, s_stack_iface := Some h, s_latency_modes := modes\<rparr>"

lemma report_started:
  assumes "sessions_ok (w_sessions w)" "getTag cfg \<in> set (config_tags st)" "\<forall>q. mq = Some q \<longrightarrow> mq_isValid q"
  shows "report (Report_OnSessionStarted st (Some h) mq cfg modes) w =
     Some (session_changed_all (current st w),
       w\<lparr>w_sessions := (w_sessions w)(st \<mapsto> started_session (current st w) h mq cfg modes)\<rparr>)"
proof -
  note c = current_ok [OF assms(1), of st]
  let ?s' = "started_session (current st w) h mq cfg modes"
  have "callbacks_set ?s'" using c by (simp add: started_session_def callbacks_set_def)
  then have "ReportSessionStatus ?s' = Some (session_changed_all ?s')" by (rule ReportSessionStatus_all)
  moreover have "\<not> (\<exists>q. mq = Some q \<and> \<not> mq_isValid q)" using assms(3) by simp
  ultimately have "OnSessionStarted (Some h) mq cfg modes (current st w) = Some (session_changed_all ?s', ?s')"
    using assms(2) c by (simp add: OnSessionStarted_eq started_session_def Let_def del: not_ex)
  moreover have "session_changed_all ?s' = session_changed_all (current st w)"
    by (simp add: session_changed_all_def started_session_def)
  ultimately show ?thesis by (simp add: report_def Report_OnSessionStarted_def on_session_eq)
qed

lemma report_ended:
  assumes "sessions_ok (w_sessions w)"
  shows "report (Report_OnSessionEnded st) w =
     Some (if IsSessionReady (current st w) then session_changed_all (current st w) else [],
       w\<lparr>w_sessions := (w_sessions w)(st \<mapsto>
          (current st w)\<lparr>s_audio_config := None, s_stack_iface := None, s_data_mq := None\<rparr>)\<rparr>)"
proof -
  let ?s' = "(current st w)\<lparr>s_audio_config := None, s_stack_iface := None, s_data_mq := None\<rparr>"
  have "callbacks_set ?s'" using current_ok [OF assms, of st] by (simp add: callbacks_set_def)
  then have "ReportSessionStatus ?s' = Some (session_changed_all ?s')" by (rule ReportSessionStatus_all)
  moreover have "session_changed_all ?s' = session_changed_all (current st w)" by (simp add: session_changed_all_def)
  ultimately have "OnSessionEnded (current st w) =
      Some (if IsSessionReady (current st w) then session_changed_all (current st w) else [], ?s')"
    by (simp add: OnSessionEnded_def UpdateDataPath_def)
  then show ?thesis by (simp add: report_def Report_OnSessionEnded_def on_session_eq)
qed

section \<open>Opened providers\<close>

fun kind_of :: "session_type \<Rightarrow> provider_kind option" where
  "kind_of ST_UNKNOWN = None"
| "kind_of A2DP_SOFTWARE_ENCODING_DATAPATH = Some PK_A2dpSoftware"
| "kind_of A2DP_SOFTWARE_DECODING_DATAPATH = Some PK_A2dpSoftware"
| "kind_of A2DP_HARDWARE_OFFLOAD_ENCODING_DATAPATH = Some PK_A2dpOffload"
| "kind_of A2DP_HARDWARE_OFFLOAD_DECODING_DATAPATH = Some PK_A2dpOffload"
| "kind_of HEARING_AID_SOFTWARE_ENCODING_DATAPATH = Some PK_HearingAid"
| "kind_of LE_AUDIO_SOFTWARE_ENCODING_DATAPATH = Some PK_LeAudioSoftware"
| "kind_of LE_AUDIO_SOFTWARE_DECODING_DATAPATH = Some PK_LeAudioSoftware"
| "kind_of LE_AUDIO_BROADCAST_SOFTWARE_ENCODING_DATAPATH = Some PK_LeAudioSoftware"
| "kind_of LE_AUDIO_HARDWARE_OFFLOAD_ENCODING_DATAPATH = Some PK_LeAudioOffload"
| "kind_of LE_AUDIO_HARDWARE_OFFLOAD_DECODING_DATAPATH = Some PK_LeAudioOffload"
| "kind_of LE_AUDIO_BROADCAST_HARDWARE_OFFLOAD_ENCODING_DATAPATH = Some PK_LeAudioOffload"
| "kind_of HFP_SOFTWARE_ENCODING_DATAPATH = Some PK_HfpSoftware"
| "kind_of HFP_SOFTWARE_DECODING_DATAPATH = Some PK_HfpSoftware"
| "kind_of HFP_HARDWARE_OFFLOAD_DATAPATH = Some PK_HfpOffload"

definition needs_queue_at_open :: "provider_kind \<Rightarrow> bool" where
  "needs_queue_at_open k \<longleftrightarrow> k = PK_A2dpSoftware \<or> k = PK_HearingAid"

lemmas constructors = with_session_type_def BluetoothAudioProvider_def A2dpSoftwareAudioProvider_def
  HearingAidAudioProvider_def

lemma openProvider_result:
  "openProvider new_mq st =
     (case kind_of st of
        None \<Rightarrow> (EX_ILLEGAL_ARGUMENT, None)
      | Some k \<Rightarrow>
          let q = new_mq (if k = PK_HearingAid then HearingAid_kDataMqSize else A2dp_kDataMqSize) in
          if needs_queue_at_open k \<and> \<not> mq_isValid q then (EX_ILLEGAL_ARGUMENT, None)
          else (AS_OK, Some \<lparr>p_kind = k, p_session_type = Some st, p_stack_iface = None, p_audio_config = None,
              p_latency_modes = [], p_data_mq = (if needs_queue_at_open k then Some q else None)\<rparr>))"
  by (cases st) (simp_all add: openProvider_def make_provider_def constructors isValid_def queue_valid_def
      needs_queue_at_open_def Let_def)

lemma opened:
  assumes "openProvider new_mq st = (AS_OK, Some p)"
  shows "p_session_type p = Some st" "kind_of st = Some (p_kind p)"
    "needs_queue_at_open (p_kind p) \<longrightarrow> queue_valid p"
  using assms by (auto simp: openProvider_result queue_valid_def Let_def split: option.splits if_splits)

section \<open>Starting a session\<close>

text \<open>The configurations a provider accepts, by the kind of the provider.\<close>

fun accepts :: "provider_kind \<Rightarrow> session_type \<Rightarrow> audio_configuration \<Rightarrow> bool" where
  "accepts PK_A2dpSoftware st (AC_pcmConfig pcm) \<longleftrightarrow> IsSoftwarePcmConfigurationValid pcm"
| "accepts PK_HearingAid st (AC_pcmConfig pcm) \<longleftrightarrow> IsSoftwarePcmConfigurationValid pcm"
| "accepts PK_LeAudioSoftware st (AC_pcmConfig pcm) \<longleftrightarrow>
     IsSoftwarePcmConfigurationValid pcm \<and> 1000 \<le> pcm_dataIntervalUs pcm"
| "accepts PK_HfpSoftware st (AC_pcmConfig pcm) \<longleftrightarrow>
     pcm_bitsPerSample pcm = 16 \<and> pcm_sampleRateHz pcm \<in> {8000, 16000, 32000} \<and>
     pcm_channelMode pcm = CM_MONO \<and> pcm_dataIntervalUs pcm = 7500"
| "accepts PK_A2dpOffload st (AC_a2dp c) \<longleftrightarrow>
     as_codecId c = CodecId_A2dp_SBC \<and> Sbc_status (as_configuration c) = A2DP_OK \<or>
     as_codecId c = CodecId_A2dp_AAC \<and> Aac_status (as_configuration c) = A2DP_OK"
| "accepts PK_A2dpOffload st (AC_a2dpConfig c) \<longleftrightarrow> IsOffloadCodecConfigurationValid st c"
| "accepts PK_LeAudioOffload st (AC_leAudioConfig _) \<longleftrightarrow> st \<noteq> LE_AUDIO_BROADCAST_HARDWARE_OFFLOAD_ENCODING_DATAPATH"
| "accepts PK_LeAudioOffload st (AC_leAudioBroadcastConfig _) \<longleftrightarrow> st = LE_AUDIO_BROADCAST_HARDWARE_OFFLOAD_ENCODING_DATAPATH"
| "accepts PK_HfpOffload st (AC_hfpConfig _) \<longleftrightarrow> True"
| "accepts _ st _ \<longleftrightarrow> False"

lemma accepts_tag: "kind_of st = Some k \<Longrightarrow> accepts k st cfg \<Longrightarrow> getTag cfg \<in> set (config_tags st)"
  by (cases "(k, st, cfg)" rule: accepts.cases; cases st) auto

lemma offload_kind:
  "kind_of st = Some k \<Longrightarrow> offload_session st \<longleftrightarrow> k \<in> {PK_A2dpOffload, PK_LeAudioOffload, PK_HfpOffload}"
  by (cases st) (auto simp: offload_session_def a2dp_offload_session_def le_offload_session_def)

text \<open>A session started from a provider.\<close>

definition session_started ::
  "session_type \<Rightarrow> nat \<Rightarrow> audio_configuration \<Rightarrow> latency_mode list \<Rightarrow> audio_world \<Rightarrow> start_result \<Rightarrow> bool" where
  "session_started st h cfg modes w r \<longleftrightarrow>
     (\<exists>ret p' mq.
        r = Some (AS_OK, ret, session_changed_all (current st w), p',
          \<lparr>w_sessions = (w_sessions w)(st \<mapsto> started_session (current st w) h mq cfg modes),
           w_links = (h, Context st) # w_links w\<rparr>) \<and>
        p_session_type p' = Some st \<and> p_stack_iface p' = Some h \<and> p_audio_config p' = Some cfg \<and>
        kind_of st = Some (p_kind p') \<and> (offload_session st \<or> queue_valid p') \<and>
        IsSessionReady (started_session (current st w) h mq cfg modes))"

lemma base_start:
  assumes "sessions_ok (w_sessions w)" "getTag cfg \<in> set (config_tags st)"
    and "p_session_type p = Some st" "kind_of st = Some (p_kind p)"
    and "offload_session st \<or> queue_valid p"
  shows "session_started st h cfg modes w (base_startSession (Some h) cfg modes p w)"
proof -
  let ?w = "w\<lparr>w_links := (h, Context st) # w_links w\<rparr>"
  have ok: "sessions_ok (w_sessions ?w)" using assms(1) by simp
  have cur: "current st ?w = current st w" by simp
  show ?thesis
  proof (cases "offload_session st")
    case True
    then have "onSessionReady_kind (p_kind p) q v = offload_onSessionReady q v" for q v
      using offload_kind [OF assms(4)] by auto
    then show ?thesis
      using assms(3,4) True current_ok [OF assms(1), of st]
        report_started [OF ok assms(2), of None h modes]
      by (auto simp: session_started_def base_startSession_def offload_onSessionReady_def IsSessionReady_iff
          started_session_def intro: exI [of _ None])
  next
    case False
    then obtain q where q: "p_data_mq p = Some q" "mq_isValid q"
      using assms(5) by (auto simp: queue_valid_def split: option.splits)
    have "onSessionReady_kind (p_kind p) q v = software_onSessionReady q v" for q v
      using offload_kind [OF assms(4)] False by (cases "p_kind p") auto
    then show ?thesis
      using assms(3,4) q current_ok [OF assms(1), of st]
        report_started [OF ok assms(2), of "Some q" h modes]
      by (auto simp: session_started_def base_startSession_def software_onSessionReady_def IsSessionReady_iff
          queue_valid_def started_session_def intro: exI [of _ "Some q"])
  qed
qed

text \<open>The bytes of one millisecond, times 1000.\<close>

definition Le_factor :: "pcm_configuration \<Rightarrow> int" where
  "Le_factor pcm = pcm_sampleRateHz pcm * channel_mode_to_channel_count (pcm_channelMode pcm) *
    (if pcm_bitsPerSample pcm = 24 then 4 else pcm_bitsPerSample pcm div 8)"

lemma Le_factor_ge: "IsSoftwarePcmConfigurationValid pcm \<Longrightarrow> 16000 \<le> Le_factor pcm"
proof -
  assume v: "IsSoftwarePcmConfigurationValid pcm"
  have "8000 \<le> pcm_sampleRateHz pcm" "1 \<le> channel_mode_to_channel_count (pcm_channelMode pcm)"
    "2 \<le> (if pcm_bitsPerSample pcm = 24 then 4 else pcm_bitsPerSample pcm div 8)"
    using v by (auto simp: pcm_valid_iff)
  then have "8000 * 1 * 2 \<le> Le_factor pcm" unfolding Le_factor_def by (intro mult_mono) auto
  then show ?thesis by simp
qed

lemma Le_size_eq:
  "kind_of st = Some PK_LeAudioSoftware \<Longrightarrow>
   Le_data_mq_size st pcm =
     (let v = Le_factor pcm * int_div_trunc (pcm_dataIntervalUs pcm) 1000 * 2
      in if v \<le> - 1000 then None else Some (nat (int_div_trunc v 1000)))"
  unfolding Le_data_mq_size_def Le_factor_def by (cases st) simp_all

lemma Le_size:
  assumes "IsSoftwarePcmConfigurationValid pcm" "kind_of st = Some PK_LeAudioSoftware" "0 \<le> pcm_dataIntervalUs pcm"
  obtains n where "Le_data_mq_size st pcm = Some n" "0 < n \<longleftrightarrow> 1000 \<le> pcm_dataIntervalUs pcm"
proof -
  define a where "a = Le_factor pcm"
  define d where "d = pcm_dataIntervalUs pcm div 1000"
  have a: "16000 \<le> a" using Le_factor_ge [OF assms(1)] by (simp add: a_def)
  have d: "0 \<le> d" "1 \<le> d \<longleftrightarrow> 1000 \<le> pcm_dataIntervalUs pcm" using assms(3) by (auto simp: d_def)
  have "int_div_trunc (pcm_dataIntervalUs pcm) 1000 = d" using assms(3) by (simp add: int_div_trunc_def d_def)
  moreover have "0 \<le> a * d * 2" using a d(1) by simp
  ultimately have v: "Le_data_mq_size st pcm = Some (nat (a * d * 2 div 1000))"
    using Le_size_eq [OF assms(2), of pcm] by (simp add: int_div_trunc_def Let_def a_def)
  have "0 < nat (a * d * 2 div 1000) \<longleftrightarrow> 1 \<le> d"
  proof
    assume "1 \<le> d"
    then have "16000 * 1 \<le> a * d" using a by (intro mult_mono) auto
    then show "0 < nat (a * d * 2 div 1000)" by (simp add: pos_imp_zdiv_pos_iff)
  next
    assume "0 < nat (a * d * 2 div 1000)"
    then show "1 \<le> d" using d(1) by (cases "d = 0") auto
  qed
  then show thesis using that v d(2) by simp
qed

lemma Le_size_negative:
  assumes "IsSoftwarePcmConfigurationValid pcm" "kind_of st = Some PK_LeAudioSoftware" "pcm_dataIntervalUs pcm \<le> - 1000"
  shows "Le_data_mq_size st pcm = None"
proof -
  define d where "d = (- pcm_dataIntervalUs pcm) div 1000"
  have d: "1 \<le> d" using assms(3) by (simp add: d_def)
  have "int_div_trunc (pcm_dataIntervalUs pcm) 1000 = - d" using assms(3) by (simp add: int_div_trunc_def d_def)
  moreover have "16000 * 1 \<le> Le_factor pcm * d"
    using Le_factor_ge [OF assms(1)] d by (intro mult_mono) auto
  ultimately show ?thesis using Le_size_eq [OF assms(2), of pcm] by (simp add: Let_def mult.commute)
qed

lemma GetCodec_ranked:
  "GetCodec ranked_codecs i =
     (if i = CodecId_A2dp_AAC then Some (aac_codec Aac_info)
      else if i = CodecId_A2dp_SBC then Some (sbc_codec Sbc_info) else None)"
  by (simp add: GetCodec_def codec_has_id_def)

lemma parse_status:
  "map_option fst (oc_parse (aac_codec Aac_info) c cp) = Some (Aac_status c)"
  "map_option fst (oc_parse (sbc_codec Sbc_info) c cp) = Some (Sbc_status c)"
  by (simp_all add: aac_codec_def sbc_codec_def Aac_parse_eq Sbc_parse_eq)

text \<open>The queue a provider creates, or has already, when it starts a session.\<close>

lemma start_accepted:
  assumes w: "sessions_ok (w_sessions w)" and mq: "\<forall>n. mq_isValid (new_mq n)"
    and p: "p_session_type p = Some st" "kind_of st = Some (p_kind p)" "needs_queue_at_open (p_kind p) \<longrightarrow> queue_valid p"
    and acc: "accepts (p_kind p) st cfg"
  shows "session_started st h cfg modes w (startSession new_mq ranked_codecs (Some h) cfg modes p w)"
proof -
  note tag = accepts_tag [OF p(2) acc]
  have B: "session_started st h cfg modes w (base_startSession (Some h) cfg modes q w)"
    if "q = p \<and> (offload_session st \<or> queue_valid p) \<or> (\<exists>n. q = p\<lparr>p_data_mq := Some (new_mq n)\<rparr>)" for q
    using that base_start [OF w tag, of q h modes] p mq by (auto simp: queue_valid_def)
  consider pcm where "cfg = AC_pcmConfig pcm" "needs_queue_at_open (p_kind p)" "IsSoftwarePcmConfigurationValid pcm"
    | pcm where "cfg = AC_pcmConfig pcm" "p_kind p = PK_LeAudioSoftware"
    | pcm where "cfg = AC_pcmConfig pcm" "p_kind p = PK_HfpSoftware"
    | "p_kind p \<in> {PK_A2dpOffload, PK_LeAudioOffload, PK_HfpOffload}"
    using acc by (cases "(p_kind p, st, cfg)" rule: accepts.cases) (auto simp: needs_queue_at_open_def)
  then show ?thesis
  proof cases
    case 1
    then have "startSession new_mq ranked_codecs (Some h) cfg modes p w = base_startSession (Some h) cfg modes p w"
      by (auto simp: startSession_def pcm_startSession_def needs_queue_at_open_def)
    then show ?thesis using B [of p] p(3) 1 by simp
  next
    case (2 pcm)
    then have v: "IsSoftwarePcmConfigurationValid pcm" "1000 \<le> pcm_dataIntervalUs pcm" using acc by simp_all
    moreover obtain n where "Le_data_mq_size st pcm = Some n" "0 < n \<longleftrightarrow> 1000 \<le> pcm_dataIntervalUs pcm"
      using Le_size [of pcm st] v p(2) 2 by auto
    ultimately have "startSession new_mq ranked_codecs (Some h) cfg modes p w =
        base_startSession (Some h) cfg modes (p\<lparr>p_data_mq := Some (new_mq n)\<rparr>) w"
      using 2 p(1) mq by (simp add: startSession_def LeAudioSoftware_startSession_def Let_def)
    then show ?thesis using B by auto
  next
    case (3 pcm)
    then have "IsSoftwarePcmConfigurationValid pcm" using acc by (auto simp: pcm_valid_iff)
    then have "startSession new_mq ranked_codecs (Some h) cfg modes p w =
        base_startSession (Some h) cfg modes (p\<lparr>p_data_mq := Some (new_mq (unat (Hfp_data_mq_size pcm)))\<rparr>) w"
      using 3 acc mq by (auto simp: startSession_def HfpSoftware_startSession_def Let_def)
    then show ?thesis using B by auto
  next
    case 4
    then have "startSession new_mq ranked_codecs (Some h) cfg modes p w = base_startSession (Some h) cfg modes p w"
      using acc p(1) by (cases "(p_kind p, st, cfg)" rule: accepts.cases)
        (auto simp: startSession_def A2dpOffload_startSession_def LeAudioOffload_startSession_def
          HfpOffload_startSession_def GetCodec_ranked parse_status)
    moreover have "offload_session st" using offload_kind [OF p(2)] 4 by simp
    ultimately show ?thesis using B [of p] by metis
  qed
qed

lemma start_refused:
  assumes p: "p_session_type p = Some st" "kind_of st = Some (p_kind p)"
    and refused: "\<not> accepts (p_kind p) st cfg"
    and interval: "\<And>pcm. cfg = AC_pcmConfig pcm \<Longrightarrow> 0 \<le> pcm_dataIntervalUs pcm"
  shows "\<exists>ret. startSession new_mq ranked_codecs host cfg modes p w = Some (EX_ILLEGAL_ARGUMENT, ret, [], p, w)"
proof (cases "\<exists>pcm. cfg = AC_pcmConfig pcm \<and> p_kind p = PK_LeAudioSoftware \<and> IsSoftwarePcmConfigurationValid pcm")
  case True
  then obtain pcm where pcm: "cfg = AC_pcmConfig pcm" "p_kind p = PK_LeAudioSoftware" "IsSoftwarePcmConfigurationValid pcm"
    by auto
  then obtain n where "Le_data_mq_size st pcm = Some n" "0 < n \<longleftrightarrow> 1000 \<le> pcm_dataIntervalUs pcm"
    using Le_size [of pcm st] p(2) interval by auto
  then show ?thesis using pcm refused p(1)
    by (auto simp: startSession_def LeAudioSoftware_startSession_def refuse_def)
next
  case False
  show ?thesis
    using refused p(1) False
    by (cases "p_kind p"; cases cfg)
      (auto simp: startSession_def pcm_startSession_def A2dpOffload_startSession_def GetCodec_ranked parse_status
        LeAudioOffload_startSession_def HfpOffload_startSession_def HfpSoftware_startSession_def
        LeAudioSoftware_startSession_def refuse_def pcm_valid_iff)
qed

section \<open>Ending a session\<close>

lemma sessions_ok_started:
  "sessions_ok (w_sessions w) \<Longrightarrow>
   sessions_ok ((w_sessions w)(st \<mapsto> started_session (current st w) h mq cfg modes))"
  using current_ok [of w st] by (auto simp: sessions_ok_def started_session_def callbacks_set_def)

lemma sessions_ok_ended:
  "sessions_ok (w_sessions w) \<Longrightarrow> sessions_ok ((w_sessions w)(st \<mapsto>
     (current st w)\<lparr>s_audio_config := None, s_stack_iface := None, s_data_mq := None\<rparr>))"
  using current_ok [of w st] by (auto simp: sessions_ok_def callbacks_set_def)

lemma end_started:
  assumes "sessions_ok (w_sessions w)" "p_session_type p = Some st" "p_stack_iface p = Some h"
  shows "\<exists>ns w'. endSession unlink p w = Some (AS_OK, ns, p\<lparr>p_stack_iface := None, p_audio_config := None\<rparr>, w') \<and>
     w_links w' = unlink h This (w_links w) \<and> sessions_ok (w_sessions w') \<and>
     (\<exists>s'. w_sessions w' st = Some s' \<and> \<not> IsSessionReady s') \<and>
     ns = (if IsSessionReady (current st w) then session_changed_all (current st w) else []) \<and>
     (\<forall>st'. st' \<noteq> st \<longrightarrow> w_sessions w' st' = w_sessions w st')"
  using assms report_ended [OF assms(1), of st] sessions_ok_ended [OF assms(1), of st]
  by (auto simp: endSession_def IsSessionReady_iff)

section \<open>Properties\<close>

definition example_new_mq :: "nat \<Rightarrow> data_mq" where "example_new_mq n = \<lparr>mq_id = n, mq_isValid = True\<rparr>"

definition example_world :: audio_world where
  "example_world = \<lparr>w_sessions = [A2DP_SOFTWARE_ENCODING_DATAPATH \<mapsto>
     (BluetoothAudioSession A2DP_SOFTWARE_ENCODING_DATAPATH)\<lparr>s_observers := [(256, example_cb 3)]\<rparr>], w_links = []\<rparr>"

lemma example_world_ok: "sessions_ok (w_sessions example_world)"
  by (simp add: sessions_ok_def example_world_def callbacks_set_def BluetoothAudioSession_def example_cb_def)

definition example_provider :: provider where
  "example_provider = \<lparr>p_kind = PK_A2dpSoftware, p_session_type = Some A2DP_SOFTWARE_ENCODING_DATAPATH,
     p_stack_iface = None, p_audio_config = None, p_latency_modes = [],
     p_data_mq = Some (example_new_mq A2dp_kDataMqSize)\<rparr>"

lemma example_opened: "openProvider example_new_mq A2DP_SOFTWARE_ENCODING_DATAPATH = (AS_OK, Some example_provider)"
  by (simp add: openProvider_result needs_queue_at_open_def example_new_mq_def example_provider_def Let_def)

lemma example_pcm_accepted: "accepts (p_kind example_provider) st (AC_pcmConfig example_pcm)"
  by (simp add: example_provider_def pcm_valid_iff example_pcm_def)

text \<open>\<open>openProvider\<close> opens a provider for every session type but the unknown one, and the
  provider it returns is valid for that session type and idle; only the A2DP software and hearing aid
  providers can fail to open, and only for want of a valid queue.\<close>

lemma openProvider_complete:
  "(case openProvider new_mq st of
      (AS_OK, Some p) \<Rightarrow> st \<noteq> ST_UNKNOWN \<and> isValid st p \<and> p_session_type p = Some st \<and> p_stack_iface p = None
    | (status, r) \<Rightarrow> status = EX_ILLEGAL_ARGUMENT \<and> r = None \<and>
        (st = ST_UNKNOWN \<or>
         st \<in> {A2DP_SOFTWARE_ENCODING_DATAPATH, A2DP_SOFTWARE_DECODING_DATAPATH} \<and> \<not> mq_isValid (new_mq 7680) \<or>
         st = HEARING_AID_SOFTWARE_ENCODING_DATAPATH \<and> \<not> mq_isValid (new_mq 3584)))"
  by (cases st) (simp_all add: openProvider_result needs_queue_at_open_def isValid_def queue_valid_def Let_def
      A2dp_kDataMqSize_def HearingAid_kDataMqSize_def)



text \<open>A configuration a provider does not accept is refused with \<open>EX_ILLEGAL_ARGUMENT\<close>: no session,
  no provider state and no death notification changes and nobody is notified. Data intervals are taken
  to be non-negative.\<close>

lemma startSession_refuses:
  assumes "openProvider new_mq st = (AS_OK, Some p)" "\<not> accepts (p_kind p) st cfg"
    and "\<And>pcm. cfg = AC_pcmConfig pcm \<Longrightarrow> 0 \<le> pcm_dataIntervalUs pcm"
  shows "\<exists>ret. startSession new_mq ranked_codecs host cfg modes p w = Some (EX_ILLEGAL_ARGUMENT, ret, [], p, w)"
  using start_refused [OF opened(1,2) [OF assms(1)] assms(2,3)] .

lemma startSession_refuses_witness:
  "\<exists>ret. startSession example_new_mq ranked_codecs (Some 9) (AC_hfpConfig 0) [] example_provider example_world =
     Some (EX_ILLEGAL_ARGUMENT, ret, [], example_provider, example_world)"
  by (rule startSession_refuses [OF example_opened]) (simp_all add: example_provider_def)

text \<open>Starting an LE audio software session with a PCM configuration whose data interval is
  \<open>-1000\<close> microseconds or less converts a negative \<open>double\<close> to \<open>uint32_t\<close>: the data interval is
  never checked.\<close>

lemma LeAudio_negative_interval_undefined:
  assumes "openProvider new_mq st = (AS_OK, Some p)" "kind_of st = Some PK_LeAudioSoftware"
    and "IsSoftwarePcmConfigurationValid pcm" "pcm_dataIntervalUs pcm \<le> - 1000"
  shows "startSession new_mq codecs host (AC_pcmConfig pcm) modes p w = None"
  using opened [OF assms(1)] Le_size_negative [OF assms(3,2,4)] assms(2,3)
  by (simp add: startSession_def LeAudioSoftware_startSession_def)

lemma LeAudio_negative_interval_undefined_witness:
  "startSession example_new_mq ranked_codecs (Some 9) (AC_pcmConfig (example_pcm\<lparr>pcm_dataIntervalUs := - 10000\<rparr>)) []
     ((BluetoothAudioProvider PK_LeAudioSoftware)\<lparr>p_session_type := Some LE_AUDIO_SOFTWARE_ENCODING_DATAPATH\<rparr>)
     example_world = None"
  by (rule LeAudio_negative_interval_undefined [of _ LE_AUDIO_SOFTWARE_ENCODING_DATAPATH])
    (simp_all add: openProvider_result needs_queue_at_open_def BluetoothAudioProvider_def pcm_valid_iff example_pcm_def Let_def)

text \<open>\<open>endSession\<close> on a provider with a session ends the session of its session type, notifies
  its observers when it was ready, and leaves the other sessions as they are.\<close>

lemma endSession_ends:
  assumes "sessions_ok (w_sessions w)" "p_session_type p = Some st" "p_stack_iface p = Some h"
  shows "\<exists>ns w' s'. endSession unlink p w = Some (AS_OK, ns, p\<lparr>p_stack_iface := None, p_audio_config := None\<rparr>, w') \<and>
     w_sessions w' st = Some s' \<and> \<not> IsSessionReady s' \<and>
     (\<forall>s. w_sessions w st = Some s \<and> IsSessionReady s \<longrightarrow>
        ns = map (\<lambda>(c, cb). N_session_changed (cb_client cb) c) (s_observers s)) \<and>
     (\<forall>st'. st' \<noteq> st \<longrightarrow> w_sessions w' st' = w_sessions w st')"
proof -
  have "current st w = s" if "w_sessions w st = Some s" for s
    using that by (simp add: GetSessionInstance_def)
  then show ?thesis using end_started [OF assms, of unlink] by (fastforce simp: session_changed_all_def)
qed

lemma endSession_ends_witness:
  "\<exists>ns w' s'. endSession (\<lambda>h c. remove1 (h, c)) (example_provider\<lparr>p_stack_iface := Some 9\<rparr>)
      (example_world\<lparr>w_sessions := [A2DP_SOFTWARE_ENCODING_DATAPATH \<mapsto> example_session]\<rparr>) =
     Some (AS_OK, ns, example_provider\<lparr>p_stack_iface := None, p_audio_config := None\<rparr>, w') \<and>
     w_sessions w' A2DP_SOFTWARE_ENCODING_DATAPATH = Some s' \<and> \<not> IsSessionReady s' \<and>
     ns = [N_session_changed 3 256]"
proof -
  have ok: "sessions_ok (w_sessions (example_world\<lparr>w_sessions := [A2DP_SOFTWARE_ENCODING_DATAPATH \<mapsto> example_session]\<rparr>))"
    by (simp add: sessions_ok_def example_session_def callbacks_set_def BluetoothAudioSession_def example_cb_def)
  show ?thesis
    using endSession_ends [OF ok, of "example_provider\<lparr>p_stack_iface := Some 9\<rparr>" A2DP_SOFTWARE_ENCODING_DATAPATH 9
      "\<lambda>h c. remove1 (h, c)"] example_session_ready
    by (auto simp: example_provider_def example_session_def example_cb_def)
qed

text \<open>\<open>endSession\<close> does not take back the death notification its provider registered: it unlinks
  with the provider as cookie, not with the context it linked. If the process of the first session dies
  while a second session of the same type is running, the second session is ended.\<close>

lemma stale_death_ends_next_session:
  assumes op0: "openProvider new_mq st = (AS_OK, Some p)" "\<forall>n. mq_isValid (new_mq n)"
    and w: "sessions_ok (w_sessions w)" and acc: "accepts (p_kind p) st cfg"
    and unlink: "\<And>h c ls. unlink h c ls = remove1 (h, c) ls"
  shows "\<exists>p1 p2 w1 w2 w3 w4 s3 s4.
     (\<exists>r n. startSession new_mq ranked_codecs (Some h1) cfg modes p w = Some (AS_OK, r, n, p1, w1)) \<and>
     (\<exists>n. endSession unlink p1 w1 = Some (AS_OK, n, p2, w2)) \<and>
     (\<exists>r n p3. startSession new_mq ranked_codecs (Some h2) cfg modes p2 w2 = Some (AS_OK, r, n, p3, w3)) \<and>
     w_sessions w3 st = Some s3 \<and> IsSessionReady s3 \<and> s_stack_iface s3 = Some h2 \<and>
     (h1, Context st) \<in> set (w_links w3) \<and>
     (\<exists>n. binderDiedCallbackAidl (Context st) w3 = Some (n, w4)) \<and>
     w_sessions w4 st = Some s4 \<and> \<not> IsSessionReady s4"
proof -
  note op = opened [OF op0(1)]
  from start_accepted [OF w op0(2) op acc, of h1 modes]
  obtain r p1 mq1 where s1: "startSession new_mq ranked_codecs (Some h1) cfg modes p w =
      Some (AS_OK, r, session_changed_all (current st w), p1,
        \<lparr>w_sessions = (w_sessions w)(st \<mapsto> started_session (current st w) h1 mq1 cfg modes),
         w_links = (h1, Context st) # w_links w\<rparr>)"
    and p1: "p_session_type p1 = Some st" "p_stack_iface p1 = Some h1" "kind_of st = Some (p_kind p1)"
      "offload_session st \<or> queue_valid p1"
    by (auto simp: session_started_def)
  let ?w1 = "\<lparr>w_sessions = (w_sessions w)(st \<mapsto> started_session (current st w) h1 mq1 cfg modes),
         w_links = (h1, Context st) # w_links w\<rparr>"
  let ?p2 = "p1\<lparr>p_stack_iface := None, p_audio_config := None\<rparr>"
  obtain n2 w2 where s2: "endSession unlink p1 ?w1 = Some (AS_OK, n2, ?p2, w2)"
    and w2: "w_links w2 = unlink h1 This ((h1, Context st) # w_links w)" "sessions_ok (w_sessions w2)"
    using end_started [of ?w1 p1 st h1 unlink] sessions_ok_started [OF w, of st h1 mq1 cfg modes] p1 by auto
  have kp: "p_kind p1 = p_kind p" using p1(3) op(2) by simp
  have q2: "needs_queue_at_open (p_kind ?p2) \<longrightarrow> queue_valid ?p2"
    using p1(4) offload_kind [OF p1(3)] by (auto simp: needs_queue_at_open_def queue_valid_def)
  obtain r3 n3 p3 mq3 where s3: "startSession new_mq ranked_codecs (Some h2) cfg modes ?p2 w2 =
      Some (AS_OK, r3, n3, p3, \<lparr>w_sessions = (w_sessions w2)(st \<mapsto> started_session (current st w2) h2 mq3 cfg modes),
         w_links = (h2, Context st) # w_links w2\<rparr>)"
    and ready: "IsSessionReady (started_session (current st w2) h2 mq3 cfg modes)"
    using start_accepted [OF w2(2) op0(2) _ _ q2, of st cfg h2 modes] p1 acc kp
    by (auto simp: session_started_def)
  let ?w3 = "\<lparr>w_sessions = (w_sessions w2)(st \<mapsto> started_session (current st w2) h2 mq3 cfg modes),
         w_links = (h2, Context st) # w_links w2\<rparr>"
  have died: "\<exists>n w4 s4. binderDiedCallbackAidl (Context st) ?w3 = Some (n, w4) \<and>
      w_sessions w4 st = Some s4 \<and> \<not> IsSessionReady s4"
    using report_ended [of ?w3 st] sessions_ok_started [OF w2(2), of st h2 mq3 cfg modes]
    by (auto simp: binderDiedCallbackAidl_def IsSessionReady_iff)
  show ?thesis
    using s1 s2 s3 ready died w2(1) unlink by (fastforce simp: started_session_def)
qed

lemma stale_death_ends_next_session_witness:
  "\<exists>w3 w4 s3 s4. w_sessions w3 A2DP_SOFTWARE_ENCODING_DATAPATH = Some s3 \<and> IsSessionReady s3 \<and>
     (9, Context A2DP_SOFTWARE_ENCODING_DATAPATH) \<in> set (w_links w3) \<and>
     (\<exists>n. binderDiedCallbackAidl (Context A2DP_SOFTWARE_ENCODING_DATAPATH) w3 = Some (n, w4)) \<and>
     w_sessions w4 A2DP_SOFTWARE_ENCODING_DATAPATH = Some s4 \<and> \<not> IsSessionReady s4"
  using stale_death_ends_next_session [OF example_opened _ example_world_ok example_pcm_accepted,
      of "\<lambda>h c. remove1 (h, c)" 9 "[]" 10]
  by (auto simp: example_new_mq_def)

text \<open>For every configuration the HFP software provider accepts, the queue size it computes
  in 32-bit arithmetic does not wrap and is two frames of 7.5 ms of 16-bit mono samples.\<close>

lemma Hfp_queue_holds_two_frames:
  assumes "accepts PK_HfpSoftware st (AC_pcmConfig pcm)"
  shows "uint (Hfp_data_mq_size pcm) * 1000000 = 2 * (2 * pcm_sampleRateHz pcm * pcm_dataIntervalUs pcm)"
  using assms by (auto simp: Hfp_data_mq_size_def)

lemma Hfp_queue_holds_two_frames_witness:
  "uint (Hfp_data_mq_size \<lparr>pcm_sampleRateHz = 16000, pcm_channelMode = CM_MONO, pcm_bitsPerSample = 16,
     pcm_dataIntervalUs = 7500\<rparr>) * 1000000 = 480000000"
  using Hfp_queue_holds_two_frames [of HFP_SOFTWARE_ENCODING_DATAPATH "\<lparr>pcm_sampleRateHz = 16000,
     pcm_channelMode = CM_MONO, pcm_bitsPerSample = 16, pcm_dataIntervalUs = 7500\<rparr>"] by simp

end
