(* ===== verification/Provider_Requests.thy ===== *)
theory Provider_Requests
  imports LeAudio_Offload Providers
begin

text \<open>
  The requests for LE audio configurations a provider answers. \<open>BluetoothAudioProvider.cpp\<close> refuses all of them, and the LE audio offload
  provider overrides those it supports. A provider keeps two things between requests: the priorities it was told and
  the broadcast settings it has loaded.
\<close>

section \<open>Requests\<close>

datatype le_request =
    SetCodecPriority codec_id int
  | GetAseConfiguration "le_device_capabilities option list option" "le_device_capabilities option list option" "ase_requirement list"
  | GetAseQosConfiguration qos_requirement
  | GetAseDatapathConfiguration
  | OnSinkAseMetadataChanged
  | OnSourceAseMetadataChanged
  | GetBroadcastConfiguration "le_device_capabilities option list option" "int list"
  | GetBroadcastDatapathConfiguration

text \<open>What was written through the output parameter, if there is one.\<close>

datatype le_answer = Nothing_written | Ase_settings "ase_setting list" | Ase_qos qos_pair

record le_state =
  le_priorities :: priorities
  le_broadcast :: "broadcast_setting list"

text \<open>What the requests read from elsewhere: constants, the settings of the files and the codecs of the broadcast session.\<close>

record le_sources =
  src_consts :: le_consts
  src_settings :: "ase_setting list"
  src_codecs :: "le_codec_info list"

fun base_le_request :: "le_request \<Rightarrow> astatus \<times> le_answer" where
  "base_le_request (SetCodecPriority in_codecId in_priority) = (EX_UNSUPPORTED_OPERATION, Nothing_written)"
| "base_le_request (GetAseConfiguration sink source requirements) = (EX_UNSUPPORTED_OPERATION, Nothing_written)"
| "base_le_request (GetAseQosConfiguration in_qosRequirement) = (EX_UNSUPPORTED_OPERATION, Nothing_written)"
| "base_le_request GetAseDatapathConfiguration = (EX_UNSUPPORTED_OPERATION, Nothing_written)"
| "base_le_request OnSinkAseMetadataChanged = (EX_UNSUPPORTED_OPERATION, Nothing_written)"
| "base_le_request OnSourceAseMetadataChanged = (EX_UNSUPPORTED_OPERATION, Nothing_written)"
| "base_le_request (GetBroadcastConfiguration remote bis_nums) = (EX_UNSUPPORTED_OPERATION, Nothing_written)"
| "base_le_request GetBroadcastDatapathConfiguration = (EX_UNSUPPORTED_OPERATION, Nothing_written)"

definition onSinkAseMetadataChanged :: "astatus \<times> le_answer" where
  "onSinkAseMetadataChanged = (EX_UNSUPPORTED_OPERATION, Nothing_written)"

definition onSourceAseMetadataChanged :: "astatus \<times> le_answer" where
  "onSourceAseMetadataChanged = (EX_UNSUPPORTED_OPERATION, Nothing_written)"

text \<open>The overrides; what the class does not override is the base class's.\<close>

fun LeAudioOffload_request :: "le_sources \<Rightarrow> le_request \<Rightarrow> le_state \<Rightarrow> ((astatus \<times> le_answer) \<times> le_state) ub" where
  "LeAudioOffload_request src (SetCodecPriority c p) st =
     Some ((AS_OK, Nothing_written), st\<lparr>le_priorities := setCodecPriority c p (le_priorities st)\<rparr>)"
| "LeAudioOffload_request src (GetAseConfiguration sink source requirements) st = do {
     settings \<leftarrow> getLeAudioAseConfiguration (src_consts src) (le_priorities st) (src_settings src) sink source requirements;
     Some ((AS_OK, Ase_settings settings), st)
   }"
| "LeAudioOffload_request src (GetAseQosConfiguration q) st =
     Some ((AS_OK, Ase_qos (getLeAudioAseQosConfiguration (src_consts src) (le_priorities st) (src_settings src) q)), st)"
| "LeAudioOffload_request src (GetBroadcastConfiguration remote bis_nums) st = do {
     loaded \<leftarrow> getLeAudioBroadcastConfiguration (src_consts src) (le_priorities st) (src_codecs src) remote bis_nums (le_broadcast st);
     Some ((AS_OK, Nothing_written), st\<lparr>le_broadcast := loaded\<rparr>)
   }"
| "LeAudioOffload_request src OnSinkAseMetadataChanged st = Some (onSinkAseMetadataChanged, st)"
| "LeAudioOffload_request src OnSourceAseMetadataChanged st = Some (onSourceAseMetadataChanged, st)"
| "LeAudioOffload_request src req st = Some (base_le_request req, st)"

definition le_request_kind ::
  "provider_kind \<Rightarrow> le_sources \<Rightarrow> le_request \<Rightarrow> le_state \<Rightarrow> ((astatus \<times> le_answer) \<times> le_state) ub" where
  "le_request_kind k src req st =
     (case k of PK_LeAudioOffload \<Rightarrow> LeAudioOffload_request src req st | _ \<Rightarrow> Some (base_le_request req, st))"

fun le_requests :: "provider_kind \<Rightarrow> le_sources \<Rightarrow> le_request list \<Rightarrow> le_state \<Rightarrow> ((astatus \<times> le_answer) list \<times> le_state) ub" where
  "le_requests k src [] st = Some ([], st)"
| "le_requests k src (req # reqs) st = do {
     (answer, st) \<leftarrow> le_request_kind k src req st;
     (answers, st) \<leftarrow> le_requests k src reqs st;
     Some (answer # answers, st)
   }"

section \<open>Requests that are refused\<close>

lemma base_le_request_refuses: "base_le_request req = (EX_UNSUPPORTED_OPERATION, Nothing_written)"
  by (cases req) simp_all

lemma other_providers_refuse:
  "k \<noteq> PK_LeAudioOffload \<Longrightarrow>
   le_requests k src reqs st = Some (replicate (length reqs) (EX_UNSUPPORTED_OPERATION, Nothing_written), st)"
  by (induction reqs) (cases k; simp add: le_request_kind_def base_le_request_refuses)+

section \<open>Priorities\<close>

text \<open>The priority last given to a codec.\<close>

fun last_priority :: "codec_id \<Rightarrow> le_request list \<Rightarrow> int option" where
  "last_priority c [] = None"
| "last_priority c (req # reqs) =
     (case last_priority c reqs of
        Some p \<Rightarrow> Some p
      | None \<Rightarrow> (case req of SetCodecPriority d p \<Rightarrow> if d = c then Some p else None | _ \<Rightarrow> None))"

lemma request_priority:
  assumes "LeAudioOffload_request src req st = Some (answer, st')"
  shows "map_of (le_priorities st') c =
     (case req of SetCodecPriority d p \<Rightarrow> if d = c then Some (word_of_int p) else map_of (le_priorities st) c
      | _ \<Rightarrow> map_of (le_priorities st) c)"
  using assms by (cases req) (auto simp: setCodecPriority_def update_conv' elim!: bind_SomeE)

lemma requests_priority:
  "le_requests PK_LeAudioOffload src reqs st = Some (answers, st') \<Longrightarrow>
   map_of (le_priorities st') c =
     (case last_priority c reqs of Some p \<Rightarrow> Some (word_of_int p) | None \<Rightarrow> map_of (le_priorities st) c)"
proof (induction reqs arbitrary: st answers)
  case (Cons req reqs)
  then obtain answer st1 answers1 where step: "LeAudioOffload_request src req st = Some (answer, st1)"
    and rest: "le_requests PK_LeAudioOffload src reqs st1 = Some (answers1, st')"
    by (auto simp: le_request_kind_def elim!: bind_SomeE)
  show ?case
    using Cons.IH [OF rest] request_priority [OF step, of c] by (cases req) (auto split: option.splits)
qed simp

lemma admitted_priority:
  assumes "admitted k prio cap reqs (Some d)" "ase_codecId (dir_aseConfiguration d) = Some c"
  shows "map_of prio c \<noteq> Some (word_of_int (lc_priority_disabled k))"
  using assms by (auto simp: admitted_def capability_admits_def isMatchedValidCodec_def)

lemma ase_configuration_priority:
  assumes out: "getLeAudioAseConfiguration k prio settings sink source reqs = Some out"
    and x: "x \<in> set out" "direction_of x dir = Some dirs" "Some d \<in> set dirs" "ase_codecId (dir_aseConfiguration d) = Some c"
  shows "map_of prio c \<noteq> Some (word_of_int (lc_priority_disabled k))"
proof -
  obtain dir' remote where dir': "(dir', remote) = (if sink \<noteq> None then (Sink, sink) else (Source, source))"
    by (metis surj_pair)
  show ?thesis
  proof (cases remote)
    case None
    then have "settings = []" "out = []"
      using out dir' by (cases settings; auto simp: getLeAudioAseConfiguration_def split: if_splits)+
    then show ?thesis using x(1) by simp
  next
    case (Some caps)
    then have "(dir', Some caps) = (if sink \<noteq> None then (Sink, sink) else (Source, source))" using dir' by simp
    from getLeAudioAseConfiguration_values [OF this, of k prio settings reqs] out x(1)
    obtain s cap req ds where "x = new_setting s dir' (filter (admitted k prio cap (requirement_of req dir')) ds)" by auto
    then have "admitted k prio cap (requirement_of req dir') (Some d)"
      using x(2,3) by (cases dir; cases dir') (auto simp: new_setting_def direction_of_def)
    then show ?thesis using admitted_priority x(4) by blast
  qed
qed

text \<open>C21: once a codec has been disabled, and until it is given another priority, no configuration the provider returns for
  a remote device uses it, whatever requests come in between.\<close>

theorem disabled_codec_never_offered:
  assumes "le_requests PK_LeAudioOffload src reqs st0 = Some (answers, st)"
    and "last_priority c reqs = Some (lc_priority_disabled (src_consts src))"
    and "le_request_kind PK_LeAudioOffload src (GetAseConfiguration sink source requirements) st = Some ((status, Ase_settings out), st')"
    and "x \<in> set out" "direction_of x dir = Some dirs" "Some d \<in> set dirs"
  shows "ase_codecId (dir_aseConfiguration d) \<noteq> Some c"
proof
  assume c: "ase_codecId (dir_aseConfiguration d) = Some c"
  have "getLeAudioAseConfiguration (src_consts src) (le_priorities st) (src_settings src) sink source requirements = Some out"
    using assms(3) by (auto simp: le_request_kind_def elim!: bind_SomeE)
  then show False
    using ase_configuration_priority [OF _ assms(4-6) c] requests_priority [OF assms(1), of c] assms(2) by simp
qed

text \<open>Two codecs that the remote device supports, one of them disabled.\<close>

definition plain_configuration :: "codec_id \<Rightarrow> direction_configuration" where
  "plain_configuration c = \<lparr>dir_aseConfiguration = \<lparr>ase_targetLatency = TL_LOWER, ase_targetPhy = TWO_M, ase_codecId = Some c,
     ase_codecConfiguration = [], ase_other = 0\<rparr>, dir_qosConfiguration = None, dir_dataPathConfiguration = None\<rparr>"

definition two_codecs :: le_sources where
  "two_codecs = \<lparr>src_consts = le_unit,
     src_settings = [\<lparr>set_audioContext = 4, set_packing = 0,
       set_sinkAseConfiguration = Some [Some (plain_configuration (CodecId_other 1)), Some (plain_configuration (CodecId_other 2))],
       set_sourceAseConfiguration = None, set_flags = 0\<rparr>],
     src_codecs = []\<rparr>"

definition supports :: "codec_id \<Rightarrow> le_device_capabilities option" where
  "supports c = Some \<lparr>dc_codecId = c, dc_codecSpecificCapabilities = [], dc_metadata = None\<rparr>"

definition both_codecs :: le_request where
  "both_codecs = GetAseConfiguration (Some [supports (CodecId_other 1), supports (CodecId_other 2)]) None
     [\<lparr>req_audioContext = 4, req_sinkAseRequirement = None, req_sourceAseRequirement = None\<rparr>]"

theorem disabled_codec_never_offered_witness:
  "\<exists>out st. le_requests PK_LeAudioOffload two_codecs [SetCodecPriority (CodecId_other 1) (- 1), both_codecs]
        \<lparr>le_priorities = [], le_broadcast = []\<rparr> = Some ([(AS_OK, Nothing_written), (AS_OK, Ase_settings out)], st) \<and>
     out \<noteq> [] \<and> (\<forall>x\<in>set out. \<forall>dirs. direction_of x Sink = Some dirs \<longrightarrow>
       (\<forall>d. Some d \<in> set dirs \<longrightarrow> ase_codecId (dir_aseConfiguration d) \<noteq> Some (CodecId_other 1)))"
proof -
  let ?st = "\<lparr>le_priorities = [(CodecId_other 1, - 1 :: u32)], le_broadcast = []\<rparr>"
  have set: "le_requests PK_LeAudioOffload two_codecs [SetCodecPriority (CodecId_other 1) (- 1)] \<lparr>le_priorities = [], le_broadcast = []\<rparr> =
      Some ([(AS_OK, Nothing_written)], ?st)"
    by (simp add: le_request_kind_def setCodecPriority_def)
  obtain out where out: "le_request_kind PK_LeAudioOffload two_codecs both_codecs ?st = Some ((AS_OK, Ase_settings out), ?st)" "out \<noteq> []"
    by (simp add: le_request_kind_def both_codecs_def two_codecs_def supports_def plain_configuration_def le_unit_def
        getLeAudioAseConfiguration_def getCapabilitiesMatchedAseConfigurationSettings_def isCapabilitiesMatchedContext_def direction_of_def
        filterCapabilitiesAseDirectionConfiguration_def capability_admits_def isMatchedValidCodec_def
        isCapabilitiesMatchedCodecConfiguration_def getRequirementMatchedAseConfigurationSettings_def
        filterRequirementAseDirectionConfiguration_def new_setting_def List.map_filter_def)
  have "last_priority (CodecId_other 1) [SetCodecPriority (CodecId_other 1) (- 1)] = Some (lc_priority_disabled (src_consts two_codecs))"
    by (simp add: two_codecs_def le_unit_def)
  note never = disabled_codec_never_offered [OF set this out(1) [unfolded both_codecs_def]]
  have "le_requests PK_LeAudioOffload two_codecs [SetCodecPriority (CodecId_other 1) (- 1), both_codecs]
        \<lparr>le_priorities = [], le_broadcast = []\<rparr> = Some ([(AS_OK, Nothing_written), (AS_OK, Ase_settings out)], ?st)"
    using set out(1) by (auto simp: le_request_kind_def elim!: bind_SomeE)
  then show ?thesis using never out(2) by blast
qed

end
