(* ===== verification/Port_Proxy.thy ===== *)
theory Port_Proxy
  imports Session_Laws
begin

text \<open>
  \<^verbatim>\<open>bluetooth/audio/hw/device_port_proxy.cc\<close>: the port through which an audio stream of the
  HAL talks to a session: its life cycle, the state machine driven by requests of the audio
  framework and by the callbacks of the session, and the data path.

  \<open>Start\<close> and \<open>Suspend\<close> wait for a callback of another thread. What arrives during the wait is a
  list of \<open>port_event\<close>s; \<open>wait_for\<close> returns the value its predicate has when it returns, whether
  after a notification or after the timeout.
\<close>

section \<open>Data\<close>

datatype stream_state = DISABLED | STANDBY | STARTING | STARTED | SUSPENDING | UNKNOWN

datatype audio_device =
    OUT_BLUETOOTH_A2DP | OUT_BLUETOOTH_A2DP_HEADPHONES | OUT_BLUETOOTH_A2DP_SPEAKER
  | OUT_HEARING_AID | OUT_BLE_HEADSET | OUT_BLE_SPEAKER | IN_BLE_HEADSET | OUT_BLE_BROADCAST
  | DEVICE_other nat

datatype channel_mask = CHANNEL_NONE | CHANNEL_OUT_MONO | CHANNEL_OUT_STEREO | CHANNEL_IN_MONO | CHANNEL_IN_STEREO

datatype audio_format =
  FORMAT_PCM_16_BIT | FORMAT_PCM_24_BIT_PACKED | FORMAT_PCM_8_24_BIT | FORMAT_PCM_32_BIT | FORMAT_other nat

record audio_config =
  cfg_sample_rate :: u32
  cfg_channel_mask :: channel_mask
  cfg_format :: audio_format

text \<open>\<open>port_id\<close> is the identity of the object, which its callbacks capture.\<close>

record port =
  port_id :: nat
  port_cookie :: u16
  port_state :: stream_state
  port_session_type :: session_type
  port_stereo_to_mono :: bool

definition kBluetoothDefaultSampleRate :: u32 where "kBluetoothDefaultSampleRate = 44100"
definition kBluetoothDefaultAudioFormatBitsPerSample :: audio_format where
  "kBluetoothDefaultAudioFormatBitsPerSample = FORMAT_PCM_16_BIT"
definition kBluetoothDefaultOutputChannelModeMask :: channel_mask where
  "kBluetoothDefaultOutputChannelModeMask = CHANNEL_OUT_STEREO"
definition kBluetoothDefaultInputChannelModeMask :: channel_mask where
  "kBluetoothDefaultInputChannelModeMask = CHANNEL_IN_MONO"

fun OutputChannelModeToAudioFormat :: "channel_mode \<Rightarrow> channel_mask" where
  "OutputChannelModeToAudioFormat CM_MONO = CHANNEL_OUT_MONO"
| "OutputChannelModeToAudioFormat CM_STEREO = CHANNEL_OUT_STEREO"
| "OutputChannelModeToAudioFormat _ = kBluetoothDefaultOutputChannelModeMask"

fun InputChannelModeToAudioFormat :: "channel_mode \<Rightarrow> channel_mask" where
  "InputChannelModeToAudioFormat CM_MONO = CHANNEL_IN_MONO"
| "InputChannelModeToAudioFormat CM_STEREO = CHANNEL_IN_STEREO"
| "InputChannelModeToAudioFormat _ = kBluetoothDefaultInputChannelModeMask"

definition BitsPerSampleToAudioFormat :: "u8 \<Rightarrow> session_type \<Rightarrow> audio_format" where
  "BitsPerSampleToAudioFormat bits st =
     (if bits = 16 then FORMAT_PCM_16_BIT
      else if bits = 24 then
        if st = A2DP_HARDWARE_OFFLOAD_ENCODING_DATAPATH \<or> st = A2DP_SOFTWARE_ENCODING_DATAPATH
        then FORMAT_PCM_24_BIT_PACKED else FORMAT_PCM_8_24_BIT
      else if bits = 32 then FORMAT_PCM_32_BIT
      else kBluetoothDefaultAudioFormatBitsPerSample)"

text \<open>
  \<open>strlcpy\<close> keeps at most \<open>sz - 1\<close> characters of a C string, here the list of its characters;
  \<open>strtok\<close> returns the non-empty runs between separators. \<open>max_size\<close> is the constant
  \<open>AUDIO_ATTRIBUTES_TAGS_MAX_SIZE\<close> of the audio headers.
\<close>

definition strlcpy :: "string \<Rightarrow> nat \<Rightarrow> string" where
  "strlcpy src sz = take (sz - 1) src"

fun strtok :: "char \<Rightarrow> string \<Rightarrow> string \<Rightarrow> string list" where
  "strtok sep [] tok = (if tok = [] then [] else [tok])"
| "strtok sep (c # cs) tok =
     (if c = sep then (if tok = [] then strtok sep cs [] else tok # strtok sep cs [])
      else strtok sep cs (tok @ [c]))"

definition CovertAudioTagFromV7 :: "nat \<Rightarrow> string \<Rightarrow> string list" where
  "CovertAudioTagFromV7 max_size tags_v7 = strtok CHR '';'' (strlcpy tags_v7 max_size) []"

section \<open>Life cycle\<close>

definition BluetoothAudioPortAidl :: "(session_type \<Rightarrow> u16) \<Rightarrow> nat \<Rightarrow> port" where
  "BluetoothAudioPortAidl code i =
     \<lparr>port_id = i, port_cookie = kObserversCookieUndefined code, port_state = DISABLED,
      port_session_type = ST_UNKNOWN, port_stereo_to_mono = False\<rparr>"

definition in_use :: "(session_type \<Rightarrow> u16) \<Rightarrow> port \<Rightarrow> bool" where
  "in_use code p \<longleftrightarrow> port_cookie p \<noteq> kObserversCookieUndefined code"

fun device_session_type :: "audio_device \<Rightarrow> session_type option" where
  "device_session_type OUT_BLUETOOTH_A2DP = Some A2DP_SOFTWARE_ENCODING_DATAPATH"
| "device_session_type OUT_BLUETOOTH_A2DP_HEADPHONES = Some A2DP_SOFTWARE_ENCODING_DATAPATH"
| "device_session_type OUT_BLUETOOTH_A2DP_SPEAKER = Some A2DP_SOFTWARE_ENCODING_DATAPATH"
| "device_session_type OUT_HEARING_AID = Some HEARING_AID_SOFTWARE_ENCODING_DATAPATH"
| "device_session_type OUT_BLE_HEADSET = Some LE_AUDIO_SOFTWARE_ENCODING_DATAPATH"
| "device_session_type OUT_BLE_SPEAKER = Some LE_AUDIO_SOFTWARE_ENCODING_DATAPATH"
| "device_session_type IN_BLE_HEADSET = Some LE_AUDIO_SOFTWARE_DECODING_DATAPATH"
| "device_session_type OUT_BLE_BROADCAST = Some LE_AUDIO_BROADCAST_SOFTWARE_ENCODING_DATAPATH"
| "device_session_type (DEVICE_other _) = None"

definition init_session_type :: "audio_device \<Rightarrow> port \<Rightarrow> sessions \<Rightarrow> bool \<times> port \<times> sessions" where
  "init_session_type device p m =
     (case device_session_type device of
        None \<Rightarrow> (False, p, m)
      | Some st \<Rightarrow>
          let p = p\<lparr>port_session_type := st\<rparr>; (ready, m) = Control_IsSessionReady st m in
          (ready, p, m))"

definition port_callbacks :: "port \<Rightarrow> port_status_callbacks" where
  "port_callbacks p = \<lparr>cb_client = port_id p, cb_control_result = True, cb_session_changed = True,
     cb_audio_configuration_changed = False, cb_low_latency_mode_allowed = False\<rparr>"

definition SetUp ::
  "(session_type \<Rightarrow> u16) \<Rightarrow> audio_device \<Rightarrow> port \<Rightarrow> sessions \<Rightarrow> (bool \<times> port \<times> sessions) ub" where
  "SetUp code devices p m =
     (let (ok, p, m) = init_session_type devices p m in
      if \<not> ok then Some (False, p, m)
      else
        let p = p\<lparr>port_state := STANDBY\<rparr> in
        do {
          (cookie, m) \<leftarrow> Control_RegisterControlResultCback code (port_session_type p) (port_callbacks p) m;
          let p = p\<lparr>port_cookie := cookie\<rparr>;
          Some (port_cookie p \<noteq> kObserversCookieUndefined code, p, m)
        })"

definition TearDown :: "(session_type \<Rightarrow> u16) \<Rightarrow> port \<Rightarrow> sessions \<Rightarrow> (port \<times> sessions) ub" where
  "TearDown code p m =
     (if \<not> in_use code p then Some (p, m)
      else do {
        (_, m) \<leftarrow> Control_UnregisterControlResultCback (port_session_type p) (port_cookie p) m;
        Some (p\<lparr>port_cookie := kObserversCookieUndefined code\<rparr>, m)
      })"

text \<open>The destructor.\<close>

definition destroy_port :: "(session_type \<Rightarrow> u16) \<Rightarrow> port \<Rightarrow> sessions \<Rightarrow> (port \<times> sessions) ub" where
  "destroy_port code p m = (if in_use code p then TearDown code p m else Some (p, m))"

definition ForcePcmStereoToMono :: "bool \<Rightarrow> port \<Rightarrow> port" where
  "ForcePcmStereoToMono force p = p\<lparr>port_stereo_to_mono := force\<rparr>"

definition IsA2dp :: "port \<Rightarrow> bool" where
  "IsA2dp p \<longleftrightarrow> port_session_type p = A2DP_SOFTWARE_ENCODING_DATAPATH \<or>
     port_session_type p = A2DP_HARDWARE_OFFLOAD_ENCODING_DATAPATH"

definition IsLeAudio :: "port \<Rightarrow> bool" where
  "IsLeAudio p \<longleftrightarrow> port_session_type p = LE_AUDIO_SOFTWARE_ENCODING_DATAPATH \<or>
     port_session_type p = LE_AUDIO_SOFTWARE_DECODING_DATAPATH \<or>
     port_session_type p = LE_AUDIO_HARDWARE_OFFLOAD_ENCODING_DATAPATH \<or>
     port_session_type p = LE_AUDIO_HARDWARE_OFFLOAD_DECODING_DATAPATH \<or>
     port_session_type p = LE_AUDIO_BROADCAST_SOFTWARE_ENCODING_DATAPATH \<or>
     port_session_type p = LE_AUDIO_BROADCAST_HARDWARE_OFFLOAD_ENCODING_DATAPATH"

section \<open>Callbacks\<close>

definition ControlResultHandler :: "(session_type \<Rightarrow> u16) \<Rightarrow> bluetooth_audio_status \<Rightarrow> port \<Rightarrow> port" where
  "ControlResultHandler code status p =
     (if \<not> in_use code p then p
      else case port_state p of
          STARTED \<Rightarrow>
            if status = BAS_RECONFIGURATION \<or> status = BAS_SUCCESS then p\<lparr>port_state := STANDBY\<rparr> else p
        | STARTING \<Rightarrow>
            if status = BAS_SUCCESS then p\<lparr>port_state := STARTED\<rparr> else p\<lparr>port_state := STANDBY\<rparr>
        | SUSPENDING \<Rightarrow>
            if status = BAS_SUCCESS then p\<lparr>port_state := STANDBY\<rparr> else p\<lparr>port_state := DISABLED\<rparr>
        | _ \<Rightarrow> p)"

definition SessionChangedHandler :: "(session_type \<Rightarrow> u16) \<Rightarrow> port \<Rightarrow> port" where
  "SessionChangedHandler code p = (if \<not> in_use code p then p else p\<lparr>port_state := DISABLED\<rparr>)"

text \<open>The closures \<open>SetUp\<close> registers, and the effect of a notification of a session on a port.\<close>

definition control_result_cb ::
  "(session_type \<Rightarrow> u16) \<Rightarrow> u16 \<Rightarrow> bluetooth_audio_status \<Rightarrow> port \<Rightarrow> port" where
  "control_result_cb code cookie status p =
     (if \<not> in_use code p then p
      else if port_cookie p \<noteq> cookie then p
      else ControlResultHandler code status p)"

definition session_changed_cb :: "(session_type \<Rightarrow> u16) \<Rightarrow> u16 \<Rightarrow> port \<Rightarrow> port" where
  "session_changed_cb code cookie p =
     (if \<not> in_use code p then p
      else if port_cookie p \<noteq> cookie then p
      else SessionChangedHandler code p)"

fun deliver :: "(session_type \<Rightarrow> u16) \<Rightarrow> port \<Rightarrow> notification \<Rightarrow> port" where
  "deliver code p (N_control_result client cookie start_resp status) =
     (if client = port_id p then control_result_cb code cookie status p else p)"
| "deliver code p (N_session_changed client cookie) =
     (if client = port_id p then session_changed_cb code cookie p else p)"
| "deliver code p _ = p"

section \<open>Stream control\<close>

definition CondwaitState ::
  "(session_type \<Rightarrow> u16) \<Rightarrow> stream_state \<Rightarrow> notification list \<Rightarrow> port \<Rightarrow> bool \<times> port" where
  "CondwaitState code state events p =
     (case state of
        STARTING \<Rightarrow>
          let p = foldl (deliver code) p events; retval = (port_state p \<noteq> STARTING) in
          (retval \<and> port_state p = STARTED, p)
      | SUSPENDING \<Rightarrow>
          let p = foldl (deliver code) p events; retval = (port_state p \<noteq> SUSPENDING) in
          (retval \<and> port_state p = STANDBY, p)
      | _ \<Rightarrow> (False, p))"

text \<open>\<open>ok\<close> is the reply of the Bluetooth stack to the request.\<close>

definition Start ::
  "(session_type \<Rightarrow> u16) \<Rightarrow> bool \<Rightarrow> notification list \<Rightarrow> port \<Rightarrow> sessions \<Rightarrow>
   bool \<times> stack_call list \<times> port \<times> sessions" where
  "Start code ok events p m =
     (if \<not> in_use code p then (False, [], p, m)
      else if port_state p = STANDBY then
        let p = p\<lparr>port_state := STARTING\<rparr>;
            ((started, calls), m) = Control_StartStream ok (port_session_type p) False m
        in if started then (let (retval, p) = CondwaitState code STARTING events p in (retval, calls, p, m))
           else (False, calls, p, m)
      else (False, [], p, m))"

definition Suspend ::
  "(session_type \<Rightarrow> u16) \<Rightarrow> bool \<Rightarrow> notification list \<Rightarrow> port \<Rightarrow> sessions \<Rightarrow>
   bool \<times> stack_call list \<times> port \<times> sessions" where
  "Suspend code ok events p m =
     (if \<not> in_use code p then (False, [], p, m)
      else if port_state p = STARTED then
        let p = p\<lparr>port_state := SUSPENDING\<rparr>;
            ((suspended, calls), m) = Control_SuspendStream ok (port_session_type p) m
        in if suspended then (let (retval, p) = CondwaitState code SUSPENDING events p in (retval, calls, p, m))
           else (False, calls, p, m)
      else (False, [], p, m))"

definition Stop :: "(session_type \<Rightarrow> u16) \<Rightarrow> port \<Rightarrow> sessions \<Rightarrow> stack_call list \<times> port \<times> sessions" where
  "Stop code p m =
     (if \<not> in_use code p then ([], p, m)
      else
        let p = p\<lparr>port_state := DISABLED\<rparr>; (calls, m) = Control_StopStream (port_session_type p) m in
        (calls, p, m))"

definition GetState :: "port \<Rightarrow> stream_state" where "GetState p = port_state p"
definition SetState :: "stream_state \<Rightarrow> port \<Rightarrow> port" where "SetState st p = p\<lparr>port_state := st\<rparr>"

section \<open>Configuration\<close>

text \<open>
  The result of a query: the return value, and what is written through the pointer, \<^const>\<open>None\<close>
  when nothing is.
\<close>

definition GetPreferredDataIntervalUs ::
  "(session_type \<Rightarrow> u16) \<Rightarrow> config_defaults \<Rightarrow> port \<Rightarrow> sessions \<Rightarrow> (bool \<times> u64 option) ub" where
  "GetPreferredDataIntervalUs code d p m =
     (if \<not> in_use code p then Some (False, None)
      else do {
        cfg \<leftarrow> fst (Control_GetAudioConfig d (port_session_type p) m);
        case cfg of
          AC_pcmConfig pcm \<Rightarrow> Some (True, Some (word_of_int (pcm_dataIntervalUs pcm)))
        | _ \<Rightarrow> Some (False, None)
      })"

definition default_out_config :: audio_config where
  "default_out_config = \<lparr>cfg_sample_rate = kBluetoothDefaultSampleRate,
     cfg_channel_mask = kBluetoothDefaultOutputChannelModeMask,
     cfg_format = kBluetoothDefaultAudioFormatBitsPerSample\<rparr>"

definition default_in_config :: audio_config where
  "default_in_config = \<lparr>cfg_sample_rate = kBluetoothDefaultSampleRate,
     cfg_channel_mask = kBluetoothDefaultInputChannelModeMask,
     cfg_format = kBluetoothDefaultAudioFormatBitsPerSample\<rparr>"

definition Out_LoadAudioConfig ::
  "(session_type \<Rightarrow> u16) \<Rightarrow> config_defaults \<Rightarrow> port \<Rightarrow> sessions \<Rightarrow> (bool \<times> audio_config option) ub" where
  "Out_LoadAudioConfig code d p m =
     (if \<not> in_use code p then Some (False, Some default_out_config)
      else do {
        cfg \<leftarrow> fst (Control_GetAudioConfig d (port_session_type p) m);
        case cfg of
          AC_pcmConfig pcm \<Rightarrow>
            if pcm_channelMode pcm = CM_UNKNOWN then Some (False, None)
            else Some (True, Some \<lparr>
              cfg_sample_rate = word_of_int (pcm_sampleRateHz pcm),
              cfg_channel_mask = (if port_stereo_to_mono p then CHANNEL_OUT_STEREO
                 else OutputChannelModeToAudioFormat (pcm_channelMode pcm)),
              cfg_format = BitsPerSampleToAudioFormat (word_of_int (pcm_bitsPerSample pcm)) (port_session_type p)\<rparr>)
        | _ \<Rightarrow> Some (False, Some default_out_config)
      })"

definition In_LoadAudioConfig ::
  "(session_type \<Rightarrow> u16) \<Rightarrow> config_defaults \<Rightarrow> port \<Rightarrow> sessions \<Rightarrow> (bool \<times> audio_config option) ub" where
  "In_LoadAudioConfig code d p m =
     (if \<not> in_use code p then Some (False, Some default_in_config)
      else do {
        cfg \<leftarrow> fst (Control_GetAudioConfig d (port_session_type p) m);
        case cfg of
          AC_pcmConfig pcm \<Rightarrow>
            if pcm_channelMode pcm = CM_UNKNOWN then Some (False, None)
            else Some (True, Some \<lparr>
              cfg_sample_rate = word_of_int (pcm_sampleRateHz pcm),
              cfg_channel_mask = InputChannelModeToAudioFormat (pcm_channelMode pcm),
              cfg_format = BitsPerSampleToAudioFormat (word_of_int (pcm_bitsPerSample pcm)) (port_session_type p)\<rparr>)
        | _ \<Rightarrow> Some (False, Some default_in_config)
      })"

section \<open>The data path\<close>

text \<open>
  \<open>downmix\<close> is \<open>downmix_to_mono_i16_from_stereo_i16\<close> of the audio utilities: from the bytes of
  the source and a number of frames to the bytes of that many mono frames.
\<close>

definition WriteData ::
  "(session_type \<Rightarrow> u16) \<Rightarrow> ('b list \<Rightarrow> nat \<Rightarrow> 'b list) \<Rightarrow> (nat \<Rightarrow> pcm_obs) \<Rightarrow> 'b list option \<Rightarrow> nat \<Rightarrow> port \<Rightarrow>
   (nat \<times> 'b list) ub" where
  "WriteData code downmix env buffer bytes p =
     (if \<not> in_use code p then Some (0, [])
      else if \<not> port_stereo_to_mono p then OutWritePcmData env buffer bytes
      else
        let write_frames = drop_bit 2 bytes in
        if write_frames = 0 then Some (0, [])
        else case buffer of
            None \<Rightarrow> None
          | Some src \<Rightarrow> do {
              (n, out) \<leftarrow> OutWritePcmData env (Some (downmix src write_frames)) (write_frames * 2);
              Some (n * 2, out)
            })"

definition ReadData ::
  "(session_type \<Rightarrow> u16) \<Rightarrow> (nat \<Rightarrow> pcm_obs) \<Rightarrow> (nat \<Rightarrow> 'b list) \<Rightarrow> bool \<Rightarrow> nat \<Rightarrow> port \<Rightarrow> (nat \<times> 'b list) ub" where
  "ReadData code env src buffer_null bytes p =
     (if \<not> in_use code p then Some (0, []) else InReadPcmData env src buffer_null bytes)"

text \<open>
  \<open>zero\<close> is the value-initialised position. The three results are the delay, the byte count and the
  timestamp the call stores.
\<close>

definition Port_GetPresentationPosition ::
  "(session_type \<Rightarrow> u16) \<Rightarrow> bool \<times> presentation_position \<Rightarrow> presentation_position \<Rightarrow> port \<Rightarrow> sessions \<Rightarrow>
   bool \<times> (u64 \<times> u64 \<times> int \<times> int) option" where
  "Port_GetPresentationPosition code reply zero p m =
     (if \<not> in_use code p then (False, None)
      else
        let ((retval, pos, _), _) = Control_GetPresentationPosition reply (port_session_type p) zero m in
        (retval, Some (word_of_int (pp_remoteDeviceAudioDelayNanos pos), word_of_int (pp_transmittedOctets pos),
           pp_tvSec pos, pp_tvNSec pos)))"

section \<open>Metadata\<close>

record 'base track_v7 =
  v7_base :: 'base
  v7_tags :: string

definition Port_UpdateSourceMetadata ::
  "(session_type \<Rightarrow> u16) \<Rightarrow> nat \<Rightarrow> u32 \<Rightarrow> bool \<Rightarrow> nat \<Rightarrow> playback_track_metadata track_v7 list \<Rightarrow> port \<Rightarrow> sessions \<Rightarrow>
   stack_call list ub" where
  "Port_UpdateSourceMetadata code max_size default_gain ok track_count tracks p m =
     (if \<not> in_use code p then Some []
      else if track_count = 0 then Some []
      else do {
        ts \<leftarrow> copy_tracks (\<lambda>t. \<lparr>pt_usage = ct_usage (v7_base t), pt_content_type = ct_content_type (v7_base t),
            pt_gain = default_gain, pt_tags = CovertAudioTagFromV7 max_size (v7_tags t)\<rparr>) tracks 0 track_count;
        Some (snd (fst (Control_UpdateSourceMetadata_aidl ok (port_session_type p) ts m)))
      })"

definition Port_UpdateSinkMetadata ::
  "(session_type \<Rightarrow> u16) \<Rightarrow> nat \<Rightarrow> bool \<Rightarrow> nat \<Rightarrow> record_track_metadata track_v7 list \<Rightarrow> port \<Rightarrow> sessions \<Rightarrow>
   stack_call list ub" where
  "Port_UpdateSinkMetadata code max_size ok track_count tracks p m =
     (if \<not> in_use code p then Some []
      else if track_count = 0 then Some []
      else do {
        ts \<leftarrow> copy_tracks (\<lambda>t. \<lparr>rt_source = kt_source (v7_base t), rt_gain = kt_gain (v7_base t),
            rt_tags = CovertAudioTagFromV7 max_size (v7_tags t)\<rparr>) tracks 0 track_count;
        Some (snd (fst (Control_UpdateSinkMetadata_aidl ok (port_session_type p) ts m)))
      })"

section \<open>Set-up and tear-down\<close>

lemma SetUp_eq:
  "SetUp code dev p m =
     (case device_session_type dev of
        None \<Rightarrow> Some (False, p, m)
      | Some st \<Rightarrow>
          if IsSessionReady (session_of st m) then
            let (c, s') = RegisterStatusCback code (port_callbacks p) (session_of st m) in
            Some (c \<noteq> kObserversCookieUndefined code,
                  p\<lparr>port_session_type := st, port_state := STANDBY, port_cookie := c\<rparr>, m(st \<mapsto> s'))
          else Some (False, p\<lparr>port_session_type := st\<rparr>, snd (GetSessionInstance st m)))"
proof (cases "device_session_type dev")
  case None
  then show ?thesis by (simp add: SetUp_def init_session_type_def)
next
  case (Some st)
  have u: "(snd (GetSessionInstance st m))(st \<mapsto> s) = m(st \<mapsto> s)" for s
    by (simp add: GetSessionInstance_def split: option.split)
  show ?thesis
    using Some by (simp add: SetUp_def init_session_type_def Control_IsSessionReady_def read_session_eq
        Control_RegisterControlResultCback_def on_session_eq port_callbacks_def u case_prod_beta Let_def
        split: prod.split)
qed

lemma TearDown_eq:
  "in_use code p \<Longrightarrow> TearDown code p m =
     Some (p\<lparr>port_cookie := kObserversCookieUndefined code\<rparr>,
           m(port_session_type p \<mapsto> UnregisterStatusCback (port_cookie p) (session_of (port_session_type p) m)))"
  by (simp add: TearDown_def Control_UnregisterControlResultCback_def on_session_eq)

text \<open>A port that is registered: its session has its callbacks under its cookie.\<close>

definition registered :: "(session_type \<Rightarrow> u16) \<Rightarrow> port \<Rightarrow> sessions \<Rightarrow> bool" where
  "registered code p m \<longleftrightarrow> in_use code p \<and>
     map_of (s_observers (session_of (port_session_type p) m)) (port_cookie p) = Some (port_callbacks p)"

definition registries_ok :: "(session_type \<Rightarrow> u16) \<Rightarrow> sessions \<Rightarrow> bool" where
  "registries_ok code m \<longleftrightarrow>
     (\<forall>st. st \<noteq> ST_UNKNOWN \<longrightarrow> registry_inv code (session_of st m) \<and> s_session_type (session_of st m) = st)"

lemma device_session_known: "device_session_type dev = Some st \<Longrightarrow> st \<noteq> ST_UNKNOWN"
  by (cases dev) auto

lemma callbacks_upd [simp]:
  "port_callbacks (p\<lparr>port_state := a\<rparr>) = port_callbacks p"
  "port_callbacks (p\<lparr>port_cookie := c\<rparr>) = port_callbacks p"
  "port_callbacks (p\<lparr>port_session_type := st\<rparr>) = port_callbacks p"
  by (simp_all add: port_callbacks_def)

lemma SetUp_outcome:
  assumes "registries_ok code m" "\<not> in_use code p"
  obtains r p' m' where "SetUp code dev p m = Some (r, p', m')"
    "registries_ok code m'"
    "r \<longleftrightarrow> (\<exists>st. device_session_type dev = Some st \<and> IsSessionReady (session_of st m) \<and>
                length (s_observers (session_of st m)) < 16)"
    "r = in_use code p'" "r \<longrightarrow> registered code p' m' \<and> port_state p' = STANDBY \<and>
       device_session_type dev = Some (port_session_type p')"
    "r \<longrightarrow> (\<forall>st. map_of (s_observers (session_of st m')) =
         (if st = port_session_type p' then (map_of (s_observers (session_of st m)))(port_cookie p' \<mapsto> port_callbacks p)
          else map_of (s_observers (session_of st m)))) \<and>
       map_of (s_observers (session_of (port_session_type p') m)) (port_cookie p') = None"
    "\<not> r \<longrightarrow> (\<forall>st. session_of st m' = session_of st m)"
proof (cases "device_session_type dev")
  case None
  then show thesis using that [of False p m] assms by (simp add: SetUp_eq)
next
  case (Some st)
  note st = device_session_known [OF this]
  let ?s = "session_of st m"
  have inv: "registry_inv code ?s" and ty: "s_session_type ?s = st" using assms(1) st by (auto simp: registries_ok_def)
  show thesis
  proof (cases "IsSessionReady ?s")
    case False
    then show thesis
      using that [of False "p\<lparr>port_session_type := st\<rparr>" "snd (GetSessionInstance st m)"] Some assms
      by (simp add: SetUp_eq registries_ok_def in_use_def)
  next
    case True
    obtain c s' where r: "RegisterStatusCback code (port_callbacks p) ?s = (c, s')" by fastforce
    have i': "registry_inv code s'" by (rule aidl.reg_inv [OF inv r])
    have t': "s_session_type s' = st" using register_state [OF r] ty by auto
    have ok': "registries_ok code (m(st \<mapsto> s'))"
      using assms(1) i' t' by (simp add: registries_ok_def session_of_upd)
    have full: "c = kObserversCookieUndefined code \<longleftrightarrow> length (s_observers ?s) = 16"
      using register_fails_iff [OF inv, of "port_callbacks p"] r by simp
    have le: "length (s_observers ?s) \<le> 16" by (rule observers_at_most_16 [OF inv])
    let ?p = "p\<lparr>port_session_type := st, port_state := STANDBY, port_cookie := c\<rparr>"
    have e: "SetUp code dev p m = Some (c \<noteq> kObserversCookieUndefined code, ?p, m(st \<mapsto> s'))"
      using Some True r by (simp add: SetUp_eq)
    show thesis
    proof (cases "c = kObserversCookieUndefined code")
      case un: True
      then have "s' = ?s" using aidl.reg_full [OF inv] r by simp
      then show thesis
        using that [OF e ok'] un full Some by (auto simp: in_use_def session_of_upd)
    next
      case False
      have new: "map_of (s_observers ?s) c = None \<and>
          map_of (s_observers s') = (map_of (s_observers ?s))(c \<mapsto> port_callbacks p)"
        by (rule aidl.reg_new [OF inv r False])
      show thesis
        using that [OF e ok'] False full le new Some True
        by (auto simp: in_use_def session_of_upd registered_def)
    qed
  qed
qed

lemma TearDown_observers:
  assumes "in_use code p" "TearDown code p m = Some (p', m')"
  shows "\<not> in_use code p'"
    and "map_of (s_observers (session_of st m')) =
       (if st = port_session_type p then (map_of (s_observers (session_of st m)))(port_cookie p := None)
        else map_of (s_observers (session_of st m)))"
  using assms by (auto simp: TearDown_eq in_use_def session_of_upd aidl.unreg_observer)


section \<open>The state machine of a port\<close>

text \<open>
  The notifications that reach a port are those that name it and its cookie. Abstractly a port is an
  automaton over them: \<^term>\<open>Some status\<close> is the answer to a request, \<^const>\<open>None\<close> a change of the
  session.
\<close>

fun own_event :: "port \<Rightarrow> notification \<Rightarrow> bluetooth_audio_status option option" where
  "own_event p (N_control_result client cookie start_resp status) =
     (if client = port_id p \<and> cookie = port_cookie p then Some (Some status) else None)"
| "own_event p (N_session_changed client cookie) =
     (if client = port_id p \<and> cookie = port_cookie p then Some None else None)"
| "own_event p _ = None"

definition own_events :: "port \<Rightarrow> notification list \<Rightarrow> bluetooth_audio_status option list" where
  "own_events p ns = List.map_filter (own_event p) ns"

fun port_auto :: "stream_state \<Rightarrow> bluetooth_audio_status option \<Rightarrow> stream_state" where
  "port_auto _ None = DISABLED"
| "port_auto STARTED (Some st) = (if st = BAS_SUCCESS \<or> st = BAS_RECONFIGURATION then STANDBY else STARTED)"
| "port_auto STARTING (Some st) = (if st = BAS_SUCCESS then STARTED else STANDBY)"
| "port_auto SUSPENDING (Some st) = (if st = BAS_SUCCESS then STANDBY else DISABLED)"
| "port_auto s (Some _) = s"

lemma deliver_auto:
  assumes "in_use code p"
  shows "deliver code p n =
     (case own_event p n of None \<Rightarrow> p | Some e \<Rightarrow> p\<lparr>port_state := port_auto (port_state p) e\<rparr>)"
  using assms
  by (cases n; cases "port_state p")
    (auto simp: control_result_cb_def session_changed_cb_def ControlResultHandler_def SessionChangedHandler_def)

lemma own_event_state [simp]: "own_event (p\<lparr>port_state := x\<rparr>) = own_event p"
proof
  show "own_event (p\<lparr>port_state := x\<rparr>) n = own_event p n" for n by (cases n) auto
qed

lemma in_use_state [simp]: "in_use code (p\<lparr>port_state := x\<rparr>) = in_use code p"
  by (simp add: in_use_def)

lemma deliver_events:
  assumes "in_use code p"
  shows "foldl (deliver code) p ns = p\<lparr>port_state := foldl port_auto (port_state p) (own_events p ns)\<rparr>"
  using assms
proof (induction ns arbitrary: p)
  case Nil
  then show ?case by (simp add: own_events_def List.map_filter_simps)
next
  case (Cons n ns)
  let ?q = "deliver code p n"
  have "foldl (deliver code) ?q ns = ?q\<lparr>port_state := foldl port_auto (port_state ?q) (own_events ?q ns)\<rparr>"
    by (rule Cons.IH) (use Cons.prems in \<open>auto simp: deliver_auto split: option.split\<close>)
  then show ?case using Cons.prems
    by (auto simp: deliver_auto own_events_def List.map_filter_simps split: option.split)
qed

lemma auto_DISABLED: "foldl port_auto DISABLED es = DISABLED"
proof (induction es)
  case (Cons e es)
  then show ?case by (cases e) auto
qed simp

lemma auto_STANDBY: "foldl port_auto STANDBY es = (if None \<in> set es then DISABLED else STANDBY)"
proof (induction es)
  case (Cons e es)
  then show ?case by (cases e) (auto simp: auto_DISABLED)
qed simp

lemma auto_STARTED:
  "foldl port_auto STARTED es = STARTED \<longleftrightarrow>
     (\<forall>e \<in> set es. e \<noteq> None \<and> e \<noteq> Some BAS_SUCCESS \<and> e \<noteq> Some BAS_RECONFIGURATION)"
proof (induction es)
  case (Cons e es)
  then show ?case by (cases e) (auto simp: auto_DISABLED auto_STANDBY)
qed simp

lemma auto_STARTING:
  "foldl port_auto STARTING es = STARTED \<longleftrightarrow>
     (\<exists>rest. es = Some BAS_SUCCESS # rest \<and>
        (\<forall>e \<in> set rest. e \<noteq> None \<and> e \<noteq> Some BAS_SUCCESS \<and> e \<noteq> Some BAS_RECONFIGURATION))"
proof (cases es)
  case (Cons e es')
  then show ?thesis by (cases e) (auto simp: auto_DISABLED auto_STANDBY auto_STARTED)
qed simp

lemma auto_SUSPENDING:
  "foldl port_auto SUSPENDING es = STANDBY \<longleftrightarrow> (\<exists>rest. es = Some BAS_SUCCESS # rest \<and> None \<notin> set rest)"
proof (cases es)
  case (Cons e es')
  then show ?thesis by (cases e) (auto simp: auto_DISABLED auto_STANDBY)
qed simp

lemma StartStream_result:
  "Control_StartStream ok st low m =
     ((IsSessionReady (session_of st m) \<and> ok,
       if IsSessionReady (session_of st m) then [SC_startStream low] else []), snd (GetSessionInstance st m))"
  by (simp add: Control_StartStream_def read_session_eq StartStream_def)

lemma SuspendStream_result:
  "Control_SuspendStream ok st m =
     ((IsSessionReady (session_of st m) \<and> ok,
       if IsSessionReady (session_of st m) then [SC_suspendStream] else []), snd (GetSessionInstance st m))"
  by (simp add: Control_SuspendStream_def read_session_eq SuspendStream_def)

lemma Start_eq:
  assumes "in_use code p"
  shows "Start code ok ns p m =
     (if port_state p \<noteq> STANDBY then (False, [], p, m)
      else
        let ready = IsSessionReady (session_of (port_session_type p) m);
            waits = ready \<and> ok;
            final = (if waits then foldl port_auto STARTING (own_events p ns) else STARTING)
        in (waits \<and> final = STARTED, if ready then [SC_startStream False] else [],
            p\<lparr>port_state := final\<rparr>, snd (GetSessionInstance (port_session_type p) m)))"
  using assms
  by (auto simp: Start_def StartStream_result CondwaitState_def deliver_events Let_def own_events_def)

lemma Suspend_eq:
  assumes "in_use code p"
  shows "Suspend code ok ns p m =
     (if port_state p \<noteq> STARTED then (False, [], p, m)
      else
        let ready = IsSessionReady (session_of (port_session_type p) m);
            waits = ready \<and> ok;
            final = (if waits then foldl port_auto SUSPENDING (own_events p ns) else SUSPENDING)
        in (waits \<and> final = STANDBY, if ready then [SC_suspendStream] else [],
            p\<lparr>port_state := final\<rparr>, snd (GetSessionInstance (port_session_type p) m)))"
  using assms
  by (auto simp: Suspend_def SuspendStream_result CondwaitState_def deliver_events Let_def own_events_def)

text \<open>A notification to every observer of a session reaches a registered port exactly once.\<close>

lemma own_events_broadcast:
  assumes "distinct (map fst obs)" "map_of obs (port_cookie p) = Some (port_callbacks p)"
    and "\<And>c cb. own_event p (f c cb) = (if cb_client cb = port_id p \<and> c = port_cookie p then Some ev else None)"
  shows "own_events p (map (\<lambda>(c, cb). f c cb) obs) = [ev]"
proof -
  have others: "own_events p (map (\<lambda>(c, cb). f c cb) xs) = []" if "port_cookie p \<notin> fst ` set xs" for xs
    using that by (induction xs) (auto simp: own_events_def List.map_filter_simps assms(3))
  show ?thesis using assms(1,2)
  proof (induction obs)
    case (Cons x obs)
    obtain c cb where o: "x = (c, cb)" by (cases x)
    show ?case
    proof (cases "c = port_cookie p")
      case True
      then have "own_events p (map (\<lambda>(c, cb). f c cb) obs) = []" using others [of obs] Cons.prems o by simp
      then show ?thesis
        using True Cons.prems o by (simp add: own_events_def List.map_filter_simps assms(3) port_callbacks_def)
    next
      case False
      then show ?thesis
        using Cons o by (simp add: own_events_def List.map_filter_simps assms(3))
    qed
  qed simp
qed

lemma registered_observer:
  assumes "registries_ok code m" "registered code p m" "port_session_type p \<noteq> ST_UNKNOWN"
  shows "distinct (map fst (s_observers (session_of (port_session_type p) m)))"
    and "map_of (s_observers (session_of (port_session_type p) m)) (port_cookie p) = Some (port_callbacks p)"
    and "in_use code p"
  using assms by (auto simp: registries_ok_def registered_def registry_inv_def)

lemma status_events:
  assumes "registries_ok code m" "registered code p m" "port_session_type p \<noteq> ST_UNKNOWN"
  shows "own_events p (map (\<lambda>(c, cb). N_control_result (cb_client cb) c b st)
     (s_observers (session_of (port_session_type p) m))) = [Some st]"
  by (rule own_events_broadcast) (use registered_observer [OF assms] in auto)

lemma change_events:
  assumes "registries_ok code m" "registered code p m" "port_session_type p \<noteq> ST_UNKNOWN"
  shows "own_events p (session_changed_all (session_of (port_session_type p) m)) = [None]"
  unfolding session_changed_all_def
  by (rule own_events_broadcast) (use registered_observer [OF assms] in auto)

section \<open>Tags\<close>

lemma strtok_tag:
  "sep \<notin> set t \<Longrightarrow> strtok sep (t @ rest) tok = strtok sep rest (tok @ t)"
  by (induction t arbitrary: tok) auto

definition join_tags :: "char \<Rightarrow> string list \<Rightarrow> string" where
  "join_tags sep ts = concat (map (\<lambda>t. t @ [sep]) ts)"

lemma strtok_join:
  "\<forall>t \<in> set ts. t \<noteq> [] \<and> sep \<notin> set t \<Longrightarrow> strtok sep (join_tags sep ts) [] = ts"
  by (induction ts) (auto simp: join_tags_def strtok_tag)

lemma strtok_tokens:
  "sep \<notin> set tok \<Longrightarrow> t \<in> set (strtok sep cs tok) \<Longrightarrow> t \<noteq> [] \<and> sep \<notin> set t"
  by (induction sep cs tok rule: strtok.induct) (auto split: if_splits)


section \<open>The data path\<close>

lemma OutWritePcmData_prefix:
  assumes "queue_present env" "bytes \<le> length buffer"
  obtains n where "OutWritePcmData env (Some buffer) bytes = Some (n, take n buffer)" "n \<le> bytes"
proof -
  obtain t w where w: "OutWrite_loop env buffer bytes 0 0 kFmqSendTimeoutMs [] = Some (t, w)"
    using OutWrite_loop_defined [OF assms(1)] by blast
  then have "t \<le> bytes \<and> w = take t buffer"
    using OutWrite_loop_sound [OF assms(2), of 0 env 0 _ t w] by simp
  then show thesis using that [of t] that [of 0] w by (cases "bytes = 0") (auto simp: OutWritePcmData_def)
qed

section \<open>Examples\<close>

definition example_port :: port where
  "example_port = (BluetoothAudioPortAidl example_code 7)"

definition example_sessions :: sessions where
  "example_sessions = [A2DP_SOFTWARE_ENCODING_DATAPATH \<mapsto> example_session]"

lemma example_sessions_ok: "registries_ok example_code example_sessions"
proof -
  have "registry_inv example_code (BluetoothAudioSession st)" if "st \<noteq> ST_UNKNOWN" for st
    using that numbering_example by (simp add: registry_inv_def BluetoothAudioSession_def)
  moreover have "registry_inv example_code example_session"
    by (rule session_reachable_registry [OF example_session_reachable numbering_example]) simp
  ultimately show ?thesis
    by (auto simp: registries_ok_def example_sessions_def GetSessionInstance_def BluetoothAudioSession_def
        example_session_def split: option.split)
qed

definition example_port_used :: port where
  "example_port_used = example_port\<lparr>port_cookie := 256, port_session_type := A2DP_SOFTWARE_ENCODING_DATAPATH,
     port_state := STANDBY\<rparr>"

lemma example_port_in_use: "in_use example_code example_port_used" "\<not> in_use example_code example_port"
  by (simp_all add: in_use_def example_port_used_def example_port_def BluetoothAudioPortAidl_def
      kObserversCookieUndefined_def)

section \<open>Properties\<close>

text \<open>C9: setting up an unused port succeeds exactly when the device is a Bluetooth device whose
  session is ready and has fewer than sixteen observers. Then the port is registered with that
  session in state \<open>STANDBY\<close>, and tearing it down restores the observers of every session; otherwise
  the port stays unused and no session changes.\<close>

theorem SetUp_TearDown:
  assumes "registries_ok code m" "\<not> in_use code p" "SetUp code dev p m = Some (r, p', m')"
  shows "(r \<longleftrightarrow> (\<exists>st. device_session_type dev = Some st \<and> IsSessionReady (session_of st m) \<and>
                length (s_observers (session_of st m)) < 16)) \<and>
     registries_ok code m' \<and>
     (\<not> r \<longrightarrow> \<not> in_use code p' \<and> (\<forall>st. session_of st m' = session_of st m)) \<and>
     (r \<longrightarrow> registered code p' m' \<and> port_state p' = STANDBY \<and>
        (\<exists>p'' m''. TearDown code p' m' = Some (p'', m'') \<and> \<not> in_use code p'' \<and>
           (\<forall>st. map_of (s_observers (session_of st m'')) = map_of (s_observers (session_of st m)))))"
proof (rule SetUp_outcome [OF assms(1,2), of dev])
  fix b q n
  assume o: "SetUp code dev p m = Some (b, q, n)" "registries_ok code n"
    "b \<longleftrightarrow> (\<exists>st. device_session_type dev = Some st \<and> IsSessionReady (session_of st m) \<and>
         length (s_observers (session_of st m)) < 16)"
    "b = in_use code q"
    "b \<longrightarrow> registered code q n \<and> port_state q = STANDBY \<and> device_session_type dev = Some (port_session_type q)"
    "b \<longrightarrow> (\<forall>st. map_of (s_observers (session_of st n)) =
         (if st = port_session_type q then (map_of (s_observers (session_of st m)))(port_cookie q \<mapsto> port_callbacks p)
          else map_of (s_observers (session_of st m)))) \<and>
       map_of (s_observers (session_of (port_session_type q) m)) (port_cookie q) = None"
    "\<not> b \<longrightarrow> (\<forall>st. session_of st n = session_of st m)"
  have e: "r = b" "p' = q" "m' = n" using o(1) assms(3) by simp_all
  have "\<exists>p'' m''. TearDown code q n = Some (p'', m'') \<and> \<not> in_use code p'' \<and>
      (\<forall>st. map_of (s_observers (session_of st m'')) = map_of (s_observers (session_of st m)))" if b
  proof -
    have u: "in_use code q" using that o(4) by simp
    obtain p'' m'' where t: "TearDown code q n = Some (p'', m'')" using TearDown_eq [OF u] by blast
    have "map_of (s_observers (session_of st m'')) = map_of (s_observers (session_of st m))" for st
      using that o(6) TearDown_observers(2) [OF u t, of st] by (auto simp: fun_upd_idem_iff)
    then show ?thesis using t TearDown_observers(1) [OF u t] by blast
  qed
  then show ?thesis unfolding e using o by blast
qed

theorem SetUp_TearDown_witness:
  "\<exists>p' m'. SetUp example_code OUT_BLUETOOTH_A2DP example_port example_sessions = Some (True, p', m') \<and>
     registered example_code p' m' \<and> port_state p' = STANDBY"
proof -
  obtain r p' m' where s: "SetUp example_code OUT_BLUETOOTH_A2DP example_port example_sessions = Some (r, p', m')"
    by (auto intro: SetUp_outcome [OF example_sessions_ok example_port_in_use(2), of OUT_BLUETOOTH_A2DP])
  have "\<exists>st. device_session_type OUT_BLUETOOTH_A2DP = Some st \<and> IsSessionReady (session_of st example_sessions) \<and>
      length (s_observers (session_of st example_sessions)) < 16"
    using example_session_ready by (simp add: example_sessions_def GetSessionInstance_def example_session_def)
  note a = this
  note b = SetUp_TearDown [OF example_sessions_ok example_port_in_use(2) s]
  have r using a conjunct1 [OF b] by iprover
  then have "registered example_code p' m'" "port_state p' = STANDBY" using b by iprover+
  then show ?thesis using s \<open>r\<close> by simp
qed

text \<open>C8: a port in use answers \<open>true\<close> to \<open>Start\<close> exactly when it was in \<open>STANDBY\<close>, its session is
  ready, the stack accepted the request, and of the notifications that name the port and its cookie
  during the wait the first is a success and none after it is a success, a reconfiguration or a
  change of the session; it is then \<open>STARTED\<close>. It answers \<open>true\<close> to \<open>Suspend\<close> exactly when it was
  \<open>STARTED\<close>, the session is ready, the stack accepted, the first such notification is a success and
  the session does not change; it is then in \<open>STANDBY\<close>.\<close>

theorem Start_Suspend_results:
  assumes "in_use code p"
    and "Start code ok ns p m = (r, calls, q, m')" "Suspend code ok ns p m = (r', calls', q', m'')"
  shows "(r \<longleftrightarrow> port_state p = STANDBY \<and> IsSessionReady (session_of (port_session_type p) m) \<and> ok \<and>
        (\<exists>rest. own_events p ns = Some BAS_SUCCESS # rest \<and>
           (\<forall>e \<in> set rest. e \<noteq> None \<and> e \<noteq> Some BAS_SUCCESS \<and> e \<noteq> Some BAS_RECONFIGURATION))) \<and>
     (r \<longrightarrow> port_state q = STARTED \<and> calls = [SC_startStream False]) \<and>
     (r' \<longleftrightarrow> port_state p = STARTED \<and> IsSessionReady (session_of (port_session_type p) m) \<and> ok \<and>
        (\<exists>rest. own_events p ns = Some BAS_SUCCESS # rest \<and> None \<notin> set rest)) \<and>
     (r' \<longrightarrow> port_state q' = STANDBY \<and> calls' = [SC_suspendStream])"
proof -
  let ?st = "foldl port_auto STARTING (own_events p ns)" and ?su = "foldl port_auto SUSPENDING (own_events p ns)"
  let ?ready = "IsSessionReady (session_of (port_session_type p) m)"
  have s: "r \<longleftrightarrow> port_state p = STANDBY \<and> ?ready \<and> ok \<and> ?st = STARTED"
    "r \<longrightarrow> port_state q = STARTED \<and> calls = [SC_startStream False]"
    using assms(2) unfolding Start_eq [OF assms(1)] by (auto simp: Let_def split: if_splits)
  have u: "r' \<longleftrightarrow> port_state p = STARTED \<and> ?ready \<and> ok \<and> ?su = STANDBY"
    "r' \<longrightarrow> port_state q' = STANDBY \<and> calls' = [SC_suspendStream]"
    using assms(3) unfolding Suspend_eq [OF assms(1)] by (auto simp: Let_def split: if_splits)
  show ?thesis using s(2) u(2) unfolding s(1) u(1) auto_STARTING auto_SUSPENDING by iprover
qed

theorem Start_Suspend_results_witness:
  "\<exists>calls q m'. Start example_code True [N_control_result 3 256 True BAS_FAILURE, N_control_result 7 256 True BAS_SUCCESS]
     example_port_used example_sessions = (True, calls, q, m') \<and> port_state q = STARTED"
proof -
  let ?ns = "[N_control_result 3 256 True BAS_FAILURE, N_control_result 7 256 True BAS_SUCCESS]"
  obtain r calls q m' where s: "Start example_code True ?ns example_port_used example_sessions = (r, calls, q, m')"
    by (cases "Start example_code True ?ns example_port_used example_sessions")
  obtain r' calls' q' m'' where t: "Suspend example_code True ?ns example_port_used example_sessions = (r', calls', q', m'')"
    by (cases "Suspend example_code True ?ns example_port_used example_sessions")
  have "own_events example_port_used ?ns = [Some BAS_SUCCESS]"
    by (simp add: own_events_def List.map_filter_simps example_port_used_def example_port_def BluetoothAudioPortAidl_def)
  then show ?thesis
    using s Start_Suspend_results [OF example_port_in_use(1) s t] example_session_ready
    by (auto simp: example_port_used_def example_sessions_def GetSessionInstance_def)
qed

text \<open>C38: while a ready session has a queue, \<open>WriteData\<close> returns, and the count it reports is at
  most the number of bytes offered. In stereo mode the queue received exactly that prefix of the
  buffer; in mono mode it received a prefix of the down-mixed frames, half as many bytes as reported.
  The hypothesis on \<open>downmix\<close> is the size of its output.\<close>

theorem WriteData_sound:
  assumes "queue_present env" "bytes \<le> length buffer" "\<forall>src k. length (downmix src k) = k * 2"
  shows "\<exists>n out. WriteData code downmix env (Some buffer) bytes p = Some (n, out) \<and> n \<le> bytes \<and>
     (\<not> port_stereo_to_mono p \<longrightarrow> out = take n buffer) \<and>
     (port_stereo_to_mono p \<longrightarrow> 2 * length out = n \<and> out = take (n div 2) (downmix buffer (bytes div 4)))"
proof -
  let ?mono = "downmix buffer (bytes div 4)"
  have d: "drop_bit 2 bytes = bytes div 4" by (simp add: drop_bit_eq_div)
  obtain n where n: "OutWritePcmData env (Some buffer) bytes = Some (n, take n buffer)" "n \<le> bytes"
    using OutWritePcmData_prefix [OF assms(1,2)] .
  have "bytes div 4 * 2 \<le> length ?mono" using assms(3) by simp
  then obtain k where k: "OutWritePcmData env (Some ?mono) (bytes div 4 * 2) = Some (k, take k ?mono)"
    "k \<le> bytes div 4 * 2" using OutWritePcmData_prefix [OF assms(1)] by blast
  show ?thesis
  proof (cases "in_use code p \<and> (port_stereo_to_mono p \<longrightarrow> bytes div 4 \<noteq> 0)")
    case True
    then show ?thesis using n k assms(3) by (auto simp: WriteData_def d Let_def)
  next
    case False
    then show ?thesis by (auto simp: WriteData_def d Let_def)
  qed
qed

theorem WriteData_sound_witness:
  "\<exists>n out. WriteData example_code (\<lambda>src n. replicate (n * 2) (0 :: nat))
     (\<lambda>_. \<lparr>ob_session = example_session, ob_available = 64, ob_ok = True\<rparr>) (Some [1, 2, 3, 4, 5, 6, 7, 8]) 8
     (example_port_used\<lparr>port_stereo_to_mono := True\<rparr>) = Some (n, out) \<and> n \<le> 8 \<and> 2 * length out = n"
proof -
  let ?env = "\<lambda>_ :: nat. \<lparr>ob_session = example_session, ob_available = 64, ob_ok = True\<rparr>"
  have "queue_present ?env" by (simp add: queue_present_def example_session_def)
  from WriteData_sound [OF this, of 8 "[1, 2, 3, 4, 5, 6, 7, 8]" "\<lambda>src n. replicate (n * 2) (0 :: nat)"
      example_code "example_port_used\<lparr>port_stereo_to_mono := True\<rparr>"]
  show ?thesis by auto
qed

text \<open>The tags of a track are the non-empty pieces between semicolons of as much of the string
  as fits, so a list of tags joined by semicolons that fits is read back unchanged, and no tag is
  empty or contains a semicolon whatever the string.\<close>

lemma CovertAudioTagFromV7_roundtrip:
  "(t \<in> set (CovertAudioTagFromV7 n str) \<longrightarrow> t \<noteq> [] \<and> CHR '';'' \<notin> set t) \<and>
   ((\<forall>t \<in> set ts. t \<noteq> [] \<and> CHR '';'' \<notin> set t) \<and> length (join_tags CHR '';'' ts) < n \<longrightarrow>
     CovertAudioTagFromV7 n (join_tags CHR '';'' ts) = ts)"
  using strtok_join [of ts "CHR '';''"] strtok_tokens [of "CHR '';''" "[]" t "strlcpy str n"]
  by (auto simp: CovertAudioTagFromV7_def strlcpy_def)

lemma CovertAudioTagFromV7_roundtrip_witness:
  "CovertAudioTagFromV7 400 ''VX_AOSP_a;b;'' = [''VX_AOSP_a'', ''b'']"
  using CovertAudioTagFromV7_roundtrip [of "''''" 400 "''''" "[''VX_AOSP_a'', ''b'']"]
  by (simp add: join_tags_def)

end
