(* ===== verification/Hidl_Codecs.thy ===== *)
theory Hidl_Codecs
  imports Audio_Types
begin

text \<open>
  The data of the HIDL interfaces 2.0 and 2.1, and \<^verbatim>\<open>bluetooth/audio/utils/session\<close>: the database of
  supported codecs (\<open>BluetoothAudioSupportedCodecsDB.cpp\<close> and \<open>BluetoothAudioSupportedCodecsDB_2_1.cpp\<close>).

  Most HIDL enumerations are used as bit sets, and a value of one may be any combination of its
  enumerators; such a value is a word here. The numbers of the enumerators come from interface files
  outside the repository: \<open>hidl_consts\<close> holds them, and \<open>hidl_consts_ok\<close> is what those files
  document, one bit per enumerator within the field of its enumeration.
\<close>

section \<open>Enumerations\<close>

datatype hidl_session_type =
    HST_UNKNOWN
  | HST_A2DP_SOFTWARE_ENCODING_DATAPATH
  | HST_A2DP_HARDWARE_OFFLOAD_DATAPATH
  | HST_HEARING_AID_SOFTWARE_ENCODING_DATAPATH
  | HST_LE_AUDIO_SOFTWARE_ENCODING_DATAPATH
  | HST_LE_AUDIO_SOFTWARE_DECODED_DATAPATH
  | HST_LE_AUDIO_HARDWARE_OFFLOAD_ENCODING_DATAPATH
  | HST_LE_AUDIO_HARDWARE_OFFLOAD_DECODING_DATAPATH

datatype hidl_codec_type = HC_UNKNOWN | HC_SBC | HC_AAC | HC_APTX | HC_APTX_HD | HC_LDAC

text \<open>The named enumerators; the rates 8000 and 32000 are those version 2.1 adds.\<close>

datatype h_rate =
    RATE_44100 | RATE_48000 | RATE_88200 | RATE_96000 | RATE_176400 | RATE_192000 | RATE_16000 | RATE_24000
  | RATE_8000 | RATE_32000
datatype h_bits = BITS_16 | BITS_24 | BITS_32
datatype h_channel = HCH_MONO | HCH_STEREO
datatype h_sbc_channel = SBC_JOINT_STEREO | SBC_STEREO | SBC_DUAL | SBC_MONO
datatype h_sbc_block = BLOCKS_4 | BLOCKS_8 | BLOCKS_12 | BLOCKS_16
datatype h_sbc_subband = SUBBAND_4 | SUBBAND_8
datatype h_sbc_alloc = H_ALLOC_MD_S | H_ALLOC_MD_L
datatype h_aac_object = H_MPEG2_LC | H_MPEG4_LC | H_MPEG4_LTP | H_MPEG4_SCALABLE
datatype h_ldac_channel = LDAC_STEREO | LDAC_DUAL | LDAC_MONO
datatype h_ldac_quality = QUALITY_HIGH | QUALITY_MID | QUALITY_LOW | QUALITY_ABR

record hidl_consts =
  k_rate :: "h_rate \<Rightarrow> u32"
  k_bits :: "h_bits \<Rightarrow> u32"
  k_channel :: "h_channel \<Rightarrow> u32"
  k_sbc_channel :: "h_sbc_channel \<Rightarrow> u32"
  k_sbc_block :: "h_sbc_block \<Rightarrow> u32"
  k_sbc_subband :: "h_sbc_subband \<Rightarrow> u32"
  k_sbc_alloc :: "h_sbc_alloc \<Rightarrow> u32"
  k_aac_object :: "h_aac_object \<Rightarrow> u32"
  k_ldac_channel :: "h_ldac_channel \<Rightarrow> u32"
  k_ldac_quality :: "h_ldac_quality \<Rightarrow> u32"

section \<open>Parameters\<close>

text \<open>The \<open>UNKNOWN\<close> enumerators of the bit sets have no bit.\<close>

record hidl_pcm =
  hp_sampleRate :: u32
  hp_channelMode :: u32
  hp_bitsPerSample :: u32

record hidl_pcm_2_1 =
  hp1_sampleRate :: u32
  hp1_channelMode :: u32
  hp1_bitsPerSample :: u32
  hp1_dataIntervalUs :: u32

record sbc_parameters =
  hs_sampleRate :: u32
  hs_channelMode :: u32
  hs_blockLength :: u32
  hs_numSubbands :: u32
  hs_allocMethod :: u32
  hs_bitsPerSample :: u32
  hs_minBitpool :: u8
  hs_maxBitpool :: u8

record aac_parameters =
  ha_objectType :: u32
  ha_sampleRate :: u32
  ha_channelMode :: u32
  ha_variableBitRateEnabled :: bool
  ha_bitsPerSample :: u32

record ldac_parameters =
  hl_sampleRate :: u32
  hl_channelMode :: u32
  hl_qualityIndex :: u32
  hl_bitsPerSample :: u32

record aptx_parameters =
  hx_sampleRate :: u32
  hx_channelMode :: u32
  hx_bitsPerSample :: u32

text \<open>The parameters of a codec, as a configuration (one choice) or as a capability (the choices).\<close>

datatype hidl_codec_specific =
    HS_sbc sbc_parameters
  | HS_aac aac_parameters
  | HS_ldac ldac_parameters
  | HS_aptx aptx_parameters

record hidl_codec_configuration =
  hcc_codecType :: hidl_codec_type
  hcc_encodedAudioBitrate :: u32
  hcc_peerMtu :: u32
  hcc_isScmstEnabled :: bool
  hcc_config :: hidl_codec_specific

record hidl_codec_capabilities =
  hck_codecType :: hidl_codec_type
  hck_capabilities :: hidl_codec_specific

section \<open>The capabilities\<close>

definition H_kDefaultSoftwarePcmCapabilities :: "hidl_consts \<Rightarrow> hidl_pcm" where
  "H_kDefaultSoftwarePcmCapabilities k = \<lparr>
     hp_sampleRate = k_rate k RATE_44100 OR k_rate k RATE_48000 OR k_rate k RATE_88200 OR k_rate k RATE_96000 OR
       k_rate k RATE_16000 OR k_rate k RATE_24000,
     hp_channelMode = k_channel k HCH_MONO OR k_channel k HCH_STEREO,
     hp_bitsPerSample = k_bits k BITS_16 OR k_bits k BITS_24 OR k_bits k BITS_32\<rparr>"

definition H_kDefaultOffloadSbcCapability :: "hidl_consts \<Rightarrow> sbc_parameters" where
  "H_kDefaultOffloadSbcCapability k = \<lparr>
     hs_sampleRate = k_rate k RATE_44100,
     hs_channelMode = k_sbc_channel k SBC_MONO OR k_sbc_channel k SBC_JOINT_STEREO,
     hs_blockLength = k_sbc_block k BLOCKS_4 OR k_sbc_block k BLOCKS_8 OR k_sbc_block k BLOCKS_12 OR
       k_sbc_block k BLOCKS_16,
     hs_numSubbands = k_sbc_subband k SUBBAND_8,
     hs_allocMethod = k_sbc_alloc k H_ALLOC_MD_L,
     hs_bitsPerSample = k_bits k BITS_16,
     hs_minBitpool = 2,
     hs_maxBitpool = 53\<rparr>"

definition H_kDefaultOffloadAacCapability :: "hidl_consts \<Rightarrow> aac_parameters" where
  "H_kDefaultOffloadAacCapability k = \<lparr>
     ha_objectType = k_aac_object k H_MPEG2_LC,
     ha_sampleRate = k_rate k RATE_44100,
     ha_channelMode = k_channel k HCH_STEREO,
     ha_variableBitRateEnabled = True,
     ha_bitsPerSample = k_bits k BITS_16\<rparr>"

definition H_kDefaultOffloadLdacCapability :: "hidl_consts \<Rightarrow> ldac_parameters" where
  "H_kDefaultOffloadLdacCapability k = \<lparr>
     hl_sampleRate = k_rate k RATE_44100 OR k_rate k RATE_48000 OR k_rate k RATE_88200 OR k_rate k RATE_96000,
     hl_channelMode = k_ldac_channel k LDAC_DUAL OR k_ldac_channel k LDAC_STEREO,
     hl_qualityIndex = k_ldac_quality k QUALITY_HIGH,
     hl_bitsPerSample = k_bits k BITS_16 OR k_bits k BITS_24 OR k_bits k BITS_32\<rparr>"

definition H_kDefaultOffloadAptxCapability :: "hidl_consts \<Rightarrow> aptx_parameters" where
  "H_kDefaultOffloadAptxCapability k = \<lparr>
     hx_sampleRate = k_rate k RATE_44100 OR k_rate k RATE_48000,
     hx_channelMode = k_channel k HCH_STEREO,
     hx_bitsPerSample = k_bits k BITS_16\<rparr>"

definition H_kDefaultOffloadAptxHdCapability :: "hidl_consts \<Rightarrow> aptx_parameters" where
  "H_kDefaultOffloadAptxHdCapability k = \<lparr>
     hx_sampleRate = k_rate k RATE_44100 OR k_rate k RATE_48000,
     hx_channelMode = k_channel k HCH_STEREO,
     hx_bitsPerSample = k_bits k BITS_24\<rparr>"

definition H_GetSoftwarePcmCapabilities :: "hidl_consts \<Rightarrow> hidl_pcm list" where
  "H_GetSoftwarePcmCapabilities k = [H_kDefaultSoftwarePcmCapabilities k]"

text \<open>The loop over \<open>H_kDefaultOffloadA2dpCodecCapabilities\<close>; none of its entries has an unknown type.\<close>

definition H_kDefaultOffloadA2dpCodecCapabilities :: "hidl_codec_type list" where
  "H_kDefaultOffloadA2dpCodecCapabilities = [HC_SBC, HC_AAC, HC_LDAC, HC_APTX, HC_APTX_HD]"

fun offload_capability :: "hidl_consts \<Rightarrow> hidl_codec_type \<Rightarrow> hidl_codec_specific option" where
  "offload_capability k HC_SBC = Some (HS_sbc (H_kDefaultOffloadSbcCapability k))"
| "offload_capability k HC_AAC = Some (HS_aac (H_kDefaultOffloadAacCapability k))"
| "offload_capability k HC_LDAC = Some (HS_ldac (H_kDefaultOffloadLdacCapability k))"
| "offload_capability k HC_APTX = Some (HS_aptx (H_kDefaultOffloadAptxCapability k))"
| "offload_capability k HC_APTX_HD = Some (HS_aptx (H_kDefaultOffloadAptxHdCapability k))"
| "offload_capability k HC_UNKNOWN = None"

definition H_GetOffloadCodecCapabilities :: "hidl_consts \<Rightarrow> hidl_session_type \<Rightarrow> hidl_codec_capabilities list" where
  "H_GetOffloadCodecCapabilities k st =
     (if st \<noteq> HST_A2DP_HARDWARE_OFFLOAD_DATAPATH then []
      else List.map_filter (\<lambda>t. map_option (\<lambda>c. \<lparr>hck_codecType = t, hck_capabilities = c\<rparr>) (offload_capability k t))
        H_kDefaultOffloadA2dpCodecCapabilities)"

section \<open>Validation\<close>

text \<open>The loop of \<open>IsSingleBit\<close> at \<open>test_bit = 1 << n\<close>; it leaves at \<open>1 << 31\<close>.\<close>

function single_bit_loop :: "u32 \<Rightarrow> u32 \<Rightarrow> bool \<Rightarrow> nat \<Rightarrow> bool" where
  "single_bit_loop bitmasks bitfield single n =
     (let test_bit = push_bit n 1 in
      if test_bit \<le> bitmasks \<and> test_bit \<le> bitfield then
        let found = (bitfield AND test_bit \<noteq> 0 \<and> bitmasks AND test_bit \<noteq> 0) in
        if found \<and> single then False
        else if n \<ge> 31 then single \<or> found
        else single_bit_loop bitmasks bitfield (single \<or> found) (Suc n)
      else single)"
  by pat_completeness auto

termination single_bit_loop
  by (relation "measure (\<lambda>(_, _, _, n). 31 - n)") auto

declare single_bit_loop.simps [simp del]

definition IsSingleBit :: "u32 \<Rightarrow> u32 \<Rightarrow> bool" where
  "IsSingleBit bitmasks bitfield = single_bit_loop bitmasks bitfield False 0"

definition H_IsOffloadSbcConfigurationValid :: "hidl_consts \<Rightarrow> hidl_codec_specific \<Rightarrow> bool" where
  "H_IsOffloadSbcConfigurationValid k codec_specific =
     (case codec_specific of
        HS_sbc d \<Rightarrow>
          let c = H_kDefaultOffloadSbcCapability k in
          if \<not> IsSingleBit (hs_sampleRate d) 0xff \<or> \<not> IsSingleBit (hs_channelMode d) 0x0f \<or>
             \<not> IsSingleBit (hs_blockLength d) 0xf0 \<or> \<not> IsSingleBit (hs_numSubbands d) 0x0c \<or>
             \<not> IsSingleBit (hs_allocMethod d) 0x03 \<or> \<not> IsSingleBit (hs_bitsPerSample d) 0x07 \<or>
             hs_minBitpool d > hs_maxBitpool d then False
          else
            hs_sampleRate d AND hs_sampleRate c \<noteq> 0 \<and> hs_channelMode d AND hs_channelMode c \<noteq> 0 \<and>
            hs_blockLength d AND hs_blockLength c \<noteq> 0 \<and> hs_numSubbands d AND hs_numSubbands c \<noteq> 0 \<and>
            hs_allocMethod d AND hs_allocMethod c \<noteq> 0 \<and> hs_bitsPerSample d AND hs_bitsPerSample c \<noteq> 0 \<and>
            hs_minBitpool c \<le> hs_minBitpool d \<and> hs_maxBitpool d \<le> hs_maxBitpool c
      | _ \<Rightarrow> False)"

definition H_IsOffloadAacConfigurationValid :: "hidl_consts \<Rightarrow> hidl_codec_specific \<Rightarrow> bool" where
  "H_IsOffloadAacConfigurationValid k codec_specific =
     (case codec_specific of
        HS_aac d \<Rightarrow>
          let c = H_kDefaultOffloadAacCapability k in
          if \<not> IsSingleBit (ha_objectType d) 0xf0 \<or> \<not> IsSingleBit (ha_sampleRate d) 0xff \<or>
             \<not> IsSingleBit (ha_channelMode d) 0x03 \<or> \<not> IsSingleBit (ha_bitsPerSample d) 0x07 then False
          else
            ha_objectType d AND ha_objectType c \<noteq> 0 \<and> ha_sampleRate d AND ha_sampleRate c \<noteq> 0 \<and>
            ha_channelMode d AND ha_channelMode c \<noteq> 0 \<and>
            (\<not> ha_variableBitRateEnabled d \<or> ha_variableBitRateEnabled c) \<and>
            ha_bitsPerSample d AND ha_bitsPerSample c \<noteq> 0
      | _ \<Rightarrow> False)"

definition H_IsOffloadLdacConfigurationValid :: "hidl_consts \<Rightarrow> hidl_codec_specific \<Rightarrow> bool" where
  "H_IsOffloadLdacConfigurationValid k codec_specific =
     (case codec_specific of
        HS_ldac d \<Rightarrow>
          let c = H_kDefaultOffloadLdacCapability k in
          if \<not> IsSingleBit (hl_sampleRate d) 0xff \<or> \<not> IsSingleBit (hl_channelMode d) 0x07 \<or>
             (hl_qualityIndex d > k_ldac_quality k QUALITY_LOW \<and> hl_qualityIndex d \<noteq> k_ldac_quality k QUALITY_ABR) \<or>
             \<not> IsSingleBit (hl_bitsPerSample d) 0x07 then False
          else
            hl_sampleRate d AND hl_sampleRate c \<noteq> 0 \<and> hl_channelMode d AND hl_channelMode c \<noteq> 0 \<and>
            hl_bitsPerSample d AND hl_bitsPerSample c \<noteq> 0
      | _ \<Rightarrow> False)"

definition H_IsOffloadAptxConfigurationValid :: "hidl_consts \<Rightarrow> hidl_codec_specific \<Rightarrow> bool" where
  "H_IsOffloadAptxConfigurationValid k codec_specific =
     (case codec_specific of
        HS_aptx d \<Rightarrow>
          let c = H_kDefaultOffloadAptxCapability k in
          if \<not> IsSingleBit (hx_sampleRate d) 0xff \<or> \<not> IsSingleBit (hx_channelMode d) 0x03 \<or>
             \<not> IsSingleBit (hx_bitsPerSample d) 0x07 then False
          else
            hx_sampleRate d AND hx_sampleRate c \<noteq> 0 \<and> hx_channelMode d AND hx_channelMode c \<noteq> 0 \<and>
            hx_bitsPerSample d AND hx_bitsPerSample c \<noteq> 0
      | _ \<Rightarrow> False)"

definition H_IsOffloadAptxHdConfigurationValid :: "hidl_consts \<Rightarrow> hidl_codec_specific \<Rightarrow> bool" where
  "H_IsOffloadAptxHdConfigurationValid k codec_specific =
     (case codec_specific of
        HS_aptx d \<Rightarrow>
          let c = H_kDefaultOffloadAptxHdCapability k in
          if \<not> IsSingleBit (hx_sampleRate d) 0xff \<or> \<not> IsSingleBit (hx_channelMode d) 0x03 \<or>
             \<not> IsSingleBit (hx_bitsPerSample d) 0x07 then False
          else
            hx_sampleRate d AND hx_sampleRate c \<noteq> 0 \<and> hx_channelMode d AND hx_channelMode c \<noteq> 0 \<and>
            hx_bitsPerSample d AND hx_bitsPerSample c \<noteq> 0
      | _ \<Rightarrow> False)"

definition H_IsOffloadCodecConfigurationValid ::
  "hidl_consts \<Rightarrow> hidl_session_type \<Rightarrow> hidl_codec_configuration \<Rightarrow> bool" where
  "H_IsOffloadCodecConfigurationValid k st codec_config =
     (if st \<noteq> HST_A2DP_HARDWARE_OFFLOAD_DATAPATH then False
      else if hcc_encodedAudioBitrate codec_config < 0x00000001 \<or> 0x00ffffff < hcc_encodedAudioBitrate codec_config then False
      else
        let codec_specific = hcc_config codec_config in
        case hcc_codecType codec_config of
          HC_SBC \<Rightarrow> H_IsOffloadSbcConfigurationValid k codec_specific
        | HC_AAC \<Rightarrow> H_IsOffloadAacConfigurationValid k codec_specific
        | HC_LDAC \<Rightarrow> H_IsOffloadLdacConfigurationValid k codec_specific
        | HC_APTX \<Rightarrow> H_IsOffloadAptxConfigurationValid k codec_specific
        | HC_APTX_HD \<Rightarrow> H_IsOffloadAptxHdConfigurationValid k codec_specific
        | HC_UNKNOWN \<Rightarrow> False)"

text \<open>The enumerators the PCM validators accept, in the words of the enumerations.\<close>

definition H_IsSoftwarePcmConfigurationValid :: "hidl_consts \<Rightarrow> hidl_pcm \<Rightarrow> bool" where
  "H_IsSoftwarePcmConfigurationValid k c =
     (if (hp_sampleRate c \<noteq> k_rate k RATE_44100 \<and> hp_sampleRate c \<noteq> k_rate k RATE_48000 \<and>
          hp_sampleRate c \<noteq> k_rate k RATE_88200 \<and> hp_sampleRate c \<noteq> k_rate k RATE_96000 \<and>
          hp_sampleRate c \<noteq> k_rate k RATE_16000 \<and> hp_sampleRate c \<noteq> k_rate k RATE_24000) \<or>
         (hp_bitsPerSample c \<noteq> k_bits k BITS_16 \<and> hp_bitsPerSample c \<noteq> k_bits k BITS_24 \<and>
          hp_bitsPerSample c \<noteq> k_bits k BITS_32) \<or>
         (hp_channelMode c \<noteq> k_channel k HCH_MONO \<and> hp_channelMode c \<noteq> k_channel k HCH_STEREO) then False
      else
        let d = H_kDefaultSoftwarePcmCapabilities k in
        hp_sampleRate c AND hp_sampleRate d \<noteq> 0 \<and> hp_bitsPerSample c AND hp_bitsPerSample d \<noteq> 0 \<and>
        hp_channelMode c AND hp_channelMode d \<noteq> 0)"

section \<open>Version 2.1\<close>

definition is_2_0_session_type :: "hidl_session_type \<Rightarrow> bool" where
  "is_2_0_session_type st \<longleftrightarrow>
     st = HST_A2DP_SOFTWARE_ENCODING_DATAPATH \<or> st = HST_A2DP_HARDWARE_OFFLOAD_DATAPATH \<or>
     st = HST_HEARING_AID_SOFTWARE_ENCODING_DATAPATH"

definition kDefaultSoftwarePcmCapabilities_2_1 :: "hidl_consts \<Rightarrow> hidl_pcm_2_1" where
  "kDefaultSoftwarePcmCapabilities_2_1 k = \<lparr>
     hp1_sampleRate = k_rate k RATE_44100 OR k_rate k RATE_48000 OR k_rate k RATE_88200 OR k_rate k RATE_96000 OR
       k_rate k RATE_16000 OR k_rate k RATE_24000,
     hp1_channelMode = k_channel k HCH_MONO OR k_channel k HCH_STEREO,
     hp1_bitsPerSample = k_bits k BITS_16 OR k_bits k BITS_24 OR k_bits k BITS_32,
     hp1_dataIntervalUs = 0\<rparr>"

definition GetSoftwarePcmCapabilities_2_1 :: "hidl_consts \<Rightarrow> hidl_pcm_2_1 list" where
  "GetSoftwarePcmCapabilities_2_1 k = [kDefaultSoftwarePcmCapabilities_2_1 k]"

definition GetOffloadCodecCapabilities_2_1 :: "hidl_consts \<Rightarrow> hidl_session_type \<Rightarrow> hidl_codec_capabilities list" where
  "GetOffloadCodecCapabilities_2_1 k st = (if is_2_0_session_type st then H_GetOffloadCodecCapabilities k st else [])"

definition IsSoftwarePcmConfigurationValid_2_1 :: "hidl_consts \<Rightarrow> hidl_pcm_2_1 \<Rightarrow> bool" where
  "IsSoftwarePcmConfigurationValid_2_1 k c =
     (if (hp1_sampleRate c \<noteq> k_rate k RATE_44100 \<and> hp1_sampleRate c \<noteq> k_rate k RATE_48000 \<and>
          hp1_sampleRate c \<noteq> k_rate k RATE_88200 \<and> hp1_sampleRate c \<noteq> k_rate k RATE_96000 \<and>
          hp1_sampleRate c \<noteq> k_rate k RATE_16000 \<and> hp1_sampleRate c \<noteq> k_rate k RATE_24000) \<or>
         (hp1_bitsPerSample c \<noteq> k_bits k BITS_16 \<and> hp1_bitsPerSample c \<noteq> k_bits k BITS_24 \<and>
          hp1_bitsPerSample c \<noteq> k_bits k BITS_32) \<or>
         (hp1_channelMode c \<noteq> k_channel k HCH_MONO \<and> hp1_channelMode c \<noteq> k_channel k HCH_STEREO) then False
      else
        let d = kDefaultSoftwarePcmCapabilities_2_1 k in
        hp1_sampleRate c AND hp1_sampleRate d \<noteq> 0 \<and> hp1_bitsPerSample c AND hp1_bitsPerSample d \<noteq> 0 \<and>
        hp1_channelMode c AND hp1_channelMode d \<noteq> 0 \<and> hp1_dataIntervalUs c \<noteq> 0)"

definition IsOffloadCodecConfigurationValid_2_1 ::
  "hidl_consts \<Rightarrow> hidl_session_type \<Rightarrow> hidl_codec_configuration \<Rightarrow> bool" where
  "IsOffloadCodecConfigurationValid_2_1 k st codec_config =
     (if is_2_0_session_type st then H_IsOffloadCodecConfigurationValid k st codec_config else False)"

definition H_IsOffloadLeAudioConfigurationValid :: "hidl_session_type \<Rightarrow> bool" where
  "H_IsOffloadLeAudioConfigurationValid st =
     (if st \<noteq> HST_LE_AUDIO_HARDWARE_OFFLOAD_ENCODING_DATAPATH \<and>
         st \<noteq> HST_LE_AUDIO_HARDWARE_OFFLOAD_DECODING_DATAPATH then False else True)"

section \<open>Single bits\<close>

lemma unat_ge_bit: "bit (x :: u32) i \<Longrightarrow> 2 ^ i \<le> unat x"
proof -
  assume "bit x i"
  then have "bit (unat x) i" by (simp add: bit_unsigned_iff)
  then have "odd (unat x div 2 ^ i)" by (simp add: bit_iff_odd)
  then show ?thesis by (metis div_less even_zero linorder_not_le)
qed

lemma unat_push_one: "n < 32 \<Longrightarrow> unat (push_bit n 1 :: u32) = 2 ^ n"
proof -
  assume n: "n < 32"
  have "unat (push_bit n 1 :: u32) = unat (of_nat (2 ^ n) :: u32)" by simp
  also have "\<dots> = 2 ^ n mod 2 ^ 32" unfolding unat_of_nat by simp
  also have "\<dots> = 2 ^ n" using n by (intro mod_less power_strict_increasing) auto
  finally show ?thesis .
qed

lemma bit_exp32 [simp]: "bit (2 ^ n :: u32) i \<longleftrightarrow> i = n \<and> n < 32"
  by (auto simp: bit_exp_iff)

lemma bits_below: "(x :: u32) < push_bit n 1 \<Longrightarrow> n < 32 \<Longrightarrow> n \<le> i \<Longrightarrow> \<not> bit x i"
proof
  assume "x < push_bit n 1" "n < 32" "n \<le> i" "bit x i"
  then have "unat x < 2 ^ n" "2 ^ i \<le> unat x" using unat_ge_bit [of x i] unat_push_one [of n] by (simp_all add: word_less_nat_alt)
  moreover have "(2 :: nat) ^ n \<le> 2 ^ i" using \<open>n \<le> i\<close> by (rule power_increasing) simp
  ultimately show False by linarith
qed

lemma and_exp [simp]: "(x :: u32) AND 2 ^ n = 0 \<longleftrightarrow> \<not> bit x n"
proof
  assume "x AND 2 ^ n = 0"
  then have "\<not> bit (x AND 2 ^ n) n" by simp
  then show "\<not> bit x n" using bit_imp_le_length [of x n] by (auto simp: bit_and_iff)
next
  assume "\<not> bit x n"
  then show "x AND 2 ^ n = 0" by (intro bit_word_eqI) (auto simp: bit_and_iff)
qed

definition bits_from :: "nat \<Rightarrow> u32 \<Rightarrow> nat set" where
  "bits_from n x = {i. n \<le> i \<and> bit x i}"

lemma bits_from_Suc: "bits_from n x = (if bit x n then insert n (bits_from (Suc n) x) else bits_from (Suc n) x)"
  by (auto simp: bits_from_def le_Suc_eq Suc_le_eq order_le_less)

lemma single_bit_loop_correct:
  "n \<le> 31 \<Longrightarrow> single_bit_loop m f single n \<longleftrightarrow>
     (if single then bits_from n (m AND f) = {} else \<exists>j. bits_from n (m AND f) = {j})"
proof (induction m f single n rule: single_bit_loop.induct)
  case (1 m f single n)
  let ?t = "push_bit n 1 :: u32"
  let ?S = "bits_from (Suc n) (m AND f)"
  show ?case
  proof (cases "?t \<le> m \<and> ?t \<le> f")
    case False
    then have "bits_from n (m AND f) = {}"
      using bits_below [of m n] bits_below [of f n] 1(2) by (auto simp: bits_from_def bit_and_iff not_le)
    then show ?thesis using False by (subst single_bit_loop.simps) (simp only: Let_def if_False simp_thms, simp)
  next
    case True
    have found: "(f AND ?t \<noteq> 0 \<and> m AND ?t \<noteq> 0) \<longleftrightarrow> bit (m AND f) n" by (auto simp: bit_and_iff)
    have last: "?S = {}" if "n \<ge> 31"
      using that bit_imp_le_length [of "m AND f"] by (force simp: bits_from_def)
    have notin: "n \<notin> ?S" by (simp add: bits_from_def)
    have step: "single_bit_loop m f single n \<longleftrightarrow>
        (if bit (m AND f) n \<and> single then False
         else if n \<ge> 31 then single \<or> bit (m AND f) n
         else single_bit_loop m f (single \<or> bit (m AND f) n) (Suc n))"
      using True by (subst single_bit_loop.simps) (simp only: Let_def found simp_thms if_True)
    show ?thesis
    proof (cases "bit (m AND f) n \<and> single \<or> n \<ge> 31")
      case True
      then show ?thesis unfolding step bits_from_Suc [of n] using last by (auto split: if_splits)
    next
      case f: False
      have IH: "single_bit_loop m f (single \<or> bit (m AND f) n) (Suc n) \<longleftrightarrow>
          (if single \<or> bit (m AND f) n then ?S = {} else \<exists>j. ?S = {j})"
        using 1(1) [OF refl _ refl] True f unfolding found by auto
      show ?thesis using f IH notin unfolding step bits_from_Suc [of n] by (auto split: if_splits)
    qed
  qed
qed

definition one_bit :: "u32 \<Rightarrow> bool" where
  "one_bit x \<longleftrightarrow> (\<exists>n < 32. x = push_bit n 1)"

lemma one_bit_iff: "one_bit x \<longleftrightarrow> (\<exists>j. bits_from 0 x = {j})"
proof
  assume "one_bit x"
  then obtain n where "n < 32" "x = push_bit n 1" unfolding one_bit_def by blast
  then have "bits_from 0 x = {n}" by (auto simp: bits_from_def)
  then show "\<exists>j. bits_from 0 x = {j}" ..
next
  assume "\<exists>j. bits_from 0 x = {j}"
  then obtain j where j: "\<And>i. bit x i \<longleftrightarrow> i = j" by (auto simp: bits_from_def)
  then have "j < 32" using bit_imp_le_length [of x j] by simp
  then have "x = push_bit j 1" using j by (auto simp: bit_eq_iff bit_mask_word)
  then show "one_bit x" using \<open>j < 32\<close> unfolding one_bit_def by blast
qed

lemma IsSingleBit_iff: "IsSingleBit m f \<longleftrightarrow> one_bit (m AND f)"
  by (simp add: IsSingleBit_def single_bit_loop_correct one_bit_iff)

text \<open>\<open>picks\<close>: a value is one of the bits of a capability.\<close>

definition picks :: "u32 \<Rightarrow> u32 \<Rightarrow> bool" where
  "picks x cap \<longleftrightarrow> one_bit x \<and> x AND cap = x"

lemma picks_single:
  assumes "x AND f = x"
  shows "IsSingleBit x f \<and> x AND cap \<noteq> 0 \<longleftrightarrow> picks x cap"
proof -
  have "x AND cap \<noteq> 0 \<longleftrightarrow> x AND cap = x" if x: "one_bit x"
  proof -
    obtain n where n: "n < 32" "x = push_bit n 1" using x unfolding one_bit_def by blast
    have "x AND cap \<noteq> 0 \<longleftrightarrow> bit cap n" using and_exp [of cap n] unfolding n(2) by (simp add: and.commute)
    moreover have "x AND cap = x \<longleftrightarrow> bit cap n"
    proof
      assume "x AND cap = x"
      then have "bit (x AND cap) n" using n by simp
      then show "bit cap n" by (simp add: bit_and_iff)
    next
      assume "bit cap n"
      then show "x AND cap = x" unfolding n(2) by (intro bit_word_eqI) (auto simp: bit_and_iff)
    qed
    ultimately show ?thesis by blast
  qed
  then show ?thesis unfolding IsSingleBit_iff assms picks_def by blast
qed

section \<open>What the validators accept\<close>

text \<open>
  The interface files: every enumerator is one bit of the field of its enumeration (the two rates
  that version 2.1 adds are outside the field of version 2.0), and no two enumerators share it.
\<close>

definition in_field :: "u32 \<Rightarrow> u32 \<Rightarrow> bool" where
  "in_field f x \<longleftrightarrow> x AND f = x"

definition hidl_consts_ok :: "hidl_consts \<Rightarrow> bool" where
  "hidl_consts_ok k \<longleftrightarrow>
     inj (k_rate k) \<and> inj (k_bits k) \<and> inj (k_channel k) \<and>
     (\<forall>r. one_bit (k_rate k r)) \<and> (\<forall>b. one_bit (k_bits k b)) \<and> (\<forall>c. one_bit (k_channel k c)) \<and>
     (\<forall>c. one_bit (k_sbc_channel k c)) \<and> (\<forall>b. one_bit (k_sbc_block k b)) \<and> (\<forall>s. one_bit (k_sbc_subband k s)) \<and>
     (\<forall>a. one_bit (k_sbc_alloc k a)) \<and> (\<forall>a. one_bit (k_aac_object k a)) \<and> (\<forall>c. one_bit (k_ldac_channel k c)) \<and>
     (\<forall>r. r \<noteq> RATE_8000 \<and> r \<noteq> RATE_32000 \<longrightarrow> in_field 0xff (k_rate k r)) \<and>
     (\<forall>b. in_field 0x07 (k_bits k b)) \<and> (\<forall>c. in_field 0x03 (k_channel k c)) \<and>
     (\<forall>c. in_field 0x0f (k_sbc_channel k c)) \<and> (\<forall>b. in_field 0xf0 (k_sbc_block k b)) \<and>
     (\<forall>s. in_field 0x0c (k_sbc_subband k s)) \<and> (\<forall>a. in_field 0x03 (k_sbc_alloc k a)) \<and>
     (\<forall>a. in_field 0xf0 (k_aac_object k a)) \<and> (\<forall>c. in_field 0x07 (k_ldac_channel k c)) \<and>
     k_ldac_quality k QUALITY_HIGH \<le> k_ldac_quality k QUALITY_LOW"

text \<open>A configuration none of whose values has a bit outside the field of its enumeration.\<close>

fun in_fields :: "hidl_codec_specific \<Rightarrow> bool" where
  "in_fields (HS_sbc d) \<longleftrightarrow> in_field 0xff (hs_sampleRate d) \<and> in_field 0x0f (hs_channelMode d) \<and>
     in_field 0xf0 (hs_blockLength d) \<and> in_field 0x0c (hs_numSubbands d) \<and> in_field 0x03 (hs_allocMethod d) \<and>
     in_field 0x07 (hs_bitsPerSample d)"
| "in_fields (HS_aac d) \<longleftrightarrow> in_field 0xf0 (ha_objectType d) \<and> in_field 0xff (ha_sampleRate d) \<and>
     in_field 0x03 (ha_channelMode d) \<and> in_field 0x07 (ha_bitsPerSample d)"
| "in_fields (HS_ldac d) \<longleftrightarrow> in_field 0xff (hl_sampleRate d) \<and> in_field 0x07 (hl_channelMode d) \<and>
     in_field 0x07 (hl_bitsPerSample d)"
| "in_fields (HS_aptx d) \<longleftrightarrow> in_field 0xff (hx_sampleRate d) \<and> in_field 0x03 (hx_channelMode d) \<and>
     in_field 0x07 (hx_bitsPerSample d)"

text \<open>A configuration fits a capability of its kind when each of its values is one of those offered.\<close>

fun fits :: "hidl_consts \<Rightarrow> hidl_codec_specific \<Rightarrow> hidl_codec_specific \<Rightarrow> bool" where
  "fits k (HS_sbc d) (HS_sbc c) \<longleftrightarrow>
     picks (hs_sampleRate d) (hs_sampleRate c) \<and> picks (hs_channelMode d) (hs_channelMode c) \<and>
     picks (hs_blockLength d) (hs_blockLength c) \<and> picks (hs_numSubbands d) (hs_numSubbands c) \<and>
     picks (hs_allocMethod d) (hs_allocMethod c) \<and> picks (hs_bitsPerSample d) (hs_bitsPerSample c) \<and>
     hs_minBitpool c \<le> hs_minBitpool d \<and> hs_minBitpool d \<le> hs_maxBitpool d \<and> hs_maxBitpool d \<le> hs_maxBitpool c"
| "fits k (HS_aac d) (HS_aac c) \<longleftrightarrow>
     picks (ha_objectType d) (ha_objectType c) \<and> picks (ha_sampleRate d) (ha_sampleRate c) \<and>
     picks (ha_channelMode d) (ha_channelMode c) \<and> picks (ha_bitsPerSample d) (ha_bitsPerSample c) \<and>
     (ha_variableBitRateEnabled d \<longrightarrow> ha_variableBitRateEnabled c)"
| "fits k (HS_ldac d) (HS_ldac c) \<longleftrightarrow>
     picks (hl_sampleRate d) (hl_sampleRate c) \<and> picks (hl_channelMode d) (hl_channelMode c) \<and>
     picks (hl_bitsPerSample d) (hl_bitsPerSample c) \<and>
     (hl_qualityIndex d \<le> k_ldac_quality k QUALITY_LOW \<or> hl_qualityIndex d = k_ldac_quality k QUALITY_ABR)"
| "fits k (HS_aptx d) (HS_aptx c) \<longleftrightarrow>
     picks (hx_sampleRate d) (hx_sampleRate c) \<and> picks (hx_channelMode d) (hx_channelMode c) \<and>
     picks (hx_bitsPerSample d) (hx_bitsPerSample c)"
| "fits k _ _ \<longleftrightarrow> False"

lemma picks_nonzero: "picks x cap \<Longrightarrow> x AND cap \<noteq> 0"
proof -
  assume p: "picks x cap"
  then have "x \<noteq> 0" unfolding picks_def one_bit_iff by (auto simp: bits_from_def)
  then show "x AND cap \<noteq> 0" using p unfolding picks_def by metis
qed

lemma picks_or:
  "one_bit x \<Longrightarrow> picks x x" "one_bit x \<Longrightarrow> picks x (x OR y)" "picks x y \<Longrightarrow> picks x (z OR y)" "picks x y \<Longrightarrow> picks x (y OR z)"
  unfolding picks_def by (auto simp: bit_eq_iff bit_and_iff bit_or_iff)

lemma valid_field:
  "in_field f x \<Longrightarrow> IsSingleBit x f \<Longrightarrow> x AND cap \<noteq> 0 \<Longrightarrow> picks x cap"
  "in_field f x \<Longrightarrow> picks x cap \<Longrightarrow> IsSingleBit x f"
  using picks_single [of x f cap] by (auto simp: in_field_def)

lemma sbc_valid_iff:
  "in_fields s \<Longrightarrow> H_IsOffloadSbcConfigurationValid k s \<longleftrightarrow> fits k s (HS_sbc (H_kDefaultOffloadSbcCapability k))"
  by (cases s) (auto simp: H_IsOffloadSbcConfigurationValid_def Let_def not_less intro: valid_field dest: picks_nonzero)

lemma aac_valid_iff:
  "in_fields s \<Longrightarrow> H_IsOffloadAacConfigurationValid k s \<longleftrightarrow> fits k s (HS_aac (H_kDefaultOffloadAacCapability k))"
  by (cases s) (auto simp: H_IsOffloadAacConfigurationValid_def Let_def not_less intro: valid_field dest: picks_nonzero)

lemma ldac_valid_iff:
  "in_fields s \<Longrightarrow> H_IsOffloadLdacConfigurationValid k s \<longleftrightarrow> fits k s (HS_ldac (H_kDefaultOffloadLdacCapability k))"
  by (cases s) (auto simp: H_IsOffloadLdacConfigurationValid_def Let_def not_less intro: valid_field dest: picks_nonzero)

lemma aptx_valid_iff:
  "in_fields s \<Longrightarrow> H_IsOffloadAptxConfigurationValid k s \<longleftrightarrow> fits k s (HS_aptx (H_kDefaultOffloadAptxCapability k))"
  by (cases s) (auto simp: H_IsOffloadAptxConfigurationValid_def Let_def not_less intro: valid_field dest: picks_nonzero)

lemma aptx_hd_valid_iff:
  "in_fields s \<Longrightarrow> H_IsOffloadAptxHdConfigurationValid k s \<longleftrightarrow> fits k s (HS_aptx (H_kDefaultOffloadAptxHdCapability k))"
  by (cases s) (auto simp: H_IsOffloadAptxHdConfigurationValid_def Let_def not_less intro: valid_field dest: picks_nonzero)

lemmas offload_valid_iffs = sbc_valid_iff aac_valid_iff ldac_valid_iff aptx_valid_iff aptx_hd_valid_iff

text \<open>The HIDL validator of offload codec configurations accepts exactly what the advertised
  capabilities allow: for an A2DP offload session, a bitrate of 1 to 16777215, and an advertised capability
  of the codec, every value of the configuration being one of the values the capability lists.\<close>

lemma hidl_offload_validation_matches_advertisement:
  assumes "in_fields (hcc_config c)"
  shows "H_IsOffloadCodecConfigurationValid k st c \<longleftrightarrow>
     1 \<le> unat (hcc_encodedAudioBitrate c) \<and> unat (hcc_encodedAudioBitrate c) \<le> 0xffffff \<and>
     (\<exists>cap \<in> set (H_GetOffloadCodecCapabilities k st). hck_codecType cap = hcc_codecType c \<and>
        fits k (hcc_config c) (hck_capabilities cap))"
proof -
  have adv: "(\<exists>cap \<in> set (H_GetOffloadCodecCapabilities k st). hck_codecType cap = t \<and> P (hck_capabilities cap)) \<longleftrightarrow>
      st = HST_A2DP_HARDWARE_OFFLOAD_DATAPATH \<and> (\<exists>x. offload_capability k t = Some x \<and> P x)" for t P
    by (cases t) (auto simp: H_GetOffloadCodecCapabilities_def H_kDefaultOffloadA2dpCodecCapabilities_def List.map_filter_simps)
  have rate: "(hcc_encodedAudioBitrate c < 1 \<or> 0xffffff < hcc_encodedAudioBitrate c) \<longleftrightarrow>
      \<not> (1 \<le> unat (hcc_encodedAudioBitrate c) \<and> unat (hcc_encodedAudioBitrate c) \<le> 0xffffff)"
    by (auto simp: word_less_nat_alt)
  show ?thesis
    unfolding adv H_IsOffloadCodecConfigurationValid_def rate
    by (cases "hcc_codecType c") (auto simp: offload_valid_iffs [OF assms])
qed

text \<open>The numbers of the interface files.\<close>

definition hidl_values :: hidl_consts where
  "hidl_values = \<lparr>
     k_rate = case_h_rate 0x01 0x02 0x04 0x08 0x10 0x20 0x40 0x80 0x100 0x200,
     k_bits = case_h_bits 1 2 4,
     k_channel = case_h_channel 1 2,
     k_sbc_channel = case_h_sbc_channel 1 2 4 8,
     k_sbc_block = case_h_sbc_block 0x80 0x40 0x20 0x10,
     k_sbc_subband = case_h_sbc_subband 8 4,
     k_sbc_alloc = case_h_sbc_alloc 2 1,
     k_aac_object = case_h_aac_object 0x80 0x40 0x20 0x10,
     k_ldac_channel = case_h_ldac_channel 1 2 4,
     k_ldac_quality = case_h_ldac_quality 0 1 2 0x7f\<rparr>"

lemma one_bit_numerals:
  "one_bit 1" "one_bit 2" "one_bit 4" "one_bit 8" "one_bit 0x10" "one_bit 0x20" "one_bit 0x40" "one_bit 0x80"
  "one_bit 0x100" "one_bit 0x200"
  unfolding one_bit_def
  by (rule exI [of _ 0], simp, rule exI [of _ 1], simp, rule exI [of _ 2], simp, rule exI [of _ 3], simp,
      rule exI [of _ 4], simp, rule exI [of _ 5], simp, rule exI [of _ 6], simp, rule exI [of _ 7], simp,
      rule exI [of _ 8], simp, rule exI [of _ 9], simp)

lemma hidl_values_ok: "hidl_consts_ok hidl_values"
proof -
  have "inj (k_rate hidl_values)" "inj (k_bits hidl_values)" "inj (k_channel hidl_values)"
    by (auto simp: hidl_values_def inj_def split: h_rate.splits h_bits.splits h_channel.splits)
  then show ?thesis
    unfolding hidl_consts_ok_def
    by (auto simp: hidl_values_def in_field_def one_bit_numerals split: h_rate.split h_bits.split h_channel.split
        h_sbc_channel.split h_sbc_block.split h_sbc_subband.split h_sbc_alloc.split h_aac_object.split h_ldac_channel.split)
qed

definition sbc_44100 :: "hidl_codec_specific" where
  "sbc_44100 = HS_sbc \<lparr>hs_sampleRate = 1, hs_channelMode = 8, hs_blockLength = 0x10, hs_numSubbands = 4,
     hs_allocMethod = 1, hs_bitsPerSample = 1, hs_minBitpool = 2, hs_maxBitpool = 53\<rparr>"

lemma hidl_offload_validation_matches_advertisement_witness:
  "H_IsOffloadCodecConfigurationValid hidl_values HST_A2DP_HARDWARE_OFFLOAD_DATAPATH
      \<lparr>hcc_codecType = HC_SBC, hcc_encodedAudioBitrate = 328000, hcc_peerMtu = 1005, hcc_isScmstEnabled = False,
       hcc_config = sbc_44100\<rparr>"
  by (subst hidl_offload_validation_matches_advertisement)
     (auto simp: sbc_44100_def in_field_def H_GetOffloadCodecCapabilities_def List.map_filter_simps picks_def one_bit_numerals
       H_kDefaultOffloadA2dpCodecCapabilities_def H_kDefaultOffloadSbcCapability_def hidl_values_def)

text \<open>The PCM validators accept exactly the single advertised values; version 2.1 wants a data interval too.\<close>

definition advertised_rates :: "h_rate set" where
  "advertised_rates = {RATE_44100, RATE_48000, RATE_88200, RATE_96000, RATE_16000, RATE_24000}"

lemma one_bit_and_or: "one_bit x \<Longrightarrow> x AND (x OR y) \<noteq> 0" "one_bit x \<Longrightarrow> x AND y \<noteq> 0 \<Longrightarrow> x AND (z OR y) \<noteq> 0"
  "one_bit x \<Longrightarrow> x \<noteq> 0"
  by (auto simp: one_bit_iff bits_from_def bit.conj_disj_distrib or_eq_0_iff)

lemma hidl_pcm_valid_iff:
  assumes "hidl_consts_ok k"
  shows "H_IsSoftwarePcmConfigurationValid k c \<longleftrightarrow>
     hp_sampleRate c \<in> k_rate k ` advertised_rates \<and> hp_bitsPerSample c \<in> range (k_bits k) \<and>
     hp_channelMode c \<in> range (k_channel k)"
    and "IsSoftwarePcmConfigurationValid_2_1 k c1 \<longleftrightarrow>
     hp1_sampleRate c1 \<in> k_rate k ` advertised_rates \<and> hp1_bitsPerSample c1 \<in> range (k_bits k) \<and>
     hp1_channelMode c1 \<in> range (k_channel k) \<and> hp1_dataIntervalUs c1 \<noteq> 0"
proof -
  have u: "UNIV = {BITS_16, BITS_24, BITS_32}" "UNIV = {HCH_MONO, HCH_STEREO}"
    using h_bits.exhaust h_channel.exhaust by auto
  have ob: "one_bit (k_rate k r)" "one_bit (k_bits k b)" "one_bit (k_channel k ch)" for r b ch
    using assms by (auto simp: hidl_consts_ok_def)
  show "H_IsSoftwarePcmConfigurationValid k c \<longleftrightarrow>
     hp_sampleRate c \<in> k_rate k ` advertised_rates \<and> hp_bitsPerSample c \<in> range (k_bits k) \<and>
     hp_channelMode c \<in> range (k_channel k)"
    unfolding H_IsSoftwarePcmConfigurationValid_def Let_def u image_insert image_empty advertised_rates_def
    by (auto simp: H_kDefaultSoftwarePcmCapabilities_def ob one_bit_and_or)
  show "IsSoftwarePcmConfigurationValid_2_1 k c1 \<longleftrightarrow>
     hp1_sampleRate c1 \<in> k_rate k ` advertised_rates \<and> hp1_bitsPerSample c1 \<in> range (k_bits k) \<and>
     hp1_channelMode c1 \<in> range (k_channel k) \<and> hp1_dataIntervalUs c1 \<noteq> 0"
    unfolding IsSoftwarePcmConfigurationValid_2_1_def Let_def u image_insert image_empty advertised_rates_def
    by (auto simp: kDefaultSoftwarePcmCapabilities_2_1_def ob one_bit_and_or)
qed

end
