(* ===== verification/Hidl_Middleware.thy ===== *)
theory Hidl_Middleware
  imports Session_Laws Hidl_Codecs
begin

text \<open>
  \<^verbatim>\<open>bluetooth/audio/utils/aidl_session/HidlToAidlMiddleware.cpp\<close>: where the AIDL service is
  available, a HIDL session hands every call to the AIDL session of its type. The middleware
  converts session types, configurations and status codes, and keeps the legacy callbacks in a table, in
  which the callbacks it registers with the AIDL session look them up.

  \<open>LOG(FATAL)\<close> and an access to the wrong alternative of a union abort, which is \<^const>\<open>None\<close> here. A
  structure declared without an initialiser starts with arbitrary contents; \<open>hidl_init\<close> holds them, and the
  contents of value-initialised structures and unions.
\<close>

section \<open>Data\<close>

datatype hidl_audio_config = HAC_pcm hidl_pcm | HAC_codec hidl_codec_configuration

datatype lc3_frame_duration = DURATION_10000US | DURATION_7500US

record lc3_parameters =
  l3_pcmBitDepth :: u32
  l3_samplingFrequency :: u32
  l3_frameDuration :: lc3_frame_duration
  l3_octetsPerFrame :: u32
  l3_blocksPerSdu :: u32

record lc3_codec_configuration =
  l3c_lc3Config :: lc3_parameters
  l3c_audioChannelAllocation :: u32

datatype hidl_audio_config_2_1 =
    HAC1_pcm hidl_pcm_2_1
  | HAC1_codec hidl_codec_configuration
  | HAC1_leAudio lc3_codec_configuration

record hidl_init =
  i_sbc :: sbc_parameters
  i_lc3 :: lc3_parameters
  i_lc3_zero :: lc3_parameters
  i_specific :: hidl_codec_specific
  i_config :: hidl_audio_config
  i_config_2_1 :: hidl_audio_config_2_1

section \<open>Conversions\<close>

fun from_session_type_2_1 :: "hidl_session_type \<Rightarrow> session_type" where
  "from_session_type_2_1 HST_A2DP_SOFTWARE_ENCODING_DATAPATH = A2DP_SOFTWARE_ENCODING_DATAPATH"
| "from_session_type_2_1 HST_A2DP_HARDWARE_OFFLOAD_DATAPATH = A2DP_HARDWARE_OFFLOAD_ENCODING_DATAPATH"
| "from_session_type_2_1 HST_HEARING_AID_SOFTWARE_ENCODING_DATAPATH = HEARING_AID_SOFTWARE_ENCODING_DATAPATH"
| "from_session_type_2_1 HST_LE_AUDIO_SOFTWARE_ENCODING_DATAPATH = LE_AUDIO_SOFTWARE_ENCODING_DATAPATH"
| "from_session_type_2_1 HST_LE_AUDIO_SOFTWARE_DECODED_DATAPATH = LE_AUDIO_SOFTWARE_DECODING_DATAPATH"
| "from_session_type_2_1 HST_LE_AUDIO_HARDWARE_OFFLOAD_ENCODING_DATAPATH = LE_AUDIO_HARDWARE_OFFLOAD_ENCODING_DATAPATH"
| "from_session_type_2_1 HST_LE_AUDIO_HARDWARE_OFFLOAD_DECODING_DATAPATH = LE_AUDIO_HARDWARE_OFFLOAD_DECODING_DATAPATH"
| "from_session_type_2_1 HST_UNKNOWN = ST_UNKNOWN"

text \<open>The cast between the two versions of the session type keeps the enumerator.\<close>

definition from_session_type_2_0 :: "hidl_session_type \<Rightarrow> session_type" where
  "from_session_type_2_0 st = from_session_type_2_1 st"

text \<open>The HIDL status has the enumerators of the AIDL status but the last.\<close>

fun to_hidl_status :: "bluetooth_audio_status \<Rightarrow> bluetooth_audio_status" where
  "to_hidl_status BAS_SUCCESS = BAS_SUCCESS"
| "to_hidl_status BAS_UNSUPPORTED_CODEC_CONFIGURATION = BAS_UNSUPPORTED_CODEC_CONFIGURATION"
| "to_hidl_status _ = BAS_FAILURE"

definition sample_rate_to_hidl_2_1_map :: "(int \<times> h_rate) list" where
  "sample_rate_to_hidl_2_1_map =
     [(44100, RATE_44100), (48000, RATE_48000), (88200, RATE_88200), (96000, RATE_96000), (176400, RATE_176400),
      (192000, RATE_192000), (16000, RATE_16000), (24000, RATE_24000), (8000, RATE_8000), (32000, RATE_32000)]"

definition to_hidl_sample_rate_2_1 :: "hidl_consts \<Rightarrow> int \<Rightarrow> u32" where
  "to_hidl_sample_rate_2_1 k hz =
     (case map_of sample_rate_to_hidl_2_1_map hz of Some r \<Rightarrow> k_rate k r | None \<Rightarrow> 0)"

definition to_hidl_sample_rate_2_0 :: "hidl_consts \<Rightarrow> int \<Rightarrow> u32" where
  "to_hidl_sample_rate_2_0 k hz =
     (case map_of sample_rate_to_hidl_2_1_map hz of Some r \<Rightarrow> k_rate k r | None \<Rightarrow> 0)"

definition to_hidl_bits_per_sample :: "hidl_consts \<Rightarrow> int \<Rightarrow> u32" where
  "to_hidl_bits_per_sample k b =
     (if b = 16 then k_bits k BITS_16 else if b = 24 then k_bits k BITS_24 else if b = 32 then k_bits k BITS_32 else 0)"

fun to_hidl_channel_mode :: "hidl_consts \<Rightarrow> channel_mode \<Rightarrow> u32" where
  "to_hidl_channel_mode k CM_MONO = k_channel k HCH_MONO"
| "to_hidl_channel_mode k CM_STEREO = k_channel k HCH_STEREO"
| "to_hidl_channel_mode k _ = 0"

definition to_hidl_pcm_config_2_0 :: "hidl_consts \<Rightarrow> pcm_configuration \<Rightarrow> hidl_pcm" where
  "to_hidl_pcm_config_2_0 k c = \<lparr>
     hp_sampleRate = to_hidl_sample_rate_2_0 k (pcm_sampleRateHz c),
     hp_channelMode = to_hidl_channel_mode k (pcm_channelMode c),
     hp_bitsPerSample = to_hidl_bits_per_sample k (pcm_bitsPerSample c)\<rparr>"

fun codec_type_to_hidl_2_0_map :: "codec_type \<Rightarrow> hidl_codec_type option" where
  "codec_type_to_hidl_2_0_map CT_UNKNOWN = Some HC_UNKNOWN"
| "codec_type_to_hidl_2_0_map CT_SBC = Some HC_SBC"
| "codec_type_to_hidl_2_0_map CT_AAC = Some HC_AAC"
| "codec_type_to_hidl_2_0_map CT_APTX = Some HC_APTX"
| "codec_type_to_hidl_2_0_map CT_APTX_HD = Some HC_APTX_HD"
| "codec_type_to_hidl_2_0_map CT_LDAC = Some HC_LDAC"
| "codec_type_to_hidl_2_0_map CT_LC3 = Some HC_UNKNOWN"
| "codec_type_to_hidl_2_0_map _ = None"

definition to_hidl_codec_type_2_0 :: "codec_type \<Rightarrow> hidl_codec_type" where
  "to_hidl_codec_type_2_0 t = (case codec_type_to_hidl_2_0_map t of Some h \<Rightarrow> h | None \<Rightarrow> HC_UNKNOWN)"

fun sbc_channel_mode_to_hidl_2_0_map :: "hidl_consts \<Rightarrow> sbc_channel_mode \<Rightarrow> u32" where
  "sbc_channel_mode_to_hidl_2_0_map k SCM_UNKNOWN = 0"
| "sbc_channel_mode_to_hidl_2_0_map k SCM_JOINT_STEREO = k_sbc_channel k SBC_JOINT_STEREO"
| "sbc_channel_mode_to_hidl_2_0_map k SCM_STEREO = k_sbc_channel k SBC_STEREO"
| "sbc_channel_mode_to_hidl_2_0_map k SCM_DUAL = k_sbc_channel k SBC_DUAL"
| "sbc_channel_mode_to_hidl_2_0_map k SCM_MONO = k_sbc_channel k SBC_MONO"

definition sbc_block_length_to_hidl_map :: "(int \<times> h_sbc_block) list" where
  "sbc_block_length_to_hidl_map = [(4, BLOCKS_4), (8, BLOCKS_8), (12, BLOCKS_12), (16, BLOCKS_16)]"

definition sbc_subbands_to_hidl_map :: "(int \<times> h_sbc_subband) list" where
  "sbc_subbands_to_hidl_map = [(4, SUBBAND_4), (8, SUBBAND_8)]"

fun sbc_alloc_method_to_hidl_map :: "hidl_consts \<Rightarrow> sbc_alloc_method \<Rightarrow> u32" where
  "sbc_alloc_method_to_hidl_map k ALLOC_MD_S = k_sbc_alloc k H_ALLOC_MD_S"
| "sbc_alloc_method_to_hidl_map k ALLOC_MD_L = k_sbc_alloc k H_ALLOC_MD_L"

fun aac_object_type_to_hidl_map :: "hidl_consts \<Rightarrow> aac_object \<Rightarrow> u32" where
  "aac_object_type_to_hidl_map k MPEG2_LC = k_aac_object k H_MPEG2_LC"
| "aac_object_type_to_hidl_map k MPEG4_LC = k_aac_object k H_MPEG4_LC"
| "aac_object_type_to_hidl_map k MPEG4_LTP = k_aac_object k H_MPEG4_LTP"
| "aac_object_type_to_hidl_map k MPEG4_SCALABLE = k_aac_object k H_MPEG4_SCALABLE"

fun ldac_channel_mode_to_hidl_map :: "hidl_consts \<Rightarrow> ldac_channel_mode \<Rightarrow> u32" where
  "ldac_channel_mode_to_hidl_map k LCM_UNKNOWN = 0"
| "ldac_channel_mode_to_hidl_map k LCM_STEREO = k_ldac_channel k LDAC_STEREO"
| "ldac_channel_mode_to_hidl_map k LCM_DUAL = k_ldac_channel k LDAC_DUAL"
| "ldac_channel_mode_to_hidl_map k LCM_MONO = k_ldac_channel k LDAC_MONO"

fun ldac_qindex_to_hidl_map :: "hidl_consts \<Rightarrow> ldac_quality_index \<Rightarrow> u32" where
  "ldac_qindex_to_hidl_map k LQ_HIGH = k_ldac_quality k QUALITY_HIGH"
| "ldac_qindex_to_hidl_map k LQ_MID = k_ldac_quality k QUALITY_MID"
| "ldac_qindex_to_hidl_map k LQ_LOW = k_ldac_quality k QUALITY_LOW"
| "ldac_qindex_to_hidl_map k LQ_ABR = k_ldac_quality k QUALITY_ABR"

definition to_hidl_sbc_config :: "hidl_consts \<Rightarrow> hidl_init \<Rightarrow> sbc_configuration \<Rightarrow> sbc_parameters" where
  "to_hidl_sbc_config k i c =
     (let h = (i_sbc i)\<lparr>hs_minBitpool := word_of_int (sbcc_minBitpool c), hs_maxBitpool := word_of_int (sbcc_maxBitpool c),
            hs_sampleRate := to_hidl_sample_rate_2_0 k (sbcc_sampleRateHz c),
            hs_bitsPerSample := to_hidl_bits_per_sample k (sbcc_bitsPerSample c),
            hs_channelMode := sbc_channel_mode_to_hidl_2_0_map k (sbcc_channelMode c)\<rparr>;
          h = (case map_of sbc_block_length_to_hidl_map (sbcc_blockLength c) of
                 Some b \<Rightarrow> h\<lparr>hs_blockLength := k_sbc_block k b\<rparr> | None \<Rightarrow> h);
          h = (case map_of sbc_subbands_to_hidl_map (sbcc_numSubbands c) of
                 Some s \<Rightarrow> h\<lparr>hs_numSubbands := k_sbc_subband k s\<rparr> | None \<Rightarrow> h)
      in h\<lparr>hs_allocMethod := sbc_alloc_method_to_hidl_map k (sbcc_allocMethod c)\<rparr>)"

definition to_hidl_aac_config :: "hidl_consts \<Rightarrow> aac_configuration \<Rightarrow> aac_parameters" where
  "to_hidl_aac_config k c = \<lparr>
     ha_objectType = aac_object_type_to_hidl_map k (aacc_objectType c),
     ha_sampleRate = to_hidl_sample_rate_2_0 k (aacc_sampleRateHz c),
     ha_channelMode = to_hidl_channel_mode k (aacc_channelMode c),
     ha_variableBitRateEnabled = aacc_variableBitRateEnabled c,
     ha_bitsPerSample = to_hidl_bits_per_sample k (aacc_bitsPerSample c)\<rparr>"

definition to_hidl_ldac_config :: "hidl_consts \<Rightarrow> ldac_configuration \<Rightarrow> ldac_parameters" where
  "to_hidl_ldac_config k c = \<lparr>
     hl_sampleRate = to_hidl_sample_rate_2_0 k (ldacc_sampleRateHz c),
     hl_channelMode = ldac_channel_mode_to_hidl_map k (ldacc_channelMode c),
     hl_qualityIndex = ldac_qindex_to_hidl_map k (ldacc_qualityIndex c),
     hl_bitsPerSample = to_hidl_bits_per_sample k (ldacc_bitsPerSample c)\<rparr>"

definition to_hidl_aptx_config :: "hidl_consts \<Rightarrow> aptx_configuration \<Rightarrow> aptx_parameters" where
  "to_hidl_aptx_config k c = \<lparr>
     hx_sampleRate = to_hidl_sample_rate_2_0 k (aptxc_sampleRateHz c),
     hx_channelMode = to_hidl_channel_mode k (aptxc_channelMode c),
     hx_bitsPerSample = to_hidl_bits_per_sample k (aptxc_bitsPerSample c)\<rparr>"

definition to_hidl_codec_config_2_0 :: "hidl_consts \<Rightarrow> hidl_init \<Rightarrow> codec_configuration \<Rightarrow> hidl_codec_configuration" where
  "to_hidl_codec_config_2_0 k i c = \<lparr>
     hcc_codecType = to_hidl_codec_type_2_0 (cc_codecType c),
     hcc_encodedAudioBitrate = word_of_int (cc_encodedAudioBitrate c),
     hcc_peerMtu = word_of_int (cc_peerMtu c),
     hcc_isScmstEnabled = cc_isScmstEnabled c,
     hcc_config = (case cc_config c of
         CS_sbc x \<Rightarrow> HS_sbc (to_hidl_sbc_config k i x)
       | CS_aac x \<Rightarrow> HS_aac (to_hidl_aac_config k x)
       | CS_ldac x \<Rightarrow> HS_ldac (to_hidl_ldac_config k x)
       | CS_aptx x \<Rightarrow> HS_aptx (to_hidl_aptx_config k x)
       | _ \<Rightarrow> i_specific i)\<rparr>"

definition to_hidl_audio_config_2_0 :: "hidl_consts \<Rightarrow> hidl_init \<Rightarrow> audio_configuration \<Rightarrow> hidl_audio_config" where
  "to_hidl_audio_config_2_0 k i c =
     (case c of
        AC_pcmConfig p \<Rightarrow> HAC_pcm (to_hidl_pcm_config_2_0 k p)
      | AC_a2dpConfig a \<Rightarrow> HAC_codec (to_hidl_codec_config_2_0 k i a)
      | _ \<Rightarrow> i_config i)"

definition to_hidl_pcm_config_2_1 :: "hidl_consts \<Rightarrow> pcm_configuration \<Rightarrow> hidl_pcm_2_1" where
  "to_hidl_pcm_config_2_1 k c = \<lparr>
     hp1_sampleRate = to_hidl_sample_rate_2_1 k (pcm_sampleRateHz c),
     hp1_channelMode = to_hidl_channel_mode k (pcm_channelMode c),
     hp1_bitsPerSample = to_hidl_bits_per_sample k (pcm_bitsPerSample c),
     hp1_dataIntervalUs = word_of_int (pcm_dataIntervalUs c)\<rparr>"

definition to_hidl_lc3_config_2_1 :: "hidl_consts \<Rightarrow> hidl_init \<Rightarrow> lc3_configuration \<Rightarrow> lc3_parameters" where
  "to_hidl_lc3_config_2_1 k i c =
     (let h = (i_lc3 i)\<lparr>l3_pcmBitDepth := to_hidl_bits_per_sample k (lc3_pcmBitDepth c),
            l3_samplingFrequency := to_hidl_sample_rate_2_1 k (lc3_samplingFrequencyHz c)\<rparr>;
          h = (if lc3_samplingFrequencyHz c = 10000 then h\<lparr>l3_frameDuration := DURATION_10000US\<rparr>
               else if lc3_samplingFrequencyHz c = 7500 then h\<lparr>l3_frameDuration := DURATION_7500US\<rparr> else h)
      in h\<lparr>l3_octetsPerFrame := word_of_int (lc3_octetsPerFrame c), l3_blocksPerSdu := word_of_int (lc3_blocksPerSdu c)\<rparr>)"

definition or_allocations :: "int list \<Rightarrow> u32" where
  "or_allocations as = foldl (\<lambda>acc a. acc OR word_of_int a) 0 as"

definition is_lc3 :: "le_audio_codec_configuration \<Rightarrow> bool" where
  "is_lc3 c = (case c of LE_lc3 _ \<Rightarrow> True | LE_other _ \<Rightarrow> False)"

definition get_lc3 :: "le_audio_codec_configuration \<Rightarrow> lc3_configuration ub" where
  "get_lc3 c = (case c of LE_lc3 l \<Rightarrow> Some l | LE_other _ \<Rightarrow> None)"

definition to_hidl_leaudio_config_2_1 ::
  "hidl_consts \<Rightarrow> hidl_init \<Rightarrow> le_audio_configuration \<Rightarrow> lc3_codec_configuration ub" where
  "to_hidl_leaudio_config_2_1 k i c =
     (if is_lc3 (le_leAudioCodecConfig c) then None
      else do {
        l \<leftarrow> get_lc3 (le_leAudioCodecConfig c);
        Some \<lparr>l3c_lc3Config = to_hidl_lc3_config_2_1 k i l, l3c_audioChannelAllocation = or_allocations (le_streamMap c)\<rparr>
      })"

definition to_hidl_leaudio_broadcast_config_2_1 ::
  "hidl_consts \<Rightarrow> hidl_init \<Rightarrow> le_broadcast_configuration \<Rightarrow> lc3_codec_configuration ub" where
  "to_hidl_leaudio_broadcast_config_2_1 k i c =
     (case lb_streamMap c of
        [] \<Rightarrow> Some \<lparr>l3c_lc3Config = i_lc3_zero i, l3c_audioChannelAllocation = 0\<rparr>
      | (_, cfg) # _ \<Rightarrow>
          if \<not> is_lc3 cfg then None
          else do {
            l \<leftarrow> get_lc3 cfg;
            Some \<lparr>l3c_lc3Config = to_hidl_lc3_config_2_1 k i l,
                  l3c_audioChannelAllocation = or_allocations (map fst (lb_streamMap c))\<rparr>
          })"

definition to_hidl_audio_config_2_1 ::
  "hidl_consts \<Rightarrow> hidl_init \<Rightarrow> audio_configuration \<Rightarrow> hidl_audio_config_2_1 ub" where
  "to_hidl_audio_config_2_1 k i c =
     (case c of
        AC_pcmConfig p \<Rightarrow> Some (HAC1_pcm (to_hidl_pcm_config_2_1 k p))
      | AC_a2dpConfig a \<Rightarrow> Some (HAC1_codec (to_hidl_codec_config_2_0 k i a))
      | AC_a2dp _ \<Rightarrow> Some (i_config_2_1 i)
      | AC_leAudioConfig l \<Rightarrow> do { x \<leftarrow> to_hidl_leaudio_config_2_1 k i l; Some (HAC1_leAudio x) }
      | AC_leAudioBroadcastConfig b \<Rightarrow> do { x \<leftarrow> to_hidl_leaudio_broadcast_config_2_1 k i b; Some (HAC1_leAudio x) }
      | AC_hfpConfig _ \<Rightarrow> None)"

section \<open>Callbacks\<close>

text \<open>\<open>PortStatusCallbacks\<close> of the HIDL session: the object, and which of the functions are set.\<close>

record hidl_callbacks =
  hcb_client :: nat
  hcb_control_result :: bool
  hcb_session_changed :: bool

text \<open>\<open>legacy_callback_table\<close>: a table of cookies per session type.\<close>

type_synonym legacy_table = "session_type \<Rightarrow> u16 \<rightharpoonup> hidl_callbacks"

text \<open>
  The callbacks registered with the AIDL session capture the table of its type and no object of the audio
  module; \<open>mw_forward\<close> is what they do.
\<close>

definition mw_callbacks :: "hidl_callbacks \<Rightarrow> port_status_callbacks" where
  "mw_callbacks cbacks = \<lparr>cb_client = 0, cb_control_result = hcb_control_result cbacks,
     cb_session_changed = hcb_session_changed cbacks, cb_audio_configuration_changed = False,
     cb_low_latency_mode_allowed = False\<rparr>"

fun mw_forward :: "(u16 \<rightharpoonup> hidl_callbacks) \<Rightarrow> notification \<Rightarrow> notification list ub" where
  "mw_forward table (N_control_result _ cookie start_resp status) =
     (case table cookie of
        None \<Rightarrow> Some []
      | Some cback \<Rightarrow>
          if hcb_control_result cback
          then Some [N_control_result (hcb_client cback) cookie start_resp (to_hidl_status status)] else None)"
| "mw_forward table (N_session_changed _ cookie) =
     (case table cookie of
        None \<Rightarrow> Some []
      | Some cback \<Rightarrow> if hcb_session_changed cback then Some [N_session_changed (hcb_client cback) cookie] else None)"
| "mw_forward table _ = Some []"

definition mw_RegisterControlResultCback ::
  "(session_type \<Rightarrow> u16) \<Rightarrow> hidl_session_type \<Rightarrow> hidl_callbacks \<Rightarrow> sessions \<times> legacy_table \<Rightarrow>
   (u16 \<times> sessions \<times> legacy_table) ub" where
  "mw_RegisterControlResultCback code st cbacks w =
     (let (m, legacy) = w; aidl_session_type = from_session_type_2_0 st in
      do {
        (cookie, m) \<leftarrow> Control_RegisterControlResultCback code aidl_session_type (mw_callbacks cbacks) m;
        Some (cookie, m, legacy(aidl_session_type := (legacy aidl_session_type)(cookie \<mapsto> cbacks)))
      })"

definition mw_UnregisterControlResultCback ::
  "hidl_session_type \<Rightarrow> u16 \<Rightarrow> sessions \<times> legacy_table \<Rightarrow> (sessions \<times> legacy_table) ub" where
  "mw_UnregisterControlResultCback st cookie w =
     (let (m, legacy) = w; aidl_session_type = from_session_type_2_0 st in
      do {
        (_, m) \<leftarrow> Control_UnregisterControlResultCback aidl_session_type cookie m;
        Some (m, if legacy aidl_session_type cookie \<noteq> None
                 then legacy(aidl_session_type := (legacy aidl_session_type)(cookie := None)) else legacy)
      })"

section \<open>Calls\<close>

definition mw_IsSessionReady :: "hidl_session_type \<Rightarrow> sessions \<Rightarrow> bool \<times> sessions" where
  "mw_IsSessionReady st = Control_IsSessionReady (from_session_type_2_0 st)"

definition mw_GetAudioConfig ::
  "hidl_consts \<Rightarrow> hidl_init \<Rightarrow> config_defaults \<Rightarrow> hidl_session_type \<Rightarrow> sessions \<Rightarrow> hidl_audio_config ub \<times> sessions" where
  "mw_GetAudioConfig k i d st m =
     (let (c, m) = Control_GetAudioConfig d (from_session_type_2_0 st) m in
      (map_option (to_hidl_audio_config_2_0 k i) c, m))"

definition mw_GetAudioConfig_2_1 ::
  "hidl_consts \<Rightarrow> hidl_init \<Rightarrow> config_defaults \<Rightarrow> hidl_session_type \<Rightarrow> sessions \<Rightarrow> hidl_audio_config_2_1 ub \<times> sessions" where
  "mw_GetAudioConfig_2_1 k i d st m =
     (let (c, m) = Control_GetAudioConfig d (from_session_type_2_1 st) m in
      (Option.bind c (to_hidl_audio_config_2_1 k i), m))"

definition mw_StartStream :: "bool \<Rightarrow> hidl_session_type \<Rightarrow> sessions \<Rightarrow> (bool \<times> stack_call list) \<times> sessions" where
  "mw_StartStream ok st = Control_StartStream ok (from_session_type_2_0 st) False"

definition mw_SuspendStream :: "bool \<Rightarrow> hidl_session_type \<Rightarrow> sessions \<Rightarrow> (bool \<times> stack_call list) \<times> sessions" where
  "mw_SuspendStream ok st = Control_SuspendStream ok (from_session_type_2_0 st)"

definition mw_StopStream :: "hidl_session_type \<Rightarrow> sessions \<Rightarrow> stack_call list \<times> sessions" where
  "mw_StopStream st = Control_StopStream (from_session_type_2_0 st)"

text \<open>The position is stored whatever the call returned; \<open>zero\<close> is the value-initialised one.\<close>

definition mw_GetPresentationPosition ::
  "presentation_position \<Rightarrow> bool \<times> presentation_position \<Rightarrow> hidl_session_type \<Rightarrow> sessions \<Rightarrow>
   (bool \<times> (u64 \<times> u64 \<times> int \<times> int) \<times> stack_call list) \<times> sessions" where
  "mw_GetPresentationPosition zero reply st m =
     (let ((ret_val, pos, calls), m) = Control_GetPresentationPosition reply (from_session_type_2_0 st) zero m in
      ((ret_val, (word_of_int (pp_remoteDeviceAudioDelayNanos pos), word_of_int (pp_transmittedOctets pos),
         pp_tvSec pos, pp_tvNSec pos), calls), m))"

definition mw_UpdateTracksMetadata ::
  "bool \<Rightarrow> hidl_session_type \<Rightarrow> source_metadata \<Rightarrow> sessions \<Rightarrow> stack_call list ub \<times> sessions" where
  "mw_UpdateTracksMetadata ok st metadata = Control_UpdateSourceMetadata ok (from_session_type_2_0 st) metadata"

text \<open>The transfers go to the AIDL session of the type, which \<open>env\<close> shows at each iteration.\<close>

definition mw_OutWritePcmData :: "(nat \<Rightarrow> pcm_obs) \<Rightarrow> 'b list option \<Rightarrow> nat \<Rightarrow> (nat \<times> 'b list) ub" where
  "mw_OutWritePcmData env buffer bytes = OutWritePcmData env buffer bytes"

definition mw_InReadPcmData :: "(nat \<Rightarrow> pcm_obs) \<Rightarrow> (nat \<Rightarrow> 'b list) \<Rightarrow> bool \<Rightarrow> nat \<Rightarrow> (nat \<times> 'b list) ub" where
  "mw_InReadPcmData env src buffer_null bytes = InReadPcmData env src buffer_null bytes"

section \<open>Conversion of configurations\<close>

lemma to_hidl_rates:
  "to_hidl_sample_rate_2_0 k 44100 = k_rate k RATE_44100" "to_hidl_sample_rate_2_0 k 48000 = k_rate k RATE_48000"
  "to_hidl_sample_rate_2_0 k 88200 = k_rate k RATE_88200" "to_hidl_sample_rate_2_0 k 96000 = k_rate k RATE_96000"
  by (simp_all add: to_hidl_sample_rate_2_0_def sample_rate_to_hidl_2_1_map_def)

lemma to_hidl_bits:
  "to_hidl_bits_per_sample k 16 = k_bits k BITS_16" "to_hidl_bits_per_sample k 24 = k_bits k BITS_24"
  "to_hidl_bits_per_sample k 32 = k_bits k BITS_32"
  by (simp_all add: to_hidl_bits_per_sample_def)

lemma consts_okD:
  assumes "hidl_consts_ok k"
  shows "one_bit (k_rate k r)" "one_bit (k_bits k b)" "one_bit (k_channel k c)" "one_bit (k_sbc_channel k sc)"
    "one_bit (k_sbc_block k sb)" "one_bit (k_sbc_subband k ss)" "one_bit (k_sbc_alloc k sa)" "one_bit (k_aac_object k ao)"
    "one_bit (k_ldac_channel k lc)"
    "r \<noteq> RATE_8000 \<Longrightarrow> r \<noteq> RATE_32000 \<Longrightarrow> in_field 0xff (k_rate k r)"
    "in_field 0x07 (k_bits k b)" "in_field 0x03 (k_channel k c)" "in_field 0x0f (k_sbc_channel k sc)"
    "in_field 0xf0 (k_sbc_block k sb)" "in_field 0x0c (k_sbc_subband k ss)" "in_field 0x03 (k_sbc_alloc k sa)"
    "in_field 0xf0 (k_aac_object k ao)" "in_field 0x07 (k_ldac_channel k lc)"
    "k_ldac_quality k QUALITY_HIGH \<le> k_ldac_quality k QUALITY_LOW"
  using assms by (simp_all add: hidl_consts_ok_def)

lemma bitpool_words:
  assumes "(2 :: int) \<le> a" "a \<le> b" "b \<le> 53"
  shows "(2 :: u8) \<le> word_of_int a" "(word_of_int a :: u8) \<le> word_of_int b" "(word_of_int b :: u8) \<le> 53"
  using assms by (simp_all add: word_le_def uint_word_of_int)

lemma sbc_converted:
  assumes k: "hidl_consts_ok k" and "within (CK_sbc kDefaultOffloadSbcCapability) (CS_sbc d)"
  shows "in_fields (HS_sbc (to_hidl_sbc_config k i d))"
    "fits k (HS_sbc (to_hidl_sbc_config k i d)) (HS_sbc (H_kDefaultOffloadSbcCapability k))"
proof -
  note d = assms(2) [unfolded within.simps kDefaultOffloadSbcCapability_def, simplified]
  have b: "2 \<le> sbcc_minBitpool d" "sbcc_minBitpool d \<le> sbcc_maxBitpool d" "sbcc_maxBitpool d \<le> 53" using d by auto
  have e: "to_hidl_sbc_config k i d = \<lparr>hs_sampleRate = k_rate k RATE_44100,
      hs_channelMode = sbc_channel_mode_to_hidl_2_0_map k (sbcc_channelMode d),
      hs_blockLength = k_sbc_block k (the (map_of sbc_block_length_to_hidl_map (sbcc_blockLength d))),
      hs_numSubbands = k_sbc_subband k SUBBAND_8, hs_allocMethod = k_sbc_alloc k H_ALLOC_MD_L,
      hs_bitsPerSample = k_bits k BITS_16, hs_minBitpool = word_of_int (sbcc_minBitpool d),
      hs_maxBitpool = word_of_int (sbcc_maxBitpool d)\<rparr>"
    using d by (auto simp: to_hidl_sbc_config_def Let_def to_hidl_rates to_hidl_bits sbc_subbands_to_hidl_map_def
        sbc_block_length_to_hidl_map_def)
  show "in_fields (HS_sbc (to_hidl_sbc_config k i d))"
    "fits k (HS_sbc (to_hidl_sbc_config k i d)) (HS_sbc (H_kDefaultOffloadSbcCapability k))"
    unfolding e using d bitpool_words [OF b]
    by (auto simp: consts_okD [OF k] H_kDefaultOffloadSbcCapability_def sbc_block_length_to_hidl_map_def picks_or)
qed

lemma aac_converted:
  assumes k: "hidl_consts_ok k" and "within (CK_aac kDefaultOffloadAacCapability) (CS_aac d)"
  shows "in_fields (HS_aac (to_hidl_aac_config k d))"
    "fits k (HS_aac (to_hidl_aac_config k d)) (HS_aac (H_kDefaultOffloadAacCapability k))"
  using assms(2) by (auto simp: kDefaultOffloadAacCapability_def to_hidl_aac_config_def to_hidl_rates to_hidl_bits
      consts_okD [OF k] H_kDefaultOffloadAacCapability_def picks_or)

lemma ldac_converted:
  assumes k: "hidl_consts_ok k" and "within (CK_ldac kDefaultOffloadLdacCapability) (CS_ldac d)"
  shows "in_fields (HS_ldac (to_hidl_ldac_config k d))"
    "fits k (HS_ldac (to_hidl_ldac_config k d)) (HS_ldac (H_kDefaultOffloadLdacCapability k))"
  using assms(2) by (auto simp: kDefaultOffloadLdacCapability_def to_hidl_ldac_config_def to_hidl_rates to_hidl_bits
      consts_okD [OF k] H_kDefaultOffloadLdacCapability_def picks_or)

lemma aptx_converted:
  assumes k: "hidl_consts_ok k"
  shows "within (CK_aptx kDefaultOffloadAptxCapability) (CS_aptx d) \<Longrightarrow>
      in_fields (HS_aptx (to_hidl_aptx_config k d)) \<and>
      fits k (HS_aptx (to_hidl_aptx_config k d)) (HS_aptx (H_kDefaultOffloadAptxCapability k))"
    "within (CK_aptx kDefaultOffloadAptxHdCapability) (CS_aptx d) \<Longrightarrow>
      in_fields (HS_aptx (to_hidl_aptx_config k d)) \<and>
      fits k (HS_aptx (to_hidl_aptx_config k d)) (HS_aptx (H_kDefaultOffloadAptxHdCapability k))"
  by (auto simp: kDefaultOffloadAptxCapability_def kDefaultOffloadAptxHdCapability_def to_hidl_aptx_config_def to_hidl_rates
      to_hidl_bits consts_okD [OF k] H_kDefaultOffloadAptxCapability_def H_kDefaultOffloadAptxHdCapability_def picks_or)

lemma within_kind:
  "within (CK_sbc c1) x \<Longrightarrow> \<exists>d. x = CS_sbc d" "within (CK_aac c2) x \<Longrightarrow> \<exists>d. x = CS_aac d"
  "within (CK_ldac c3) x \<Longrightarrow> \<exists>d. x = CS_ldac d" "within (CK_aptx c4) x \<Longrightarrow> \<exists>d. x = CS_aptx d"
  by (cases x; simp)+

lemma valid_converted:
  assumes k: "hidl_consts_ok k"
  shows "IsOffloadSbcConfigurationValid x \<Longrightarrow>
      \<exists>d. x = CS_sbc d \<and> H_IsOffloadSbcConfigurationValid k (HS_sbc (to_hidl_sbc_config k i d))"
    and "IsOffloadAacConfigurationValid x \<Longrightarrow>
      \<exists>d. x = CS_aac d \<and> H_IsOffloadAacConfigurationValid k (HS_aac (to_hidl_aac_config k d))"
    and "IsOffloadLdacConfigurationValid x \<Longrightarrow>
      \<exists>d. x = CS_ldac d \<and> H_IsOffloadLdacConfigurationValid k (HS_ldac (to_hidl_ldac_config k d))"
    and "IsOffloadAptxConfigurationValid x \<Longrightarrow>
      \<exists>d. x = CS_aptx d \<and> H_IsOffloadAptxConfigurationValid k (HS_aptx (to_hidl_aptx_config k d))"
    and "IsOffloadAptxHdConfigurationValid x \<Longrightarrow>
      \<exists>d. x = CS_aptx d \<and> H_IsOffloadAptxHdConfigurationValid k (HS_aptx (to_hidl_aptx_config k d))"
  unfolding valid_iff
  using within_kind offload_valid_iffs sbc_converted [OF k] aac_converted [OF k] ldac_converted [OF k] aptx_converted [OF k]
  by metis+

section \<open>Callbacks\<close>

lemma mw_register_eq:
  "mw_RegisterControlResultCback code st cbs (m, legacy) =
     (let ast = from_session_type_2_0 st; (c, s) = RegisterStatusCback code (mw_callbacks cbs) (session_of ast m) in
      Some (c, m(ast \<mapsto> s), legacy(ast := (legacy ast)(c \<mapsto> cbs))))"
  by (simp add: mw_RegisterControlResultCback_def Control_RegisterControlResultCback_def on_session_eq Let_def
      split: prod.split)

lemma mw_unregister_eq:
  "mw_UnregisterControlResultCback st c (m, legacy) =
     (let ast = from_session_type_2_0 st in
      Some (m(ast \<mapsto> UnregisterStatusCback c (session_of ast m)),
            if legacy ast c \<noteq> None then legacy(ast := (legacy ast)(c := None)) else legacy))"
  by (simp add: mw_UnregisterControlResultCback_def Control_UnregisterControlResultCback_def on_session_eq Let_def)

section \<open>Properties\<close>

lemma bitrate_word:
  assumes "- (2 ^ 31) \<le> r" "r < 2 ^ 31"
  shows "(word_of_int r :: u32) < 1 \<or> 0xffffff < (word_of_int r :: u32) \<longleftrightarrow> r \<notin> {1..0xffffff}"
proof (cases "0 \<le> r")
  case True
  then have "uint (word_of_int r :: u32) = r" using assms by (simp add: uint_word_of_int)
  then show ?thesis using True by (auto simp: word_less_def)
next
  case False
  then have "uint (word_of_int r :: u32) = r + 2 ^ 32"
    using assms by (subst uint_word_of_int, subst mod_add_self2 [symmetric], subst mod_pos_pos_trivial) auto
  then show ?thesis using False assms by (auto simp: word_less_def)
qed

text \<open>C32: what the validator of the HIDL side makes of a configuration that the AIDL side accepts, once the middleware has converted it,
  whatever the converted structures held before. An A2DP offload configuration stays valid exactly when its codec is not Opus and its
  bitrate is one that the HIDL interface can express; a PCM configuration exactly when its sample rate is neither 8000 nor 32000, which
  only the AIDL side advertises.\<close>

theorem middleware_keeps_validity:
  assumes "hidl_consts_ok k"
  shows "(IsOffloadCodecConfigurationValid st c \<and> - (2 ^ 31) \<le> cc_encodedAudioBitrate c \<and> cc_encodedAudioBitrate c < 2 ^ 31 \<longrightarrow>
      (H_IsOffloadCodecConfigurationValid k HST_A2DP_HARDWARE_OFFLOAD_DATAPATH (to_hidl_codec_config_2_0 k i c) \<longleftrightarrow>
        cc_codecType c \<noteq> CT_OPUS \<and> cc_encodedAudioBitrate c \<in> {1..0xffffff})) \<and>
    (IsSoftwarePcmConfigurationValid pcm \<longrightarrow>
      (H_IsSoftwarePcmConfigurationValid k (to_hidl_pcm_config_2_0 k pcm) \<longleftrightarrow> pcm_sampleRateHz pcm \<notin> {8000, 32000}))"
proof (intro conjI impI)
  assume c: "IsOffloadCodecConfigurationValid st c \<and> - (2 ^ 31) \<le> cc_encodedAudioBitrate c \<and> cc_encodedAudioBitrate c < 2 ^ 31"
  let ?h = "to_hidl_codec_config_2_0 k i c"
  have rate: "hcc_encodedAudioBitrate ?h < 1 \<or> 0xffffff < hcc_encodedAudioBitrate ?h \<longleftrightarrow> cc_encodedAudioBitrate c \<notin> {1..0xffffff}"
    using c bitrate_word by (simp add: to_hidl_codec_config_2_0_def)
  show "H_IsOffloadCodecConfigurationValid k HST_A2DP_HARDWARE_OFFLOAD_DATAPATH ?h \<longleftrightarrow>
      cc_codecType c \<noteq> CT_OPUS \<and> cc_encodedAudioBitrate c \<in> {1..0xffffff}"
  proof (cases "cc_encodedAudioBitrate c \<in> {1..0xffffff}")
    case True
    then have "\<not> (hcc_encodedAudioBitrate ?h < 1 \<or> 0xffffff < hcc_encodedAudioBitrate ?h)" using rate by blast
    then show ?thesis
      using c True by (cases "cc_codecType c")
       (auto simp: H_IsOffloadCodecConfigurationValid_def IsOffloadCodecConfigurationValid_def
         to_hidl_codec_config_2_0_def to_hidl_codec_type_2_0_def Let_def
         split: if_splits dest!: valid_converted(1) [OF assms(1), where i = i] valid_converted(2-) [OF assms(1)])
  next
    case False
    then have "hcc_encodedAudioBitrate ?h < 1 \<or> 0xffffff < hcc_encodedAudioBitrate ?h" using rate by blast
    then show ?thesis using False by (simp add: H_IsOffloadCodecConfigurationValid_def)
  qed
next
  assume "IsSoftwarePcmConfigurationValid pcm"
  then have v: "pcm_sampleRateHz pcm \<in> {8000, 16000, 24000, 32000, 44100, 48000, 88200, 96000}"
    "pcm_bitsPerSample pcm \<in> {16, 24, 32}" "pcm_channelMode pcm \<in> {CM_MONO, CM_STEREO}"
    by (simp_all only: pcm_valid_iff)
  have inj: "k_rate k a = k_rate k b \<longleftrightarrow> a = b" for a b using assms by (simp add: hidl_consts_ok_def inj_eq)
  have "hp_sampleRate (to_hidl_pcm_config_2_0 k pcm) \<in> k_rate k ` advertised_rates \<longleftrightarrow> pcm_sampleRateHz pcm \<notin> {8000, 32000}"
    using v(1) by (auto simp: to_hidl_pcm_config_2_0_def to_hidl_sample_rate_2_0_def sample_rate_to_hidl_2_1_map_def
        advertised_rates_def inj)
  moreover have "hp_bitsPerSample (to_hidl_pcm_config_2_0 k pcm) \<in> range (k_bits k)"
    "hp_channelMode (to_hidl_pcm_config_2_0 k pcm) \<in> range (k_channel k)"
    using v(2,3) by (auto simp: to_hidl_pcm_config_2_0_def to_hidl_bits_per_sample_def)
  ultimately show "H_IsSoftwarePcmConfigurationValid k (to_hidl_pcm_config_2_0 k pcm) \<longleftrightarrow> pcm_sampleRateHz pcm \<notin> {8000, 32000}"
    unfolding hidl_pcm_valid_iff(1) [OF assms] by blast
qed

definition any_init :: hidl_init where
  "any_init = \<lparr>i_sbc = \<lparr>hs_sampleRate = 3, hs_channelMode = 3, hs_blockLength = 3, hs_numSubbands = 3, hs_allocMethod = 3,
       hs_bitsPerSample = 3, hs_minBitpool = 3, hs_maxBitpool = 3\<rparr>,
     i_lc3 = \<lparr>l3_pcmBitDepth = 0, l3_samplingFrequency = 0, l3_frameDuration = DURATION_10000US, l3_octetsPerFrame = 0,
       l3_blocksPerSdu = 0\<rparr>,
     i_lc3_zero = \<lparr>l3_pcmBitDepth = 0, l3_samplingFrequency = 0, l3_frameDuration = DURATION_10000US, l3_octetsPerFrame = 0,
       l3_blocksPerSdu = 0\<rparr>,
     i_specific = HS_aptx \<lparr>hx_sampleRate = 0, hx_channelMode = 0, hx_bitsPerSample = 0\<rparr>,
     i_config = HAC_pcm \<lparr>hp_sampleRate = 0, hp_channelMode = 0, hp_bitsPerSample = 0\<rparr>,
     i_config_2_1 = HAC1_pcm \<lparr>hp1_sampleRate = 0, hp1_channelMode = 0, hp1_bitsPerSample = 0, hp1_dataIntervalUs = 0\<rparr>\<rparr>"

theorem middleware_keeps_validity_witness:
  "H_IsOffloadCodecConfigurationValid hidl_values HST_A2DP_HARDWARE_OFFLOAD_DATAPATH
     (to_hidl_codec_config_2_0 hidl_values any_init
        \<lparr>cc_codecType = CT_SBC, cc_encodedAudioBitrate = 328000, cc_peerMtu = 1005, cc_isScmstEnabled = False,
         cc_config = CS_sbc \<lparr>sbcc_sampleRateHz = 44100, sbcc_channelMode = SCM_JOINT_STEREO, sbcc_blockLength = 16,
           sbcc_numSubbands = 8, sbcc_allocMethod = ALLOC_MD_L, sbcc_bitsPerSample = 16, sbcc_minBitpool = 2,
           sbcc_maxBitpool = 53\<rparr>\<rparr>) \<and>
   \<not> H_IsSoftwarePcmConfigurationValid hidl_values (to_hidl_pcm_config_2_0 hidl_values
       \<lparr>pcm_sampleRateHz = 32000, pcm_channelMode = CM_STEREO, pcm_bitsPerSample = 16, pcm_dataIntervalUs = 0\<rparr>)"
proof -
  let ?c = "\<lparr>cc_codecType = CT_SBC, cc_encodedAudioBitrate = 328000, cc_peerMtu = 1005, cc_isScmstEnabled = False,
         cc_config = CS_sbc \<lparr>sbcc_sampleRateHz = 44100, sbcc_channelMode = SCM_JOINT_STEREO, sbcc_blockLength = 16,
           sbcc_numSubbands = 8, sbcc_allocMethod = ALLOC_MD_L, sbcc_bitsPerSample = 16, sbcc_minBitpool = 2,
           sbcc_maxBitpool = 53\<rparr>\<rparr>"
  let ?p = "\<lparr>pcm_sampleRateHz = 32000, pcm_channelMode = CM_STEREO, pcm_bitsPerSample = 16, pcm_dataIntervalUs = 0\<rparr>"
  have "IsOffloadCodecConfigurationValid A2DP_HARDWARE_OFFLOAD_ENCODING_DATAPATH ?c"
    by (simp add: IsOffloadCodecConfigurationValid_def a2dp_offload_session_def kDefaultOffloadSbcCapability_def)
  moreover have "IsSoftwarePcmConfigurationValid ?p" by (simp add: pcm_valid_iff)
  ultimately show ?thesis
    using middleware_keeps_validity [OF hidl_values_ok, of A2DP_HARDWARE_OFFLOAD_ENCODING_DATAPATH ?c any_init ?p] by simp
qed

text \<open>A port that registers legacy callbacks through the middleware and gets a cookie is told, by
  the AIDL session of its type, of every result and session change under that cookie and with the status
  translated; other entries of the table are unchanged. After it gives the cookie back the AIDL session has the
  observers it had before and nothing is forwarded under the cookie.\<close>

lemma middleware_forwards:
  assumes "registry_inv code (session_of (from_session_type_2_0 st) m)"
    and "mw_RegisterControlResultCback code st cbs (m, legacy) = Some (c, m', legacy')"
    and "c \<noteq> kObserversCookieUndefined code" and "hcb_control_result cbs" and "hcb_session_changed cbs"
  shows "map_of (s_observers (session_of (from_session_type_2_0 st) m')) c = Some (mw_callbacks cbs) \<and>
     mw_forward (legacy' (from_session_type_2_0 st)) (N_control_result 0 c started status) =
       Some [N_control_result (hcb_client cbs) c started (to_hidl_status status)] \<and>
     mw_forward (legacy' (from_session_type_2_0 st)) (N_session_changed 0 c) = Some [N_session_changed (hcb_client cbs) c] \<and>
     (\<forall>t c'. (t, c') \<noteq> (from_session_type_2_0 st, c) \<longrightarrow> legacy' t c' = legacy t c') \<and>
     (\<exists>m'' legacy''. mw_UnregisterControlResultCback st c (m', legacy') = Some (m'', legacy'') \<and>
        map_of (s_observers (session_of (from_session_type_2_0 st) m'')) =
          map_of (s_observers (session_of (from_session_type_2_0 st) m)) \<and>
        mw_forward (legacy'' (from_session_type_2_0 st)) (N_session_changed 0 c) = Some [])"
proof -
  let ?t = "from_session_type_2_0 st"
  obtain s where s: "RegisterStatusCback code (mw_callbacks cbs) (session_of ?t m) = (c, s)" "m' = m(?t \<mapsto> s)"
    "legacy' = legacy(?t := (legacy ?t)(c \<mapsto> cbs))"
    using assms(2) by (auto simp: mw_register_eq Let_def split: prod.splits)
  have upd: "session_of ?t (f(?t \<mapsto> y)) = y" for f y by (simp add: GetSessionInstance_def)
  have o: "session_of ?t m' = s" unfolding s(2) by (rule upd)
  note new = aidl.reg_new [OF assms(1) s(1) assms(3)]
  have un: "mw_UnregisterControlResultCback st c (m', legacy') =
      Some (m'(?t \<mapsto> UnregisterStatusCback c s), legacy'(?t := (legacy' ?t)(c := None)))"
    by (simp add: mw_unregister_eq Let_def o) (simp add: s(3))
  have restored: "map_of (s_observers (UnregisterStatusCback c s)) = map_of (s_observers (session_of ?t m))"
    by (rule aidl.reg_unreg [OF assms(1) s(1) assms(3)])
  show ?thesis
    unfolding un using new restored assms(4,5) by (auto simp: o upd s(3))
qed

lemma middleware_forwards_witness:
  "\<exists>m' legacy'. mw_RegisterControlResultCback example_code HST_A2DP_SOFTWARE_ENCODING_DATAPATH
       \<lparr>hcb_client = 7, hcb_control_result = True, hcb_session_changed = True\<rparr> (Map.empty, \<lambda>_. Map.empty) = Some (256, m', legacy') \<and>
     mw_forward (legacy' A2DP_SOFTWARE_ENCODING_DATAPATH) (N_session_changed 0 256) = Some [N_session_changed 7 256]"
proof -
  let ?cb = "\<lparr>hcb_client = 7, hcb_control_result = True, hcb_session_changed = True\<rparr> :: hidl_callbacks"
  let ?st = HST_A2DP_SOFTWARE_ENCODING_DATAPATH
  have t: "from_session_type_2_0 ?st = A2DP_SOFTWARE_ENCODING_DATAPATH" by (simp add: from_session_type_2_0_def)
  obtain m' legacy' where r: "mw_RegisterControlResultCback example_code ?st ?cb (Map.empty, \<lambda>_. Map.empty) = Some (256, m', legacy')"
    by (simp add: mw_register_eq t Let_def GetSessionInstance_def RegisterStatusCback_def BluetoothAudioSession_def
        ObserversCookieGetUpperBound_def ObserversCookieGetInitValue_def kObserversCookieSize_def find_cookie.simps [of "[]"])
  have "registry_inv example_code (session_of A2DP_SOFTWARE_ENCODING_DATAPATH Map.empty)"
    by (simp add: registry_inv_def numbering_example GetSessionInstance_def BluetoothAudioSession_def)
  then show ?thesis
    using r middleware_forwards [OF _ r] by (simp add: t kObserversCookieUndefined_def)
qed

text \<open>With AIDL available, the configuration of an LE audio session, read through the HIDL interface 2.1,
  aborts the process: the conversion stops for every codec it could convert, and for the others it reads the
  alternative that is not set.\<close>

lemma le_audio_config_aborts:
  assumes "Control_GetAudioConfig d (from_session_type_2_1 st) m = (Some (AC_leAudioConfig c), m')"
  shows "mw_GetAudioConfig_2_1 k i d st m = (None, m')"
  using assms by (cases "le_leAudioCodecConfig c")
    (simp_all add: mw_GetAudioConfig_2_1_def to_hidl_audio_config_2_1_def to_hidl_leaudio_config_2_1_def is_lc3_def get_lc3_def)

lemma le_audio_config_aborts_witness:
  "fst (mw_GetAudioConfig_2_1 hidl_values any_init example_defaults HST_LE_AUDIO_HARDWARE_OFFLOAD_ENCODING_DATAPATH Map.empty) = None"
proof -
  have "Control_GetAudioConfig example_defaults (from_session_type_2_1 HST_LE_AUDIO_HARDWARE_OFFLOAD_ENCODING_DATAPATH) Map.empty =
    (Some (AC_leAudioConfig (def_LeAudioConfiguration example_defaults)),
     [LE_AUDIO_HARDWARE_OFFLOAD_ENCODING_DATAPATH \<mapsto> BluetoothAudioSession LE_AUDIO_HARDWARE_OFFLOAD_ENCODING_DATAPATH])"
    by (simp add: Control_GetAudioConfig_def read_session_def GetSessionInstance_def GetAudioConfig_def IsSessionReady_def
        BluetoothAudioSession_def)
  from le_audio_config_aborts [OF this] show ?thesis by simp
qed

end
