(* ===== verification/Hidl_Session.thy ===== *)
theory Hidl_Session
  imports Hidl_Middleware
begin

text \<open>
  \<^verbatim>\<open>bluetooth/audio/utils/session\<close>: the sessions of the HIDL interfaces, \<open>BluetoothAudioSession\<close> (2.0)
  and \<open>BluetoothAudioSession_2_1\<close>, the tables of sessions and the wrappers \<open>BluetoothAudioSessionControl_2_1\<close>
  and \<open>BluetoothAudioSessionReport_2_1\<close>.

  A session of version 2.1 shares the session of version 2.0 of its type, and both are named by the
  session type here. The operations that begin with \<open>own\<close> are what a session does itself; the public
  ones hand the call to the middleware where the AIDL service is available, which is
  \<open>hw_aidl\<close>: the answer is computed once and cached (\<open>IsAidlAvailable\<close>).
\<close>

section \<open>State\<close>

record hidl_session =
  h_session_type :: hidl_session_type
  h_stack_iface :: "nat option"
  h_data_mq :: "data_mq option"
  h_audio_config :: hidl_audio_config
  h_observers :: "(u16 \<times> hidl_callbacks) list"

record hidl_session_2_1 =
  h1_session_type_2_1 :: hidl_session_type
  h1_raw_session_type :: hidl_session_type
  h1_audio_config_2_1 :: hidl_audio_config_2_1

record hidl_world =
  hw_aidl :: bool
  hw_sessions :: sessions
  hw_legacy :: legacy_table
  hw_hidl :: "hidl_session_type \<rightharpoonup> hidl_session"
  hw_hidl_2_1 :: "hidl_session_type \<rightharpoonup> hidl_session_2_1"

text \<open>What the sessions take from outside: the numbers of the session types and of the enumerators, and initial contents.\<close>

record hidl_params =
  hx_code :: "session_type \<Rightarrow> u16"
  hx_hcode :: "hidl_session_type \<Rightarrow> u16"
  hx_consts :: hidl_consts
  hx_init :: hidl_init
  hx_defaults :: config_defaults
  hx_zero :: presentation_position
  hx_codec_specific :: hidl_codec_specific

definition kInvalidPcmParameters :: hidl_pcm where
  "kInvalidPcmParameters = \<lparr>hp_sampleRate = 0, hp_channelMode = 0, hp_bitsPerSample = 0\<rparr>"

definition kInvalidCodecConfiguration :: "hidl_params \<Rightarrow> hidl_codec_configuration" where
  "kInvalidCodecConfiguration x = \<lparr>hcc_codecType = HC_UNKNOWN, hcc_encodedAudioBitrate = 0, hcc_peerMtu = 0xffff,
     hcc_isScmstEnabled = False, hcc_config = hx_codec_specific x\<rparr>"

definition invalid_config :: "hidl_params \<Rightarrow> hidl_session_type \<Rightarrow> hidl_audio_config" where
  "invalid_config x st =
     (if st = HST_A2DP_HARDWARE_OFFLOAD_DATAPATH then HAC_codec (kInvalidCodecConfiguration x)
      else HAC_pcm kInvalidPcmParameters)"

definition Hidl_BluetoothAudioSession :: "hidl_params \<Rightarrow> hidl_session_type \<Rightarrow> hidl_session" where
  "Hidl_BluetoothAudioSession x st =
     \<lparr>h_session_type = st, h_stack_iface = None, h_data_mq = None, h_audio_config = i_config (hx_init x), h_observers = []\<rparr>"

definition is_unsupported_2_1_session_type :: "hidl_session_type \<Rightarrow> bool" where
  "is_unsupported_2_1_session_type st \<longleftrightarrow>
     st = HST_LE_AUDIO_HARDWARE_OFFLOAD_ENCODING_DATAPATH \<or> st = HST_LE_AUDIO_HARDWARE_OFFLOAD_DECODING_DATAPATH"

definition BluetoothAudioSession_2_1 :: "hidl_params \<Rightarrow> hidl_session_type \<Rightarrow> hidl_session_2_1" where
  "BluetoothAudioSession_2_1 x st =
     \<lparr>h1_session_type_2_1 = (if is_2_0_session_type st \<or> is_unsupported_2_1_session_type st then HST_UNKNOWN else st),
      h1_raw_session_type = st, h1_audio_config_2_1 = i_config_2_1 (hx_init x)\<rparr>"

definition Hidl_GetSessionInstance :: "hidl_params \<Rightarrow> hidl_session_type \<Rightarrow> hidl_world \<Rightarrow> hidl_world" where
  "Hidl_GetSessionInstance x st w =
     (case hw_hidl w st of
        Some _ \<Rightarrow> w
      | None \<Rightarrow> w\<lparr>hw_hidl := (hw_hidl w)(st \<mapsto> Hidl_BluetoothAudioSession x st)\<rparr>)"

definition Hidl_GetSessionInstance_2_1 :: "hidl_params \<Rightarrow> hidl_session_type \<Rightarrow> hidl_world \<Rightarrow> hidl_world" where
  "Hidl_GetSessionInstance_2_1 x st w =
     (case hw_hidl_2_1 w st of
        Some _ \<Rightarrow> w
      | None \<Rightarrow>
          let w = Hidl_GetSessionInstance x st w in
          w\<lparr>hw_hidl_2_1 := (hw_hidl_2_1 w)(st \<mapsto> BluetoothAudioSession_2_1 x st)\<rparr>)"

definition hidl_of :: "hidl_params \<Rightarrow> hidl_session_type \<Rightarrow> hidl_world \<Rightarrow> hidl_session" where
  "hidl_of x st w = (case hw_hidl w st of Some s \<Rightarrow> s | None \<Rightarrow> Hidl_BluetoothAudioSession x st)"

definition hidl_2_1_of :: "hidl_params \<Rightarrow> hidl_session_type \<Rightarrow> hidl_world \<Rightarrow> hidl_session_2_1" where
  "hidl_2_1_of x st w = (case hw_hidl_2_1 w st of Some s \<Rightarrow> s | None \<Rightarrow> BluetoothAudioSession_2_1 x st)"

definition put_hidl :: "hidl_session_type \<Rightarrow> hidl_session \<Rightarrow> hidl_world \<Rightarrow> hidl_world" where
  "put_hidl st s w = w\<lparr>hw_hidl := (hw_hidl w)(st \<mapsto> s)\<rparr>"

section \<open>The session of version 2.0\<close>

definition H_ObserversCookieGetInitValue :: "(hidl_session_type \<Rightarrow> u16) \<Rightarrow> hidl_session_type \<Rightarrow> u16" where
  "H_ObserversCookieGetInitValue hcode st = push_bit 8 (hcode st) AND 0xff00"

definition H_ObserversCookieGetUpperBound :: "(hidl_session_type \<Rightarrow> u16) \<Rightarrow> hidl_session_type \<Rightarrow> u16" where
  "H_ObserversCookieGetUpperBound hcode st = (push_bit 8 (hcode st) AND 0xff00) + 0x0010"

definition H_kObserversCookieUndefined :: "(hidl_session_type \<Rightarrow> u16) \<Rightarrow> u16" where
  "H_kObserversCookieUndefined hcode = push_bit 8 (hcode HST_UNKNOWN) AND 0xff00"

definition own_IsSessionReady :: "hidl_session \<Rightarrow> bool" where
  "own_IsSessionReady s \<longleftrightarrow>
     (let dataMQ_valid = (h_session_type s = HST_A2DP_HARDWARE_OFFLOAD_DATAPATH \<or>
            (case h_data_mq s of None \<Rightarrow> False | Some q \<Rightarrow> mq_isValid q))
      in h_stack_iface s \<noteq> None \<and> dataMQ_valid)"

definition Hidl_UpdateDataPath :: "data_mq option \<Rightarrow> hidl_session \<Rightarrow> bool \<times> hidl_session" where
  "Hidl_UpdateDataPath dataMQ s =
     (case dataMQ of
        None \<Rightarrow> (True, s\<lparr>h_data_mq := None\<rparr>)
      | Some d \<Rightarrow> if \<not> mq_isValid d then (False, s\<lparr>h_data_mq := None\<rparr>) else (True, s\<lparr>h_data_mq := Some d\<rparr>))"

definition Hidl_UpdateAudioConfig :: "hidl_audio_config \<Rightarrow> hidl_session \<Rightarrow> bool \<times> hidl_session" where
  "Hidl_UpdateAudioConfig audio_config s =
     (let is_software_session = (h_session_type s = HST_A2DP_SOFTWARE_ENCODING_DATAPATH \<or>
            h_session_type s = HST_HEARING_AID_SOFTWARE_ENCODING_DATAPATH);
          is_offload_session = (h_session_type s = HST_A2DP_HARDWARE_OFFLOAD_DATAPATH);
          is_software_audio_config = (is_software_session \<and> (case audio_config of HAC_pcm _ \<Rightarrow> True | _ \<Rightarrow> False));
          is_offload_audio_config = (is_offload_session \<and> (case audio_config of HAC_codec _ \<Rightarrow> True | _ \<Rightarrow> False))
      in if \<not> is_software_audio_config \<and> \<not> is_offload_audio_config then (False, s)
         else (True, s\<lparr>h_audio_config := audio_config\<rparr>))"

definition Hidl_ReportSessionStatus :: "hidl_session \<Rightarrow> notification list ub" where
  "Hidl_ReportSessionStatus s = for_observers
     (\<lambda>cookie cb. if hcb_session_changed cb then Some [N_session_changed (hcb_client cb) cookie] else None)
     (h_observers s)"

definition own_OnSessionStarted ::
  "hidl_params \<Rightarrow> nat option \<Rightarrow> data_mq option \<Rightarrow> hidl_audio_config \<Rightarrow> hidl_session \<Rightarrow> (notification list \<times> hidl_session) ub" where
  "own_OnSessionStarted x stack_iface dataMQ audio_config s =
     (if stack_iface = None then Some ([], s)
      else
        let (config_ok, s) = Hidl_UpdateAudioConfig audio_config s in
        if \<not> config_ok then Some ([], s)
        else
          let (path_ok, s) = Hidl_UpdateDataPath dataMQ s in
          if \<not> path_ok then Some ([], s\<lparr>h_audio_config := invalid_config x (h_session_type s)\<rparr>)
          else
            let s = s\<lparr>h_stack_iface := stack_iface\<rparr> in
            do { ns \<leftarrow> Hidl_ReportSessionStatus s; Some (ns, s) })"

text \<open>\<open>toggled\<close> is what \<open>IsSessionReady\<close> returns.\<close>

definition own_OnSessionEnded :: "hidl_params \<Rightarrow> bool \<Rightarrow> hidl_session \<Rightarrow> (notification list \<times> hidl_session) ub" where
  "own_OnSessionEnded x toggled s =
     (let s = s\<lparr>h_audio_config := invalid_config x (h_session_type s), h_stack_iface := None\<rparr>;
          (_, s) = Hidl_UpdateDataPath None s
      in if toggled then do { ns \<leftarrow> Hidl_ReportSessionStatus s; Some (ns, s) } else Some ([], s))"

definition Hidl_ReportControlStatus ::
  "bool \<Rightarrow> bluetooth_audio_status \<Rightarrow> hidl_session \<Rightarrow> (notification list \<times> hidl_session) ub" where
  "Hidl_ReportControlStatus start_resp status s = do {
     ns \<leftarrow> for_observers
       (\<lambda>cookie cb. if hcb_control_result cb
          then Some [N_control_result (hcb_client cb) cookie start_resp status] else None)
       (h_observers s);
     Some (ns, s)
   }"

definition own_RegisterStatusCback ::
  "(hidl_session_type \<Rightarrow> u16) \<Rightarrow> hidl_callbacks \<Rightarrow> hidl_session \<Rightarrow> u16 \<times> hidl_session" where
  "own_RegisterStatusCback hcode cbacks s =
     (let upper = H_ObserversCookieGetUpperBound hcode (h_session_type s);
          cookie = find_cookie (h_observers s) upper (H_ObserversCookieGetInitValue hcode (h_session_type s))
      in if cookie \<ge> upper then (H_kObserversCookieUndefined hcode, s)
         else (cookie, s\<lparr>h_observers := AList.update cookie cbacks (h_observers s)\<rparr>))"

definition own_UnregisterStatusCback :: "u16 \<Rightarrow> hidl_session \<Rightarrow> hidl_session" where
  "own_UnregisterStatusCback cookie s = s\<lparr>h_observers := AList.delete cookie (h_observers s)\<rparr>"

definition own_GetAudioConfig :: "hidl_params \<Rightarrow> hidl_session \<Rightarrow> hidl_audio_config" where
  "own_GetAudioConfig x s = (if own_IsSessionReady s then h_audio_config s else invalid_config x (h_session_type s))"

definition own_StartStream :: "bool \<Rightarrow> hidl_session \<Rightarrow> bool \<times> stack_call list" where
  "own_StartStream ok s =
     (if \<not> own_IsSessionReady s then (False, [])
      else if \<not> ok then (False, [SC_startStream False]) else (True, [SC_startStream False]))"

definition own_SuspendStream :: "bool \<Rightarrow> hidl_session \<Rightarrow> bool \<times> stack_call list" where
  "own_SuspendStream ok s =
     (if \<not> own_IsSessionReady s then (False, [])
      else if \<not> ok then (False, [SC_suspendStream]) else (True, [SC_suspendStream]))"

definition own_StopStream :: "hidl_session \<Rightarrow> stack_call list" where
  "own_StopStream s = (if \<not> own_IsSessionReady s then [] else [SC_stopStream])"

text \<open>The reply: whether the call went through, the status handed to the callback, and the position.\<close>

definition own_GetPresentationPosition ::
  "bool \<times> bluetooth_audio_status \<times> presentation_position \<Rightarrow> hidl_session \<Rightarrow>
   bool \<times> (u64 \<times> u64 \<times> int \<times> int) option \<times> stack_call list" where
  "own_GetPresentationPosition reply s =
     (if \<not> own_IsSessionReady s then (False, None, [])
      else
        let (ok, status, pos) = reply;
            (retval, stored) =
              (if ok \<and> status = BAS_SUCCESS
               then (True, Some (word_of_int (pp_remoteDeviceAudioDelayNanos pos), word_of_int (pp_transmittedOctets pos),
                 pp_tvSec pos, pp_tvNSec pos))
               else (False, None))
        in if \<not> ok then (False, stored, [SC_getPresentationPosition]) else (retval, stored, [SC_getPresentationPosition]))"

definition own_UpdateTracksMetadata :: "bool \<Rightarrow> source_metadata \<Rightarrow> hidl_session \<Rightarrow> stack_call list ub" where
  "own_UpdateTracksMetadata ok m s =
     (if \<not> own_IsSessionReady s then Some []
      else if h_session_type s = HST_A2DP_SOFTWARE_ENCODING_DATAPATH \<or>
              h_session_type s = HST_A2DP_HARDWARE_OFFLOAD_DATAPATH then Some []
      else do {
        tracks \<leftarrow> copy_tracks (\<lambda>t. \<lparr>pt_usage = ct_usage t, pt_content_type = ct_content_type t,
          pt_gain = ct_gain t, pt_tags = []\<rparr>) (sm_tracks m) 0 (sm_track_count m);
        Some [SC_updateSourceMetadata tracks]
      })"

record hidl_obs =
  ho_session :: hidl_session
  ho_available :: nat
  ho_ok :: bool

function own_OutWrite_loop ::
  "(nat \<Rightarrow> hidl_obs) \<Rightarrow> 'b list \<Rightarrow> nat \<Rightarrow> nat \<Rightarrow> nat \<Rightarrow> int \<Rightarrow> 'b list \<Rightarrow> (nat \<times> 'b list) ub" where
  "own_OutWrite_loop env buffer bytes i totalWritten ms_timeout out =
     (let s = ho_session (env i) in
      if \<not> own_IsSessionReady s then Some (totalWritten, out)
      else if h_data_mq s = None then None
      else
        let availableToWrite = ho_available (env i) in
        if availableToWrite \<noteq> 0 then
          let n = (if availableToWrite > bytes - totalWritten then bytes - totalWritten else availableToWrite) in
          if \<not> ho_ok (env i) then Some (totalWritten, out)
          else
            let out' = out @ take n (drop totalWritten buffer); total' = totalWritten + n in
            if total' < bytes then own_OutWrite_loop env buffer bytes (Suc i) total' ms_timeout out'
            else Some (total', out')
        else if ms_timeout \<ge> kWritePollMs then
          let timeout' = ms_timeout - kWritePollMs in
          if totalWritten < bytes then own_OutWrite_loop env buffer bytes (Suc i) totalWritten timeout' out
          else Some (totalWritten, out)
        else Some (totalWritten, out))"
  by pat_completeness auto

termination own_OutWrite_loop
  by (relation "measure (\<lambda>(env, buffer, bytes, i, total, timeout, out). (bytes - total) + nat timeout)")
    (auto simp: kWritePollMs_def)

declare own_OutWrite_loop.simps [simp del]

definition own_OutWritePcmData :: "(nat \<Rightarrow> hidl_obs) \<Rightarrow> 'b list option \<Rightarrow> nat \<Rightarrow> (nat \<times> 'b list) ub" where
  "own_OutWritePcmData env buffer bytes =
     (case buffer of
        None \<Rightarrow> Some (0, [])
      | Some b \<Rightarrow> if bytes = 0 then Some (0, []) else own_OutWrite_loop env b bytes 0 0 kFmqSendTimeoutMs [])"

function own_InRead_loop ::
  "(nat \<Rightarrow> hidl_obs) \<Rightarrow> (nat \<Rightarrow> 'b list) \<Rightarrow> nat \<Rightarrow> nat \<Rightarrow> nat \<Rightarrow> int \<Rightarrow> 'b list \<Rightarrow> (nat \<times> 'b list) ub" where
  "own_InRead_loop env src bytes i totalRead ms_timeout buffer =
     (let s = ho_session (env i) in
      if \<not> own_IsSessionReady s then Some (totalRead, buffer)
      else if h_data_mq s = None then None
      else
        let availableToRead = length (src i) in
        if availableToRead \<noteq> 0 then
          let n = (if availableToRead > bytes - totalRead then bytes - totalRead else availableToRead) in
          if \<not> ho_ok (env i) then Some (totalRead, buffer)
          else
            let buffer' = buffer @ take n (src i); total' = totalRead + n in
            if total' < bytes then own_InRead_loop env src bytes (Suc i) total' ms_timeout buffer'
            else Some (total', buffer')
        else if ms_timeout \<ge> kReadPollMs then
          let timeout' = ms_timeout - kReadPollMs in
          if totalRead < bytes then own_InRead_loop env src bytes (Suc i) totalRead timeout' buffer
          else Some (totalRead, buffer)
        else Some (totalRead, buffer))"
  by pat_completeness auto

termination own_InRead_loop
  by (relation "measure (\<lambda>(env, src, bytes, i, total, timeout, buffer). (bytes - total) + nat timeout)")
    (auto simp: kReadPollMs_def simp flip: length_greater_0_conv)

declare own_InRead_loop.simps [simp del]

definition own_InReadPcmData ::
  "(nat \<Rightarrow> hidl_obs) \<Rightarrow> (nat \<Rightarrow> 'b list) \<Rightarrow> bool \<Rightarrow> nat \<Rightarrow> (nat \<times> 'b list) ub" where
  "own_InReadPcmData env src buffer_null bytes =
     (if buffer_null \<or> bytes = 0 then Some (0, [])
      else own_InRead_loop env src bytes 0 0 kFmqReceiveTimeoutMs [])"

section \<open>Dispatch\<close>

text \<open>The public operations: the middleware where AIDL is available, the session itself otherwise.\<close>

definition via_aidl :: "(sessions \<Rightarrow> 'r \<times> sessions) \<Rightarrow> hidl_world \<Rightarrow> 'r \<times> hidl_world" where
  "via_aidl f w = (let (r, m) = f (hw_sessions w) in (r, w\<lparr>hw_sessions := m\<rparr>))"

definition Hidl_IsSessionReady :: "hidl_params \<Rightarrow> hidl_session_type \<Rightarrow> hidl_world \<Rightarrow> bool \<times> hidl_world" where
  "Hidl_IsSessionReady x st w =
     (if hw_aidl w then via_aidl (mw_IsSessionReady st) w else (own_IsSessionReady (hidl_of x st w), w))"

definition Hidl_OnSessionStarted ::
  "hidl_params \<Rightarrow> nat option \<Rightarrow> data_mq option \<Rightarrow> hidl_audio_config \<Rightarrow> hidl_session_type \<Rightarrow> hidl_world \<Rightarrow>
   (notification list \<times> hidl_world) ub" where
  "Hidl_OnSessionStarted x stack_iface dataMQ audio_config st w = do {
     (ns, s) \<leftarrow> own_OnSessionStarted x stack_iface dataMQ audio_config (hidl_of x st w);
     Some (ns, put_hidl st s w)
   }"

definition Hidl_OnSessionEnded ::
  "hidl_params \<Rightarrow> hidl_session_type \<Rightarrow> hidl_world \<Rightarrow> (notification list \<times> hidl_world) ub" where
  "Hidl_OnSessionEnded x st w =
     (let (toggled, w) = Hidl_IsSessionReady x st w in
      do { (ns, s) \<leftarrow> own_OnSessionEnded x toggled (hidl_of x st w); Some (ns, put_hidl st s w) })"

definition Hidl_RegisterStatusCback ::
  "hidl_params \<Rightarrow> hidl_callbacks \<Rightarrow> hidl_session_type \<Rightarrow> hidl_world \<Rightarrow> (u16 \<times> hidl_world) ub" where
  "Hidl_RegisterStatusCback x cbacks st w =
     (if hw_aidl w then do {
        (cookie, m, legacy) \<leftarrow> mw_RegisterControlResultCback (hx_code x) st cbacks (hw_sessions w, hw_legacy w);
        Some (cookie, w\<lparr>hw_sessions := m, hw_legacy := legacy\<rparr>)
      }
      else let (cookie, s) = own_RegisterStatusCback (hx_hcode x) cbacks (hidl_of x st w) in Some (cookie, put_hidl st s w))"

definition Hidl_UnregisterStatusCback ::
  "hidl_params \<Rightarrow> u16 \<Rightarrow> hidl_session_type \<Rightarrow> hidl_world \<Rightarrow> hidl_world ub" where
  "Hidl_UnregisterStatusCback x cookie st w =
     (if hw_aidl w then do {
        (m, legacy) \<leftarrow> mw_UnregisterControlResultCback st cookie (hw_sessions w, hw_legacy w);
        Some (w\<lparr>hw_sessions := m, hw_legacy := legacy\<rparr>)
      }
      else Some (put_hidl st (own_UnregisterStatusCback cookie (hidl_of x st w)) w))"

definition Hidl_GetAudioConfig ::
  "hidl_params \<Rightarrow> hidl_session_type \<Rightarrow> hidl_world \<Rightarrow> (hidl_audio_config \<times> hidl_world) ub" where
  "Hidl_GetAudioConfig x st w =
     (if hw_aidl w then
        let (c, w) = via_aidl (mw_GetAudioConfig (hx_consts x) (hx_init x) (hx_defaults x) st) w in
        do { c \<leftarrow> c; Some (c, put_hidl st ((hidl_of x st w)\<lparr>h_audio_config := c\<rparr>) w) }
      else Some (own_GetAudioConfig x (hidl_of x st w), w))"

definition Hidl_StartStream ::
  "hidl_params \<Rightarrow> bool \<Rightarrow> hidl_session_type \<Rightarrow> hidl_world \<Rightarrow> (bool \<times> stack_call list) \<times> hidl_world" where
  "Hidl_StartStream x ok st w =
     (if hw_aidl w then via_aidl (mw_StartStream ok st) w else (own_StartStream ok (hidl_of x st w), w))"

definition Hidl_SuspendStream ::
  "hidl_params \<Rightarrow> bool \<Rightarrow> hidl_session_type \<Rightarrow> hidl_world \<Rightarrow> (bool \<times> stack_call list) \<times> hidl_world" where
  "Hidl_SuspendStream x ok st w =
     (if hw_aidl w then via_aidl (mw_SuspendStream ok st) w else (own_SuspendStream ok (hidl_of x st w), w))"

definition Hidl_StopStream ::
  "hidl_params \<Rightarrow> hidl_session_type \<Rightarrow> hidl_world \<Rightarrow> stack_call list \<times> hidl_world" where
  "Hidl_StopStream x st w =
     (if hw_aidl w then via_aidl (mw_StopStream st) w else (own_StopStream (hidl_of x st w), w))"

definition Hidl_GetPresentationPosition ::
  "hidl_params \<Rightarrow> bool \<times> bluetooth_audio_status \<times> presentation_position \<Rightarrow> hidl_session_type \<Rightarrow> hidl_world \<Rightarrow>
   (bool \<times> (u64 \<times> u64 \<times> int \<times> int) option \<times> stack_call list) \<times> hidl_world" where
  "Hidl_GetPresentationPosition x reply st w =
     (if hw_aidl w then
        let (ok, _, pos) = reply;
            ((ret, stored, calls), w) = via_aidl (mw_GetPresentationPosition (hx_zero x) (ok, pos) st) w
        in ((ret, Some stored, calls), w)
      else (own_GetPresentationPosition reply (hidl_of x st w), w))"

definition Hidl_UpdateTracksMetadata ::
  "hidl_params \<Rightarrow> bool \<Rightarrow> source_metadata \<Rightarrow> hidl_session_type \<Rightarrow> hidl_world \<Rightarrow> stack_call list ub \<times> hidl_world" where
  "Hidl_UpdateTracksMetadata x ok m st w =
     (if hw_aidl w then via_aidl (mw_UpdateTracksMetadata ok st m) w
      else (own_UpdateTracksMetadata ok m (hidl_of x st w), w))"

text \<open>In a transfer \<open>aenv\<close> shows the AIDL session and \<open>henv\<close> the HIDL session.\<close>

definition Hidl_OutWritePcmData ::
  "bool \<Rightarrow> (nat \<Rightarrow> pcm_obs) \<Rightarrow> (nat \<Rightarrow> hidl_obs) \<Rightarrow> 'b list option \<Rightarrow> nat \<Rightarrow> (nat \<times> 'b list) ub" where
  "Hidl_OutWritePcmData aidl aenv henv buffer bytes =
     (if aidl then mw_OutWritePcmData aenv buffer bytes else own_OutWritePcmData henv buffer bytes)"

definition Hidl_InReadPcmData ::
  "bool \<Rightarrow> (nat \<Rightarrow> pcm_obs) \<Rightarrow> (nat \<Rightarrow> hidl_obs) \<Rightarrow> (nat \<Rightarrow> 'b list) \<Rightarrow> bool \<Rightarrow> nat \<Rightarrow> (nat \<times> 'b list) ub" where
  "Hidl_InReadPcmData aidl aenv henv src buffer_null bytes =
     (if aidl then mw_InReadPcmData aenv src buffer_null bytes else own_InReadPcmData henv src buffer_null bytes)"

section \<open>The session of version 2.1\<close>

definition UpdateAudioConfig_2_1 :: "hidl_audio_config_2_1 \<Rightarrow> hidl_session_2_1 \<Rightarrow> bool \<times> hidl_session_2_1" where
  "UpdateAudioConfig_2_1 audio_config s =
     (let st = h1_session_type_2_1 s;
          is_software_session = (st = HST_A2DP_SOFTWARE_ENCODING_DATAPATH \<or> st = HST_HEARING_AID_SOFTWARE_ENCODING_DATAPATH \<or>
            st = HST_LE_AUDIO_SOFTWARE_ENCODING_DATAPATH \<or> st = HST_LE_AUDIO_SOFTWARE_DECODED_DATAPATH);
          is_offload_a2dp_session = (st = HST_A2DP_HARDWARE_OFFLOAD_DATAPATH);
          is_software_audio_config = (is_software_session \<and> (case audio_config of HAC1_pcm _ \<Rightarrow> True | _ \<Rightarrow> False));
          is_a2dp_offload_audio_config = (is_offload_a2dp_session \<and> (case audio_config of HAC1_codec _ \<Rightarrow> True | _ \<Rightarrow> False))
      in if \<not> is_software_audio_config \<and> \<not> is_a2dp_offload_audio_config then (False, s)
         else (True, s\<lparr>h1_audio_config_2_1 := audio_config\<rparr>))"

text \<open>The accessor \<open>pcmConfig()\<close> aborts on another alternative.\<close>

fun to_2_0_config :: "hidl_audio_config_2_1 \<Rightarrow> hidl_audio_config ub" where
  "to_2_0_config (HAC1_codec c) = Some (HAC_codec c)"
| "to_2_0_config (HAC1_pcm p) = Some (HAC_pcm \<lparr>hp_sampleRate = hp1_sampleRate p, hp_channelMode = hp1_channelMode p,
     hp_bitsPerSample = hp1_bitsPerSample p\<rparr>)"
| "to_2_0_config (HAC1_leAudio _) = None"

fun to_2_1_config :: "hidl_audio_config \<Rightarrow> hidl_audio_config_2_1" where
  "to_2_1_config (HAC_codec c) = HAC1_codec c"
| "to_2_1_config (HAC_pcm p) = HAC1_pcm \<lparr>hp1_sampleRate = hp_sampleRate p, hp1_channelMode = hp_channelMode p,
     hp1_bitsPerSample = hp_bitsPerSample p, hp1_dataIntervalUs = 0\<rparr>"

definition OnSessionStarted_2_1 ::
  "hidl_params \<Rightarrow> nat option \<Rightarrow> data_mq option \<Rightarrow> hidl_audio_config_2_1 \<Rightarrow> hidl_session_type \<Rightarrow> hidl_world \<Rightarrow>
   (notification list \<times> hidl_world) ub" where
  "OnSessionStarted_2_1 x stack_iface dataMQ audio_config st w =
     (let s1 = hidl_2_1_of x st w in
      if h1_session_type_2_1 s1 = HST_UNKNOWN then do {
        config \<leftarrow> to_2_0_config audio_config;
        Hidl_OnSessionStarted x stack_iface dataMQ config st w
      }
      else if stack_iface = None then Some ([], w)
      else
        let (config_ok, s1) = UpdateAudioConfig_2_1 audio_config s1;
            w = w\<lparr>hw_hidl_2_1 := (hw_hidl_2_1 w)(st \<mapsto> s1)\<rparr>
        in if \<not> config_ok then Some ([], w)
        else
          let (path_ok, s) = Hidl_UpdateDataPath dataMQ (hidl_of x st w) in
          if \<not> path_ok then
            Some ([], put_hidl st s (w\<lparr>hw_hidl_2_1 := (hw_hidl_2_1 w)(st \<mapsto> s1\<lparr>h1_audio_config_2_1 := i_config_2_1 (hx_init x)\<rparr>)\<rparr>))
          else
            let s = s\<lparr>h_stack_iface := stack_iface\<rparr> in
            do { ns \<leftarrow> Hidl_ReportSessionStatus s; Some (ns, put_hidl st s w) })"

text \<open>Both invalid configurations of version 2.1 are value-initialised unions.\<close>

definition GetAudioConfig_2_1 ::
  "hidl_params \<Rightarrow> hidl_session_type \<Rightarrow> hidl_world \<Rightarrow> (hidl_audio_config_2_1 \<times> hidl_world) ub" where
  "GetAudioConfig_2_1 x st w =
     (let s1 = hidl_2_1_of x st w in
      if hw_aidl w then
        let (c, w) = via_aidl (mw_GetAudioConfig_2_1 (hx_consts x) (hx_init x) (hx_defaults x) (h1_raw_session_type s1)) w in
        do { c \<leftarrow> c; Some (c, w) }
      else
        let (ready, w) = Hidl_IsSessionReady x st w in
        if ready then
          if h1_session_type_2_1 s1 \<noteq> HST_UNKNOWN then Some (h1_audio_config_2_1 s1, w)
          else do { (fromConf, w) \<leftarrow> Hidl_GetAudioConfig x st w; Some (to_2_1_config fromConf, w) }
        else Some (i_config_2_1 (hx_init x), w))"

section \<open>The wrappers\<close>

definition Control21_IsSessionReady :: "hidl_params \<Rightarrow> hidl_session_type \<Rightarrow> hidl_world \<Rightarrow> bool \<times> hidl_world" where
  "Control21_IsSessionReady x st w = Hidl_IsSessionReady x st (Hidl_GetSessionInstance_2_1 x st w)"

definition Control21_RegisterControlResultCback ::
  "hidl_params \<Rightarrow> hidl_session_type \<Rightarrow> hidl_callbacks \<Rightarrow> hidl_world \<Rightarrow> (u16 \<times> hidl_world) ub" where
  "Control21_RegisterControlResultCback x st cbacks w =
     Hidl_RegisterStatusCback x cbacks st (Hidl_GetSessionInstance_2_1 x st w)"

definition Control21_UnregisterControlResultCback ::
  "hidl_params \<Rightarrow> hidl_session_type \<Rightarrow> u16 \<Rightarrow> hidl_world \<Rightarrow> hidl_world ub" where
  "Control21_UnregisterControlResultCback x st cookie w =
     Hidl_UnregisterStatusCback x cookie st (Hidl_GetSessionInstance_2_1 x st w)"

definition Control21_GetAudioConfig ::
  "hidl_params \<Rightarrow> hidl_session_type \<Rightarrow> hidl_world \<Rightarrow> (hidl_audio_config_2_1 \<times> hidl_world) ub" where
  "Control21_GetAudioConfig x st w = GetAudioConfig_2_1 x st (Hidl_GetSessionInstance_2_1 x st w)"

definition Control21_StartStream ::
  "hidl_params \<Rightarrow> bool \<Rightarrow> hidl_session_type \<Rightarrow> hidl_world \<Rightarrow> (bool \<times> stack_call list) \<times> hidl_world" where
  "Control21_StartStream x ok st w = Hidl_StartStream x ok st (Hidl_GetSessionInstance_2_1 x st w)"

definition Control21_SuspendStream ::
  "hidl_params \<Rightarrow> bool \<Rightarrow> hidl_session_type \<Rightarrow> hidl_world \<Rightarrow> (bool \<times> stack_call list) \<times> hidl_world" where
  "Control21_SuspendStream x ok st w = Hidl_SuspendStream x ok st (Hidl_GetSessionInstance_2_1 x st w)"

definition Control21_StopStream ::
  "hidl_params \<Rightarrow> hidl_session_type \<Rightarrow> hidl_world \<Rightarrow> stack_call list \<times> hidl_world" where
  "Control21_StopStream x st w = Hidl_StopStream x st (Hidl_GetSessionInstance_2_1 x st w)"

definition Control21_GetPresentationPosition ::
  "hidl_params \<Rightarrow> bool \<times> bluetooth_audio_status \<times> presentation_position \<Rightarrow> hidl_session_type \<Rightarrow> hidl_world \<Rightarrow>
   (bool \<times> (u64 \<times> u64 \<times> int \<times> int) option \<times> stack_call list) \<times> hidl_world" where
  "Control21_GetPresentationPosition x reply st w =
     Hidl_GetPresentationPosition x reply st (Hidl_GetSessionInstance_2_1 x st w)"

definition Control21_UpdateTracksMetadata ::
  "hidl_params \<Rightarrow> bool \<Rightarrow> hidl_session_type \<Rightarrow> source_metadata \<Rightarrow> hidl_world \<Rightarrow> stack_call list ub \<times> hidl_world" where
  "Control21_UpdateTracksMetadata x ok st m w = Hidl_UpdateTracksMetadata x ok m st (Hidl_GetSessionInstance_2_1 x st w)"

definition Report21_OnSessionStarted ::
  "hidl_params \<Rightarrow> hidl_session_type \<Rightarrow> nat option \<Rightarrow> data_mq option \<Rightarrow> hidl_audio_config_2_1 \<Rightarrow> hidl_world \<Rightarrow>
   (notification list \<times> hidl_world) ub" where
  "Report21_OnSessionStarted x st host_iface dataMQ audio_config w =
     OnSessionStarted_2_1 x host_iface dataMQ audio_config st (Hidl_GetSessionInstance_2_1 x st w)"

definition Report21_OnSessionEnded ::
  "hidl_params \<Rightarrow> hidl_session_type \<Rightarrow> hidl_world \<Rightarrow> (notification list \<times> hidl_world) ub" where
  "Report21_OnSessionEnded x st w = Hidl_OnSessionEnded x st (Hidl_GetSessionInstance_2_1 x st w)"

definition Report21_ReportControlStatus ::
  "hidl_params \<Rightarrow> hidl_session_type \<Rightarrow> bool \<Rightarrow> bluetooth_audio_status \<Rightarrow> hidl_world \<Rightarrow>
   (notification list \<times> hidl_world) ub" where
  "Report21_ReportControlStatus x st start_resp status w =
     (let w = Hidl_GetSessionInstance_2_1 x st w in
      do { (ns, s) \<leftarrow> Hidl_ReportControlStatus start_resp status (hidl_of x st w); Some (ns, put_hidl st s w) })"

section \<open>The registry of observers\<close>

definition hidl_numbering :: "(hidl_session_type \<Rightarrow> u16) \<Rightarrow> bool" where
  "hidl_numbering hcode \<longleftrightarrow> inj hcode \<and> (\<forall>st. hcode st < 256)"

definition h_own_cookie :: "(hidl_session_type \<Rightarrow> u16) \<Rightarrow> hidl_session_type \<Rightarrow> u16 \<Rightarrow> bool" where
  "h_own_cookie hcode st c \<longleftrightarrow> H_ObserversCookieGetInitValue hcode st \<le> c \<and> c < H_ObserversCookieGetUpperBound hcode st"

text \<open>The cookies are computed as in the AIDL session, from the number of the session type.\<close>

lemma h_cookie_values:
  "H_ObserversCookieGetInitValue hcode st = ObserversCookieGetInitValue (\<lambda>_. hcode st) t"
  "H_ObserversCookieGetUpperBound hcode st = ObserversCookieGetUpperBound (\<lambda>_. hcode st) t"
  "H_kObserversCookieUndefined hcode = ObserversCookieGetInitValue (\<lambda>_. hcode HST_UNKNOWN) t"
  "h_own_cookie hcode st c \<longleftrightarrow> own_cookie (\<lambda>_. hcode st) t c"
  by (simp_all add: H_ObserversCookieGetInitValue_def H_ObserversCookieGetUpperBound_def H_kObserversCookieUndefined_def
      ObserversCookieGetInitValue_def ObserversCookieGetUpperBound_def kObserversCookieSize_def h_own_cookie_def own_cookie_def)

lemma h_own_cookie_defined:
  assumes "hidl_numbering hcode" "st \<noteq> HST_UNKNOWN" "h_own_cookie hcode st c"
  shows "c \<noteq> H_kObserversCookieUndefined hcode"
proof
  assume c: "c = H_kObserversCookieUndefined hcode"
  have small: "unat (hcode t) < 256" for t using assms(1) by (simp add: hidl_numbering_def word_less_nat_alt)
  have "unat c = 256 * (unat (hcode HST_UNKNOWN) mod 256)"
    unfolding c h_cookie_values(3) [of hcode ST_UNKNOWN] unat_init_value ..
  moreover have "256 * (unat (hcode st) mod 256) \<le> unat c" "unat c < 256 * (unat (hcode st) mod 256) + 16"
    using assms(3) unfolding h_cookie_values(4) [of hcode st c ST_UNKNOWN] own_cookie_unat by auto
  ultimately have "unat (hcode st) = unat (hcode HST_UNKNOWN)" using small [of st] small [of HST_UNKNOWN] by simp
  then have "hcode st = hcode HST_UNKNOWN" by (simp add: word_unat_eq_iff)
  then show False using assms(1,2) by (simp add: hidl_numbering_def inj_eq)
qed

lemma own_register_cases:
  obtains (full) "own_RegisterStatusCback hcode cb s = (H_kObserversCookieUndefined hcode, s)"
      "\<forall>k. h_own_cookie hcode (h_session_type s) k \<longrightarrow> map_of (h_observers s) k \<noteq> None"
    | (free) c where "own_RegisterStatusCback hcode cb s = (c, s\<lparr>h_observers := AList.update c cb (h_observers s)\<rparr>)"
      "h_own_cookie hcode (h_session_type s) c" "map_of (h_observers s) c = None"
proof -
  define i where "i = H_ObserversCookieGetInitValue hcode (h_session_type s)"
  define u where "u = H_ObserversCookieGetUpperBound hcode (h_session_type s)"
  define r where "r = find_cookie (h_observers s) u i"
  have "i \<le> u" unfolding i_def u_def h_cookie_values(1,2) [of hcode _ ST_UNKNOWN] by (rule cookie_bounds_le)
  then have sp: "i \<le> r" "r \<le> u" "\<forall>k. i \<le> k \<and> k < r \<longrightarrow> map_of (h_observers s) k \<noteq> None"
    "r < u \<longrightarrow> map_of (h_observers s) r = None"
    using find_cookie_spec [of i u "h_observers s"] by (auto simp: r_def)
  have e: "own_RegisterStatusCback hcode cb s =
      (if u \<le> r then (H_kObserversCookieUndefined hcode, s) else (r, s\<lparr>h_observers := AList.update r cb (h_observers s)\<rparr>))"
    by (simp add: own_RegisterStatusCback_def r_def i_def u_def Let_def)
  show thesis
  proof (cases "r < u")
    case True
    then have "\<not> u \<le> r" by simp
    then have "own_RegisterStatusCback hcode cb s = (r, s\<lparr>h_observers := AList.update r cb (h_observers s)\<rparr>)"
      unfolding e by (rule if_not_P)
    then show thesis using free [of r] sp(1,4) True by (simp add: h_own_cookie_def i_def u_def)
  next
    case False
    then have "r = u" using sp(2) by simp
    then show thesis using full sp(3) e by (simp add: h_own_cookie_def i_def u_def)
  qed
qed

definition hidl_registry_inv :: "(hidl_session_type \<Rightarrow> u16) \<Rightarrow> hidl_session \<Rightarrow> bool" where
  "hidl_registry_inv hcode s \<longleftrightarrow> hidl_numbering hcode \<and> h_session_type s \<noteq> HST_UNKNOWN \<and>
     distinct (map fst (h_observers s)) \<and> (\<forall>c \<in> fst ` set (h_observers s). h_own_cookie hcode (h_session_type s) c)"

lemma hidl_registry_inv_update:
  "hidl_registry_inv hcode s \<Longrightarrow> h_own_cookie hcode (h_session_type s) c \<Longrightarrow>
   hidl_registry_inv hcode (s\<lparr>h_observers := AList.update c cb (h_observers s)\<rparr>)"
  by (auto simp: hidl_registry_inv_def dom_update distinct_update)

interpretation hidl: observer_registry
  "own_RegisterStatusCback hcode" own_UnregisterStatusCback "\<lambda>s. map_of (h_observers s)"
  "H_kObserversCookieUndefined hcode" "hidl_registry_inv hcode" for hcode
proof unfold_locales
  fix s cb c s'
  assume i: "hidl_registry_inv hcode s" and r: "own_RegisterStatusCback hcode cb s = (c, s')"
  show "c \<noteq> H_kObserversCookieUndefined hcode \<Longrightarrow>
      map_of (h_observers s) c = None \<and> map_of (h_observers s') = (map_of (h_observers s))(c \<mapsto> cb)"
    using r by (cases rule: own_register_cases [of hcode cb s]) (auto simp: update_conv')
  show "hidl_registry_inv hcode s'"
    using r i hidl_registry_inv_update [OF i] by (cases rule: own_register_cases [of hcode cb s]) auto
next
  fix s cb s'
  assume i: "hidl_registry_inv hcode s" and r: "own_RegisterStatusCback hcode cb s = (H_kObserversCookieUndefined hcode, s')"
  show "s' = s"
    using r i h_own_cookie_defined [of hcode "h_session_type s"]
    by (cases rule: own_register_cases [of hcode cb s]) (auto simp: hidl_registry_inv_def)
qed (auto simp: own_UnregisterStatusCback_def delete_conv' hidl_registry_inv_def distinct_removeAll delete_keys
    simp flip: set_map)

section \<open>The data path\<close>

text \<open>The loops are those of the AIDL session: only how a session tells that it is ready differs.\<close>

definition abs_obs :: "hidl_obs \<Rightarrow> pcm_obs" where
  "abs_obs ob = (let s = ho_session ob in
     \<lparr>ob_session = (BluetoothAudioSession
          (if h_session_type s = HST_A2DP_HARDWARE_OFFLOAD_DATAPATH then A2DP_HARDWARE_OFFLOAD_ENCODING_DATAPATH
           else A2DP_SOFTWARE_ENCODING_DATAPATH))
        \<lparr>s_stack_iface := h_stack_iface s, s_data_mq := h_data_mq s, s_audio_config := Some (AC_hfpConfig 0)\<rparr>,
      ob_available = ho_available ob, ob_ok = ho_ok ob\<rparr>)"

lemma abs_obs_simps [simp]:
  "IsSessionReady (ob_session (abs_obs ob)) = own_IsSessionReady (ho_session ob)"
  "s_data_mq (ob_session (abs_obs ob)) = h_data_mq (ho_session ob)"
  "ob_available (abs_obs ob) = ho_available ob" "ob_ok (abs_obs ob) = ho_ok ob"
  by (auto simp: abs_obs_def Let_def IsSessionReady_iff own_IsSessionReady_def BluetoothAudioSession_def
      offload_session_def a2dp_offload_session_def le_offload_session_def split: option.splits)

lemma own_OutWrite_loop_eq:
  "own_OutWrite_loop env b n i t ms out = OutWrite_loop (\<lambda>j. abs_obs (env j)) b n i t ms out"
proof (induction env b n i t ms out rule: own_OutWrite_loop.induct)
  case (1 env b n i t ms out)
  show ?case
    apply (subst own_OutWrite_loop.simps, subst OutWrite_loop.simps)
    using 1 by (simp add: Let_def)
qed

lemma own_InRead_loop_eq:
  "own_InRead_loop env src n i t ms buf = InRead_loop (\<lambda>j. abs_obs (env j)) src n i t ms buf"
proof (induction env src n i t ms buf rule: own_InRead_loop.induct)
  case (1 env src n i t ms buf)
  show ?case
    apply (subst own_InRead_loop.simps, subst InRead_loop.simps)
    using 1 by (simp add: Let_def)
qed

lemma own_transfer_eq:
  "own_OutWritePcmData env = OutWritePcmData (\<lambda>j. abs_obs (env j))"
  "own_InReadPcmData env = InReadPcmData (\<lambda>j. abs_obs (env j))"
  by (simp_all add: fun_eq_iff own_OutWritePcmData_def OutWritePcmData_def own_InReadPcmData_def InReadPcmData_def
      own_OutWrite_loop_eq own_InRead_loop_eq split: option.split)

section \<open>Refinement\<close>

text \<open>
  The requests both versions of a session serve. A start carries the configuration in both
  forms, and a registration the legacy callbacks.
\<close>

datatype session_cmd =
    Cmd_start "nat option" "data_mq option" hidl_audio_config audio_configuration "latency_mode list"
  | Cmd_end
  | Cmd_control bool bluetooth_audio_status
  | Cmd_register hidl_callbacks
  | Cmd_unregister u16
  | Cmd_ready
  | Cmd_startStream bool
  | Cmd_suspendStream bool
  | Cmd_stopStream

text \<open>What a client sees of a request: notifications, the cookie, the answer, the calls to the stack.\<close>

datatype session_out = Out_notes "notification list" | Out_cookie u16 | Out_unit | Out_bool bool "stack_call list"

fun hidl_exec :: "hidl_params \<Rightarrow> session_cmd \<Rightarrow> hidl_session \<Rightarrow> (session_out \<times> hidl_session) ub" where
  "hidl_exec x (Cmd_start iface mq c _ _) s = map_option (\<lambda>(ns, s). (Out_notes ns, s)) (own_OnSessionStarted x iface mq c s)"
| "hidl_exec x Cmd_end s = map_option (\<lambda>(ns, s). (Out_notes ns, s)) (own_OnSessionEnded x (own_IsSessionReady s) s)"
| "hidl_exec x (Cmd_control r st) s = map_option (\<lambda>(ns, s). (Out_notes ns, s)) (Hidl_ReportControlStatus r st s)"
| "hidl_exec x (Cmd_register cb) s = (let (c, s) = own_RegisterStatusCback (hx_hcode x) cb s in Some (Out_cookie c, s))"
| "hidl_exec x (Cmd_unregister c) s = Some (Out_unit, own_UnregisterStatusCback c s)"
| "hidl_exec x Cmd_ready s = Some (Out_bool (own_IsSessionReady s) [], s)"
| "hidl_exec x (Cmd_startStream ok) s = Some (case own_StartStream ok s of (r, cs) \<Rightarrow> Out_bool r cs, s)"
| "hidl_exec x (Cmd_suspendStream ok) s = Some (case own_SuspendStream ok s of (r, cs) \<Rightarrow> Out_bool r cs, s)"
| "hidl_exec x Cmd_stopStream s = Some (Out_bool True (own_StopStream s), s)"

definition aidl_callbacks :: "hidl_callbacks \<Rightarrow> port_status_callbacks" where
  "aidl_callbacks cb = \<lparr>cb_client = hcb_client cb, cb_control_result = hcb_control_result cb,
     cb_session_changed = hcb_session_changed cb, cb_audio_configuration_changed = False, cb_low_latency_mode_allowed = False\<rparr>"

fun aidl_exec :: "(session_type \<Rightarrow> u16) \<Rightarrow> session_cmd \<Rightarrow> audio_session \<Rightarrow> (session_out \<times> audio_session) ub" where
  "aidl_exec code (Cmd_start iface mq _ c modes) s = map_option (\<lambda>(ns, s). (Out_notes ns, s)) (OnSessionStarted iface mq c modes s)"
| "aidl_exec code Cmd_end s = map_option (\<lambda>(ns, s). (Out_notes ns, s)) (OnSessionEnded s)"
| "aidl_exec code (Cmd_control r st) s = map_option (\<lambda>(ns, s). (Out_notes ns, s)) (ReportControlStatus r st s)"
| "aidl_exec code (Cmd_register cb) s = (let (c, s) = RegisterStatusCback code (aidl_callbacks cb) s in Some (Out_cookie c, s))"
| "aidl_exec code (Cmd_unregister c) s = Some (Out_unit, UnregisterStatusCback c s)"
| "aidl_exec code Cmd_ready s = Some (Out_bool (IsSessionReady s) [], s)"
| "aidl_exec code (Cmd_startStream ok) s = Some (case StartStream ok False s of (r, cs) \<Rightarrow> Out_bool r cs, s)"
| "aidl_exec code (Cmd_suspendStream ok) s = Some (case SuspendStream ok s of (r, cs) \<Rightarrow> Out_bool r cs, s)"
| "aidl_exec code Cmd_stopStream s = Some (Out_bool True (StopStream s), s)"

fun run :: "(session_cmd \<Rightarrow> 's \<Rightarrow> (session_out \<times> 's) ub) \<Rightarrow> session_cmd list \<Rightarrow> 's \<Rightarrow> (session_out list \<times> 's) ub" where
  "run exec [] s = Some ([], s)"
| "run exec (c # cs) s = do { (r, s) \<leftarrow> exec c s; (rs, s) \<leftarrow> run exec cs s; Some (r # rs, s) }"

text \<open>
  A start is comparable when both configurations are of one kind and the queue, if there is one, is
  valid: a HIDL offload session stays ready after an invalid queue, an AIDL session does not.
\<close>

fun same_kind :: "hidl_audio_config \<Rightarrow> audio_configuration \<Rightarrow> bool" where
  "same_kind (HAC_pcm _) c \<longleftrightarrow> getTag c = Tag_pcmConfig"
| "same_kind (HAC_codec _) c \<longleftrightarrow> getTag c = Tag_a2dpConfig"

fun comparable :: "session_cmd \<Rightarrow> bool" where
  "comparable (Cmd_start _ mq h c _) \<longleftrightarrow> same_kind h c \<and> (\<forall>q. mq = Some q \<longrightarrow> mq_isValid q)"
| "comparable _ \<longleftrightarrow> True"

definition session_rel :: "hidl_session \<Rightarrow> audio_session \<Rightarrow> bool" where
  "session_rel h s \<longleftrightarrow> is_2_0_session_type (h_session_type h) \<and>
     s_session_type s = from_session_type_2_0 (h_session_type h) \<and> s_stack_iface s = h_stack_iface h \<and>
     s_data_mq s = h_data_mq h \<and> s_observers s = map (\<lambda>(c, cb). (c, aidl_callbacks cb)) (h_observers h) \<and>
     (s_stack_iface s \<noteq> None \<longrightarrow> s_audio_config s \<noteq> None)"

definition codes_agree :: "(session_type \<Rightarrow> u16) \<Rightarrow> (hidl_session_type \<Rightarrow> u16) \<Rightarrow> bool" where
  "codes_agree code hcode \<longleftrightarrow> (\<forall>st. hcode st = code (from_session_type_2_0 st))"

lemma rel_ready: "session_rel h s \<Longrightarrow> own_IsSessionReady h = IsSessionReady s"
  by (cases "h_session_type h")
     (auto simp: session_rel_def own_IsSessionReady_def IsSessionReady_iff is_2_0_session_type_def from_session_type_2_0_def
       offload_session_def a2dp_offload_session_def le_offload_session_def split: option.splits)

lemma rel_report: "session_rel h s \<Longrightarrow> Hidl_ReportSessionStatus h = ReportSessionStatus s"
proof -
  assume r: "session_rel h s"
  have "for_observers (\<lambda>c cb. if hcb_session_changed cb then Some [N_session_changed (hcb_client cb) c] else None) obs =
      for_observers (\<lambda>c cb. if cb_session_changed cb then Some [N_session_changed (cb_client cb) c] else None)
        (map (\<lambda>(c, cb). (c, aidl_callbacks cb)) obs)" for obs
    by (induction obs) (auto simp: aidl_callbacks_def)
  then show ?thesis using r by (simp add: Hidl_ReportSessionStatus_def ReportSessionStatus_def session_rel_def)
qed

lemma rel_control:
  "session_rel h s \<Longrightarrow>
   map_option fst (Hidl_ReportControlStatus b st h) = map_option fst (ReportControlStatus b st s)"
proof -
  assume r: "session_rel h s"
  have "for_observers (\<lambda>c cb. if hcb_control_result cb then Some [N_control_result (hcb_client cb) c b st] else None) obs =
      for_observers (\<lambda>c cb. if cb_control_result cb then Some [N_control_result (cb_client cb) c b st] else None)
        (map (\<lambda>(c, cb). (c, aidl_callbacks cb)) obs)" for obs
    by (induction obs) (auto simp: aidl_callbacks_def)
  then show ?thesis using r
    by (auto simp: Hidl_ReportControlStatus_def ReportControlStatus_def session_rel_def split: bind_splits)
qed

lemma own_OnSessionStarted_eq:
  assumes "is_2_0_session_type (h_session_type s)" "\<forall>q. mq = Some q \<longrightarrow> mq_isValid q"
  shows "own_OnSessionStarted x iface mq cfg s =
     (if iface = None \<or> (case cfg of HAC_pcm _ \<Rightarrow> h_session_type s = HST_A2DP_HARDWARE_OFFLOAD_DATAPATH
          | HAC_codec _ \<Rightarrow> h_session_type s \<noteq> HST_A2DP_HARDWARE_OFFLOAD_DATAPATH) then Some ([], s)
      else let s' = s\<lparr>h_audio_config := cfg, h_data_mq := mq, h_stack_iface := iface\<rparr>
        in map_option (\<lambda>ns. (ns, s')) (Hidl_ReportSessionStatus s'))"
  using assms by (cases mq; cases cfg) (auto simp: own_OnSessionStarted_def Hidl_UpdateAudioConfig_def Hidl_UpdateDataPath_def
      map_option_case Let_def is_2_0_session_type_def split: option.split bind_split)

definition sim :: "('r \<times> hidl_session) ub \<Rightarrow> ('r \<times> audio_session) ub \<Rightarrow> bool" where
  "sim a b \<longleftrightarrow> (case a of None \<Rightarrow> b = None | Some (r, h) \<Rightarrow> \<exists>s. b = Some (r, s) \<and> session_rel h s)"

lemma sim_map: "session_rel h s \<Longrightarrow> sim (map_option (\<lambda>ns. (f ns, h)) a) (map_option (\<lambda>ns. (f ns, s)) a)"
  by (cases a) (auto simp: sim_def)

lemma sim_Some: "session_rel h s \<Longrightarrow> sim (Some (r, h)) (Some (r, s))"
  by (simp add: sim_def)

lemma sim_started:
  assumes "session_rel h s" "comparable (Cmd_start iface mq hc c modes)"
  shows "sim (hidl_exec x (Cmd_start iface mq hc c modes) h) (aidl_exec code (Cmd_start iface mq hc c modes) s)"
proof -
  have t: "is_2_0_session_type (h_session_type h)" "s_session_type s = from_session_type_2_0 (h_session_type h)"
    using assms(1) by (simp_all add: session_rel_def)
  have mq: "\<forall>q. mq = Some q \<longrightarrow> mq_isValid q" "same_kind hc c" using assms(2) by auto
  let ?h = "h\<lparr>h_audio_config := hc, h_data_mq := mq, h_stack_iface := iface\<rparr>"
  let ?s = "s\<lparr>s_audio_config := Some c, s_data_mq := mq, s_stack_iface := iface, s_latency_modes := modes\<rparr>"
  have "(case hc of HAC_pcm _ \<Rightarrow> h_session_type h = HST_A2DP_HARDWARE_OFFLOAD_DATAPATH
      | HAC_codec _ \<Rightarrow> h_session_type h \<noteq> HST_A2DP_HARDWARE_OFFLOAD_DATAPATH) \<longleftrightarrow> getTag c \<notin> set (config_tags (s_session_type s))"
    using t(1) mq(2) unfolding t(2) by (cases hc) (auto simp: is_2_0_session_type_def from_session_type_2_0_def)
  then have e: "own_OnSessionStarted x iface mq hc h = (if iface = None \<or> getTag c \<notin> set (config_tags (s_session_type s))
      then Some ([], h) else map_option (\<lambda>ns. (ns, ?h)) (Hidl_ReportSessionStatus ?h))"
    unfolding own_OnSessionStarted_eq [OF t(1) mq(1)] by (simp add: Let_def)
  have e': "OnSessionStarted iface mq c modes s = (if iface = None \<or> getTag c \<notin> set (config_tags (s_session_type s))
      then Some ([], s) else map_option (\<lambda>ns. (ns, ?s)) (ReportSessionStatus ?s))"
    unfolding OnSessionStarted_eq using mq(1) by (auto simp: Let_def)
  have r: "session_rel ?h ?s" using assms(1) by (simp add: session_rel_def)
  show ?thesis
    using sim_map [OF r, of Out_notes "ReportSessionStatus ?s"] sim_Some [OF assms(1), of "Out_notes []"]
    by (simp add: e e' rel_report [OF r] option.map_comp comp_def)
qed

lemma sim_ended:
  assumes "session_rel h s"
  shows "sim (hidl_exec x Cmd_end h) (aidl_exec code Cmd_end s)"
proof -
  let ?h = "h\<lparr>h_audio_config := invalid_config x (h_session_type h), h_stack_iface := None, h_data_mq := None\<rparr>"
  let ?s = "s\<lparr>s_audio_config := None, s_stack_iface := None, s_data_mq := None\<rparr>"
  have r: "session_rel ?h ?s" using assms by (simp add: session_rel_def)
  have e: "hidl_exec x Cmd_end h = (if IsSessionReady s then map_option (\<lambda>ns. (Out_notes ns, ?h)) (ReportSessionStatus ?s)
      else Some (Out_notes [], ?h))"
    by (simp add: own_OnSessionEnded_def Hidl_UpdateDataPath_def Let_def rel_ready [OF assms] rel_report [OF r]
        map_option_case split: option.split)
  have e': "aidl_exec code Cmd_end s = (if IsSessionReady s then map_option (\<lambda>ns. (Out_notes ns, ?s)) (ReportSessionStatus ?s)
      else Some (Out_notes [], ?s))"
    by (simp add: OnSessionEnded_def UpdateDataPath_def Let_def map_option_case split: option.split)
  show ?thesis unfolding e e' by (cases "IsSessionReady s") (simp_all only: if_True if_False sim_map [OF r] sim_Some [OF r])
qed

lemma find_cookie_map: "find_cookie (map (\<lambda>(c, cb). (c, f cb)) obs) u c = find_cookie obs u c"
proof (induction obs u c rule: find_cookie.induct)
  case (1 obs u c)
  have "map_of (map (\<lambda>(c, cb). (c, f cb)) obs) c = map_option f (map_of obs c)" by (simp add: map_of_map)
  then show ?case using 1 by (subst (1 2) find_cookie.simps) auto
qed

lemma alist_map:
  "AList.update c (f cb) (map (\<lambda>(c, cb). (c, f cb)) obs) = map (\<lambda>(c, cb). (c, f cb)) (AList.update c cb obs)"
  "AList.delete c (map (\<lambda>(c, cb). (c, f cb)) obs) = map (\<lambda>(c, cb). (c, f cb)) (AList.delete c obs)"
  by (induction obs) (auto simp: AList.delete_eq)

lemma sim_register:
  assumes "codes_agree code (hx_hcode x)" "session_rel h s"
  shows "sim (hidl_exec x (Cmd_register cb) h) (aidl_exec code (Cmd_register cb) s)"
proof -
  have t: "s_session_type s = from_session_type_2_0 (h_session_type h)"
    "s_observers s = map (\<lambda>(c, cb). (c, aidl_callbacks cb)) (h_observers h)" using assms(2) by (simp_all add: session_rel_def)
  have c: "H_ObserversCookieGetInitValue (hx_hcode x) (h_session_type h) = ObserversCookieGetInitValue code (s_session_type s)"
    "H_ObserversCookieGetUpperBound (hx_hcode x) (h_session_type h) = ObserversCookieGetUpperBound code (s_session_type s)"
    "H_kObserversCookieUndefined (hx_hcode x) = kObserversCookieUndefined code"
    using assms(1) by (simp_all add: codes_agree_def t(1) H_ObserversCookieGetInitValue_def ObserversCookieGetInitValue_def
        H_ObserversCookieGetUpperBound_def ObserversCookieGetUpperBound_def kObserversCookieSize_def
        H_kObserversCookieUndefined_def kObserversCookieUndefined_def from_session_type_2_0_def)
  have upd: "session_rel (h\<lparr>h_observers := AList.update k cb (h_observers h)\<rparr>)
      (s\<lparr>s_observers := AList.update k (aidl_callbacks cb) (s_observers s)\<rparr>)" for k
    using assms(2) by (simp add: session_rel_def alist_map)
  show ?thesis
    using upd assms(2) by (simp add: own_RegisterStatusCback_def RegisterStatusCback_def Let_def c t(2) find_cookie_map sim_Some)
qed

lemma sim_exec:
  assumes "codes_agree code (hx_hcode x)" "session_rel h s" "comparable cmd"
  shows "sim (hidl_exec x cmd h) (aidl_exec code cmd s)"
proof (cases cmd)
  case (Cmd_control b st)
  define a where "a = map_option fst (ReportControlStatus b st s)"
  have e: "Hidl_ReportControlStatus b st h = map_option (\<lambda>ns. (ns, h)) a" "ReportControlStatus b st s = map_option (\<lambda>ns. (ns, s)) a"
    using rel_control [OF assms(2), of b st]
    by (auto simp: a_def Hidl_ReportControlStatus_def ReportControlStatus_def split: bind_splits)
  show ?thesis unfolding Cmd_control hidl_exec.simps aidl_exec.simps e option.map_comp comp_def prod.case
    by (rule sim_map [OF assms(2)])
next
  case (Cmd_unregister c)
  have "session_rel (own_UnregisterStatusCback c h) (UnregisterStatusCback c s)"
    using assms(2) by (simp add: session_rel_def own_UnregisterStatusCback_def UnregisterStatusCback_def alist_map)
  then show ?thesis using Cmd_unregister by (simp add: sim_Some)
qed (use assms sim_started sim_ended sim_register rel_ready [OF assms(2)] in
  \<open>simp_all add: sim_Some own_StartStream_def StartStream_def own_SuspendStream_def SuspendStream_def own_StopStream_def
     StopStream_def del: hidl_exec.simps(1,2,4) aidl_exec.simps(1,2,4)\<close>)

lemma sim_run:
  assumes "codes_agree code (hx_hcode x)"
  shows "session_rel h s \<Longrightarrow> list_all comparable cmds \<Longrightarrow> sim (run (hidl_exec x) cmds h) (run (aidl_exec code) cmds s)"
proof (induction cmds arbitrary: h s)
  case (Cons cmd cmds)
  have e: "sim (hidl_exec x cmd h) (aidl_exec code cmd s)" using sim_exec [OF assms Cons.prems(1)] Cons.prems(2) by simp
  show ?case
  proof (cases "hidl_exec x cmd h")
    case None
    then show ?thesis using e by (simp add: sim_def)
  next
    case (Some a)
    then obtain r h' s' where a: "hidl_exec x cmd h = Some (r, h')" "aidl_exec code cmd s = Some (r, s')" "session_rel h' s'"
      using e by (cases a) (auto simp: sim_def)
    then have "sim (run (hidl_exec x) cmds h') (run (aidl_exec code) cmds s')" using Cons by simp
    then show ?thesis using a by (auto simp: sim_def split: option.splits)
  qed
qed (simp add: sim_Some)

section \<open>Properties\<close>

text \<open>C27: a HIDL session of a 2.0 type implements the AIDL session of the same type. From related states, every
  sequence of requests whose starts carry a valid queue, or none, and a configuration of the same kind on both sides gives the same
  notifications, cookies, answers and calls to the stack in both, or is undefined in both, and ends in related states. Starts
  with an invalid queue are excluded: the sessions differ there (\<open>hidl_bad_queue_stays_ready\<close>).\<close>

theorem hidl_session_refines_aidl:
  assumes "codes_agree code (hx_hcode x)" and "session_rel h s" and "list_all comparable cmds"
  shows "case run (hidl_exec x) cmds h of
      None \<Rightarrow> run (aidl_exec code) cmds s = None
    | Some (outs, h') \<Rightarrow> \<exists>s'. run (aidl_exec code) cmds s = Some (outs, s') \<and> session_rel h' s'"
  using sim_run [OF assms] unfolding sim_def .

definition hidl_example_code :: "hidl_session_type \<Rightarrow> u16" where
  "hidl_example_code st = example_code (from_session_type_2_0 st)"

definition example_hidl_params :: hidl_params where
  "example_hidl_params = \<lparr>hx_code = example_code, hx_hcode = hidl_example_code, hx_consts = hidl_values, hx_init = any_init,
     hx_defaults = example_defaults,
     hx_zero = \<lparr>pp_remoteDeviceAudioDelayNanos = 0, pp_transmittedOctets = 0, pp_tvSec = 0, pp_tvNSec = 0\<rparr>,
     hx_codec_specific = i_specific any_init\<rparr>"

definition example_hidl_obs :: hidl_obs where
  "example_hidl_obs = \<lparr>ho_session = (Hidl_BluetoothAudioSession example_hidl_params HST_A2DP_SOFTWARE_ENCODING_DATAPATH)
       \<lparr>h_stack_iface := Some 9, h_data_mq := Some example_mq\<rparr>,
     ho_available = 64, ho_ok = True\<rparr>"

theorem hidl_session_refines_aidl_witness:
  "let cmds = [Cmd_register \<lparr>hcb_client = 7, hcb_control_result = True, hcb_session_changed = True\<rparr>,
       Cmd_start (Some 9) (Some example_mq) (HAC_pcm kInvalidPcmParameters) (AC_pcmConfig example_pcm) [FREE], Cmd_ready];
     h = Hidl_BluetoothAudioSession example_hidl_params HST_A2DP_SOFTWARE_ENCODING_DATAPATH
   in \<exists>s'. run (aidl_exec example_code) cmds (BluetoothAudioSession A2DP_SOFTWARE_ENCODING_DATAPATH) =
        Some ([Out_cookie 256, Out_notes [N_session_changed 7 256], Out_bool True []], s')"
proof -
  let ?cb = "\<lparr>hcb_client = 7, hcb_control_result = True, hcb_session_changed = True\<rparr> :: hidl_callbacks"
  let ?cmds = "[Cmd_register ?cb,
       Cmd_start (Some 9) (Some example_mq) (HAC_pcm kInvalidPcmParameters) (AC_pcmConfig example_pcm) [FREE], Cmd_ready]"
  let ?h = "Hidl_BluetoothAudioSession example_hidl_params HST_A2DP_SOFTWARE_ENCODING_DATAPATH"
  have "codes_agree example_code (hx_hcode example_hidl_params)"
    by (simp add: codes_agree_def example_hidl_params_def hidl_example_code_def)
  moreover have "session_rel ?h (BluetoothAudioSession A2DP_SOFTWARE_ENCODING_DATAPATH)"
    by (simp add: session_rel_def Hidl_BluetoothAudioSession_def BluetoothAudioSession_def is_2_0_session_type_def
        from_session_type_2_0_def)
  moreover have "list_all comparable ?cmds" by (simp add: example_mq_def)
  ultimately have *: "case run (hidl_exec example_hidl_params) ?cmds ?h of
      None \<Rightarrow> run (aidl_exec example_code) ?cmds (BluetoothAudioSession A2DP_SOFTWARE_ENCODING_DATAPATH) = None
    | Some (outs, h') \<Rightarrow> \<exists>s'. run (aidl_exec example_code) ?cmds (BluetoothAudioSession A2DP_SOFTWARE_ENCODING_DATAPATH) =
        Some (outs, s') \<and> session_rel h' s'"
    by (rule hidl_session_refines_aidl)
  have "\<exists>h'. run (hidl_exec example_hidl_params) ?cmds ?h =
      Some ([Out_cookie 256, Out_notes [N_session_changed 7 256], Out_bool True []], h')"
    by (simp add: own_RegisterStatusCback_def Hidl_BluetoothAudioSession_def H_ObserversCookieGetUpperBound_def
        H_ObserversCookieGetInitValue_def find_cookie.simps [of "[]"] example_hidl_params_def hidl_example_code_def
        from_session_type_2_0_def own_OnSessionStarted_def Hidl_UpdateAudioConfig_def Hidl_UpdateDataPath_def example_mq_def
        Hidl_ReportSessionStatus_def own_IsSessionReady_def)
  then show ?thesis using * unfolding Let_def by auto
qed

text \<open>An offload session of the HIDL interface that is started a second time with an invalid queue keeps its
  stack interface and stays ready, with the invalid configuration in place of its own and without a notification.\<close>

lemma hidl_bad_queue_stays_ready:
  assumes "h_session_type s = HST_A2DP_HARDWARE_OFFLOAD_DATAPATH" and "own_IsSessionReady s" and "\<not> mq_isValid q"
  shows "\<exists>s'. own_OnSessionStarted x (Some p) (Some q) (HAC_codec c) s = Some ([], s') \<and> own_IsSessionReady s' \<and>
     own_GetAudioConfig x s' = HAC_codec (kInvalidCodecConfiguration x)"
  using assms by (auto simp: own_OnSessionStarted_def Hidl_UpdateAudioConfig_def Hidl_UpdateDataPath_def own_IsSessionReady_def
      own_GetAudioConfig_def invalid_config_def)

lemma hidl_bad_queue_stays_ready_witness:
  "let s = (Hidl_BluetoothAudioSession example_hidl_params HST_A2DP_HARDWARE_OFFLOAD_DATAPATH)\<lparr>h_stack_iface := Some 1\<rparr>
   in \<exists>s'. own_OnSessionStarted example_hidl_params (Some 2) (Some \<lparr>mq_id = 1, mq_isValid = False\<rparr>)
        (HAC_codec (kInvalidCodecConfiguration example_hidl_params)) s = Some ([], s') \<and> own_IsSessionReady s'"
  using hidl_bad_queue_stays_ready [of "(Hidl_BluetoothAudioSession example_hidl_params HST_A2DP_HARDWARE_OFFLOAD_DATAPATH)
      \<lparr>h_stack_iface := Some 1\<rparr>" "\<lparr>mq_id = 1, mq_isValid = False\<rparr>" example_hidl_params 2 "kInvalidCodecConfiguration example_hidl_params"]
  unfolding Let_def by (auto simp: Hidl_BluetoothAudioSession_def own_IsSessionReady_def)

end
