(* ===== verification/Port_Interface.thy ===== *)
theory Port_Interface
  imports Port_Proxy Hidl_Session
begin

text \<open>
  The class \<open>BluetoothAudioPort\<close> of \<^verbatim>\<open>bluetooth/audio/hw/device_port_proxy.h\<close>: the virtual methods
  through which a stream drives its port, as a record of functions, and the two AIDL ports as its
  instances. The locale \<open>audio_port\<close> states what a stream may rely on; its interpretations
  \<open>port_out\<close> and \<open>port_in\<close> show that the AIDL ports provide it. The HIDL ports are further instances, in
  \<open>Hidl_Port\<close>.
\<close>

section \<open>The virtual methods\<close>

text \<open>
  What the other threads and the Bluetooth stack contribute to a call: the reply of the stack to a
  request and the notifications that arrive while the port waits; what the iterations of a transfer
  see of the AIDL and of the HIDL session, and the elements waiting in the queue.
\<close>

record call_env =
  ce_ok :: bool
  ce_events :: "notification list"

record data_env =
  de_obs :: "nat \<Rightarrow> pcm_obs"
  de_src :: "nat \<Rightarrow> u8 list"
  de_hidl :: "nat \<Rightarrow> hidl_obs"

type_synonym position = "u64 \<times> u64 \<times> int \<times> int"

record ('p, 'w) BluetoothAudioPort =
  vt_SetUp :: "audio_device \<Rightarrow> 'p \<Rightarrow> 'w \<Rightarrow> (bool \<times> 'p \<times> 'w) ub"
  vt_TearDown :: "'p \<Rightarrow> 'w \<Rightarrow> ('p \<times> 'w) ub"
  vt_LoadAudioConfig :: "'p \<Rightarrow> 'w \<Rightarrow> (bool \<times> audio_config option) ub"
  vt_ForcePcmStereoToMono :: "bool \<Rightarrow> 'p \<Rightarrow> 'p"
  vt_Start :: "call_env \<Rightarrow> 'p \<Rightarrow> 'w \<Rightarrow> bool \<times> stack_call list \<times> 'p \<times> 'w"
  vt_Suspend :: "call_env \<Rightarrow> 'p \<Rightarrow> 'w \<Rightarrow> bool \<times> stack_call list \<times> 'p \<times> 'w"
  vt_Stop :: "'p \<Rightarrow> 'w \<Rightarrow> stack_call list \<times> 'p \<times> 'w"
  vt_GetPresentationPosition :: "bool \<times> presentation_position \<Rightarrow> 'p \<Rightarrow> 'w \<Rightarrow> bool \<times> position option"
  vt_GetState :: "'p \<Rightarrow> stream_state"
  vt_SetState :: "stream_state \<Rightarrow> 'p \<Rightarrow> 'p"
  vt_IsA2dp :: "'p \<Rightarrow> bool"
  vt_IsLeAudio :: "'p \<Rightarrow> bool"
  vt_GetPreferredDataIntervalUs :: "'p \<Rightarrow> 'w \<Rightarrow> (bool \<times> u64 option) ub"
  vt_WriteData :: "data_env \<Rightarrow> u8 list option \<Rightarrow> nat \<Rightarrow> 'p \<Rightarrow> (nat \<times> u8 list) ub"
  vt_ReadData :: "data_env \<Rightarrow> bool \<Rightarrow> nat \<Rightarrow> 'p \<Rightarrow> (nat \<times> u8 list) ub"
  vt_deliver :: "notification \<Rightarrow> 'p \<Rightarrow> 'p"

text \<open>
  What the AIDL ports take from code outside the repository: the numbers of the session types, the
  default configurations, the down-mixing routine, and the value-initialised position.
\<close>

record port_params =
  pa_code :: "session_type \<Rightarrow> u16"
  pa_defaults :: config_defaults
  pa_downmix :: "u8 list \<Rightarrow> nat \<Rightarrow> u8 list"
  pa_zero :: presentation_position

definition BluetoothAudioPortAidlOut :: "port_params \<Rightarrow> (port, sessions) BluetoothAudioPort" where
  "BluetoothAudioPortAidlOut pa =
     \<lparr>vt_SetUp = SetUp (pa_code pa),
      vt_TearDown = TearDown (pa_code pa),
      vt_LoadAudioConfig = Out_LoadAudioConfig (pa_code pa) (pa_defaults pa),
      vt_ForcePcmStereoToMono = ForcePcmStereoToMono,
      vt_Start = (\<lambda>e. Start (pa_code pa) (ce_ok e) (ce_events e)),
      vt_Suspend = (\<lambda>e. Suspend (pa_code pa) (ce_ok e) (ce_events e)),
      vt_Stop = Stop (pa_code pa),
      vt_GetPresentationPosition = (\<lambda>reply. Port_GetPresentationPosition (pa_code pa) reply (pa_zero pa)),
      vt_GetState = GetState,
      vt_SetState = SetState,
      vt_IsA2dp = IsA2dp,
      vt_IsLeAudio = IsLeAudio,
      vt_GetPreferredDataIntervalUs = GetPreferredDataIntervalUs (pa_code pa) (pa_defaults pa),
      vt_WriteData = (\<lambda>d. WriteData (pa_code pa) (pa_downmix pa) (de_obs d)),
      vt_ReadData = (\<lambda>_ _ _ _. Some (0, [])),
      vt_deliver = (\<lambda>n p. deliver (pa_code pa) p n)\<rparr>"

definition BluetoothAudioPortAidlIn :: "port_params \<Rightarrow> (port, sessions) BluetoothAudioPort" where
  "BluetoothAudioPortAidlIn pa = (BluetoothAudioPortAidlOut pa)
     \<lparr>vt_LoadAudioConfig := In_LoadAudioConfig (pa_code pa) (pa_defaults pa),
      vt_WriteData := (\<lambda>_ _ _ _. Some (0, [])),
      vt_ReadData := (\<lambda>d. ReadData (pa_code pa) (de_obs d) (de_src d))\<rparr>"

section \<open>What a stream relies on\<close>

text \<open>
  \<open>live\<close> is a port that has been set up and not torn down; \<open>data_ok\<close> are the environments in which
  a transfer does not touch a missing queue.
\<close>

locale audio_port =
  fixes vt :: "('p, 'w) BluetoothAudioPort"
    and live :: "'p \<Rightarrow> bool"
    and data_ok :: "data_env \<Rightarrow> bool"
  assumes start_true: "vt_Start vt e p w = (True, cs, p', w') \<Longrightarrow> vt_GetState vt p' = STARTED"
    and start_guard: "vt_GetState vt p \<noteq> STANDBY \<Longrightarrow> vt_Start vt e p w = (False, [], p, w)"
    and start_refused: "live p \<Longrightarrow> vt_GetState vt p = STANDBY \<Longrightarrow> \<not> ce_ok e \<Longrightarrow>
      \<exists>cs p' w'. vt_Start vt e p w = (False, cs, p', w') \<and> vt_GetState vt p' = STARTING \<and> live p'"
    and suspend_true: "vt_Suspend vt e p w = (True, cs, p', w') \<Longrightarrow> vt_GetState vt p' = STANDBY"
    and suspend_guard: "vt_GetState vt p \<noteq> STARTED \<Longrightarrow> vt_Suspend vt e p w = (False, [], p, w)"
    and stop_disables: "live p \<Longrightarrow> vt_Stop vt p w = (cs, p', w') \<Longrightarrow> vt_GetState vt p' = DISABLED"
    and set_state: "vt_GetState vt (vt_SetState vt st p) = st"
    and live_start: "vt_Start vt e p w = (r, cs, p', w') \<Longrightarrow> live p' = live p"
    and live_suspend: "vt_Suspend vt e p w = (r, cs, p', w') \<Longrightarrow> live p' = live p"
    and live_stop: "vt_Stop vt p w = (cs, p', w') \<Longrightarrow> live p' = live p"
    and live_set_state: "live (vt_SetState vt st p) = live p"
    and write_ok: "data_ok d \<Longrightarrow> bytes \<le> length buffer \<Longrightarrow>
      \<exists>n out. vt_WriteData vt d (Some buffer) bytes p = Some (n, out) \<and> n \<le> bytes \<and> length out \<le> n"
    and read_ok: "data_ok d \<Longrightarrow> \<exists>n out. vt_ReadData vt d False bytes p = Some (n, out) \<and> n \<le> bytes \<and> length out = n"

section \<open>The AIDL ports\<close>

definition params_ok :: "port_params \<Rightarrow> bool" where
  "params_ok pa \<longleftrightarrow> (\<forall>src k. length (pa_downmix pa src k) = k * 2)"

definition aidl_data_ok :: "port_params \<Rightarrow> data_env \<Rightarrow> bool" where
  "aidl_data_ok pa d \<longleftrightarrow> params_ok pa \<and> queue_present (de_obs d)"

lemma Start_laws:
  "Start code ok ns p w = (True, cs, p', w') \<Longrightarrow> port_state p' = STARTED"
  "port_state p \<noteq> STANDBY \<Longrightarrow> Start code ok ns p w = (False, [], p, w)"
  "Start code ok ns p w = (r, cs, p', w') \<Longrightarrow> in_use code p' = in_use code p"
  using Start_eq [of code p ok ns w]
  by (cases "in_use code p"; auto simp: Start_def [of code ok ns p w] Let_def split: if_splits)+


lemma Suspend_laws:
  "Suspend code ok ns p w = (True, cs, p', w') \<Longrightarrow> port_state p' = STANDBY"
  "port_state p \<noteq> STARTED \<Longrightarrow> Suspend code ok ns p w = (False, [], p, w)"
  "Suspend code ok ns p w = (r, cs, p', w') \<Longrightarrow> in_use code p' = in_use code p"
  using Suspend_eq [of code p ok ns w]
  by (cases "in_use code p"; auto simp: Suspend_def [of code ok ns p w] Let_def split: if_splits)+

lemma Start_refused:
  assumes "in_use code p" "port_state p = STANDBY"
  shows "\<exists>cs p' w'. Start code False ns p w = (False, cs, p', w') \<and> port_state p' = STARTING \<and> in_use code p'"
  using assms by (simp add: Start_eq)

lemma Stop_laws:
  "in_use code p \<Longrightarrow> Stop code p w = (cs, p', w') \<Longrightarrow> port_state p' = DISABLED"
  "Stop code p w = (cs, p', w') \<Longrightarrow> in_use code p' = in_use code p"
  by (auto simp: Stop_def Let_def split: if_splits prod.splits)

lemma WriteData_bounds:
  assumes "queue_present env" "bytes \<le> length buffer" "\<forall>src k. length (downmix src k) = k * 2"
  shows "\<exists>n out. WriteData code downmix env (Some buffer) bytes p = Some (n, out) \<and> n \<le> bytes \<and> length out \<le> n"
proof -
  obtain n where n: "OutWritePcmData env (Some buffer) bytes = Some (n, take n buffer)" "n \<le> bytes"
    using OutWritePcmData_prefix [OF assms(1,2)] .
  obtain k where k: "OutWritePcmData env (Some (downmix buffer (bytes div 4))) (bytes div 4 * 2)
      = Some (k, take k (downmix buffer (bytes div 4)))" "k \<le> bytes div 4 * 2"
    using OutWritePcmData_prefix [OF assms(1), of "bytes div 4 * 2" "downmix buffer (bytes div 4)"] assms(3) by auto
  show ?thesis
    using n k by (auto simp: WriteData_def drop_bit_eq_div Let_def)
qed

lemma ReadData_bounds:
  assumes "queue_present env"
  shows "\<exists>n out. ReadData code env src False bytes p = Some (n, out) \<and> n \<le> bytes \<and> length out = n"
proof -
  obtain t w where "InRead_loop env src bytes 0 0 kFmqReceiveTimeoutMs [] = Some (t, w)" "t \<le> bytes" "length w = t"
    using InRead_loop_sound [OF assms, of 0 bytes "[]" src 0 kFmqReceiveTimeoutMs] by auto
  then show ?thesis by (auto simp: ReadData_def InReadPcmData_def)
qed

lemmas port_laws = Start_laws Suspend_laws Stop_laws

interpretation port_out: audio_port "BluetoothAudioPortAidlOut pa" "in_use (pa_code pa)" "aidl_data_ok pa" for pa
proof unfold_locales
  fix p w and e :: call_env
  assume "in_use (pa_code pa) p" "vt_GetState (BluetoothAudioPortAidlOut pa) p = STANDBY" "\<not> ce_ok e"
  then show "\<exists>cs p' w'. vt_Start (BluetoothAudioPortAidlOut pa) e p w = (False, cs, p', w') \<and>
      vt_GetState (BluetoothAudioPortAidlOut pa) p' = STARTING \<and> in_use (pa_code pa) p'"
    using Start_refused [of "pa_code pa" p "ce_events e" w]
    by (simp add: BluetoothAudioPortAidlOut_def GetState_def)
next
  fix d bytes and buffer :: "u8 list" and p
  assume "aidl_data_ok pa d" "bytes \<le> length buffer"
  then show "\<exists>n out. vt_WriteData (BluetoothAudioPortAidlOut pa) d (Some buffer) bytes p = Some (n, out) \<and>
      n \<le> bytes \<and> length out \<le> n"
    by (simp add: BluetoothAudioPortAidlOut_def WriteData_bounds aidl_data_ok_def params_ok_def)
qed (auto simp: BluetoothAudioPortAidlOut_def GetState_def SetState_def dest: port_laws intro: port_laws)

interpretation port_in: audio_port "BluetoothAudioPortAidlIn pa" "in_use (pa_code pa)" "aidl_data_ok pa" for pa
proof unfold_locales
  fix p w and e :: call_env
  assume "in_use (pa_code pa) p" "vt_GetState (BluetoothAudioPortAidlIn pa) p = STANDBY" "\<not> ce_ok e"
  then show "\<exists>cs p' w'. vt_Start (BluetoothAudioPortAidlIn pa) e p w = (False, cs, p', w') \<and>
      vt_GetState (BluetoothAudioPortAidlIn pa) p' = STARTING \<and> in_use (pa_code pa) p'"
    using Start_refused [of "pa_code pa" p "ce_events e" w]
    by (simp add: BluetoothAudioPortAidlIn_def BluetoothAudioPortAidlOut_def GetState_def)
next
  fix d bytes p
  assume "aidl_data_ok pa d"
  then show "\<exists>n out. vt_ReadData (BluetoothAudioPortAidlIn pa) d False bytes p = Some (n, out) \<and>
      n \<le> bytes \<and> length out = n"
    by (simp add: BluetoothAudioPortAidlIn_def ReadData_bounds aidl_data_ok_def)
qed (auto simp: BluetoothAudioPortAidlIn_def BluetoothAudioPortAidlOut_def GetState_def SetState_def
    dest: port_laws intro: port_laws)

end
