(* ===== verification/Hidl_Port.thy ===== *)
theory Hidl_Port
  imports Port_Interface
begin

text \<open>
  \<^verbatim>\<open>bluetooth/audio/hw/device_port_proxy_hidl.cc\<close>: the port of a stream where the AIDL service is not
  available. It drives the sessions of the HIDL interface 2.1 and is a second instance of the class
  \<open>BluetoothAudioPort\<close>: the interpretations \<open>hidl_out\<close> and \<open>hidl_in\<close> of the locale \<open>audio_port\<close> give it
  everything the streams prove of their port.
\<close>

section \<open>Data\<close>

record hidl_port =
  hport_id :: nat
  hport_cookie :: u16
  hport_state :: stream_state
  hport_session_type :: hidl_session_type
  hport_stereo_to_mono :: bool

text \<open>The switches compare with the numbers of the enumerators; values that are none of them give the defaults.\<close>

definition SampleRateToAudioFormat :: "hidl_consts \<Rightarrow> u32 \<Rightarrow> u32" where
  "SampleRateToAudioFormat k r =
     (if r = k_rate k RATE_8000 then 8000 else if r = k_rate k RATE_16000 then 16000
      else if r = k_rate k RATE_24000 then 24000 else if r = k_rate k RATE_32000 then 32000
      else if r = k_rate k RATE_44100 then 44100 else if r = k_rate k RATE_48000 then 48000
      else if r = k_rate k RATE_88200 then 88200 else if r = k_rate k RATE_96000 then 96000
      else if r = k_rate k RATE_176400 then 176400 else if r = k_rate k RATE_192000 then 192000
      else kBluetoothDefaultSampleRate)"

definition H_OutputChannelModeToAudioFormat :: "hidl_consts \<Rightarrow> u32 \<Rightarrow> channel_mask" where
  "H_OutputChannelModeToAudioFormat k c =
     (if c = k_channel k HCH_MONO then CHANNEL_OUT_MONO else if c = k_channel k HCH_STEREO then CHANNEL_OUT_STEREO
      else kBluetoothDefaultOutputChannelModeMask)"

definition H_InputChannelModeToAudioFormat :: "hidl_consts \<Rightarrow> u32 \<Rightarrow> channel_mask" where
  "H_InputChannelModeToAudioFormat k c =
     (if c = k_channel k HCH_MONO then CHANNEL_IN_MONO else if c = k_channel k HCH_STEREO then CHANNEL_IN_STEREO
      else kBluetoothDefaultInputChannelModeMask)"

definition H_BitsPerSampleToAudioFormat :: "hidl_consts \<Rightarrow> u32 \<Rightarrow> audio_format" where
  "H_BitsPerSampleToAudioFormat k b =
     (if b = k_bits k BITS_16 then FORMAT_PCM_16_BIT else if b = k_bits k BITS_24 then FORMAT_PCM_24_BIT_PACKED
      else if b = k_bits k BITS_32 then FORMAT_PCM_32_BIT else kBluetoothDefaultAudioFormatBitsPerSample)"

section \<open>Life cycle\<close>

definition BluetoothAudioPortHidl :: "hidl_params \<Rightarrow> nat \<Rightarrow> hidl_port" where
  "BluetoothAudioPortHidl x i =
     \<lparr>hport_id = i, hport_cookie = H_kObserversCookieUndefined (hx_hcode x), hport_state = DISABLED,
      hport_session_type = HST_UNKNOWN, hport_stereo_to_mono = False\<rparr>"

definition Hidl_in_use :: "hidl_params \<Rightarrow> hidl_port \<Rightarrow> bool" where
  "Hidl_in_use x p \<longleftrightarrow> hport_cookie p \<noteq> H_kObserversCookieUndefined (hx_hcode x)"

fun hidl_device_session_type :: "audio_device \<Rightarrow> hidl_session_type option" where
  "hidl_device_session_type OUT_BLUETOOTH_A2DP = Some HST_A2DP_SOFTWARE_ENCODING_DATAPATH"
| "hidl_device_session_type OUT_BLUETOOTH_A2DP_HEADPHONES = Some HST_A2DP_SOFTWARE_ENCODING_DATAPATH"
| "hidl_device_session_type OUT_BLUETOOTH_A2DP_SPEAKER = Some HST_A2DP_SOFTWARE_ENCODING_DATAPATH"
| "hidl_device_session_type OUT_HEARING_AID = Some HST_HEARING_AID_SOFTWARE_ENCODING_DATAPATH"
| "hidl_device_session_type OUT_BLE_HEADSET = Some HST_LE_AUDIO_SOFTWARE_ENCODING_DATAPATH"
| "hidl_device_session_type OUT_BLE_SPEAKER = Some HST_LE_AUDIO_SOFTWARE_ENCODING_DATAPATH"
| "hidl_device_session_type IN_BLE_HEADSET = Some HST_LE_AUDIO_SOFTWARE_DECODED_DATAPATH"
| "hidl_device_session_type _ = None"

definition Hidl_init_session_type ::
  "hidl_params \<Rightarrow> audio_device \<Rightarrow> hidl_port \<Rightarrow> hidl_world \<Rightarrow> bool \<times> hidl_port \<times> hidl_world" where
  "Hidl_init_session_type x device p w =
     (case hidl_device_session_type device of
        None \<Rightarrow> (False, p, w)
      | Some st \<Rightarrow>
          let p = p\<lparr>hport_session_type := st\<rparr>; (ready, w) = Control21_IsSessionReady x st w in
          (ready, p, w))"

definition hidl_port_callbacks :: "hidl_port \<Rightarrow> hidl_callbacks" where
  "hidl_port_callbacks p = \<lparr>hcb_client = hport_id p, hcb_control_result = True, hcb_session_changed = True\<rparr>"

definition Hidl_SetUp ::
  "hidl_params \<Rightarrow> audio_device \<Rightarrow> hidl_port \<Rightarrow> hidl_world \<Rightarrow> (bool \<times> hidl_port \<times> hidl_world) ub" where
  "Hidl_SetUp x devices p w =
     (let (ok, p, w) = Hidl_init_session_type x devices p w in
      if \<not> ok then Some (False, p, w)
      else
        let p = p\<lparr>hport_state := STANDBY\<rparr> in
        do {
          (cookie, w) \<leftarrow> Control21_RegisterControlResultCback x (hport_session_type p) (hidl_port_callbacks p) w;
          let p = p\<lparr>hport_cookie := cookie\<rparr>;
          Some (hport_cookie p \<noteq> H_kObserversCookieUndefined (hx_hcode x), p, w)
        })"

definition Hidl_TearDown :: "hidl_params \<Rightarrow> hidl_port \<Rightarrow> hidl_world \<Rightarrow> (hidl_port \<times> hidl_world) ub" where
  "Hidl_TearDown x p w =
     (if \<not> Hidl_in_use x p then Some (p, w)
      else do {
        w \<leftarrow> Control21_UnregisterControlResultCback x (hport_session_type p) (hport_cookie p) w;
        Some (p\<lparr>hport_cookie := H_kObserversCookieUndefined (hx_hcode x)\<rparr>, w)
      })"

text \<open>The destructors.\<close>

definition destroy_hidl_port :: "hidl_params \<Rightarrow> hidl_port \<Rightarrow> hidl_world \<Rightarrow> (hidl_port \<times> hidl_world) ub" where
  "destroy_hidl_port x p w = (if Hidl_in_use x p then Hidl_TearDown x p w else Some (p, w))"

definition Hidl_ForcePcmStereoToMono :: "bool \<Rightarrow> hidl_port \<Rightarrow> hidl_port" where
  "Hidl_ForcePcmStereoToMono force p = p\<lparr>hport_stereo_to_mono := force\<rparr>"

definition Hidl_IsA2dp :: "hidl_port \<Rightarrow> bool" where
  "Hidl_IsA2dp p \<longleftrightarrow> hport_session_type p = HST_A2DP_SOFTWARE_ENCODING_DATAPATH \<or>
     hport_session_type p = HST_A2DP_HARDWARE_OFFLOAD_DATAPATH"

definition Hidl_IsLeAudio :: "hidl_port \<Rightarrow> bool" where
  "Hidl_IsLeAudio p \<longleftrightarrow> hport_session_type p = HST_LE_AUDIO_SOFTWARE_ENCODING_DATAPATH \<or>
     hport_session_type p = HST_LE_AUDIO_SOFTWARE_DECODED_DATAPATH \<or>
     hport_session_type p = HST_LE_AUDIO_HARDWARE_OFFLOAD_ENCODING_DATAPATH \<or>
     hport_session_type p = HST_LE_AUDIO_HARDWARE_OFFLOAD_DECODING_DATAPATH"

section \<open>Callbacks\<close>

definition Hidl_ControlResultHandler :: "hidl_params \<Rightarrow> bluetooth_audio_status \<Rightarrow> hidl_port \<Rightarrow> hidl_port" where
  "Hidl_ControlResultHandler x status p =
     (if \<not> Hidl_in_use x p then p
      else case hport_state p of
          STARTED \<Rightarrow> if status = BAS_SUCCESS then p\<lparr>hport_state := STANDBY\<rparr> else p
        | STARTING \<Rightarrow> if status = BAS_SUCCESS then p\<lparr>hport_state := STARTED\<rparr> else p\<lparr>hport_state := STANDBY\<rparr>
        | SUSPENDING \<Rightarrow> if status = BAS_SUCCESS then p\<lparr>hport_state := STANDBY\<rparr> else p\<lparr>hport_state := DISABLED\<rparr>
        | _ \<Rightarrow> p)"

definition Hidl_SessionChangedHandler :: "hidl_params \<Rightarrow> hidl_port \<Rightarrow> hidl_port" where
  "Hidl_SessionChangedHandler x p = (if \<not> Hidl_in_use x p then p else p\<lparr>hport_state := DISABLED\<rparr>)"

definition hidl_control_result_cb :: "hidl_params \<Rightarrow> u16 \<Rightarrow> bluetooth_audio_status \<Rightarrow> hidl_port \<Rightarrow> hidl_port" where
  "hidl_control_result_cb x cookie status p =
     (if \<not> Hidl_in_use x p then p
      else if hport_cookie p \<noteq> cookie then p
      else Hidl_ControlResultHandler x status p)"

definition hidl_session_changed_cb :: "hidl_params \<Rightarrow> u16 \<Rightarrow> hidl_port \<Rightarrow> hidl_port" where
  "hidl_session_changed_cb x cookie p =
     (if \<not> Hidl_in_use x p then p
      else if hport_cookie p \<noteq> cookie then p
      else Hidl_SessionChangedHandler x p)"

fun hidl_deliver :: "hidl_params \<Rightarrow> hidl_port \<Rightarrow> notification \<Rightarrow> hidl_port" where
  "hidl_deliver x p (N_control_result client cookie start_resp status) =
     (if client = hport_id p then hidl_control_result_cb x cookie status p else p)"
| "hidl_deliver x p (N_session_changed client cookie) =
     (if client = hport_id p then hidl_session_changed_cb x cookie p else p)"
| "hidl_deliver x p _ = p"

section \<open>Stream control\<close>

definition Hidl_CondwaitState ::
  "hidl_params \<Rightarrow> stream_state \<Rightarrow> notification list \<Rightarrow> hidl_port \<Rightarrow> bool \<times> hidl_port" where
  "Hidl_CondwaitState x state events p =
     (case state of
        STARTING \<Rightarrow>
          let p = foldl (hidl_deliver x) p events; retval = (hport_state p \<noteq> STARTING) in
          (retval \<and> hport_state p = STARTED, p)
      | SUSPENDING \<Rightarrow>
          let p = foldl (hidl_deliver x) p events; retval = (hport_state p \<noteq> SUSPENDING) in
          (retval \<and> hport_state p = STANDBY, p)
      | _ \<Rightarrow> (False, p))"

definition Hidl_Start ::
  "hidl_params \<Rightarrow> bool \<Rightarrow> notification list \<Rightarrow> hidl_port \<Rightarrow> hidl_world \<Rightarrow>
   bool \<times> stack_call list \<times> hidl_port \<times> hidl_world" where
  "Hidl_Start x ok events p w =
     (if \<not> Hidl_in_use x p then (False, [], p, w)
      else if hport_state p = STANDBY then
        let p = p\<lparr>hport_state := STARTING\<rparr>;
            ((started, calls), w) = Control21_StartStream x ok (hport_session_type p) w
        in if started then (let (retval, p) = Hidl_CondwaitState x STARTING events p in (retval, calls, p, w))
           else (False, calls, p, w)
      else (False, [], p, w))"

definition Hidl_Suspend ::
  "hidl_params \<Rightarrow> bool \<Rightarrow> notification list \<Rightarrow> hidl_port \<Rightarrow> hidl_world \<Rightarrow>
   bool \<times> stack_call list \<times> hidl_port \<times> hidl_world" where
  "Hidl_Suspend x ok events p w =
     (if \<not> Hidl_in_use x p then (False, [], p, w)
      else if hport_state p = STARTED then
        let p = p\<lparr>hport_state := SUSPENDING\<rparr>;
            ((suspended, calls), w) = Control21_SuspendStream x ok (hport_session_type p) w
        in if suspended then (let (retval, p) = Hidl_CondwaitState x SUSPENDING events p in (retval, calls, p, w))
           else (False, calls, p, w)
      else (False, [], p, w))"

definition Hidl_Stop :: "hidl_params \<Rightarrow> hidl_port \<Rightarrow> hidl_world \<Rightarrow> stack_call list \<times> hidl_port \<times> hidl_world" where
  "Hidl_Stop x p w =
     (if \<not> Hidl_in_use x p then ([], p, w)
      else
        let p = p\<lparr>hport_state := DISABLED\<rparr>; (calls, w) = Control21_StopStream x (hport_session_type p) w in
        (calls, p, w))"

definition Hidl_GetState :: "hidl_port \<Rightarrow> stream_state" where "Hidl_GetState p = hport_state p"
definition Hidl_SetState :: "stream_state \<Rightarrow> hidl_port \<Rightarrow> hidl_port" where "Hidl_SetState st p = p\<lparr>hport_state := st\<rparr>"

section \<open>Configuration\<close>

definition Hidl_GetPreferredDataIntervalUs ::
  "hidl_params \<Rightarrow> hidl_port \<Rightarrow> hidl_world \<Rightarrow> (bool \<times> u64 option) ub" where
  "Hidl_GetPreferredDataIntervalUs x p w =
     (if \<not> Hidl_in_use x p then Some (False, None)
      else do {
        (cfg, _) \<leftarrow> Control21_GetAudioConfig x (hport_session_type p) w;
        case cfg of
          HAC1_pcm pcm \<Rightarrow> Some (True, Some (ucast (hp1_dataIntervalUs pcm)))
        | _ \<Rightarrow> Some (False, None)
      })"

definition pcm_unknown :: "hidl_pcm_2_1 \<Rightarrow> bool" where
  "pcm_unknown pcm \<longleftrightarrow> hp1_sampleRate pcm = 0 \<or> hp1_channelMode pcm = 0 \<or> hp1_bitsPerSample pcm = 0"

definition Hidl_Out_LoadAudioConfig ::
  "hidl_params \<Rightarrow> hidl_port \<Rightarrow> hidl_world \<Rightarrow> (bool \<times> audio_config option) ub" where
  "Hidl_Out_LoadAudioConfig x p w =
     (if \<not> Hidl_in_use x p then Some (False, Some default_out_config)
      else do {
        (cfg, _) \<leftarrow> Control21_GetAudioConfig x (hport_session_type p) w;
        case cfg of
          HAC1_pcm pcm \<Rightarrow>
            if pcm_unknown pcm then Some (False, None)
            else Some (True, Some \<lparr>
              cfg_sample_rate = SampleRateToAudioFormat (hx_consts x) (hp1_sampleRate pcm),
              cfg_channel_mask = (if hport_stereo_to_mono p then CHANNEL_OUT_STEREO
                 else H_OutputChannelModeToAudioFormat (hx_consts x) (hp1_channelMode pcm)),
              cfg_format = H_BitsPerSampleToAudioFormat (hx_consts x) (hp1_bitsPerSample pcm)\<rparr>)
        | _ \<Rightarrow> Some (False, Some default_out_config)
      })"

definition Hidl_In_LoadAudioConfig ::
  "hidl_params \<Rightarrow> hidl_port \<Rightarrow> hidl_world \<Rightarrow> (bool \<times> audio_config option) ub" where
  "Hidl_In_LoadAudioConfig x p w =
     (if \<not> Hidl_in_use x p then Some (False, Some default_in_config)
      else do {
        (cfg, _) \<leftarrow> Control21_GetAudioConfig x (hport_session_type p) w;
        case cfg of
          HAC1_pcm pcm \<Rightarrow>
            if pcm_unknown pcm then Some (False, None)
            else Some (True, Some \<lparr>
              cfg_sample_rate = SampleRateToAudioFormat (hx_consts x) (hp1_sampleRate pcm),
              cfg_channel_mask = H_InputChannelModeToAudioFormat (hx_consts x) (hp1_channelMode pcm),
              cfg_format = H_BitsPerSampleToAudioFormat (hx_consts x) (hp1_bitsPerSample pcm)\<rparr>)
        | _ \<Rightarrow> Some (False, Some default_in_config)
      })"

section \<open>Data path and metadata\<close>

definition Hidl_WriteData ::
  "hidl_params \<Rightarrow> bool \<Rightarrow> (u8 list \<Rightarrow> nat \<Rightarrow> u8 list) \<Rightarrow> data_env \<Rightarrow> u8 list option \<Rightarrow> nat \<Rightarrow> hidl_port \<Rightarrow> (nat \<times> u8 list) ub" where
  "Hidl_WriteData x aidl downmix d buffer bytes p =
     (if \<not> Hidl_in_use x p then Some (0, [])
      else if \<not> hport_stereo_to_mono p then Hidl_OutWritePcmData aidl (de_obs d) (de_hidl d) buffer bytes
      else
        let write_frames = drop_bit 2 bytes in
        if write_frames = 0 then Some (0, [])
        else case buffer of
            None \<Rightarrow> None
          | Some src \<Rightarrow> do {
              (n, out) \<leftarrow> Hidl_OutWritePcmData aidl (de_obs d) (de_hidl d) (Some (downmix src write_frames)) (write_frames * 2);
              Some (n * 2, out)
            })"

definition Hidl_ReadData ::
  "hidl_params \<Rightarrow> bool \<Rightarrow> data_env \<Rightarrow> bool \<Rightarrow> nat \<Rightarrow> hidl_port \<Rightarrow> (nat \<times> u8 list) ub" where
  "Hidl_ReadData x aidl d buffer_null bytes p =
     (if \<not> Hidl_in_use x p then Some (0, [])
      else Hidl_InReadPcmData aidl (de_obs d) (de_hidl d) (de_src d) buffer_null bytes)"

definition Hidl_Port_GetPresentationPosition ::
  "hidl_params \<Rightarrow> bool \<times> bluetooth_audio_status \<times> presentation_position \<Rightarrow> hidl_port \<Rightarrow> hidl_world \<Rightarrow>
   bool \<times> position option" where
  "Hidl_Port_GetPresentationPosition x reply p w =
     (if \<not> Hidl_in_use x p then (False, None)
      else
        let ((retval, stored, _), _) = Control21_GetPresentationPosition x reply (hport_session_type p) w in
        (retval, stored))"

definition Hidl_Port_UpdateTracksMetadata ::
  "hidl_params \<Rightarrow> bool \<Rightarrow> source_metadata \<Rightarrow> hidl_port \<Rightarrow> hidl_world \<Rightarrow> stack_call list ub" where
  "Hidl_Port_UpdateTracksMetadata x ok m p w =
     (if \<not> Hidl_in_use x p then Some []
      else if sm_track_count m = 0 then Some []
      else fst (Control21_UpdateTracksMetadata x ok (hport_session_type p) m w))"

section \<open>The virtual methods\<close>

text \<open>
  \<open>aidl\<close> is the cached answer of \<open>IsAidlAvailable\<close>. The reply to a position query is a flag and a position
  here: a call that went through with another status stores nothing, as one that failed.
\<close>

definition BluetoothAudioPortHidlOut ::
  "hidl_params \<Rightarrow> bool \<Rightarrow> (u8 list \<Rightarrow> nat \<Rightarrow> u8 list) \<Rightarrow> (hidl_port, hidl_world) BluetoothAudioPort" where
  "BluetoothAudioPortHidlOut x aidl downmix =
     \<lparr>vt_SetUp = Hidl_SetUp x,
      vt_TearDown = Hidl_TearDown x,
      vt_LoadAudioConfig = Hidl_Out_LoadAudioConfig x,
      vt_ForcePcmStereoToMono = Hidl_ForcePcmStereoToMono,
      vt_Start = (\<lambda>e. Hidl_Start x (ce_ok e) (ce_events e)),
      vt_Suspend = (\<lambda>e. Hidl_Suspend x (ce_ok e) (ce_events e)),
      vt_Stop = Hidl_Stop x,
      vt_GetPresentationPosition = (\<lambda>(ok, pos). Hidl_Port_GetPresentationPosition x (ok, BAS_SUCCESS, pos)),
      vt_GetState = Hidl_GetState,
      vt_SetState = Hidl_SetState,
      vt_IsA2dp = Hidl_IsA2dp,
      vt_IsLeAudio = Hidl_IsLeAudio,
      vt_GetPreferredDataIntervalUs = Hidl_GetPreferredDataIntervalUs x,
      vt_WriteData = Hidl_WriteData x aidl downmix,
      vt_ReadData = (\<lambda>_ _ _ _. Some (0, [])),
      vt_deliver = (\<lambda>n p. hidl_deliver x p n)\<rparr>"

definition BluetoothAudioPortHidlIn ::
  "hidl_params \<Rightarrow> bool \<Rightarrow> (u8 list \<Rightarrow> nat \<Rightarrow> u8 list) \<Rightarrow> (hidl_port, hidl_world) BluetoothAudioPort" where
  "BluetoothAudioPortHidlIn x aidl downmix = (BluetoothAudioPortHidlOut x aidl downmix)
     \<lparr>vt_LoadAudioConfig := Hidl_In_LoadAudioConfig x,
      vt_WriteData := (\<lambda>_ _ _ _. Some (0, [])),
      vt_ReadData := Hidl_ReadData x aidl\<rparr>"

section \<open>The state machine\<close>

definition hidl_ready :: "hidl_params \<Rightarrow> hidl_session_type \<Rightarrow> hidl_world \<Rightarrow> bool" where
  "hidl_ready x st w = fst (Control21_IsSessionReady x st w)"

lemma Control21_stream_results:
  "fst (Control21_StartStream x ok st w) = (hidl_ready x st w \<and> ok, if hidl_ready x st w then [SC_startStream False] else [])"
  "fst (Control21_SuspendStream x ok st w) = (hidl_ready x st w \<and> ok, if hidl_ready x st w then [SC_suspendStream] else [])"
  "fst (Control21_StopStream x st w) = (if hidl_ready x st w then [SC_stopStream] else [])"
  by (auto simp: hidl_ready_def Control21_IsSessionReady_def Control21_StartStream_def Control21_SuspendStream_def
      Control21_StopStream_def Hidl_IsSessionReady_def Hidl_StartStream_def Hidl_SuspendStream_def Hidl_StopStream_def
      via_aidl_def mw_IsSessionReady_def mw_StartStream_def mw_SuspendStream_def mw_StopStream_def
      Control_IsSessionReady_def Control_StartStream_def Control_SuspendStream_def Control_StopStream_def read_session_eq
      own_StartStream_def own_SuspendStream_def own_StopStream_def StartStream_def SuspendStream_def StopStream_def)

text \<open>A HIDL port seen as an AIDL port.\<close>

definition abs_port :: "hidl_port \<Rightarrow> port" where
  "abs_port p = \<lparr>port_id = hport_id p, port_cookie = hport_cookie p, port_state = hport_state p,
     port_session_type = from_session_type_2_0 (hport_session_type p), port_stereo_to_mono = hport_stereo_to_mono p\<rparr>"

lemma abs_port_simps [simp]:
  "port_id (abs_port p) = hport_id p" "port_cookie (abs_port p) = hport_cookie p" "port_state (abs_port p) = hport_state p"
  "port_session_type (abs_port p) = from_session_type_2_0 (hport_session_type p)"
  "port_stereo_to_mono (abs_port p) = hport_stereo_to_mono p"
  "abs_port (p\<lparr>hport_state := s\<rparr>) = (abs_port p)\<lparr>port_state := s\<rparr>"
  by (simp_all add: abs_port_def)

lemma undefined_agrees:
  "codes_agree code (hx_hcode x) \<Longrightarrow> H_kObserversCookieUndefined (hx_hcode x) = kObserversCookieUndefined code"
  by (simp add: codes_agree_def H_kObserversCookieUndefined_def kObserversCookieUndefined_def from_session_type_2_0_def)

lemma abs_in_use: "codes_agree code (hx_hcode x) \<Longrightarrow> in_use code (abs_port p) = Hidl_in_use x p"
  by (simp add: in_use_def Hidl_in_use_def undefined_agrees)

text \<open>The HIDL status has no enumerator for a reconfiguration.\<close>

fun hidl_notification :: "notification \<Rightarrow> bool" where
  "hidl_notification (N_control_result _ _ _ status) \<longleftrightarrow> status \<noteq> BAS_RECONFIGURATION"
| "hidl_notification _ \<longleftrightarrow> True"

lemma abs_deliver:
  assumes "codes_agree code (hx_hcode x)" "hidl_notification n"
  shows "abs_port (hidl_deliver x p n) = deliver code (abs_port p) n"
  using assms(2) abs_in_use [OF assms(1), of p]
  by (cases n; cases "hport_state p")
     (auto simp: hidl_control_result_cb_def control_result_cb_def hidl_session_changed_cb_def session_changed_cb_def
       Hidl_ControlResultHandler_def ControlResultHandler_def Hidl_SessionChangedHandler_def SessionChangedHandler_def
       abs_port_def split: stream_state.splits)

lemma abs_deliver_list:
  assumes "codes_agree code (hx_hcode x)"
  shows "list_all hidl_notification ns \<Longrightarrow> abs_port (foldl (hidl_deliver x) p ns) = foldl (deliver code) (abs_port p) ns"
  by (induction ns arbitrary: p) (simp_all add: abs_deliver [OF assms])

lemma abs_condwait:
  assumes "codes_agree code (hx_hcode x)" "list_all hidl_notification ns"
  shows "CondwaitState code st ns (abs_port p) = map_prod id abs_port (Hidl_CondwaitState x st ns p)"
proof -
  have e: "foldl (deliver code) (abs_port p) ns = abs_port (foldl (hidl_deliver x) p ns)"
    by (simp add: abs_deliver_list [OF assms])
  show ?thesis by (cases st) (simp_all add: CondwaitState_def Hidl_CondwaitState_def e Let_def)
qed

lemma hidl_deliver_in_use: "Hidl_in_use x (foldl (hidl_deliver x) p ns) = Hidl_in_use x p"
proof -
  have "Hidl_in_use x (hidl_deliver x p n) = Hidl_in_use x p" for p n
    by (cases n; cases "hport_state p") (auto simp: hidl_control_result_cb_def hidl_session_changed_cb_def
        Hidl_ControlResultHandler_def Hidl_SessionChangedHandler_def Hidl_in_use_def)
  then show ?thesis by (induction ns arbitrary: p) simp_all
qed

lemma condwait_laws:
  "Hidl_CondwaitState x STARTING ns p = (True, p') \<Longrightarrow> hport_state p' = STARTED"
  "Hidl_CondwaitState x SUSPENDING ns p = (True, p') \<Longrightarrow> hport_state p' = STANDBY"
  "Hidl_CondwaitState x st ns p = (r, p') \<Longrightarrow> Hidl_in_use x p' = Hidl_in_use x p"
  by (auto simp: Hidl_CondwaitState_def Let_def hidl_deliver_in_use split: stream_state.splits)

section \<open>The interface of a port\<close>

lemma Hidl_Start_laws:
  "Hidl_Start x ok ns p w = (True, cs, p', w') \<Longrightarrow> hport_state p' = STARTED"
  "hport_state p \<noteq> STANDBY \<Longrightarrow> Hidl_Start x ok ns p w = (False, [], p, w)"
  "Hidl_Start x ok ns p w = (r, cs, p', w') \<Longrightarrow> Hidl_in_use x p' = Hidl_in_use x p"
  by (auto simp: Hidl_Start_def Let_def Hidl_in_use_def split: if_splits prod.splits dest: condwait_laws
      condwait_laws(3) [unfolded Hidl_in_use_def])

lemma Hidl_Suspend_laws:
  "Hidl_Suspend x ok ns p w = (True, cs, p', w') \<Longrightarrow> hport_state p' = STANDBY"
  "hport_state p \<noteq> STARTED \<Longrightarrow> Hidl_Suspend x ok ns p w = (False, [], p, w)"
  "Hidl_Suspend x ok ns p w = (r, cs, p', w') \<Longrightarrow> Hidl_in_use x p' = Hidl_in_use x p"
  by (auto simp: Hidl_Suspend_def Let_def Hidl_in_use_def split: if_splits prod.splits dest: condwait_laws
      condwait_laws(3) [unfolded Hidl_in_use_def])

lemma Hidl_Start_refused:
  assumes "Hidl_in_use x p" "hport_state p = STANDBY"
  shows "\<exists>cs p' w'. Hidl_Start x False ns p w = (False, cs, p', w') \<and> hport_state p' = STARTING \<and> Hidl_in_use x p'"
proof -
  obtain r cs w' where s: "Control21_StartStream x False (hport_session_type p) w = ((r, cs), w')" by (metis surj_pair)
  then have "\<not> r" using Control21_stream_results(1) [of x False "hport_session_type p" w] by simp
  then show ?thesis using assms s by (simp add: Hidl_Start_def Hidl_in_use_def)
qed

lemma Hidl_Stop_laws:
  "Hidl_in_use x p \<Longrightarrow> Hidl_Stop x p w = (cs, p', w') \<Longrightarrow> hport_state p' = DISABLED"
  "Hidl_Stop x p w = (cs, p', w') \<Longrightarrow> Hidl_in_use x p' = Hidl_in_use x p"
  by (auto simp: Hidl_Stop_def Let_def Hidl_in_use_def split: if_splits prod.splits)

lemmas hidl_port_laws = Hidl_Start_laws Hidl_Suspend_laws Hidl_Stop_laws

text \<open>The transfers are those of an AIDL port, on what the iterations see of the session used.\<close>

definition effective_env :: "bool \<Rightarrow> data_env \<Rightarrow> nat \<Rightarrow> pcm_obs" where
  "effective_env aidl d = (if aidl then de_obs d else (\<lambda>j. abs_obs (de_hidl d j)))"

lemma Hidl_transfer_eq:
  "Hidl_OutWritePcmData aidl (de_obs d) (de_hidl d) = OutWritePcmData (effective_env aidl d)"
  "Hidl_InReadPcmData aidl (de_obs d) (de_hidl d) = InReadPcmData (effective_env aidl d)"
  by (simp_all add: fun_eq_iff Hidl_OutWritePcmData_def Hidl_InReadPcmData_def effective_env_def mw_OutWritePcmData_def
      mw_InReadPcmData_def own_transfer_eq)

definition hidl_data_ok :: "bool \<Rightarrow> (u8 list \<Rightarrow> nat \<Rightarrow> u8 list) \<Rightarrow> data_env \<Rightarrow> bool" where
  "hidl_data_ok aidl downmix d \<longleftrightarrow> (\<forall>src k. length (downmix src k) = k * 2) \<and> queue_present (effective_env aidl d)"

lemma Hidl_WriteData_eq:
  assumes "codes_agree code (hx_hcode x)"
  shows "Hidl_WriteData x aidl downmix d buffer bytes p = WriteData code downmix (effective_env aidl d) buffer bytes (abs_port p)"
  by (cases buffer) (simp_all add: Hidl_WriteData_def WriteData_def Hidl_transfer_eq abs_in_use [OF assms] Let_def)

lemma Hidl_ReadData_eq:
  assumes "codes_agree code (hx_hcode x)"
  shows "Hidl_ReadData x aidl d buffer_null bytes p =
     ReadData code (effective_env aidl d) (de_src d) buffer_null bytes (abs_port p)"
  by (simp add: Hidl_ReadData_def ReadData_def Hidl_transfer_eq abs_in_use [OF assms])

text \<open>The bounds of the AIDL port carry over with any numbering of the AIDL session types that agrees where the types meet.\<close>

definition code_for :: "(hidl_session_type \<Rightarrow> u16) \<Rightarrow> session_type \<Rightarrow> u16" where
  "code_for hcode = (\<lambda>st. hcode (case st of
       A2DP_SOFTWARE_ENCODING_DATAPATH \<Rightarrow> HST_A2DP_SOFTWARE_ENCODING_DATAPATH
     | A2DP_HARDWARE_OFFLOAD_ENCODING_DATAPATH \<Rightarrow> HST_A2DP_HARDWARE_OFFLOAD_DATAPATH
     | HEARING_AID_SOFTWARE_ENCODING_DATAPATH \<Rightarrow> HST_HEARING_AID_SOFTWARE_ENCODING_DATAPATH
     | LE_AUDIO_SOFTWARE_ENCODING_DATAPATH \<Rightarrow> HST_LE_AUDIO_SOFTWARE_ENCODING_DATAPATH
     | LE_AUDIO_SOFTWARE_DECODING_DATAPATH \<Rightarrow> HST_LE_AUDIO_SOFTWARE_DECODED_DATAPATH
     | LE_AUDIO_HARDWARE_OFFLOAD_ENCODING_DATAPATH \<Rightarrow> HST_LE_AUDIO_HARDWARE_OFFLOAD_ENCODING_DATAPATH
     | LE_AUDIO_HARDWARE_OFFLOAD_DECODING_DATAPATH \<Rightarrow> HST_LE_AUDIO_HARDWARE_OFFLOAD_DECODING_DATAPATH
     | _ \<Rightarrow> HST_UNKNOWN))"

lemma code_for_agrees: "codes_agree (code_for hcode) hcode"
proof -
  have "hcode st = code_for hcode (from_session_type_2_0 st)" for st
    by (cases st) (simp_all add: code_for_def from_session_type_2_0_def)
  then show ?thesis by (simp add: codes_agree_def)
qed

interpretation hidl_out: audio_port "BluetoothAudioPortHidlOut x aidl downmix" "Hidl_in_use x" "hidl_data_ok aidl downmix"
  for x aidl downmix
proof unfold_locales
  fix p w and e :: call_env
  assume "Hidl_in_use x p" "vt_GetState (BluetoothAudioPortHidlOut x aidl downmix) p = STANDBY" "\<not> ce_ok e"
  then show "\<exists>cs p' w'. vt_Start (BluetoothAudioPortHidlOut x aidl downmix) e p w = (False, cs, p', w') \<and>
      vt_GetState (BluetoothAudioPortHidlOut x aidl downmix) p' = STARTING \<and> Hidl_in_use x p'"
    using Hidl_Start_refused [of x p "ce_events e" w] by (simp add: BluetoothAudioPortHidlOut_def Hidl_GetState_def)
next
  fix d bytes and buffer :: "u8 list" and p
  assume "hidl_data_ok aidl downmix d" "bytes \<le> length buffer"
  then show "\<exists>n out. vt_WriteData (BluetoothAudioPortHidlOut x aidl downmix) d (Some buffer) bytes p = Some (n, out) \<and>
      n \<le> bytes \<and> length out \<le> n"
    by (simp add: BluetoothAudioPortHidlOut_def Hidl_WriteData_eq [OF code_for_agrees] WriteData_bounds hidl_data_ok_def)
qed (auto simp: BluetoothAudioPortHidlOut_def Hidl_GetState_def Hidl_SetState_def Hidl_in_use_def
    dest: hidl_port_laws hidl_port_laws [unfolded Hidl_in_use_def] intro: hidl_port_laws)

interpretation hidl_in: audio_port "BluetoothAudioPortHidlIn x aidl downmix" "Hidl_in_use x" "hidl_data_ok aidl downmix"
  for x aidl downmix
proof unfold_locales
  fix p w and e :: call_env
  assume "Hidl_in_use x p" "vt_GetState (BluetoothAudioPortHidlIn x aidl downmix) p = STANDBY" "\<not> ce_ok e"
  then show "\<exists>cs p' w'. vt_Start (BluetoothAudioPortHidlIn x aidl downmix) e p w = (False, cs, p', w') \<and>
      vt_GetState (BluetoothAudioPortHidlIn x aidl downmix) p' = STARTING \<and> Hidl_in_use x p'"
    using Hidl_Start_refused [of x p "ce_events e" w]
    by (simp add: BluetoothAudioPortHidlIn_def BluetoothAudioPortHidlOut_def Hidl_GetState_def)
next
  fix d bytes p
  assume "hidl_data_ok aidl downmix d"
  then show "\<exists>n out. vt_ReadData (BluetoothAudioPortHidlIn x aidl downmix) d False bytes p = Some (n, out) \<and>
      n \<le> bytes \<and> length out = n"
    by (simp add: BluetoothAudioPortHidlIn_def Hidl_ReadData_eq [OF code_for_agrees] ReadData_bounds hidl_data_ok_def)
qed (auto simp: BluetoothAudioPortHidlIn_def BluetoothAudioPortHidlOut_def Hidl_GetState_def Hidl_SetState_def Hidl_in_use_def
    dest: hidl_port_laws hidl_port_laws [unfolded Hidl_in_use_def] intro: hidl_port_laws)

section \<open>Properties\<close>

text \<open>C28: a HIDL port implements the AIDL port. Where their sessions are equally ready, the stack answers
  alike and the notifications of the wait are ones the HIDL interface can express, \<open>Start\<close>, \<open>Suspend\<close> and \<open>Stop\<close>
  return the same, make the same calls to the stack and leave the ports in corresponding states.\<close>

theorem hidl_port_refines_port:
  assumes "codes_agree code (hx_hcode x)" and "list_all hidl_notification ns"
    and "hidl_ready x (hport_session_type p) w =
       IsSessionReady (session_of (from_session_type_2_0 (hport_session_type p)) m)"
  shows "(case Hidl_Start x ok ns p w of (r, calls, q, _) \<Rightarrow>
           \<exists>m'. Start code ok ns (abs_port p) m = (r, calls, abs_port q, m')) \<and>
     (case Hidl_Suspend x ok ns p w of (r, calls, q, _) \<Rightarrow>
           \<exists>m'. Suspend code ok ns (abs_port p) m = (r, calls, abs_port q, m')) \<and>
     (case Hidl_Stop x p w of (calls, q, _) \<Rightarrow> \<exists>m'. Stop code (abs_port p) m = (calls, abs_port q, m'))"
proof -
  let ?st = "hport_session_type p" and ?ast = "from_session_type_2_0 (hport_session_type p)"
  note u = abs_in_use [OF assms(1), of p]
  have aidl: "fst (Control_StartStream ok ?ast False m) = fst (Control21_StartStream x ok ?st w)"
    "fst (Control_SuspendStream ok ?ast m) = fst (Control21_SuspendStream x ok ?st w)"
    "fst (Control_StopStream ?ast m) = fst (Control21_StopStream x ?st w)"
    unfolding Control21_stream_results assms(3)
    by (auto simp: Control_StartStream_def Control_SuspendStream_def Control_StopStream_def read_session_eq StartStream_def
        SuspendStream_def StopStream_def)
  have wait: "CondwaitState code st ns ((abs_port p)\<lparr>port_state := s\<rparr>) =
      map_prod id abs_port (Hidl_CondwaitState x st ns (p\<lparr>hport_state := s\<rparr>))" for st s
    using abs_condwait [OF assms(1,2), of st "p\<lparr>hport_state := s\<rparr>"] by simp
  have "case Hidl_Start x ok ns p w of (r, calls, q, _) \<Rightarrow> \<exists>m'. Start code ok ns (abs_port p) m = (r, calls, abs_port q, m')"
    using aidl(1) by (auto simp: Hidl_Start_def Start_def u wait Let_def split: prod.splits)
  moreover have "case Hidl_Suspend x ok ns p w of (r, calls, q, _) \<Rightarrow> \<exists>m'. Suspend code ok ns (abs_port p) m = (r, calls, abs_port q, m')"
    using aidl(2) by (auto simp: Hidl_Suspend_def Suspend_def u wait Let_def split: prod.splits)
  moreover have "case Hidl_Stop x p w of (calls, q, _) \<Rightarrow> \<exists>m'. Stop code (abs_port p) m = (calls, abs_port q, m')"
    using aidl(3) by (auto simp: Hidl_Stop_def Stop_def u Let_def split: prod.splits)
  ultimately show ?thesis by blast
qed

definition example_hidl_world :: hidl_world where
  "example_hidl_world = \<lparr>hw_aidl = True, hw_sessions = [A2DP_SOFTWARE_ENCODING_DATAPATH \<mapsto> example_session],
     hw_legacy = (\<lambda>_. Map.empty), hw_hidl = Map.empty, hw_hidl_2_1 = Map.empty\<rparr>"

definition example_hidl_port :: hidl_port where
  "example_hidl_port = \<lparr>hport_id = 7, hport_cookie = 256, hport_state = STANDBY,
     hport_session_type = HST_A2DP_SOFTWARE_ENCODING_DATAPATH, hport_stereo_to_mono = False\<rparr>"

lemma example_codes_agree: "codes_agree example_code (hx_hcode example_hidl_params)"
  by (simp add: codes_agree_def example_hidl_params_def hidl_example_code_def)

lemma instance_2_1_keeps [simp]:
  "hw_aidl (Hidl_GetSessionInstance_2_1 x st w) = hw_aidl w" "hw_sessions (Hidl_GetSessionInstance_2_1 x st w) = hw_sessions w"
  by (simp_all add: Hidl_GetSessionInstance_2_1_def Hidl_GetSessionInstance_def Let_def split: option.split)

lemma hidl_ready_aidl:
  "hw_aidl w \<Longrightarrow> hidl_ready x st w = IsSessionReady (session_of (from_session_type_2_0 st) (hw_sessions w))"
  by (simp add: hidl_ready_def Control21_IsSessionReady_def Hidl_IsSessionReady_def via_aidl_def mw_IsSessionReady_def
      Control_IsSessionReady_def read_session_eq)

theorem hidl_port_refines_port_witness:
  "\<exists>q w'. Hidl_Start example_hidl_params True [N_control_result 7 256 True BAS_SUCCESS] example_hidl_port example_hidl_world =
     (True, [SC_startStream False], q, w') \<and> hport_state q = STARTED"
proof -
  let ?ns = "[N_control_result 7 256 True BAS_SUCCESS]" and ?m = "hw_sessions example_hidl_world"
  obtain r calls q w' where s: "Hidl_Start example_hidl_params True ?ns example_hidl_port example_hidl_world = (r, calls, q, w')"
    by (cases "Hidl_Start example_hidl_params True ?ns example_hidl_port example_hidl_world")
  have "hidl_ready example_hidl_params (hport_session_type example_hidl_port) example_hidl_world =
      IsSessionReady (session_of (from_session_type_2_0 (hport_session_type example_hidl_port)) ?m)"
    by (rule hidl_ready_aidl) (simp add: example_hidl_world_def)
  from hidl_port_refines_port [OF example_codes_agree _ this, of ?ns True] s
  obtain m' where e: "Start example_code True ?ns (abs_port example_hidl_port) ?m = (r, calls, abs_port q, m')" by auto
  have u: "in_use example_code (abs_port example_hidl_port)"
    by (simp add: in_use_def abs_port_def example_hidl_port_def kObserversCookieUndefined_def)
  have "own_events (abs_port example_hidl_port) ?ns = [Some BAS_SUCCESS]"
    by (simp add: own_events_def List.map_filter_simps example_hidl_port_def)
  then have "r \<and> calls = [SC_startStream False] \<and> port_state (abs_port q) = STARTED"
    using e example_session_ready unfolding Start_eq [OF u]
    by (auto simp: example_hidl_port_def example_hidl_world_def from_session_type_2_0_def GetSessionInstance_def Let_def
        abs_port_def split: if_splits)
  then show ?thesis using s by auto
qed

lemma rates_distinct: "hidl_consts_ok k \<Longrightarrow> k_rate k a = k_rate k b \<longleftrightarrow> a = b"
  and bits_distinct: "hidl_consts_ok k \<Longrightarrow> k_bits k c = k_bits k d \<longleftrightarrow> c = d"
  and channels_distinct: "hidl_consts_ok k \<Longrightarrow> k_channel k e = k_channel k f \<longleftrightarrow> e = f"
  by (auto simp: hidl_consts_ok_def inj_eq)

lemma pcm_converted:
  assumes k: "hidl_consts_ok k" and v: "IsSoftwarePcmConfigurationValid pcm"
  shows "SampleRateToAudioFormat k (to_hidl_sample_rate_2_1 k (pcm_sampleRateHz pcm)) = word_of_int (pcm_sampleRateHz pcm)"
    and "H_OutputChannelModeToAudioFormat k (to_hidl_channel_mode k (pcm_channelMode pcm)) =
       OutputChannelModeToAudioFormat (pcm_channelMode pcm)"
    and "H_BitsPerSampleToAudioFormat k (to_hidl_bits_per_sample k (pcm_bitsPerSample pcm)) =
       BitsPerSampleToAudioFormat (word_of_int (pcm_bitsPerSample pcm)) A2DP_SOFTWARE_ENCODING_DATAPATH"
    and "\<not> pcm_unknown (to_hidl_pcm_config_2_1 k pcm)"
proof -
  have nz: "k_rate k r \<noteq> 0" "k_bits k b \<noteq> 0" "k_channel k c \<noteq> 0" for r b c
    using consts_okD(1-3) [OF k] one_bit_and_or(3) by blast+
  note v' = v [unfolded Audio_Codecs.pcm_valid_iff]
  show "SampleRateToAudioFormat k (to_hidl_sample_rate_2_1 k (pcm_sampleRateHz pcm)) = word_of_int (pcm_sampleRateHz pcm)"
    using v' by (auto simp: to_hidl_sample_rate_2_1_def sample_rate_to_hidl_2_1_map_def SampleRateToAudioFormat_def rates_distinct [OF k])
  show "H_OutputChannelModeToAudioFormat k (to_hidl_channel_mode k (pcm_channelMode pcm)) =
       OutputChannelModeToAudioFormat (pcm_channelMode pcm)"
    using v' by (auto simp: H_OutputChannelModeToAudioFormat_def channels_distinct [OF k])
  show "H_BitsPerSampleToAudioFormat k (to_hidl_bits_per_sample k (pcm_bitsPerSample pcm)) =
       BitsPerSampleToAudioFormat (word_of_int (pcm_bitsPerSample pcm)) A2DP_SOFTWARE_ENCODING_DATAPATH"
    using v' by (auto simp: to_hidl_bits_per_sample_def H_BitsPerSampleToAudioFormat_def BitsPerSampleToAudioFormat_def bits_distinct [OF k])
  show "\<not> pcm_unknown (to_hidl_pcm_config_2_1 k pcm)"
    using v' nz by (auto simp: pcm_unknown_def to_hidl_pcm_config_2_1_def to_hidl_sample_rate_2_1_def
        sample_rate_to_hidl_2_1_map_def to_hidl_bits_per_sample_def)
qed

text \<open>The table of version 2.1 holds what the constructor made.\<close>

definition world_ok :: "hidl_params \<Rightarrow> hidl_world \<Rightarrow> bool" where
  "world_ok x w \<longleftrightarrow> (\<forall>st s. hw_hidl_2_1 w st = Some s \<longrightarrow> h1_raw_session_type s = st)"

lemma Control21_GetAudioConfig_aidl:
  assumes "hw_aidl w" "world_ok x w"
  shows "map_option fst (Control21_GetAudioConfig x st w) =
     Option.bind (fst (Control_GetAudioConfig (hx_defaults x) (from_session_type_2_1 st) (hw_sessions w)))
       (to_hidl_audio_config_2_1 (hx_consts x) (hx_init x))"
proof -
  have raw: "h1_raw_session_type (hidl_2_1_of x st (Hidl_GetSessionInstance_2_1 x st w)) = st"
    using assms(2) by (auto simp: hidl_2_1_of_def Hidl_GetSessionInstance_2_1_def world_ok_def BluetoothAudioSession_2_1_def
        Let_def split: option.splits)
  show ?thesis
    using assms(1) by (simp add: Control21_GetAudioConfig_def GetAudioConfig_2_1_def via_aidl_def mw_GetAudioConfig_2_1_def raw
        case_prod_beta Let_def option.map_comp comp_def Option.bind_map_option map_option_bind)
qed

text \<open>With AIDL available, a HIDL output port for A2DP loads the configuration that an AIDL port of the same
  session would load, for every PCM configuration the AIDL interface accepts: the conversion to the bit sets
  of HIDL and back loses nothing.\<close>

lemma hidl_port_loads_same_config:
  assumes "hidl_consts_ok (hx_consts x)" and "codes_agree code (hx_hcode x)" and "hw_aidl w" and "world_ok x w"
    and "hport_session_type p = HST_A2DP_SOFTWARE_ENCODING_DATAPATH"
    and "fst (Control_GetAudioConfig (hx_defaults x) A2DP_SOFTWARE_ENCODING_DATAPATH (hw_sessions w)) = Some (AC_pcmConfig pcm)"
    and "IsSoftwarePcmConfigurationValid pcm"
  shows "Hidl_Out_LoadAudioConfig x p w = Out_LoadAudioConfig code (hx_defaults x) (abs_port p) (hw_sessions w)"
proof -
  let ?h = "to_hidl_pcm_config_2_1 (hx_consts x) pcm"
  obtain w' where c: "Control21_GetAudioConfig x (hport_session_type p) w = Some (HAC1_pcm ?h, w')"
    using Control21_GetAudioConfig_aidl [OF assms(3,4), of "hport_session_type p"] assms(5,6)
    by (auto simp: to_hidl_audio_config_2_1_def)
  have "pcm_channelMode pcm \<noteq> CM_UNKNOWN" using assms(7) by (auto simp: Audio_Codecs.pcm_valid_iff)
  then show ?thesis
    using c assms(5,6) pcm_converted [OF assms(1,7)]
    by (simp add: Hidl_Out_LoadAudioConfig_def Out_LoadAudioConfig_def abs_in_use [OF assms(2)] from_session_type_2_0_def)
       (simp add: to_hidl_pcm_config_2_1_def)
qed

lemma hidl_port_loads_same_config_witness:
  "Hidl_Out_LoadAudioConfig example_hidl_params example_hidl_port example_hidl_world =
     Some (True, Some \<lparr>cfg_sample_rate = 44100, cfg_channel_mask = CHANNEL_OUT_STEREO, cfg_format = FORMAT_PCM_16_BIT\<rparr>)"
proof -
  have c: "fst (Control_GetAudioConfig (hx_defaults example_hidl_params) A2DP_SOFTWARE_ENCODING_DATAPATH (hw_sessions example_hidl_world))
      = Some (AC_pcmConfig example_pcm)"
    using example_session_ready
    by (simp add: Control_GetAudioConfig_def read_session_eq GetSessionInstance_def example_hidl_world_def GetAudioConfig_def)
       (simp add: example_session_def)
  have "Hidl_Out_LoadAudioConfig example_hidl_params example_hidl_port example_hidl_world =
      Out_LoadAudioConfig example_code (hx_defaults example_hidl_params) (abs_port example_hidl_port) (hw_sessions example_hidl_world)"
    by (rule hidl_port_loads_same_config [OF _ example_codes_agree _ _ _ c])
       (simp_all add: example_hidl_params_def hidl_values_ok example_hidl_world_def world_ok_def example_hidl_port_def
         Audio_Codecs.pcm_valid_iff example_pcm_def)
  moreover have "in_use example_code (abs_port example_hidl_port)"
    by (simp add: in_use_def abs_port_def example_hidl_port_def kObserversCookieUndefined_def)
  ultimately show ?thesis
    using c by (simp add: Out_LoadAudioConfig_def example_hidl_port_def from_session_type_2_0_def example_pcm_def
        BitsPerSampleToAudioFormat_def)
qed

end
