(* ===== verification/HW_Utils.thy ===== *)
theory HW_Utils
  imports BT_Prelude "HOL-Library.AList"
begin

text \<open>
  \<^verbatim>\<open>bluetooth/audio/hw/utils.cc\<close>: the key-value strings of the audio framework and the length of a
  buffer in frames. \<open>android::base::Split\<close> is a parameter; \<open>is_split\<close> is its documented contract
  for a single delimiter. The hash map is an association list with one entry per key; the order of
  iteration over it is a parameter where it matters.
\<close>

type_synonym split = "string \<Rightarrow> string \<Rightarrow> string list"
type_synonym params = "(string \<times> string) list"

definition parse_segment :: "split \<Rightarrow> string \<Rightarrow> params \<Rightarrow> params ub" where
  "parse_segment Split segment params_map =
     (if length segment = 0 then Some params_map
      else
        let kv = Split segment ''='' in
        case kv of
          [] \<Rightarrow> None
        | key # rest \<Rightarrow>
            if key = [] then Some params_map
            else Some (AList.update key (case rest of [] \<Rightarrow> [] | v # _ \<Rightarrow> v) params_map))"

fun parse_segments :: "split \<Rightarrow> string list \<Rightarrow> params \<Rightarrow> params ub" where
  "parse_segments Split [] m = Some m"
| "parse_segments Split (segment # segments) m =
     do { m \<leftarrow> parse_segment Split segment m; parse_segments Split segments m }"

definition ParseAudioParams :: "split \<Rightarrow> string \<Rightarrow> params ub" where
  "ParseAudioParams Split params = parse_segments Split (Split params '';'') []"

definition GetAudioParamString :: "(params \<Rightarrow> params) \<Rightarrow> params \<Rightarrow> string" where
  "GetAudioParamString iter params_map =
     concat (map (\<lambda>(k, v). ''key: '' @ [CHR 0x27] @ k @ [CHR 0x27] @ '' value: '' @ [CHR 0x27] @ v @ [CHR 0x27, CHR 0x0A])
       (iter params_map))"

definition FrameCount :: "u64 \<Rightarrow> u32 \<Rightarrow> u64" where
  "FrameCount microseconds sample_rate = (microseconds * ucast sample_rate) div 1000000"

section \<open>Splitting\<close>

fun intercalate :: "'a \<Rightarrow> 'a list list \<Rightarrow> 'a list" where
  "intercalate d [] = []"
| "intercalate d [x] = x"
| "intercalate d (x # y # xs) = x @ d # intercalate d (y # xs)"

definition is_split :: "split \<Rightarrow> bool" where
  "is_split Split \<longleftrightarrow>
     (\<forall>s d. Split s [d] \<noteq> [] \<and> (\<forall>x \<in> set (Split s [d]). d \<notin> set x) \<and> intercalate d (Split s [d]) = s)"

lemma append_delim_inject:
  "d \<notin> set x \<Longrightarrow> d \<notin> set y \<Longrightarrow> x @ d # xs = y @ d # ys \<longleftrightarrow> x = y \<and> xs = ys"
proof (induction x arbitrary: y)
  case Nil
  then show ?case by (cases y) auto
next
  case (Cons a x)
  then show ?case by (cases y) auto
qed

lemma intercalate_Cons: "xs \<noteq> [] \<Longrightarrow> intercalate d (x # xs) = x @ d # intercalate d xs"
  by (cases xs) auto

lemma intercalate_inject:
  "xs \<noteq> [] \<Longrightarrow> ys \<noteq> [] \<Longrightarrow> \<forall>x \<in> set xs. d \<notin> set x \<Longrightarrow> \<forall>y \<in> set ys. d \<notin> set y \<Longrightarrow>
   intercalate d xs = intercalate d ys \<Longrightarrow> xs = ys"
proof (induction xs arbitrary: ys)
  case (Cons x xs)
  obtain y ys' where y: "ys = y # ys'" using Cons.prems by (cases ys) auto
  have one: "intercalate d (z # zs) = w \<Longrightarrow> d \<notin> set w \<Longrightarrow> zs = [] \<and> z = w" for z zs w
    by (cases zs) auto
  show ?case
  proof (cases "xs = [] \<or> ys' = []")
    case True
    then show ?thesis
      using Cons.prems one [of x xs y] one [of y ys' x] unfolding y by auto
  next
    case False
    then show ?thesis
      using Cons.IH [of ys'] Cons.prems append_delim_inject [of d x y] unfolding y by (simp add: intercalate_Cons)
  qed
qed simp

lemma split_intercalate:
  assumes "is_split Split" "xs \<noteq> []" "\<forall>x \<in> set xs. d \<notin> set x"
  shows "Split (intercalate d xs) [d] = xs"
  by (rule intercalate_inject) (use assms in \<open>auto simp: is_split_def\<close>)

section \<open>Parsing\<close>

text \<open>The forms of a segment: empty, a key, or a key and a value.\<close>

datatype segment = Empty | Key string | KeyValue string string

fun seg_string :: "segment \<Rightarrow> string" where
  "seg_string Empty = []"
| "seg_string (Key k) = k"
| "seg_string (KeyValue k v) = k @ CHR ''='' # v"

fun seg_entry :: "segment \<Rightarrow> (string \<times> string) list" where
  "seg_entry Empty = []"
| "seg_entry (Key k) = (if k = [] then [] else [(k, [])])"
| "seg_entry (KeyValue k v) = (if k = [] then [] else [(k, v)])"

fun seg_ok :: "segment \<Rightarrow> bool" where
  "seg_ok Empty = True"
| "seg_ok (Key k) = (CHR ''='' \<notin> set k \<and> CHR '';'' \<notin> set k)"
| "seg_ok (KeyValue k v) = (CHR ''='' \<notin> set k \<and> CHR '';'' \<notin> set k \<and> CHR ''='' \<notin> set v \<and> CHR '';'' \<notin> set v)"

lemma parse_segment_form:
  assumes "is_split Split" "seg_ok g"
  shows "parse_segment Split (seg_string g) m = Some (foldl (\<lambda>m (k, v). AList.update k v m) m (seg_entry g))"
  using assms split_intercalate [of Split "[_]" "CHR ''=''"] split_intercalate [of Split "[_, _]" "CHR ''=''"]
  by (cases g) (auto simp: parse_segment_def)

lemma parse_segments_form:
  assumes "is_split Split" "\<forall>g \<in> set gs. seg_ok g"
  shows "parse_segments Split (map seg_string gs) m =
    Some (foldl (\<lambda>m (k, v). AList.update k v m) m (concat (map seg_entry gs)))"
  using assms(2) by (induction gs arbitrary: m) (simp_all add: parse_segment_form [OF assms(1)])

lemma foldl_update_map_of:
  "map_of (foldl (\<lambda>m (k, v). AList.update k v m) m kvs) = map_of m ++ map_of (rev kvs)"
  by (induction kvs arbitrary: m) (auto simp: update_conv' map_add_def fun_eq_iff split: option.splits)

lemma parse_distinct:
  "distinct (map fst m) \<Longrightarrow> distinct (map fst (foldl (\<lambda>m (k, v). AList.update k v m) m kvs))"
  by (induction kvs arbitrary: m) (auto simp: distinct_update)

lemma seg_no_delim: "seg_ok g \<Longrightarrow> CHR '';'' \<notin> set (seg_string g)"
  by (cases g) auto

lemma unat_ucast_u64 [simp]: "unat (ucast (x :: u32) :: u64) = unat x"
proof -
  have "unat x < 2 ^ 32" using unsigned_less [of x, where ?'a = nat] by simp
  then show ?thesis by (simp add: unsigned_ucast_eq take_bit_nat_eq_self)
qed

lemma unat_FrameCount:
  assumes "unat us * unat rate < 2 ^ 64"
  shows "unat (FrameCount us rate) = unat us * unat rate div 1000000"
  using assms by (simp add: FrameCount_def unat_div unat_word_ariths)

text \<open>A splitter, to show that the contract can be met.\<close>

fun split_at :: "char \<Rightarrow> string \<Rightarrow> string list" where
  "split_at d [] = [[]]"
| "split_at d (c # cs) = (if c = d then [] # split_at d cs else
     case split_at d cs of [] \<Rightarrow> [[c]] | x # xs \<Rightarrow> (c # x) # xs)"

definition example_split :: split where
  "example_split s ds = (case ds of [] \<Rightarrow> [s] | d # _ \<Rightarrow> split_at d s)"

lemma split_at_ok:
  "split_at d s \<noteq> [] \<and> (\<forall>x \<in> set (split_at d s). d \<notin> set x) \<and> intercalate d (split_at d s) = s"
proof (induction s)
  case (Cons c s)
  then obtain x xs where s: "split_at d s = x # xs" by (cases "split_at d s") auto
  then show ?case using Cons by (cases xs) auto
qed simp

lemma example_split_ok: "is_split example_split"
  using split_at_ok by (simp add: is_split_def example_split_def)

section \<open>Properties\<close>

text \<open>\<open>ParseAudioParams\<close> reads a string of segments separated by semicolons, each empty, a key
  or a key and a value, into a map with one entry per key: the last segment with a key decides its
  value, a key without a value has the empty one, and a segment without a key is ignored.\<close>

lemma ParseAudioParams_forms:
  assumes "is_split Split" "gs \<noteq> []" "\<forall>g \<in> set gs. seg_ok g"
  shows "\<exists>m. ParseAudioParams Split (intercalate CHR '';'' (map seg_string gs)) = Some m \<and>
     distinct (map fst m) \<and> map_of m = map_of (rev (concat (map seg_entry gs)))"
proof -
  have s: "Split (intercalate CHR '';'' (map seg_string gs)) '';'' = map seg_string gs"
    by (rule split_intercalate [OF assms(1)]) (use assms(2,3) seg_no_delim in auto)
  then show ?thesis
    using parse_segments_form [OF assms(1,3), of "[]"] parse_distinct [of "[]" "concat (map seg_entry gs)"]
      foldl_update_map_of [of "[]"] by (simp add: ParseAudioParams_def)
qed

lemma ParseAudioParams_forms_witness:
  "\<exists>m. ParseAudioParams example_split ''key0=value0;=x;key1;key0=v;'' = Some m \<and>
     distinct (map fst m) \<and> map_of m = [''key1'' \<mapsto> '''', ''key0'' \<mapsto> ''v'']"
proof -
  let ?gs = "[KeyValue ''key0'' ''value0'', KeyValue [] ''x'', Key ''key1'', KeyValue ''key0'' ''v'', Empty]"
  have e: "map_of (rev (concat (map seg_entry ?gs))) = [''key1'' \<mapsto> '''', ''key0'' \<mapsto> ''v'']"
    by (auto simp: fun_eq_iff)
  have s: "intercalate CHR '';'' (map seg_string ?gs) = ''key0=value0;=x;key1;key0=v;''" by simp
  show ?thesis
    using ParseAudioParams_forms [OF example_split_ok, of ?gs] unfolding e s by simp
qed

end
