(* ===== verification/Stream_Apis.thy ===== *)
theory Stream_Apis
  imports Hidl_Port HW_Utils
begin

text \<open>
  \<^verbatim>\<open>bluetooth/audio/hw/stream_apis.cc\<close>: the output and input streams of the Bluetooth audio module
  and the operations of \<open>audio_stream_out\<close> and \<open>audio_stream_in\<close>, over the virtual methods \<open>vt\<close> of
  the port a stream owns.

  An operation takes the state of the stream and of the world behind the port and returns its
  result, the calls to the Bluetooth stack, and the new states. \<open>fs\<close> is the size of a frame from the
  audio headers, from the channel mask and the format a stream reports; a division by zero is
  undefined behaviour. The clock is an argument, in seconds and nanoseconds. \<open>errno\<close> values are those
  of Linux.
\<close>

section \<open>Data\<close>

definition EIO :: int where "EIO = 5"
definition EBUSY :: int where "EBUSY = 16"
definition EINVAL :: int where "EINVAL = 22"
definition ENOSYS :: int where "ENOSYS = 38"

definition kMinimumDelayMs :: u64 where "kMinimumDelayMs = 50"
definition kMaximumDelayMs :: u64 where "kMaximumDelayMs = 1000"
definition kExtraAudioSyncMs :: u64 where "kExtraAudioSyncMs = 200"
definition kBluetoothDefaultInputBufferMs :: u64 where "kBluetoothDefaultInputBufferMs = 20"
definition kBluetoothDefaultInputStateTimeoutMs :: u16 where "kBluetoothDefaultInputStateTimeoutMs = 20"
definition kBluetoothDefaultOutputBufferMs :: u64 where "kBluetoothDefaultOutputBufferMs = 10"
definition kBluetoothSpatializerOutputBufferMs :: u64 where "kBluetoothSpatializerOutputBufferMs = 10"

type_synonym frame_size = "channel_mask \<Rightarrow> audio_format \<Rightarrow> u64"
type_synonym timespec = "int \<times> int"

record 'p stream_out =
  so_port :: 'p
  so_is_aidl :: bool
  so_last_write_time_us :: int
  so_sample_rate :: u32
  so_channel_mask :: channel_mask
  so_format :: audio_format
  so_preferred_data_interval_us :: u64
  so_frames_count :: u64
  so_frames_rendered :: u64
  so_frames_presented :: u64

record 'p stream_in =
  si_port :: 'p
  si_is_aidl :: bool
  si_last_read_time_us :: int
  si_sample_rate :: u32
  si_channel_mask :: channel_mask
  si_format :: audio_format
  si_preferred_data_interval_us :: u64
  si_frames_count :: u64
  si_frames_presented :: u64

definition micros :: "timespec \<Rightarrow> int" where
  "micros ts = (fst ts * 1000000000 + snd ts) div 1000"

section \<open>Queries\<close>

text \<open>A field of the configuration if loading succeeds, and what the stream remembers otherwise.\<close>

definition loaded_or ::
  "(audio_config \<Rightarrow> 'a) \<Rightarrow> 'a \<Rightarrow> (bool \<times> audio_config option) ub \<Rightarrow> 'a ub" where
  "loaded_or field remembered load =
     do {
       (ok, cfg) \<leftarrow> load;
       if ok then map_option field cfg else Some remembered
     }"

definition out_get_sample_rate :: "('p, 'w) BluetoothAudioPort \<Rightarrow> 'p stream_out \<Rightarrow> 'w \<Rightarrow> u32 ub" where
  "out_get_sample_rate vt out w =
     loaded_or cfg_sample_rate (so_sample_rate out) (vt_LoadAudioConfig vt (so_port out) w)"

definition out_set_sample_rate :: "'p stream_out \<Rightarrow> u32 \<Rightarrow> int" where
  "out_set_sample_rate out rate = (if rate = so_sample_rate out then 0 else -1)"

definition out_get_channels :: "('p, 'w) BluetoothAudioPort \<Rightarrow> 'p stream_out \<Rightarrow> 'w \<Rightarrow> channel_mask ub" where
  "out_get_channels vt out w =
     loaded_or cfg_channel_mask (so_channel_mask out) (vt_LoadAudioConfig vt (so_port out) w)"

definition out_get_format :: "('p, 'w) BluetoothAudioPort \<Rightarrow> 'p stream_out \<Rightarrow> 'w \<Rightarrow> audio_format ub" where
  "out_get_format vt out w =
     loaded_or cfg_format (so_format out) (vt_LoadAudioConfig vt (so_port out) w)"

definition out_set_format :: "'p stream_out \<Rightarrow> audio_format \<Rightarrow> int" where
  "out_set_format out format = (if format = so_format out then 0 else -1)"

definition audio_stream_out_frame_size ::
  "('p, 'w) BluetoothAudioPort \<Rightarrow> frame_size \<Rightarrow> 'p stream_out \<Rightarrow> 'w \<Rightarrow> u64 ub" where
  "audio_stream_out_frame_size vt fs out w =
     do { c \<leftarrow> out_get_channels vt out w; f \<leftarrow> out_get_format vt out w; Some (fs c f) }"

definition out_get_buffer_size ::
  "('p, 'w) BluetoothAudioPort \<Rightarrow> frame_size \<Rightarrow> 'p stream_out \<Rightarrow> 'w \<Rightarrow> u64 ub" where
  "out_get_buffer_size vt fs out w =
     do { f \<leftarrow> audio_stream_out_frame_size vt fs out w; Some (so_frames_count out * f) }"

definition udiv :: "u64 \<Rightarrow> u64 \<Rightarrow> u64 ub" where
  "udiv a b = (if b = 0 then None else Some (a div b))"

text \<open>
  The part of the presented frames that has left the headset: the count of the stack, replaced by
  the stream's own when the two are too far apart, less the frames of the delay.
\<close>

definition presented_frames :: "u64 \<Rightarrow> u64 \<Rightarrow> u64 \<Rightarrow> u64" where
  "presented_frames presented stack_frames latency_frames =
     (let frames = (if presented < stack_frames then presented
                    else if presented - stack_frames > latency_frames then presented
                    else stack_frames)
      in if frames > latency_frames then frames - latency_frames else 0)"

definition out_calculate_feeding_delay_ms ::
  "('p, 'w) BluetoothAudioPort \<Rightarrow> frame_size \<Rightarrow> bool \<times> presentation_position \<Rightarrow> timespec \<Rightarrow>
   'p stream_out \<Rightarrow> 'w \<Rightarrow> bool \<Rightarrow> bool \<Rightarrow> bool \<Rightarrow> (u32 option \<times> u64 option \<times> timespec option) ub" where
  "out_calculate_feeding_delay_ms vt fs reply now out w latency_ms frames timestamp =
     (if \<not> latency_ms \<and> \<not> frames \<and> \<not> timestamp then Some (None, None, None)
      else
        let (ok, pos) = vt_GetPresentationPosition vt reply (so_port out) w;
            (delay_report_ns, absorbed_bytes, absorbed_timestamp) =
              (case pos of None \<Rightarrow> (0, 0, (0, 0)) | Some (d, b, s, n) \<Rightarrow> (d, b, (s, n)));
            delay_ms = delay_report_ns div 1000000;
            timestamp_fetched = (ok \<and> delay_ms > kMinimumDelayMs \<and> delay_ms < kMaximumDelayMs)
        in do {
          delay_report_ms \<leftarrow>
            (if timestamp_fetched then Some delay_ms
             else do {
               d \<leftarrow> udiv (so_frames_count out * 1000) (ucast (so_sample_rate out));
               Some (d + kExtraAudioSyncMs) });
          let absorbed_timestamp =
            (if \<not> timestamp_fetched \<and> timestamp then now else absorbed_timestamp);
          fr \<leftarrow>
            (if frames then do {
               f \<leftarrow> audio_stream_out_frame_size vt fs out w;
               stack_frames \<leftarrow> udiv absorbed_bytes f;
               let latency_frames = delay_report_ms * ucast (so_sample_rate out) div 1000;
               Some (Some (presented_frames (so_frames_presented out) stack_frames latency_frames)) }
             else Some None);
          Some (if latency_ms then Some (ucast delay_report_ms) else None, fr,
                if timestamp then Some absorbed_timestamp else None)
        })"

definition out_get_latency_ms ::
  "('p, 'w) BluetoothAudioPort \<Rightarrow> frame_size \<Rightarrow> bool \<times> presentation_position \<Rightarrow> 'p stream_out \<Rightarrow> 'w \<Rightarrow> u32 ub" where
  "out_get_latency_ms vt fs reply out w =
     do {
       (latency, _, _) \<leftarrow> out_calculate_feeding_delay_ms vt fs reply (0, 0) out w True False False;
       Some (case latency of Some l \<Rightarrow> l | None \<Rightarrow> 0)
     }"

definition out_get_render_position ::
  "('p, 'w) BluetoothAudioPort \<Rightarrow> frame_size \<Rightarrow> bool \<times> presentation_position \<Rightarrow> bool \<Rightarrow> 'p stream_out \<Rightarrow> 'w \<Rightarrow>
   (int \<times> u32 option) ub" where
  "out_get_render_position vt fs reply dsp_frames_null out w =
     (if dsp_frames_null then Some (- EINVAL, None)
      else do {
        latency \<leftarrow> out_get_latency_ms vt fs reply out w;
        let latency_frames = (ucast latency :: u64) * ucast (so_sample_rate out) div 1000;
        Some (0, Some (if so_frames_rendered out \<ge> latency_frames
                       then ucast (so_frames_rendered out - latency_frames) else 0))
      })"

definition out_get_presentation_position ::
  "('p, 'w) BluetoothAudioPort \<Rightarrow> frame_size \<Rightarrow> bool \<times> presentation_position \<Rightarrow> timespec \<Rightarrow> bool \<Rightarrow> bool \<Rightarrow>
   'p stream_out \<Rightarrow> 'w \<Rightarrow> (int \<times> u64 option \<times> timespec option) ub" where
  "out_get_presentation_position vt fs reply now frames_null timestamp_null out w =
     (if frames_null \<or> timestamp_null then Some (- EINVAL, None, None)
      else do {
        (_, frames, timestamp) \<leftarrow> out_calculate_feeding_delay_ms vt fs reply now out w False True True;
        Some (0, frames, timestamp)
      })"

section \<open>Control of an output stream\<close>

type_synonym ('p, 'w) out_result = "int \<times> stack_call list \<times> 'p stream_out \<times> 'w"

definition out_suspend ::
  "('p, 'w) BluetoothAudioPort \<Rightarrow> call_env \<Rightarrow> 'p stream_out \<Rightarrow> 'w \<Rightarrow> ('p, 'w) out_result" where
  "out_suspend vt e out w =
     (let out = out\<lparr>so_frames_rendered := 0\<rparr>;
          (r, calls, p, w) = vt_Suspend vt e (so_port out) w
      in (if r then 0 else - EIO, calls, out\<lparr>so_port := p\<rparr>, w))"

definition out_standby ::
  "('p, 'w) BluetoothAudioPort \<Rightarrow> call_env \<Rightarrow> 'p stream_out \<Rightarrow> 'w \<Rightarrow> ('p, 'w) out_result" where
  "out_standby vt e out w =
     (let state = vt_GetState vt (so_port out) in
      if state = STARTED then out_suspend vt e out w
      else if state = STARTING \<or> state = SUSPENDING then (- EBUSY, [], out, w)
      else (0, [], out, w))"

definition out_pause ::
  "('p, 'w) BluetoothAudioPort \<Rightarrow> call_env \<Rightarrow> 'p stream_out \<Rightarrow> 'w \<Rightarrow> ('p, 'w) out_result" where
  "out_pause vt e out w =
     (let state = vt_GetState vt (so_port out) in
      if state = STARTED then out_suspend vt e out w
      else if state = STARTING \<or> state = SUSPENDING then (- EBUSY, [], out, w)
      else (0, [], out, w))"

definition out_resume ::
  "('p, 'w) BluetoothAudioPort \<Rightarrow> call_env \<Rightarrow> 'p stream_out \<Rightarrow> 'w \<Rightarrow> ('p, 'w) out_result" where
  "out_resume vt e out w =
     (let state = vt_GetState vt (so_port out) in
      if state = STANDBY then
        let (r, calls, p, w) = vt_Start vt e (so_port out) w
        in (if r then 0 else - EIO, calls, out\<lparr>so_port := p\<rparr>, w)
      else if state = STARTING \<or> state = SUSPENDING then (- EBUSY, [], out, w)
      else if state = DISABLED then (- EINVAL, [], out, w)
      else (0, [], out, w))"


section \<open>Parameters of an output stream\<close>

text \<open>The keys the audio headers define.\<close>

record param_keys =
  AUDIO_PARAMETER_STREAM_SUP_SAMPLING_RATES :: string
  AUDIO_PARAMETER_STREAM_SUP_CHANNELS :: string
  AUDIO_PARAMETER_STREAM_SUP_FORMATS :: string
  AUDIO_PARAMETER_STREAM_ROUTING :: string
  AUDIO_PARAMETER_KEY_CLOSING :: string
  AUDIO_PARAMETER_KEY_EXITING :: string

definition has_param :: "params \<Rightarrow> string \<Rightarrow> bool" where
  "has_param params key \<longleftrightarrow> map_of params key \<noteq> None"

definition reload_config ::
  "('p, 'w) BluetoothAudioPort \<Rightarrow> param_keys \<Rightarrow> params \<Rightarrow> 'p stream_out \<Rightarrow> 'w \<Rightarrow> 'p stream_out ub" where
  "reload_config vt keys params out w =
     (if has_param params (AUDIO_PARAMETER_STREAM_SUP_SAMPLING_RATES keys) \<or>
         has_param params (AUDIO_PARAMETER_STREAM_SUP_CHANNELS keys) \<or>
         has_param params (AUDIO_PARAMETER_STREAM_SUP_FORMATS keys)
      then do {
        (ok, cfg) \<leftarrow> vt_LoadAudioConfig vt (so_port out) w;
        if ok then
          case cfg of
            None \<Rightarrow> None
          | Some c \<Rightarrow> Some (out\<lparr>so_sample_rate := cfg_sample_rate c, so_channel_mask := cfg_channel_mask c,
              so_format := cfg_format c\<rparr>)
        else Some out }
      else Some out)"

definition param_a2dp_suspended ::
  "('p, 'w) BluetoothAudioPort \<Rightarrow> call_env \<Rightarrow> params \<Rightarrow> 'p stream_out \<Rightarrow> 'w \<Rightarrow> stack_call list \<times> 'p stream_out \<times> 'w" where
  "param_a2dp_suspended vt e params out w =
     (if has_param params ''A2dpSuspended'' \<and> vt_IsA2dp vt (so_port out) then
        let state = vt_GetState vt (so_port out) in
        if map_of params ''A2dpSuspended'' = Some ''true'' then
          let out = out\<lparr>so_frames_rendered := 0\<rparr> in
          if state = STARTED then
            let (_, calls, p, w) = vt_Suspend vt e (so_port out) w
            in (calls, out\<lparr>so_port := vt_SetState vt DISABLED p\<rparr>, w)
          else if state \<noteq> DISABLED then
            let (calls, p, w) = vt_Stop vt (so_port out) w in (calls, out\<lparr>so_port := p\<rparr>, w)
          else ([], out, w)
        else if state = DISABLED then ([], out\<lparr>so_port := vt_SetState vt STANDBY (so_port out)\<rparr>, w)
        else ([], out, w)
      else ([], out, w))"

text \<open>The value of \<open>closing\<close> and of \<open>exiting\<close> that stops the stream.\<close>

definition param_stop ::
  "('p, 'w) BluetoothAudioPort \<Rightarrow> string \<Rightarrow> string \<Rightarrow> params \<Rightarrow> 'p stream_out \<Rightarrow> 'w \<Rightarrow>
   stack_call list \<times> 'p stream_out \<times> 'w" where
  "param_stop vt key stop_value params out w =
     (if map_of params key = Some stop_value \<and> vt_GetState vt (so_port out) \<noteq> DISABLED then
        let out = out\<lparr>so_frames_rendered := 0, so_frames_presented := 0\<rparr>;
            (calls, p, w) = vt_Stop vt (so_port out) w
        in (calls, out\<lparr>so_port := p\<rparr>, w)
      else ([], out, w))"

text \<open>The block for \<open>LeAudioSuspended\<close> only logs.\<close>

definition out_set_parameters ::
  "('p, 'w) BluetoothAudioPort \<Rightarrow> split \<Rightarrow> param_keys \<Rightarrow> call_env \<Rightarrow> string \<Rightarrow> 'p stream_out \<Rightarrow> 'w \<Rightarrow>
   ('p, 'w) out_result ub" where
  "out_set_parameters vt Split keys e kvpairs out w =
     do {
       params \<leftarrow> ParseAudioParams Split kvpairs;
       if params = [] then Some (0, [], out, w)
       else do {
         out \<leftarrow> reload_config vt keys params out w;
         _ \<leftarrow> (if has_param params (AUDIO_PARAMETER_STREAM_ROUTING keys) then
                map_option (\<lambda>_. ()) (map_of params ''routing'') else Some ());
         let (calls1, out, w) = param_a2dp_suspended vt e params out w;
         let (calls2, out, w) = param_stop vt (AUDIO_PARAMETER_KEY_CLOSING keys) ''true'' params out w;
         let (calls3, out, w) = param_stop vt (AUDIO_PARAMETER_KEY_EXITING keys) ''1'' params out w;
         Some (0, calls1 @ calls2 @ calls3, out, w)
       }
     }"

definition sampling_rate_param :: "u32 \<Rightarrow> string" where
  "sampling_rate_param rate =
     (if rate = 16000 then ''16000'' else if rate = 24000 then ''24000'' else if rate = 44100 then ''44100''
      else if rate = 48000 then ''48000'' else if rate = 88200 then ''88200'' else if rate = 96000 then ''96000''
      else if rate = 176400 then ''176400'' else if rate = 192000 then ''192000'' else '''')"

definition channels_param :: "channel_mask \<Rightarrow> string" where
  "channels_param ch =
     (if ch = CHANNEL_OUT_MONO then ''AUDIO_CHANNEL_OUT_MONO''
      else if ch = CHANNEL_OUT_STEREO then ''AUDIO_CHANNEL_OUT_STEREO'' else '''')"

definition format_param :: "audio_format \<Rightarrow> string" where
  "format_param format =
     (if format = FORMAT_PCM_16_BIT then ''AUDIO_FORMAT_PCM_16_BIT''
      else if format = FORMAT_PCM_24_BIT_PACKED then ''AUDIO_FORMAT_PCM_24_BIT_PACKED''
      else if format = FORMAT_PCM_8_24_BIT then ''AUDIO_FORMAT_PCM_8_24_BIT''
      else if format = FORMAT_PCM_32_BIT then ''AUDIO_FORMAT_PCM_32_BIT'' else '''')"

text \<open>
  A field of the configuration is read whether loading succeeded or not; when nothing was stored it
  is uninitialised.
\<close>

definition add_param :: "params \<Rightarrow> string \<Rightarrow> string option \<Rightarrow> params \<Rightarrow> params ub" where
  "add_param asked key val acc =
     (if has_param asked key then map_option (\<lambda>v. AList.update key v acc) val else Some acc)"

definition out_get_parameters ::
  "('p, 'w) BluetoothAudioPort \<Rightarrow> split \<Rightarrow> (params \<Rightarrow> params) \<Rightarrow> param_keys \<Rightarrow> string \<Rightarrow> 'p stream_out \<Rightarrow> 'w \<Rightarrow>
   string ub" where
  "out_get_parameters vt Split iter keys ks out w =
     do {
       params \<leftarrow> ParseAudioParams Split ks;
       if params = [] then Some ''''
       else do {
         (_, cfg) \<leftarrow> vt_LoadAudioConfig vt (so_port out) w;
         r \<leftarrow> add_param params (AUDIO_PARAMETER_STREAM_SUP_SAMPLING_RATES keys)
           (map_option (\<lambda>c. sampling_rate_param (cfg_sample_rate c)) cfg) [];
         r \<leftarrow> add_param params (AUDIO_PARAMETER_STREAM_SUP_CHANNELS keys)
           (map_option (\<lambda>c. channels_param (cfg_channel_mask c)) cfg) r;
         r \<leftarrow> add_param params (AUDIO_PARAMETER_STREAM_SUP_FORMATS keys)
           (map_option (\<lambda>c. format_param (cfg_format c)) cfg) r;
         Some (concat (map (\<lambda>(k, v). k @ ''='' @ v @ '';'') (iter r)))
       }
     }"

section \<open>Writing\<close>

text \<open>
  The result is the count returned, the calls to the stack, the bytes that reached the queue, and
  the new states. Sleeping has no effect on them. The product in \<open>sleep_time\<close> is unsigned, and the
  difference is converted to a signed integer.
\<close>

definition account_write ::
  "('p, 'w) BluetoothAudioPort \<Rightarrow> frame_size \<Rightarrow> timespec \<Rightarrow> nat \<Rightarrow> nat \<Rightarrow> 'p stream_out \<Rightarrow> 'w \<Rightarrow> 'p stream_out ub" where
  "account_write vt fs now totalWritten bytes out w =
     do {
       f \<leftarrow> audio_stream_out_frame_size vt fs out w;
       if totalWritten \<noteq> 0 then do {
         frames \<leftarrow> udiv (of_nat bytes) f;
         Some (out\<lparr>so_frames_rendered := so_frames_rendered out + frames,
           so_frames_presented := so_frames_presented out + frames,
           so_last_write_time_us := micros now\<rparr>) }
       else do {
         q \<leftarrow> udiv (of_nat bytes * 1000000) f;
         rate \<leftarrow> out_get_sample_rate vt out w;
         play_time \<leftarrow> udiv q (ucast rate);
         let elapsed_time_since_last_write = micros now - so_last_write_time_us out;
         let sleep_time = sint (play_time - word_of_int elapsed_time_since_last_write);
         let sleep_time = (if sleep_time > 0 then sleep_time else 0);
         Some (out\<lparr>so_last_write_time_us := micros now + sleep_time\<rparr>) }
     }"

definition out_write ::
  "('p, 'w) BluetoothAudioPort \<Rightarrow> frame_size \<Rightarrow> call_env \<Rightarrow> data_env \<Rightarrow> timespec \<Rightarrow> u8 list option \<Rightarrow> nat \<Rightarrow>
   'p stream_out \<Rightarrow> 'w \<Rightarrow> (nat \<times> stack_call list \<times> u8 list \<times> 'p stream_out \<times> 'w) ub" where
  "out_write vt fs e d now buffer bytes out w =
     (let (retval, calls, out, w) =
            (if vt_GetState vt (so_port out) \<noteq> STARTED then out_resume vt e out w else (0, [], out, w))
      in if retval \<noteq> 0 then
           Some (if vt_GetState vt (so_port out) = DISABLED then bytes else 0, calls, [], out, w)
         else do {
           (totalWritten, data) \<leftarrow> vt_WriteData vt d buffer bytes (so_port out);
           out \<leftarrow> account_write vt fs now totalWritten bytes out w;
           Some (totalWritten, calls, data, out, w)
         })"

text \<open>
  The metadata of the tracks: \<open>aidl_update\<close> and \<open>hidl_update\<close> are the methods of the two ports,
  \<open>from_v7\<close> the conversion of the audio headers. The legacy structure gets the count of all tracks,
  but a pointer to a single converted one.
\<close>

definition out_update_source_metadata_v7 ::
  "('p \<Rightarrow> nat \<Rightarrow> 't list \<Rightarrow> 'r ub) \<Rightarrow> ('p \<Rightarrow> source_metadata \<Rightarrow> 'r ub) \<Rightarrow> ('t \<Rightarrow> playback_track_metadata) \<Rightarrow> 'r \<Rightarrow>
   (nat \<times> 't list) option \<Rightarrow> 'p stream_out \<Rightarrow> 'r ub" where
  "out_update_source_metadata_v7 aidl_update hidl_update from_v7 nothing m out =
     (case m of
        None \<Rightarrow> Some nothing
      | Some (track_count, tracks) \<Rightarrow>
          if track_count = 0 then Some nothing
          else if \<not> so_is_aidl out then
            case tracks of
              [] \<Rightarrow> None
            | t # _ \<Rightarrow> hidl_update (so_port out) \<lparr>sm_track_count = track_count, sm_tracks = [from_v7 t]\<rparr>
          else aidl_update (so_port out) track_count tracks)"


section \<open>Opening and closing output streams\<close>

text \<open>
  The device keeps the opened output streams, here with the address of each. The flags of the audio
  headers are arguments.
\<close>

record 'p BluetoothAudioDevice =
  opened_stream_outs :: "(nat \<times> 'p stream_out) list"
  next_unique_id :: u32

record output_flags =
  AUDIO_OUTPUT_FLAG_FAST :: u32
  AUDIO_OUTPUT_FLAG_DEEP_BUFFER :: u32
  AUDIO_OUTPUT_FLAG_SPATIALIZER :: u32

definition preferred_interval :: "u64 \<Rightarrow> (bool \<times> u64 option) \<Rightarrow> u64" where
  "preferred_interval default_us answer =
     (let (ok, stored) = answer; v = (case stored of Some i \<Rightarrow> i | None \<Rightarrow> default_us)
      in if ok \<and> v \<noteq> 0 then v else default_us)"

text \<open>\<open>new_port\<close> is a port just constructed, of the class \<open>is_aidl\<close> selects, and \<open>addr\<close> the address of the new stream.\<close>

definition adev_open_output_stream ::
  "('p, 'w) BluetoothAudioPort \<Rightarrow> output_flags \<Rightarrow> bool \<Rightarrow> 'p \<Rightarrow> nat \<Rightarrow> audio_device \<Rightarrow> u32 \<Rightarrow> audio_config \<Rightarrow>
   'p BluetoothAudioDevice \<Rightarrow> 'w \<Rightarrow> (int \<times> audio_config \<times> 'p BluetoothAudioDevice \<times> 'w) ub" where
  "adev_open_output_stream vt fl is_aidl new_port addr devices flags config dev w =
     do {
       (ok, p, w) \<leftarrow> vt_SetUp vt devices new_port w;
       if \<not> ok then Some (- EINVAL, config, dev, w)
       else do {
         (_, cfg) \<leftarrow> vt_LoadAudioConfig vt p w;
         let config = (case cfg of Some c \<Rightarrow> c | None \<Rightarrow> config);
         let (p, config) =
           (if cfg_channel_mask config = CHANNEL_OUT_MONO \<and> cfg_format config = FORMAT_PCM_16_BIT
            then (vt_ForcePcmStereoToMono vt True p, config\<lparr>cfg_channel_mask := CHANNEL_OUT_STEREO\<rparr>)
            else (p, config));
         answer \<leftarrow> vt_GetPreferredDataIntervalUs vt p w;
         let interval = preferred_interval (kBluetoothDefaultOutputBufferMs * 1000) answer;
         let interval =
           (if (flags = (AUDIO_OUTPUT_FLAG_FAST fl OR AUDIO_OUTPUT_FLAG_DEEP_BUFFER fl) \<or>
                flags = AUDIO_OUTPUT_FLAG_SPATIALIZER fl) \<and>
               interval < kBluetoothSpatializerOutputBufferMs * 1000
            then kBluetoothSpatializerOutputBufferMs * 1000 else interval);
         let out = \<lparr>so_port = p, so_is_aidl = is_aidl, so_last_write_time_us = 0,
           so_sample_rate = cfg_sample_rate config, so_channel_mask = cfg_channel_mask config,
           so_format = cfg_format config, so_preferred_data_interval_us = interval,
           so_frames_count = FrameCount interval (cfg_sample_rate config),
           so_frames_rendered = 0, so_frames_presented = 0\<rparr>;
         Some (0, config, dev\<lparr>opened_stream_outs := opened_stream_outs dev @ [(addr, out)]\<rparr>, w)
       }
     }"

definition adev_close_output_stream ::
  "('p, 'w) BluetoothAudioPort \<Rightarrow> nat \<Rightarrow> 'p BluetoothAudioDevice \<Rightarrow> 'w \<Rightarrow>
   (stack_call list \<times> 'p BluetoothAudioDevice \<times> 'w) ub" where
  "adev_close_output_stream vt addr dev w =
     do {
       out \<leftarrow> map_of (opened_stream_outs dev) addr;
       let dev = dev\<lparr>opened_stream_outs := filter (\<lambda>(a, _). a \<noteq> addr) (opened_stream_outs dev)\<rparr>;
       let (calls, p, w) =
         (if vt_GetState vt (so_port out) \<noteq> DISABLED then vt_Stop vt (so_port out) w else ([], so_port out, w));
       (_, w) \<leftarrow> vt_TearDown vt p w;
       Some (calls, dev, w)
     }"

text \<open>\<^verbatim>\<open>bluetooth/audio/hw/audio_bluetooth_hw.cc\<close>: parameters for the device go to every opened output stream.\<close>

fun set_parameters_all ::
  "('p, 'w) BluetoothAudioPort \<Rightarrow> split \<Rightarrow> param_keys \<Rightarrow> (nat \<Rightarrow> call_env) \<Rightarrow> string \<Rightarrow> (nat \<times> 'p stream_out) list \<Rightarrow> 'w \<Rightarrow>
   (stack_call list \<times> (nat \<times> 'p stream_out) list \<times> 'w) ub" where
  "set_parameters_all vt Split keys e kvpairs [] w = Some ([], [], w)"
| "set_parameters_all vt Split keys e kvpairs ((a, out) # outs) w =
     do {
       (_, calls, out, w) \<leftarrow> out_set_parameters vt Split keys (e a) kvpairs out w;
       (calls', outs, w) \<leftarrow> set_parameters_all vt Split keys e kvpairs outs w;
       Some (calls @ calls', (a, out) # outs, w)
     }"

definition adev_set_parameters ::
  "('p, 'w) BluetoothAudioPort \<Rightarrow> split \<Rightarrow> param_keys \<Rightarrow> (nat \<Rightarrow> call_env) \<Rightarrow> string \<Rightarrow> 'p BluetoothAudioDevice \<Rightarrow> 'w \<Rightarrow>
   (int \<times> stack_call list \<times> 'p BluetoothAudioDevice \<times> 'w) ub" where
  "adev_set_parameters vt Split keys e kvpairs dev w =
     do {
       params \<leftarrow> ParseAudioParams Split kvpairs;
       if params = [] then Some (0, [], dev, w)
       else if \<not> has_param params ''A2dpSuspended'' \<and> \<not> has_param params ''LeAudioSuspended'' then
         Some (- ENOSYS, [], dev, w)
       else do {
         (calls, outs, w) \<leftarrow> set_parameters_all vt Split keys e kvpairs (opened_stream_outs dev) w;
         Some (0, calls, dev\<lparr>opened_stream_outs := outs\<rparr>, w)
       }
     }"

datatype port_type = AUDIO_PORT_TYPE_DEVICE | AUDIO_PORT_TYPE_MIX | AUDIO_PORT_TYPE_other nat

text \<open>The result is the status, the handle stored, and the device; a null argument is \<^const>\<open>None\<close>.\<close>

definition adev_create_audio_patch ::
  "nat \<Rightarrow> nat \<Rightarrow> port_type list option \<Rightarrow> nat \<Rightarrow> port_type list option \<Rightarrow> u32 \<Rightarrow> u32 option \<Rightarrow> 'p BluetoothAudioDevice option \<Rightarrow>
   (int \<times> u32 option \<times> 'p BluetoothAudioDevice option) ub" where
  "adev_create_audio_patch ports_max num_sources sources num_sinks sinks handle_none handle device =
     (case (device, sources, sinks, handle) of
        (Some dev, Some srcs, Some snks, Some h) \<Rightarrow>
          if num_sources \<noteq> 1 \<or> num_sinks = 0 \<or> num_sinks > ports_max then Some (- EINVAL, handle, device)
          else if length srcs < num_sources \<or> length snks < num_sinks then None
          else
            let valid =
              (case srcs ! 0 of
                 AUDIO_PORT_TYPE_DEVICE \<Rightarrow> num_sinks = 1 \<and> snks ! 0 = AUDIO_PORT_TYPE_MIX
               | AUDIO_PORT_TYPE_MIX \<Rightarrow> list_all (\<lambda>t. t = AUDIO_PORT_TYPE_DEVICE) (take num_sinks snks)
               | _ \<Rightarrow> False)
            in if \<not> valid then Some (- EINVAL, handle, device)
               else if h = handle_none then
                 let i = next_unique_id dev + 1 in Some (0, Some i, Some (dev\<lparr>next_unique_id := i\<rparr>))
               else Some (0, handle, device)
      | _ \<Rightarrow> Some (- EINVAL, handle, device))"

section \<open>Input streams\<close>

definition in_get_sample_rate :: "'p stream_in \<Rightarrow> u32" where
  "in_get_sample_rate inp = si_sample_rate inp"

definition in_set_sample_rate :: "'p stream_in \<Rightarrow> u32 \<Rightarrow> int" where
  "in_set_sample_rate inp rate = (if rate = si_sample_rate inp then 0 else - ENOSYS)"

definition in_get_channels :: "('p, 'w) BluetoothAudioPort \<Rightarrow> 'p stream_in \<Rightarrow> 'w \<Rightarrow> channel_mask ub" where
  "in_get_channels vt inp w =
     loaded_or cfg_channel_mask (si_channel_mask inp) (vt_LoadAudioConfig vt (si_port inp) w)"

definition in_get_format :: "('p, 'w) BluetoothAudioPort \<Rightarrow> 'p stream_in \<Rightarrow> 'w \<Rightarrow> audio_format ub" where
  "in_get_format vt inp w =
     loaded_or cfg_format (si_format inp) (vt_LoadAudioConfig vt (si_port inp) w)"

definition in_set_format :: "'p stream_in \<Rightarrow> audio_format \<Rightarrow> int" where
  "in_set_format inp format = (if format = si_format inp then 0 else - ENOSYS)"

definition audio_stream_in_frame_size ::
  "('p, 'w) BluetoothAudioPort \<Rightarrow> frame_size \<Rightarrow> 'p stream_in \<Rightarrow> 'w \<Rightarrow> u64 ub" where
  "audio_stream_in_frame_size vt fs inp w =
     do { c \<leftarrow> in_get_channels vt inp w; f \<leftarrow> in_get_format vt inp w; Some (fs c f) }"

definition in_get_buffer_size ::
  "('p, 'w) BluetoothAudioPort \<Rightarrow> frame_size \<Rightarrow> 'p stream_in \<Rightarrow> 'w \<Rightarrow> u64 ub" where
  "in_get_buffer_size vt fs inp w =
     do { f \<leftarrow> audio_stream_in_frame_size vt fs inp w; Some (si_frames_count inp * f) }"

text \<open>
  Polling for a state to go away, one millisecond at a time: \<open>during i\<close> are the notifications that
  arrive during the \<open>i\<close>-th sleep. The counter is a \<open>uint16_t\<close>, so \<open><= 0\<close> is \<open>= 0\<close>.
\<close>

function in_state_transition_timeout ::
  "('p, 'w) BluetoothAudioPort \<Rightarrow> (nat \<Rightarrow> notification list) \<Rightarrow> stream_state \<Rightarrow> u16 \<Rightarrow> nat \<Rightarrow> 'p \<Rightarrow> bool \<times> 'p" where
  "in_state_transition_timeout vt during state timeout_ms i p =
     (if vt_GetState vt p = state then
        let p = foldl (\<lambda>p n. vt_deliver vt n p) p (during i);
            timeout_ms = timeout_ms - 1
        in if timeout_ms = 0 then (False, p)
           else in_state_transition_timeout vt during state timeout_ms (Suc i) p
      else (True, p))"
  by pat_completeness auto

termination in_state_transition_timeout
  by (relation "measure (\<lambda>(vt, during, state, timeout_ms, i, p).
        if timeout_ms = 0 then 2 ^ 16 else unat timeout_ms)")
    (use unsigned_less [of "- 1 :: u16", where ?'a = nat] in \<open>auto intro: measure_unat\<close>)

declare in_state_transition_timeout.simps [simp del]

definition in_standby ::
  "('p, 'w) BluetoothAudioPort \<Rightarrow> (nat \<Rightarrow> notification list) \<Rightarrow> (nat \<Rightarrow> notification list) \<Rightarrow> call_env \<Rightarrow> 'p stream_in \<Rightarrow> 'w \<Rightarrow>
   int \<times> stack_call list \<times> 'p stream_in \<times> 'w" where
  "in_standby vt during during' e inp w =
     (let (ok, p) = in_state_transition_timeout vt during STARTING kBluetoothDefaultInputStateTimeoutMs 0 (si_port inp) in
      if \<not> ok then (0, [], inp\<lparr>si_port := p\<rparr>, w)
      else if vt_GetState vt p \<noteq> STARTED \<and> vt_GetState vt p \<noteq> SUSPENDING then (0, [], inp\<lparr>si_port := p\<rparr>, w)
      else
        let (retval, calls, p, w) =
              (if vt_GetState vt p = STARTED then
                 let (r, calls, p, w) = vt_Suspend vt e p w in (if r then 0 else - EIO, calls, p, w)
               else (0, [], p, w));
            (ok, p) = in_state_transition_timeout vt during' SUSPENDING kBluetoothDefaultInputStateTimeoutMs 0 p
        in (if ok then retval else 0, calls, inp\<lparr>si_port := p\<rparr>, w))"

text \<open>The number returned is the count read or a negated error; the bytes read are in the buffer.\<close>

definition in_read ::
  "('p, 'w) BluetoothAudioPort \<Rightarrow> frame_size \<Rightarrow> (nat \<Rightarrow> notification list) \<Rightarrow> call_env \<Rightarrow> data_env \<Rightarrow> timespec \<Rightarrow> bool \<Rightarrow> nat \<Rightarrow>
   'p stream_in \<Rightarrow> 'w \<Rightarrow> (int \<times> stack_call list \<times> u8 list \<times> 'p stream_in \<times> 'w) ub" where
  "in_read vt fs during e d now buffer_null bytes inp w =
     (let (ok, p) = in_state_transition_timeout vt during STARTING kBluetoothDefaultInputStateTimeoutMs 0 (si_port inp) in
      if \<not> ok then Some (- EBUSY, [], [], inp\<lparr>si_port := p\<rparr>, w)
      else
        let (retval, calls, p, w) =
              (if vt_GetState vt p = STANDBY then
                 let (r, calls, p, w) = vt_Start vt e p w in (if r then 0 else - EIO, calls, p, w)
               else if vt_GetState vt p = SUSPENDING then (- EBUSY, [], p, w)
               else if vt_GetState vt p = DISABLED then (- EINVAL, [], p, w)
               else (0, [], p, w));
            inp = inp\<lparr>si_port := p\<rparr>
        in if retval \<noteq> 0 then Some (retval, calls, [], inp, w)
           else do {
             (totalRead, data) \<leftarrow> vt_ReadData vt d buffer_null bytes p;
             f \<leftarrow> audio_stream_in_frame_size vt fs inp w;
             frames \<leftarrow> udiv (of_nat totalRead) f;
             Some (int totalRead, calls, data,
               inp\<lparr>si_last_read_time_us := micros now, si_frames_presented := si_frames_presented inp + frames\<rparr>, w)
           })"

text \<open>
  The counts are stored in an \<open>int64_t\<close>; the comparisons and the subtractions with the unsigned counts are
  unsigned.
\<close>

definition in_calculate_starving_delay_ms ::
  "('p, 'w) BluetoothAudioPort \<Rightarrow> frame_size \<Rightarrow> bool \<times> presentation_position \<Rightarrow> 'p stream_in \<Rightarrow> 'w \<Rightarrow> (u64 \<times> int) ub" where
  "in_calculate_starving_delay_ms vt fs reply inp w =
     (let (_, pos) = vt_GetPresentationPosition vt reply (si_port inp) w;
          (delay_report_ns, dispersed_bytes, dispersed_timestamp) =
            (case pos of None \<Rightarrow> (0, 0, (0, 0)) | Some (d, b, s, n) \<Rightarrow> (d, b, (s, n)));
          delay_report_ms = delay_report_ns div 1000000;
          latency_frames = delay_report_ms * ucast (si_sample_rate inp) div 1000
      in do {
        f \<leftarrow> audio_stream_in_frame_size vt fs inp w;
        stack_frames \<leftarrow> udiv dispersed_bytes f;
        Some (presented_frames (si_frames_presented inp) stack_frames latency_frames, micros dispersed_timestamp)
      })"

definition in_get_capture_position ::
  "('p, 'w) BluetoothAudioPort \<Rightarrow> frame_size \<Rightarrow> bool \<times> presentation_position \<Rightarrow> 'p stream_in option \<Rightarrow> bool \<Rightarrow> bool \<Rightarrow> 'w \<Rightarrow>
   (int \<times> (u64 \<times> int) option) ub" where
  "in_get_capture_position vt fs reply stream frames_null time_null w =
     (case stream of
        None \<Rightarrow> Some (- EINVAL, None)
      | Some inp \<Rightarrow>
          if frames_null \<or> time_null then Some (- EINVAL, None)
          else if vt_GetState vt (si_port inp) = STANDBY then Some (- ENOSYS, None)
          else do { r \<leftarrow> in_calculate_starving_delay_ms vt fs reply inp w; Some (0, Some r) })"

definition in_update_sink_metadata_v7 ::
  "('p \<Rightarrow> nat \<Rightarrow> 't list \<Rightarrow> 'r ub) \<Rightarrow> 'r \<Rightarrow> (nat \<times> 't list) option \<Rightarrow> 'p stream_in \<Rightarrow> 'r ub" where
  "in_update_sink_metadata_v7 aidl_update nothing m inp =
     (case m of
        None \<Rightarrow> Some nothing
      | Some (track_count, tracks) \<Rightarrow>
          if track_count = 0 then Some nothing
          else if \<not> si_is_aidl inp then Some nothing
          else aidl_update (si_port inp) track_count tracks)"

text \<open>When the configuration cannot be loaded, the stream is destroyed and its port with it.\<close>

definition adev_open_input_stream ::
  "('p, 'w) BluetoothAudioPort \<Rightarrow> ('p \<Rightarrow> 'w \<Rightarrow> ('p \<times> 'w) ub) \<Rightarrow> bool \<Rightarrow> 'p \<Rightarrow> audio_device \<Rightarrow> audio_config \<Rightarrow> 'w \<Rightarrow>
   (int \<times> audio_config \<times> 'p stream_in option \<times> 'w) ub" where
  "adev_open_input_stream vt destroy is_aidl new_port devices config w =
     do {
       (ok, p, w) \<leftarrow> vt_SetUp vt devices new_port w;
       if \<not> ok then Some (- EINVAL, config, None, w)
       else do {
         (ok, cfg) \<leftarrow> vt_LoadAudioConfig vt p w;
         let config = (case cfg of Some c \<Rightarrow> c | None \<Rightarrow> config);
         if \<not> ok then do { (_, w) \<leftarrow> destroy p w; Some (- EINVAL, config, None, w) }
         else do {
           answer \<leftarrow> vt_GetPreferredDataIntervalUs vt p w;
           let interval = preferred_interval (kBluetoothDefaultInputBufferMs * 1000) answer;
           Some (0, config, Some \<lparr>si_port = p, si_is_aidl = is_aidl, si_last_read_time_us = 0,
             si_sample_rate = cfg_sample_rate config, si_channel_mask = cfg_channel_mask config,
             si_format = cfg_format config, si_preferred_data_interval_us = interval,
             si_frames_count = FrameCount interval (cfg_sample_rate config), si_frames_presented = 0\<rparr>, w)
         }
       }
     }"

definition adev_close_input_stream ::
  "('p, 'w) BluetoothAudioPort \<Rightarrow> 'p stream_in \<Rightarrow> 'w \<Rightarrow> (stack_call list \<times> 'w) ub" where
  "adev_close_input_stream vt inp w =
     (let (calls, p, w) =
            (if vt_GetState vt (si_port inp) \<noteq> DISABLED then vt_Stop vt (si_port inp) w else ([], si_port inp, w))
      in do { (_, w) \<leftarrow> vt_TearDown vt p w; Some (calls, w) })"

section \<open>What the streams guarantee over any port\<close>

text \<open>What a write promises: it reports at most the bytes offered and at least those that reached the queue;
  bytes reach the queue only through a started port, or one whose state is \<open>UNKNOWN\<close>; the count of presented frames
  moves only when something is reported; and a disabled stream drops the data.\<close>

definition write_contract ::
  "('p, 'w) BluetoothAudioPort \<Rightarrow> nat \<Rightarrow> 'p stream_out \<Rightarrow> 'w \<Rightarrow> nat \<times> stack_call list \<times> u8 list \<times> 'p stream_out \<times> 'w \<Rightarrow> bool" where
  "write_contract vt bytes out w = (\<lambda>(n, cs, data, out', w').
     n \<le> bytes \<and> length data \<le> n \<and>
     (data \<noteq> [] \<longrightarrow> vt_GetState vt (so_port out') = STARTED \<or> vt_GetState vt (so_port out) = UNKNOWN) \<and>
     (so_frames_presented out' \<noteq> so_frames_presented out \<longrightarrow> 0 < n) \<and>
     (vt_GetState vt (so_port out) = DISABLED \<longrightarrow> n = bytes \<and> data = [] \<and> cs = [] \<and> out' = out \<and> w' = w))"

context audio_port
begin

text \<open>A resume that succeeds leaves the port started, unless its state was \<open>UNKNOWN\<close>, which is let through.\<close>

lemma resume_outcome:
  "out_resume vt e out w = (0, cs, out', w') \<Longrightarrow>
   vt_GetState vt (so_port out') = STARTED \<or> vt_GetState vt (so_port out) = UNKNOWN \<and> out' = out"
  using start_true [of e "so_port out" w]
  by (cases "vt_GetState vt (so_port out)")
    (auto simp: out_resume_def EIO_def EBUSY_def EINVAL_def split: prod.splits if_splits)

lemma resume_counts: "out_resume vt e out w = (rv, cs, out', w') \<Longrightarrow> so_frames_presented out' = so_frames_presented out"
  by (auto simp: out_resume_def Let_def split: if_splits prod.splits)

lemma resume_busy:
  "vt_GetState vt (so_port out) = STARTING \<Longrightarrow> out_resume vt e out w = (- EBUSY, [], out, w)"
  by (simp add: out_resume_def)

lemma resume_disabled:
  "vt_GetState vt (so_port out) = DISABLED \<Longrightarrow> out_resume vt e out w = (- EINVAL, [], out, w)"
  by (simp add: out_resume_def)

lemma resume_refused:
  assumes "live (so_port out)" "vt_GetState vt (so_port out) = STANDBY" "\<not> ce_ok e"
  obtains cs p w' where "out_resume vt e out w = (- EIO, cs, out\<lparr>so_port := p\<rparr>, w')"
    "vt_GetState vt p = STARTING" "live p"
  using start_refused [OF assms, of w] assms(2) that by (auto simp: out_resume_def)

lemma write_disabled:
  "vt_GetState vt (so_port out) = DISABLED \<Longrightarrow>
   out_write vt fs e d now buffer bytes out w = Some (bytes, [], [], out, w)"
  by (simp add: out_write_def resume_disabled EINVAL_def)

lemma write_starting:
  "vt_GetState vt (so_port out) = STARTING \<Longrightarrow>
   out_write vt fs e d now buffer bytes out w = Some (0, [], [], out, w)"
  by (simp add: out_write_def resume_busy EBUSY_def)

lemma write_refused:
  assumes "live (so_port out)" "vt_GetState vt (so_port out) = STANDBY" "\<not> ce_ok e"
  obtains cs p w' where "out_write vt fs e d now buffer bytes out w = Some (0, cs, [], out\<lparr>so_port := p\<rparr>, w')"
    "vt_GetState vt p = STARTING" "live p"
proof (rule resume_refused [OF assms, of w])
  fix cs p w'
  assume "out_resume vt e out w = (- EIO, cs, out\<lparr>so_port := p\<rparr>, w')" "vt_GetState vt p = STARTING" "live p"
  then show thesis using that [of cs p w'] assms(2) by (simp add: out_write_def EIO_def)
qed

lemma account_write_state:
  "account_write vt fs now n bytes out w = Some out' \<Longrightarrow>
   so_port out' = so_port out \<and>
   (n = 0 \<longrightarrow> so_frames_rendered out' = so_frames_rendered out \<and> so_frames_presented out' = so_frames_presented out)"
  by (auto simp: account_write_def Let_def split: if_splits elim!: bind_SomeE)

lemma write_meets_contract:
  assumes "data_ok d" "bytes \<le> length buffer"
    and "out_write vt fs e d now (Some buffer) bytes out w = Some r"
  shows "write_contract vt bytes out w r"
proof -
  obtain n cs data out' w' where rr: "r = (n, cs, data, out', w')" by (cases r)
  obtain rv cs1 out1 w1 where step: "(if vt_GetState vt (so_port out) \<noteq> STARTED then out_resume vt e out w else (0, [], out, w))
      = (rv, cs1, out1, w1)" by (metis prod_cases4)
  have keep: "so_frames_presented out1 = so_frames_presented out"
    using step resume_counts [of e out w] by (auto split: if_splits)
  have started: "vt_GetState vt (so_port out1) = STARTED \<or> vt_GetState vt (so_port out) = UNKNOWN" if "rv = 0"
    using step resume_outcome [of e out w cs1 out1 w1] that by (auto split: if_splits)
  note o = assms(3) [unfolded out_write_def step rr Let_def split]
  obtain k out2 where k: "vt_WriteData vt d (Some buffer) bytes (so_port out1) = Some (k, out2)" "k \<le> bytes" "length out2 \<le> k"
    using write_ok [OF assms(1,2)] by blast
  have "n \<le> bytes \<and> length data \<le> n"
    using o k by (auto split: if_splits elim!: bind_SomeE)
  moreover have "data \<noteq> [] \<longrightarrow> vt_GetState vt (so_port out') = STARTED \<or> vt_GetState vt (so_port out) = UNKNOWN"
    using o k started account_write_state by (fastforce split: if_splits elim!: bind_SomeE)
  moreover have "so_frames_presented out' \<noteq> so_frames_presented out \<longrightarrow> 0 < n"
    using o k keep account_write_state [of fs now n bytes out1 w1 out'] by (auto split: if_splits elim!: bind_SomeE)
  ultimately show ?thesis
    using assms(3) write_disabled [of out fs e d now "Some buffer" bytes w] by (auto simp: write_contract_def rr)
qed

lemma stop_param_disables:
  assumes "live (so_port out)" "map_of params key = Some v" "param_stop vt key v params out w = (cs, out', w')"
  shows "vt_GetState vt (so_port out') = DISABLED \<and> live (so_port out')"
  using assms stop_disables live_stop
  by (fastforce simp: param_stop_def Let_def split: if_splits prod.splits)

lemma param_stop_keeps:
  "param_stop vt key v params out w = (cs, out', w') \<Longrightarrow> live (so_port out) \<Longrightarrow>
   live (so_port out') \<and> (vt_GetState vt (so_port out) = DISABLED \<longrightarrow> out' = out)"
  using live_stop by (auto simp: param_stop_def Let_def split: if_splits prod.splits)

lemma a2dp_param_live:
  "param_a2dp_suspended vt e params out w = (cs, out', w') \<Longrightarrow> live (so_port out') = live (so_port out)"
  using live_stop live_suspend live_set_state
  by (fastforce simp: param_a2dp_suspended_def Let_def split: if_splits prod.splits)

end

section \<open>Positions\<close>

lemma presented_frames_le: "presented_frames presented stack_frames latency_frames \<le> presented"
proof -
  have "(x :: u64) - y \<le> z" if "y < x" "x \<le> z" for x y z
    using that by (simp add: word_le_nat_alt word_less_nat_alt unat_sub)
  then show ?thesis by (auto simp: presented_frames_def Let_def not_less)
qed

lemma aidl_position_fails:
  "fst (vt_GetPresentationPosition (BluetoothAudioPortAidlOut pa) reply p m) = False"
  by (simp add: BluetoothAudioPortAidlOut_def Port_GetPresentationPosition_def Control_GetPresentationPosition_def
      read_session_eq case_prod_beta Let_def)

section \<open>Examples\<close>

definition example_params :: port_params where
  "example_params = \<lparr>pa_code = example_code, pa_defaults = example_defaults,
     pa_downmix = (\<lambda>src k. replicate (k * 2) 0),
     pa_zero = \<lparr>pp_remoteDeviceAudioDelayNanos = 0, pp_transmittedOctets = 0, pp_tvSec = 0, pp_tvNSec = 0\<rparr>\<rparr>"

definition example_out :: "stream_state \<Rightarrow> port stream_out" where
  "example_out st = \<lparr>so_port = example_port_used\<lparr>port_state := st\<rparr>, so_is_aidl = True, so_last_write_time_us = 0,
     so_sample_rate = 48000, so_channel_mask = CHANNEL_OUT_STEREO, so_format = FORMAT_PCM_16_BIT,
     so_preferred_data_interval_us = 10000, so_frames_count = 480, so_frames_rendered = 0, so_frames_presented = 0\<rparr>"

lemma example_out_in_use: "in_use (pa_code example_params) (so_port (example_out st))"
  using example_port_in_use by (simp add: example_params_def example_out_def)

lemma example_data_ok:
  "aidl_data_ok example_params \<lparr>de_obs = (\<lambda>_. \<lparr>ob_session = example_session, ob_available = 64, ob_ok = True\<rparr>), de_src = (\<lambda>_. []), de_hidl = (\<lambda>_. example_hidl_obs)\<rparr>"
  by (simp add: aidl_data_ok_def params_ok_def example_params_def queue_present_def example_session_def)

section \<open>Properties\<close>

text \<open>C36: whatever \<open>out_write\<close> does to an AIDL or a HIDL stream, it reports at most the bytes it was given and
  at least those that reached the queue; bytes reach the queue only when the port is started afterwards, or was in the
  state \<open>UNKNOWN\<close> before, which a resume lets through; the count of presented frames moves only when something was
  reported; and while the stream is disabled the data is dropped: all bytes are reported, none reaches the queue, and
  neither the stream nor the stack is touched.\<close>

theorem out_write_behaviour:
  assumes "bytes \<le> length buffer"
  shows "(aidl_data_ok pa d \<and> out_write (BluetoothAudioPortAidlOut pa) fs e d now (Some buffer) bytes out w = Some r \<longrightarrow>
      write_contract (BluetoothAudioPortAidlOut pa) bytes out w r) \<and>
    (hidl_data_ok aidl downmix d \<and>
      out_write (BluetoothAudioPortHidlOut x aidl downmix) fs e d now (Some buffer) bytes hout hw = Some hr \<longrightarrow>
      write_contract (BluetoothAudioPortHidlOut x aidl downmix) bytes hout hw hr)"
  using port_out.write_meets_contract [OF _ assms] hidl_out.write_meets_contract [OF _ assms] by blast

definition example_data_env :: data_env where
  "example_data_env = \<lparr>de_obs = (\<lambda>_. \<lparr>ob_session = example_session, ob_available = 64, ob_ok = True\<rparr>), de_src = (\<lambda>_. []),
     de_hidl = (\<lambda>_. example_hidl_obs)\<rparr>"

text \<open>A write to a started AIDL stream reaches the queue; one to a disabled HIDL stream does not.\<close>

lemma example_write:
  "out_write (BluetoothAudioPortAidlOut example_params) (\<lambda>_ _. 4) e example_data_env (5, 0)
     (Some [1, 2, 3, 4]) 4 (example_out STARTED) example_sessions
   = Some (4, [], [1, 2, 3, 4], (example_out STARTED)\<lparr>so_frames_rendered := 1, so_frames_presented := 1,
       so_last_write_time_us := 5000000\<rparr>, example_sessions)"
proof -
  let ?vt = "BluetoothAudioPortAidlOut example_params" and ?out = "example_out STARTED"
  have st: "vt_GetState ?vt (so_port ?out) = STARTED"
    by (simp add: example_out_def BluetoothAudioPortAidlOut_def GetState_def)
  have u: "in_use example_code (so_port ?out)" using example_out_in_use by (simp add: example_params_def)
  have wr: "vt_WriteData ?vt example_data_env (Some [1, 2, 3, 4]) 4 (so_port ?out) = Some (4, [1, 2, 3, 4])"
    using u example_session_ready by (simp add: BluetoothAudioPortAidlOut_def example_params_def WriteData_def example_data_env_def OutWritePcmData_def
        OutWrite_loop.simps pcm_next_def example_out_def example_port_used_def example_port_def BluetoothAudioPortAidl_def example_session_def)
  have ses: "session_of A2DP_SOFTWARE_ENCODING_DATAPATH example_sessions = example_session"
    by (simp add: example_sessions_def GetSessionInstance_def)
  have cfg: "s_audio_config example_session = Some (AC_pcmConfig example_pcm)" "pcm_channelMode example_pcm \<noteq> CM_UNKNOWN"
    by (simp_all add: example_session_def example_pcm_def)
  have ac: "account_write ?vt (\<lambda>_ _. 4) (5, 0) 4 4 ?out example_sessions = Some (?out\<lparr>so_frames_rendered := 1, so_frames_presented := 1,
       so_last_write_time_us := 5000000\<rparr>)"
    using u example_session_ready ses cfg
    by (simp add: example_port_used_def example_port_def BluetoothAudioPortAidl_def account_write_def audio_stream_out_frame_size_def out_get_channels_def out_get_format_def loaded_or_def
        BluetoothAudioPortAidlOut_def example_params_def Out_LoadAudioConfig_def udiv_def micros_def example_out_def
        Control_GetAudioConfig_def read_session_eq GetAudioConfig_def case_prod_beta Let_def)
  show ?thesis using st wr ac by (simp add: out_write_def)
qed

theorem out_write_behaviour_witness:
  "write_contract (BluetoothAudioPortAidlOut example_params) 4 (example_out STARTED) example_sessions
     (4, [], [1, 2, 3, 4], (example_out STARTED)\<lparr>so_frames_rendered := 1, so_frames_presented := 1,
       so_last_write_time_us := 5000000\<rparr>, example_sessions)"
  using out_write_behaviour [THEN conjunct1, rule_format, OF _ conjI [OF _ example_write]] example_data_ok
  by (simp add: example_data_env_def)

text \<open>When the stack refuses to start the stream, the port is left in \<open>STARTING\<close>, and the stream
  is stuck there: every later write reports nothing and transfers nothing, and resuming, pausing and
  standby are all refused as busy without asking the stack again, until a notification of the
  session or a change of parameters arrives.\<close>

lemma refused_start_wedges:
  assumes "in_use (pa_code pa) (so_port out)" "port_state (so_port out) = STANDBY" "\<not> ce_ok e"
  shows "\<exists>cs out' w'. out_write (BluetoothAudioPortAidlOut pa) fs e d now buffer bytes out w = Some (0, cs, [], out', w') \<and>
     port_state (so_port out') = STARTING \<and>
     (\<forall>e d now buffer bytes w.
        out_write (BluetoothAudioPortAidlOut pa) fs e d now buffer bytes out' w = Some (0, [], [], out', w) \<and>
        out_resume (BluetoothAudioPortAidlOut pa) e out' w = (- EBUSY, [], out', w) \<and>
        out_standby (BluetoothAudioPortAidlOut pa) e out' w = (- EBUSY, [], out', w) \<and>
        out_pause (BluetoothAudioPortAidlOut pa) e out' w = (- EBUSY, [], out', w))"
proof -
  let ?vt = "BluetoothAudioPortAidlOut pa"
  have st: "vt_GetState ?vt q = port_state q" for q
    by (simp add: BluetoothAudioPortAidlOut_def GetState_def)
  obtain cs p w' where w: "out_write ?vt fs e d now buffer bytes out w = Some (0, cs, [], out\<lparr>so_port := p\<rparr>, w')"
    "vt_GetState ?vt p = STARTING"
    by (rule port_out.write_refused [of pa out e fs d now buffer bytes w]) (use assms st in auto)
  have s: "vt_GetState ?vt (so_port (out\<lparr>so_port := p\<rparr>)) = STARTING" using w(2) by simp
  show ?thesis
    by (intro exI [of _ cs] exI [of _ "out\<lparr>so_port := p\<rparr>"] exI [of _ w'] conjI allI)
      (use w(1) s st port_out.write_starting [OF s] port_out.resume_busy [OF s] in
        \<open>simp_all add: out_standby_def out_pause_def\<close>)
qed

lemma refused_start_wedges_witness:
  "\<exists>cs out' w'. out_write (BluetoothAudioPortAidlOut example_params) (\<lambda>_ _. 4) \<lparr>ce_ok = False, ce_events = []\<rparr>
     \<lparr>de_obs = (\<lambda>_. \<lparr>ob_session = example_session, ob_available = 64, ob_ok = True\<rparr>), de_src = (\<lambda>_. []), de_hidl = (\<lambda>_. example_hidl_obs)\<rparr> (5, 0)
     (Some [1, 2, 3, 4]) 4 (example_out STANDBY) example_sessions = Some (0, cs, [], out', w') \<and>
     port_state (so_port out') = STARTING \<and>
     out_resume (BluetoothAudioPortAidlOut example_params) \<lparr>ce_ok = True, ce_events = []\<rparr> out' w' = (- EBUSY, [], out', w')"
  using refused_start_wedges [OF example_out_in_use, of STANDBY "\<lparr>ce_ok = False, ce_events = []\<rparr>" "\<lambda>_ _. 4"
      "\<lparr>de_obs = (\<lambda>_. \<lparr>ob_session = example_session, ob_available = 64, ob_ok = True\<rparr>), de_src = (\<lambda>_. []), de_hidl = (\<lambda>_. example_hidl_obs)\<rparr>" "(5, 0)"
      "Some [1, 2, 3, 4]" 4 example_sessions]
  by (force simp: example_out_def)

text \<open>The latency of an AIDL stream is always the one computed from its buffer plus 200 ms,
  whatever delay the remote device reports, and the number of frames reported as presented never
  exceeds the number written.\<close>

lemma latency_ignores_report:
  "out_get_latency_ms (BluetoothAudioPortAidlOut pa) fs reply out w =
     (if so_sample_rate out = 0 then None
      else Some (ucast (so_frames_count out * 1000 div ucast (so_sample_rate out) + 200))) \<and>
   (\<forall>frames ts rv. out_get_presentation_position (BluetoothAudioPortAidlOut pa) fs reply now False False out w =
      Some (rv, frames, ts) \<longrightarrow> (\<exists>n. frames = Some n \<and> n \<le> so_frames_presented out))"
proof (intro conjI allI impI)
  let ?vt = "BluetoothAudioPortAidlOut pa"
  note f = aidl_position_fails [of pa reply "so_port out" w]
  have z: "(ucast (so_sample_rate out) :: u64) = 0 \<longleftrightarrow> so_sample_rate out = 0"
    by (simp add: word_unat_eq_iff)
  show "out_get_latency_ms ?vt fs reply out w =
     (if so_sample_rate out = 0 then None
      else Some (ucast (so_frames_count out * 1000 div ucast (so_sample_rate out) + 200)))"
    using f z by (simp add: out_get_latency_ms_def out_calculate_feeding_delay_ms_def case_prod_beta Let_def udiv_def
        kExtraAudioSyncMs_def)
  fix frames ts rv
  assume "out_get_presentation_position ?vt fs reply now False False out w = Some (rv, frames, ts)"
  then show "\<exists>n. frames = Some n \<and> n \<le> so_frames_presented out"
    using presented_frames_le
    by (auto simp: out_get_presentation_position_def out_calculate_feeding_delay_ms_def case_prod_beta Let_def
        split: if_splits elim!: bind_SomeE)
qed

lemma latency_ignores_report_witness:
  "out_get_latency_ms (BluetoothAudioPortAidlOut example_params) (\<lambda>_ _. 4)
     (True, \<lparr>pp_remoteDeviceAudioDelayNanos = 90000000, pp_transmittedOctets = 0, pp_tvSec = 0, pp_tvNSec = 0\<rparr>)
     (example_out STARTED) example_sessions = Some 210"
proof -
  have "(480 :: u64) * 1000 div ucast (48000 :: u32) + 200 = 210" by simp
  then show ?thesis
    using latency_ignores_report [THEN conjunct1, of example_params "\<lambda>_ _. 4"
        "(True, \<lparr>pp_remoteDeviceAudioDelayNanos = 90000000, pp_transmittedOctets = 0, pp_tvSec = 0, pp_tvNSec = 0\<rparr>)"
        "example_out STARTED" example_sessions]
    by (simp add: example_out_def)
qed

text \<open>The parameter \<open>closing=true\<close> disables a stream, and from then on writes are dropped.\<close>

lemma closing_disables:
  assumes "in_use (pa_code pa) (so_port out)" "ParseAudioParams Split kvpairs = Some params"
    and "map_of params (AUDIO_PARAMETER_KEY_CLOSING keys) = Some ''true''"
    and "out_set_parameters (BluetoothAudioPortAidlOut pa) Split keys e kvpairs out w = Some (rv, cs, out', w')"
  shows "rv = 0 \<and> port_state (so_port out') = DISABLED \<and>
     (\<forall>fs e d now buffer bytes w. out_write (BluetoothAudioPortAidlOut pa) fs e d now buffer bytes out' w =
        Some (bytes, [], [], out', w))"
proof -
  let ?vt = "BluetoothAudioPortAidlOut pa" and ?live = "in_use (pa_code pa)"
  have st: "vt_GetState ?vt q = port_state q" for q
    by (simp add: BluetoothAudioPortAidlOut_def GetState_def)
  have ne: "params \<noteq> []" using assms(3) by auto
  obtain o1 where o1: "reload_config ?vt keys params out w = Some o1" "so_port o1 = so_port out"
    using assms(2,4) ne by (fastforce simp: out_set_parameters_def reload_config_def split: if_splits option.splits elim!: bind_SomeE)
  obtain c2 o2 w2 where o2: "param_a2dp_suspended ?vt e params o1 w = (c2, o2, w2)" by (metis prod_cases3)
  obtain c3 o3 w3 where o3: "param_stop ?vt (AUDIO_PARAMETER_KEY_CLOSING keys) ''true'' params o2 w2 = (c3, o3, w3)"
    by (metis prod_cases3)
  obtain c4 o4 w4 where o4: "param_stop ?vt (AUDIO_PARAMETER_KEY_EXITING keys) ''1'' params o3 w3 = (c4, o4, w4)"
    by (metis prod_cases3)
  have r: "rv = 0" "out' = o4" using assms(2,4) ne o1(1) o2 o3 o4
    by (auto simp: out_set_parameters_def split: if_splits elim!: bind_SomeE)
  have "?live (so_port o2)" using port_out.a2dp_param_live [OF o2] o1(2) assms(1) by simp
  from port_out.stop_param_disables [OF this assms(3) o3] port_out.param_stop_keeps [OF o4]
  have "vt_GetState ?vt (so_port o4) = DISABLED" by simp
  then show ?thesis using r st port_out.write_disabled [of pa o4] by simp
qed

definition example_keys :: param_keys where
  "example_keys = \<lparr>AUDIO_PARAMETER_STREAM_SUP_SAMPLING_RATES = ''sup_sampling_rates'',
     AUDIO_PARAMETER_STREAM_SUP_CHANNELS = ''sup_channels'', AUDIO_PARAMETER_STREAM_SUP_FORMATS = ''sup_formats'',
     AUDIO_PARAMETER_STREAM_ROUTING = ''routing'', AUDIO_PARAMETER_KEY_CLOSING = ''closing'',
     AUDIO_PARAMETER_KEY_EXITING = ''exiting''\<rparr>"

lemma closing_disables_witness:
  "\<exists>rv cs out' w'. out_set_parameters (BluetoothAudioPortAidlOut example_params) example_split example_keys
     \<lparr>ce_ok = True, ce_events = []\<rparr> ''closing=true'' (example_out STARTED) example_sessions = Some (rv, cs, out', w') \<and>
     rv = 0 \<and> port_state (so_port out') = DISABLED"
proof -
  let ?e = "\<lparr>ce_ok = True, ce_events = []\<rparr>" and ?vt = "BluetoothAudioPortAidlOut example_params"
  have p: "ParseAudioParams example_split ''closing=true'' = Some [(''closing'', ''true'')]"
    by (simp add: ParseAudioParams_def example_split_def parse_segment_def)
  have "\<exists>cs out' w'. out_set_parameters ?vt example_split example_keys ?e ''closing=true'' (example_out STARTED)
      example_sessions = Some (0, cs, out', w')"
    using p by (simp add: out_set_parameters_def reload_config_def has_param_def example_keys_def case_prod_beta Let_def)
  then obtain cs out' w' where r: "out_set_parameters ?vt example_split example_keys ?e ''closing=true''
      (example_out STARTED) example_sessions = Some (0, cs, out', w')" by blast
  have "port_state (so_port out') = DISABLED"
    using closing_disables [OF example_out_in_use p _ r] by (simp add: example_keys_def)
  then show ?thesis using r by blast
qed

text \<open>While the configuration of the session has an unknown channel mode, loading it stores nothing, and
  asking a stream for its formats reads an uninitialised structure.\<close>

lemma out_get_parameters_uninitialised:
  assumes "in_use (pa_code pa) (so_port out)" "ParseAudioParams Split ks = Some params"
    and "has_param params (AUDIO_PARAMETER_STREAM_SUP_FORMATS keys)"
    and "GetAudioConfig (pa_defaults pa) (session_of (port_session_type (so_port out)) w) = Some (AC_pcmConfig pcm)"
    and "pcm_channelMode pcm = CM_UNKNOWN"
  shows "out_get_parameters (BluetoothAudioPortAidlOut pa) Split iter keys ks out w = None"
proof -
  have "vt_LoadAudioConfig (BluetoothAudioPortAidlOut pa) (so_port out) w = Some (False, None)"
    using assms by (simp add: BluetoothAudioPortAidlOut_def Out_LoadAudioConfig_def Control_GetAudioConfig_def read_session_eq)
  then show ?thesis
    using assms(2,3) by (auto simp: out_get_parameters_def add_param_def has_param_def split: bind_split)
qed

section \<open>Opening and closing\<close>

lemma Stop_registry:
  assumes "Stop code p m = (cs, p', m')"
  shows "port_cookie p' = port_cookie p \<and> port_session_type p' = port_session_type p \<and>
     (\<forall>st. session_of st m' = session_of st m)"
  using assms by (auto simp: Stop_def Control_StopStream_def read_session_eq Let_def split: if_splits)

lemma open_output_cases:
  assumes "adev_open_output_stream vt fl ia new addr devs flags config dev w = Some (rv, config', dev', w')"
  obtains (failed) p where "vt_SetUp vt devs new w = Some (False, p, w')" "rv = - EINVAL" "dev' = dev"
    | (opened) p out where "vt_SetUp vt devs new w = Some (True, p, w')" "rv = 0"
        "dev' = dev\<lparr>opened_stream_outs := opened_stream_outs dev @ [(addr, out)]\<rparr>"
        "so_port out = p \<or> so_port out = vt_ForcePcmStereoToMono vt True p"
        "so_frames_presented out = 0"
proof -
  obtain ok p w1 where s: "vt_SetUp vt devs new w = Some (ok, p, w1)"
    using assms by (auto simp: adev_open_output_stream_def elim!: bind_SomeE)
  show thesis
  proof (cases ok)
    case False
    then show thesis using failed [of p] s assms by (simp add: adev_open_output_stream_def)
  next
    case True
    then have "\<exists>out. rv = 0 \<and> w' = w1 \<and> dev' = dev\<lparr>opened_stream_outs := opened_stream_outs dev @ [(addr, out)]\<rparr> \<and>
        (so_port out = p \<or> so_port out = vt_ForcePcmStereoToMono vt True p) \<and> so_frames_presented out = 0"
      using assms s by (intro exI [of _ "snd (last (opened_stream_outs dev'))"])
        (auto simp: adev_open_output_stream_def Let_def split: if_splits elim!: bind_SomeE)
    then show thesis using opened [of p] s True by auto
  qed
qed

lemmas AidlOut_methods = BluetoothAudioPortAidlOut_def

text \<open>Closing the stream opened last gives the device as it was, and only its own observer goes.\<close>

lemma close_appended_stream:
  assumes u: "in_use (pa_code pa) (so_port out)" and standby: "port_state (so_port out) = STANDBY"
    and fresh: "addr \<notin> fst ` set (opened_stream_outs dev)"
    and dev': "dev' = dev\<lparr>opened_stream_outs := opened_stream_outs dev @ [(addr, out)]\<rparr>"
  shows "\<exists>cs m''. adev_close_output_stream (BluetoothAudioPortAidlOut pa) addr dev' m = Some (cs, dev, m'') \<and>
     (\<forall>st. map_of (s_observers (session_of st m'')) =
        (if st = port_session_type (so_port out) then (map_of (s_observers (session_of st m)))(port_cookie (so_port out) := None)
         else map_of (s_observers (session_of st m))))"
proof -
  obtain cs p1 m1 where s: "Stop (pa_code pa) (so_port out) m = (cs, p1, m1)" by (metis prod_cases3)
  note sr = Stop_registry [OF s]
  have u1: "in_use (pa_code pa) p1" using u sr by (simp add: in_use_def)
  obtain p2 m2 where t: "TearDown (pa_code pa) p1 m1 = Some (p2, m2)" using TearDown_eq [OF u1] by blast
  have "map_of (s_observers (session_of st m2)) =
      (if st = port_session_type (so_port out) then (map_of (s_observers (session_of st m)))(port_cookie (so_port out) := None)
       else map_of (s_observers (session_of st m)))" for st
    using TearDown_observers(2) [OF u1 t, of st] sr by simp
  moreover have "map_of (opened_stream_outs dev) addr = None" using fresh by (simp add: map_of_eq_None_iff)
  then have "map_of (opened_stream_outs dev') addr = Some out" using dev' by (simp add: map_add_def)
  moreover have "filter (\<lambda>(a, _). a \<noteq> addr) (opened_stream_outs dev) = opened_stream_outs dev"
    using fresh by (force simp: filter_id_conv)
  ultimately show ?thesis
    using dev' s t standby by (auto simp: adev_close_output_stream_def AidlOut_methods GetState_def)
qed

text \<open>C35: opening an output stream on a fresh AIDL port either fails with \<open>EINVAL\<close>, changing neither
  the device nor any session, or appends one stream to the opened ones; closing that stream then
  restores the list of opened streams and the observers of every session. Streams on a HIDL
  port are not covered here.\<close>

theorem open_close_output:
  assumes "registries_ok (pa_code pa) m" "\<not> in_use (pa_code pa) new" "addr \<notin> fst ` set (opened_stream_outs dev)"
    and "adev_open_output_stream (BluetoothAudioPortAidlOut pa) fl ia new addr devs flags config dev m =
       Some (rv, config', dev', m')"
  shows "(rv = - EINVAL \<and> dev' = dev \<and> (\<forall>st. session_of st m' = session_of st m)) \<or>
     (rv = 0 \<and> (\<exists>out. opened_stream_outs dev' = opened_stream_outs dev @ [(addr, out)] \<and>
        registered (pa_code pa) (so_port out) m' \<and> port_state (so_port out) = STANDBY) \<and>
      (\<exists>cs m''. adev_close_output_stream (BluetoothAudioPortAidlOut pa) addr dev' m' = Some (cs, dev, m'') \<and>
        (\<forall>st. map_of (s_observers (session_of st m'')) = map_of (s_observers (session_of st m)))))"
proof -
  let ?code = "pa_code pa"
  obtain r p n where o: "SetUp ?code devs new m = Some (r, p, n)" "r = in_use ?code p"
      "r \<longrightarrow> registered ?code p n \<and> port_state p = STANDBY \<and> device_session_type devs = Some (port_session_type p)"
      "r \<longrightarrow> (\<forall>st. map_of (s_observers (session_of st n)) =
         (if st = port_session_type p then (map_of (s_observers (session_of st m)))(port_cookie p \<mapsto> port_callbacks new)
          else map_of (s_observers (session_of st m)))) \<and>
       map_of (s_observers (session_of (port_session_type p) m)) (port_cookie p) = None"
      "\<not> r \<longrightarrow> (\<forall>st. session_of st n = session_of st m)"
    by (rule SetUp_outcome [OF assms(1,2), of devs]) blast
  from assms(4) show ?thesis
  proof (cases rule: open_output_cases)
    case (failed q)
    then show ?thesis using o by (auto simp: AidlOut_methods)
  next
    case (opened q out)
    then have e: "q = p" "m' = n" and r: r using o(1) by (simp_all add: AidlOut_methods)
    have pp: "port_cookie (so_port out) = port_cookie p" "port_session_type (so_port out) = port_session_type p"
        "port_state (so_port out) = STANDBY" "port_callbacks (so_port out) = port_callbacks p"
      using opened(4) e o(3) r by (auto simp: AidlOut_methods ForcePcmStereoToMono_def port_callbacks_def)
    have u: "in_use ?code (so_port out)" using o(2) r pp(1) by (simp add: in_use_def)
    have "registered ?code (so_port out) n" using o(3) r pp u by (simp add: registered_def)
    then show ?thesis
      using close_appended_stream [OF u pp(3) assms(3) opened(3), of n] opened(2,3) pp o(4) r e
      by (fastforce simp: fun_upd_idem_iff)
  qed
qed

definition example_flags :: output_flags where
  "example_flags = \<lparr>AUDIO_OUTPUT_FLAG_FAST = 4, AUDIO_OUTPUT_FLAG_DEEP_BUFFER = 8, AUDIO_OUTPUT_FLAG_SPATIALIZER = 131072\<rparr>"

theorem open_close_output_witness:
  "\<exists>config' dev' m' cs m''. adev_open_output_stream (BluetoothAudioPortAidlOut example_params) example_flags True
     example_port 1 OUT_BLUETOOTH_A2DP 0 default_out_config \<lparr>opened_stream_outs = [], next_unique_id = 1\<rparr> example_sessions
       = Some (0, config', dev', m') \<and>
     adev_close_output_stream (BluetoothAudioPortAidlOut example_params) 1 dev' m'
       = Some (cs, \<lparr>opened_stream_outs = [], next_unique_id = 1\<rparr>, m'')"
proof -
  let ?dev = "\<lparr>opened_stream_outs = [], next_unique_id = 1\<rparr> :: port BluetoothAudioDevice"
  let ?vt = "BluetoothAudioPortAidlOut example_params" and ?code = "pa_code example_params"
  let ?s = "example_session\<lparr>s_observers := [(256, example_cb 3), (257, port_callbacks example_port)]\<rparr>"
  have c: "?code = example_code" by (simp add: example_params_def)
  have reg: "RegisterStatusCback example_code (port_callbacks example_port) example_session = (257, ?s)"
    by (simp add: RegisterStatusCback_def example_session_def BluetoothAudioSession_def ObserversCookieGetUpperBound_def
        ObserversCookieGetInitValue_def kObserversCookieSize_def find_cookie.simps [of "[(256, example_cb 3)]"])
  have ready: "IsSessionReady ?s" using example_session_ready by (simp add: IsSessionReady_iff)
  have cfg: "s_audio_config ?s = Some (AC_pcmConfig example_pcm)" by (simp add: example_session_def)
  have "\<exists>config' dev' m'. adev_open_output_stream ?vt example_flags True example_port 1 OUT_BLUETOOTH_A2DP 0
      default_out_config ?dev example_sessions = Some (0, config', dev', m')"
    using example_session_ready reg ready cfg
    by (simp add: adev_open_output_stream_def BluetoothAudioPortAidlOut_def SetUp_eq c example_sessions_def
        GetSessionInstance_def Out_LoadAudioConfig_def GetPreferredDataIntervalUs_def Control_GetAudioConfig_def
        ForcePcmStereoToMono_def read_session_eq GetAudioConfig_def in_use_def kObserversCookieUndefined_def case_prod_beta Let_def)
  then obtain config' dev' m' where r: "adev_open_output_stream ?vt example_flags True example_port 1 OUT_BLUETOOTH_A2DP 0
      default_out_config ?dev example_sessions = Some (0, config', dev', m')" by blast
  have "\<exists>cs m''. adev_close_output_stream ?vt 1 dev' m' = Some (cs, ?dev, m'')"
    using open_close_output [OF _ _ _ r] example_sessions_ok example_port_in_use(2) unfolding c
    by (auto simp: EINVAL_def)
  then show ?thesis using r by blast
qed

end
