(* ===== verification/Stream_Fixed.thy ===== *)
theory Stream_Fixed
  imports Stream_Apis
begin

text \<open>
  The operations of \<^verbatim>\<open>stream_apis.cc\<close> and \<^verbatim>\<open>audio_bluetooth_hw.cc\<close> that have a fixed answer, the opening and closing of the
  module, and what its patches are called. What they log is left out; a null pointer is a truth value.
\<close>

section \<open>Output streams\<close>

definition out_dump :: "'p stream_out \<Rightarrow> int \<Rightarrow> int" where "out_dump out fd = 0"

definition out_set_volume :: "'p stream_out \<Rightarrow> int" where "out_set_volume out = - 1"

definition out_add_audio_effect :: "'p stream_out \<Rightarrow> nat \<Rightarrow> int" where "out_add_audio_effect out effect = 0"

definition out_remove_audio_effect :: "'p stream_out \<Rightarrow> nat \<Rightarrow> int" where "out_remove_audio_effect out effect = 0"

text \<open>The status and the timestamp.\<close>

definition out_get_next_write_timestamp :: "'p stream_out \<Rightarrow> int \<times> int" where
  "out_get_next_write_timestamp out = (- EINVAL, 0)"

section \<open>Input streams\<close>

definition in_dump :: "'p stream_in \<Rightarrow> int \<Rightarrow> int" where "in_dump inp fd = 0"

definition in_set_parameters :: "split \<Rightarrow> string \<Rightarrow> 'p stream_in \<Rightarrow> int ub" where
  "in_set_parameters Split kvpairs inp = do {
     params \<leftarrow> ParseAudioParams Split kvpairs;
     if params = [] then Some 0 else Some 0
   }"

text \<open>The configuration is loaded for the log only; the parameters returned are an empty map.\<close>

definition in_get_parameters ::
  "('p, 'w) BluetoothAudioPort \<Rightarrow> split \<Rightarrow> string \<Rightarrow> 'p stream_in \<Rightarrow> 'w \<Rightarrow> string ub" where
  "in_get_parameters vt Split keys inp w = do {
     params \<leftarrow> ParseAudioParams Split keys;
     if params = [] then Some ''''
     else do {
       (ok, audio_cfg) \<leftarrow> vt_LoadAudioConfig vt (si_port inp) w;
       let return_params = ([] :: params);
       Some (concat (map (\<lambda>(k, v). k @ ''='' @ v @ '';'') return_params))
     }
   }"

definition in_add_audio_effect :: "'p stream_in \<Rightarrow> nat \<Rightarrow> int" where "in_add_audio_effect inp effect = 0"

definition in_remove_audio_effect :: "'p stream_in \<Rightarrow> nat \<Rightarrow> int" where "in_remove_audio_effect inp effect = 0"

definition in_set_gain :: "'p stream_in \<Rightarrow> int" where "in_set_gain inp = 0"

definition in_get_input_frames_lost :: "'p stream_in \<Rightarrow> u32" where "in_get_input_frames_lost inp = 0"

definition in_start :: "'p stream_in \<Rightarrow> int" where "in_start inp = 0"

definition in_stop :: "'p stream_in \<Rightarrow> int" where "in_stop inp = 0"

definition in_create_mmap_buffer :: "'p stream_in \<Rightarrow> int \<Rightarrow> int" where "in_create_mmap_buffer inp min_size_frames = - ENOSYS"

definition in_get_mmap_position :: "'p stream_in \<Rightarrow> int" where "in_get_mmap_position inp = - ENOSYS"

definition in_get_active_microphones :: "'p stream_in \<Rightarrow> int" where "in_get_active_microphones inp = - ENOSYS"

definition in_set_microphone_direction :: "'p stream_in \<Rightarrow> int \<Rightarrow> int" where
  "in_set_microphone_direction inp direction = - ENOSYS"

definition in_set_microphone_field_dimension :: "'p stream_in \<Rightarrow> int" where
  "in_set_microphone_field_dimension inp = - ENOSYS"

section \<open>The module\<close>

definition adev_get_input_buffer_size :: u64 where "adev_get_input_buffer_size = 320"

definition adev_get_parameters :: "string \<Rightarrow> string" where "adev_get_parameters keys = ''''"

definition adev_init_check :: int where "adev_init_check = 0"

definition adev_set_voice_volume :: int where "adev_set_voice_volume = - ENOSYS"

definition adev_set_master_volume :: int where "adev_set_master_volume = - ENOSYS"

definition adev_get_master_volume :: int where "adev_get_master_volume = - ENOSYS"

definition adev_set_master_mute :: "bool \<Rightarrow> int" where "adev_set_master_mute muted = - ENOSYS"

definition adev_get_master_mute :: int where "adev_get_master_mute = - ENOSYS"

definition adev_set_mode :: "int \<Rightarrow> int" where "adev_set_mode mode = 0"

definition adev_set_mic_mute :: "bool \<Rightarrow> int" where "adev_set_mic_mute state = - ENOSYS"

definition adev_get_mic_mute :: int where "adev_get_mic_mute = - ENOSYS"

definition adev_release_audio_patch :: "bool \<Rightarrow> u32 \<Rightarrow> int" where
  "adev_release_audio_patch device_null patch_handle = (if device_null then - EINVAL else 0)"

definition adev_get_audio_port_v7 :: "bool \<Rightarrow> bool \<Rightarrow> int" where
  "adev_get_audio_port_v7 device_null port_null = (if device_null \<or> port_null then - EINVAL else - ENOSYS)"

definition adev_get_audio_port :: "bool \<Rightarrow> bool \<Rightarrow> int" where
  "adev_get_audio_port device_null port_null = (if device_null \<or> port_null then - EINVAL else - ENOSYS)"

definition adev_dump :: "int \<Rightarrow> int" where "adev_dump fd = 0"

text \<open>Opening creates a device without streams; closing deletes it. The table of functions it gets is the list of the
  operations of these theories.\<close>

definition new_audio_device :: "'p BluetoothAudioDevice" where
  "new_audio_device = \<lparr>opened_stream_outs = [], next_unique_id = 1\<rparr>"

definition adev_open :: "string \<Rightarrow> string \<Rightarrow> int \<times> 'p BluetoothAudioDevice option" where
  "adev_open interface name = (if name \<noteq> interface then (- EINVAL, None) else (0, Some new_audio_device))"

definition adev_close :: "'p BluetoothAudioDevice option \<Rightarrow> int \<times> 'p BluetoothAudioDevice option" where
  "adev_close device = (0, None)"

section \<open>Handles of patches\<close>

text \<open>The handles of patches that are created one after the other without a handle of their own, from one output mix to one device.\<close>

fun create_patches :: "nat \<Rightarrow> u32 \<Rightarrow> nat \<Rightarrow> 'p BluetoothAudioDevice \<Rightarrow> u32 list" where
  "create_patches ports_max handle_none 0 dev = []"
| "create_patches ports_max handle_none (Suc n) dev =
     (case adev_create_audio_patch ports_max 1 (Some [AUDIO_PORT_TYPE_MIX]) 1 (Some [AUDIO_PORT_TYPE_DEVICE]) handle_none (Some handle_none) (Some dev) of
        Some (_, Some h, Some dev) \<Rightarrow> h # create_patches ports_max handle_none n dev
      | _ \<Rightarrow> [])"

lemma create_patches_eq:
  "0 < ports_max \<Longrightarrow> create_patches ports_max handle_none n dev = map (\<lambda>i. next_unique_id dev + 1 + of_nat i) [0..<n]"
proof (induction n arbitrary: dev)
  case (Suc n)
  then show ?case
    by (simp add: adev_create_audio_patch_def Let_def map_upt_Suc add.assoc del: upt_Suc)
qed simp

lemma patch_handles_distinct:
  assumes "adev_open interface interface = (status, Some dev)" and "0 < ports_max" and "n < 2 ^ 32"
  shows "status = 0 \<and> length (create_patches ports_max handle_none n dev) = n \<and> distinct (create_patches ports_max handle_none n dev)"
proof -
  have dev: "next_unique_id dev = 1" "status = 0" using assms(1) by (auto simp: adev_open_def new_audio_device_def)
  have "inj_on (\<lambda>i. next_unique_id dev + 1 + of_nat i :: u32) {0..<n}"
  proof (rule inj_onI)
    fix i j assume "i \<in> {0..<n}" "j \<in> {0..<n}" "next_unique_id dev + 1 + of_nat i = (next_unique_id dev + 1 + of_nat j :: u32)"
    then have "(of_nat i :: u32) = of_nat j" "i < 2 ^ 32" "j < 2 ^ 32" using assms(3) by simp_all
    then show "i = j" by (auto dest!: arg_cong [of _ _ unat] simp: unsigned_of_nat take_bit_nat_eq_self)
  qed
  then show ?thesis using dev(2) by (simp add: create_patches_eq [OF assms(2)] distinct_map)
qed

lemma in_get_parameters_empty: "in_get_parameters vt Split keys inp w = Some s \<Longrightarrow> s = ''''"
  by (auto simp: in_get_parameters_def Let_def bind_eq_Some_conv split: if_splits prod.splits)

end
