(* ===== verification/Ase_Settings.thy ===== *)
theory Ase_Settings
  imports LeAudio_Offload
begin

text \<open>
  \<^verbatim>\<open>bluetooth/audio/utils/aidl_session/BluetoothLeAudioAseConfigurationSettingProvider.cpp\<close>: how the ASE
  configuration settings that \<open>LeAudio_Offload\<close> matches are built from the two flatbuffer files, whose
  schemas are in \<^verbatim>\<open>bluetooth/audio/utils/le_audio_configuration_set\<close>.

  Reading and parsing a file is library code: its result is an argument, \<^const>\<open>None\<close> when a step failed or
  there is no root. Fields that the schema does not require may be absent. Dereferencing a null
  pointer and reading past the end of a value are undefined.
\<close>

section \<open>Tables of the files\<close>

record flat_param =
  fp_type :: u8
  fp_compound_value :: "u8 list option"

record flat_codec_id =
  fi_coding_format :: u8
  fi_vendor_company_id :: u16
  fi_vendor_codec_id :: u16

record flat_subconfig =
  fs_direction :: u8
  fs_codec_id :: flat_codec_id
  fs_codec_configuration :: "flat_param list"

record flat_codec_config =
  fcc_name :: string
  fcc_subconfigurations :: "flat_subconfig list option"

record flat_qos_config =
  fq_name :: string
  fq_target_latency :: u8
  fq_retransmission_number :: u8
  fq_max_transport_latency :: u16

record flat_config =
  fl_name :: string
  fl_codec_config_name :: string
  fl_qos_config_name :: "string list"

record flat_configs =
  fr_qos_configurations :: "flat_qos_config list option"
  fr_codec_configurations :: "flat_codec_config list option"
  fr_configurations :: "flat_config list option"

record flat_scenario =
  fsc_name :: string
  fsc_configurations :: "string list option"

type_synonym flat_scenarios = "flat_scenario list option"

section \<open>Constants\<close>

datatype le_location =
    NotAllowed
  | FrontLeft | FrontRight | FrontCenter | LowFreqEffects1 | BackLeft | BackRight
  | FrontLeftOfCenter | FrontRightOfCenter | BackCenter | LowFreqEffects2 | SideLeft | SideRight
  | TopFrontLeft | TopFrontRight | TopFrontCenter | TopCenter | TopBackLeft | TopBackRight
  | TopSideLeft | TopSideRight | TopBackCenter | BottomFrontCenter | BottomFrontLeft | BottomFrontRight
  | FrontLeftWide | FrontRightWide | LeftSurround | RightSurround

fun kLeAudioLocation :: "le_location \<Rightarrow> u32" where
  "kLeAudioLocation NotAllowed = 0x00000000"
| "kLeAudioLocation FrontLeft = 0x00000001"
| "kLeAudioLocation FrontRight = 0x00000002"
| "kLeAudioLocation FrontCenter = 0x00000004"
| "kLeAudioLocation LowFreqEffects1 = 0x00000008"
| "kLeAudioLocation BackLeft = 0x00000010"
| "kLeAudioLocation BackRight = 0x00000020"
| "kLeAudioLocation FrontLeftOfCenter = 0x00000040"
| "kLeAudioLocation FrontRightOfCenter = 0x00000080"
| "kLeAudioLocation BackCenter = 0x00000100"
| "kLeAudioLocation LowFreqEffects2 = 0x00000200"
| "kLeAudioLocation SideLeft = 0x00000400"
| "kLeAudioLocation SideRight = 0x00000800"
| "kLeAudioLocation TopFrontLeft = 0x00001000"
| "kLeAudioLocation TopFrontRight = 0x00002000"
| "kLeAudioLocation TopFrontCenter = 0x00004000"
| "kLeAudioLocation TopCenter = 0x00008000"
| "kLeAudioLocation TopBackLeft = 0x00010000"
| "kLeAudioLocation TopBackRight = 0x00020000"
| "kLeAudioLocation TopSideLeft = 0x00040000"
| "kLeAudioLocation TopSideRight = 0x00080000"
| "kLeAudioLocation TopBackCenter = 0x00100000"
| "kLeAudioLocation BottomFrontCenter = 0x00200000"
| "kLeAudioLocation BottomFrontLeft = 0x00400000"
| "kLeAudioLocation BottomFrontRight = 0x00800000"
| "kLeAudioLocation FrontLeftWide = 0x01000000"
| "kLeAudioLocation FrontRightWide = 0x02000000"
| "kLeAudioLocation LeftSurround = 0x04000000"
| "kLeAudioLocation RightSurround = 0x08000000"

datatype audio_context =
    AX_UNSPECIFIED | AX_CONVERSATIONAL | AX_MEDIA | AX_GAME | AX_INSTRUCTIONAL | AX_VOICE_ASSISTANTS | AX_LIVE_AUDIO
  | AX_NOTIFICATIONS | AX_RINGTONE_ALERTS | AX_ALERTS | AX_EMERGENCY_ALARM

text \<open>
  What the code takes from the AIDL interface: the number and the identifier of LC3, identifiers of
  vendor codecs, the bits of channel allocations and contexts, and default values of the structures. \<open>ak_log_debug\<close> tells whether
  debug messages are on: their arguments are evaluated only then.
\<close>

record ase_consts =
  ak_lc3_format :: u8
  ak_lc3 :: codec_id
  ak_vendor :: "u16 \<Rightarrow> u16 \<Rightarrow> codec_id"
  ak_allocation :: "le_location \<Rightarrow> u32"
  ak_context :: "audio_context \<Rightarrow> u32"
  ak_default_context :: u32
  ak_ase :: ase_configuration
  ak_qos :: qos_configuration
  ak_path :: data_path_configuration
  ak_setting :: ase_setting
  ak_flags :: nat
  ak_log_debug :: bool

definition le_locations :: "le_location list" where
  "le_locations =
     [NotAllowed, FrontLeft, FrontRight, FrontCenter, LowFreqEffects1, BackLeft,
      BackRight, FrontLeftOfCenter, FrontRightOfCenter, BackCenter, LowFreqEffects2,
      SideLeft, SideRight, TopFrontLeft, TopFrontRight, TopFrontCenter,
      TopCenter, TopBackLeft, TopBackRight, TopSideLeft, TopSideRight,
      TopBackCenter, BottomFrontCenter, BottomFrontLeft, BottomFrontRight, FrontLeftWide,
      FrontRightWide, LeftSurround, RightSurround]"

definition audio_channel_allocation_map :: "ase_consts \<Rightarrow> (u32 \<times> u32) list" where
  "audio_channel_allocation_map k = map (\<lambda>l. (kLeAudioLocation l, ak_allocation k l)) le_locations"

definition kIsoDataPathHci :: int where "kIsoDataPathHci = 0x00"
definition kIsoDataPathPlatformDefault :: int where "kIsoDataPathPlatformDefault = 0x01"

definition kLeAudioDirectionSink :: u8 where "kLeAudioDirectionSink = 0x01"

datatype codec_location = HOST | ADSP | CONTROLLER

definition ase_sampling_freq_map :: "u8 \<Rightarrow> sampling_frequency option" where
  "ase_sampling_freq_map f =
     (if f = 0x01 then Some HZ8000 else if f = 0x03 then Some HZ16000 else if f = 0x05 then Some HZ24000
      else if f = 0x06 then Some HZ32000 else if f = 0x07 then Some HZ44100 else if f = 0x08 then Some HZ48000 else None)"

definition ase_frame_duration_map :: "u8 \<Rightarrow> frame_duration option" where
  "ase_frame_duration_map d = (if d = 0x00 then Some US7500 else if d = 0x01 then Some US10000 else None)"

text \<open>Types of parameters and target latencies, as the schema numbers them.\<close>

definition SUPPORTED_SAMPLING_FREQUENCY :: u8 where "SUPPORTED_SAMPLING_FREQUENCY = 0x01"
definition SUPPORTED_FRAME_DURATION :: u8 where "SUPPORTED_FRAME_DURATION = 0x02"
definition SUPPORTED_AUDIO_CHANNEL_ALLOCATION :: u8 where "SUPPORTED_AUDIO_CHANNEL_ALLOCATION = 0x03"
definition SUPPORTED_OCTETS_PER_CODEC_FRAME :: u8 where "SUPPORTED_OCTETS_PER_CODEC_FRAME = 0x04"
definition SUPPORTED_CODEC_FRAME_BLOCKS_PER_SDU :: u8 where "SUPPORTED_CODEC_FRAME_BLOCKS_PER_SDU = 0x05"

section \<open>Parameters\<close>

fun STREAM_TO_UINT8 :: "u8 list \<Rightarrow> u8 ub" where
  "STREAM_TO_UINT8 (b0 # _) = Some b0"
| "STREAM_TO_UINT8 _ = None"

fun STREAM_TO_UINT16 :: "u8 list \<Rightarrow> u16 ub" where
  "STREAM_TO_UINT16 (b0 # b1 # _) = Some (ucast b0 + push_bit 8 (ucast b1))"
| "STREAM_TO_UINT16 _ = None"

fun STREAM_TO_UINT32 :: "u8 list \<Rightarrow> u32 ub" where
  "STREAM_TO_UINT32 (b0 # b1 # b2 # b3 # _) =
     Some (ucast b0 + push_bit 8 (ucast b1) + push_bit 16 (ucast b2) + push_bit 24 (ucast b3))"
| "STREAM_TO_UINT32 _ = None"

definition LookupCodecSpecificParam :: "flat_param list \<Rightarrow> u8 \<Rightarrow> flat_param option" where
  "LookupCodecSpecificParam ps t = List.find (\<lambda>p. fp_type p = t) ps"

definition read_param :: "(u8 list \<Rightarrow> 'a ub) \<Rightarrow> 'a \<Rightarrow> flat_param list \<Rightarrow> u8 \<Rightarrow> 'a ub" where
  "read_param stream_to initial ps t =
     (case LookupCodecSpecificParam ps t of
        None \<Rightarrow> Some initial
      | Some param \<Rightarrow> do { bytes \<leftarrow> fp_compound_value param; stream_to bytes })"

definition populateAudioChannelAllocation :: "ase_consts \<Rightarrow> u32 \<Rightarrow> u32" where
  "populateAudioChannelAllocation k audio_location =
     foldl (\<lambda>acc (allocation, bits). if audio_location AND allocation \<noteq> 0 then acc OR bits else acc) 0
       (audio_channel_allocation_map k)"

definition populateConfigurationData :: "ase_consts \<Rightarrow> ase_configuration \<Rightarrow> flat_param list \<Rightarrow> ase_configuration ub" where
  "populateConfigurationData k ase ps =
     do {
       sampling_frequency \<leftarrow> read_param STREAM_TO_UINT8 0 ps SUPPORTED_SAMPLING_FREQUENCY;
       frame_duration \<leftarrow> read_param STREAM_TO_UINT8 0 ps SUPPORTED_FRAME_DURATION;
       audio_channel_allocation \<leftarrow> read_param STREAM_TO_UINT32 0 ps SUPPORTED_AUDIO_CHANNEL_ALLOCATION;
       octets_per_codec_frame \<leftarrow> read_param STREAM_TO_UINT16 0 ps SUPPORTED_OCTETS_PER_CODEC_FRAME;
       codec_frames_blocks_per_sdu \<leftarrow> read_param STREAM_TO_UINT8 0 ps SUPPORTED_CODEC_FRAME_BLOCKS_PER_SDU;
       Some (ase\<lparr>ase_codecConfiguration :=
         (case ase_sampling_freq_map sampling_frequency of Some f \<Rightarrow> [Cfg_samplingFrequency f] | None \<Rightarrow> []) @
         (case ase_frame_duration_map frame_duration of Some d \<Rightarrow> [Cfg_frameDuration d] | None \<Rightarrow> []) @
         [Cfg_audioChannelAllocation (sint (populateAudioChannelAllocation k audio_channel_allocation)),
          Cfg_octetsPerCodecFrame (uint octets_per_codec_frame),
          Cfg_codecFrameBlocksPerSDU (uint codec_frames_blocks_per_sdu)]\<rparr>)
     }"

section \<open>Configurations\<close>

definition target_latency_of :: "u8 \<Rightarrow> target_latency" where
  "target_latency_of t =
     (if t = 0x02 then TL_BALANCED_LATENCY_RELIABILITY else if t = 0x03 then TL_HIGHER_RELIABILITY
      else if t = 0x01 then TL_LOWER else TL_UNDEFINED)"

definition populateAseConfiguration ::
  "ase_consts \<Rightarrow> ase_configuration \<Rightarrow> flat_subconfig \<Rightarrow> flat_qos_config option \<Rightarrow> ase_configuration ub" where
  "populateAseConfiguration k ase subconfig qos_cfg =
     do {
       q \<leftarrow> qos_cfg;
       let ase = ase\<lparr>ase_targetLatency := target_latency_of (fq_target_latency q), ase_targetPhy := TWO_M,
         ase_codecId := Some (let i = fs_codec_id subconfig in
           if fi_coding_format i = ak_lc3_format k then ak_lc3 k
           else ak_vendor k (fi_vendor_codec_id i) (fi_vendor_company_id i))\<rparr>;
       populateConfigurationData k ase (fs_codec_configuration subconfig)
     }"

definition populateAseQosConfiguration :: "qos_configuration \<Rightarrow> flat_qos_config option \<Rightarrow> qos_configuration ub" where
  "populateAseQosConfiguration qos qos_cfg =
     do {
       q \<leftarrow> qos_cfg;
       Some (qos\<lparr>qos_maxTransportLatencyMs := uint (fq_max_transport_latency q),
         qos_retransmissionNum := uint (fq_retransmission_number q)\<rparr>)
     }"

fun data_path_of :: "codec_location \<Rightarrow> data_path_configuration \<Rightarrow> data_path_configuration" where
  "data_path_of ADSP path = path\<lparr>dp_isTransparent := True, dp_dataPathId := kIsoDataPathPlatformDefault\<rparr>"
| "data_path_of HOST path = path\<lparr>dp_isTransparent := True, dp_dataPathId := kIsoDataPathHci\<rparr>"
| "data_path_of CONTROLLER path = path\<lparr>dp_isTransparent := False, dp_dataPathId := kIsoDataPathPlatformDefault\<rparr>"

definition SetConfigurationFromFlatSubconfig ::
  "ase_consts \<Rightarrow> flat_subconfig \<Rightarrow> flat_qos_config option \<Rightarrow> codec_location \<Rightarrow> direction_configuration ub" where
  "SetConfigurationFromFlatSubconfig k subconfig qos_cfg location =
     do {
       ase \<leftarrow> populateAseConfiguration k (ak_ase k) subconfig qos_cfg;
       qos \<leftarrow> populateAseQosConfiguration (ak_qos k) qos_cfg;
       Some \<lparr>dir_aseConfiguration = ase, dir_qosConfiguration = Some qos,
             dir_dataPathConfiguration = Some (data_path_of location (ak_path k))\<rparr>
     }"

definition processSubconfig ::
  "ase_consts \<Rightarrow> flat_subconfig \<Rightarrow> flat_qos_config option \<Rightarrow> directions \<Rightarrow> codec_location \<Rightarrow> directions ub" where
  "processSubconfig k subconfig qos_cfg ds location =
     do { d \<leftarrow> SetConfigurationFromFlatSubconfig k subconfig qos_cfg location; Some (ds @ [Some d]) }"

definition qos_keys :: "string list \<Rightarrow> string \<times> string" where
  "qos_keys names =
     (case names of
        [] \<Rightarrow> (''QoS_Config_Balanced_Reliability'', ''QoS_Config_Balanced_Reliability'')
      | [sink] \<Rightarrow> (sink, sink)
      | sink # source # _ \<Rightarrow> (sink, source))"

fun process_subconfigs ::
  "ase_consts \<Rightarrow> flat_qos_config option \<Rightarrow> flat_qos_config option \<Rightarrow> codec_location \<Rightarrow> flat_subconfig list \<Rightarrow>
   directions \<times> directions \<Rightarrow> (directions \<times> directions) ub" where
  "process_subconfigs k qos_sink qos_source location [] ds = Some ds"
| "process_subconfigs k qos_sink qos_source location (subconfig # rest) (source, sink) =
     (if fs_direction subconfig = kLeAudioDirectionSink
      then do {
        sink \<leftarrow> processSubconfig k subconfig qos_sink sink location;
        process_subconfigs k qos_sink qos_source location rest (source, sink)
      }
      else do {
        source \<leftarrow> processSubconfig k subconfig qos_source source location;
        process_subconfigs k qos_sink qos_source location rest (source, sink)
      })"

definition PopulateAseConfigurationFromFlat ::
  "ase_consts \<Rightarrow> flat_config \<Rightarrow> flat_codec_config list \<Rightarrow> flat_qos_config list \<Rightarrow> codec_location \<Rightarrow>
   directions \<times> directions \<Rightarrow> (directions \<times> directions) ub" where
  "PopulateAseConfigurationFromFlat k flat_cfg codec_cfgs qos_cfgs location ds =
     (let (qos_sink_key, qos_source_key) = qos_keys (fl_qos_config_name flat_cfg);
          qos_sink_cfg = List.find (\<lambda>q. fq_name q = qos_sink_key) qos_cfgs;
          qos_source_cfg = List.find (\<lambda>q. fq_name q = qos_source_key) qos_cfgs;
          codec_cfg = List.find (\<lambda>c. fcc_name c = fl_codec_config_name flat_cfg) codec_cfgs
      in case codec_cfg of
           None \<Rightarrow> Some ds
         | Some c \<Rightarrow>
             (case fcc_subconfigurations c of
                None \<Rightarrow> Some ds
              | Some subs \<Rightarrow> process_subconfigs k qos_sink_cfg qos_source_cfg location subs ds))"

section \<open>Loading\<close>

type_synonym configurations = "(string \<times> (directions \<times> directions \<times> nat)) list"

record ase_store =
  as_configurations :: configurations
  as_settings :: "ase_setting list"

fun load_configs ::
  "ase_consts \<Rightarrow> flat_codec_config list \<Rightarrow> flat_qos_config list \<Rightarrow> codec_location \<Rightarrow> flat_config list \<Rightarrow>
   configurations \<Rightarrow> configurations ub" where
  "load_configs k codec_cfgs qos_cfgs location [] m = Some m"
| "load_configs k codec_cfgs qos_cfgs location (flat_cfg # rest) m =
     do {
       (source, sink) \<leftarrow> PopulateAseConfigurationFromFlat k flat_cfg codec_cfgs qos_cfgs location ([], []);
       load_configs k codec_cfgs qos_cfgs location rest
         (if source = [] \<and> sink = [] then m else AList.update (fl_name flat_cfg) (source, sink, ak_flags k) m)
     }"

definition LoadConfigurationsFromFiles ::
  "ase_consts \<Rightarrow> flat_configs option \<Rightarrow> codec_location \<Rightarrow> ase_store \<Rightarrow> (bool \<times> ase_store) ub" where
  "LoadConfigurationsFromFiles k parsed location s =
     (case parsed of
        None \<Rightarrow> Some (False, s)
      | Some root \<Rightarrow>
          (case (fr_qos_configurations root, fr_codec_configurations root, fr_configurations root) of
             (Some qos_cfgs, Some codec_cfgs, Some cfgs) \<Rightarrow>
               if qos_cfgs = [] \<or> codec_cfgs = [] \<or> cfgs = [] then Some (False, s)
               else do {
                 m \<leftarrow> load_configs k codec_cfgs qos_cfgs location cfgs (as_configurations s);
                 Some (True, s\<lparr>as_configurations := m\<rparr>)
               }
           | _ \<Rightarrow> Some (False, s)))"

definition scenario_context :: "ase_consts \<Rightarrow> string \<Rightarrow> u32" where
  "scenario_context k scenario_name =
     (let c = ak_context k in
      if scenario_name = ''Media'' then
        c AX_ALERTS OR c AX_INSTRUCTIONAL OR c AX_NOTIFICATIONS OR c AX_EMERGENCY_ALARM OR c AX_UNSPECIFIED OR c AX_MEDIA
      else if scenario_name = ''Conversational'' then c AX_RINGTONE_ALERTS OR c AX_CONVERSATIONAL
      else if scenario_name = ''Live'' then c AX_LIVE_AUDIO
      else if scenario_name = ''Game'' then c AX_GAME
      else if scenario_name = ''VoiceAssistants'' then c AX_VOICE_ASSISTANTS
      else ak_default_context k)"

fun load_setting :: "ase_consts \<Rightarrow> configurations \<Rightarrow> u32 \<Rightarrow> string \<Rightarrow> ase_setting list \<Rightarrow> ase_setting list" where
  "load_setting k m context config_name settings =
     (case map_of m config_name of
        None \<Rightarrow> settings
      | Some (source, sink, flags) \<Rightarrow>
          settings @ [(ak_setting k)\<lparr>set_audioContext := context, set_sourceAseConfiguration := Some source,
            set_sinkAseConfiguration := Some sink, set_flags := flags\<rparr>])"

text \<open>With debug messages on, a message dereferences the configurations of the scenario before the test for null.\<close>

definition load_scenario :: "ase_consts \<Rightarrow> configurations \<Rightarrow> flat_scenario \<Rightarrow> ase_setting list \<Rightarrow> ase_setting list ub" where
  "load_scenario k m scenario settings =
     (case fsc_configurations scenario of
        None \<Rightarrow> if ak_log_debug k then None else Some settings
      | Some names \<Rightarrow> Some (fold (load_setting k m (scenario_context k (fsc_name scenario))) names settings))"

fun load_scenarios :: "ase_consts \<Rightarrow> configurations \<Rightarrow> flat_scenario list \<Rightarrow> ase_setting list \<Rightarrow> ase_setting list ub" where
  "load_scenarios k m [] settings = Some settings"
| "load_scenarios k m (scenario # scenarios) settings =
     do { settings \<leftarrow> load_scenario k m scenario settings; load_scenarios k m scenarios settings }"

definition LoadScenariosFromFiles :: "ase_consts \<Rightarrow> flat_scenarios option \<Rightarrow> ase_store \<Rightarrow> (bool \<times> ase_store) ub" where
  "LoadScenariosFromFiles k parsed s =
     (case parsed of
        None \<Rightarrow> Some (False, s)
      | Some None \<Rightarrow> Some (False, s)
      | Some (Some scenarios) \<Rightarrow>
          if scenarios = [] then Some (False, s)
          else do {
            settings \<leftarrow> load_scenarios k (as_configurations s) scenarios (as_settings s);
            Some (True, s\<lparr>as_settings := settings\<rparr>)
          })"

fun load_config_files ::
  "ase_consts \<Rightarrow> codec_location \<Rightarrow> flat_configs option list \<Rightarrow> ase_store \<Rightarrow> (bool \<times> ase_store) ub" where
  "load_config_files k location [] s = Some (True, s)"
| "load_config_files k location (f # fs) s =
     do {
       (ok, s) \<leftarrow> LoadConfigurationsFromFiles k f location s;
       if \<not> ok then Some (False, s) else load_config_files k location fs s
     }"

fun load_scenario_files :: "ase_consts \<Rightarrow> flat_scenarios option list \<Rightarrow> ase_store \<Rightarrow> (bool \<times> ase_store) ub" where
  "load_scenario_files k [] s = Some (True, s)"
| "load_scenario_files k (f # fs) s =
     do {
       (ok, s) \<leftarrow> LoadScenariosFromFiles k f s;
       if \<not> ok then Some (False, s) else load_scenario_files k fs s
     }"

definition LoadContent ::
  "ase_consts \<Rightarrow> flat_configs option list \<Rightarrow> flat_scenarios option list \<Rightarrow> codec_location \<Rightarrow> ase_store \<Rightarrow>
   (bool \<times> ase_store) ub" where
  "LoadContent k config_files scenario_files location s =
     do {
       (ok, s) \<leftarrow> load_config_files k location config_files s;
       if \<not> ok then Some (False, s) else load_scenario_files k scenario_files s
     }"

text \<open>There is one pair of files of each kind.\<close>

definition LoadAudioSetConfigurationProviderJson ::
  "ase_consts \<Rightarrow> flat_configs option \<Rightarrow> flat_scenarios option \<Rightarrow> ase_store \<Rightarrow> ase_store ub" where
  "LoadAudioSetConfigurationProviderJson k configs scenarios s =
     (if as_configurations s = [] \<or> as_settings s = [] then do {
        (_, s) \<leftarrow> LoadContent k [configs] [scenarios] HOST \<lparr>as_configurations = [], as_settings = []\<rparr>;
        Some s
      }
      else Some s)"

definition GetLeAudioAseConfigurationSettings ::
  "ase_consts \<Rightarrow> flat_configs option \<Rightarrow> flat_scenarios option \<Rightarrow> ase_store \<Rightarrow> (ase_setting list \<times> ase_store) ub" where
  "GetLeAudioAseConfigurationSettings k configs scenarios s =
     do {
       s \<leftarrow> LoadAudioSetConfigurationProviderJson k configs scenarios s;
       Some (as_settings s, s)
     }"

section \<open>Values of parameters\<close>

lemma STREAM_TO_UINT16_little_endian: "STREAM_TO_UINT16 (ucast v # ucast (drop_bit 8 v) # rest) = Some (v :: u16)"
proof -
  have "(ucast (ucast v :: u8) :: u16) + push_bit 8 (ucast (ucast (drop_bit 8 v) :: u8)) =
      ucast (ucast v :: u8) OR push_bit 8 (ucast (ucast (drop_bit 8 v) :: u8))"
    by (rule disjunctive_add_eq_or, rule bit_word_eqI) (auto simp: bit_simps)
  also have "\<dots> = v" by (rule bit_word_eqI) (auto simp: bit_simps)
  finally show ?thesis by simp
qed

lemma STREAM_TO_UINT32_little_endian:
  "STREAM_TO_UINT32 (ucast v # ucast (drop_bit 8 v) # ucast (drop_bit 16 v) # ucast (drop_bit 24 v) # rest) = Some (v :: u32)"
proof -
  let ?b = "\<lambda>n. push_bit n (ucast (ucast (drop_bit n v) :: u8) :: u32)"
  have "?b 0 + ?b 8 = ?b 0 OR ?b 8"
    by (rule disjunctive_add_eq_or, rule bit_word_eqI) (auto simp: bit_simps)
  moreover have "(?b 0 OR ?b 8) + ?b 16 = ?b 0 OR ?b 8 OR ?b 16"
    by (rule disjunctive_add_eq_or [of "?b 0 OR ?b 8", unfolded or.assoc], rule bit_word_eqI) (auto simp: bit_simps)
  moreover have "(?b 0 OR ?b 8 OR ?b 16) + ?b 24 = ?b 0 OR ?b 8 OR ?b 16 OR ?b 24"
    by (rule disjunctive_add_eq_or [of "?b 0 OR ?b 8 OR ?b 16", unfolded or.assoc], rule bit_word_eqI) (auto simp: bit_simps)
  moreover have "?b 0 OR ?b 8 OR ?b 16 OR ?b 24 = v"
  proof (rule bit_word_eqI)
    fix n assume "n < LENGTH(32)"
    consider "n < 8" | "8 \<le> n" "n < 16" | "16 \<le> n" "n < 24" | "24 \<le> n" by linarith
    then show "bit (?b 0 OR ?b 8 OR ?b 16 OR ?b 24) n = bit v n" using \<open>n < LENGTH(32)\<close> by cases (auto simp: bit_simps)
  qed
  ultimately show ?thesis by simp
qed

lemma foldl_allocation:
  "\<forall>a\<in>set as. \<exists>n. a = 2 ^ n \<or> a = 0 \<Longrightarrow>
   foldl (\<lambda>acc (a, bits). if loc AND a \<noteq> 0 then acc OR bits else acc) acc (map (\<lambda>a. (a, a)) as) =
     acc OR (loc AND foldr (OR) as (0 :: u32))"
proof (induction "as" arbitrary: acc)
  case (Cons a as)
  have "(if loc AND a \<noteq> 0 then a else 0) = loc AND a"
    using Cons.prems by (auto simp: and_exp_eq_0_iff_not_bit intro!: bit_word_eqI) (auto simp: bit_simps)
  then have "(if loc AND a \<noteq> 0 then acc OR a else acc) = acc OR (loc AND a)" by (auto split: if_splits)
  then show ?case using Cons by (simp add: or.assoc bit.conj_disj_distrib)
qed simp

definition kLeAudioLocationKnown :: u32 where "kLeAudioLocationKnown = 0x0FFFFFFF"

lemma populateAudioChannelAllocation_eq:
  assumes "ak_allocation k = kLeAudioLocation"
  shows "populateAudioChannelAllocation k loc = loc AND kLeAudioLocationKnown"
proof -
  have bits: "map kLeAudioLocation le_locations = 0 # map (\<lambda>n. 2 ^ n) [0..<28]"
    by (simp add: le_locations_def upt_rec)
  have "\<forall>a\<in>set (map kLeAudioLocation le_locations). \<exists>n. a = 2 ^ n \<or> a = 0" unfolding bits by auto
  moreover have "audio_channel_allocation_map k = map (\<lambda>a. (a, a)) (map kLeAudioLocation le_locations)"
    by (simp add: audio_channel_allocation_map_def assms)
  moreover have "foldr (OR) (map kLeAudioLocation le_locations) 0 = kLeAudioLocationKnown"
    by (simp add: le_locations_def kLeAudioLocationKnown_def)
  ultimately show ?thesis
    by (simp only: populateAudioChannelAllocation_def foldl_allocation or.left_neutral)
qed

section \<open>What is undefined\<close>

definition param_ok :: "flat_param list \<Rightarrow> u8 \<Rightarrow> nat \<Rightarrow> bool" where
  "param_ok ps t width \<longleftrightarrow>
     (\<forall>p. LookupCodecSpecificParam ps t = Some p \<longrightarrow> (\<exists>bytes. fp_compound_value p = Some bytes \<and> width \<le> length bytes))"

definition params_readable :: "flat_param list \<Rightarrow> bool" where
  "params_readable ps \<longleftrightarrow> param_ok ps SUPPORTED_SAMPLING_FREQUENCY 1 \<and> param_ok ps SUPPORTED_FRAME_DURATION 1 \<and>
     param_ok ps SUPPORTED_AUDIO_CHANNEL_ALLOCATION 4 \<and> param_ok ps SUPPORTED_OCTETS_PER_CODEC_FRAME 2 \<and>
     param_ok ps SUPPORTED_CODEC_FRAME_BLOCKS_PER_SDU 1"

lemma stream_None:
  "STREAM_TO_UINT8 bs = None \<longleftrightarrow> length bs < 1" "STREAM_TO_UINT16 bs = None \<longleftrightarrow> length bs < 2"
  "STREAM_TO_UINT32 bs = None \<longleftrightarrow> length bs < 4"
proof -
  show "STREAM_TO_UINT8 bs = None \<longleftrightarrow> length bs < 1" by (cases bs rule: STREAM_TO_UINT8.cases) simp_all
  show "STREAM_TO_UINT16 bs = None \<longleftrightarrow> length bs < 2" by (cases bs rule: STREAM_TO_UINT16.cases) simp_all
  show "STREAM_TO_UINT32 bs = None \<longleftrightarrow> length bs < 4" by (cases bs rule: STREAM_TO_UINT32.cases) simp_all
qed

lemma read_param_None:
  assumes "\<And>bs. rd bs = None \<longleftrightarrow> length bs < width"
  shows "read_param rd i ps t = None \<longleftrightarrow> \<not> param_ok ps t width"
proof (cases "LookupCodecSpecificParam ps t")
  case (Some p)
  then show ?thesis
    by (cases "fp_compound_value p") (simp_all add: read_param_def param_ok_def assms not_le)
qed (simp add: read_param_def param_ok_def)

lemma populateConfigurationData_None: "populateConfigurationData k ase ps = None \<longleftrightarrow> \<not> params_readable ps"
  using read_param_None [of STREAM_TO_UINT8 1] read_param_None [of STREAM_TO_UINT16 2] read_param_None [of STREAM_TO_UINT32 4]
  by (auto simp: populateConfigurationData_def params_readable_def bind_eq_None_conv stream_None)

lemma SetConfiguration_None:
  "SetConfigurationFromFlatSubconfig k sub q loc = None \<longleftrightarrow> q = None \<or> \<not> params_readable (fs_codec_configuration sub)"
  by (cases q) (auto simp: SetConfigurationFromFlatSubconfig_def populateAseConfiguration_def populateAseQosConfiguration_def
      populateConfigurationData_None Let_def bind_eq_None_conv)

section \<open>What the files say\<close>

definition is_sink :: "flat_subconfig \<Rightarrow> bool" where
  "is_sink sub \<longleftrightarrow> fs_direction sub = kLeAudioDirectionSink"

text \<open>Of codecs and qualities of service the first with the name counts, of configurations the last that has any directions.\<close>

definition file_qos :: "flat_qos_config list \<Rightarrow> flat_config \<Rightarrow> flat_subconfig \<Rightarrow> flat_qos_config option" where
  "file_qos qos_cfgs cfg sub =
     (let (sink_key, source_key) = qos_keys (fl_qos_config_name cfg) in
      List.find (\<lambda>q. fq_name q = (if is_sink sub then sink_key else source_key)) qos_cfgs)"

definition file_subconfigs :: "flat_codec_config list \<Rightarrow> flat_config \<Rightarrow> flat_subconfig list" where
  "file_subconfigs codec_cfgs cfg =
     (case List.find (\<lambda>c. fcc_name c = fl_codec_config_name cfg) codec_cfgs of
        None \<Rightarrow> []
      | Some c \<Rightarrow> (case fcc_subconfigurations c of None \<Rightarrow> [] | Some subs \<Rightarrow> subs))"

definition direction_readable :: "flat_qos_config list \<Rightarrow> flat_config \<Rightarrow> flat_subconfig \<Rightarrow> bool" where
  "direction_readable qos_cfgs cfg sub \<longleftrightarrow> file_qos qos_cfgs cfg sub \<noteq> None \<and> params_readable (fs_codec_configuration sub)"

definition file_direction ::
  "ase_consts \<Rightarrow> flat_qos_config list \<Rightarrow> codec_location \<Rightarrow> flat_config \<Rightarrow> flat_subconfig \<Rightarrow> direction_configuration" where
  "file_direction k qos_cfgs loc cfg sub = the (SetConfigurationFromFlatSubconfig k sub (file_qos qos_cfgs cfg sub) loc)"

definition file_directions ::
  "ase_consts \<Rightarrow> flat_codec_config list \<Rightarrow> flat_qos_config list \<Rightarrow> codec_location \<Rightarrow> flat_config \<Rightarrow> directions \<times> directions" where
  "file_directions k codec_cfgs qos_cfgs loc cfg =
     (let subs = file_subconfigs codec_cfgs cfg; dir = \<lambda>sub. Some (file_direction k qos_cfgs loc cfg sub) in
      (map dir (filter (\<lambda>sub. \<not> is_sink sub) subs), map dir (filter is_sink subs)))"

definition file_entry ::
  "ase_consts \<Rightarrow> flat_codec_config list \<Rightarrow> flat_qos_config list \<Rightarrow> codec_location \<Rightarrow> flat_config list \<Rightarrow> string \<Rightarrow>
   (directions \<times> directions) option" where
  "file_entry k codec_cfgs qos_cfgs loc cfgs n =
     map_option (file_directions k codec_cfgs qos_cfgs loc)
       (List.find (\<lambda>c. fl_name c = n \<and> file_subconfigs codec_cfgs c \<noteq> []) (rev cfgs))"

lemma process_subconfigs_eq:
  assumes "qs = List.find (\<lambda>q. fq_name q = fst (qos_keys (fl_qos_config_name cfg))) qos_cfgs"
    and "qr = List.find (\<lambda>q. fq_name q = snd (qos_keys (fl_qos_config_name cfg))) qos_cfgs"
  shows "process_subconfigs k qs qr loc subs (source, sink) =
    (if list_all (direction_readable qos_cfgs cfg) subs
     then Some (source @ map (\<lambda>sub. Some (file_direction k qos_cfgs loc cfg sub)) (filter (\<lambda>sub. \<not> is_sink sub) subs),
                sink @ map (\<lambda>sub. Some (file_direction k qos_cfgs loc cfg sub)) (filter is_sink subs))
     else None)"
proof (induction subs arbitrary: source sink)
  case (Cons sub subs)
  have q: "file_qos qos_cfgs cfg sub = (if is_sink sub then qs else qr)"
    by (simp add: file_qos_def assms case_prod_beta)
  show ?case
    using SetConfiguration_None [of k sub "file_qos qos_cfgs cfg sub" loc]
    by (cases "SetConfigurationFromFlatSubconfig k sub (file_qos qos_cfgs cfg sub) loc")
       (auto simp: Cons.IH processSubconfig_def q file_direction_def direction_readable_def
         simp flip: is_sink_def split: if_splits)
qed simp

lemma PopulateAseConfigurationFromFlat_eq:
  "PopulateAseConfigurationFromFlat k cfg codec_cfgs qos_cfgs loc ([], []) =
     (if list_all (direction_readable qos_cfgs cfg) (file_subconfigs codec_cfgs cfg)
      then Some (file_directions k codec_cfgs qos_cfgs loc cfg) else None)"
  by (auto simp: PopulateAseConfigurationFromFlat_def case_prod_beta Let_def file_subconfigs_def file_directions_def
      process_subconfigs_eq split: option.split)

lemma find_append: "List.find P (xs @ ys) = (case List.find P xs of None \<Rightarrow> List.find P ys | Some x \<Rightarrow> Some x)"
  by (induction xs) auto

lemma find_SomeD: "List.find P xs = Some x \<Longrightarrow> P x \<and> x \<in> set xs"
  by (induction xs) (auto split: if_splits)

lemma file_directions_empty: "file_directions k codec_cfgs qos_cfgs loc cfg = ([], []) \<longleftrightarrow> file_subconfigs codec_cfgs cfg = []"
  by (auto simp: file_directions_def Let_def filter_empty_conv)

definition configs_readable :: "flat_codec_config list \<Rightarrow> flat_qos_config list \<Rightarrow> flat_config list \<Rightarrow> bool" where
  "configs_readable codec_cfgs qos_cfgs cfgs \<longleftrightarrow>
     (\<forall>cfg\<in>set cfgs. \<forall>sub\<in>set (file_subconfigs codec_cfgs cfg). direction_readable qos_cfgs cfg sub)"

lemma load_configs_None: "load_configs k codec_cfgs qos_cfgs loc cfgs m = None \<longleftrightarrow> \<not> configs_readable codec_cfgs qos_cfgs cfgs"
  by (induction cfgs arbitrary: m)
     (auto simp: configs_readable_def PopulateAseConfigurationFromFlat_eq list_all_iff case_prod_beta)

lemma load_configs_Some:
  "load_configs k codec_cfgs qos_cfgs loc cfgs m = Some m' \<Longrightarrow>
   map_of m' n = (case file_entry k codec_cfgs qos_cfgs loc cfgs n of
      None \<Rightarrow> map_of m n | Some (source, sink) \<Rightarrow> Some (source, sink, ak_flags k))"
proof (induction cfgs arbitrary: m)
  case (Cons cfg cfgs)
  let ?d = "file_directions k codec_cfgs qos_cfgs loc cfg"
  let ?m = "if file_subconfigs codec_cfgs cfg = [] then m else AList.update (fl_name cfg) (fst ?d, snd ?d, ak_flags k) m"
  have "load_configs k codec_cfgs qos_cfgs loc cfgs ?m = Some m'"
    using Cons.prems file_directions_empty [of k codec_cfgs qos_cfgs loc cfg]
    by (cases ?d) (auto simp: PopulateAseConfigurationFromFlat_eq split: if_splits)
  then show ?case
    using Cons.IH [of ?m] by (cases ?d) (auto simp: file_entry_def find_append update_conv' split: option.splits if_splits)
qed (simp add: file_entry_def)

definition setting_of :: "ase_consts \<Rightarrow> u32 \<Rightarrow> directions \<times> directions \<Rightarrow> ase_setting" where
  "setting_of k ctx d = (ak_setting k)\<lparr>set_audioContext := ctx, set_sourceAseConfiguration := Some (fst d),
     set_sinkAseConfiguration := Some (snd d), set_flags := ak_flags k\<rparr>"

definition file_settings ::
  "ase_consts \<Rightarrow> (string \<Rightarrow> (directions \<times> directions) option) \<Rightarrow> flat_scenario list \<Rightarrow> ase_setting list" where
  "file_settings k entry scenarios =
     concat (map (\<lambda>sc. case fsc_configurations sc of
        None \<Rightarrow> []
      | Some names \<Rightarrow> List.map_filter (\<lambda>n. map_option (setting_of k (scenario_context k (fsc_name sc))) (entry n)) names) scenarios)"

lemma fold_load_setting:
  assumes "\<And>n. map_of m n = map_option (\<lambda>(source, sink). (source, sink, ak_flags k)) (entry n)"
  shows "fold (load_setting k m ctx) names settings = settings @ List.map_filter (\<lambda>n. map_option (setting_of k ctx) (entry n)) names"
  by (induction names arbitrary: settings)
     (auto simp: assms setting_of_def map_filter_simps split: option.splits)

definition scenarios_readable :: "ase_consts \<Rightarrow> flat_scenario list \<Rightarrow> bool" where
  "scenarios_readable k scenarios \<longleftrightarrow> ak_log_debug k \<longrightarrow> (\<forall>sc\<in>set scenarios. fsc_configurations sc \<noteq> None)"

lemma scenarios_readable_Nil [simp]: "scenarios_readable k []"
  by (simp add: scenarios_readable_def)

lemma load_scenarios_eq:
  assumes "\<And>n. map_of m n = map_option (\<lambda>(source, sink). (source, sink, ak_flags k)) (entry n)"
  shows "load_scenarios k m scenarios settings =
     (if scenarios_readable k scenarios then Some (settings @ file_settings k entry scenarios) else None)"
  by (induction scenarios arbitrary: settings)
     (auto simp: load_scenario_def file_settings_def scenarios_readable_def fold_load_setting [OF assms] split: option.split)

lemma load_scenarios_None: "load_scenarios k m scenarios settings = None \<longleftrightarrow> \<not> scenarios_readable k scenarios"
  by (induction scenarios arbitrary: settings) (auto simp: load_scenario_def scenarios_readable_def split: option.split)

definition empty_store :: ase_store where
  "empty_store = \<lparr>as_configurations = [], as_settings = []\<rparr>"

text \<open>Files with everything the loader insists on.\<close>

definition complete_root :: "flat_configs \<Rightarrow> flat_codec_config list \<Rightarrow> flat_qos_config list \<Rightarrow> flat_config list \<Rightarrow> bool" where
  "complete_root root codec_cfgs qos_cfgs cfgs \<longleftrightarrow>
     root = \<lparr>fr_qos_configurations = Some qos_cfgs, fr_codec_configurations = Some codec_cfgs, fr_configurations = Some cfgs\<rparr> \<and>
     qos_cfgs \<noteq> [] \<and> codec_cfgs \<noteq> [] \<and> cfgs \<noteq> []"

lemma settings_loaded:
  assumes "complete_root root codec_cfgs qos_cfgs cfgs" "configs_readable codec_cfgs qos_cfgs cfgs" "scenarios \<noteq> []"
    and "as_configurations s = [] \<or> as_settings s = []"
  shows "\<exists>m. GetLeAudioAseConfigurationSettings k (Some root) (Some (Some scenarios)) s =
     (if scenarios_readable k scenarios
      then Some (file_settings k (file_entry k codec_cfgs qos_cfgs HOST cfgs) scenarios,
        \<lparr>as_configurations = m, as_settings = file_settings k (file_entry k codec_cfgs qos_cfgs HOST cfgs) scenarios\<rparr>)
      else None)"
proof -
  let ?e = "file_entry k codec_cfgs qos_cfgs HOST cfgs"
  obtain m where m: "load_configs k codec_cfgs qos_cfgs HOST cfgs [] = Some m"
    using assms(2) load_configs_None [of k codec_cfgs qos_cfgs HOST cfgs "[]"] by auto
  have lookup: "map_of m n = map_option (\<lambda>(source, sink). (source, sink, ak_flags k)) (?e n)" for n
    using load_configs_Some [OF m, of n] by (auto split: option.splits)
  show ?thesis
    using assms(1,3,4) m
    by (auto simp: GetLeAudioAseConfigurationSettings_def LoadAudioSetConfigurationProviderJson_def LoadContent_def
        LoadConfigurationsFromFiles_def LoadScenariosFromFiles_def complete_root_def load_scenarios_eq [OF lookup])
qed

lemma scenario_file_undefined:
  "LoadScenariosFromFiles k parsed s = None \<longleftrightarrow> (\<exists>scenarios. parsed = Some (Some scenarios) \<and> \<not> scenarios_readable k scenarios)"
  by (auto simp: LoadScenariosFromFiles_def load_scenarios_None bind_eq_None_conv split: option.split)

lemma loading_undefined:
  assumes "complete_root root codec_cfgs qos_cfgs cfgs" "as_configurations s = [] \<or> as_settings s = []"
  shows "GetLeAudioAseConfigurationSettings k (Some root) scenarios s = None \<longleftrightarrow>
     \<not> configs_readable codec_cfgs qos_cfgs cfgs \<or> (\<exists>l. scenarios = Some (Some l) \<and> \<not> scenarios_readable k l)"
  using assms load_configs_None [of k codec_cfgs qos_cfgs HOST cfgs "[]"] scenario_file_undefined [of k scenarios]
  by (cases "load_configs k codec_cfgs qos_cfgs HOST cfgs []")
     (auto simp: GetLeAudioAseConfigurationSettings_def LoadAudioSetConfigurationProviderJson_def LoadContent_def
       LoadConfigurationsFromFiles_def complete_root_def case_prod_beta bind_eq_None_conv split: if_splits)

lemma settings_cached:
  "as_configurations s \<noteq> [] \<Longrightarrow> as_settings s \<noteq> [] \<Longrightarrow>
   GetLeAudioAseConfigurationSettings k configs scenarios s = Some (as_settings s, s)"
  by (simp add: GetLeAudioAseConfigurationSettings_def LoadAudioSetConfigurationProviderJson_def)

section \<open>Form of the settings\<close>

fun value_in_range :: "cfg_ltv \<Rightarrow> bool" where
  "value_in_range (Cfg_audioChannelAllocation a) \<longleftrightarrow> 0 \<le> a \<and> a \<le> uint kLeAudioLocationKnown"
| "value_in_range (Cfg_octetsPerCodecFrame n) \<longleftrightarrow> 0 \<le> n \<and> n < 2 ^ 16"
| "value_in_range (Cfg_codecFrameBlocksPerSDU n) \<longleftrightarrow> 0 \<le> n \<and> n < 2 ^ 8"
| "value_in_range _ \<longleftrightarrow> True"

definition direction_wf :: "direction_configuration \<Rightarrow> bool" where
  "direction_wf d \<longleftrightarrow>
     (let ase = dir_aseConfiguration d; tags = map cfg_getTag (ase_codecConfiguration ase) in
      ase_codecId ase \<noteq> None \<and> ase_targetPhy ase = TWO_M \<and> distinct tags \<and>
      {T_audioChannelAllocation, T_octetsPerCodecFrame, T_codecFrameBlocksPerSDU} \<subseteq> set tags \<and>
      list_all value_in_range (ase_codecConfiguration ase) \<and> dir_qosConfiguration d \<noteq> None \<and>
      (\<exists>p. dir_dataPathConfiguration d = Some p \<and> dp_isTransparent p \<and> dp_dataPathId p = kIsoDataPathHci))"

lemma allocation_range:
  assumes "ak_allocation k = kLeAudioLocation"
  shows "value_in_range (Cfg_audioChannelAllocation (sint (populateAudioChannelAllocation k loc)))"
proof -
  let ?a = "loc AND kLeAudioLocationKnown"
  have le: "uint ?a \<le> uint kLeAudioLocationKnown" by (simp only: word_and_le1 flip: word_le_def)
  have "- (2 ^ 31) \<le> uint ?a" by (rule order_trans [OF _ uint_nonnegative]) simp
  moreover have "uint ?a < 2 ^ 31" using le by (simp add: kLeAudioLocationKnown_def)
  ultimately have "signed_take_bit 31 (uint ?a) = uint ?a" by (rule signed_take_bit_int_eq_self)
  then have "sint ?a = uint ?a" by (simp add: sint_uint)
  then show ?thesis using le by (simp add: populateAudioChannelAllocation_eq [OF assms])
qed

lemma populated_wf:
  assumes "ak_allocation k = kLeAudioLocation" "SetConfigurationFromFlatSubconfig k sub q HOST = Some d"
  shows "direction_wf d"
proof -
  obtain qc ase where q: "q = Some qc" and ase: "populateAseConfiguration k (ak_ase k) sub q = Some ase"
    and d: "dir_aseConfiguration d = ase" "dir_qosConfiguration d \<noteq> None"
      "dir_dataPathConfiguration d = Some (data_path_of HOST (ak_path k))"
    using assms(2) by (cases q) (auto simp: SetConfigurationFromFlatSubconfig_def bind_eq_Some_conv populateAseQosConfiguration_def)
  have "ase_codecId ase \<noteq> None" "ase_targetPhy ase = TWO_M" "distinct (map cfg_getTag (ase_codecConfiguration ase))"
    "{T_audioChannelAllocation, T_octetsPerCodecFrame, T_codecFrameBlocksPerSDU} \<subseteq> set (map cfg_getTag (ase_codecConfiguration ase))"
    "list_all value_in_range (ase_codecConfiguration ase)"
    using ase allocation_range [OF assms(1)] uint_bounded [where 'a = 16] uint_bounded [where 'a = 8]
    by (auto simp: q populateAseConfiguration_def populateConfigurationData_def bind_eq_Some_conv Let_def
        simp del: value_in_range.simps(1) split: option.splits)
  then show ?thesis by (auto simp: direction_wf_def Let_def d)
qed

lemma file_settings_directions:
  assumes "st \<in> set (file_settings k (file_entry k codec_cfgs qos_cfgs HOST cfgs) scenarios)"
    "set_sourceAseConfiguration st = Some ds \<or> set_sinkAseConfiguration st = Some ds" "e \<in> set ds"
  shows "\<exists>cfg\<in>set cfgs. \<exists>sub\<in>set (file_subconfigs codec_cfgs cfg). e = Some (file_direction k qos_cfgs HOST cfg sub)"
proof -
  obtain n ctx d where d: "file_entry k codec_cfgs qos_cfgs HOST cfgs n = Some d" and st: "st = setting_of k ctx d"
    using assms(1) by (auto simp: file_settings_def List.map_filter_def split: option.splits)
  obtain cfg where cfg: "d = file_directions k codec_cfgs qos_cfgs HOST cfg" "cfg \<in> set cfgs"
    using d by (auto simp: file_entry_def dest!: find_SomeD)
  then show ?thesis using assms(2,3) st by (auto simp: setting_of_def file_directions_def Let_def intro!: bexI [OF _ cfg(2)])
qed

section \<open>Properties\<close>


text \<open>Loading the files is undefined exactly when one of the directions they define cannot be read, its
  quality of service not being defined, and then dereferenced as a null pointer, or a parameter having no value or one
  that is too short; or when a message dereferences the missing configurations of a scenario.\<close>

lemma ase_settings_undefined_iff:
  assumes "complete_root root codec_cfgs qos_cfgs cfgs" and "as_configurations s = [] \<or> as_settings s = []"
  shows "GetLeAudioAseConfigurationSettings k (Some root) scenarios s = None \<longleftrightarrow>
     (\<exists>cfg\<in>set cfgs. \<exists>sub\<in>set (file_subconfigs codec_cfgs cfg).
        file_qos qos_cfgs cfg sub = None \<or> \<not> params_readable (fs_codec_configuration sub)) \<or>
     (\<exists>l. scenarios = Some (Some l) \<and> ak_log_debug k \<and> (\<exists>sc\<in>set l. fsc_configurations sc = None))"
  using loading_undefined [OF assms] by (auto simp: configs_readable_def direction_readable_def scenarios_readable_def)

text \<open>C37: every direction of every setting that is loaded has a codec, the 2M PHY, a quality of service and the transparent HCI
  data path; its codec configuration has each kind of value at most once, always has an allocation, a frame length and a
  number of blocks, and these are in range.\<close>

theorem ase_settings_well_formed:
  assumes "complete_root root codec_cfgs qos_cfgs cfgs" and "configs_readable codec_cfgs qos_cfgs cfgs" and "scenarios \<noteq> []"
    and "ak_allocation k = kLeAudioLocation"
    and "GetLeAudioAseConfigurationSettings k (Some root) (Some (Some scenarios)) empty_store = Some (settings, s')"
    and "st \<in> set settings" and "set_sourceAseConfiguration st = Some ds \<or> set_sinkAseConfiguration st = Some ds" and "e \<in> set ds"
  shows "\<exists>d. e = Some d \<and> direction_wf d"
proof -
  have settings: "settings = file_settings k (file_entry k codec_cfgs qos_cfgs HOST cfgs) scenarios"
    using settings_loaded [OF assms(1-3), of empty_store k] assms(5) by (auto simp: empty_store_def split: if_splits)
  obtain cfg sub where "cfg \<in> set cfgs" "sub \<in> set (file_subconfigs codec_cfgs cfg)"
    and e: "e = Some (file_direction k qos_cfgs HOST cfg sub)"
    using file_settings_directions [OF assms(6)[unfolded settings] assms(7,8)] by auto
  then have "SetConfigurationFromFlatSubconfig k sub (file_qos qos_cfgs cfg sub) HOST \<noteq> None"
    using assms(2) by (auto simp: configs_readable_def direction_readable_def SetConfiguration_None)
  then show ?thesis using populated_wf [OF assms(4)] by (auto simp: e file_direction_def)
qed

definition example_ase_consts :: ase_consts where
  "example_ase_consts =
     \<lparr>ak_lc3_format = 6, ak_lc3 = CodecId_other 6, ak_vendor = (\<lambda>_ _. CodecId_other 255), ak_allocation = kLeAudioLocation,
      ak_context = (\<lambda>c. if c = AX_GAME then 8 else 1), ak_default_context = 0,
      ak_ase = \<lparr>ase_targetLatency = TL_UNDEFINED, ase_targetPhy = ONE_M, ase_codecId = None, ase_codecConfiguration = [], ase_other = 0\<rparr>,
      ak_qos = \<lparr>qos_retransmissionNum = 0, qos_maxTransportLatencyMs = 0, qos_other = 0\<rparr>,
      ak_path = \<lparr>dp_dataPathId = 7, dp_isTransparent = False, dp_other = 0\<rparr>,
      ak_setting = \<lparr>set_audioContext = 0, set_packing = 0, set_sinkAseConfiguration = None, set_sourceAseConfiguration = None, set_flags = 0\<rparr>,
      ak_flags = 0, ak_log_debug = True\<rparr>"

definition example_sub :: flat_subconfig where
  "example_sub = \<lparr>fs_direction = 1, fs_codec_id = \<lparr>fi_coding_format = 6, fi_vendor_company_id = 0, fi_vendor_codec_id = 0\<rparr>,
     fs_codec_configuration = [\<lparr>fp_type = 1, fp_compound_value = Some [8]\<rparr>, \<lparr>fp_type = 3, fp_compound_value = Some [3, 0, 0, 0]\<rparr>]\<rparr>"

definition example_codec_cfg :: flat_codec_config where
  "example_codec_cfg = \<lparr>fcc_name = ''C'', fcc_subconfigurations = Some [example_sub]\<rparr>"

definition example_qos_cfg :: "string \<Rightarrow> flat_qos_config" where
  "example_qos_cfg n = \<lparr>fq_name = n, fq_target_latency = 1, fq_retransmission_number = 2, fq_max_transport_latency = 20\<rparr>"

definition example_cfg :: flat_config where
  "example_cfg = \<lparr>fl_name = ''A'', fl_codec_config_name = ''C'', fl_qos_config_name = [''Q'']\<rparr>"

definition example_root :: "string \<Rightarrow> flat_configs" where
  "example_root qos = \<lparr>fr_qos_configurations = Some [example_qos_cfg qos], fr_codec_configurations = Some [example_codec_cfg],
     fr_configurations = Some [example_cfg]\<rparr>"

lemma example_root_complete: "complete_root (example_root n) [example_codec_cfg] [example_qos_cfg n] [example_cfg]"
  by (simp add: complete_root_def example_root_def)

lemma example_subconfigs: "file_subconfigs [example_codec_cfg] example_cfg = [example_sub]"
  by (simp add: file_subconfigs_def example_codec_cfg_def example_cfg_def)

lemma example_qos: "file_qos [example_qos_cfg n] example_cfg example_sub = (if n = ''Q'' then Some (example_qos_cfg n) else None)"
  by (auto simp: file_qos_def qos_keys_def example_cfg_def example_qos_cfg_def)

lemma example_readable: "configs_readable [example_codec_cfg] [example_qos_cfg ''Q''] [example_cfg]"
proof -
  have "params_readable (fs_codec_configuration example_sub)"
    by (simp add: params_readable_def param_ok_def LookupCodecSpecificParam_def example_sub_def SUPPORTED_SAMPLING_FREQUENCY_def
        SUPPORTED_FRAME_DURATION_def SUPPORTED_AUDIO_CHANNEL_ALLOCATION_def SUPPORTED_OCTETS_PER_CODEC_FRAME_def
        SUPPORTED_CODEC_FRAME_BLOCKS_PER_SDU_def)
  then show ?thesis by (simp add: configs_readable_def example_subconfigs direction_readable_def example_qos)
qed

definition example_scenario :: flat_scenario where
  "example_scenario = \<lparr>fsc_name = ''Game'', fsc_configurations = Some [''none'', ''A'']\<rparr>"

lemma example_scenarios_readable: "scenarios_readable k [example_scenario]"
  by (simp add: scenarios_readable_def example_scenario_def)

lemma example_settings:
  "file_settings k (file_entry k [example_codec_cfg] [example_qos_cfg ''Q''] HOST [example_cfg]) [example_scenario] =
     [setting_of k (ak_context k AX_GAME) ([], [Some (file_direction k [example_qos_cfg ''Q''] HOST example_cfg example_sub)])]"
proof -
  have "is_sink example_sub" by (simp add: is_sink_def example_sub_def kLeAudioDirectionSink_def)
  moreover have "fl_name example_cfg = ''A''" by (simp add: example_cfg_def)
  ultimately show ?thesis
    by (simp add: file_settings_def file_entry_def example_scenario_def map_filter_simps example_subconfigs file_directions_def
        scenario_context_def Let_def)
qed


lemma ase_settings_undefined_iff_witness:
  "GetLeAudioAseConfigurationSettings example_ase_consts (Some (example_root ''P'')) None empty_store = None"
  using ase_settings_undefined_iff [OF example_root_complete, of empty_store example_ase_consts "''P''" None]
  by (simp add: empty_store_def example_subconfigs example_qos)

theorem ase_settings_well_formed_witness:
  "\<exists>settings s' d. GetLeAudioAseConfigurationSettings example_ase_consts (Some (example_root ''Q'')) (Some (Some [example_scenario])) empty_store
      = Some (settings, s') \<and> set_sinkAseConfiguration (hd settings) = Some [Some d] \<and> direction_wf d"
proof -
  let ?k = example_ase_consts and ?d = "file_direction example_ase_consts [example_qos_cfg ''Q''] HOST example_cfg example_sub"
  obtain s' where s': "GetLeAudioAseConfigurationSettings ?k (Some (example_root ''Q'')) (Some (Some [example_scenario])) empty_store
      = Some ([setting_of ?k (ak_context ?k AX_GAME) ([], [Some ?d])], s')"
    using settings_loaded [OF example_root_complete example_readable, of "[example_scenario]" empty_store ?k]
    by (auto simp: example_settings empty_store_def example_scenarios_readable)
  have "direction_wf ?d"
    using ase_settings_well_formed [OF example_root_complete example_readable _ _ s', of _ "[Some ?d]" "Some ?d"]
    by (simp add: setting_of_def example_ase_consts_def)
  then show ?thesis using s' by (auto simp: setting_of_def)
qed

end
