(* ===== verification/Le_Codecs_Provider.thy ===== *)
theory Le_Codecs_Provider
  imports LeAudio_Offload Audio_Codecs "HOL-Library.List_Lexorder" "HOL-Library.Char_ord"
begin

text \<open>
  \<^verbatim>\<open>bluetooth/audio/utils/aidl_session/BluetoothLeAudioCodecsProvider.cpp\<close>: codec capabilities and codec
  informations for LE audio offload, from the settings file whose schema is
  \<^verbatim>\<open>le_audio_codec_capabilities.xsd\<close>.

  The reader generated from the schema is not part of the sources: the content of the file is an argument. An
  attribute is an option, its getter is undefined when it is absent. The static maps are association
  lists; \<open>insert\<close> of an \<open>unordered_map\<close> keeps an entry that is there.
\<close>

section \<open>The settings file\<close>

datatype setting_codec_type = SC_UNKNOWN | SC_LC3 | SC_APTX_ADAPTIVE_LE | SC_APTX_ADAPTIVE_LEX

datatype setting_audio_location = SA_UNKNOWN | SA_MONO | SA_STEREO

record scenario =
  xn_encode :: "string option"
  xn_decode :: "string option"
  xn_broadcast :: "string option"

record configuration =
  xf_name :: "string option"
  xf_codecConfiguration :: "string option"
  xf_strategyConfiguration :: "string option"

record codec_configuration_element =
  xc_name :: "string option"
  xc_codec :: "setting_codec_type option"
  xc_samplingFrequency :: "int option"
  xc_frameDurationUs :: "int option"
  xc_octetsPerCodecFrame :: "int option"

record strategy_configuration =
  xs_name :: "string option"
  xs_audioLocation :: "setting_audio_location option"
  xs_connectedDevice :: "u8 option"
  xs_channelCount :: "u8 option"

record offload_setting =
  xo_scenarioList :: "scenario list list"
  xo_configurationList :: "configuration list list"
  xo_codecConfigurationList :: "codec_configuration_element list list"
  xo_strategyConfigurationList :: "strategy_configuration list list"

section \<open>Results\<close>

record lc3_capabilities =
  l3k_samplingFrequencyHz :: "int list"
  l3k_frameDurationUs :: "int list"
  l3k_octetsPerFrame :: "int list"

datatype le_codec_capabilities = LK_lc3 lc3_capabilities | LK_aptxAdaptiveLe lc3_capabilities | LK_other nat

record unicast_capability =
  uc_codecType :: codec_type
  uc_supportedChannel :: u8
  uc_deviceCount :: int
  uc_channelCountPerDevice :: int
  uc_leAudioCodecCapabilities :: le_codec_capabilities

record broadcast_capability =
  bcap_codecType :: codec_type
  bcap_supportedChannel :: u8
  bcap_channelCountPerStream :: int
  bcap_leAudioCodecCapabilities :: "lc3_capabilities option list option"

record capabilities_setting =
  ks_unicastEncodeCapability :: unicast_capability
  ks_unicastDecodeCapability :: unicast_capability
  ks_broadcastCapability :: broadcast_capability

text \<open>Default values of the AIDL structures, identifiers of codecs and numbers of the audio locations.\<close>

record codec_defaults =
  cd_unicast :: unicast_capability
  cd_broadcast :: broadcast_capability
  cd_codec_info :: le_codec_info
  cd_lc3 :: codec_id
  cd_vendor :: codec_id
  cd_location_unknown :: u8
  cd_front_left :: u8
  cd_front_right :: u8

record codecs_provider =
  cv_leAudioCodecCapabilities :: "capabilities_setting list"
  cv_isInvalidFileContent :: bool
  cv_supported_scenarios :: "scenario list"
  cv_configuration_map :: "(string \<times> configuration) list"
  cv_codec_configuration_map :: "(string \<times> codec_configuration_element) list"
  cv_strategy_configuration_map :: "(string \<times> strategy_configuration) list"
  cv_session_codecs_map :: "(session_type \<times> le_codec_info list) list"

section \<open>Loading the maps\<close>

definition map_insert :: "'k \<Rightarrow> 'v \<Rightarrow> ('k \<times> 'v) list \<Rightarrow> ('k \<times> 'v) list" where
  "map_insert k v m = (if map_of m k = None then m @ [(k, v)] else m)"

definition GetScenarios :: "offload_setting \<Rightarrow> scenario list" where
  "GetScenarios f =
     (if xo_scenarioList f \<noteq> []
      then concat (map (\<lambda>l. if l = [] then [] else filter (\<lambda>n. xn_encode n \<noteq> None \<and> xn_decode n \<noteq> None) l)
        (xo_scenarioList f))
      else [])"

definition for_elements :: "('e \<Rightarrow> 'm \<Rightarrow> 'm) \<Rightarrow> 'e list list \<Rightarrow> 'm \<Rightarrow> 'm" where
  "for_elements add ls m = (if ls \<noteq> [] then fold (\<lambda>l m. if l = [] then m else fold add l m) ls m else m)"

definition add_configuration :: "configuration \<Rightarrow> (string \<times> configuration) list \<Rightarrow> (string \<times> configuration) list" where
  "add_configuration c m =
     (case xf_name c of
        Some n \<Rightarrow> if xf_codecConfiguration c \<noteq> None \<and> xf_strategyConfiguration c \<noteq> None then map_insert n c m else m
      | None \<Rightarrow> m)"

definition UpdateConfigurationsToMap :: "offload_setting \<Rightarrow> codecs_provider \<Rightarrow> codecs_provider" where
  "UpdateConfigurationsToMap f s =
     s\<lparr>cv_configuration_map := for_elements add_configuration (xo_configurationList f) (cv_configuration_map s)\<rparr>"

definition IsValidCodecConfiguration :: "codec_configuration_element \<Rightarrow> bool" where
  "IsValidCodecConfiguration c \<longleftrightarrow> xc_name c \<noteq> None \<and> xc_codec c \<noteq> None \<and> xc_samplingFrequency c \<noteq> None \<and>
     xc_frameDurationUs c \<noteq> None \<and> xc_octetsPerCodecFrame c \<noteq> None"

definition add_codec_configuration ::
  "codec_configuration_element \<Rightarrow> (string \<times> codec_configuration_element) list \<Rightarrow> (string \<times> codec_configuration_element) list" where
  "add_codec_configuration c m =
     (if IsValidCodecConfiguration c then (case xc_name c of Some n \<Rightarrow> map_insert n c m | None \<Rightarrow> m) else m)"

definition UpdateCodecConfigurationsToMap :: "offload_setting \<Rightarrow> codecs_provider \<Rightarrow> codecs_provider" where
  "UpdateCodecConfigurationsToMap f s =
     s\<lparr>cv_codec_configuration_map :=
       for_elements add_codec_configuration (xo_codecConfigurationList f) (cv_codec_configuration_map s)\<rparr>"

definition IsValidStrategyConfiguration :: "strategy_configuration \<Rightarrow> bool" where
  "IsValidStrategyConfiguration c =
     (if xs_name c = None \<or> xs_audioLocation c = None \<or> xs_connectedDevice c = None \<or> xs_channelCount c = None then False
      else if xs_audioLocation c = Some SA_STEREO then
        (if xs_connectedDevice c = Some 2 \<and> xs_channelCount c = Some 1 \<or>
            xs_connectedDevice c = Some 1 \<and> xs_channelCount c = Some 2 then True
         else if xs_connectedDevice c = Some 0 \<and> xs_channelCount c = Some 2 then True
         else False)
      else if xs_audioLocation c = Some SA_MONO then
        (if xs_connectedDevice c = Some 1 \<and> xs_channelCount c = Some 1 then True else False)
      else False)"

definition add_strategy_configuration ::
  "strategy_configuration \<Rightarrow> (string \<times> strategy_configuration) list \<Rightarrow> (string \<times> strategy_configuration) list" where
  "add_strategy_configuration c m =
     (if IsValidStrategyConfiguration c then (case xs_name c of Some n \<Rightarrow> map_insert n c m | None \<Rightarrow> m) else m)"

definition UpdateStrategyConfigurationsToMap :: "offload_setting \<Rightarrow> codecs_provider \<Rightarrow> codecs_provider" where
  "UpdateStrategyConfigurationsToMap f s =
     s\<lparr>cv_strategy_configuration_map :=
       for_elements add_strategy_configuration (xo_strategyConfigurationList f) (cv_strategy_configuration_map s)\<rparr>"

definition ClearLeAudioCodecCapabilities :: "codecs_provider \<Rightarrow> codecs_provider" where
  "ClearLeAudioCodecCapabilities s =
     s\<lparr>cv_leAudioCodecCapabilities := [], cv_configuration_map := [], cv_codec_configuration_map := [],
       cv_strategy_configuration_map := [], cv_session_codecs_map := [], cv_supported_scenarios := []\<rparr>"

definition LoadConfigurationToMap :: "offload_setting \<Rightarrow> codecs_provider \<Rightarrow> codecs_provider" where
  "LoadConfigurationToMap f s =
     (let s = ClearLeAudioCodecCapabilities s;
          s = s\<lparr>cv_supported_scenarios := GetScenarios f\<rparr>
      in if cv_supported_scenarios s = [] then s
      else let s = UpdateConfigurationsToMap f s in
      if cv_configuration_map s = [] then s
      else let s = UpdateCodecConfigurationsToMap f s in
      if cv_codec_configuration_map s = [] then s
      else UpdateStrategyConfigurationsToMap f s)"

definition ParseFromLeAudioOffloadSettingFile ::
  "offload_setting option \<Rightarrow> codecs_provider \<Rightarrow> offload_setting option" where
  "ParseFromLeAudioOffloadSettingFile file s =
     (if cv_leAudioCodecCapabilities s \<noteq> [] \<or> cv_isInvalidFileContent s then None else file)"

definition maps_loaded :: "codecs_provider \<Rightarrow> bool" where
  "maps_loaded s \<longleftrightarrow> \<not> (cv_supported_scenarios s = [] \<or> cv_configuration_map s = [] \<or> cv_codec_configuration_map s = [] \<or>
     cv_strategy_configuration_map s = [])"

section \<open>Capabilities\<close>

definition kStereoAudio :: "codec_defaults \<Rightarrow> u8" where "kStereoAudio k = cd_front_left k OR cd_front_right k"
definition kMonoAudio :: "codec_defaults \<Rightarrow> u8" where "kMonoAudio k = cd_location_unknown k"

fun GetAudioLocation :: "codec_defaults \<Rightarrow> setting_audio_location \<Rightarrow> u8" where
  "GetAudioLocation k SA_MONO = kMonoAudio k"
| "GetAudioLocation k SA_STEREO = kStereoAudio k"
| "GetAudioLocation k _ = cd_location_unknown k"

fun GetCodecType :: "setting_codec_type \<Rightarrow> codec_type" where
  "GetCodecType SC_LC3 = CT_LC3"
| "GetCodecType SC_APTX_ADAPTIVE_LE = CT_APTX_ADAPTIVE_LE"
| "GetCodecType SC_APTX_ADAPTIVE_LEX = CT_APTX_ADAPTIVE_LEX"
| "GetCodecType _ = CT_UNKNOWN"

definition ComposeLc3Capability :: "codec_configuration_element \<Rightarrow> lc3_capabilities ub" where
  "ComposeLc3Capability c =
     do {
       hz \<leftarrow> xc_samplingFrequency c; us \<leftarrow> xc_frameDurationUs c; octets \<leftarrow> xc_octetsPerCodecFrame c;
       Some \<lparr>l3k_samplingFrequencyHz = [hz], l3k_frameDurationUs = [us], l3k_octetsPerFrame = [octets]\<rparr>
     }"

definition ComposeAptxAdaptiveLeCapability :: "codec_configuration_element \<Rightarrow> lc3_capabilities ub" where
  "ComposeAptxAdaptiveLeCapability c =
     do {
       hz \<leftarrow> xc_samplingFrequency c; us \<leftarrow> xc_frameDurationUs c; octets \<leftarrow> xc_octetsPerCodecFrame c;
       Some \<lparr>l3k_samplingFrequencyHz = [hz], l3k_frameDurationUs = [us], l3k_octetsPerFrame = [octets]\<rparr>
     }"

definition ComposeUnicastCapability ::
  "codec_type \<Rightarrow> u8 \<Rightarrow> u8 \<Rightarrow> u8 \<Rightarrow> le_codec_capabilities \<Rightarrow> unicast_capability" where
  "ComposeUnicastCapability t loc device_cnt channel_count capability =
     \<lparr>uc_codecType = t, uc_supportedChannel = loc, uc_deviceCount = uint device_cnt,
      uc_channelCountPerDevice = uint channel_count, uc_leAudioCodecCapabilities = capability\<rparr>"

definition ComposeBroadcastCapability ::
  "codec_type \<Rightarrow> u8 \<Rightarrow> u8 \<Rightarrow> lc3_capabilities option list \<Rightarrow> broadcast_capability" where
  "ComposeBroadcastCapability t loc channel_count capability =
     \<lparr>bcap_codecType = t, bcap_supportedChannel = loc, bcap_channelCountPerStream = uint channel_count,
      bcap_leAudioCodecCapabilities = Some capability\<rparr>"

definition unknown_unicast :: "codec_defaults \<Rightarrow> unicast_capability" where
  "unknown_unicast k = (cd_unicast k)\<lparr>uc_codecType := CT_UNKNOWN\<rparr>"

definition unknown_broadcast :: "codec_defaults \<Rightarrow> broadcast_capability" where
  "unknown_broadcast k = (cd_broadcast k)\<lparr>bcap_codecType := CT_UNKNOWN\<rparr>"

definition GetUnicastCapability :: "codec_defaults \<Rightarrow> codecs_provider \<Rightarrow> string \<Rightarrow> unicast_capability ub" where
  "GetUnicastCapability k s coding_direction =
     (if coding_direction = ''invalid'' then Some (unknown_unicast k)
      else case map_of (cv_configuration_map s) coding_direction of
        None \<Rightarrow> Some (unknown_unicast k)
      | Some configuration \<Rightarrow> do {
          codec_name \<leftarrow> xf_codecConfiguration configuration;
          case map_of (cv_codec_configuration_map s) codec_name of
            None \<Rightarrow> Some (unknown_unicast k)
          | Some codec \<Rightarrow> do {
              strategy_name \<leftarrow> xf_strategyConfiguration configuration;
              case map_of (cv_strategy_configuration_map s) strategy_name of
                None \<Rightarrow> Some (unknown_unicast k)
              | Some strategy \<Rightarrow> do {
                  c \<leftarrow> xc_codec codec;
                  let t = GetCodecType c;
                  if t = CT_LC3 then do {
                    loc \<leftarrow> xs_audioLocation strategy; dev \<leftarrow> xs_connectedDevice strategy; ch \<leftarrow> xs_channelCount strategy;
                    cap \<leftarrow> ComposeLc3Capability codec;
                    Some (ComposeUnicastCapability t (GetAudioLocation k loc) dev ch (LK_lc3 cap))
                  }
                  else if t = CT_APTX_ADAPTIVE_LE \<or> t = CT_APTX_ADAPTIVE_LEX then do {
                    loc \<leftarrow> xs_audioLocation strategy; dev \<leftarrow> xs_connectedDevice strategy; ch \<leftarrow> xs_channelCount strategy;
                    cap \<leftarrow> ComposeAptxAdaptiveLeCapability codec;
                    Some (ComposeUnicastCapability t (GetAudioLocation k loc) dev ch (LK_aptxAdaptiveLe cap))
                  }
                  else Some (unknown_unicast k)
                }
            }
        })"

definition GetBroadcastCapability :: "codec_defaults \<Rightarrow> codecs_provider \<Rightarrow> string \<Rightarrow> broadcast_capability ub" where
  "GetBroadcastCapability k s coding_direction =
     (if coding_direction = ''invalid'' then Some (unknown_broadcast k)
      else case map_of (cv_configuration_map s) coding_direction of
        None \<Rightarrow> Some (unknown_broadcast k)
      | Some configuration \<Rightarrow> do {
          codec_name \<leftarrow> xf_codecConfiguration configuration;
          case map_of (cv_codec_configuration_map s) codec_name of
            None \<Rightarrow> Some (unknown_broadcast k)
          | Some codec \<Rightarrow> do {
              strategy_name \<leftarrow> xf_strategyConfiguration configuration;
              case map_of (cv_strategy_configuration_map s) strategy_name of
                None \<Rightarrow> Some (unknown_broadcast k)
              | Some strategy \<Rightarrow> do {
                  c \<leftarrow> xc_codec codec;
                  let t = GetCodecType c;
                  cap \<leftarrow> ComposeLc3Capability codec;
                  if t = CT_LC3 then do {
                    loc \<leftarrow> xs_audioLocation strategy; ch \<leftarrow> xs_channelCount strategy;
                    Some (ComposeBroadcastCapability t (GetAudioLocation k loc) ch [Some cap])
                  }
                  else Some (unknown_broadcast k)
                }
            }
        })"

fun ComposeLeAudioCodecCapabilities ::
  "codec_defaults \<Rightarrow> codecs_provider \<Rightarrow> scenario list \<Rightarrow> capabilities_setting list ub" where
  "ComposeLeAudioCodecCapabilities k s [] = Some []"
| "ComposeLeAudioCodecCapabilities k s (scenario # rest) =
     do {
       encode \<leftarrow> xn_encode scenario;
       unicast_encode \<leftarrow> GetUnicastCapability k s encode;
       decode \<leftarrow> xn_decode scenario;
       unicast_decode \<leftarrow> GetUnicastCapability k s decode;
       broadcast \<leftarrow> (case xn_broadcast scenario of
           None \<Rightarrow> Some (unknown_broadcast k)
         | Some b \<Rightarrow> GetBroadcastCapability k s b);
       caps \<leftarrow> ComposeLeAudioCodecCapabilities k s rest;
       if uc_codecType unicast_encode = CT_UNKNOWN \<and> uc_codecType unicast_decode = CT_UNKNOWN \<and>
          bcap_codecType broadcast = CT_UNKNOWN
       then Some caps
       else Some (\<lparr>ks_unicastEncodeCapability = unicast_encode, ks_unicastDecodeCapability = unicast_decode,
         ks_broadcastCapability = broadcast\<rparr> # caps)
     }"

definition GetLeAudioCodecCapabilities ::
  "codec_defaults \<Rightarrow> offload_setting option \<Rightarrow> codecs_provider \<Rightarrow> (capabilities_setting list \<times> codecs_provider) ub" where
  "GetLeAudioCodecCapabilities k setting s =
     (if cv_leAudioCodecCapabilities s \<noteq> [] then Some (cv_leAudioCodecCapabilities s, s)
      else
        let s = s\<lparr>cv_isInvalidFileContent := True\<rparr> in
        case setting of
          None \<Rightarrow> Some ([], s)
        | Some f \<Rightarrow>
            let s = LoadConfigurationToMap f s in
            if \<not> maps_loaded s then Some ([], s)
            else do {
              caps \<leftarrow> ComposeLeAudioCodecCapabilities k s (cv_supported_scenarios s);
              Some (caps, s\<lparr>cv_leAudioCodecCapabilities := caps, cv_isInvalidFileContent := (caps = [])\<rparr>)
            })"

section \<open>Codec informations\<close>

fun channel_mode_of :: "setting_audio_location \<Rightarrow> u8 \<Rightarrow> channel_mode" where
  "channel_mode_of SA_MONO count = (if count = 1 then CM_MONO else CM_DUALMONO)"
| "channel_mode_of SA_STEREO count = CM_STEREO"
| "channel_mode_of _ count = CM_UNKNOWN"

definition codec_info_of :: "codec_defaults \<Rightarrow> codec_configuration_element \<Rightarrow> strategy_configuration \<Rightarrow> le_codec_info \<Rightarrow> le_codec_info ub" where
  "codec_info_of k codec_config strategy_config info =
     do {
       codec \<leftarrow> xc_codec codec_config;
       channel_count \<leftarrow> xs_channelCount strategy_config;
       let info = (case codec of
           SC_LC3 \<Rightarrow> info\<lparr>li_name := ''LC3'', li_id := cd_lc3 k\<rparr>
         | _ \<Rightarrow> info\<lparr>li_name := ''UNDEFINE'', li_id := cd_vendor k\<rparr>);
       hz \<leftarrow> xc_samplingFrequency codec_config;
       octets \<leftarrow> xc_octetsPerCodecFrame codec_config;
       us \<leftarrow> xc_frameDurationUs codec_config;
       loc \<leftarrow> xs_audioLocation strategy_config;
       Some (info\<lparr>li_transport := Some \<lparr>lt_samplingFrequencyHz = [hz], lt_bitdepth = [octets], lt_frameDurationUs = [us],
         lt_channelMode = [channel_mode_of loc channel_count]\<rparr>\<rparr>)
     }"

fun config_codec_infos ::
  "codec_defaults \<Rightarrow> codecs_provider \<Rightarrow> (string \<times> configuration) list \<Rightarrow> (string \<times> le_codec_info) list \<Rightarrow>
   (string \<times> le_codec_info) list ub" where
  "config_codec_infos k s [] m = Some m"
| "config_codec_infos k s ((config_name, configuration) # rest) m =
     (let m = map_insert config_name (cd_codec_info k) m in
      do {
        codec_config_name \<leftarrow> xf_codecConfiguration configuration;
        strategy_config_name \<leftarrow> xf_strategyConfiguration configuration;
        case (map_of (cv_codec_configuration_map s) codec_config_name,
              map_of (cv_strategy_configuration_map s) strategy_config_name) of
          (Some codec_config, Some strategy_config) \<Rightarrow> do {
            old \<leftarrow> map_of m config_name;
            info \<leftarrow> codec_info_of k codec_config strategy_config old;
            config_codec_infos k s rest (AList.update config_name info m)
          }
        | _ \<Rightarrow> config_codec_infos k s rest m
      })"

text \<open>A \<open>std::set\<close> of strings, in its order; \<open>operator[]\<close> makes a default value for a name that is not there.\<close>

definition set_of_names :: "(scenario \<Rightarrow> string option) \<Rightarrow> scenario list \<Rightarrow> string list" where
  "set_of_names get scenarios =
     fold (\<lambda>n xs. case get n of Some x \<Rightarrow> insort_insert x xs | None \<Rightarrow> xs) scenarios []"

definition infos_at :: "codec_defaults \<Rightarrow> (string \<times> le_codec_info) list \<Rightarrow> string list \<Rightarrow> le_codec_info list" where
  "infos_at k m names = map (\<lambda>c. case map_of m c of Some i \<Rightarrow> i | None \<Rightarrow> cd_codec_info k) names"

definition GetLeAudioCodecInfo ::
  "codec_defaults \<Rightarrow> offload_setting option \<Rightarrow> codecs_provider \<Rightarrow>
   ((session_type \<times> le_codec_info list) list \<times> codecs_provider) ub" where
  "GetLeAudioCodecInfo k setting s =
     (if cv_session_codecs_map s \<noteq> [] then Some (cv_session_codecs_map s, s)
      else
        let s = s\<lparr>cv_isInvalidFileContent := True\<rparr> in
        case setting of
          None \<Rightarrow> Some ([], s)
        | Some f \<Rightarrow>
            let s = LoadConfigurationToMap f s in
            if \<not> maps_loaded s then Some ([], s)
            else do {
              m \<leftarrow> config_codec_infos k s (cv_configuration_map s) [];
              let scenarios = cv_supported_scenarios s;
              let codecs =
                [(LE_AUDIO_HARDWARE_OFFLOAD_ENCODING_DATAPATH, infos_at k m (set_of_names xn_encode scenarios)),
                 (LE_AUDIO_HARDWARE_OFFLOAD_DECODING_DATAPATH, infos_at k m (set_of_names xn_decode scenarios)),
                 (LE_AUDIO_BROADCAST_HARDWARE_OFFLOAD_ENCODING_DATAPATH, infos_at k m (set_of_names xn_broadcast scenarios))];
              Some (codecs, s\<lparr>cv_session_codecs_map := codecs, cv_isInvalidFileContent := (codecs = [])\<rparr>)
            })"

section \<open>Tables of named elements\<close>

text \<open>
  The three maps are filled alike: an acceptable element is entered under its name unless the name is
  taken. What the lookups rely on is proved once for any such table.
\<close>

locale named_elements =
  fixes key :: "'e \<Rightarrow> string option"
    and ok :: "'e \<Rightarrow> bool"
    and add :: "'e \<Rightarrow> (string \<times> 'e) list \<Rightarrow> (string \<times> 'e) list"
  assumes add_eq: "add e m = (if ok e then (case key e of Some n \<Rightarrow> map_insert n e m | None \<Rightarrow> m) else m)"
begin

lemma fold_lists: "fold (\<lambda>l m. if l = [] then m else fold add l m) ls m = fold add (concat ls) m"
  by (induction ls arbitrary: m) auto

lemma for_elements_eq: "for_elements add ls m = fold add (concat ls) m"
  by (simp add: for_elements_def fold_lists)

lemma lookup_fold:
  "map_of (fold add es m) n = (case map_of m n of None \<Rightarrow> List.find (\<lambda>e. ok e \<and> key e = Some n) es | Some e \<Rightarrow> Some e)"
  by (induction es arbitrary: m) (auto simp: add_eq map_insert_def map_add_def split: option.splits if_splits)

lemma lookup: "map_of (for_elements add ls []) n = List.find (\<lambda>e. ok e \<and> key e = Some n) (concat ls)"
  by (simp add: for_elements_eq lookup_fold)

lemma entries: "map_of (for_elements add ls []) n = Some e \<Longrightarrow> ok e \<and> key e = Some n"
  by (auto simp: lookup find_Some_iff)

lemma distinct_names: "distinct (map fst m) \<Longrightarrow> distinct (map fst (fold add es m))"
proof (induction es arbitrary: m)
  case (Cons e es)
  then have "distinct (map fst (add e m))"
    by (auto simp: add_eq map_insert_def map_of_eq_None_iff split: option.splits)
  then show ?case using Cons.IH by simp
qed simp

lemma distinct_table: "distinct (map fst (for_elements add ls []))"
  by (simp add: for_elements_eq distinct_names)

lemma nothing_found: "for_elements add ls [] = [] \<Longrightarrow> List.find (\<lambda>e. ok e \<and> key e = Some n) (concat ls) = None"
  using lookup [of ls n] by simp

end

definition configuration_complete :: "configuration \<Rightarrow> bool" where
  "configuration_complete c \<longleftrightarrow> xf_codecConfiguration c \<noteq> None \<and> xf_strategyConfiguration c \<noteq> None"

interpretation configurations: named_elements xf_name configuration_complete add_configuration
  by unfold_locales (auto simp: add_configuration_def configuration_complete_def split: option.splits)

interpretation codec_configurations: named_elements xc_name IsValidCodecConfiguration add_codec_configuration
  by unfold_locales (auto simp: add_codec_configuration_def)

interpretation strategies: named_elements xs_name IsValidStrategyConfiguration add_strategy_configuration
  by unfold_locales (auto simp: add_strategy_configuration_def)

section \<open>What the file says\<close>

definition file_scenarios :: "offload_setting \<Rightarrow> scenario list" where
  "file_scenarios f = filter (\<lambda>n. xn_encode n \<noteq> None \<and> xn_decode n \<noteq> None) (concat (xo_scenarioList f))"

text \<open>A name stands for the first acceptable codec and strategy of the first complete configuration of that name.\<close>

definition file_configuration :: "offload_setting \<Rightarrow> string \<Rightarrow> configuration option" where
  "file_configuration f n = List.find (\<lambda>c. configuration_complete c \<and> xf_name c = Some n) (concat (xo_configurationList f))"

definition file_codec :: "offload_setting \<Rightarrow> string \<Rightarrow> codec_configuration_element option" where
  "file_codec f n = List.find (\<lambda>c. IsValidCodecConfiguration c \<and> xc_name c = Some n) (concat (xo_codecConfigurationList f))"

definition file_strategy :: "offload_setting \<Rightarrow> string \<Rightarrow> strategy_configuration option" where
  "file_strategy f n = List.find (\<lambda>c. IsValidStrategyConfiguration c \<and> xs_name c = Some n) (concat (xo_strategyConfigurationList f))"

definition entry_of :: "offload_setting \<Rightarrow> configuration \<Rightarrow> (codec_configuration_element \<times> strategy_configuration) option" where
  "entry_of f c =
     do {
       codec_name \<leftarrow> xf_codecConfiguration c;
       codec \<leftarrow> file_codec f codec_name;
       strategy_name \<leftarrow> xf_strategyConfiguration c;
       strategy \<leftarrow> file_strategy f strategy_name;
       Some (codec, strategy)
     }"

definition resolve :: "offload_setting \<Rightarrow> string \<Rightarrow> (codec_configuration_element \<times> strategy_configuration) option" where
  "resolve f n = (if n = ''invalid'' then None else Option.bind (file_configuration f n) (entry_of f))"

definition lc3_of :: "codec_configuration_element \<Rightarrow> lc3_capabilities" where
  "lc3_of c = \<lparr>l3k_samplingFrequencyHz = [the (xc_samplingFrequency c)], l3k_frameDurationUs = [the (xc_frameDurationUs c)],
     l3k_octetsPerFrame = [the (xc_octetsPerCodecFrame c)]\<rparr>"

definition unicast_of :: "codec_defaults \<Rightarrow> offload_setting \<Rightarrow> string \<Rightarrow> unicast_capability" where
  "unicast_of k f n =
     (case resolve f n of
        None \<Rightarrow> unknown_unicast k
      | Some (c, st) \<Rightarrow>
          let t = GetCodecType (the (xc_codec c)) in
          if t = CT_UNKNOWN then unknown_unicast k
          else ComposeUnicastCapability t (GetAudioLocation k (the (xs_audioLocation st))) (the (xs_connectedDevice st))
            (the (xs_channelCount st)) (if t = CT_LC3 then LK_lc3 (lc3_of c) else LK_aptxAdaptiveLe (lc3_of c)))"

definition broadcast_of :: "codec_defaults \<Rightarrow> offload_setting \<Rightarrow> string option \<Rightarrow> broadcast_capability" where
  "broadcast_of k f b =
     (case Option.bind b (resolve f) of
        None \<Rightarrow> unknown_broadcast k
      | Some (c, st) \<Rightarrow>
          if xc_codec c \<noteq> Some SC_LC3 then unknown_broadcast k
          else ComposeBroadcastCapability CT_LC3 (GetAudioLocation k (the (xs_audioLocation st))) (the (xs_channelCount st))
            [Some (lc3_of c)])"

definition scenario_capabilities :: "codec_defaults \<Rightarrow> offload_setting \<Rightarrow> scenario \<Rightarrow> capabilities_setting" where
  "scenario_capabilities k f n =
     \<lparr>ks_unicastEncodeCapability = unicast_of k f (the (xn_encode n)),
      ks_unicastDecodeCapability = unicast_of k f (the (xn_decode n)),
      ks_broadcastCapability = broadcast_of k f (xn_broadcast n)\<rparr>"

definition some_known :: "capabilities_setting \<Rightarrow> bool" where
  "some_known c \<longleftrightarrow> uc_codecType (ks_unicastEncodeCapability c) \<noteq> CT_UNKNOWN \<or>
     uc_codecType (ks_unicastDecodeCapability c) \<noteq> CT_UNKNOWN \<or> bcap_codecType (ks_broadcastCapability c) \<noteq> CT_UNKNOWN"

definition file_capabilities :: "codec_defaults \<Rightarrow> offload_setting \<Rightarrow> capabilities_setting list" where
  "file_capabilities k f = filter some_known (map (scenario_capabilities k f) (file_scenarios f))"

section \<open>The maps hold what the file says\<close>

definition maps_of :: "offload_setting \<Rightarrow> codecs_provider \<Rightarrow> bool" where
  "maps_of f s \<longleftrightarrow> cv_supported_scenarios s = file_scenarios f \<and>
     map_of (cv_configuration_map s) = file_configuration f \<and>
     map_of (cv_codec_configuration_map s) = file_codec f \<and>
     map_of (cv_strategy_configuration_map s) = file_strategy f"

lemma concat_filter_nonempty: "concat (map (\<lambda>l. if l = [] then [] else filter P l) ls) = filter P (concat ls)"
  by (induction ls) auto

lemma GetScenarios_eq: "GetScenarios f = file_scenarios f"
  unfolding GetScenarios_def file_scenarios_def concat_filter_nonempty by simp

lemma LoadConfigurationToMap_loaded: "maps_loaded (LoadConfigurationToMap f s) \<Longrightarrow> maps_of f (LoadConfigurationToMap f s)"
  by (auto simp: maps_loaded_def maps_of_def LoadConfigurationToMap_def Let_def ClearLeAudioCodecCapabilities_def
      GetScenarios_eq UpdateConfigurationsToMap_def UpdateCodecConfigurationsToMap_def UpdateStrategyConfigurationsToMap_def
      configurations.lookup codec_configurations.lookup strategies.lookup file_configuration_def file_codec_def file_strategy_def
      fun_eq_iff split: if_splits)

lemma resolve_incomplete:
  assumes "\<not> maps_loaded (LoadConfigurationToMap f s)" "file_scenarios f \<noteq> []"
  shows "resolve f n = None"
proof -
  have "file_configuration f = Map.empty \<or> file_codec f = Map.empty \<or> file_strategy f = Map.empty"
    using assms configurations.nothing_found codec_configurations.nothing_found strategies.nothing_found
    by (auto simp: maps_loaded_def LoadConfigurationToMap_def Let_def ClearLeAudioCodecCapabilities_def GetScenarios_eq
        UpdateConfigurationsToMap_def UpdateCodecConfigurationsToMap_def UpdateStrategyConfigurationsToMap_def
        file_configuration_def file_codec_def file_strategy_def fun_eq_iff split: if_splits)
  then show ?thesis
    by (auto simp: resolve_def entry_of_def bind_eq_None_conv)
qed

lemma LoadConfigurationToMap_keeps:
  "cv_leAudioCodecCapabilities (LoadConfigurationToMap f s) = []" "cv_session_codecs_map (LoadConfigurationToMap f s) = []"
  "cv_isInvalidFileContent (LoadConfigurationToMap f s) = cv_isInvalidFileContent s"
  by (simp_all add: LoadConfigurationToMap_def Let_def ClearLeAudioCodecCapabilities_def UpdateConfigurationsToMap_def
      UpdateCodecConfigurationsToMap_def UpdateStrategyConfigurationsToMap_def)

section \<open>Capabilities are those of the file\<close>

lemma file_codecD: "file_codec f n = Some c \<Longrightarrow> IsValidCodecConfiguration c"
  by (auto simp: file_codec_def find_Some_iff)

lemma file_strategyD: "file_strategy f n = Some c \<Longrightarrow> IsValidStrategyConfiguration c"
  by (auto simp: file_strategy_def find_Some_iff)

lemma file_configurationD: "file_configuration f n = Some c \<Longrightarrow> configuration_complete c"
  by (auto simp: file_configuration_def find_Some_iff)

lemma valid_strategy_iff:
  "IsValidStrategyConfiguration c \<longleftrightarrow> xs_name c \<noteq> None \<and>
     (xs_audioLocation c, xs_connectedDevice c, xs_channelCount c) \<in>
       {(Some SA_STEREO, Some 2, Some 1), (Some SA_STEREO, Some 1, Some 2), (Some SA_STEREO, Some 0, Some 2), (Some SA_MONO, Some 1, Some 1)}"
  by (auto simp: IsValidStrategyConfiguration_def split: if_splits)

lemma entryE:
  assumes "entry_of f cfg = Some (c, st)"
  obtains t hz us octets loc dev ch where "xc_codec c = Some t" "xc_samplingFrequency c = Some hz" "xc_frameDurationUs c = Some us"
    "xc_octetsPerCodecFrame c = Some octets" "xs_audioLocation st = Some loc" "xs_connectedDevice st = Some dev"
    "xs_channelCount st = Some ch" "IsValidStrategyConfiguration st"
proof -
  have "IsValidCodecConfiguration c" "IsValidStrategyConfiguration st"
    using assms by (auto simp: entry_of_def bind_eq_Some_conv dest: file_codecD file_strategyD)
  then show ?thesis
    using that by (auto simp: IsValidCodecConfiguration_def valid_strategy_iff)
qed

lemma resolve_entry: "resolve f n = Some p \<Longrightarrow> \<exists>cfg. entry_of f cfg = Some p"
  by (auto simp: resolve_def bind_eq_Some_conv split: if_splits)

lemmas resolveE = entryE [OF someI_ex [OF resolve_entry]]

lemma GetCodecType_cases: "GetCodecType t \<in> {CT_LC3, CT_APTX_ADAPTIVE_LE, CT_APTX_ADAPTIVE_LEX, CT_UNKNOWN}"
  by (cases t) auto

lemma lookup_cases:
  assumes "maps_of f s"
  shows "GetUnicastCapability k s n =
      (case resolve f n of
         None \<Rightarrow> Some (unknown_unicast k)
       | Some (codec, strategy) \<Rightarrow> do {
           c \<leftarrow> xc_codec codec;
           let t = GetCodecType c;
           if t = CT_LC3 then do {
             loc \<leftarrow> xs_audioLocation strategy; dev \<leftarrow> xs_connectedDevice strategy; ch \<leftarrow> xs_channelCount strategy;
             cap \<leftarrow> ComposeLc3Capability codec;
             Some (ComposeUnicastCapability t (GetAudioLocation k loc) dev ch (LK_lc3 cap))
           }
           else if t = CT_APTX_ADAPTIVE_LE \<or> t = CT_APTX_ADAPTIVE_LEX then do {
             loc \<leftarrow> xs_audioLocation strategy; dev \<leftarrow> xs_connectedDevice strategy; ch \<leftarrow> xs_channelCount strategy;
             cap \<leftarrow> ComposeAptxAdaptiveLeCapability codec;
             Some (ComposeUnicastCapability t (GetAudioLocation k loc) dev ch (LK_aptxAdaptiveLe cap))
           }
           else Some (unknown_unicast k)
         })"
    and "GetBroadcastCapability k s n =
      (case resolve f n of
         None \<Rightarrow> Some (unknown_broadcast k)
       | Some (codec, strategy) \<Rightarrow> do {
           c \<leftarrow> xc_codec codec;
           let t = GetCodecType c;
           cap \<leftarrow> ComposeLc3Capability codec;
           if t = CT_LC3 then do {
             loc \<leftarrow> xs_audioLocation strategy; ch \<leftarrow> xs_channelCount strategy;
             Some (ComposeBroadcastCapability t (GetAudioLocation k loc) ch [Some cap])
           }
           else Some (unknown_broadcast k)
         })"
  using assms file_configurationD [of f n]
  by (auto simp: maps_of_def GetUnicastCapability_def GetBroadcastCapability_def resolve_def entry_of_def configuration_complete_def
      split: option.split)

lemma GetUnicastCapability_eq:
  assumes "maps_of f s"
  shows "GetUnicastCapability k s n = Some (unicast_of k f n)"
proof (cases "resolve f n")
  case (Some p)
  obtain c st where p: "p = (c, st)" by (cases p)
  obtain t hz us octets loc dev ch where attrs: "xc_codec c = Some t" "xc_samplingFrequency c = Some hz"
    "xc_frameDurationUs c = Some us" "xc_octetsPerCodecFrame c = Some octets" "xs_audioLocation st = Some loc"
    "xs_connectedDevice st = Some dev" "xs_channelCount st = Some ch"
    using Some unfolding p by (rule resolveE)
  show ?thesis
    unfolding lookup_cases(1) [OF assms] unicast_of_def Some p using GetCodecType_cases [of t]
    by (auto simp: attrs Let_def ComposeLc3Capability_def ComposeAptxAdaptiveLeCapability_def lc3_of_def)
qed (simp add: lookup_cases(1) [OF assms] unicast_of_def)

lemma GetBroadcastCapability_eq:
  assumes "maps_of f s"
  shows "(case b of None \<Rightarrow> Some (unknown_broadcast k) | Some n \<Rightarrow> GetBroadcastCapability k s n) = Some (broadcast_of k f b)"
proof (cases "Option.bind b (resolve f)")
  case (Some p)
  obtain c st where p: "p = (c, st)" by (cases p)
  obtain n where n: "b = Some n" "resolve f n = Some (c, st)" using Some by (auto simp: p bind_eq_Some_conv)
  obtain t hz us octets loc dev ch where attrs: "xc_codec c = Some t" "xc_samplingFrequency c = Some hz"
    "xc_frameDurationUs c = Some us" "xc_octetsPerCodecFrame c = Some octets" "xs_audioLocation st = Some loc"
    "xs_connectedDevice st = Some dev" "xs_channelCount st = Some ch"
    using n(2) by (rule resolveE)
  have "GetCodecType t = CT_LC3 \<longleftrightarrow> t = SC_LC3" by (cases t) auto
  then show ?thesis
    by (auto simp: lookup_cases(2) [OF assms] broadcast_of_def n attrs Let_def ComposeLc3Capability_def lc3_of_def)
qed (auto simp: lookup_cases(2) [OF assms] broadcast_of_def bind_eq_None_conv split: option.split)

lemma Compose_eq:
  assumes "maps_of f s" "\<forall>n\<in>set ns. xn_encode n \<noteq> None \<and> xn_decode n \<noteq> None"
  shows "ComposeLeAudioCodecCapabilities k s ns = Some (filter some_known (map (scenario_capabilities k f) ns))"
  using assms(2)
  by (induction ns)
     (auto simp: GetUnicastCapability_eq [OF assms(1)] GetBroadcastCapability_eq [OF assms(1)] scenario_capabilities_def some_known_def)

lemma file_scenarios_complete: "\<forall>n\<in>set (file_scenarios f). xn_encode n \<noteq> None \<and> xn_decode n \<noteq> None"
  by (simp add: file_scenarios_def)

lemma file_capabilities_incomplete:
  assumes "\<not> maps_loaded (LoadConfigurationToMap f s)"
  shows "file_capabilities k f = []"
proof (cases "file_scenarios f = []")
  case False
  then have "\<And>n. resolve f n = None" using resolve_incomplete [OF assms] by blast
  then show ?thesis
    by (simp add: file_capabilities_def some_known_def scenario_capabilities_def unicast_of_def broadcast_of_def
        unknown_unicast_def unknown_broadcast_def filter_empty_conv split: bind_splits)
qed (simp add: file_capabilities_def)

section \<open>Codec informations are those of the file\<close>

definition file_codec_info :: "codec_defaults \<Rightarrow> codec_configuration_element \<Rightarrow> strategy_configuration \<Rightarrow> le_codec_info" where
  "file_codec_info k c st =
     \<lparr>li_name = (if xc_codec c = Some SC_LC3 then ''LC3'' else ''UNDEFINE''),
      li_id = (if xc_codec c = Some SC_LC3 then cd_lc3 k else cd_vendor k),
      li_transport = Some \<lparr>lt_samplingFrequencyHz = [the (xc_samplingFrequency c)], lt_bitdepth = [the (xc_octetsPerCodecFrame c)],
        lt_frameDurationUs = [the (xc_frameDurationUs c)],
        lt_channelMode = [if xs_audioLocation st = Some SA_MONO then CM_MONO else CM_STEREO]\<rparr>\<rparr>"

definition info_of_configuration :: "codec_defaults \<Rightarrow> offload_setting \<Rightarrow> configuration \<Rightarrow> le_codec_info" where
  "info_of_configuration k f cfg =
     (case entry_of f cfg of None \<Rightarrow> cd_codec_info k | Some (c, st) \<Rightarrow> file_codec_info k c st)"

definition info_of_name :: "codec_defaults \<Rightarrow> offload_setting \<Rightarrow> string \<Rightarrow> le_codec_info" where
  "info_of_name k f n =
     (case file_configuration f n of None \<Rightarrow> cd_codec_info k | Some cfg \<Rightarrow> info_of_configuration k f cfg)"

lemma codec_info_of_entry:
  assumes "entry_of f cfg = Some (c, st)"
  shows "codec_info_of k c st info = Some (file_codec_info k c st)"
proof -
  obtain t hz us octets loc dev ch where attrs: "xc_codec c = Some t" "xc_samplingFrequency c = Some hz"
    "xc_frameDurationUs c = Some us" "xc_octetsPerCodecFrame c = Some octets" "xs_audioLocation st = Some loc"
    "xs_connectedDevice st = Some dev" "xs_channelCount st = Some ch" and v: "IsValidStrategyConfiguration st"
    using assms by (rule entryE)
  have "channel_mode_of loc ch = (if loc = SA_MONO then CM_MONO else CM_STEREO)"
    using v attrs by (auto simp: valid_strategy_iff)
  then show ?thesis
    by (cases t) (auto simp: codec_info_of_def file_codec_info_def attrs Let_def)
qed

lemma config_codec_infos_eq:
  assumes "map_of (cv_codec_configuration_map s) = file_codec f" "map_of (cv_strategy_configuration_map s) = file_strategy f"
  shows "\<lbrakk>distinct (map fst cfgs); \<forall>(n, c)\<in>set cfgs. configuration_complete c; \<forall>n\<in>fst ` set cfgs. map_of m n = None\<rbrakk> \<Longrightarrow>
     \<exists>m'. config_codec_infos k s cfgs m = Some m' \<and>
       map_of m' = (\<lambda>n. case map_of cfgs n of None \<Rightarrow> map_of m n | Some cfg \<Rightarrow> Some (info_of_configuration k f cfg))"
proof (induction cfgs arbitrary: m)
  case (Cons p cfgs)
  obtain n cfg where p: "p = (n, cfg)" by (cases p)
  obtain cn sn where names: "xf_codecConfiguration cfg = Some cn" "xf_strategyConfiguration cfg = Some sn"
    using Cons.prems(2) by (auto simp: p configuration_complete_def)
  have new: "map_of m n = None" using Cons.prems(3) by (simp add: p)
  let ?m1 = "map_insert n (cd_codec_info k) m" and ?i = "info_of_configuration k f cfg"
  have m1: "map_of ?m1 = (map_of m)(n \<mapsto> cd_codec_info k)"
    using new by (auto simp: map_insert_def fun_eq_iff map_add_def split: option.splits)
  have e: "entry_of f cfg = (case (file_codec f cn, file_strategy f sn) of (Some c, Some st) \<Rightarrow> Some (c, st) | _ \<Rightarrow> None)"
    by (auto simp: entry_of_def names split: option.split)
  define m2 where "m2 = (if entry_of f cfg = None then ?m1 else AList.update n ?i ?m1)"
  have step: "config_codec_infos k s (p # cfgs) m = config_codec_infos k s cfgs m2"
    using codec_info_of_entry [of f cfg, of _ _ k "cd_codec_info k"]
    by (auto simp: p names assms e m2_def m1 info_of_configuration_def split: option.splits)
  have m2: "map_of m2 = (map_of m)(n \<mapsto> ?i)"
    by (auto simp: m2_def m1 update_conv info_of_configuration_def split: option.split)
  have "\<forall>n\<in>fst ` set cfgs. map_of m2 n = None"
    using Cons.prems(1,3) by (auto simp: m2 p image_iff)
  then obtain m' where m': "config_codec_infos k s cfgs m2 = Some m'"
    "map_of m' = (\<lambda>n. case map_of cfgs n of None \<Rightarrow> map_of m2 n | Some cfg \<Rightarrow> Some (info_of_configuration k f cfg))"
    using Cons.IH [of m2] Cons.prems(1,2) by auto
  have "map_of cfgs n = None" using Cons.prems(1) by (auto simp: p map_of_eq_None_iff)
  then show ?case
    unfolding step m'(1) using m'(2) by (auto simp: p m2 fun_eq_iff split: option.split)
qed simp

lemma set_of_names_eq: "set_of_names get ns = sorted_list_of_set {x. \<exists>n\<in>set ns. get n = Some x}"
proof -
  have "fold (\<lambda>n xs. case get n of Some x \<Rightarrow> insort_insert x xs | None \<Rightarrow> xs) ns (sorted_list_of_set A) =
      sorted_list_of_set (A \<union> {x. \<exists>n\<in>set ns. get n = Some x})" if "finite A" for A
    using that
  proof (induction ns arbitrary: A)
    case (Cons n ns)
    have "(case get n of Some x \<Rightarrow> insort_insert x (sorted_list_of_set A) | None \<Rightarrow> sorted_list_of_set A) =
        sorted_list_of_set (A \<union> {x. get n = Some x})"
      using Cons.prems by (auto simp: insort_insert_key_def insert_absorb split: option.split
          simp del: sorted_list_of_set.sorted_key_list_of_set_insert_remove)
    moreover have "finite (A \<union> {x. get n = Some x})" using Cons.prems by (cases "get n") auto
    ultimately show ?case using Cons.IH by (simp add: Un_assoc) (rule arg_cong [of _ _ sorted_list_of_set], auto)
  qed simp
  from this [of "{}"] show ?thesis by (simp add: set_of_names_def)
qed

lemma maps_loaded_invalid:
  "maps_loaded (LoadConfigurationToMap f (s\<lparr>cv_isInvalidFileContent := b\<rparr>)) = maps_loaded (LoadConfigurationToMap f s)"
  by (simp add: maps_loaded_def LoadConfigurationToMap_def Let_def ClearLeAudioCodecCapabilities_def
      UpdateConfigurationsToMap_def UpdateCodecConfigurationsToMap_def UpdateStrategyConfigurationsToMap_def)

lemma loaded_configurations:
  assumes "maps_loaded (LoadConfigurationToMap f s)"
  shows "distinct (map fst (cv_configuration_map (LoadConfigurationToMap f s)))"
    "\<forall>(n, c)\<in>set (cv_configuration_map (LoadConfigurationToMap f s)). configuration_complete c"
proof -
  have *: "cv_configuration_map (LoadConfigurationToMap f s) = for_elements add_configuration (xo_configurationList f) []"
    using assms by (auto simp: maps_loaded_def LoadConfigurationToMap_def Let_def ClearLeAudioCodecCapabilities_def
        UpdateConfigurationsToMap_def UpdateCodecConfigurationsToMap_def UpdateStrategyConfigurationsToMap_def split: if_splits)
  show d: "distinct (map fst (cv_configuration_map (LoadConfigurationToMap f s)))"
    unfolding * by (rule configurations.distinct_table)
  show "\<forall>(n, c)\<in>set (cv_configuration_map (LoadConfigurationToMap f s)). configuration_complete c"
    using d configurations.entries unfolding * by (auto dest!: map_of_is_SomeI)
qed

lemma capabilities_loaded:
  assumes "cv_leAudioCodecCapabilities s = []"
  shows "\<exists>s'. GetLeAudioCodecCapabilities k (Some f) s = Some (file_capabilities k f, s') \<and>
     cv_leAudioCodecCapabilities s' = file_capabilities k f \<and> cv_isInvalidFileContent s' = (file_capabilities k f = [])"
proof -
  let ?s = "LoadConfigurationToMap f (s\<lparr>cv_isInvalidFileContent := True\<rparr>)"
  show ?thesis
  proof (cases "maps_loaded ?s")
    case True
    then have m: "maps_of f ?s" by (rule LoadConfigurationToMap_loaded)
    then have "ComposeLeAudioCodecCapabilities k ?s (cv_supported_scenarios ?s) = Some (file_capabilities k f)"
      using Compose_eq [OF m file_scenarios_complete] by (simp add: maps_of_def file_capabilities_def)
    then show ?thesis using assms True by (simp add: GetLeAudioCodecCapabilities_def Let_def)
  next
    case False
    then show ?thesis
      using assms file_capabilities_incomplete [OF False, of k]
      by (simp add: GetLeAudioCodecCapabilities_def Let_def LoadConfigurationToMap_keeps)
  qed
qed

lemma GetLeAudioCodecCapabilities_defined: "\<exists>caps s'. GetLeAudioCodecCapabilities k setting s = Some (caps, s')"
proof (cases "cv_leAudioCodecCapabilities s = [] \<and> setting \<noteq> None")
  case True
  then show ?thesis using capabilities_loaded [of s k "the setting"] by auto
qed (auto simp: GetLeAudioCodecCapabilities_def Let_def)

section \<open>Properties\<close>

text \<open>C26: loading the capabilities always finds the attributes it reads, and yields exactly what the
  file says: one setting for each scenario with an encoding and a decoding direction, with a capability for
  every direction whose name resolves to a known codec and an acceptable strategy, the first definition of a
  name counting; scenarios without any capability are left out, and the file counts as invalid when none is left.\<close>

theorem GetLeAudioCodecCapabilities_exact:
  assumes "cv_leAudioCodecCapabilities s = []"
  shows "\<exists>s'. GetLeAudioCodecCapabilities k (Some f) s = Some (file_capabilities k f, s') \<and>
     cv_leAudioCodecCapabilities s' = file_capabilities k f \<and> cv_isInvalidFileContent s' = (file_capabilities k f = [])"
  using capabilities_loaded [OF assms] .

definition initial_provider :: codecs_provider where
  "initial_provider = \<lparr>cv_leAudioCodecCapabilities = [], cv_isInvalidFileContent = False, cv_supported_scenarios = [],
     cv_configuration_map = [], cv_codec_configuration_map = [], cv_strategy_configuration_map = [], cv_session_codecs_map = []\<rparr>"

definition example_codec_defaults :: codec_defaults where
  "example_codec_defaults =
     \<lparr>cd_unicast = \<lparr>uc_codecType = CT_UNKNOWN, uc_supportedChannel = 0, uc_deviceCount = 0, uc_channelCountPerDevice = 0,
        uc_leAudioCodecCapabilities = LK_other 0\<rparr>,
      cd_broadcast = \<lparr>bcap_codecType = CT_UNKNOWN, bcap_supportedChannel = 0, bcap_channelCountPerStream = 0,
        bcap_leAudioCodecCapabilities = None\<rparr>,
      cd_codec_info = \<lparr>li_name = [], li_id = CodecId_other 0, li_transport = None\<rparr>,
      cd_lc3 = CodecId_other 6, cd_vendor = CodecId_other 255, cd_location_unknown = 1, cd_front_left = 2, cd_front_right = 4\<rparr>"

definition example_setting :: offload_setting where
  "example_setting =
     \<lparr>xo_scenarioList = [[\<lparr>xn_encode = Some ''LC3_16k_1'', xn_decode = Some ''invalid'', xn_broadcast = None\<rparr>,
        \<lparr>xn_encode = Some ''invalid'', xn_decode = Some ''invalid'', xn_broadcast = Some ''none''\<rparr>]],
      xo_configurationList = [[\<lparr>xf_name = Some ''LC3_16k_1'', xf_codecConfiguration = Some ''C'', xf_strategyConfiguration = Some ''S''\<rparr>]],
      xo_codecConfigurationList = [[\<lparr>xc_name = Some ''C'', xc_codec = Some SC_LC3, xc_samplingFrequency = Some 16000,
        xc_frameDurationUs = Some 7500, xc_octetsPerCodecFrame = Some 30\<rparr>]],
      xo_strategyConfigurationList = [[\<lparr>xs_name = Some ''S'', xs_audioLocation = Some SA_STEREO, xs_connectedDevice = Some 2,
        xs_channelCount = Some 1\<rparr>]]\<rparr>"

lemma example_resolved:
  "resolve example_setting ''LC3_16k_1'' = Some (hd (hd (xo_codecConfigurationList example_setting)),
     hd (hd (xo_strategyConfigurationList example_setting)))" (is "_ = Some (?c, ?st)")
  "resolve example_setting ''invalid'' = None" "resolve example_setting ''none'' = None"
proof -
  have "file_configuration example_setting ''LC3_16k_1'' = Some (hd (hd (xo_configurationList example_setting)))"
    by (simp add: file_configuration_def configuration_complete_def example_setting_def)
  moreover have "file_codec example_setting ''C'' = Some ?c"
    by (simp add: file_codec_def IsValidCodecConfiguration_def example_setting_def)
  moreover have "file_strategy example_setting ''S'' = Some ?st"
    by (simp add: file_strategy_def valid_strategy_iff example_setting_def)
  moreover have "xf_codecConfiguration (hd (hd (xo_configurationList example_setting))) = Some ''C''"
    "xf_strategyConfiguration (hd (hd (xo_configurationList example_setting))) = Some ''S''"
    by (simp_all add: example_setting_def)
  ultimately show "resolve example_setting ''LC3_16k_1'' = Some (?c, ?st)"
    by (simp add: resolve_def entry_of_def)
  show "resolve example_setting ''none'' = None"
    by (simp add: resolve_def file_configuration_def example_setting_def)
qed (simp add: resolve_def)

lemma example_scenarios:
  "file_scenarios example_setting = [\<lparr>xn_encode = Some ''LC3_16k_1'', xn_decode = Some ''invalid'', xn_broadcast = None\<rparr>,
     \<lparr>xn_encode = Some ''invalid'', xn_decode = Some ''invalid'', xn_broadcast = Some ''none''\<rparr>]"
  by (simp add: file_scenarios_def example_setting_def)

lemma example_codec:
  "xc_codec (hd (hd (xo_codecConfigurationList example_setting))) = Some SC_LC3"
  "xs_audioLocation (hd (hd (xo_strategyConfigurationList example_setting))) = Some SA_STEREO"
  by (simp_all add: example_setting_def)

lemma example_capabilities:
  "map (\<lambda>c. (uc_codecType (ks_unicastEncodeCapability c), uc_supportedChannel (ks_unicastEncodeCapability c),
      uc_codecType (ks_unicastDecodeCapability c))) (file_capabilities example_codec_defaults example_setting) = [(CT_LC3, 6, CT_UNKNOWN)]"
  by (simp add: file_capabilities_def example_scenarios some_known_def scenario_capabilities_def unicast_of_def broadcast_of_def
      example_resolved example_codec Let_def ComposeUnicastCapability_def unknown_unicast_def unknown_broadcast_def kStereoAudio_def
      example_codec_defaults_def)

theorem GetLeAudioCodecCapabilities_exact_witness:
  "\<exists>caps s'. GetLeAudioCodecCapabilities example_codec_defaults (Some example_setting) initial_provider = Some (caps, s') \<and>
     map (\<lambda>c. (uc_codecType (ks_unicastEncodeCapability c), uc_supportedChannel (ks_unicastEncodeCapability c),
       uc_codecType (ks_unicastDecodeCapability c))) caps = [(CT_LC3, 6, CT_UNKNOWN)]"
  using GetLeAudioCodecCapabilities_exact [of initial_provider example_codec_defaults example_setting] example_capabilities
  by (auto simp: initial_provider_def)

text \<open>Loading the codec informations always finds the attributes it reads and yields, for each of the three session types,
  the names that the scenarios use in that direction in lexicographic order, each once: the information is that of the
  codec and strategy its name resolves to, and a default value when it does not resolve.\<close>

lemma GetLeAudioCodecInfo_exact:
  assumes "cv_session_codecs_map s = []" and "maps_loaded (LoadConfigurationToMap f s)"
  shows "\<exists>codecs s'. GetLeAudioCodecInfo k (Some f) s = Some (codecs, s') \<and> cv_session_codecs_map s' = codecs \<and>
     (\<forall>(st, get) \<in> {(LE_AUDIO_HARDWARE_OFFLOAD_ENCODING_DATAPATH, xn_encode), (LE_AUDIO_HARDWARE_OFFLOAD_DECODING_DATAPATH, xn_decode),
         (LE_AUDIO_BROADCAST_HARDWARE_OFFLOAD_ENCODING_DATAPATH, xn_broadcast)}.
       map_of codecs st = Some (map (info_of_name k f) (sorted_list_of_set {x. \<exists>n\<in>set (file_scenarios f). get n = Some x})))"
proof -
  let ?s = "LoadConfigurationToMap f (s\<lparr>cv_isInvalidFileContent := True\<rparr>)"
  have l: "maps_loaded ?s" using assms(2) by (simp add: maps_loaded_invalid)
  then have m: "maps_of f ?s" by (rule LoadConfigurationToMap_loaded)
  obtain m' where m': "config_codec_infos k ?s (cv_configuration_map ?s) [] = Some m'"
    "map_of m' = (\<lambda>n. case map_of (cv_configuration_map ?s) n of None \<Rightarrow> map_of [] n | Some cfg \<Rightarrow> Some (info_of_configuration k f cfg))"
    using config_codec_infos_eq [of ?s f "cv_configuration_map ?s" "[]" k] m loaded_configurations [OF l] by (auto simp: maps_of_def)
  have "infos_at k m' names = map (info_of_name k f) names" for names
    using m m'(2) by (auto simp: infos_at_def info_of_name_def maps_of_def split: option.split)
  then show ?thesis
    using assms(1) l m'(1) m by (auto simp: GetLeAudioCodecInfo_def Let_def set_of_names_eq maps_of_def)
qed

lemma example_loaded: "maps_loaded (LoadConfigurationToMap example_setting initial_provider)"
proof -
  have "for_elements add_configuration (xo_configurationList example_setting) [] \<noteq> []"
    by (simp add: for_elements_def add_configuration_def map_insert_def example_setting_def)
  moreover have "for_elements add_codec_configuration (xo_codecConfigurationList example_setting) [] \<noteq> []"
    by (simp add: for_elements_def add_codec_configuration_def IsValidCodecConfiguration_def map_insert_def example_setting_def)
  moreover have "for_elements add_strategy_configuration (xo_strategyConfigurationList example_setting) [] \<noteq> []"
    by (simp add: for_elements_def add_strategy_configuration_def valid_strategy_iff map_insert_def example_setting_def)
  ultimately show ?thesis
    by (simp add: maps_loaded_def LoadConfigurationToMap_def Let_def ClearLeAudioCodecCapabilities_def GetScenarios_eq example_scenarios
        UpdateConfigurationsToMap_def UpdateCodecConfigurationsToMap_def UpdateStrategyConfigurationsToMap_def initial_provider_def)
qed

lemma GetLeAudioCodecInfo_exact_witness:
  "\<exists>codecs s'. GetLeAudioCodecInfo example_codec_defaults (Some example_setting) initial_provider = Some (codecs, s') \<and>
     map_of codecs LE_AUDIO_HARDWARE_OFFLOAD_DECODING_DATAPATH = Some [cd_codec_info example_codec_defaults]"
proof -
  have "file_configuration example_setting ''invalid'' = None"
    by (simp add: file_configuration_def configuration_complete_def example_setting_def)
  then show ?thesis
    using GetLeAudioCodecInfo_exact [OF _ example_loaded, of example_codec_defaults]
    by (auto simp: initial_provider_def example_scenarios info_of_name_def)
qed

text \<open>Every capability offered for a direction belongs to an arrangement of devices and channels the code means to support.\<close>

definition arrangement_ok :: "codec_defaults \<Rightarrow> unicast_capability \<Rightarrow> bool" where
  "arrangement_ok k c \<longleftrightarrow> (uc_supportedChannel c, uc_deviceCount c, uc_channelCountPerDevice c) \<in>
     {(kStereoAudio k, 2, 1), (kStereoAudio k, 1, 2), (kStereoAudio k, 0, 2), (kMonoAudio k, 1, 1)}"

lemma unicast_arrangement: "uc_codecType (unicast_of k f n) \<noteq> CT_UNKNOWN \<Longrightarrow> arrangement_ok k (unicast_of k f n)"
  by (auto simp: unicast_of_def unknown_unicast_def Let_def ComposeUnicastCapability_def arrangement_ok_def valid_strategy_iff
      elim!: resolveE split: option.splits if_splits)

section \<open>The two loaders share their maps\<close>

text \<open>The states of the provider: both loaders are called with what \<open>ParseFromLeAudioOffloadSettingFile\<close> gives for the file at that time.\<close>

inductive codecs_reachable :: "codec_defaults \<Rightarrow> codecs_provider \<Rightarrow> bool" for k where
  start: "codecs_reachable k initial_provider"
| capabilities: "codecs_reachable k s \<Longrightarrow>
    GetLeAudioCodecCapabilities k (ParseFromLeAudioOffloadSettingFile file s) s = Some (caps, s') \<Longrightarrow> codecs_reachable k s'"
| infos: "codecs_reachable k s \<Longrightarrow>
    GetLeAudioCodecInfo k (ParseFromLeAudioOffloadSettingFile file s) s = Some (codecs, s') \<Longrightarrow> codecs_reachable k s'"
| clear: "codecs_reachable k s \<Longrightarrow> codecs_reachable k (ClearLeAudioCodecCapabilities s)"

lemma capabilities_or_infos: "codecs_reachable k s \<Longrightarrow> cv_leAudioCodecCapabilities s = [] \<or> cv_session_codecs_map s = []"
  by (induction rule: codecs_reachable.induct)
     (auto simp: initial_provider_def GetLeAudioCodecCapabilities_def GetLeAudioCodecInfo_def ClearLeAudioCodecCapabilities_def
       Let_def LoadConfigurationToMap_keeps bind_eq_Some_conv split: if_splits option.splits)

text \<open>The capabilities and the codec informations are never loaded together: loading one clears the other, and once
  the capabilities are there the file is not read again. From then on the codec informations are empty, whatever
  the file says, until the provider is cleared, and the file counts as invalid after they have been asked for.\<close>

lemma capabilities_hide_codec_info:
  assumes "codecs_reachable k s" and "cv_leAudioCodecCapabilities s \<noteq> []"
  shows "GetLeAudioCodecInfo k (ParseFromLeAudioOffloadSettingFile file s) s = Some ([], s\<lparr>cv_isInvalidFileContent := True\<rparr>) \<and>
     cv_session_codecs_map s = []"
  using assms capabilities_or_infos [OF assms(1)]
  by (simp add: GetLeAudioCodecInfo_def ParseFromLeAudioOffloadSettingFile_def Let_def)

lemma capabilities_hide_codec_info_witness:
  "\<exists>caps s. GetLeAudioCodecCapabilities example_codec_defaults (Some example_setting) initial_provider = Some (caps, s) \<and> caps \<noteq> [] \<and>
     GetLeAudioCodecInfo example_codec_defaults (ParseFromLeAudioOffloadSettingFile (Some example_setting) s) s =
       Some ([], s\<lparr>cv_isInvalidFileContent := True\<rparr>)"
proof -
  let ?k = example_codec_defaults
  obtain caps s where s: "GetLeAudioCodecCapabilities ?k (Some example_setting) initial_provider = Some (caps, s)"
    using GetLeAudioCodecCapabilities_defined [of ?k "Some example_setting" initial_provider] by auto
  have c: "caps \<noteq> []" "cv_leAudioCodecCapabilities s = caps"
    using s capabilities_loaded [of initial_provider ?k example_setting] example_capabilities by (auto simp: initial_provider_def)
  have "codecs_reachable ?k s"
    using codecs_reachable.capabilities [OF codecs_reachable.start, of ?k "Some example_setting" caps s] s
    by (simp add: ParseFromLeAudioOffloadSettingFile_def initial_provider_def)
  then show ?thesis using s c capabilities_hide_codec_info [of ?k s "Some example_setting"] by blast
qed

end
