(* ===== verification/Sparse_Image.thy ===== *)
theory Sparse_Image
  imports BT_Prelude
begin

text \<open>
  \<^verbatim>\<open>cmds/simg2img_simple.cpp\<close>: the converter from Android sparse images, on standard input, to plain images, on
  standard output.

  The kernel is an argument: for the i-th system call it decides whether the call fails and how much it
  transfers at most. A call of \<open>read\<close> or \<open>splice\<close> that does not fail transfers at least one byte unless the input is
  at its end, and never more than was asked for. Structures are read as the little-endian machine lays
  them out. A \<open>size_t\<close> has 64 bits.
\<close>

section \<open>Formats\<close>

record sparse_header =
  sh_magic :: u32
  sh_major_version :: u16
  sh_minor_version :: u16
  sh_file_hdr_sz :: u16
  sh_chunk_hdr_sz :: u16
  sh_blk_sz :: u32
  sh_total_blks :: u32
  sh_total_chunks :: u32
  sh_image_checksum :: u32

record chunk_header =
  ch_chunk_type :: u16
  ch_reserved1 :: u16
  ch_chunk_sz :: u32
  ch_total_sz :: u32

definition SPARSE_HEADER_MAGIC :: u32 where "SPARSE_HEADER_MAGIC = 0xed26ff3a"
definition CHUNK_TYPE_RAW :: u16 where "CHUNK_TYPE_RAW = 0xCAC1"
definition CHUNK_TYPE_FILL :: u16 where "CHUNK_TYPE_FILL = 0xCAC2"
definition CHUNK_TYPE_DONT_CARE :: u16 where "CHUNK_TYPE_DONT_CARE = 0xCAC3"
definition CHUNK_TYPE_CRC32 :: u16 where "CHUNK_TYPE_CRC32 = 0xCAC4"

fun le_nat :: "u8 list \<Rightarrow> nat" where
  "le_nat [] = 0"
| "le_nat (b # bs) = unat b + 256 * le_nat bs"

definition field :: "nat \<Rightarrow> nat \<Rightarrow> u8 list \<Rightarrow> 'a::len word" where
  "field offset width bytes = of_nat (le_nat (take width (drop offset bytes)))"

definition header_of :: "u8 list \<Rightarrow> sparse_header" where
  "header_of bytes = \<lparr>sh_magic = field 0 4 bytes, sh_major_version = field 4 2 bytes, sh_minor_version = field 6 2 bytes,
     sh_file_hdr_sz = field 8 2 bytes, sh_chunk_hdr_sz = field 10 2 bytes, sh_blk_sz = field 12 4 bytes,
     sh_total_blks = field 16 4 bytes, sh_total_chunks = field 20 4 bytes, sh_image_checksum = field 24 4 bytes\<rparr>"

definition chunk_of :: "u8 list \<Rightarrow> chunk_header" where
  "chunk_of bytes = \<lparr>ch_chunk_type = field 0 2 bytes, ch_reserved1 = field 2 2 bytes, ch_chunk_sz = field 4 4 bytes,
     ch_total_sz = field 8 4 bytes\<rparr>"

definition sizeof_sparse_header :: nat where "sizeof_sparse_header = 28"
definition sizeof_chunk_header :: nat where "sizeof_chunk_header = 12"

section \<open>System calls\<close>

record kernel =
  kn_splice :: "nat \<Rightarrow> nat option"
  kn_read :: "nat \<Rightarrow> nat option"
  kn_write :: "nat \<Rightarrow> nat option"

record process =
  pr_in :: "u8 list"
  pr_out :: "u8 list"
  pr_calls :: nat
  pr_disable_splice :: bool

text \<open>A result of \<^const>\<open>None\<close> is the return value -1.\<close>

definition sys_read :: "kernel \<Rightarrow> nat \<Rightarrow> process \<Rightarrow> u8 list option \<times> process" where
  "sys_read K count p =
     (let q = p\<lparr>pr_calls := Suc (pr_calls p)\<rparr> in
      case kn_read K (pr_calls p) of
        None \<Rightarrow> (None, q)
      | Some n \<Rightarrow> let m = min (max 1 n) count in (Some (take m (pr_in p)), q\<lparr>pr_in := drop m (pr_in p)\<rparr>))"

definition sys_write :: "kernel \<Rightarrow> u8 list \<Rightarrow> process \<Rightarrow> nat option \<times> process" where
  "sys_write K bytes p =
     (let q = p\<lparr>pr_calls := Suc (pr_calls p)\<rparr> in
      case kn_write K (pr_calls p) of
        None \<Rightarrow> (None, q)
      | Some n \<Rightarrow> (Some (min n (length bytes)), q\<lparr>pr_out := pr_out p @ take n bytes\<rparr>))"

definition sys_splice :: "kernel \<Rightarrow> nat \<Rightarrow> process \<Rightarrow> nat option \<times> process" where
  "sys_splice K count p =
     (let q = p\<lparr>pr_calls := Suc (pr_calls p)\<rparr> in
      case kn_splice K (pr_calls p) of
        None \<Rightarrow> (None, q)
      | Some n \<Rightarrow>
          let m = min (max 1 n) count; bytes = take m (pr_in p) in
          (Some (length bytes), q\<lparr>pr_in := drop m (pr_in p), pr_out := pr_out p @ bytes\<rparr>))"

text \<open>How a part of the program ends: it goes on, or it exits with a status.\<close>

datatype 'a run = Go 'a process | Exit nat process

section \<open>Copying\<close>

text \<open>One iteration of the loop: the number of bytes copied. After a failed
  \<open>read\<close> the program asks \<open>write\<close> for \<open>(size_t) -1\<close> bytes, which the kernel refuses with -1 as well.\<close>

definition nsendfile_step :: "kernel \<Rightarrow> nat \<Rightarrow> process \<Rightarrow> nat run" where
  "nsendfile_step K count p =
     (let (res, p) = (if \<not> pr_disable_splice p then sys_splice K count p else (None, p));
          p = (if count > 16 * 1024 \<and> (case res of None \<Rightarrow> True | Some r \<Rightarrow> r < 1024)
               then p\<lparr>pr_disable_splice := True\<rparr> else p)
      in case res of
           Some r \<Rightarrow> if r = 0 then Exit 112 p else Go r p
         | None \<Rightarrow>
             let sizeToRead = (if count < 1024 * 1024 then count else 1024 * 1024);
                 (bytes, p) = sys_read K sizeToRead p
             in case bytes of
                  None \<Rightarrow> Exit 112 (p\<lparr>pr_calls := Suc (pr_calls p)\<rparr>)
                | Some bytes \<Rightarrow>
                    let (written, p) = sys_write K bytes p in
                    if written \<noteq> Some (length bytes) then Exit 114 p
                    else if length bytes = 0 then Exit 112 p
                    else Go (length bytes) p)"

lemma sys_splice_le: "sys_splice K count p = (Some r, q) \<Longrightarrow> r \<le> count"
  by (auto simp: sys_splice_def Let_def split: option.splits)

lemma sys_read_le: "sys_read K count p = (Some bytes, q) \<Longrightarrow> length bytes \<le> count"
  by (auto simp: sys_read_def Let_def split: option.splits)

lemma nsendfile_step_progress: "nsendfile_step K count p = Go r q \<Longrightarrow> 0 < r \<and> r \<le> count"
  by (auto simp: nsendfile_step_def Let_def dest: sys_splice_le sys_read_le split: if_splits option.splits prod.splits)

function nsendfile :: "kernel \<Rightarrow> nat \<Rightarrow> process \<Rightarrow> unit run" where
  "nsendfile K count p =
     (if count = 0 then Go () p
      else case nsendfile_step K count p of
        Exit e q \<Rightarrow> Exit e q
      | Go r q \<Rightarrow> nsendfile K (count - r) q)"
  by pat_completeness auto
termination
  by (relation "measure (\<lambda>(_, count, _). count)") (auto dest: nsendfile_step_progress)

declare nsendfile.simps [simp del]

section \<open>Chunks\<close>

fun write_blocks :: "kernel \<Rightarrow> nat \<Rightarrow> u8 list \<Rightarrow> nat \<Rightarrow> process \<Rightarrow> unit run" where
  "write_blocks K err block 0 p = Go () p"
| "write_blocks K err block (Suc n) p =
     (let (written, p) = sys_write K block p in
      if written \<noteq> Some (length block) then Exit err p else write_blocks K err block n p)"

text \<open>The product of the block size and the number of blocks is computed in 32 bits.\<close>

definition process_chunk :: "kernel \<Rightarrow> sparse_header \<Rightarrow> chunk_header \<Rightarrow> process \<Rightarrow> unit run" where
  "process_chunk K hdr chunk p =
     (let size = ch_chunk_sz chunk * sh_blk_sz hdr; block = replicate (unat (sh_blk_sz hdr)) 0 in
      if ch_chunk_type chunk = CHUNK_TYPE_RAW then
        (if unat (ch_total_sz chunk) \<noteq> sizeof_chunk_header + unat size then Exit 7 p
         else nsendfile K (unat size) p)
      else if ch_chunk_type chunk = CHUNK_TYPE_FILL then
        (if unat (ch_total_sz chunk) \<noteq> 4 + sizeof_chunk_header then Exit 7 p
         else let (bytes, p) = sys_read K 4 p in
         case bytes of
           None \<Rightarrow> Exit 5 p
         | Some bytes \<Rightarrow>
             if length bytes \<noteq> 4 then Exit 5 p
             else if (field 0 4 bytes :: u32) \<noteq> 0 then Exit 6 p
             else write_blocks K 8 block (unat (ch_chunk_sz chunk)) p)
      else if ch_chunk_type chunk = CHUNK_TYPE_DONT_CARE then
        (if unat (ch_total_sz chunk) \<noteq> sizeof_chunk_header then Exit 9 p
         else write_blocks K 10 block (unat (ch_chunk_sz chunk)) p)
      else if ch_chunk_type chunk = CHUNK_TYPE_CRC32 then
        (if unat (ch_total_sz chunk) \<noteq> 4 + sizeof_chunk_header then Exit 7 p
         else let (bytes, p) = sys_read K 4 p in
         case bytes of
           None \<Rightarrow> Exit 5 p
         | Some bytes \<Rightarrow> if length bytes \<noteq> 4 then Exit 5 p else Go () p)
      else Exit 4 p)"

fun process_chunks :: "kernel \<Rightarrow> sparse_header \<Rightarrow> nat \<Rightarrow> process \<Rightarrow> unit run" where
  "process_chunks K hdr 0 p = Go () p"
| "process_chunks K hdr (Suc n) p =
     (let (bytes, p) = sys_read K sizeof_chunk_header p in
      case bytes of
        None \<Rightarrow> Exit 3 p
      | Some bytes \<Rightarrow>
          if length bytes \<noteq> sizeof_chunk_header then Exit 3 p
          else case process_chunk K hdr (chunk_of bytes) p of
            Exit e p \<Rightarrow> Exit e p
          | Go _ p \<Rightarrow> process_chunks K hdr n p)"

definition simg2img_main :: "kernel \<Rightarrow> process \<Rightarrow> nat \<times> process" where
  "simg2img_main K p =
     (let (bytes, p) = sys_read K sizeof_sparse_header p in
      case bytes of
        None \<Rightarrow> (1, p)
      | Some bytes \<Rightarrow>
          if length bytes \<noteq> sizeof_sparse_header then (1, p)
          else let hdr = header_of bytes in
          if sh_magic hdr \<noteq> SPARSE_HEADER_MAGIC then (2, p)
          else if sh_blk_sz hdr \<noteq> 4096 then (6, p)
          else if sh_major_version hdr \<noteq> 1 then (11, p)
          else if sh_minor_version hdr \<noteq> 0 then (12, p)
          else if sh_file_hdr_sz hdr \<noteq> 28 then (13, p)
          else if sh_chunk_hdr_sz hdr \<noteq> 12 then (14, p)
          else case process_chunks K hdr (unat (sh_total_chunks hdr)) p of Exit e p \<Rightarrow> (e, p) | Go _ p \<Rightarrow> (0, p))"

section \<open>Images\<close>

text \<open>
  What a sparse image stands for, as the comments beside the structures describe the format: chunks, their
  encodings and the plain image, over any block size that is a multiple of four and any minor version. A chunk of raw data holds
  \<open>chunk_sz * blk_sz\<close> bytes, the true product; a fill chunk repeats any four bytes; \<open>total_sz\<close> is the length of the chunk with its header.
  The number of blocks and the checksums of an image are not constrained: the converter does not look at them.
\<close>

datatype image_chunk = Raw "u8 list" | Fill "u8 list" nat | Dont_care nat | Checksum "u8 list"

fun expand :: "nat \<Rightarrow> image_chunk \<Rightarrow> u8 list" where
  "expand blk (Raw data) = data"
| "expand blk (Fill pattern n) = concat (replicate (n * (blk div 4)) pattern)"
| "expand blk (Dont_care n) = replicate (n * blk) 0"
| "expand blk (Checksum _) = []"

fun chunk_ok :: "nat \<Rightarrow> image_chunk \<Rightarrow> chunk_header \<Rightarrow> u8 list \<Rightarrow> bool" where
  "chunk_ok blk (Raw data) h payload \<longleftrightarrow> ch_chunk_type h = CHUNK_TYPE_RAW \<and> payload = data \<and>
     length data = unat (ch_chunk_sz h) * blk"
| "chunk_ok blk (Fill pattern n) h payload \<longleftrightarrow> ch_chunk_type h = CHUNK_TYPE_FILL \<and> payload = pattern \<and> length pattern = 4 \<and>
     unat (ch_chunk_sz h) = n"
| "chunk_ok blk (Dont_care n) h payload \<longleftrightarrow> ch_chunk_type h = CHUNK_TYPE_DONT_CARE \<and> payload = [] \<and> unat (ch_chunk_sz h) = n"
| "chunk_ok blk (Checksum crc) h payload \<longleftrightarrow> ch_chunk_type h = CHUNK_TYPE_CRC32 \<and> payload = crc \<and> length crc = 4"

definition total_ok :: "u8 list \<Rightarrow> bool" where
  "total_ok bytes \<longleftrightarrow> 12 \<le> length bytes \<and> unat (ch_total_sz (chunk_of (take 12 bytes))) = length bytes"

definition encodes :: "nat \<Rightarrow> image_chunk \<Rightarrow> u8 list \<Rightarrow> bool" where
  "encodes blk c bytes \<longleftrightarrow> total_ok bytes \<and> chunk_ok blk c (chunk_of (take 12 bytes)) (drop 12 bytes)"

definition header_ok :: "sparse_header \<Rightarrow> bool" where
  "header_ok h \<longleftrightarrow> sh_magic h = SPARSE_HEADER_MAGIC \<and> sh_major_version h = 1 \<and>
     sh_file_hdr_sz h = 28 \<and> sh_chunk_hdr_sz h = 12 \<and> 4 dvd unat (sh_blk_sz h)"

definition chunk_file :: "(nat \<Rightarrow> image_chunk \<Rightarrow> u8 list \<Rightarrow> bool) \<Rightarrow> u8 list \<Rightarrow> sparse_header \<Rightarrow> image_chunk list \<Rightarrow> u8 list \<Rightarrow> bool" where
  "chunk_file enc bytes h chunks rest \<longleftrightarrow>
     (\<exists>hdr encs. length hdr = 28 \<and> header_of hdr = h \<and> header_ok h \<and> unat (sh_total_chunks h) = length chunks \<and>
        list_all2 (enc (unat (sh_blk_sz h))) chunks encs \<and> bytes = hdr @ concat encs @ rest)"

definition sparse_image :: "u8 list \<Rightarrow> sparse_header \<Rightarrow> image_chunk list \<Rightarrow> u8 list \<Rightarrow> bool" where
  "sparse_image = chunk_file encodes"

text \<open>
  The part of the format that the converter handles, and the one kind of chunk it takes for raw data although it is not: a claim of
  four gigabytes or more, of which only the size modulo \<open>2 ^ 32\<close> is there.
\<close>

fun supported_chunk :: "image_chunk \<Rightarrow> bool" where
  "supported_chunk (Fill pattern n) \<longleftrightarrow> pattern = [0, 0, 0, 0]"
| "supported_chunk _ \<longleftrightarrow> True"

definition supported :: "sparse_header \<Rightarrow> image_chunk list \<Rightarrow> bool" where
  "supported h chunks \<longleftrightarrow> sh_minor_version h = 0 \<and> sh_blk_sz h = 4096 \<and> list_all supported_chunk chunks"

definition oversized_raw :: "nat \<Rightarrow> image_chunk \<Rightarrow> u8 list \<Rightarrow> bool" where
  "oversized_raw blk c bytes \<longleftrightarrow> (let h = chunk_of (take 12 bytes) in
     total_ok bytes \<and> ch_chunk_type h = CHUNK_TYPE_RAW \<and> c = Raw (drop 12 bytes) \<and>
     2 ^ 32 \<le> unat (ch_chunk_sz h) * blk \<and> length (drop 12 bytes) = unat (ch_chunk_sz h) * blk mod 2 ^ 32)"

definition accepted :: "nat \<Rightarrow> image_chunk \<Rightarrow> u8 list \<Rightarrow> bool" where
  "accepted blk c bytes \<longleftrightarrow> (encodes blk c bytes \<or> oversized_raw blk c bytes) \<and> supported_chunk c"

section \<open>Copying is faithful\<close>

text \<open>A stretch of the program has copied or replaced a piece of the input.\<close>

definition consumed :: "process \<Rightarrow> u8 list \<Rightarrow> u8 list \<Rightarrow> process \<Rightarrow> bool" where
  "consumed p bytes produced q \<longleftrightarrow> pr_in p = bytes @ pr_in q \<and> pr_out q = pr_out p @ produced"

lemma consumed_trans: "consumed p a x q \<Longrightarrow> consumed q b y r \<Longrightarrow> consumed p (a @ b) (x @ y) r"
  by (simp add: consumed_def)

lemma consumed_refl: "consumed p [] [] p"
  by (simp add: consumed_def)

lemma sys_read_consumed: "sys_read K count p = (Some bytes, q) \<Longrightarrow> consumed p bytes [] q"
  by (auto simp: sys_read_def consumed_def Let_def split: option.splits)

lemma sys_read_keeps: "sys_read K count p = (None, q) \<Longrightarrow> consumed p [] [] q"
  by (auto simp: sys_read_def consumed_def Let_def split: option.splits)

lemma sys_write_consumed: "sys_write K bytes p = (Some (length bytes), q) \<Longrightarrow> consumed p [] bytes q"
  by (auto simp: sys_write_def consumed_def Let_def split: option.splits)

lemma sys_splice_consumed: "sys_splice K count p = (Some r, q) \<Longrightarrow> \<exists>bytes. length bytes = r \<and> consumed p bytes bytes q"
  by (auto simp: sys_splice_def consumed_def Let_def intro!: exI [of _ "take _ (pr_in p)"] split: option.splits)

lemma sys_splice_keeps: "sys_splice K count p = (None, q) \<Longrightarrow> consumed p [] [] q"
  by (auto simp: sys_splice_def consumed_def Let_def split: option.splits)

lemma consumed_flag [simp]: "consumed p a x (q\<lparr>pr_disable_splice := b\<rparr>) = consumed p a x q"
  "consumed (p\<lparr>pr_disable_splice := b\<rparr>) a x q = consumed p a x q"
  by (simp_all add: consumed_def)

lemma nsendfile_step_consumed:
  assumes "nsendfile_step K count p = Go r q"
  shows "\<exists>bytes. length bytes = r \<and> consumed p bytes bytes q"
proof -
  define s where "s = (if \<not> pr_disable_splice p then sys_splice K count p else (None, p))"
  obtain res p1 where s1: "s = (res, p1)" by (cases s)
  define p2 where "p2 = (if count > 16 * 1024 \<and> (case res of None \<Rightarrow> True | Some r \<Rightarrow> r < 1024)
    then p1\<lparr>pr_disable_splice := True\<rparr> else p1)"
  note step = assms [unfolded nsendfile_step_def, folded s_def, unfolded s1, unfolded Let_def prod.case, folded p2_def]
  show ?thesis
  proof (cases res)
    case (Some n)
    then have "r = n" "q = p2" using step by (auto simp: Let_def p2_def split: if_splits)
    moreover have "sys_splice K count p = (Some n, p1)" using s1 Some by (auto simp: s_def split: if_splits)
    ultimately show ?thesis using sys_splice_consumed by (force simp: p2_def)
  next
    case None
    have keep: "consumed p [] [] p2"
      using s1 None sys_splice_keeps consumed_refl by (force simp: s_def p2_def split: if_splits)
    obtain bytes p3 where rd: "sys_read K (if count < 1024 * 1024 then count else 1024 * 1024) p2 = (Some bytes, p3)"
      and wr: "sys_write K bytes p3 = (Some (length bytes), q)" and r: "r = length bytes"
      using step None by (auto simp: Let_def p2_def split: prod.splits option.splits if_splits)
    have "consumed p ([] @ bytes @ []) ([] @ [] @ bytes) q"
      using consumed_trans [OF keep consumed_trans [OF sys_read_consumed [OF rd] sys_write_consumed [OF wr]]] .
    then show ?thesis using r by auto
  qed
qed

lemma nsendfile_consumed: "nsendfile K count p = Go () q \<Longrightarrow> \<exists>bytes. length bytes = count \<and> consumed p bytes bytes q"
proof (induction K count p rule: nsendfile.induct)
  case (1 K count p)
  show ?case
  proof (cases "count = 0")
    case False
    then obtain r q' where r: "nsendfile_step K count p = Go r q'" "nsendfile K (count - r) q' = Go () q"
      using "1.prems" by (subst (asm) nsendfile.simps) (auto split: run.splits)
    obtain a b where "length a = r" "consumed p a a q'" "length b = count - r" "consumed q' b b q"
      using nsendfile_step_consumed [OF r(1)] "1.IH" [OF False r(1) r(2)] by auto
    then show ?thesis
      using consumed_trans [of p a a q' b b q] nsendfile_step_progress [OF r(1)] by (intro exI [of _ "a @ b"]) simp
  qed (use "1.prems" in \<open>subst (asm) nsendfile.simps, auto intro!: exI [of _ "[]"] simp: consumed_refl\<close>)
qed

lemma write_blocks_consumed: "write_blocks K err block n p = Go () q \<Longrightarrow> consumed p [] (concat (replicate n block)) q"
proof (induction n arbitrary: p)
  case (Suc n)
  then obtain p1 where "sys_write K block p = (Some (length block), p1)" "write_blocks K err block n p1 = Go () q"
    by (auto split: prod.splits if_splits)
  then show ?case using consumed_trans [of p "[]" block p1 "[]" _ q] sys_write_consumed Suc.IH by fastforce
qed (simp add: consumed_refl)

lemma concat_replicate_zeros: "concat (replicate n (replicate m x)) = replicate (m * n) x"
  by (induction n) (simp_all add: replicate_add [symmetric] add.commute)

lemma unat_byte: "unat (b :: u8) < 256"
  using unsigned_less [of b, where ?'a = nat] by simp

lemma field_zero:
  assumes "length bytes = 4" "(field 0 4 bytes :: u32) = 0"
  shows "bytes = [0, 0, 0, 0]"
proof -
  obtain a b c d where bytes: "bytes = [a, b, c, d]"
    using assms(1) by (auto simp: numeral_eq_Suc length_Suc_conv)
  have "le_nat bytes < 2 ^ 32"
    using unat_byte [of a] unat_byte [of b] unat_byte [of c] unat_byte [of d] by (simp add: bytes)
  moreover have "(of_nat (le_nat bytes) :: u32) = 0" using assms by (simp add: field_def)
  then have "2 ^ 32 dvd le_nat bytes" by (simp add: word_of_nat_eq_0_iff)
  ultimately have "le_nat bytes = 0" by (metis dvd_imp_le not_gr_zero not_less)
  then show ?thesis by (simp add: bytes unat_eq_zero)
qed

lemma read_four:
  assumes "(case sys_read K 4 p of (bytes, p) \<Rightarrow> case bytes of None \<Rightarrow> Exit 5 p
     | Some bytes \<Rightarrow> if length bytes \<noteq> 4 then Exit 5 p else rest bytes p) = Go () q"
  shows "\<exists>bytes p1. sys_read K 4 p = (Some bytes, p1) \<and> length bytes = 4 \<and> rest bytes p1 = Go () q"
  using assms by (auto split: prod.splits option.splits if_splits)

lemmas chunk_types = CHUNK_TYPE_RAW_def CHUNK_TYPE_FILL_def CHUNK_TYPE_DONT_CARE_def CHUNK_TYPE_CRC32_def

lemma zero_blocks_consumed:
  "write_blocks K err (replicate 4096 0) n p = Go () q \<Longrightarrow> consumed p [] (replicate (4096 * n) 0) q"
  using write_blocks_consumed [of K err "replicate 4096 0" n p q] by (simp add: concat_replicate_zeros)

lemma zero_fill: "concat (replicate (n * 1024) [0, 0, 0, 0]) = replicate (4096 * n) 0"
proof -
  have eq: "[0, 0, 0, 0] = replicate 4 0" by (simp add: numeral_eq_Suc)
  show ?thesis unfolding eq concat_replicate_zeros by (simp add: mult.commute)
qed

lemma total_ok_append [simp]:
  "length hb = 12 \<Longrightarrow> total_ok (hb @ payload) \<longleftrightarrow> unat (ch_total_sz (chunk_of hb)) = 12 + length payload"
  by (simp add: total_ok_def)

lemma product_4096: "unat (x * 4096 :: u32) = unat x * 4096 mod 2 ^ 32"
  by (simp add: unat_word_ariths)

lemma accepted_raw:
  assumes "length hb = 12" "ch_chunk_type (chunk_of hb) = CHUNK_TYPE_RAW"
    "length payload = unat (ch_chunk_sz (chunk_of hb) * 4096)" "unat (ch_total_sz (chunk_of hb)) = 12 + length payload"
  shows "accepted 4096 (Raw payload) (hb @ payload)"
proof (cases "unat (ch_chunk_sz (chunk_of hb)) * 4096 < 2 ^ 32")
  case True
  then show ?thesis using assms by (simp add: accepted_def encodes_def product_4096)
next
  case False
  then show ?thesis using assms by (simp add: accepted_def oversized_raw_def Let_def product_4096)
qed

lemma process_chunk_sound:
  assumes "process_chunk K hdr (chunk_of hb) p = Go () q" "sh_blk_sz hdr = 4096" and hb: "length hb = 12"
  shows "\<exists>c payload. accepted 4096 c (hb @ payload) \<and> consumed p payload (expand 4096 c) q"
proof -
  let ?h = "chunk_of hb"
  consider (raw) "ch_chunk_type ?h = CHUNK_TYPE_RAW" | (fill) "ch_chunk_type ?h = CHUNK_TYPE_FILL"
    | (skip) "ch_chunk_type ?h = CHUNK_TYPE_DONT_CARE" | (crc) "ch_chunk_type ?h = CHUNK_TYPE_CRC32"
    using assms(1) by (auto simp: process_chunk_def Let_def split: if_splits)
  then show ?thesis
  proof cases
    case raw
    then obtain bytes where "length bytes = unat (ch_chunk_sz ?h * 4096)" "consumed p bytes bytes q"
      "unat (ch_total_sz ?h) = 12 + unat (ch_chunk_sz ?h * 4096)"
      using assms nsendfile_consumed [of K "unat (ch_chunk_sz ?h * 4096)" p q]
      by (auto simp: process_chunk_def Let_def sizeof_chunk_header_def split: if_splits)
    then show ?thesis
      using accepted_raw [OF hb raw, of bytes] by (intro exI [of _ "Raw bytes"] exI [of _ bytes]) simp
  next
    case fill
    then have t: "unat (ch_total_sz ?h) = 16"
      and eq: "(case sys_read K 4 p of (bytes, p) \<Rightarrow> case bytes of None \<Rightarrow> Exit 5 p
        | Some bytes \<Rightarrow> if length bytes \<noteq> 4 then Exit 5 p else if (field 0 4 bytes :: u32) \<noteq> 0 then Exit 6 p
          else write_blocks K 8 (replicate 4096 0) (unat (ch_chunk_sz ?h)) p) = Go () q"
      using assms by (auto simp: process_chunk_def Let_def chunk_types sizeof_chunk_header_def split: if_splits)
    obtain p1 where rd: "sys_read K 4 p = (Some [0, 0, 0, 0], p1)"
      and wr: "write_blocks K 8 (replicate 4096 0) (unat (ch_chunk_sz ?h)) p1 = Go () q"
      using read_four [OF eq] field_zero by (auto split: if_splits)
    have "consumed p [0, 0, 0, 0] (replicate (4096 * unat (ch_chunk_sz ?h)) 0) q"
      using consumed_trans [OF sys_read_consumed [OF rd] zero_blocks_consumed [OF wr]] by simp
    then show ?thesis
      using fill t hb by (intro exI [of _ "Fill [0, 0, 0, 0] (unat (ch_chunk_sz ?h))"] exI [of _ "[0, 0, 0, 0]"])
        (simp add: accepted_def encodes_def zero_fill)
  next
    case skip
    then have t: "unat (ch_total_sz ?h) = 12" and "write_blocks K 10 (replicate 4096 0) (unat (ch_chunk_sz ?h)) p = Go () q"
      using assms by (auto simp: process_chunk_def Let_def chunk_types sizeof_chunk_header_def split: if_splits)
    then show ?thesis
      using skip hb zero_blocks_consumed by (intro exI [of _ "Dont_care (unat (ch_chunk_sz ?h))"] exI [of _ "[]"])
        (simp add: accepted_def encodes_def mult.commute total_ok_def)
  next
    case crc
    then have t: "unat (ch_total_sz ?h) = 16"
      and eq: "(case sys_read K 4 p of (bytes, p) \<Rightarrow> case bytes of None \<Rightarrow> Exit 5 p
        | Some bytes \<Rightarrow> if length bytes \<noteq> 4 then Exit 5 p else Go () p) = Go () q"
      using assms by (auto simp: process_chunk_def Let_def chunk_types sizeof_chunk_header_def split: if_splits)
    obtain bytes where "sys_read K 4 p = (Some bytes, q)" "length bytes = 4" using read_four [OF eq] by auto
    then show ?thesis
      using crc t hb sys_read_consumed by (intro exI [of _ "Checksum bytes"] exI [of _ bytes])
        (simp add: accepted_def encodes_def)
  qed
qed

lemma process_chunks_sound:
  assumes "sh_blk_sz hdr = 4096"
  shows "process_chunks K hdr n p = Go () q \<Longrightarrow>
     \<exists>chunks encs. length chunks = n \<and> list_all2 (accepted 4096) chunks encs \<and>
       consumed p (concat encs) (concat (map (expand 4096) chunks)) q"
proof (induction n arbitrary: p)
  case (Suc n)
  then obtain h p1 p2 where rd: "sys_read K 12 p = (Some h, p1)" "length h = 12"
    and ch: "process_chunk K hdr (chunk_of h) p1 = Go () p2" and rest: "process_chunks K hdr n p2 = Go () q"
    by (auto simp: sizeof_chunk_header_def split: prod.splits option.splits if_splits run.splits)
  obtain c payload where c: "accepted 4096 c (h @ payload)" "consumed p1 payload (expand 4096 c) p2"
    using process_chunk_sound [OF ch assms rd(2)] by blast
  obtain chunks encs where cs: "length chunks = n" "list_all2 (accepted 4096) chunks encs"
    "consumed p2 (concat encs) (concat (map (expand 4096) chunks)) q"
    using Suc.IH [OF rest] by blast
  have "consumed p (h @ payload @ concat encs) ([] @ expand 4096 c @ concat (map (expand 4096) chunks)) q"
    using consumed_trans [OF sys_read_consumed [OF rd(1)] consumed_trans [OF c(2) cs(3)]] .
  then show ?case using c(1) cs by (intro exI [of _ "c # chunks"] exI [of _ "(h @ payload) # encs"]) simp
qed (auto simp: consumed_refl)

lemma accepted_supported: "list_all2 (accepted blk) chunks encs \<Longrightarrow> list_all supported_chunk chunks"
  by (induction rule: list_all2_induct) (simp_all add: accepted_def)

lemma nsendfile_step_exit: "nsendfile_step K count p = Exit e q \<Longrightarrow> e = 112 \<or> e = 114"
  by (auto simp: nsendfile_step_def Let_def split: if_splits option.splits prod.splits)

lemma nsendfile_exit: "nsendfile K count p = Exit e q \<Longrightarrow> e \<noteq> 0"
proof (induction K count p rule: nsendfile.induct)
  case (1 K count p)
  have "count \<noteq> 0" using "1.prems" by (subst (asm) nsendfile.simps) (auto split: if_splits)
  show ?case
  proof (cases "nsendfile_step K count p")
    case (Go n q')
    then have "nsendfile K (count - n) q' = Exit e q"
      using "1.prems" \<open>count \<noteq> 0\<close> by (subst (asm) nsendfile.simps) simp
    then show ?thesis using "1.IH" [OF \<open>count \<noteq> 0\<close> Go] by blast
  next
    case (Exit e' q')
    then have "nsendfile_step K count p = Exit e q"
      using "1.prems" \<open>count \<noteq> 0\<close> by (subst (asm) nsendfile.simps) simp
    then show ?thesis using nsendfile_step_exit by force
  qed
qed

lemma write_blocks_exit: "write_blocks K err block n p = Exit e q \<Longrightarrow> e = err"
  by (induction n arbitrary: p) (auto split: prod.splits if_splits)

lemma process_chunk_exit: "process_chunk K hdr h p = Exit e q \<Longrightarrow> e \<noteq> 0"
  by (auto simp: process_chunk_def Let_def dest: nsendfile_exit write_blocks_exit
      split: prod.splits option.splits if_splits)

lemma process_chunks_exit: "process_chunks K hdr n p = Exit e q \<Longrightarrow> e \<noteq> 0"
  by (induction n arbitrary: p) (auto dest: process_chunk_exit split: prod.splits option.splits if_splits run.splits)

section \<open>A reliable kernel\<close>

text \<open>Reads and writes of up to a megabyte are complete; \<open>splice\<close> may fail or transfer less.\<close>

definition reliable :: "kernel \<Rightarrow> bool" where
  "reliable K \<longleftrightarrow> (\<forall>i. (\<exists>n. kn_read K i = Some n \<and> 1024 * 1024 \<le> n) \<and> (\<exists>n. kn_write K i = Some n \<and> 1024 * 1024 \<le> n))"

lemma sys_read_reliable:
  assumes "reliable K" "pr_in p = bytes @ rest" "length bytes \<le> 1024 * 1024"
  shows "\<exists>q. sys_read K (length bytes) p = (Some bytes, q) \<and> pr_in q = rest \<and> pr_out q = pr_out p"
proof -
  obtain n where n: "kn_read K (pr_calls p) = Some n" "1024 * 1024 \<le> n" using assms(1) by (auto simp: reliable_def)
  then have m: "min (max 1 n) (length bytes) = length bytes" using assms(3) by simp
  show ?thesis unfolding sys_read_def Let_def n(1) option.case m by (simp add: assms(2))
qed

lemma sys_write_reliable:
  assumes "reliable K" "length bytes \<le> 1024 * 1024"
  shows "\<exists>q. sys_write K bytes p = (Some (length bytes), q)"
proof -
  obtain n where "kn_write K (pr_calls p) = Some n" "1024 * 1024 \<le> n" using assms(1) by (auto simp: reliable_def)
  then show ?thesis using assms(2) by (auto simp: sys_write_def Let_def)
qed

lemma nsendfile_step_reliable:
  assumes "reliable K" "0 < count" "count \<le> length (pr_in p)"
  shows "\<exists>r q. nsendfile_step K count p = Go r q"
proof -
  define s where "s = (if \<not> pr_disable_splice p then sys_splice K count p else (None, p))"
  obtain res p1 where s1: "s = (res, p1)" by (cases s)
  define p2 where "p2 = (if count > 16 * 1024 \<and> (case res of None \<Rightarrow> True | Some r \<Rightarrow> r < 1024)
    then p1\<lparr>pr_disable_splice := True\<rparr> else p1)"
  note step = nsendfile_step_def [of K count p, folded s_def, unfolded s1, unfolded Let_def prod.case, folded p2_def]
  show ?thesis
  proof (cases res)
    case (Some n)
    then have "n \<noteq> 0" using s1 assms(2,3) by (auto simp: s_def sys_splice_def Let_def split: if_splits option.splits)
    then show ?thesis unfolding step Some by simp
  next
    case None
    have "pr_in p2 = pr_in p"
      using s1 None sys_splice_keeps by (force simp: s_def p2_def consumed_def split: if_splits)
    define m where "m = (if count < 1024 * 1024 then count else 1024 * 1024)"
    have m: "m \<le> count" "m \<le> 1024 * 1024" "0 < m" using assms(2) by (auto simp: m_def)
    then have len: "length (take m (pr_in p)) = m" using assms(3) by simp
    obtain p3 where rd: "sys_read K m p2 = (Some (take m (pr_in p)), p3)"
      using sys_read_reliable [OF assms(1), of p2 "take m (pr_in p)" "drop m (pr_in p)"] m(2) len \<open>pr_in p2 = _\<close> by auto
    obtain p4 where wr: "sys_write K (take m (pr_in p)) p3 = (Some m, p4)"
      using sys_write_reliable [OF assms(1), of "take m (pr_in p)" p3] m(2) len by auto
    show ?thesis unfolding step None m_def [symmetric] using rd wr len m(3) by simp
  qed
qed

lemma nsendfile_reliable: "reliable K \<Longrightarrow> count \<le> length (pr_in p) \<Longrightarrow> \<exists>q. nsendfile K count p = Go () q"
proof (induction K count p rule: nsendfile.induct)
  case (1 K count p)
  show ?case
  proof (cases "count = 0")
    case False
    then obtain r q where r: "nsendfile_step K count p = Go r q"
      using nsendfile_step_reliable "1.prems" by blast
    then have "count - r \<le> length (pr_in q)"
      using nsendfile_step_consumed [OF r] "1.prems"(2) by (auto simp: consumed_def)
    then show ?thesis
      using "1.IH" [OF False r "1.prems"(1)] False r by (subst nsendfile.simps) simp
  qed (subst nsendfile.simps, simp)
qed

lemma write_blocks_reliable:
  "reliable K \<Longrightarrow> length block \<le> 1024 * 1024 \<Longrightarrow> \<exists>q. write_blocks K err block n p = Go () q"
proof (induction n arbitrary: p)
  case (Suc n)
  obtain p1 where "sys_write K block p = (Some (length block), p1)" using sys_write_reliable [OF Suc.prems] by blast
  then show ?case using Suc.IH [OF Suc.prems, of p1] by simp
qed simp

lemma zero_blocks_reliable:
  assumes "reliable K"
  shows "\<exists>q. write_blocks K err (replicate 4096 0) n p = Go () q \<and> pr_in q = pr_in p \<and> pr_out q = pr_out p @ replicate (4096 * n) 0"
proof -
  obtain q where q: "write_blocks K err (replicate 4096 0) n p = Go () q"
    using write_blocks_reliable [OF assms, of "replicate 4096 0" err n p] by auto
  then show ?thesis using zero_blocks_consumed [OF q] by (auto simp: consumed_def)
qed

lemma process_chunk_complete:
  assumes "reliable K" "encodes 4096 c (hb @ payload)" "length hb = 12" "sh_blk_sz hdr = 4096" "pr_in p = payload @ rest"
    "supported_chunk c"
  shows "\<exists>q. process_chunk K hdr (chunk_of hb) p = Go () q \<and> pr_in q = rest \<and> pr_out q = pr_out p @ expand 4096 c"
proof -
  have ok: "chunk_ok 4096 c (chunk_of hb) payload" and total: "unat (ch_total_sz (chunk_of hb)) = 12 + length payload"
    using assms(2,3) by (simp_all add: encodes_def)
  show ?thesis
  proof (cases c)
    case (Raw data)
    have "unat (ch_chunk_sz (chunk_of hb)) * 4096 < 2 ^ 32"
      using ok total Raw unsigned_less [of "ch_total_sz (chunk_of hb)", where ?'a = nat] by simp
    then have size: "unat (ch_chunk_sz (chunk_of hb) * 4096) = length data" using ok Raw by (simp add: product_4096)
    have "length data \<le> length (pr_in p)" using assms(5) ok Raw by simp
    then obtain q where q: "nsendfile K (length data) p = Go () q" using nsendfile_reliable [OF assms(1)] by blast
    obtain bytes where "length bytes = length data" "pr_in p = bytes @ pr_in q" "pr_out q = pr_out p @ bytes"
      using nsendfile_consumed [OF q] unfolding consumed_def by blast
    moreover have "pr_in p = data @ rest" using assms(5) ok Raw by simp
    ultimately have "pr_in q = rest \<and> pr_out q = pr_out p @ data" by (metis append_eq_append_conv)
    then show ?thesis
      using q size ok total assms(4) Raw by (simp add: process_chunk_def Let_def sizeof_chunk_header_def)
  next
    case (Fill pattern n)
    have pay: "payload = [0, 0, 0, 0]" using ok assms(6) Fill by simp
    then have four: "length payload = 4" by simp
    obtain p1 where p1: "sys_read K 4 p = (Some payload, p1)" "pr_in p1 = rest" "pr_out p1 = pr_out p"
      using sys_read_reliable [OF assms(1), of p payload rest] assms(5) four by auto
    have "sys_read K 4 p = (Some [0, 0, 0, 0], p1)" using p1(1) pay by simp
    moreover note p1(2,3)
    moreover obtain q where "write_blocks K 8 (replicate 4096 0) n p1 = Go () q" "pr_in q = pr_in p1"
      "pr_out q = pr_out p1 @ replicate (4096 * n) 0"
      using zero_blocks_reliable [OF assms(1), of 8 n p1] by blast
    moreover have "(field 0 4 [0, 0, 0, 0] :: u32) = 0" by (simp add: field_def)
    moreover have "ch_chunk_type (chunk_of hb) = CHUNK_TYPE_FILL" "unat (ch_chunk_sz (chunk_of hb)) = n"
      "unat (ch_total_sz (chunk_of hb)) = 16" "pattern = [0, 0, 0, 0]"
      using ok total assms(6) Fill by simp_all
    ultimately show ?thesis
      by (simp add: process_chunk_def Let_def sizeof_chunk_header_def chunk_types assms(4) Fill zero_fill del: replicate.simps)
  next
    case (Dont_care n)
    moreover obtain q where "write_blocks K 10 (replicate 4096 0) n p = Go () q" "pr_in q = pr_in p"
      "pr_out q = pr_out p @ replicate (4096 * n) 0"
      using zero_blocks_reliable [OF assms(1), of 10 n p] by blast
    moreover have "ch_chunk_type (chunk_of hb) = CHUNK_TYPE_DONT_CARE" "unat (ch_chunk_sz (chunk_of hb)) = n"
      "unat (ch_total_sz (chunk_of hb)) = 12" "pr_in p = rest"
      using ok total assms(5) Dont_care by simp_all
    ultimately show ?thesis
      by (simp add: process_chunk_def Let_def sizeof_chunk_header_def chunk_types assms(4) mult.commute)
  next
    case (Checksum crc)
    obtain p1 where "sys_read K 4 p = (Some crc, p1)" "pr_in p1 = rest" "pr_out p1 = pr_out p"
      using sys_read_reliable [OF assms(1), of p crc rest] ok assms(5) Checksum by auto
    then show ?thesis
      using ok total assms(4) Checksum by (auto simp: process_chunk_def Let_def sizeof_chunk_header_def chunk_types)
  qed
qed

lemma process_chunk_unsupported:
  assumes "reliable K" "encodes 4096 c (hb @ payload)" "length hb = 12" "pr_in p = payload @ rest" "\<not> supported_chunk c"
  shows "\<exists>q. process_chunk K hdr (chunk_of hb) p = Exit 6 q \<and> pr_out q = pr_out p"
proof -
  obtain pattern n where c: "c = Fill pattern n" "pattern \<noteq> [0, 0, 0, 0]" using assms(5) by (cases c) auto
  then have h: "ch_chunk_type (chunk_of hb) = CHUNK_TYPE_FILL" "unat (ch_total_sz (chunk_of hb)) = 16"
    "length payload = 4" "payload \<noteq> [0, 0, 0, 0]"
    using assms(2,3) by (auto simp: encodes_def)
  obtain p1 where "sys_read K 4 p = (Some payload, p1)" "pr_out p1 = pr_out p"
    using sys_read_reliable [OF assms(1), of p payload rest] assms(4) h(3) by auto
  moreover have "(field 0 4 payload :: u32) \<noteq> 0" using field_zero h(3,4) by blast
  ultimately show ?thesis
    using h by (simp add: process_chunk_def Let_def sizeof_chunk_header_def chunk_types)
qed

lemma process_chunks_complete:
  assumes "reliable K" "sh_blk_sz hdr = 4096"
  shows "list_all2 (encodes 4096) chunks encs \<Longrightarrow> pr_in p = concat encs @ rest \<Longrightarrow>
     \<exists>q. process_chunks K hdr (length chunks) p = (if list_all supported_chunk chunks then Go () q else Exit 6 q) \<and>
       (list_all supported_chunk chunks \<longrightarrow> pr_in q = rest) \<and>
       pr_out q = pr_out p @ concat (map (expand 4096) (takeWhile supported_chunk chunks))"
proof (induction chunks arbitrary: encs p)
  case (Cons c chunks)
  then obtain e es where encs: "encs = e # es" "encodes 4096 c e" "list_all2 (encodes 4096) chunks es"
    by (auto simp: list_all2_Cons1)
  define hb payload where "hb = take 12 e" and "payload = drop 12 e"
  have e: "e = hb @ payload" "length hb = 12" using encs(2) by (auto simp: encodes_def total_ok_def hb_def payload_def)
  then have "pr_in p = hb @ payload @ concat es @ rest" using Cons.prems(2) encs(1) by simp
  then obtain p1 where p1: "sys_read K 12 p = (Some hb, p1)" "pr_in p1 = payload @ concat es @ rest" "pr_out p1 = pr_out p"
    using sys_read_reliable [OF assms(1), of p hb] e(2) by auto
  have enc: "encodes 4096 c (hb @ payload)" using encs(2) e(1) by simp
  show ?case
  proof (cases "supported_chunk c")
    case True
    obtain p2 where p2: "process_chunk K hdr (chunk_of hb) p1 = Go () p2" "pr_in p2 = concat es @ rest"
      "pr_out p2 = pr_out p @ expand 4096 c"
      using process_chunk_complete [OF assms(1) enc e(2) assms(2) p1(2) True] p1(3) by auto
    show ?thesis using Cons.IH [OF encs(3) p2(2)] p1(1) p2(1,3) e(2) True by (auto simp: sizeof_chunk_header_def)
  next
    case False
    obtain q where "process_chunk K hdr (chunk_of hb) p1 = Exit 6 q" "pr_out q = pr_out p"
      using process_chunk_unsupported [OF assms(1) enc e(2) p1(2) False, of hdr] p1(3) by auto
    then show ?thesis using p1(1) e(2) False by (simp add: sizeof_chunk_header_def)
  qed
qed (auto simp: list_all2_Nil)

lemma takeWhile_all: "list_all P xs \<Longrightarrow> takeWhile P xs = xs"
  by (induction xs) simp_all

lemma simg2img_runs:
  assumes "reliable K" and "sparse_image (pr_in p) h chunks rest"
  shows "\<exists>q. simg2img_main K p =
       (if supported h chunks then 0 else if sh_blk_sz h = 4096 \<and> sh_minor_version h \<noteq> 0 then 12 else 6, q) \<and>
     (supported h chunks \<longrightarrow> pr_in q = rest) \<and>
     pr_out q = pr_out p @ (if sh_blk_sz h = 4096 \<and> sh_minor_version h = 0
       then concat (map (expand 4096) (takeWhile supported_chunk chunks)) else [])"
proof -
  obtain hdr encs where h: "length hdr = 28" "header_of hdr = h" "header_ok h" "unat (sh_total_chunks h) = length chunks"
    "list_all2 (encodes (unat (sh_blk_sz h))) chunks encs" "pr_in p = hdr @ concat encs @ rest"
    using assms(2) by (auto simp: sparse_image_def chunk_file_def)
  obtain p1 where p1: "sys_read K 28 p = (Some hdr, p1)" "pr_in p1 = concat encs @ rest" "pr_out p1 = pr_out p"
    using sys_read_reliable [OF assms(1) h(6)] h(1) by auto
  show ?thesis
  proof (cases "sh_blk_sz h = 4096 \<and> sh_minor_version h = 0")
    case True
    then have enc: "list_all2 (encodes 4096) chunks encs" using h(5) by simp
    from process_chunks_complete [OF assms(1) conjunct1 [OF True] enc p1(2)] True show ?thesis
      using p1(1,3) h(1-4) by (auto simp: simg2img_main_def sizeof_sparse_header_def header_ok_def supported_def takeWhile_all)
  next
    case False
    then show ?thesis using p1(1,3) h(1-4)
      by (auto simp: simg2img_main_def sizeof_sparse_header_def header_ok_def supported_def)
  qed
qed

section \<open>Properties\<close>

text \<open>C13: when the converter exits with status zero, whatever the kernel did, its input began with a header it supports and one
  chunk after the other, each a well-formed chunk of the format without a fill other than zero, or raw data that claims four gigabytes or
  more; it has read these and no more and has written exactly the plain image they stand for, and nothing else.\<close>

theorem simg2img_sound:
  assumes "simg2img_main K p = (0, q)"
  shows "\<exists>h chunks. chunk_file accepted (pr_in p) h chunks (pr_in q) \<and> supported h chunks \<and>
     pr_out q = pr_out p @ concat (map (expand 4096) chunks)"
proof -
  obtain hdr p1 where rd: "sys_read K 28 p = (Some hdr, p1)" "length hdr = 28" "header_ok (header_of hdr)"
    and sup: "sh_blk_sz (header_of hdr) = 4096" "sh_minor_version (header_of hdr) = 0"
    and run: "process_chunks K (header_of hdr) (unat (sh_total_chunks (header_of hdr))) p1 = Go () q"
    using assms by (auto simp: simg2img_main_def Let_def sizeof_sparse_header_def header_ok_def dest: process_chunks_exit
        split: prod.splits option.splits if_splits run.splits)
  obtain chunks encs where cs: "length chunks = unat (sh_total_chunks (header_of hdr))" "list_all2 (accepted 4096) chunks encs"
    "consumed p1 (concat encs) (concat (map (expand 4096) chunks)) q"
    using process_chunks_sound [OF sup(1) run] by blast
  have "consumed p (hdr @ concat encs) (concat (map (expand 4096) chunks)) q"
    using consumed_trans [OF sys_read_consumed [OF rd(1)] cs(3)] by simp
  then show ?thesis
    using rd(2,3) sup cs(1,2) accepted_supported [OF cs(2)]
    by (intro exI [of _ "header_of hdr"] exI [of _ chunks])
      (auto simp: chunk_file_def consumed_def supported_def intro!: exI [of _ hdr] exI [of _ encs])
qed

text \<open>Without a chunk that claims four gigabytes or more this is a sparse image of the format.\<close>

lemma accepted_encodes: "accepted blk c bytes \<Longrightarrow> \<not> oversized_raw blk c bytes \<Longrightarrow> encodes blk c bytes"
  by (simp add: accepted_def)

text \<open>C15: on every sparse image of the format, with a kernel that completes reads and writes, however \<open>splice\<close> behaves, the
  converter ends: with status zero, the plain image written and no byte beyond the image read, exactly when the image has minor version
  zero, blocks of 4096 bytes and no fill but zero; otherwise with status 12 for the minor version or 6 for the block size or the fill, having
  written the chunks before the first it does not support.\<close>

theorem simg2img_complete:
  assumes "reliable K" and "sparse_image (pr_in p) h chunks rest"
  shows "\<exists>q. simg2img_main K p =
       (if supported h chunks then 0 else if sh_blk_sz h = 4096 \<and> sh_minor_version h \<noteq> 0 then 12 else 6, q) \<and>
     (supported h chunks \<longrightarrow> pr_in q = rest) \<and>
     pr_out q = pr_out p @ (if sh_blk_sz h = 4096 \<and> sh_minor_version h = 0
       then concat (map (expand 4096) (takeWhile supported_chunk chunks)) else [])"
  using simg2img_runs [OF assms] .

text \<open>The size of a raw chunk is a product of 32 bits: a chunk that claims a multiple of four gigabytes and carries no data is accepted.\<close>

lemma raw_size_wraps:
  "ch_chunk_type h = CHUNK_TYPE_RAW \<Longrightarrow> ch_chunk_sz h = 0x100000 \<Longrightarrow> ch_total_sz h = 12 \<Longrightarrow>
   process_chunk K (header_of hdr\<lparr>sh_blk_sz := 4096\<rparr>) h p = Go () p"
  by (subst process_chunk_def) (simp add: Let_def sizeof_chunk_header_def nsendfile.simps)

section \<open>Witnesses\<close>

definition example_header :: "u8 \<Rightarrow> u8 list" where
  "example_header n = [0x3a, 0xff, 0x26, 0xed, 1, 0, 0, 0, 28, 0, 12, 0, 0, 0x10, 0, 0, 1, 0, 0, 0, n, 0, 0, 0, 0, 0, 0, 0]"

definition example_chunk :: "u8 list" where
  "example_chunk = [0xc3, 0xca, 0, 0, 1, 0, 0, 0, 12, 0, 0, 0]"

definition example_fill :: "u8 list" where
  "example_fill = [0xc2, 0xca, 0, 0, 1, 0, 0, 0, 16, 0, 0, 0, 7, 7, 7, 7]"

definition example_kernel :: kernel where
  "example_kernel = \<lparr>kn_splice = (\<lambda>_. None), kn_read = (\<lambda>_. Some (1024 * 1024)), kn_write = (\<lambda>_. Some (1024 * 1024))\<rparr>"

definition example_process :: "u8 list \<Rightarrow> process" where
  "example_process bytes = \<lparr>pr_in = bytes, pr_out = [], pr_calls = 0, pr_disable_splice = False\<rparr>"

lemma example_reliable: "reliable example_kernel"
  by (simp add: reliable_def example_kernel_def)

lemma example_header_ok:
  "header_ok (header_of (example_header n))" "unat (sh_total_chunks (header_of (example_header n))) = unat n"
  "sh_blk_sz (header_of (example_header n)) = 4096" "sh_minor_version (header_of (example_header n)) = 0"
  "length (example_header n) = 28"
  using unat_byte [of n]
  by (simp_all add: header_ok_def header_of_def field_def example_header_def SPARSE_HEADER_MAGIC_def
      unsigned_ucast_eq take_bit_nat_eq_self)

lemma example_chunks: "encodes 4096 (Dont_care 1) example_chunk" "encodes 4096 (Fill [7, 7, 7, 7] 1) example_fill"
  by (simp_all add: encodes_def total_ok_def chunk_of_def field_def example_chunk_def example_fill_def
      CHUNK_TYPE_DONT_CARE_def CHUNK_TYPE_FILL_def)

lemma example_images:
  "sparse_image (example_header 1 @ example_chunk) (header_of (example_header 1)) [Dont_care 1] []"
  "sparse_image (example_header 2 @ example_chunk @ example_fill) (header_of (example_header 2)) [Dont_care 1, Fill [7, 7, 7, 7] 1] []"
proof -
  have "list_all2 (encodes 4096) [Dont_care 1] [example_chunk]"
    "list_all2 (encodes 4096) [Dont_care 1, Fill [7, 7, 7, 7] 1] [example_chunk, example_fill]"
    by (intro list.rel_intros example_chunks)+
  then show "sparse_image (example_header 1 @ example_chunk) (header_of (example_header 1)) [Dont_care 1] []"
    "sparse_image (example_header 2 @ example_chunk @ example_fill) (header_of (example_header 2)) [Dont_care 1, Fill [7, 7, 7, 7] 1] []"
    unfolding sparse_image_def chunk_file_def example_header_ok
    by (intro exI [of _ "example_header 1"] exI [of _ "[example_chunk]"] conjI; simp add: example_header_ok example_chunks [unfolded One_nat_def])
      (intro exI [of _ "example_header 2"] exI [of _ "[example_chunk, example_fill]"] conjI; simp add: example_header_ok example_chunks [unfolded One_nat_def])
qed

lemma example_support:
  "supported (header_of (example_header 1)) [Dont_care 1]" "\<not> supported (header_of (example_header 2)) [Dont_care 1, Fill [7, 7, 7, 7] 1]"
  by (simp_all add: supported_def example_header_ok)

theorem simg2img_complete_witness:
  "(\<exists>q. simg2img_main example_kernel (example_process (example_header 1 @ example_chunk)) = (0, q) \<and> pr_in q = [] \<and>
      pr_out q = concat (map (expand 4096) [Dont_care 1])) \<and>
   (\<exists>q. simg2img_main example_kernel (example_process (example_header 2 @ example_chunk @ example_fill)) = (6, q) \<and>
      pr_out q = expand 4096 (Dont_care 1))"
proof -
  let ?p = "example_process (example_header 1 @ example_chunk)"
  let ?q = "example_process (example_header 2 @ example_chunk @ example_fill)"
  have i: "sparse_image (pr_in ?p) (header_of (example_header 1)) [Dont_care 1] []"
    "sparse_image (pr_in ?q) (header_of (example_header 2)) [Dont_care 1, Fill [7, 7, 7, 7] 1] []"
    using example_images by (simp_all only: example_process_def process.simps)
  have o: "pr_out ?p = []" "pr_out ?q = []" by (simp_all add: example_process_def)
  show ?thesis
    using simg2img_complete [OF example_reliable i(1)] simg2img_complete [OF example_reliable i(2)] o example_support
    by (simp add: example_header_ok del: replicate.simps)
qed

theorem simg2img_sound_witness:
  "\<exists>q h chunks. simg2img_main example_kernel (example_process (example_header 1 @ example_chunk)) = (0, q) \<and>
     chunk_file accepted (example_header 1 @ example_chunk) h chunks (pr_in q) \<and> supported h chunks \<and>
     pr_out q = concat (map (expand 4096) chunks)"
proof -
  let ?p = "example_process (example_header 1 @ example_chunk)"
  have in_p: "pr_in ?p = example_header 1 @ example_chunk" "pr_out ?p = []" by (simp_all add: example_process_def)
  then have "sparse_image (pr_in ?p) (header_of (example_header 1)) [Dont_care 1] []" using example_images(1) by simp
  then obtain q where q: "simg2img_main example_kernel ?p = (0, q)"
    using simg2img_runs [OF example_reliable, of ?p] example_support(1) by fastforce
  then show ?thesis using simg2img_sound [OF q] in_p by auto
qed

end
