(* ===== verification/Fingerprint.thy ===== *)
theory Fingerprint
  imports BT_Prelude
begin

text \<open>
  \<^verbatim>\<open>hal/oplus-fp/BiometricsFingerprint.cpp\<close>: the adapter between the framework's fingerprint interface and the
  vendor's. (\<^verbatim>\<open>hal/oppo-fp\<close> is the same code for another vendor name.)

  The vendor service is an argument: for each call its reply, and the callbacks it delivers while the call is
  under way, each to one of the callback objects that were handed to it. A callback object is known by the client it
  wraps, which may be a null pointer. What the clients are told is recorded in the state. A transport failure
  ends the process inside the runtime and is not modelled.
\<close>

section \<open>Data\<close>

type_synonym client = nat

datatype RequestStatus = SYS_UNKNOWN | SYS_OK | SYS_ENOENT | SYS_EINTR | SYS_EIO | SYS_EAGAIN | SYS_ENOMEM
  | SYS_EACCES | SYS_EFAULT | SYS_EBUSY | SYS_EINVAL | SYS_ENOSPC | SYS_ETIMEDOUT

datatype FingerprintAcquiredInfo = ACQUIRED_GOOD | ACQUIRED_PARTIAL | ACQUIRED_INSUFFICIENT | ACQUIRED_IMAGER_DIRTY
  | ACQUIRED_TOO_SLOW | ACQUIRED_TOO_FAST | ACQUIRED_VENDOR

datatype FingerprintError = ERROR_NO_ERROR | ERROR_HW_UNAVAILABLE | ERROR_UNABLE_TO_PROCESS | ERROR_TIMEOUT
  | ERROR_NO_SPACE | ERROR_CANCELED | ERROR_UNABLE_TO_REMOVE | ERROR_LOCKOUT | ERROR_VENDOR

text \<open>The vendor's enumerations: the values the adapter names, and any other.\<close>

datatype VendorStatus = V_SYS_UNKNOWN | V_SYS_OK | V_SYS_ENOENT | V_SYS_EINTR | V_SYS_EIO | V_SYS_EAGAIN | V_SYS_ENOMEM
  | V_SYS_EACCES | V_SYS_EFAULT | V_SYS_EBUSY | V_SYS_EINVAL | V_SYS_ENOSPC | V_SYS_ETIMEDOUT | V_SYS_other int

datatype VendorAcquiredInfo = V_ACQUIRED_GOOD | V_ACQUIRED_PARTIAL | V_ACQUIRED_INSUFFICIENT | V_ACQUIRED_IMAGER_DIRTY
  | V_ACQUIRED_TOO_SLOW | V_ACQUIRED_TOO_FAST | V_ACQUIRED_VENDOR | V_ACQUIRED_other int

datatype VendorError = V_ERROR_NO_ERROR | V_ERROR_HW_UNAVAILABLE | V_ERROR_UNABLE_TO_PROCESS | V_ERROR_TIMEOUT
  | V_ERROR_NO_SPACE | V_ERROR_CANCELED | V_ERROR_UNABLE_TO_REMOVE | V_ERROR_LOCKOUT | V_ERROR_VENDOR | V_ERROR_other int

datatype ClientEvent =
    EnrollResult u64 u32 u32 u32
  | Acquired u64 FingerprintAcquiredInfo int
  | Authenticated u64 u32 u32 "u8 list"
  | Error u64 FingerprintError int
  | Removed u64 u32 u32 u32
  | Enumerate u64 u32 u32 u32

datatype VendorEvent =
    VEnrollResult u64 u32 u32 u32
  | VAcquired u64 VendorAcquiredInfo int
  | VAuthenticated u64 u32 u32 "u8 list"
  | VError u64 VendorError int
  | VRemoved u64 u32 u32 u32
  | VEnumerate u64 u32 u32 u32
  | VTouchUp u64
  | VTouchDown u64
  | VSyncTemplates u64 "u32 list" u32
  | VFingerprintCmd int "u32 list" u32
  | VImageInfoAcquired u32 u32 u32
  | VMonitorEventTriggered u32 string
  | VEngineeringInfoUpdated u32 "u32 list" "string list"
  | VUIReady int

datatype VendorCall =
    CSetNotify "client option"
  | CPreEnroll
  | CEnroll "u8 list" u32 u32
  | CPostEnroll
  | CGetAuthenticatorId
  | CCancel
  | CEnumerate
  | CRemove u32 u32
  | CSetActiveGroup u32 string
  | CAuthenticate u64 u32

record vendor =
  v_status :: "VendorCall \<Rightarrow> VendorStatus"
  v_number :: "VendorCall \<Rightarrow> u64"
  v_events :: "VendorCall \<Rightarrow> (client option \<times> VendorEvent) list"

record fp_state =
  receivedCancel :: bool
  receivedEnumerate :: bool
  myDeviceId :: u64
  knownFingers :: "u32 list"
  mClientCallback :: "client option option"
  fp_told :: "(client \<times> ClientEvent) list"
  fp_called :: "VendorCall list"

section \<open>Connecting to the vendor service\<close>

text \<open>Tries are numbered from 0; the result is the service and the seconds slept, or the end of the process.\<close>

function connect_from :: "(nat \<Rightarrow> 'svc option) \<Rightarrow> nat \<Rightarrow> 'svc option \<times> nat" where
  "connect_from tryGetService i =
     (if i < 10 then
        (case tryGetService i of
           Some s \<Rightarrow> (Some s, 0)
         | None \<Rightarrow> let (r, slept) = connect_from tryGetService (i + 1) in (r, slept + 10))
      else (None, 0))"
  by pat_completeness auto
termination
  by (relation "measure (\<lambda>(_, i). 10 - i)") auto

declare connect_from.simps [simp del]

datatype 'svc startup = Connected 'svc | Exited

definition BiometricsFingerprint_ctor :: "(nat \<Rightarrow> 'svc option) \<Rightarrow> 'svc startup" where
  "BiometricsFingerprint_ctor tryGetService =
     (case fst (connect_from tryGetService 0) of Some s \<Rightarrow> Connected s | None \<Rightarrow> Exited)"

section \<open>Translations\<close>

fun OplusToAOSPFingerprintAcquiredInfo :: "VendorAcquiredInfo \<Rightarrow> FingerprintAcquiredInfo" where
  "OplusToAOSPFingerprintAcquiredInfo V_ACQUIRED_GOOD = ACQUIRED_GOOD"
| "OplusToAOSPFingerprintAcquiredInfo V_ACQUIRED_PARTIAL = ACQUIRED_PARTIAL"
| "OplusToAOSPFingerprintAcquiredInfo V_ACQUIRED_INSUFFICIENT = ACQUIRED_INSUFFICIENT"
| "OplusToAOSPFingerprintAcquiredInfo V_ACQUIRED_IMAGER_DIRTY = ACQUIRED_IMAGER_DIRTY"
| "OplusToAOSPFingerprintAcquiredInfo V_ACQUIRED_TOO_SLOW = ACQUIRED_TOO_SLOW"
| "OplusToAOSPFingerprintAcquiredInfo V_ACQUIRED_TOO_FAST = ACQUIRED_TOO_FAST"
| "OplusToAOSPFingerprintAcquiredInfo V_ACQUIRED_VENDOR = ACQUIRED_VENDOR"
| "OplusToAOSPFingerprintAcquiredInfo (V_ACQUIRED_other _) = ACQUIRED_GOOD"

fun OplusToAOSPFingerprintError :: "VendorError \<Rightarrow> FingerprintError" where
  "OplusToAOSPFingerprintError V_ERROR_NO_ERROR = ERROR_NO_ERROR"
| "OplusToAOSPFingerprintError V_ERROR_HW_UNAVAILABLE = ERROR_HW_UNAVAILABLE"
| "OplusToAOSPFingerprintError V_ERROR_UNABLE_TO_PROCESS = ERROR_UNABLE_TO_PROCESS"
| "OplusToAOSPFingerprintError V_ERROR_TIMEOUT = ERROR_TIMEOUT"
| "OplusToAOSPFingerprintError V_ERROR_NO_SPACE = ERROR_NO_SPACE"
| "OplusToAOSPFingerprintError V_ERROR_CANCELED = ERROR_CANCELED"
| "OplusToAOSPFingerprintError V_ERROR_UNABLE_TO_REMOVE = ERROR_UNABLE_TO_REMOVE"
| "OplusToAOSPFingerprintError V_ERROR_LOCKOUT = ERROR_LOCKOUT"
| "OplusToAOSPFingerprintError V_ERROR_VENDOR = ERROR_VENDOR"
| "OplusToAOSPFingerprintError (V_ERROR_other _) = ERROR_NO_ERROR"

fun OplusToAOSPRequestStatus :: "VendorStatus \<Rightarrow> RequestStatus" where
  "OplusToAOSPRequestStatus V_SYS_UNKNOWN = SYS_UNKNOWN"
| "OplusToAOSPRequestStatus V_SYS_OK = SYS_OK"
| "OplusToAOSPRequestStatus V_SYS_ENOENT = SYS_ENOENT"
| "OplusToAOSPRequestStatus V_SYS_EINTR = SYS_EINTR"
| "OplusToAOSPRequestStatus V_SYS_EIO = SYS_EIO"
| "OplusToAOSPRequestStatus V_SYS_EAGAIN = SYS_EAGAIN"
| "OplusToAOSPRequestStatus V_SYS_ENOMEM = SYS_ENOMEM"
| "OplusToAOSPRequestStatus V_SYS_EACCES = SYS_EACCES"
| "OplusToAOSPRequestStatus V_SYS_EFAULT = SYS_EFAULT"
| "OplusToAOSPRequestStatus V_SYS_EBUSY = SYS_EBUSY"
| "OplusToAOSPRequestStatus V_SYS_EINVAL = SYS_EINVAL"
| "OplusToAOSPRequestStatus V_SYS_ENOSPC = SYS_ENOSPC"
| "OplusToAOSPRequestStatus V_SYS_ETIMEDOUT = SYS_ETIMEDOUT"
| "OplusToAOSPRequestStatus (V_SYS_other _) = SYS_UNKNOWN"

section \<open>Callbacks of the vendor\<close>

text \<open>The call of a method of a client that may be null, guarded by a test.\<close>

definition tell :: "client option \<Rightarrow> ClientEvent \<Rightarrow> fp_state \<Rightarrow> fp_state" where
  "tell c e st = (case c of None \<Rightarrow> st | Some c \<Rightarrow> st\<lparr>fp_told := fp_told st @ [(c, e)]\<rparr>)"

definition onEnrollResult :: "client option \<Rightarrow> u64 \<Rightarrow> u32 \<Rightarrow> u32 \<Rightarrow> u32 \<Rightarrow> fp_state \<Rightarrow> fp_state" where
  "onEnrollResult c deviceId fingerId groupId remaining = tell c (EnrollResult deviceId fingerId groupId remaining)"

definition onAcquired :: "client option \<Rightarrow> u64 \<Rightarrow> VendorAcquiredInfo \<Rightarrow> int \<Rightarrow> fp_state \<Rightarrow> fp_state" where
  "onAcquired c deviceId acquiredInfo vendorCode =
     tell c (Acquired deviceId (OplusToAOSPFingerprintAcquiredInfo acquiredInfo) vendorCode)"

definition onAuthenticated :: "client option \<Rightarrow> u64 \<Rightarrow> u32 \<Rightarrow> u32 \<Rightarrow> u8 list \<Rightarrow> fp_state \<Rightarrow> fp_state" where
  "onAuthenticated c deviceId fingerId groupId token = tell c (Authenticated deviceId fingerId groupId token)"

definition onError :: "client option \<Rightarrow> u64 \<Rightarrow> VendorError \<Rightarrow> int \<Rightarrow> fp_state \<Rightarrow> fp_state" where
  "onError c deviceId err vendorCode st =
     (let st = (if err = V_ERROR_CANCELED then st\<lparr>receivedCancel := True\<rparr> else st) in
      tell c (Error deviceId (OplusToAOSPFingerprintError err) vendorCode) st)"

definition onRemoved :: "client option \<Rightarrow> u64 \<Rightarrow> u32 \<Rightarrow> u32 \<Rightarrow> u32 \<Rightarrow> fp_state \<Rightarrow> fp_state" where
  "onRemoved c deviceId fingerId groupId remaining = tell c (Removed deviceId fingerId groupId remaining)"

definition onEnumerate :: "client option \<Rightarrow> u64 \<Rightarrow> u32 \<Rightarrow> u32 \<Rightarrow> u32 \<Rightarrow> fp_state \<Rightarrow> fp_state" where
  "onEnumerate c deviceId fingerId groupId remaining st =
     tell c (Enumerate deviceId fingerId groupId remaining) (st\<lparr>receivedEnumerate := True\<rparr>)"

definition onSyncTemplates :: "u64 \<Rightarrow> u32 list \<Rightarrow> u32 \<Rightarrow> fp_state \<Rightarrow> fp_state" where
  "onSyncTemplates deviceId fingerId remaining st = st\<lparr>myDeviceId := deviceId, knownFingers := fingerId\<rparr>"

text \<open>The methods from \<open>onTouchUp\<close> to \<open>onUIReady\<close> other than \<open>onSyncTemplates\<close> do nothing.\<close>

fun OplusClientCallback_dispatch :: "client option \<times> VendorEvent \<Rightarrow> fp_state \<Rightarrow> fp_state" where
  "OplusClientCallback_dispatch (c, VEnrollResult d f g r) st = onEnrollResult c d f g r st"
| "OplusClientCallback_dispatch (c, VAcquired d i v) st = onAcquired c d i v st"
| "OplusClientCallback_dispatch (c, VAuthenticated d f g t) st = onAuthenticated c d f g t st"
| "OplusClientCallback_dispatch (c, VError d e v) st = onError c d e v st"
| "OplusClientCallback_dispatch (c, VRemoved d f g r) st = onRemoved c d f g r st"
| "OplusClientCallback_dispatch (c, VEnumerate d f g r) st = onEnumerate c d f g r st"
| "OplusClientCallback_dispatch (c, VSyncTemplates d fs r) st = onSyncTemplates d fs r st"
| "OplusClientCallback_dispatch (c, VTouchUp _) st = st"
| "OplusClientCallback_dispatch (c, VTouchDown _) st = st"
| "OplusClientCallback_dispatch (c, VFingerprintCmd _ _ _) st = st"
| "OplusClientCallback_dispatch (c, VImageInfoAcquired _ _ _) st = st"
| "OplusClientCallback_dispatch (c, VMonitorEventTriggered _ _) st = st"
| "OplusClientCallback_dispatch (c, VEngineeringInfoUpdated _ _ _) st = st"
| "OplusClientCallback_dispatch (c, VUIReady _) st = st"

text \<open>A call of the vendor service, with the callbacks it makes.\<close>

definition vendor_call :: "vendor \<Rightarrow> VendorCall \<Rightarrow> fp_state \<Rightarrow> fp_state" where
  "vendor_call V call st = fold OplusClientCallback_dispatch (v_events V call) (st\<lparr>fp_called := fp_called st @ [call]\<rparr>)"

section \<open>Methods of the adapter\<close>

definition setNotify :: "vendor \<Rightarrow> client option \<Rightarrow> fp_state \<Rightarrow> u64 \<times> fp_state" where
  "setNotify V clientCallback st =
     (v_number V (CSetNotify clientCallback),
      vendor_call V (CSetNotify clientCallback) (st\<lparr>mClientCallback := Some clientCallback\<rparr>))"

definition preEnroll :: "vendor \<Rightarrow> fp_state \<Rightarrow> u64 \<times> fp_state" where
  "preEnroll V st = (v_number V CPreEnroll, vendor_call V CPreEnroll st)"

definition enroll :: "vendor \<Rightarrow> u8 list \<Rightarrow> u32 \<Rightarrow> u32 \<Rightarrow> fp_state \<Rightarrow> RequestStatus \<times> fp_state" where
  "enroll V hat gid timeoutSec st =
     (let call = CEnroll hat gid timeoutSec in (OplusToAOSPRequestStatus (v_status V call), vendor_call V call st))"

definition postEnroll :: "vendor \<Rightarrow> fp_state \<Rightarrow> RequestStatus \<times> fp_state" where
  "postEnroll V st = (OplusToAOSPRequestStatus (v_status V CPostEnroll), vendor_call V CPostEnroll st)"

definition getAuthenticatorId :: "vendor \<Rightarrow> fp_state \<Rightarrow> u64 \<times> fp_state" where
  "getAuthenticatorId V st = (v_number V CGetAuthenticatorId, vendor_call V CGetAuthenticatorId st)"

text \<open>\<open>mOplusClientCallback->mClientCallback->method (...)\<close>: undefined when either pointer is null.\<close>

definition tell_registered :: "ClientEvent \<Rightarrow> fp_state \<Rightarrow> fp_state ub" where
  "tell_registered e st = (case mClientCallback st of Some (Some c) \<Rightarrow> Some (tell (Some c) e st) | _ \<Rightarrow> None)"

definition cancel :: "vendor \<Rightarrow> fp_state \<Rightarrow> (RequestStatus \<times> fp_state) ub" where
  "cancel V st = do {
     let st = vendor_call V CCancel (st\<lparr>receivedCancel := False\<rparr>);
     let ret = OplusToAOSPRequestStatus (v_status V CCancel);
     st \<leftarrow> (if \<not> receivedCancel st then tell_registered (Error (myDeviceId st) ERROR_CANCELED 0) st else Some st);
     Some (ret, st)
   }"

text \<open>The loop over the known fingers; the counter is a \<open>size_t\<close>, passed on as 32 bits.\<close>

fun enumerate_known :: "u32 list \<Rightarrow> u64 \<Rightarrow> fp_state \<Rightarrow> fp_state ub" where
  "enumerate_known [] nFingers st = Some st"
| "enumerate_known (finger # fingers) nFingers st =
     tell_registered (Enumerate (myDeviceId st) finger 0 (ucast (nFingers - 1))) st \<bind> enumerate_known fingers (nFingers - 1)"

definition enumerate_fp :: "vendor \<Rightarrow> fp_state \<Rightarrow> (RequestStatus \<times> fp_state) ub" where
  "enumerate_fp V st = do {
     let st = vendor_call V CEnumerate (st\<lparr>receivedEnumerate := False\<rparr>);
     let ret = OplusToAOSPRequestStatus (v_status V CEnumerate);
     st \<leftarrow> (if ret = SYS_OK \<and> \<not> receivedEnumerate st
           then (if knownFingers st \<noteq> [] then enumerate_known (knownFingers st) (of_nat (length (knownFingers st))) st
                 else tell_registered (Enumerate (myDeviceId st) 0 0 0) st)
           else Some st);
     Some (ret, st)
   }"

definition remove_fp :: "vendor \<Rightarrow> u32 \<Rightarrow> u32 \<Rightarrow> fp_state \<Rightarrow> RequestStatus \<times> fp_state" where
  "remove_fp V gid fid st =
     (let call = CRemove gid fid in (OplusToAOSPRequestStatus (v_status V call), vendor_call V call st))"

definition setActiveGroup :: "vendor \<Rightarrow> u32 \<Rightarrow> string \<Rightarrow> fp_state \<Rightarrow> RequestStatus \<times> fp_state" where
  "setActiveGroup V gid storePath st =
     (let call = CSetActiveGroup gid storePath in (OplusToAOSPRequestStatus (v_status V call), vendor_call V call st))"

definition authenticate :: "vendor \<Rightarrow> u64 \<Rightarrow> u32 \<Rightarrow> fp_state \<Rightarrow> RequestStatus \<times> fp_state" where
  "authenticate V operationId gid st =
     (let call = CAuthenticate operationId gid in (OplusToAOSPRequestStatus (v_status V call), vendor_call V call st))"

section \<open>The effect of the vendor's callbacks\<close>

fun client_event :: "VendorEvent \<Rightarrow> ClientEvent option" where
  "client_event (VEnrollResult d f g r) = Some (EnrollResult d f g r)"
| "client_event (VAcquired d i v) = Some (Acquired d (OplusToAOSPFingerprintAcquiredInfo i) v)"
| "client_event (VAuthenticated d f g t) = Some (Authenticated d f g t)"
| "client_event (VError d e v) = Some (Error d (OplusToAOSPFingerprintError e) v)"
| "client_event (VRemoved d f g r) = Some (Removed d f g r)"
| "client_event (VEnumerate d f g r) = Some (Enumerate d f g r)"
| "client_event _ = None"

definition forwarded :: "(client option \<times> VendorEvent) list \<Rightarrow> (client \<times> ClientEvent) list" where
  "forwarded events = List.map_filter (\<lambda>(c, e). case (c, client_event e) of (Some c, Some e) \<Rightarrow> Some (c, e) | _ \<Rightarrow> None) events"

definition cancelled_by :: "(client option \<times> VendorEvent) list \<Rightarrow> bool" where
  "cancelled_by events \<longleftrightarrow> (\<exists>(c, e)\<in>set events. \<exists>d v. e = VError d V_ERROR_CANCELED v)"

definition enumerated_by :: "(client option \<times> VendorEvent) list \<Rightarrow> bool" where
  "enumerated_by events \<longleftrightarrow> (\<exists>(c, e)\<in>set events. \<exists>d f g r. e = VEnumerate d f g r)"

fun templates_after :: "(client option \<times> VendorEvent) list \<Rightarrow> u64 \<times> u32 list \<Rightarrow> u64 \<times> u32 list" where
  "templates_after [] t = t"
| "templates_after ((_, VSyncTemplates d fs _) # events) t = templates_after events (d, fs)"
| "templates_after (_ # events) t = templates_after events t"

lemmas callbacks = onEnrollResult_def onAcquired_def onAuthenticated_def onError_def onRemoved_def onEnumerate_def onSyncTemplates_def

lemma forwarded_simps:
  "forwarded [] = []"
  "forwarded ((c, e) # events) = (case (c, client_event e) of (Some c, Some e) \<Rightarrow> [(c, e)] | _ \<Rightarrow> []) @ forwarded events"
  by (auto simp: forwarded_def map_filter_simps split: option.splits)

lemma dispatch_all:
  "fold OplusClientCallback_dispatch events st =
     st\<lparr>receivedCancel := receivedCancel st \<or> cancelled_by events, receivedEnumerate := receivedEnumerate st \<or> enumerated_by events,
        myDeviceId := fst (templates_after events (myDeviceId st, knownFingers st)),
        knownFingers := snd (templates_after events (myDeviceId st, knownFingers st)),
        fp_told := fp_told st @ forwarded events\<rparr>"
proof (induction events arbitrary: st)
  case (Cons ev events)
  obtain c e where ev: "ev = (c, e)" by (cases ev)
  show ?case
    by (cases e; cases c)
       (auto simp: ev Cons.IH callbacks tell_def forwarded_simps cancelled_by_def enumerated_by_def Let_def)
qed (simp add: forwarded_simps cancelled_by_def enumerated_by_def)

lemma vendor_call_effect:
  "vendor_call V call st =
     st\<lparr>receivedCancel := receivedCancel st \<or> cancelled_by (v_events V call),
        receivedEnumerate := receivedEnumerate st \<or> enumerated_by (v_events V call),
        myDeviceId := fst (templates_after (v_events V call) (myDeviceId st, knownFingers st)),
        knownFingers := snd (templates_after (v_events V call) (myDeviceId st, knownFingers st)),
        fp_told := fp_told st @ forwarded (v_events V call), fp_called := fp_called st @ [call]\<rparr>"
  by (simp add: vendor_call_def dispatch_all)

lemma cancel_error_iff:
  "OplusToAOSPFingerprintError e = ERROR_CANCELED \<longleftrightarrow> e = V_ERROR_CANCELED"
  "ERROR_CANCELED = OplusToAOSPFingerprintError e \<longleftrightarrow> e = V_ERROR_CANCELED"
  by (cases e; simp)+

lemma forwarded_cancel_iff:
  "(\<exists>d v. (c, Error d ERROR_CANCELED v) \<in> set (forwarded events)) \<longleftrightarrow> (\<exists>d v. (Some c, VError d V_ERROR_CANCELED v) \<in> set events)"
proof (induction events)
  case (Cons ev events)
  obtain t e where ev: "ev = (t, e)" by (cases ev)
  have "(\<exists>d v. (c, Error d ERROR_CANCELED v) \<in> set (case (t, client_event e) of (Some c, Some e) \<Rightarrow> [(c, e)] | _ \<Rightarrow> [])) \<longleftrightarrow>
      (\<exists>d v. t = Some c \<and> e = VError d V_ERROR_CANCELED v)"
    by (cases t; cases e) (auto simp: cancel_error_iff dest: cancel_error_iff(2) [THEN iffD1])
  then show ?case using Cons.IH by (auto simp: ev forwarded_simps simp del: split_paired_Ex)
qed (simp add: forwarded_simps)

section \<open>Cancelling and enumerating\<close>

lemma tell_registered_Some: "mClientCallback st = Some (Some c) \<Longrightarrow> tell_registered e st = Some (st\<lparr>fp_told := fp_told st @ [(c, e)]\<rparr>)"
  by (simp add: tell_registered_def tell_def)

text \<open>C25: a cancel with a registered client returns the vendor's status, translated, and the clients are told exactly this: the vendor's
  callbacks are forwarded, and when none of them, to whichever callback object, was the cancel error the adapter sends that error to the registered
  client itself, once, with code zero and the device of the last template synchronisation. So the registered client hears of the cancel
  exactly when the vendor reported it to that client's callback object or to none.\<close>

theorem cancel_reported:
  fixes V :: vendor
  assumes "mClientCallback st = Some (Some c)"
  defines "events \<equiv> v_events V CCancel"
  shows "\<exists>st'. cancel V st = Some (OplusToAOSPRequestStatus (v_status V CCancel), st') \<and>
     fp_told st' = fp_told st @ forwarded events @
       (if cancelled_by events then []
        else [(c, Error (fst (templates_after events (myDeviceId st, knownFingers st))) ERROR_CANCELED 0)]) \<and>
     ((\<exists>d v. (c, Error d ERROR_CANCELED v) \<in> set (drop (length (fp_told st)) (fp_told st'))) \<longleftrightarrow>
        \<not> cancelled_by events \<or> (\<exists>d v. (Some c, VError d V_ERROR_CANCELED v) \<in> set events))"
  using assms forwarded_cancel_iff [of c events]
  by (cases "cancelled_by events") (auto simp: cancel_def vendor_call_effect tell_registered_Some)

text \<open>The flag does not say whom the vendor told: a cancel error sent to the callback object of another client, or to one without a
  client, keeps the adapter from telling the registered one.\<close>

lemma cancel_misses_client:
  assumes "mClientCallback st = Some (Some c)" "v_events V CCancel = [(other, VError d V_ERROR_CANCELED v)]" "other \<noteq> Some c"
  shows "\<exists>st'. cancel V st = Some (OplusToAOSPRequestStatus (v_status V CCancel), st') \<and>
     (\<forall>e. (c, e) \<notin> set (drop (length (fp_told st)) (fp_told st')))"
  using assms by (cases other) (auto simp: cancel_def vendor_call_effect cancelled_by_def forwarded_simps)

lemma remaining_word:
  assumes "0 < n"
  shows "(ucast (of_nat n - 1 :: u64) :: u32) = of_nat (n - 1)"
proof -
  have "(of_nat n - 1 :: u64) = of_nat (n - 1)" using assms by (simp add: of_nat_diff)
  then show ?thesis by (simp add: unsigned_of_nat word_of_nat_eq_iff)
qed

lemma enumerate_known_told:
  assumes "mClientCallback st = Some (Some c)"
  shows "enumerate_known fingers (of_nat (length fingers)) st =
     Some (st\<lparr>fp_told := fp_told st @ map (\<lambda>i. (c, Enumerate (myDeviceId st) (fingers ! i) 0 (of_nat (length fingers - 1 - i)))) [0..<length fingers]\<rparr>)"
  using assms
proof (induction fingers arbitrary: st)
  case (Cons finger fingers)
  have "(of_nat (length (finger # fingers)) - 1 :: u64) = of_nat (length fingers)" by simp
  moreover have "(ucast (of_nat (length (finger # fingers)) - 1 :: u64) :: u32) = of_nat (length fingers)"
    using remaining_word [of "length (finger # fingers)"] by simp
  moreover have "[0..<length (finger # fingers)] = 0 # map Suc [0..<length fingers]"
    by (metis length_Cons list.size(4) map_Suc_upt upt_conv_Cons zero_less_Suc)
  ultimately show ?case using Cons by (simp add: tell_registered_Some comp_def del: upt_Suc)
qed simp

text \<open>C29: with a registered client, an enumeration the vendor answers with success but without a single callback is carried
  out by the adapter: the client gets one record for each finger of the last template synchronisation, in order, with the
  number of records that remain counting down to zero, or one empty record when no finger is known. In every other case the
  client gets exactly what the vendor sent.\<close>

theorem enumerate_substitutes:
  fixes V :: vendor
  assumes "mClientCallback st = Some (Some c)"
  defines "events \<equiv> v_events V CEnumerate"
  defines "device \<equiv> fst (templates_after events (myDeviceId st, knownFingers st))"
  defines "fingers \<equiv> snd (templates_after events (myDeviceId st, knownFingers st))"
  shows "\<exists>st'. enumerate_fp V st = Some (OplusToAOSPRequestStatus (v_status V CEnumerate), st') \<and>
     fp_told st' = fp_told st @ forwarded events @
       (if v_status V CEnumerate = V_SYS_OK \<and> \<not> enumerated_by events
        then (if fingers = [] then [(c, Enumerate device 0 0 0)]
              else map (\<lambda>i. (c, Enumerate device (fingers ! i) 0 (of_nat (length fingers - 1 - i)))) [0..<length fingers])
        else [])"
proof -
  have ok: "OplusToAOSPRequestStatus s = SYS_OK \<longleftrightarrow> s = V_SYS_OK" for s by (cases s) simp_all
  show ?thesis
    using assms(1) unfolding assms(2-)
    by (auto simp: enumerate_fp_def vendor_call_effect tell_registered_Some enumerate_known_told ok)
qed

section \<open>Histories\<close>

text \<open>A call of the adapter, with the state it leaves; the vendor may behave differently at every call.\<close>

inductive fp_step :: "vendor \<Rightarrow> fp_state \<Rightarrow> fp_state \<Rightarrow> bool" where
  "fp_step V st (snd (setNotify V c st))"
| "fp_step V st (snd (preEnroll V st))"
| "fp_step V st (snd (enroll V hat gid timeoutSec st))"
| "fp_step V st (snd (postEnroll V st))"
| "fp_step V st (snd (getAuthenticatorId V st))"
| "cancel V st = Some (r, st') \<Longrightarrow> fp_step V st st'"
| "enumerate_fp V st = Some (r, st') \<Longrightarrow> fp_step V st st'"
| "fp_step V st (snd (remove_fp V gid fid st))"
| "fp_step V st (snd (setActiveGroup V gid storePath st))"
| "fp_step V st (snd (authenticate V operationId gid st))"

definition fp_init :: fp_state where
  "fp_init = \<lparr>receivedCancel = False, receivedEnumerate = False, myDeviceId = 0, knownFingers = [], mClientCallback = None,
     fp_told = [], fp_called = []\<rparr>"

text \<open>The vendor calls only callback objects that it has been given.\<close>

definition given :: "fp_state \<Rightarrow> client \<Rightarrow> bool" where
  "given st c \<longleftrightarrow> CSetNotify (Some c) \<in> set (fp_called st)"

definition calls_given :: "vendor \<Rightarrow> fp_state \<Rightarrow> bool" where
  "calls_given V st \<longleftrightarrow> (\<forall>call. \<forall>(d, e)\<in>set (v_events V call). \<forall>c. d = Some c \<longrightarrow> given st c \<or> call = CSetNotify (Some c))"

inductive fp_reachable :: "fp_state \<Rightarrow> bool" where
  "fp_reachable fp_init"
| "fp_reachable st \<Longrightarrow> calls_given V st \<Longrightarrow> fp_step V st st' \<Longrightarrow> fp_reachable st'"

definition fp_inv :: "fp_state \<Rightarrow> bool" where
  "fp_inv st \<longleftrightarrow> (\<forall>(c, e)\<in>set (fp_told st). given st c) \<and> (\<forall>c. mClientCallback st = Some (Some c) \<longrightarrow> given st c) \<and>
     (mClientCallback st = None \<longleftrightarrow> (\<forall>c. CSetNotify c \<notin> set (fp_called st)))"

lemma forwarded_member: "(c, e) \<in> set (forwarded events) \<Longrightarrow> \<exists>e'. (Some c, e') \<in> set events"
  by (induction events) (fastforce simp: forwarded_simps split: option.splits)+

lemma told_given:
  "fp_inv st \<Longrightarrow> calls_given V st \<Longrightarrow> (c, e) \<in> set (fp_told (vendor_call V call st)) \<Longrightarrow> given st c \<or> call = CSetNotify (Some c)"
  by (fastforce simp: vendor_call_effect fp_inv_def calls_given_def dest!: forwarded_member)

lemma vendor_call_inv:
  assumes "fp_inv st" "calls_given V st" "\<And>c. call \<noteq> CSetNotify c"
  shows "fp_inv (vendor_call V call (st\<lparr>receivedCancel := a, receivedEnumerate := b\<rparr>))"
proof -
  let ?s = "st\<lparr>receivedCancel := a, receivedEnumerate := b\<rparr>"
  have "fp_inv ?s" "calls_given V ?s" using assms by (simp_all add: fp_inv_def calls_given_def given_def)
  then have "\<forall>(c, e)\<in>set (fp_told (vendor_call V call ?s)). given ?s c" using told_given assms(3) by fast
  then show ?thesis using assms unfolding fp_inv_def by (auto simp: vendor_call_effect given_def)
qed

lemma setNotify_inv:
  assumes "fp_inv st" "calls_given V st"
  shows "fp_inv (snd (setNotify V c st))"
  using assms forwarded_member [of _ _ "v_events V (CSetNotify c)"]
  by (fastforce simp: setNotify_def fp_inv_def calls_given_def given_def vendor_call_effect)

lemma told_registered_inv: "fp_inv st \<Longrightarrow> tell_registered e st = Some st' \<Longrightarrow> fp_inv st' \<and> mClientCallback st' = mClientCallback st"
  by (auto simp: tell_registered_def tell_def fp_inv_def given_def split: option.splits)

lemma enumerate_known_inv: "fp_inv st \<Longrightarrow> enumerate_known fingers n st = Some st' \<Longrightarrow> fp_inv st'"
  by (induction fingers n st rule: enumerate_known.induct) (auto elim!: bind_SomeE dest: told_registered_inv)

lemma plain_call_inv: "fp_inv st \<Longrightarrow> calls_given V st \<Longrightarrow> (\<And>c. call \<noteq> CSetNotify c) \<Longrightarrow> fp_inv (vendor_call V call st)"
  using vendor_call_inv [where st = st and V = V and call = call and a = "receivedCancel st" and b = "receivedEnumerate st"] by simp

lemma fp_step_inv: "fp_step V st st' \<Longrightarrow> fp_inv st \<Longrightarrow> calls_given V st \<Longrightarrow> fp_inv st'"
proof (induction rule: fp_step.induct)
  case (6 V st r st')
  have "fp_inv (vendor_call V CCancel (st\<lparr>receivedCancel := False\<rparr>))"
    using vendor_call_inv [OF "6.prems", where call = CCancel and a = False and b = "receivedEnumerate st"] by simp
  then show ?case using "6.hyps" by (auto simp: cancel_def Let_def dest: told_registered_inv elim!: bind_SomeE split: if_splits)
next
  case (7 V st r st')
  have "fp_inv (vendor_call V CEnumerate (st\<lparr>receivedEnumerate := False\<rparr>))"
    using vendor_call_inv [OF "7.prems", where call = CEnumerate and a = "receivedCancel st" and b = False] by simp
  moreover obtain s where s: "s = vendor_call V CEnumerate (st\<lparr>receivedEnumerate := False\<rparr>)" by simp
  ultimately have "fp_inv s" by simp
  from "7.hyps" consider "tell_registered (Enumerate (myDeviceId s) 0 0 0) s = Some st'"
    | "enumerate_known (knownFingers s) (of_nat (length (knownFingers s))) s = Some st'" | "st' = s"
    unfolding enumerate_fp_def s [symmetric] by (auto simp: Let_def elim!: bind_SomeE split: if_splits)
  then show ?case using \<open>fp_inv s\<close> told_registered_inv enumerate_known_inv by cases blast+
qed (auto simp: setNotify_inv preEnroll_def enroll_def postEnroll_def getAuthenticatorId_def remove_fp_def setActiveGroup_def
      authenticate_def Let_def plain_call_inv)

text \<open>As long as the vendor uses only the callback objects it was given, in every reachable state every message went to a
  client that had been registered before, the registered client is one that the vendor knows, and some client object is
  registered exactly when \<open>setNotify\<close> has been called.\<close>

lemma fingerprint_invariant: "fp_reachable st \<Longrightarrow> fp_inv st"
proof (induction rule: fp_reachable.induct)
  case 1
  show ?case by (simp add: fp_init_def fp_inv_def)
qed (rule fp_step_inv)

text \<open>Before the first \<open>setNotify\<close>, and after one with a null client, a cancel the vendor does not answer dereferences a null pointer.\<close>

lemma cancel_undefined:
  "mClientCallback st = None \<or> mClientCallback st = Some None \<Longrightarrow> \<not> cancelled_by (v_events V CCancel) \<Longrightarrow> cancel V st = None"
  by (auto simp: cancel_def vendor_call_effect tell_registered_def)

text \<open>The adapter finds a service that appears within ten tries, and exits otherwise.\<close>

lemma connect_from_found:
  "(\<forall>j. i \<le> j \<and> j < k \<longrightarrow> svc j = None) \<Longrightarrow> svc k = Some s \<Longrightarrow> i \<le> k \<Longrightarrow> k < 10 \<Longrightarrow> connect_from svc i = (Some s, 10 * (k - i))"
proof (induction svc i rule: connect_from.induct)
  case (1 svc i)
  show ?case
  proof (cases "i = k")
    case False
    then have i: "i < 10" "svc i = None" using "1.prems" by auto
    have "connect_from svc (i + 1) = (Some s, 10 * (k - (i + 1)))"
      using "1.IH" [OF i] "1.prems" False by auto
    then show ?thesis using i False "1.prems"(3) by (subst connect_from.simps) simp
  qed (use "1.prems" in \<open>subst connect_from.simps, simp\<close>)
qed

lemma connect_from_lost: "(\<forall>j. i \<le> j \<and> j < 10 \<longrightarrow> svc j = None) \<Longrightarrow> connect_from svc i = (None, 10 * (10 - i))"
proof (induction svc i rule: connect_from.induct)
  case (1 svc i)
  show ?case
  proof (cases "i < 10")
    case True
    then have i: "svc i = None" using "1.prems" by auto
    show ?thesis using "1.IH" [OF True i] "1.prems" True i by (subst connect_from.simps) auto
  qed (subst connect_from.simps, simp)
qed

section \<open>Witnesses\<close>

definition silent_vendor :: vendor where
  "silent_vendor = \<lparr>v_status = (\<lambda>_. V_SYS_OK), v_number = (\<lambda>_. 1), v_events = (\<lambda>call. case call of
     CSetNotify (Some c) \<Rightarrow> [(Some c, VSyncTemplates 7 [11, 12] 0)] | _ \<Rightarrow> [])\<rparr>"

definition notified :: fp_state where "notified = snd (setNotify silent_vendor (Some 3) fp_init)"

lemma notified_unfold: "notified = \<lparr>receivedCancel = False, receivedEnumerate = False, myDeviceId = 7, knownFingers = [11, 12],
  mClientCallback = Some (Some 3), fp_told = [], fp_called = [CSetNotify (Some 3)]\<rparr>"
  by (simp add: notified_def silent_vendor_def fp_init_def setNotify_def vendor_call_def callbacks)

theorem cancel_reported_witness:
  "\<exists>st'. cancel silent_vendor notified = Some (SYS_OK, st') \<and> fp_told st' = [(3, Error 7 ERROR_CANCELED 0)]"
  using cancel_reported [of notified 3 silent_vendor]
  by (auto simp: notified_unfold silent_vendor_def forwarded_simps cancelled_by_def)

theorem enumerate_substitutes_witness:
  "\<exists>st'. enumerate_fp silent_vendor notified = Some (SYS_OK, st') \<and> fp_told st' = [(3, Enumerate 7 11 0 1), (3, Enumerate 7 12 0 0)]"
  using enumerate_substitutes [of notified 3 silent_vendor]
  by (auto simp: notified_unfold silent_vendor_def forwarded_simps enumerated_by_def upt_rec numeral_2_eq_2)

lemma fingerprint_invariant_witness: "fp_inv notified"
proof -
  have "calls_given silent_vendor fp_init"
    by (auto simp: calls_given_def silent_vendor_def split: VendorCall.splits option.splits)
  then have "fp_reachable notified" unfolding notified_def using fp_reachable.intros(2) [OF fp_reachable.intros(1) _ fp_step.intros(1)] by blast
  then show ?thesis by (rule fingerprint_invariant)
qed

end
