(* ===== verification/Hal_Base.thy ===== *)
theory Hal_Base
  imports BT_Prelude Complex_Main "HOL-Library.State_Monad"
begin

text \<open>
  The primary audio HAL (\<^verbatim>\<open>audio/hal\<close>), first part: the results, the legacy HAL it wraps, and
  \<^verbatim>\<open>ParametersUtil\<close>.

  The code is compiled once for every version of the interface; the version is a field of the environment and each
  \<open>#if\<close> a case distinction on it. What is not part of the sources is in the environment too: the replies of the
  legacy HAL, as a function of the calls it has received so far, which of its function pointers are set, the
  conversions of \<^verbatim>\<open>HidlUtils\<close> and \<^verbatim>\<open>CoreUtils\<close>, the class \<^verbatim>\<open>AudioParameter\<close>, and the text constants of the
  system headers. Values that only these conversions look into have the type \<open>'v\<close>. Log lines are not modelled.
\<close>

section \<open>Results\<close>

datatype Result = OK | NOT_INITIALIZED | INVALID_ARGUMENTS | INVALID_STATE | NOT_SUPPORTED

abbreviation EAGAIN :: int where "EAGAIN \<equiv> 11"
abbreviation ENODEV :: int where "ENODEV \<equiv> 19"
abbreviation EINVAL :: int where "EINVAL \<equiv> 22"
abbreviation ENOSYS :: int where "ENOSYS \<equiv> 38"
abbreviation ENODATA :: int where "ENODATA \<equiv> 61"

text \<open>The variants of \<open>analyzeStatus\<close> with names and ignored errors differ in their log lines only.\<close>

definition analyzeStatus :: "int \<Rightarrow> Result" where
  "analyzeStatus status =
     (if status = 0 then OK
      else if status = - EINVAL then INVALID_ARGUMENTS
      else if status = - ENODATA then INVALID_STATE
      else if status = - ENODEV then NOT_INITIALIZED
      else if status = - ENOSYS then NOT_SUPPORTED
      else INVALID_STATE)"

datatype cfloat = Finite real | PosInf | NegInf | NaN

fun isGainNormalized :: "cfloat \<Rightarrow> bool" where
  "isGainNormalized (Finite gain) \<longleftrightarrow> gain \<ge> 0 \<and> gain \<le> 1"
| "isGainNormalized _ \<longleftrightarrow> False"

section \<open>The legacy HAL\<close>

datatype target = Dev | Out nat | In nat

text \<open>The functions of the legacy HAL, by the names of their pointers.\<close>

type_synonym hal_fn = string

datatype 'v arg = N int | S string | F cfloat | B bool | V 'v | Vs "'v list" | Bytes "u8 list"

datatype 'v hal_call = Call target hal_fn "'v arg list"

record 'v reply =
  rp_status :: int
  rp_number :: int
  rp_field :: "string \<Rightarrow> int"
  rp_float :: cfloat
  rp_text :: "string option"
  rp_bytes :: "u8 list"
  rp_value :: 'v
  rp_values :: "'v list"

section \<open>Objects\<close>

text \<open>A \<open>StreamOut\<close> or \<open>StreamIn\<close> object. Objects are numbered as they are created, and a legacy stream has the number of its object.\<close>

record stream_obj =
  so_stop :: bool
  so_dataMQ :: "nat option"
  so_callback :: "nat option"
  so_eventCallback :: "nat option"
  so_latencyModeCallback :: "nat option"

record 'v world =
  w_trace :: "'v hal_call list"
  w_isClosed :: bool
  w_openedStreamsCount :: int
  w_next :: nat
  w_outs :: "nat \<Rightarrow> stream_obj option"
  w_ins :: "nat \<Rightarrow> stream_obj option"

section \<open>The environment\<close>

text \<open>\<^verbatim>\<open>AudioParameter\<close>: a set of keys and values, with its text forms.\<close>

record 'p audio_parameter =
  ap_parse :: "string \<Rightarrow> 'p"
  ap_add :: "string \<Rightarrow> string \<Rightarrow> 'p \<Rightarrow> 'p"
  ap_addInt :: "string \<Rightarrow> int \<Rightarrow> 'p \<Rightarrow> 'p"
  ap_addFloat :: "string \<Rightarrow> cfloat \<Rightarrow> 'p \<Rightarrow> 'p"
  ap_addKey :: "string \<Rightarrow> 'p \<Rightarrow> 'p"
  ap_empty :: 'p
  ap_toString :: "'p \<Rightarrow> string"
  ap_keysToString :: "'p \<Rightarrow> string"
  ap_get :: "string \<Rightarrow> 'p \<Rightarrow> int \<times> string"
  ap_getInt :: "string \<Rightarrow> 'p \<Rightarrow> int \<times> int"
  ap_size :: "'p \<Rightarrow> nat"
  ap_getAt :: "nat \<Rightarrow> 'p \<Rightarrow> int \<times> string \<times> string"

datatype param_const =
    KeyFrameCount | StreamFormat | KeyStreamSupportedSamplingRates | KeyStreamSupportedChannels | KeySamplingRate
  | KeyChannels | KeyStreamSupportedFormats | KeyFormat | KeyStreamHwAvSync | KeyRouting | KeyDeviceConnect
  | KeyDeviceDisconnect | KeyHwAvSync | KeyScreenState | KeyInputSource | KeyBtNrec | KeyBtScoWb | KeyTtyMode | KeyHac
  | KeyBtScoHeadsetName | KeyHfpEnable | KeyHfpSetSamplingRate | KeyHfpVolume | KeyRotation
  | ValueOn | ValueOff | ValueTtyOff | ValueTtyVco | ValueTtyHco | ValueTtyFull
  | ModuleId | ModulePrimary | ModuleA2dp | ModuleUsb | ModuleRemoteSubmix | ModuleStub

datatype conversion =
    DeviceAddressToHal | DeviceAddressFromHal | AudioConfigToHal | AudioConfigFromHalOut | AudioConfigFromHalIn
  | AudioFormatToHal | AudioOutputFlagsToHal | AudioInputFlagsToHal | AudioSourceToHal
  | AudioSourceFromHal | SourceMetadataToHal | SourceMetadataToHalV7 | SinkMetadataToHal | SinkMetadataToHalV7
  | AudioPortConfigsToHal | AudioPortConfigToHal | AudioPortToHal | AudioPortFromHal | MicrophoneInfoFromHal | BaseOfTrackV7
  | DefaultValue

record ('p, 'v) env =
  e_major :: nat
  e_minor :: nat
  e_version :: nat
  e_ap :: "'p audio_parameter"
  e_text :: "param_const \<Rightarrow> string"
  e_has :: "target \<Rightarrow> hal_fn \<Rightarrow> bool"
  e_reply :: "'v hal_call list \<Rightarrow> 'v hal_call \<Rightarrow> 'v reply"
  e_conv :: "conversion \<Rightarrow> 'v list \<Rightarrow> 'v reply"
  e_conv_int :: "conversion \<Rightarrow> int \<Rightarrow> 'v reply"
  e_rates :: "string \<Rightarrow> u32 list"
  e_masks :: "string \<Rightarrow> u32 list"
  e_formats :: "string \<Rightarrow> u32 list"
  e_split :: "string \<Rightarrow> string list"
  e_formatsFromHal :: "string list \<Rightarrow> 'v list"
  e_masksFromHal :: "string list \<Rightarrow> 'v list"
  e_effect :: "u64 \<Rightarrow> 'v option"

type_synonym ('v, 'a) hal_m = "('v world, 'a) state"

abbreviation return :: "'a \<Rightarrow> ('v, 'a) hal_m" where "return \<equiv> State_Monad.return"

text \<open>A call of a function of the legacy HAL.\<close>

definition hal :: "('p, 'v) env \<Rightarrow> target \<Rightarrow> hal_fn \<Rightarrow> 'v arg list \<Rightarrow> ('v, 'v reply) hal_m" where
  "hal E t f args = State (\<lambda>w. (e_reply E (w_trace w) (Call t f args), w\<lparr>w_trace := w_trace w @ [Call t f args]\<rparr>))"

text \<open>A call whose status is the result of the method.\<close>

definition hal_result :: "('p, 'v) env \<Rightarrow> target \<Rightarrow> hal_fn \<Rightarrow> 'v arg list \<Rightarrow> ('v, Result) hal_m" where
  "hal_result E t f args = do { r \<leftarrow> hal E t f args; return (analyzeStatus (rp_status r)) }"

lemma run_hal [simp]:
  "run_state (hal E t f args) w = (e_reply E (w_trace w) (Call t f args), w\<lparr>w_trace := w_trace w @ [Call t f args]\<rparr>)"
  by (simp add: hal_def)

lemma run_hal_result [simp]:
  "run_state (hal_result E t f args) w =
     (analyzeStatus (rp_status (e_reply E (w_trace w) (Call t f args))), w\<lparr>w_trace := w_trace w @ [Call t f args]\<rparr>)"
  by (simp add: hal_result_def)

section \<open>ParametersUtil\<close>

definition getHalStatusToResult :: "int \<Rightarrow> Result" where
  "getHalStatusToResult status =
     (if status = 0 then OK else if status = - EINVAL then NOT_SUPPORTED
      else if status = - ENOSYS then INVALID_ARGUMENTS else INVALID_ARGUMENTS)"

text \<open>The methods are given the object whose \<open>halGetParameters\<close> and \<open>halSetParameters\<close> they call.\<close>

definition getParams :: "('p, 'v) env \<Rightarrow> target \<Rightarrow> 'p \<Rightarrow> ('v, 'p) hal_m" where
  "getParams E t keys = do {
     r \<leftarrow> hal E t ''get_parameters'' [S (ap_keysToString (e_ap E) keys)];
     return (ap_parse (e_ap E) (case rp_text r of Some s \<Rightarrow> s | None \<Rightarrow> []))
   }"

definition setParams :: "('p, 'v) env \<Rightarrow> target \<Rightarrow> 'p \<Rightarrow> ('v, Result) hal_m" where
  "setParams E t param = hal_result E t ''set_parameters'' [S (ap_toString (e_ap E) param)]"

definition getParam_string :: "('p, 'v) env \<Rightarrow> target \<Rightarrow> string \<Rightarrow> 'p \<Rightarrow> ('v, Result \<times> string) hal_m" where
  "getParam_string E t name context = do {
     params \<leftarrow> getParams E t (ap_addKey (e_ap E) name context);
     let (status, value) = ap_get (e_ap E) name params;
     return (getHalStatusToResult status, value)
   }"

definition getParam_int :: "('p, 'v) env \<Rightarrow> target \<Rightarrow> string \<Rightarrow> ('v, Result \<times> int) hal_m" where
  "getParam_int E t name = do {
     params \<leftarrow> getParams E t (ap_addKey (e_ap E) name (ap_empty (e_ap E)));
     let (status, value) = ap_getInt (e_ap E) name params;
     return (getHalStatusToResult status, value)
   }"

definition getParam_bool :: "('p, 'v) env \<Rightarrow> target \<Rightarrow> string \<Rightarrow> ('v, Result \<times> bool) hal_m" where
  "getParam_bool E t name = do {
     (retval, halValue) \<leftarrow> getParam_string E t name (ap_empty (e_ap E));
     return (if retval = OK then (if halValue = [] then (NOT_SUPPORTED, False) else (retval, halValue \<noteq> e_text E ValueOff))
             else (retval, False))
   }"

fun getParametersImpl_loop :: "'p audio_parameter \<Rightarrow> 'p \<Rightarrow> nat list \<Rightarrow> (string \<times> string) list \<Rightarrow> Result \<Rightarrow> Result \<times> (string \<times> string) list" where
  "getParametersImpl_loop A halValues [] result retval = (retval, result)"
| "getParametersImpl_loop A halValues (i # is) result retval =
     (let (status, halKey, halValue) = ap_getAt A i halValues in
      if status \<noteq> 0 then (getHalStatusToResult status, [])
      else getParametersImpl_loop A halValues is (result[i := (halKey, halValue)]) retval)"

definition getParametersImpl :: "('p, 'v) env \<Rightarrow> target \<Rightarrow> (string \<times> string) list \<Rightarrow> string list \<Rightarrow>
    ('v, Result \<times> (string \<times> string) list) hal_m" where
  "getParametersImpl E t context keys = do {
     let A = e_ap E;
     let halKeys = fold (\<lambda>(k, v). ap_add A k v) context (ap_empty A);
     let halKeys = fold (ap_addKey A) keys halKeys;
     halValues \<leftarrow> getParams E t halKeys;
     let retval = (if keys = [] \<or> ap_size A halValues \<noteq> 0 then OK else NOT_SUPPORTED);
     let result = replicate (ap_size A halValues) ([], []);
     return (getParametersImpl_loop A halValues [0..<ap_size A halValues] result retval)
   }"

definition setParam_string :: "('p, 'v) env \<Rightarrow> target \<Rightarrow> string \<Rightarrow> string \<Rightarrow> ('v, Result) hal_m" where
  "setParam_string E t name value = setParams E t (ap_add (e_ap E) name value (ap_empty (e_ap E)))"

definition setParam_bool :: "('p, 'v) env \<Rightarrow> target \<Rightarrow> string \<Rightarrow> bool \<Rightarrow> ('v, Result) hal_m" where
  "setParam_bool E t name value =
     setParams E t (ap_add (e_ap E) name (e_text E (if value then ValueOn else ValueOff)) (ap_empty (e_ap E)))"

definition setParam_int :: "('p, 'v) env \<Rightarrow> target \<Rightarrow> string \<Rightarrow> int \<Rightarrow> ('v, Result) hal_m" where
  "setParam_int E t name value = setParams E t (ap_addInt (e_ap E) name value (ap_empty (e_ap E)))"

definition setParam_float :: "('p, 'v) env \<Rightarrow> target \<Rightarrow> string \<Rightarrow> cfloat \<Rightarrow> ('v, Result) hal_m" where
  "setParam_float E t name value = setParams E t (ap_addFloat (e_ap E) name value (ap_empty (e_ap E)))"

definition setParametersImpl :: "('p, 'v) env \<Rightarrow> target \<Rightarrow> (string \<times> string) list \<Rightarrow> (string \<times> string) list \<Rightarrow> ('v, Result) hal_m" where
  "setParametersImpl E t context parameters = do {
     let A = e_ap E;
     let params = fold (\<lambda>(k, v). ap_add A k v) context (ap_empty A);
     let params = fold (\<lambda>(k, v). ap_add A k v) parameters params;
     setParams E t params
   }"

definition setParam_address :: "('p, 'v) env \<Rightarrow> target \<Rightarrow> string \<Rightarrow> 'v \<Rightarrow> ('v, Result) hal_m" where
  "setParam_address E t name address =
     (let c = e_conv E DeviceAddressToHal [address] in
      if rp_status c \<noteq> 0 then return INVALID_ARGUMENTS
      else setParams E t (ap_addInt (e_ap E) name (rp_number c) (ap_parse (e_ap E) (case rp_text c of Some s \<Rightarrow> s | None \<Rightarrow> []))))"

section \<open>Queries\<close>

lemma list_update_map_upt:
  "i < n \<Longrightarrow> (map f [0..<i] @ replicate (n - i) d)[i := f i] = map f [0..<Suc i] @ replicate (n - Suc i) d"
  by (simp add: list_update_append Suc_diff_Suc [symmetric])

lemma getParametersImpl_loop_ok:
  "\<forall>i<n. fst (ap_getAt A i p) = 0 \<Longrightarrow> i \<le> n \<Longrightarrow>
   getParametersImpl_loop A p [i..<n] (map (\<lambda>j. snd (ap_getAt A j p)) [0..<i] @ replicate (n - i) d) retval =
     (retval, map (\<lambda>j. snd (ap_getAt A j p)) [0..<n])"
proof (induction "n - i" arbitrary: i)
  case (Suc k)
  then have i: "i < n" by simp
  obtain key val where at: "ap_getAt A i p = (0, key, val)" using Suc.prems(1) i by (cases "ap_getAt A i p") fastforce
  have "[i..<n] = i # [Suc i..<n]" using i by (rule upt_conv_Cons)
  then show ?case
    using Suc.hyps(1) [of "Suc i"] Suc.hyps(2) Suc.prems i at list_update_map_upt [OF i, of "\<lambda>j. snd (ap_getAt A j p)" d]
    by (simp del: upt_Suc)
qed simp

lemma getParametersImpl_loop_bad:
  "i \<in> set is \<Longrightarrow> fst (ap_getAt A i p) \<noteq> 0 \<Longrightarrow> snd (getParametersImpl_loop A p is result retval) = []"
  by (induction "is" arbitrary: result) (auto split: prod.splits)

lemma getParametersImpl_loop_fails:
  "i \<in> set is \<Longrightarrow> fst (ap_getAt A i p) \<noteq> 0 \<Longrightarrow> fst (getParametersImpl_loop A p is result retval) \<noteq> OK"
  by (induction "is" arbitrary: result) (auto simp: getHalStatusToResult_def split: prod.splits)

text \<open>A query of parameters asks the legacy HAL once, for the given context and keys, and passes on what the parsed answer holds: all its
  pairs in order, or none if one of them cannot be read, with a failing result exactly when some keys were asked for and
  the answer is empty, or a pair cannot be read.\<close>

lemma getParameters_exact:
  fixes E :: "('p, 'v) env" and ctx :: "(string \<times> string) list" and keys :: "string list" and t :: target and w :: "'v world"
  defines "A \<equiv> e_ap E"
  defines "request \<equiv> fold (ap_addKey A) keys (fold (\<lambda>(k, v). ap_add A k v) ctx (ap_empty A))"
  defines "call \<equiv> Call t ''get_parameters'' [S (ap_keysToString A request)]"
  defines "answer \<equiv> ap_parse A (case rp_text (e_reply E (w_trace w) call) of Some s \<Rightarrow> s | None \<Rightarrow> [])"
  defines "readable \<equiv> \<forall>i<ap_size A answer. fst (ap_getAt A i answer) = 0"
  shows "snd (run_state (getParametersImpl E t ctx keys) w) = w\<lparr>w_trace := w_trace w @ [call]\<rparr>"
    and "snd (fst (run_state (getParametersImpl E t ctx keys) w)) =
      (if readable then map (\<lambda>i. snd (ap_getAt A i answer)) [0..<ap_size A answer] else [])"
    and "fst (fst (run_state (getParametersImpl E t ctx keys) w)) = OK \<longleftrightarrow> readable \<and> (keys = [] \<or> ap_size A answer \<noteq> 0)"
proof -
  let ?retval = "if keys = [] \<or> ap_size A answer \<noteq> 0 then OK else NOT_SUPPORTED"
  let ?loop = "getParametersImpl_loop A answer [0..<ap_size A answer] (replicate (ap_size A answer) ([], [])) ?retval"
  have run: "run_state (getParametersImpl E t ctx keys) w = (?loop, w\<lparr>w_trace := w_trace w @ [call]\<rparr>)"
    unfolding assms(1-4) getParametersImpl_def getParams_def Let_def by simp
  show "snd (run_state (getParametersImpl E t ctx keys) w) = w\<lparr>w_trace := w_trace w @ [call]\<rparr>" by (simp add: run)
  have good: "?loop = (?retval, map (\<lambda>i. snd (ap_getAt A i answer)) [0..<ap_size A answer])" if readable
    using getParametersImpl_loop_ok [of "ap_size A answer" A answer 0 "([], [])" ?retval] that by (simp add: readable_def)
  have bad: "snd ?loop = [] \<and> fst ?loop \<noteq> OK" if "\<not> readable"
    using that getParametersImpl_loop_bad [of _ "[0..<ap_size A answer]" A answer] getParametersImpl_loop_fails [of _ "[0..<ap_size A answer]" A answer]
    unfolding readable_def by (metis atLeast0LessThan atLeast_upt lessThan_iff)
  show "snd (fst (run_state (getParametersImpl E t ctx keys) w)) =
      (if readable then map (\<lambda>i. snd (ap_getAt A i answer)) [0..<ap_size A answer] else [])"
    unfolding run using good bad by simp
  show "fst (fst (run_state (getParametersImpl E t ctx keys) w)) = OK \<longleftrightarrow> readable \<and> (keys = [] \<or> ap_size A answer \<noteq> 0)"
    unfolding run using good bad by (cases readable) auto
qed

end
