(* ===== verification/Hal_Stream.thy ===== *)
theory Hal_Stream
  imports Hal_Base
begin

text \<open>
  The primary audio HAL, second part: \<^verbatim>\<open>Stream.cpp\<close>, the methods output and input streams share, and
  \<^verbatim>\<open>StreamMmap\<close> of \<^verbatim>\<open>Stream.h\<close>. A method takes the legacy stream it works on. The conversions between
  unsigned and signed 32-bit integers of the source are written out.
\<close>

section \<open>Limits and C library\<close>

text \<open>\<open>2 << 30\<close>, as an unsigned 32-bit integer.\<close>

definition MAX_BUFFER_SIZE :: u32 where "MAX_BUFFER_SIZE = push_bit 30 2"

definition is_space :: "char \<Rightarrow> bool" where
  "is_space c \<longleftrightarrow> c \<in> {CHR '' '', CHR 0x09, CHR 0x0A, CHR 0x0B, CHR 0x0C, CHR 0x0D}"

definition is_digit :: "char \<Rightarrow> bool" where
  "is_digit c \<longleftrightarrow> of_char c \<ge> (48 :: nat) \<and> of_char c \<le> (57 :: nat)"

fun sign_split :: "string \<Rightarrow> bool \<times> string" where
  "sign_split [] = (False, [])"
| "sign_split (c # s) = (if c = CHR ''-'' then (True, s) else if c = CHR ''+'' then (False, s) else (False, c # s))"

text \<open>\<open>std::stoi\<close>: \<^const>\<open>None\<close> is an exception.\<close>

definition stoi :: "string \<Rightarrow> int option" where
  "stoi s =
     (let (neg, s) = sign_split (dropWhile is_space s);
          digits = takeWhile is_digit s;
          n = fold (\<lambda>c n. n * 10 + (of_char c - 48)) digits 0 :: int;
          n = (if neg then - n else n)
      in if digits = [] \<or> n < - (2 ^ 31) \<or> n \<ge> 2 ^ 31 then None else Some n)"

section \<open>Properties of a stream\<close>

definition Stream_getFrameCount :: "('p, 'v) env \<Rightarrow> target \<Rightarrow> ('v, u64) hal_m" where
  "Stream_getFrameCount E t = do {
     (retval, halFrameCount) \<leftarrow> getParam_int E t (e_text E KeyFrameCount);
     return (if retval = OK then word_of_int halFrameCount else 0)
   }"

definition Stream_getBufferSize :: "('p, 'v) env \<Rightarrow> target \<Rightarrow> ('v, u64) hal_m" where
  "Stream_getBufferSize E t = do { r \<leftarrow> hal E t ''get_buffer_size'' []; return (word_of_int (rp_number r)) }"

definition Stream_getSampleRate :: "('p, 'v) env \<Rightarrow> target \<Rightarrow> ('v, u32) hal_m" where
  "Stream_getSampleRate E t = do { r \<leftarrow> hal E t ''get_sample_rate'' []; return (word_of_int (rp_number r)) }"

definition Stream_getChannelMask :: "('p, 'v) env \<Rightarrow> target \<Rightarrow> ('v, u32) hal_m" where
  "Stream_getChannelMask E t = do { r \<leftarrow> hal E t ''get_channels'' []; return (word_of_int (rp_number r)) }"

definition Stream_getFormat :: "('p, 'v) env \<Rightarrow> target \<Rightarrow> ('v, u32) hal_m" where
  "Stream_getFormat E t = do { r \<leftarrow> hal E t ''get_format'' []; return (word_of_int (rp_number r)) }"

text \<open>A list the legacy stream reports as text, for one format. Version 2 passes on the list only.\<close>

definition Stream_getSupportedSampleRates :: "('p, 'v) env \<Rightarrow> target \<Rightarrow> u32 \<Rightarrow> ('v, Result \<times> u32 list) hal_m" where
  "Stream_getSupportedSampleRates E t format = do {
     let context = ap_addInt (e_ap E) (e_text E StreamFormat) (sint format) (ap_empty (e_ap E));
     (result, halListValue) \<leftarrow> getParam_string E t (e_text E KeyStreamSupportedSamplingRates) context;
     if result = OK
     then (let sampleRates = e_rates E halListValue in return (if sampleRates = [] then NOT_SUPPORTED else result, sampleRates))
     else return (result, [])
   }"

definition Stream_getSupportedChannelMasks :: "('p, 'v) env \<Rightarrow> target \<Rightarrow> u32 \<Rightarrow> ('v, Result \<times> u32 list) hal_m" where
  "Stream_getSupportedChannelMasks E t format = do {
     let context = ap_addInt (e_ap E) (e_text E StreamFormat) (sint format) (ap_empty (e_ap E));
     (result, halListValue) \<leftarrow> getParam_string E t (e_text E KeyStreamSupportedChannels) context;
     if result = OK
     then (let channelMasks = e_masks E halListValue in return (if channelMasks = [] then NOT_SUPPORTED else result, channelMasks))
     else return (result, [])
   }"

definition Stream_getSupportedFormats :: "('p, 'v) env \<Rightarrow> target \<Rightarrow> ('v, Result \<times> u32 list) hal_m" where
  "Stream_getSupportedFormats E t = do {
     (result, halListValue) \<leftarrow> getParam_string E t (e_text E KeyStreamSupportedFormats) (ap_empty (e_ap E));
     if result = OK
     then (let formats = e_formats E halListValue in return (if formats = [] then NOT_SUPPORTED else result, formats))
     else return (result, [])
   }"

definition Stream_getSupportedSampleRates_V2 :: "('p, 'v) env \<Rightarrow> target \<Rightarrow> ('v, u32 list) hal_m" where
  "Stream_getSupportedSampleRates_V2 E t = do {
     format \<leftarrow> Stream_getFormat E t;
     (result, sampleRates) \<leftarrow> Stream_getSupportedSampleRates E t format;
     return sampleRates
   }"

definition Stream_getSupportedChannelMasks_V2 :: "('p, 'v) env \<Rightarrow> target \<Rightarrow> ('v, u32 list) hal_m" where
  "Stream_getSupportedChannelMasks_V2 E t = do {
     format \<leftarrow> Stream_getFormat E t;
     (result, channelMasks) \<leftarrow> Stream_getSupportedChannelMasks E t format;
     return channelMasks
   }"

definition Stream_setSampleRate :: "('p, 'v) env \<Rightarrow> target \<Rightarrow> u32 \<Rightarrow> ('v, Result) hal_m" where
  "Stream_setSampleRate E t sampleRateHz = setParam_int E t (e_text E KeySamplingRate) (sint sampleRateHz)"

definition Stream_setChannelMask :: "('p, 'v) env \<Rightarrow> target \<Rightarrow> u32 \<Rightarrow> ('v, Result) hal_m" where
  "Stream_setChannelMask E t channelMask = setParam_int E t (e_text E KeyChannels) (sint channelMask)"

definition Stream_setFormat :: "('p, 'v) env \<Rightarrow> target \<Rightarrow> u32 \<Rightarrow> ('v, Result) hal_m" where
  "Stream_setFormat E t format = setParam_int E t (e_text E KeyFormat) (sint format)"

definition Stream_getAudioProperties :: "('p, 'v) env \<Rightarrow> target \<Rightarrow> ('v, u32 \<times> u32 \<times> u32) hal_m" where
  "Stream_getAudioProperties E t = do {
     halSampleRate \<leftarrow> hal E t ''get_sample_rate'' [];
     halMask \<leftarrow> hal E t ''get_channels'' [];
     halFormat \<leftarrow> hal E t ''get_format'' [];
     return (word_of_int (rp_number halSampleRate), word_of_int (rp_number halMask), word_of_int (rp_number halFormat))
   }"

section \<open>Version 7\<close>

record 'v AudioProfile =
  pf_format :: 'v
  pf_sampleRates :: "u32 list"
  pf_channelMasks :: "'v list"

text \<open>The loop over the formats: \<^const>\<open>None\<close> when \<open>std::stoi\<close> throws.\<close>

fun getSupportedProfiles_loop :: "('p, 'v) env \<Rightarrow> target \<Rightarrow> 'v list \<Rightarrow> Result \<Rightarrow> 'v AudioProfile list \<Rightarrow>
    ('v, (Result \<times> 'v AudioProfile list) option) hal_m" where
  "getSupportedProfiles_loop E t [] result tempProfiles = return (Some (result, tempProfiles))"
| "getSupportedProfiles_loop E t (format # formats) result tempProfiles =
     (let c = e_conv E AudioFormatToHal [format] in
      if rp_status c \<noteq> 0 then getSupportedProfiles_loop E t formats result tempProfiles
      else do {
        let context = ap_addInt (e_ap E) (e_text E StreamFormat) (rp_number c) (ap_empty (e_ap E));
        (result, rates) \<leftarrow> getParam_string E t (e_text E KeyStreamSupportedSamplingRates) context;
        if result \<noteq> OK then return (Some (result, tempProfiles))
        else case those (map stoi (e_split E rates)) of
          None \<Rightarrow> return None
        | Some sampleRates \<Rightarrow> do {
            (result, masks) \<leftarrow> getParam_string E t (e_text E KeyStreamSupportedChannels) context;
            if result \<noteq> OK then return (Some (result, tempProfiles))
            else (let channelMasks = e_masksFromHal E (e_split E masks) in
                  getSupportedProfiles_loop E t formats result
                    (if channelMasks \<noteq> [] \<and> sampleRates \<noteq> []
                     then tempProfiles @ [\<lparr>pf_format = format, pf_sampleRates = map word_of_int sampleRates, pf_channelMasks = channelMasks\<rparr>]
                     else tempProfiles))
          }
      })"

definition Stream_getSupportedProfiles :: "('p, 'v) env \<Rightarrow> target \<Rightarrow> ('v, (Result \<times> 'v AudioProfile list) option) hal_m" where
  "Stream_getSupportedProfiles E t = do {
     (result, halListValue) \<leftarrow> getParam_string E t (e_text E KeyStreamSupportedFormats) (ap_empty (e_ap E));
     if result \<noteq> OK then return (Some (result, []))
     else do {
       r \<leftarrow> getSupportedProfiles_loop E t (e_formatsFromHal E (e_split E halListValue)) result [];
       return (case r of
           None \<Rightarrow> None
         | Some (result, tempProfiles) \<Rightarrow> if tempProfiles \<noteq> [] then Some (result, tempProfiles) else Some (NOT_SUPPORTED, []))
     }
   }"

text \<open>The conversion is told the three properties and whether the stream is an input.\<close>

fun is_input :: "target \<Rightarrow> bool" where
  "is_input (In _) = True"
| "is_input _ = False"

definition Stream_getAudioProperties_V7 :: "('p, 'v) env \<Rightarrow> (int \<Rightarrow> int \<Rightarrow> int \<Rightarrow> bool \<Rightarrow> 'v reply) \<Rightarrow> target \<Rightarrow> ('v, Result \<times> 'v) hal_m" where
  "Stream_getAudioProperties_V7 E audioConfigBaseFromHal t = do {
     rate \<leftarrow> hal E t ''get_sample_rate'' [];
     mask \<leftarrow> hal E t ''get_channels'' [];
     format \<leftarrow> hal E t ''get_format'' [];
     let c = audioConfigBaseFromHal (rp_number rate) (rp_number mask) (rp_number format) (is_input t);
     return (analyzeStatus (rp_status c), rp_value c)
   }"

text \<open>The converted configuration and which of its parts the client has specified.\<close>

record config_base =
  cb_sample_rate :: "u32 option"
  cb_channel_mask :: "u32 option"
  cb_format :: "u32 option"

text \<open>Set one parameter if it is specified, and go on if that succeeds.\<close>

definition set_specified :: "('p, 'v) env \<Rightarrow> target \<Rightarrow> param_const \<Rightarrow> u32 option \<Rightarrow> ('v, Result) hal_m \<Rightarrow> ('v, Result) hal_m" where
  "set_specified E t key value rest =
     (case value of
        None \<Rightarrow> rest
      | Some x \<Rightarrow> do { result \<leftarrow> setParam_int E t (e_text E key) (sint x); if result \<noteq> OK then return result else rest })"

definition Stream_setAudioProperties :: "('p, 'v) env \<Rightarrow> ('v \<Rightarrow> int \<times> config_base) \<Rightarrow> target \<Rightarrow> 'v \<Rightarrow> ('v, Result) hal_m" where
  "Stream_setAudioProperties E audioConfigBaseOptionalToHal t config =
     (let (status, c) = audioConfigBaseOptionalToHal config in
      if status \<noteq> 0 then return (analyzeStatus status)
      else set_specified E t KeySamplingRate (cb_sample_rate c)
          (set_specified E t KeyChannels (cb_channel_mask c)
          (set_specified E t KeyFormat (cb_format c) (return OK))))"

section \<open>Effects, routing and parameters\<close>

definition Stream_addEffect :: "('p, 'v) env \<Rightarrow> target \<Rightarrow> u64 \<Rightarrow> ('v, Result) hal_m" where
  "Stream_addEffect E t effectId =
     (case e_effect E effectId of
        Some halEffect \<Rightarrow> hal_result E t ''add_audio_effect'' [V halEffect]
      | None \<Rightarrow> return INVALID_ARGUMENTS)"

definition Stream_removeEffect :: "('p, 'v) env \<Rightarrow> target \<Rightarrow> u64 \<Rightarrow> ('v, Result) hal_m" where
  "Stream_removeEffect E t effectId =
     (case e_effect E effectId of
        Some halEffect \<Rightarrow> hal_result E t ''remove_audio_effect'' [V halEffect]
      | None \<Rightarrow> return INVALID_ARGUMENTS)"

definition Stream_standby :: "('p, 'v) env \<Rightarrow> target \<Rightarrow> ('v, Result) hal_m" where
  "Stream_standby E t = hal_result E t ''standby'' []"

definition Stream_setHwAvSync :: "('p, 'v) env \<Rightarrow> target \<Rightarrow> u32 \<Rightarrow> ('v, Result) hal_m" where
  "Stream_setHwAvSync E t hwAvSync = setParam_int E t (e_text E KeyStreamHwAvSync) (sint hwAvSync)"

text \<open>Version 2: \<open>AudioDevice::NONE\<close> is 0.\<close>

definition Stream_getDevice :: "('p, 'v) env \<Rightarrow> target \<Rightarrow> ('v, u32) hal_m" where
  "Stream_getDevice E t = do {
     (retval, device) \<leftarrow> getParam_int E t (e_text E KeyRouting);
     return (if retval = OK then word_of_int device else 0)
   }"

definition Stream_setDevice :: "('p, 'v) env \<Rightarrow> target \<Rightarrow> 'v \<Rightarrow> ('v, Result) hal_m" where
  "Stream_setDevice E t address = setParam_address E t (e_text E KeyRouting) address"

definition Stream_setConnectedState :: "('p, 'v) env \<Rightarrow> target \<Rightarrow> 'v \<Rightarrow> bool \<Rightarrow> ('v, Result) hal_m" where
  "Stream_setConnectedState E t address isConnected =
     setParam_address E t (e_text E (if isConnected then KeyDeviceConnect else KeyDeviceDisconnect)) address"

text \<open>Version 4 and later: a successful query gives one device, even if it cannot be converted.\<close>

definition Stream_getDevices :: "('p, 'v) env \<Rightarrow> target \<Rightarrow> ('v, Result \<times> 'v list) hal_m" where
  "Stream_getDevices E t = do {
     (retval, halDevice) \<leftarrow> getParam_int E t (e_text E KeyRouting);
     if retval = OK
     then (let c = e_conv_int E DeviceAddressFromHal halDevice in return (analyzeStatus (rp_status c), [rp_value c]))
     else return (retval, [])
   }"

definition Stream_setDevices :: "('p, 'v) env \<Rightarrow> target \<Rightarrow> 'v list \<Rightarrow> ('v, Result) hal_m" where
  "Stream_setDevices E t devices =
     (if length devices > 1 then return NOT_SUPPORTED
      else setParam_address E t (e_text E KeyRouting)
        (case devices of [device] \<Rightarrow> device | _ \<Rightarrow> rp_value (e_conv E DefaultValue [])))"

definition Stream_getParameters :: "('p, 'v) env \<Rightarrow> target \<Rightarrow> (string \<times> string) list \<Rightarrow> string list \<Rightarrow>
    ('v, Result \<times> (string \<times> string) list) hal_m" where
  "Stream_getParameters E t context keys = getParametersImpl E t context keys"

definition Stream_setParameters :: "('p, 'v) env \<Rightarrow> target \<Rightarrow> (string \<times> string) list \<Rightarrow> (string \<times> string) list \<Rightarrow> ('v, Result) hal_m" where
  "Stream_setParameters E t context parameters = setParametersImpl E t context parameters"

definition Stream_getParameters_V2 :: "('p, 'v) env \<Rightarrow> target \<Rightarrow> string list \<Rightarrow> ('v, Result \<times> (string \<times> string) list) hal_m" where
  "Stream_getParameters_V2 E t keys = getParametersImpl E t [] keys"

definition Stream_setParameters_V2 :: "('p, 'v) env \<Rightarrow> target \<Rightarrow> (string \<times> string) list \<Rightarrow> ('v, Result) hal_m" where
  "Stream_setParameters_V2 E t parameters = setParametersImpl E t [] parameters"

text \<open>A handle is null or a list of file descriptors.\<close>

definition Stream_debug :: "('p, 'v) env \<Rightarrow> target \<Rightarrow> int list option \<Rightarrow> ('v, unit) hal_m" where
  "Stream_debug E t fd =
     (case fd of
        Some [fd0] \<Rightarrow> do { r \<leftarrow> hal E t ''dump'' [N fd0]; return () }
      | _ \<Rightarrow> return ())"

section \<open>Methods that subclasses implement\<close>

text \<open>\<open>getFrameSize\<close> aborts; the others report that they are not supported.\<close>

definition Stream_getFrameSize :: "u64 option" where "Stream_getFrameSize = None"
definition Stream_start :: Result where "Stream_start = NOT_SUPPORTED"
definition Stream_stop :: Result where "Stream_stop = NOT_SUPPORTED"
definition Stream_close :: Result where "Stream_close = NOT_SUPPORTED"

section \<open>StreamMmap\<close>

definition StreamMmap_start :: "('p, 'v) env \<Rightarrow> target \<Rightarrow> ('v, Result) hal_m" where
  "StreamMmap_start E t = (if \<not> e_has E t ''start'' then return NOT_SUPPORTED else hal_result E t ''start'' [])"

definition StreamMmap_stop :: "('p, 'v) env \<Rightarrow> target \<Rightarrow> ('v, Result) hal_m" where
  "StreamMmap_stop E t = (if \<not> e_has E t ''stop'' then return NOT_SUPPORTED else hal_result E t ''stop'' [])"

record MmapBufferInfo =
  mi_sharedMemory :: "(int \<times> u64) option"
  mi_flags :: u32
  mi_bufferSizeFrames :: int
  mi_burstSizeFrames :: int

definition no_buffer :: MmapBufferInfo where
  "no_buffer = \<lparr>mi_sharedMemory = None, mi_flags = 0, mi_bufferSizeFrames = 0, mi_burstSizeFrames = 0\<rparr>"

text \<open>The flag \<open>AUDIO_MMAP_APPLICATION_SHAREABLE\<close> is 1 in both interfaces. \<open>abs\<close> of the smallest integer is undefined.\<close>

definition mmap_info :: "nat \<Rightarrow> u64 \<Rightarrow> 'v reply \<Rightarrow> MmapBufferInfo ub" where
  "mmap_info major frameSize halInfo =
     (let flags = word_of_int (rp_field halInfo ''flags'') :: u32;
          frames = rp_field halInfo ''buffer_size_frames'';
          applicationShareable = (flags AND 1 \<noteq> 0 \<or> frames < 0)
      in if frames = - (2 ^ 31) then None
         else Some \<lparr>mi_sharedMemory = Some (rp_field halInfo ''shared_memory_fd'', frameSize * word_of_int (abs frames)),
                    mi_flags = (if major = 2 then 0 else flags OR (if applicationShareable then 1 else 0)),
                    mi_bufferSizeFrames = (if major = 2 \<and> applicationShareable then - abs frames else abs frames),
                    mi_burstSizeFrames = rp_field halInfo ''burst_size_frames''\<rparr>)"

definition StreamMmap_createMmapBuffer :: "('p, 'v) env \<Rightarrow> target \<Rightarrow> int \<Rightarrow> u64 \<Rightarrow> ('v, (Result \<times> MmapBufferInfo) ub) hal_m" where
  "StreamMmap_createMmapBuffer E t minSizeFrames frameSize =
     (if \<not> e_has E t ''create_mmap_buffer'' then return (Some (NOT_SUPPORTED, no_buffer))
      else if minSizeFrames \<le> 0 then return (Some (INVALID_ARGUMENTS, no_buffer))
      else do {
        halInfo \<leftarrow> hal E t ''create_mmap_buffer'' [N minSizeFrames];
        let retval = analyzeStatus (rp_status halInfo);
        return (if retval = OK then map_option (Pair OK) (mmap_info (e_major E) frameSize halInfo) else Some (retval, no_buffer))
      })"

text \<open>Time and frames.\<close>

definition StreamMmap_getMmapPosition :: "('p, 'v) env \<Rightarrow> target \<Rightarrow> ('v, Result \<times> int \<times> int) hal_m" where
  "StreamMmap_getMmapPosition E t =
     (if \<not> e_has E t ''get_mmap_position'' then return (NOT_SUPPORTED, 0, 0)
      else do {
        halPosition \<leftarrow> hal E t ''get_mmap_position'' [];
        let retval = analyzeStatus (rp_status halPosition);
        return (if retval = OK
          then (OK, rp_field halPosition ''time_nanoseconds'', rp_field halPosition ''position_frames'') else (retval, 0, 0))
      })"

end
