(* ===== verification/Hal_Example.thy ===== *)
theory Hal_Example
  imports Hal_Base
begin

text \<open>
  A concrete environment for the witnesses of the primary audio HAL: a legacy HAL that accepts every call,
  opens devices of version 3.0, remembers the last parameters it was given, and conversions that succeed.
  Parameters are lists of pairs, written with an equals sign between key and value.
\<close>

definition pair_store :: "(string \<times> string) list audio_parameter" where
  "pair_store = \<lparr>
     ap_parse = (\<lambda>s. [(takeWhile (\<lambda>c. c \<noteq> CHR ''='') s, drop 1 (dropWhile (\<lambda>c. c \<noteq> CHR ''='') s))]),
     ap_add = (\<lambda>k v p. p @ [(k, v)]),
     ap_addInt = (\<lambda>k i p. p @ [(k, replicate (nat i) CHR ''1'')]),
     ap_addFloat = (\<lambda>k x p. p @ [(k, ''float'')]),
     ap_addKey = (\<lambda>k p. p @ [(k, [])]),
     ap_empty = [],
     ap_toString = (\<lambda>p. concat (map (\<lambda>(k, v). k @ CHR ''='' # v) p)),
     ap_keysToString = (\<lambda>p. concat (map fst p)),
     ap_get = (\<lambda>k p. case map_of p k of Some v \<Rightarrow> (0, v) | None \<Rightarrow> (- EINVAL, [])),
     ap_getInt = (\<lambda>k p. case map_of p k of Some v \<Rightarrow> (0, int (length v)) | None \<Rightarrow> (- EINVAL, 0)),
     ap_size = length,
     ap_getAt = (\<lambda>i p. if i < length p then (0, p ! i) else (- EINVAL, [], []))\<rparr>"

fun last_set :: "'v hal_call list \<Rightarrow> string" where
  "last_set [] = []"
| "last_set (Call t f args # calls) =
     (if f = ''set_parameters'' then (case args of [S s] \<Rightarrow> s | _ \<Rightarrow> last_set calls) else last_set calls)"

definition fine :: "nat reply" where
  "fine = \<lparr>rp_status = 0, rp_number = 0x300, rp_field = (\<lambda>_. 0), rp_float = Finite 0, rp_text = None, rp_bytes = [],
     rp_value = 0, rp_values = []\<rparr>"

definition kind_hal :: "nat hal_call list \<Rightarrow> nat hal_call \<Rightarrow> nat reply" where
  "kind_hal trace c = fine\<lparr>rp_text := Some (last_set (rev trace))\<rparr>"

definition example_env :: "nat \<Rightarrow> ((string \<times> string) list, nat) env" where
  "example_env major = \<lparr>e_major = major, e_minor = 0, e_version = 0x300, e_ap = pair_store,
     e_text = (\<lambda>k. case k of KeyTtyMode \<Rightarrow> ''tty_mode'' | ValueTtyOff \<Rightarrow> ''tty_off'' | ValueTtyVco \<Rightarrow> ''tty_vco''
       | ValueTtyHco \<Rightarrow> ''tty_hco'' | ValueTtyFull \<Rightarrow> ''tty_full'' | ModulePrimary \<Rightarrow> ''primary'' | _ \<Rightarrow> ''key''),
     e_has = (\<lambda>_ _. True), e_reply = kind_hal, e_conv = (\<lambda>_ _. fine), e_conv_int = (\<lambda>_ _. fine),
     e_rates = (\<lambda>_. []), e_masks = (\<lambda>_. []), e_formats = (\<lambda>_. []), e_split = (\<lambda>_. []),
     e_formatsFromHal = (\<lambda>_. []), e_masksFromHal = (\<lambda>_. []), e_effect = (\<lambda>_. None)\<rparr>"

lemma example_env_simps [simp]:
  "e_major (example_env major) = major" "e_version (example_env major) = 0x300" "e_ap (example_env major) = pair_store"
  "e_has (example_env major) t f" "e_reply (example_env major) = kind_hal" "e_conv (example_env major) k v = fine"
  "rp_status fine = 0" "rp_status (kind_hal trace c) = 0" "rp_number (kind_hal trace c) = 0x300"
  "rp_text (kind_hal trace c) = Some (last_set (rev trace))"
  by (simp_all add: example_env_def fine_def kind_hal_def)

definition empty_world :: "nat world" where
  "empty_world = \<lparr>w_trace = [], w_isClosed = False, w_openedStreamsCount = 0, w_next = 0, w_outs = Map.empty, w_ins = Map.empty\<rparr>"

end
