(* ===== verification/Hal_StreamOut.thy ===== *)
theory Hal_StreamOut
  imports Hal_Stream Hal_Example
begin

text \<open>
  The primary audio HAL, third part: \<^verbatim>\<open>StreamOut.cpp\<close>, without the body of its thread. The methods take the number
  of the object. \<open>close\<close> stops the thread and, from version 6 on, closes the legacy stream; before, the
  destructor closes it. The number of bytes of the data queue stands for the queues, the event flag and
  the thread, which exist together.
\<close>

section \<open>Objects\<close>

definition new_obj :: stream_obj where
  "new_obj = \<lparr>so_stop = False, so_dataMQ = None, so_callback = None, so_eventCallback = None, so_latencyModeCallback = None\<rparr>"

definition read_out :: "nat \<Rightarrow> ('v, stream_obj) hal_m" where
  "read_out n = State (\<lambda>w. (case w_outs w n of Some s \<Rightarrow> s | None \<Rightarrow> new_obj, w))"

definition write_out :: "nat \<Rightarrow> (stream_obj \<Rightarrow> stream_obj) \<Rightarrow> ('v, unit) hal_m" where
  "write_out n f = State (\<lambda>w. ((), w\<lparr>w_outs := (w_outs w)(n := map_option f (w_outs w n))\<rparr>))"

lemma run_read_out [simp]: "run_state (read_out n) w = (case w_outs w n of Some s \<Rightarrow> s | None \<Rightarrow> new_obj, w)"
  by (simp add: read_out_def)

lemma run_write_out [simp]: "run_state (write_out n f) w = ((), w\<lparr>w_outs := (w_outs w)(n := map_option f (w_outs w n))\<rparr>)"
  by (simp add: write_out_def)

text \<open>\<open>Device::closeOutputStream\<close>: the legacy stream is closed before the count is tested; \<^const>\<open>None\<close> is the abort.\<close>

definition Device_closeOutputStream :: "('p, 'v) env \<Rightarrow> nat \<Rightarrow> ('v, unit option) hal_m" where
  "Device_closeOutputStream E n = do {
     r \<leftarrow> hal E Dev ''close_output_stream'' [N (int n)];
     State (\<lambda>w. if w_openedStreamsCount w = 0 then (None, w)
                else (Some (), w\<lparr>w_openedStreamsCount := w_openedStreamsCount w - 1\<rparr>))
   }"

lemma run_closeOutputStream:
  "run_state (Device_closeOutputStream E n) w =
     (if w_openedStreamsCount w = 0 then (None, w\<lparr>w_trace := w_trace w @ [Call Dev ''close_output_stream'' [N (int n)]]\<rparr>)
      else (Some (), w\<lparr>w_trace := w_trace w @ [Call Dev ''close_output_stream'' [N (int n)]], w_openedStreamsCount := w_openedStreamsCount w - 1\<rparr>))"
  by (simp add: Device_closeOutputStream_def)

section \<open>Closing\<close>

definition StreamOut_close :: "('p, 'v) env \<Rightarrow> nat \<Rightarrow> ('v, Result option) hal_m" where
  "StreamOut_close E n = do {
     s \<leftarrow> read_out n;
     if so_stop s then return (Some INVALID_STATE)
     else do {
       write_out n (\<lambda>s. s\<lparr>so_stop := True\<rparr>);
       if e_major E \<ge> 6
       then do { r \<leftarrow> Device_closeOutputStream E n; return (map_option (\<lambda>_. OK) r) }
       else return (Some OK)
     }
   }"

text \<open>The destructor calls \<open>close\<close>, waits for the thread, which the thread model treats, and goes on with its rest.\<close>

definition StreamOut_dtor_rest :: "('p, 'v) env \<Rightarrow> nat \<Rightarrow> ('v, unit option) hal_m" where
  "StreamOut_dtor_rest E n = do {
     r \<leftarrow> (if e_major E \<le> 5 then Device_closeOutputStream E n else return (Some ()));
     State (\<lambda>w. (r, w\<lparr>w_outs := (w_outs w)(n := None)\<rparr>))
   }"

definition StreamOut_dtor :: "('p, 'v) env \<Rightarrow> nat \<Rightarrow> ('v, unit option) hal_m" where
  "StreamOut_dtor E n = do {
     r \<leftarrow> StreamOut_close E n;
     if r = None then return None else StreamOut_dtor_rest E n
   }"

section \<open>Methods of the common stream\<close>

definition StreamOut_getFrameSize :: "('p, 'v) env \<Rightarrow> nat \<Rightarrow> ('v, u64) hal_m" where
  "StreamOut_getFrameSize E n = do { r \<leftarrow> hal E (Out n) ''audio_stream_out_frame_size'' []; return (word_of_int (rp_number r)) }"

definition StreamOut_getFrameCount :: "('p, 'v) env \<Rightarrow> nat \<Rightarrow> ('v, u64) hal_m" where
  "StreamOut_getFrameCount E n = Stream_getFrameCount E (Out n)"

definition StreamOut_getBufferSize :: "('p, 'v) env \<Rightarrow> nat \<Rightarrow> ('v, u64) hal_m" where
  "StreamOut_getBufferSize E n = Stream_getBufferSize E (Out n)"

definition StreamOut_getSampleRate :: "('p, 'v) env \<Rightarrow> nat \<Rightarrow> ('v, u32) hal_m" where
  "StreamOut_getSampleRate E n = Stream_getSampleRate E (Out n)"

definition StreamOut_getSupportedChannelMasks :: "('p, 'v) env \<Rightarrow> nat \<Rightarrow> u32 \<Rightarrow> ('v, Result \<times> u32 list) hal_m" where
  "StreamOut_getSupportedChannelMasks E n format = Stream_getSupportedChannelMasks E (Out n) format"

definition StreamOut_getSupportedSampleRates :: "('p, 'v) env \<Rightarrow> nat \<Rightarrow> u32 \<Rightarrow> ('v, Result \<times> u32 list) hal_m" where
  "StreamOut_getSupportedSampleRates E n format = Stream_getSupportedSampleRates E (Out n) format"

definition StreamOut_setSampleRate :: "('p, 'v) env \<Rightarrow> nat \<Rightarrow> u32 \<Rightarrow> ('v, Result) hal_m" where
  "StreamOut_setSampleRate E n sampleRateHz = Stream_setSampleRate E (Out n) sampleRateHz"

definition StreamOut_getChannelMask :: "('p, 'v) env \<Rightarrow> nat \<Rightarrow> ('v, u32) hal_m" where
  "StreamOut_getChannelMask E n = Stream_getChannelMask E (Out n)"

definition StreamOut_setChannelMask :: "('p, 'v) env \<Rightarrow> nat \<Rightarrow> u32 \<Rightarrow> ('v, Result) hal_m" where
  "StreamOut_setChannelMask E n channelMask = Stream_setChannelMask E (Out n) channelMask"

definition StreamOut_getFormat :: "('p, 'v) env \<Rightarrow> nat \<Rightarrow> ('v, u32) hal_m" where
  "StreamOut_getFormat E n = Stream_getFormat E (Out n)"

definition StreamOut_getSupportedFormats :: "('p, 'v) env \<Rightarrow> nat \<Rightarrow> ('v, Result \<times> u32 list) hal_m" where
  "StreamOut_getSupportedFormats E n = Stream_getSupportedFormats E (Out n)"

definition StreamOut_setFormat :: "('p, 'v) env \<Rightarrow> nat \<Rightarrow> u32 \<Rightarrow> ('v, Result) hal_m" where
  "StreamOut_setFormat E n format = Stream_setFormat E (Out n) format"

definition StreamOut_getSupportedProfiles :: "('p, 'v) env \<Rightarrow> nat \<Rightarrow> ('v, (Result \<times> 'v AudioProfile list) option) hal_m" where
  "StreamOut_getSupportedProfiles E n = Stream_getSupportedProfiles E (Out n)"

definition StreamOut_setAudioProperties :: "('p, 'v) env \<Rightarrow> ('v \<Rightarrow> int \<times> config_base) \<Rightarrow> nat \<Rightarrow> 'v \<Rightarrow> ('v, Result) hal_m" where
  "StreamOut_setAudioProperties E toHal n config = Stream_setAudioProperties E toHal (Out n) config"

definition StreamOut_getAudioProperties :: "('p, 'v) env \<Rightarrow> nat \<Rightarrow> ('v, u32 \<times> u32 \<times> u32) hal_m" where
  "StreamOut_getAudioProperties E n = Stream_getAudioProperties E (Out n)"

definition StreamOut_addEffect :: "('p, 'v) env \<Rightarrow> nat \<Rightarrow> u64 \<Rightarrow> ('v, Result) hal_m" where
  "StreamOut_addEffect E n effectId = Stream_addEffect E (Out n) effectId"

definition StreamOut_removeEffect :: "('p, 'v) env \<Rightarrow> nat \<Rightarrow> u64 \<Rightarrow> ('v, Result) hal_m" where
  "StreamOut_removeEffect E n effectId = Stream_removeEffect E (Out n) effectId"

definition StreamOut_standby :: "('p, 'v) env \<Rightarrow> nat \<Rightarrow> ('v, Result) hal_m" where
  "StreamOut_standby E n = Stream_standby E (Out n)"

definition StreamOut_setHwAvSync :: "('p, 'v) env \<Rightarrow> nat \<Rightarrow> u32 \<Rightarrow> ('v, Result) hal_m" where
  "StreamOut_setHwAvSync E n hwAvSync = Stream_setHwAvSync E (Out n) hwAvSync"

definition StreamOut_setConnectedState :: "('p, 'v) env \<Rightarrow> nat \<Rightarrow> 'v \<Rightarrow> bool \<Rightarrow> ('v, Result) hal_m" where
  "StreamOut_setConnectedState E n address isConnected = Stream_setConnectedState E (Out n) address isConnected"

definition StreamOut_getDevice :: "('p, 'v) env \<Rightarrow> nat \<Rightarrow> ('v, u32) hal_m" where
  "StreamOut_getDevice E n = Stream_getDevice E (Out n)"

definition StreamOut_setDevice :: "('p, 'v) env \<Rightarrow> nat \<Rightarrow> 'v \<Rightarrow> ('v, Result) hal_m" where
  "StreamOut_setDevice E n address = Stream_setDevice E (Out n) address"

definition StreamOut_getDevices :: "('p, 'v) env \<Rightarrow> nat \<Rightarrow> ('v, Result \<times> 'v list) hal_m" where
  "StreamOut_getDevices E n = Stream_getDevices E (Out n)"

definition StreamOut_setDevices :: "('p, 'v) env \<Rightarrow> nat \<Rightarrow> 'v list \<Rightarrow> ('v, Result) hal_m" where
  "StreamOut_setDevices E n devices = Stream_setDevices E (Out n) devices"

definition StreamOut_getParameters :: "('p, 'v) env \<Rightarrow> nat \<Rightarrow> (string \<times> string) list \<Rightarrow> string list \<Rightarrow>
    ('v, Result \<times> (string \<times> string) list) hal_m" where
  "StreamOut_getParameters E n context keys = Stream_getParameters E (Out n) context keys"

definition StreamOut_setParameters :: "('p, 'v) env \<Rightarrow> nat \<Rightarrow> (string \<times> string) list \<Rightarrow> (string \<times> string) list \<Rightarrow> ('v, Result) hal_m" where
  "StreamOut_setParameters E n context parameters = Stream_setParameters E (Out n) context parameters"

section \<open>Methods of output streams\<close>

definition StreamOut_getLatency :: "('p, 'v) env \<Rightarrow> nat \<Rightarrow> ('v, u32) hal_m" where
  "StreamOut_getLatency E n = do { r \<leftarrow> hal E (Out n) ''get_latency'' []; return (word_of_int (rp_number r)) }"

definition StreamOut_setVolume :: "('p, 'v) env \<Rightarrow> nat \<Rightarrow> cfloat \<Rightarrow> cfloat \<Rightarrow> ('v, Result) hal_m" where
  "StreamOut_setVolume E n left right =
     (if \<not> e_has E (Out n) ''set_volume'' then return NOT_SUPPORTED
      else if \<not> isGainNormalized left then return INVALID_ARGUMENTS
      else hal_result E (Out n) ''set_volume'' [F left, F right])"

text \<open>What creating the queues, the event flag and the thread gives.\<close>

record prepare_env =
  pe_commandMQ_valid :: bool
  pe_dataMQ_valid :: "nat \<Rightarrow> bool"
  pe_statusMQ_valid :: bool
  pe_eventFlag :: "int \<times> bool"
  pe_buffer :: bool
  pe_run :: int
  pe_tid :: int

text \<open>The checks and allocations \<open>prepareForWriting\<close> and \<open>prepareForReading\<close> have in common: the size of the data queue.
  The product is computed with 32 bits.\<close>

definition prepare_queues :: "prepare_env \<Rightarrow> bool \<Rightarrow> u32 \<Rightarrow> u32 \<Rightarrow> Result + nat" where
  "prepare_queues P prepared frameSize framesCount =
     (if prepared then Inl INVALID_STATE
      else if frameSize = 0 \<or> framesCount = 0 then Inl INVALID_ARGUMENTS
      else if frameSize > MAX_BUFFER_SIZE div framesCount then Inl INVALID_ARGUMENTS
      else let bytes = unat (frameSize * framesCount) in
      if \<not> pe_commandMQ_valid P \<or> \<not> pe_dataMQ_valid P bytes \<or> \<not> pe_statusMQ_valid P then Inl INVALID_ARGUMENTS
      else if fst (pe_eventFlag P) \<noteq> 0 \<or> \<not> snd (pe_eventFlag P) then Inl INVALID_ARGUMENTS
      else if \<not> pe_buffer P then Inl INVALID_ARGUMENTS
      else if pe_run P \<noteq> 0 then Inl INVALID_ARGUMENTS
      else Inr bytes)"

text \<open>The result, the size of the data queue and the thread.\<close>

definition StreamOut_prepareForWriting :: "prepare_env \<Rightarrow> nat \<Rightarrow> u32 \<Rightarrow> u32 \<Rightarrow> ('v, Result \<times> nat \<times> int) hal_m" where
  "StreamOut_prepareForWriting P n frameSize framesCount = do {
     s \<leftarrow> read_out n;
     case prepare_queues P (so_dataMQ s \<noteq> None) frameSize framesCount of
       Inl result \<Rightarrow> return (result, 0, 0)
     | Inr bytes \<Rightarrow> do {
         write_out n (\<lambda>s. s\<lparr>so_dataMQ := Some bytes\<rparr>);
         return (OK, bytes, pe_tid P)
       }
   }"

definition StreamOut_getRenderPosition :: "('p, 'v) env \<Rightarrow> nat \<Rightarrow> ('v, Result \<times> u32) hal_m" where
  "StreamOut_getRenderPosition E n = do {
     r \<leftarrow> hal E (Out n) ''get_render_position'' [];
     return (analyzeStatus (rp_status r), word_of_int (rp_number r))
   }"

definition StreamOut_getNextWriteTimestamp :: "('p, 'v) env \<Rightarrow> nat \<Rightarrow> ('v, Result \<times> int) hal_m" where
  "StreamOut_getNextWriteTimestamp E n =
     (if \<not> e_has E (Out n) ''get_next_write_timestamp'' then return (NOT_SUPPORTED, 0)
      else do {
        r \<leftarrow> hal E (Out n) ''get_next_write_timestamp'' [];
        return (analyzeStatus (rp_status r), rp_number r)
      })"

definition StreamOut_setCallback :: "('p, 'v) env \<Rightarrow> nat \<Rightarrow> nat option \<Rightarrow> ('v, Result) hal_m" where
  "StreamOut_setCallback E n callback =
     (if \<not> e_has E (Out n) ''set_callback'' then return NOT_SUPPORTED
      else do {
        r \<leftarrow> hal E (Out n) ''set_callback'' [N (int n)];
        (if rp_status r = 0 then write_out n (\<lambda>s. s\<lparr>so_callback := callback\<rparr>) else return ());
        return (analyzeStatus (rp_status r))
      })"

definition StreamOut_clearCallback :: "('p, 'v) env \<Rightarrow> nat \<Rightarrow> ('v, Result) hal_m" where
  "StreamOut_clearCallback E n =
     (if \<not> e_has E (Out n) ''set_callback'' then return NOT_SUPPORTED
      else do { write_out n (\<lambda>s. s\<lparr>so_callback := None\<rparr>); return OK })"

text \<open>A callback of the legacy stream: which method of which client is called. Events are \<open>STREAM_CBK_EVENT_WRITE_READY\<close>,
  \<open>STREAM_CBK_EVENT_DRAIN_READY\<close> and \<open>STREAM_CBK_EVENT_ERROR\<close>, numbered from 0.\<close>

datatype out_notification = OnWriteReady | OnDrainReady | OnError | OnCodecFormatChanged "u8 list" | OnRecommendedLatencyModeChanged "int list"

definition StreamOut_asyncCallback :: "int \<Rightarrow> nat \<Rightarrow> ('v, (nat \<times> out_notification) option) hal_m" where
  "StreamOut_asyncCallback event n = do {
     self \<leftarrow> read_out n;
     return (case so_callback self of
         None \<Rightarrow> None
       | Some callback \<Rightarrow>
           if event = 0 then Some (callback, OnWriteReady)
           else if event = 1 then Some (callback, OnDrainReady)
           else if event = 2 then Some (callback, OnError)
           else None)
   }"

definition StreamOut_supportsPauseAndResume :: "('p, 'v) env \<Rightarrow> nat \<Rightarrow> bool \<times> bool" where
  "StreamOut_supportsPauseAndResume E n = (e_has E (Out n) ''pause'', e_has E (Out n) ''resume'')"

text \<open>An optional function whose status is the result.\<close>

definition optional_result :: "('p, 'v) env \<Rightarrow> target \<Rightarrow> hal_fn \<Rightarrow> 'v arg list \<Rightarrow> ('v, Result) hal_m" where
  "optional_result E t f args = (if e_has E t f then hal_result E t f args else return NOT_SUPPORTED)"

definition StreamOut_pause :: "('p, 'v) env \<Rightarrow> nat \<Rightarrow> ('v, Result) hal_m" where
  "StreamOut_pause E n = optional_result E (Out n) ''pause'' []"

definition StreamOut_resume :: "('p, 'v) env \<Rightarrow> nat \<Rightarrow> ('v, Result) hal_m" where
  "StreamOut_resume E n = optional_result E (Out n) ''resume'' []"

definition StreamOut_supportsDrain :: "('p, 'v) env \<Rightarrow> nat \<Rightarrow> bool" where
  "StreamOut_supportsDrain E n = e_has E (Out n) ''drain''"

datatype AudioDrain = ALL | EARLY_NOTIFY

definition StreamOut_drain :: "('p, 'v) env \<Rightarrow> nat \<Rightarrow> AudioDrain \<Rightarrow> ('v, Result) hal_m" where
  "StreamOut_drain E n type = optional_result E (Out n) ''drain'' [B (type = EARLY_NOTIFY)]"

definition StreamOut_flush :: "('p, 'v) env \<Rightarrow> nat \<Rightarrow> ('v, Result) hal_m" where
  "StreamOut_flush E n = optional_result E (Out n) ''flush'' []"

text \<open>The frames and the time stamp of the caller, possibly updated.\<close>

definition getPresentationPositionImpl :: "('p, 'v) env \<Rightarrow> nat \<Rightarrow> u64 \<times> int \<times> int \<Rightarrow> ('v, Result \<times> u64 \<times> int \<times> int) hal_m" where
  "getPresentationPositionImpl E n = (\<lambda>(frames, tvSec, tvNSec).
     if \<not> e_has E (Out n) ''get_presentation_position'' then return (NOT_SUPPORTED, frames, tvSec, tvNSec)
     else do {
       r \<leftarrow> hal E (Out n) ''get_presentation_position'' [];
       let retval = analyzeStatus (rp_status r);
       let frames = word_of_int (rp_field r ''frames'');
       return (if retval = OK then (OK, frames, rp_field r ''tv_sec'', rp_field r ''tv_nsec'') else (retval, frames, tvSec, tvNSec))
     })"

definition StreamOut_getPresentationPosition :: "('p, 'v) env \<Rightarrow> nat \<Rightarrow> ('v, Result \<times> u64 \<times> int \<times> int) hal_m" where
  "StreamOut_getPresentationPosition E n = getPresentationPositionImpl E n (0, 0, 0)"

definition StreamOut_start :: "('p, 'v) env \<Rightarrow> nat \<Rightarrow> ('v, Result) hal_m" where
  "StreamOut_start E n = StreamMmap_start E (Out n)"

definition StreamOut_stop :: "('p, 'v) env \<Rightarrow> nat \<Rightarrow> ('v, Result) hal_m" where
  "StreamOut_stop E n = StreamMmap_stop E (Out n)"

definition StreamOut_createMmapBuffer :: "('p, 'v) env \<Rightarrow> nat \<Rightarrow> int \<Rightarrow> ('v, (Result \<times> MmapBufferInfo) ub) hal_m" where
  "StreamOut_createMmapBuffer E n minSizeFrames = do {
     frameSize \<leftarrow> StreamOut_getFrameSize E n;
     StreamMmap_createMmapBuffer E (Out n) minSizeFrames frameSize
   }"

definition StreamOut_getMmapPosition :: "('p, 'v) env \<Rightarrow> nat \<Rightarrow> ('v, Result \<times> int \<times> int) hal_m" where
  "StreamOut_getMmapPosition E n = StreamMmap_getMmapPosition E (Out n)"

section \<open>Metadata\<close>

definition doUpdateSourceMetadata :: "('p, 'v) env \<Rightarrow> nat \<Rightarrow> 'v \<Rightarrow> ('v, Result) hal_m" where
  "doUpdateSourceMetadata E n sourceMetadata =
     (if e_major E \<le> 6
      then do {
        r \<leftarrow> hal E (Out n) ''update_source_metadata'' [Vs (rp_values (e_conv E SourceMetadataToHal [sourceMetadata]))];
        return OK
      }
      else let c = e_conv E SourceMetadataToHalV7 [sourceMetadata] in
      if rp_status c = 0
      then do {
        r \<leftarrow> hal E (Out n) ''update_source_metadata'' [Vs (map (\<lambda>track. rp_value (e_conv E BaseOfTrackV7 [track])) (rp_values c))];
        return OK
      }
      else return (analyzeStatus (rp_status c)))"

definition doUpdateSourceMetadataV7 :: "('p, 'v) env \<Rightarrow> nat \<Rightarrow> 'v \<Rightarrow> ('v, Result) hal_m" where
  "doUpdateSourceMetadataV7 E n sourceMetadata =
     (let c = e_conv E SourceMetadataToHalV7 [sourceMetadata] in
      if rp_status c \<noteq> 0 then return (analyzeStatus (rp_status c))
      else do { r \<leftarrow> hal E (Out n) ''update_source_metadata_v7'' [Vs (rp_values c)]; return OK })"

abbreviation AUDIO_DEVICE_API_VERSION_3_0 :: nat where "AUDIO_DEVICE_API_VERSION_3_0 \<equiv> 0x300"
abbreviation AUDIO_DEVICE_API_VERSION_3_1 :: nat where "AUDIO_DEVICE_API_VERSION_3_1 \<equiv> 0x301"
abbreviation AUDIO_DEVICE_API_VERSION_3_2 :: nat where "AUDIO_DEVICE_API_VERSION_3_2 \<equiv> 0x302"

text \<open>Up to version 6 the method has no result; the one given here is dropped there.\<close>

definition StreamOut_updateSourceMetadata :: "('p, 'v) env \<Rightarrow> nat \<Rightarrow> 'v \<Rightarrow> ('v, Result) hal_m" where
  "StreamOut_updateSourceMetadata E n sourceMetadata =
     (if e_major E \<le> 6 \<or> e_version E < AUDIO_DEVICE_API_VERSION_3_2
      then (if \<not> e_has E (Out n) ''update_source_metadata'' then return NOT_SUPPORTED else doUpdateSourceMetadata E n sourceMetadata)
      else (if \<not> e_has E (Out n) ''update_source_metadata_v7'' then return NOT_SUPPORTED
            else doUpdateSourceMetadataV7 E n sourceMetadata))"

definition StreamOut_selectPresentation :: "int \<Rightarrow> int \<Rightarrow> Result" where
  "StreamOut_selectPresentation presentationId programId = NOT_SUPPORTED"

section \<open>Version 6 and later\<close>

definition StreamOut_getDualMonoMode :: "('p, 'v) env \<Rightarrow> nat \<Rightarrow> ('v, Result \<times> int) hal_m" where
  "StreamOut_getDualMonoMode E n =
     (if e_has E (Out n) ''get_dual_mono_mode''
      then do { r \<leftarrow> hal E (Out n) ''get_dual_mono_mode'' []; return (analyzeStatus (rp_status r), rp_number r) }
      else return (NOT_SUPPORTED, 0))"

definition StreamOut_setDualMonoMode :: "('p, 'v) env \<Rightarrow> nat \<Rightarrow> int \<Rightarrow> ('v, Result) hal_m" where
  "StreamOut_setDualMonoMode E n mode = optional_result E (Out n) ''set_dual_mono_mode'' [N mode]"

definition StreamOut_getAudioDescriptionMixLevel :: "('p, 'v) env \<Rightarrow> nat \<Rightarrow> ('v, Result \<times> cfloat) hal_m" where
  "StreamOut_getAudioDescriptionMixLevel E n =
     (if e_has E (Out n) ''get_audio_description_mix_level''
      then do { r \<leftarrow> hal E (Out n) ''get_audio_description_mix_level'' []; return (analyzeStatus (rp_status r), rp_float r) }
      else return (NOT_SUPPORTED, NegInf))"

definition StreamOut_setAudioDescriptionMixLevel :: "('p, 'v) env \<Rightarrow> nat \<Rightarrow> cfloat \<Rightarrow> ('v, Result) hal_m" where
  "StreamOut_setAudioDescriptionMixLevel E n leveldB = optional_result E (Out n) ''set_audio_description_mix_level'' [F leveldB]"

text \<open>A playback rate is copied field by field; without a reply it is \<open>AUDIO_PLAYBACK_RATE_INITIALIZER\<close>.\<close>

definition StreamOut_getPlaybackRateParameters :: "('p, 'v) env \<Rightarrow> nat \<Rightarrow> ('v, Result \<times> 'v) hal_m" where
  "StreamOut_getPlaybackRateParameters E n =
     (if e_has E (Out n) ''get_playback_rate_parameters''
      then do { r \<leftarrow> hal E (Out n) ''get_playback_rate_parameters'' []; return (analyzeStatus (rp_status r), rp_value r) }
      else return (NOT_SUPPORTED, rp_value (e_conv E DefaultValue [])))"

definition StreamOut_setPlaybackRateParameters :: "('p, 'v) env \<Rightarrow> nat \<Rightarrow> 'v \<Rightarrow> ('v, Result) hal_m" where
  "StreamOut_setPlaybackRateParameters E n playbackRate = optional_result E (Out n) ''set_playback_rate_parameters'' [V playbackRate]"

definition StreamOut_setEventCallback :: "('p, 'v) env \<Rightarrow> nat \<Rightarrow> nat option \<Rightarrow> ('v, Result) hal_m" where
  "StreamOut_setEventCallback E n callback =
     (if \<not> e_has E (Out n) ''set_event_callback'' then return NOT_SUPPORTED
      else do {
        r \<leftarrow> hal E (Out n) ''set_event_callback'' [N (int n)];
        (if rp_status r = 0 then write_out n (\<lambda>s. s\<lparr>so_eventCallback := callback\<rparr>) else return ());
        return (analyzeStatus (rp_status r))
      })"

text \<open>The parameter is a byte string whose length \<^verbatim>\<open>dataByteStringLen\<close> determines; the event
  \<open>STREAM_EVENT_CBK_TYPE_CODEC_FORMAT_CHANGED\<close> is 0.\<close>

definition StreamOut_asyncEventCallback :: "(u8 list \<Rightarrow> nat) \<Rightarrow> int \<Rightarrow> u8 list \<Rightarrow> nat \<Rightarrow> ('v, (nat \<times> out_notification) option) hal_m" where
  "StreamOut_asyncEventCallback dataByteStringLen event param n = do {
     self \<leftarrow> read_out n;
     return (case so_eventCallback self of
         None \<Rightarrow> None
       | Some eventCallback \<Rightarrow>
           if event = 0 then Some (eventCallback, OnCodecFormatChanged (take (dataByteStringLen param) param)) else None)
   }"

section \<open>Version 7.1\<close>

definition StreamOut_setLatencyMode :: "('p, 'v) env \<Rightarrow> nat \<Rightarrow> int \<Rightarrow> ('v, Result) hal_m" where
  "StreamOut_setLatencyMode E n mode = optional_result E (Out n) ''set_latency_mode'' [N mode]"

text \<open>The number of latency modes is an argument; the legacy stream fills an array of that length.\<close>

definition StreamOut_getRecommendedLatencyModes :: "('p, 'v) env \<Rightarrow> nat \<Rightarrow> nat \<Rightarrow> ('v, Result \<times> 'v list) hal_m" where
  "StreamOut_getRecommendedLatencyModes E AUDIO_LATENCY_MODE_CNT n =
     (if \<not> e_has E (Out n) ''get_recommended_latency_modes'' then return (NOT_SUPPORTED, [])
      else do {
        r \<leftarrow> hal E (Out n) ''get_recommended_latency_modes'' [N (int AUDIO_LATENCY_MODE_CNT)];
        let num_modes = nat (rp_number r);
        return (if rp_status r \<noteq> 0 then (NOT_SUPPORTED, [])
                else if num_modes = 0 \<or> num_modes > AUDIO_LATENCY_MODE_CNT then (INVALID_STATE, [])
                else (OK, take num_modes (rp_values r)))
      })"

definition StreamOut_latencyModeCallback :: "nat \<Rightarrow> int list \<Rightarrow> nat \<Rightarrow> nat \<Rightarrow> ('v, (nat \<times> out_notification) option) hal_m" where
  "StreamOut_latencyModeCallback AUDIO_LATENCY_MODE_CNT modes num_modes n = do {
     self \<leftarrow> read_out n;
     return (case so_latencyModeCallback self of
         None \<Rightarrow> None
       | Some callback \<Rightarrow>
           if num_modes = 0 \<or> num_modes > AUDIO_LATENCY_MODE_CNT then None
           else Some (callback, OnRecommendedLatencyModeChanged (take num_modes modes)))
   }"

definition StreamOut_setLatencyModeCallback :: "('p, 'v) env \<Rightarrow> nat \<Rightarrow> nat option \<Rightarrow> ('v, Result) hal_m" where
  "StreamOut_setLatencyModeCallback E n callback =
     (if \<not> e_has E (Out n) ''set_latency_mode_callback'' then return NOT_SUPPORTED
      else do {
        r \<leftarrow> hal E (Out n) ''set_latency_mode_callback'' [N (int n)];
        (if rp_status r = 0 then write_out n (\<lambda>s. s\<lparr>so_latencyModeCallback := callback\<rparr>) else return ());
        return (analyzeStatus (rp_status r))
      })"

section \<open>Queues\<close>

definition allocated :: "prepare_env \<Rightarrow> nat \<Rightarrow> bool" where
  "allocated P bytes \<longleftrightarrow> pe_commandMQ_valid P \<and> pe_dataMQ_valid P bytes \<and> pe_statusMQ_valid P \<and> fst (pe_eventFlag P) = 0 \<and>
     snd (pe_eventFlag P) \<and> pe_buffer P \<and> pe_run P = 0"

lemma buffer_size_ok:
  fixes a b :: u32
  assumes "0 < unat b"
  shows "\<not> a > MAX_BUFFER_SIZE div b \<longleftrightarrow> unat a * unat b \<le> 2 ^ 31"
proof -
  have "unat MAX_BUFFER_SIZE = 2 ^ 31" by (simp add: MAX_BUFFER_SIZE_def push_bit_eq_mult)
  then have "unat (MAX_BUFFER_SIZE div b) = 2 ^ 31 div unat b" by (simp add: unat_div)
  then have "\<not> a > MAX_BUFFER_SIZE div b \<longleftrightarrow> unat a \<le> 2 ^ 31 div unat b"
    by (metis not_less word_less_nat_alt)
  also have "\<dots> \<longleftrightarrow> unat a * unat b \<le> 2 ^ 31" using assms by (simp add: less_eq_div_iff_mult_less_eq)
  finally show ?thesis .
qed

lemma buffer_size_exact:
  fixes a b :: u32
  assumes "unat a * unat b \<le> 2 ^ 31"
  shows "unat (a * b) = unat a * unat b"
  using assms by (simp add: unat_mult_lem [THEN iffD1])

lemma prepare_queues_exact:
  "prepare_queues P prepared frameSize framesCount = Inr bytes \<longleftrightarrow>
     \<not> prepared \<and> 0 < unat frameSize \<and> 0 < unat framesCount \<and> unat frameSize * unat framesCount \<le> 2 ^ 31 \<and>
     allocated P (unat frameSize * unat framesCount) \<and> bytes = unat frameSize * unat framesCount"
proof (cases "frameSize = 0 \<or> framesCount = 0")
  case True
  then show ?thesis by (auto simp: prepare_queues_def)
next
  case False
  then have pos: "0 < unat frameSize" "0 < unat framesCount" by (simp_all add: unat_gt_0)
  note size_ok = buffer_size_ok [OF pos(2), of frameSize]
  show ?thesis
  proof (cases "unat frameSize * unat framesCount \<le> 2 ^ 31")
    case True
    then show ?thesis
      using False pos size_ok buffer_size_exact [OF True] by (auto simp: prepare_queues_def allocated_def Let_def)
  next
    case big: False
    then show ?thesis using False size_ok by (auto simp: prepare_queues_def)
  qed
qed

text \<open>The condition under which the queues of a stream are set up; \<open>dataMQ\<close> is the data queue it has. The largest buffer is
  \<open>MAX_BUFFER_SIZE\<close> as the code computes it, \<^verbatim>\<open>2 << 30\<close>, which is two gigabytes; the comment on the constant says one.\<close>

definition queues_granted :: "prepare_env \<Rightarrow> nat option \<Rightarrow> u32 \<Rightarrow> u32 \<Rightarrow> bool" where
  "queues_granted P dataMQ frameSize framesCount \<longleftrightarrow>
     dataMQ = None \<and> 0 < unat frameSize \<and> 0 < unat framesCount \<and> unat frameSize * unat framesCount \<le> 2 ^ 31 \<and>
     allocated P (unat frameSize * unat framesCount)"

lemma prepare_queues_outcome:
  "if queues_granted P dataMQ frameSize framesCount
   then prepare_queues P (dataMQ \<noteq> None) frameSize framesCount = Inr (unat frameSize * unat framesCount)
   else \<exists>e. e \<noteq> OK \<and> prepare_queues P (dataMQ \<noteq> None) frameSize framesCount = Inl e"
proof (cases "prepare_queues P (dataMQ \<noteq> None) frameSize framesCount")
  case (Inl e)
  moreover from Inl have "e \<noteq> OK" by (auto simp: prepare_queues_def Let_def split: if_splits)
  moreover have "\<not> queues_granted P dataMQ frameSize framesCount"
    using Inl prepare_queues_exact [of P "dataMQ \<noteq> None" frameSize framesCount "unat frameSize * unat framesCount"]
    by (simp add: queues_granted_def)
  ultimately show ?thesis by simp
next
  case (Inr bytes)
  then show ?thesis
    using prepare_queues_exact [of P "dataMQ \<noteq> None" frameSize framesCount bytes] by (simp add: queues_granted_def)
qed

end
