(* ===== verification/Hal_StreamIn.thy ===== *)
theory Hal_StreamIn
  imports Hal_StreamOut
begin

text \<open>
  The primary audio HAL, fourth part: \<^verbatim>\<open>StreamIn.cpp\<close>, without the body of its thread.
\<close>

section \<open>Objects\<close>

definition read_in :: "nat \<Rightarrow> ('v, stream_obj) hal_m" where
  "read_in n = State (\<lambda>w. (case w_ins w n of Some s \<Rightarrow> s | None \<Rightarrow> new_obj, w))"

definition write_in :: "nat \<Rightarrow> (stream_obj \<Rightarrow> stream_obj) \<Rightarrow> ('v, unit) hal_m" where
  "write_in n f = State (\<lambda>w. ((), w\<lparr>w_ins := (w_ins w)(n := map_option f (w_ins w n))\<rparr>))"

lemma run_read_in [simp]: "run_state (read_in n) w = (case w_ins w n of Some s \<Rightarrow> s | None \<Rightarrow> new_obj, w)"
  by (simp add: read_in_def)

lemma run_write_in [simp]: "run_state (write_in n f) w = ((), w\<lparr>w_ins := (w_ins w)(n := map_option f (w_ins w n))\<rparr>)"
  by (simp add: write_in_def)

definition Device_closeInputStream :: "('p, 'v) env \<Rightarrow> nat \<Rightarrow> ('v, unit option) hal_m" where
  "Device_closeInputStream E n = do {
     r \<leftarrow> hal E Dev ''close_input_stream'' [N (int n)];
     State (\<lambda>w. if w_openedStreamsCount w = 0 then (None, w)
                else (Some (), w\<lparr>w_openedStreamsCount := w_openedStreamsCount w - 1\<rparr>))
   }"

lemma run_closeInputStream:
  "run_state (Device_closeInputStream E n) w =
     (if w_openedStreamsCount w = 0 then (None, w\<lparr>w_trace := w_trace w @ [Call Dev ''close_input_stream'' [N (int n)]]\<rparr>)
      else (Some (), w\<lparr>w_trace := w_trace w @ [Call Dev ''close_input_stream'' [N (int n)]], w_openedStreamsCount := w_openedStreamsCount w - 1\<rparr>))"
  by (simp add: Device_closeInputStream_def)

section \<open>Closing\<close>

definition StreamIn_close :: "('p, 'v) env \<Rightarrow> nat \<Rightarrow> ('v, Result option) hal_m" where
  "StreamIn_close E n = do {
     s \<leftarrow> read_in n;
     if so_stop s then return (Some INVALID_STATE)
     else do {
       write_in n (\<lambda>s. s\<lparr>so_stop := True\<rparr>);
       if e_major E \<ge> 6
       then do { r \<leftarrow> Device_closeInputStream E n; return (map_option (\<lambda>_. OK) r) }
       else return (Some OK)
     }
   }"

definition StreamIn_dtor_rest :: "('p, 'v) env \<Rightarrow> nat \<Rightarrow> ('v, unit option) hal_m" where
  "StreamIn_dtor_rest E n = do {
     r \<leftarrow> (if e_major E \<le> 5 then Device_closeInputStream E n else return (Some ()));
     State (\<lambda>w. (r, w\<lparr>w_ins := (w_ins w)(n := None)\<rparr>))
   }"

definition StreamIn_dtor :: "('p, 'v) env \<Rightarrow> nat \<Rightarrow> ('v, unit option) hal_m" where
  "StreamIn_dtor E n = do {
     r \<leftarrow> StreamIn_close E n;
     if r = None then return None else StreamIn_dtor_rest E n
   }"

section \<open>Methods of the common stream\<close>

definition StreamIn_getFrameSize :: "('p, 'v) env \<Rightarrow> nat \<Rightarrow> ('v, u64) hal_m" where
  "StreamIn_getFrameSize E n = do { r \<leftarrow> hal E (In n) ''audio_stream_in_frame_size'' []; return (word_of_int (rp_number r)) }"

definition StreamIn_getFrameCount :: "('p, 'v) env \<Rightarrow> nat \<Rightarrow> ('v, u64) hal_m" where
  "StreamIn_getFrameCount E n = Stream_getFrameCount E (In n)"

definition StreamIn_getBufferSize :: "('p, 'v) env \<Rightarrow> nat \<Rightarrow> ('v, u64) hal_m" where
  "StreamIn_getBufferSize E n = Stream_getBufferSize E (In n)"

definition StreamIn_getSampleRate :: "('p, 'v) env \<Rightarrow> nat \<Rightarrow> ('v, u32) hal_m" where
  "StreamIn_getSampleRate E n = Stream_getSampleRate E (In n)"

definition StreamIn_getSupportedChannelMasks :: "('p, 'v) env \<Rightarrow> nat \<Rightarrow> u32 \<Rightarrow> ('v, Result \<times> u32 list) hal_m" where
  "StreamIn_getSupportedChannelMasks E n format = Stream_getSupportedChannelMasks E (In n) format"

definition StreamIn_getSupportedSampleRates :: "('p, 'v) env \<Rightarrow> nat \<Rightarrow> u32 \<Rightarrow> ('v, Result \<times> u32 list) hal_m" where
  "StreamIn_getSupportedSampleRates E n format = Stream_getSupportedSampleRates E (In n) format"

definition StreamIn_setSampleRate :: "('p, 'v) env \<Rightarrow> nat \<Rightarrow> u32 \<Rightarrow> ('v, Result) hal_m" where
  "StreamIn_setSampleRate E n sampleRateHz = Stream_setSampleRate E (In n) sampleRateHz"

definition StreamIn_getChannelMask :: "('p, 'v) env \<Rightarrow> nat \<Rightarrow> ('v, u32) hal_m" where
  "StreamIn_getChannelMask E n = Stream_getChannelMask E (In n)"

definition StreamIn_setChannelMask :: "('p, 'v) env \<Rightarrow> nat \<Rightarrow> u32 \<Rightarrow> ('v, Result) hal_m" where
  "StreamIn_setChannelMask E n channelMask = Stream_setChannelMask E (In n) channelMask"

definition StreamIn_getFormat :: "('p, 'v) env \<Rightarrow> nat \<Rightarrow> ('v, u32) hal_m" where
  "StreamIn_getFormat E n = Stream_getFormat E (In n)"

definition StreamIn_getSupportedFormats :: "('p, 'v) env \<Rightarrow> nat \<Rightarrow> ('v, Result \<times> u32 list) hal_m" where
  "StreamIn_getSupportedFormats E n = Stream_getSupportedFormats E (In n)"

definition StreamIn_setFormat :: "('p, 'v) env \<Rightarrow> nat \<Rightarrow> u32 \<Rightarrow> ('v, Result) hal_m" where
  "StreamIn_setFormat E n format = Stream_setFormat E (In n) format"

definition StreamIn_getSupportedProfiles :: "('p, 'v) env \<Rightarrow> nat \<Rightarrow> ('v, (Result \<times> 'v AudioProfile list) option) hal_m" where
  "StreamIn_getSupportedProfiles E n = Stream_getSupportedProfiles E (In n)"

definition StreamIn_setAudioProperties :: "('p, 'v) env \<Rightarrow> ('v \<Rightarrow> int \<times> config_base) \<Rightarrow> nat \<Rightarrow> 'v \<Rightarrow> ('v, Result) hal_m" where
  "StreamIn_setAudioProperties E toHal n config = Stream_setAudioProperties E toHal (In n) config"

definition StreamIn_getAudioProperties :: "('p, 'v) env \<Rightarrow> nat \<Rightarrow> ('v, u32 \<times> u32 \<times> u32) hal_m" where
  "StreamIn_getAudioProperties E n = Stream_getAudioProperties E (In n)"

definition StreamIn_addEffect :: "('p, 'v) env \<Rightarrow> nat \<Rightarrow> u64 \<Rightarrow> ('v, Result) hal_m" where
  "StreamIn_addEffect E n effectId = Stream_addEffect E (In n) effectId"

definition StreamIn_removeEffect :: "('p, 'v) env \<Rightarrow> nat \<Rightarrow> u64 \<Rightarrow> ('v, Result) hal_m" where
  "StreamIn_removeEffect E n effectId = Stream_removeEffect E (In n) effectId"

definition StreamIn_standby :: "('p, 'v) env \<Rightarrow> nat \<Rightarrow> ('v, Result) hal_m" where
  "StreamIn_standby E n = Stream_standby E (In n)"

definition StreamIn_setHwAvSync :: "('p, 'v) env \<Rightarrow> nat \<Rightarrow> u32 \<Rightarrow> ('v, Result) hal_m" where
  "StreamIn_setHwAvSync E n hwAvSync = Stream_setHwAvSync E (In n) hwAvSync"

definition StreamIn_setConnectedState :: "('p, 'v) env \<Rightarrow> nat \<Rightarrow> 'v \<Rightarrow> bool \<Rightarrow> ('v, Result) hal_m" where
  "StreamIn_setConnectedState E n address isConnected = Stream_setConnectedState E (In n) address isConnected"

definition StreamIn_getDevice :: "('p, 'v) env \<Rightarrow> nat \<Rightarrow> ('v, u32) hal_m" where
  "StreamIn_getDevice E n = Stream_getDevice E (In n)"

definition StreamIn_setDevice :: "('p, 'v) env \<Rightarrow> nat \<Rightarrow> 'v \<Rightarrow> ('v, Result) hal_m" where
  "StreamIn_setDevice E n address = Stream_setDevice E (In n) address"

definition StreamIn_getDevices :: "('p, 'v) env \<Rightarrow> nat \<Rightarrow> ('v, Result \<times> 'v list) hal_m" where
  "StreamIn_getDevices E n = Stream_getDevices E (In n)"

definition StreamIn_setDevices :: "('p, 'v) env \<Rightarrow> nat \<Rightarrow> 'v list \<Rightarrow> ('v, Result) hal_m" where
  "StreamIn_setDevices E n devices = Stream_setDevices E (In n) devices"

definition StreamIn_getParameters :: "('p, 'v) env \<Rightarrow> nat \<Rightarrow> (string \<times> string) list \<Rightarrow> string list \<Rightarrow>
    ('v, Result \<times> (string \<times> string) list) hal_m" where
  "StreamIn_getParameters E n context keys = Stream_getParameters E (In n) context keys"

definition StreamIn_setParameters :: "('p, 'v) env \<Rightarrow> nat \<Rightarrow> (string \<times> string) list \<Rightarrow> (string \<times> string) list \<Rightarrow> ('v, Result) hal_m" where
  "StreamIn_setParameters E n context parameters = Stream_setParameters E (In n) context parameters"

definition StreamIn_start :: "('p, 'v) env \<Rightarrow> nat \<Rightarrow> ('v, Result) hal_m" where
  "StreamIn_start E n = StreamMmap_start E (In n)"

definition StreamIn_stop :: "('p, 'v) env \<Rightarrow> nat \<Rightarrow> ('v, Result) hal_m" where
  "StreamIn_stop E n = StreamMmap_stop E (In n)"

definition StreamIn_createMmapBuffer :: "('p, 'v) env \<Rightarrow> nat \<Rightarrow> int \<Rightarrow> ('v, (Result \<times> MmapBufferInfo) ub) hal_m" where
  "StreamIn_createMmapBuffer E n minSizeFrames = do {
     frameSize \<leftarrow> StreamIn_getFrameSize E n;
     StreamMmap_createMmapBuffer E (In n) minSizeFrames frameSize
   }"

definition StreamIn_getMmapPosition :: "('p, 'v) env \<Rightarrow> nat \<Rightarrow> ('v, Result \<times> int \<times> int) hal_m" where
  "StreamIn_getMmapPosition E n = StreamMmap_getMmapPosition E (In n)"

section \<open>Methods of input streams\<close>

definition StreamIn_getAudioSource :: "('p, 'v) env \<Rightarrow> nat \<Rightarrow> ('v, Result \<times> 'v) hal_m" where
  "StreamIn_getAudioSource E n = do {
     (retval, halSource) \<leftarrow> getParam_int E (In n) (e_text E KeyInputSource);
     if retval = OK
     then (let c = e_conv_int E AudioSourceFromHal halSource in return (analyzeStatus (rp_status c), rp_value c))
     else return (retval, rp_value (e_conv E DefaultValue []))
   }"

definition StreamIn_setGain :: "('p, 'v) env \<Rightarrow> nat \<Rightarrow> cfloat \<Rightarrow> ('v, Result) hal_m" where
  "StreamIn_setGain E n gain =
     (if \<not> isGainNormalized gain then return INVALID_ARGUMENTS else hal_result E (In n) ''set_gain'' [F gain])"

definition StreamIn_prepareForReading :: "prepare_env \<Rightarrow> nat \<Rightarrow> u32 \<Rightarrow> u32 \<Rightarrow> ('v, Result \<times> nat \<times> int) hal_m" where
  "StreamIn_prepareForReading P n frameSize framesCount = do {
     s \<leftarrow> read_in n;
     case prepare_queues P (so_dataMQ s \<noteq> None) frameSize framesCount of
       Inl result \<Rightarrow> return (result, 0, 0)
     | Inr bytes \<Rightarrow> do {
         write_in n (\<lambda>s. s\<lparr>so_dataMQ := Some bytes\<rparr>);
         return (OK, bytes, pe_tid P)
       }
   }"

definition StreamIn_getInputFramesLost :: "('p, 'v) env \<Rightarrow> nat \<Rightarrow> ('v, u32) hal_m" where
  "StreamIn_getInputFramesLost E n = do { r \<leftarrow> hal E (In n) ''get_input_frames_lost'' []; return (word_of_int (rp_number r)) }"

definition getCapturePositionImpl :: "('p, 'v) env \<Rightarrow> nat \<Rightarrow> u64 \<times> u64 \<Rightarrow> ('v, Result \<times> u64 \<times> u64) hal_m" where
  "getCapturePositionImpl E n = (\<lambda>(frames, time).
     if \<not> e_has E (In n) ''get_capture_position'' then return (NOT_SUPPORTED, frames, time)
     else do {
       r \<leftarrow> hal E (In n) ''get_capture_position'' [];
       let retval = analyzeStatus (rp_status r);
       return (if retval = OK then (OK, word_of_int (rp_field r ''frames''), word_of_int (rp_field r ''time'')) else (retval, frames, time))
     })"

definition StreamIn_getCapturePosition :: "('p, 'v) env \<Rightarrow> nat \<Rightarrow> ('v, Result \<times> u64 \<times> u64) hal_m" where
  "StreamIn_getCapturePosition E n = getCapturePositionImpl E n (0, 0)"

section \<open>Metadata\<close>

definition doUpdateSinkMetadata :: "('p, 'v) env \<Rightarrow> nat \<Rightarrow> 'v \<Rightarrow> ('v, Result) hal_m" where
  "doUpdateSinkMetadata E n sinkMetadata =
     (if e_major E \<le> 6
      then do {
        r \<leftarrow> hal E (In n) ''update_sink_metadata'' [Vs (rp_values (e_conv E SinkMetadataToHal [sinkMetadata]))];
        return OK
      }
      else let c = e_conv E SinkMetadataToHalV7 [sinkMetadata] in
      if rp_status c = 0
      then do {
        r \<leftarrow> hal E (In n) ''update_sink_metadata'' [Vs (map (\<lambda>track. rp_value (e_conv E BaseOfTrackV7 [track])) (rp_values c))];
        return OK
      }
      else return (analyzeStatus (rp_status c)))"

definition doUpdateSinkMetadataV7 :: "('p, 'v) env \<Rightarrow> nat \<Rightarrow> 'v \<Rightarrow> ('v, Result) hal_m" where
  "doUpdateSinkMetadataV7 E n sinkMetadata =
     (let c = e_conv E SinkMetadataToHalV7 [sinkMetadata] in
      if rp_status c \<noteq> 0 then return (analyzeStatus (rp_status c))
      else do { r \<leftarrow> hal E (In n) ''update_sink_metadata_v7'' [Vs (rp_values c)]; return OK })"

definition StreamIn_updateSinkMetadata :: "('p, 'v) env \<Rightarrow> nat \<Rightarrow> 'v \<Rightarrow> ('v, Result) hal_m" where
  "StreamIn_updateSinkMetadata E n sinkMetadata =
     (if e_major E \<le> 6 \<or> e_version E < AUDIO_DEVICE_API_VERSION_3_2
      then (if \<not> e_has E (In n) ''update_sink_metadata'' then return NOT_SUPPORTED else doUpdateSinkMetadata E n sinkMetadata)
      else (if \<not> e_has E (In n) ''update_sink_metadata_v7'' then return NOT_SUPPORTED else doUpdateSinkMetadataV7 E n sinkMetadata))"

section \<open>Microphones\<close>

text \<open>The array has a fixed length, an argument; a legacy HAL that reports more microphones makes the loop run past it.\<close>

definition microphones_of :: "('p, 'v) env \<Rightarrow> nat \<Rightarrow> 'v reply \<Rightarrow> 'v list ub" where
  "microphones_of E AUDIO_MICROPHONE_MAX_COUNT r =
     (let actual_mics = nat (rp_number r) in
      if actual_mics > AUDIO_MICROPHONE_MAX_COUNT then None
      else Some (map (\<lambda>mic. rp_value (e_conv E MicrophoneInfoFromHal [mic])) (take actual_mics (rp_values r))))"

definition StreamIn_getActiveMicrophones :: "('p, 'v) env \<Rightarrow> nat \<Rightarrow> nat \<Rightarrow> ('v, (Result \<times> 'v list) ub) hal_m" where
  "StreamIn_getActiveMicrophones E AUDIO_MICROPHONE_MAX_COUNT n =
     (if \<not> e_has E (In n) ''get_active_microphones'' then return (Some (NOT_SUPPORTED, []))
      else do {
        r \<leftarrow> hal E (In n) ''get_active_microphones'' [N (int AUDIO_MICROPHONE_MAX_COUNT)];
        return (if rp_status r \<noteq> 0 then Some (NOT_SUPPORTED, [])
                else map_option (Pair OK) (microphones_of E AUDIO_MICROPHONE_MAX_COUNT r))
      })"

definition StreamIn_setMicrophoneDirection :: "('p, 'v) env \<Rightarrow> (int \<Rightarrow> bool) \<Rightarrow> nat \<Rightarrow> int \<Rightarrow> ('v, Result) hal_m" where
  "StreamIn_setMicrophoneDirection E isValidHidlEnum n direction =
     (if \<not> e_has E (In n) ''set_microphone_direction'' then return NOT_SUPPORTED
      else if \<not> isValidHidlEnum direction then return INVALID_ARGUMENTS
      else hal_result E (In n) ''set_microphone_direction'' [N direction])"

fun zoom_ok :: "cfloat \<Rightarrow> bool" where
  "zoom_ok (Finite zoom) \<longleftrightarrow> \<not> (zoom < -1 \<or> zoom > 1)"
| "zoom_ok _ \<longleftrightarrow> False"

definition StreamIn_setMicrophoneFieldDimension :: "('p, 'v) env \<Rightarrow> nat \<Rightarrow> cfloat \<Rightarrow> ('v, Result) hal_m" where
  "StreamIn_setMicrophoneFieldDimension E n zoom =
     (if \<not> e_has E (In n) ''set_microphone_field_dimension'' then return NOT_SUPPORTED
      else if \<not> zoom_ok zoom then return INVALID_ARGUMENTS
      else hal_result E (In n) ''set_microphone_field_dimension'' [F zoom])"

section \<open>Properties\<close>

text \<open>C30: an output stream and an input stream get their queues at most once, and exactly when the frame size and count are
  positive, their product, which is then computed without overflow, is at most the two gigabytes of \<open>MAX_BUFFER_SIZE\<close>,
  \<^verbatim>\<open>2 << 30\<close> (the comment beside the constant says one), and every allocation succeeds; the call then reports \<open>OK\<close>, that many bytes
  and the thread, and the data queue of that stream has that size. In every other case the call reports an error and nothing changes.\<close>

theorem prepare_exact:
  assumes "w_outs w n = Some s" "w_ins w m = Some t"
  shows "\<exists>e e'. e \<noteq> OK \<and> e' \<noteq> OK \<and>
     run_state (StreamOut_prepareForWriting P n frameSize framesCount) w =
       (if queues_granted P (so_dataMQ s) frameSize framesCount
        then ((OK, unat frameSize * unat framesCount, pe_tid P),
          w\<lparr>w_outs := (w_outs w)(n \<mapsto> s\<lparr>so_dataMQ := Some (unat frameSize * unat framesCount)\<rparr>)\<rparr>)
        else ((e, 0, 0), w)) \<and>
     run_state (StreamIn_prepareForReading P m frameSize framesCount) w =
       (if queues_granted P (so_dataMQ t) frameSize framesCount
        then ((OK, unat frameSize * unat framesCount, pe_tid P),
          w\<lparr>w_ins := (w_ins w)(m \<mapsto> t\<lparr>so_dataMQ := Some (unat frameSize * unat framesCount)\<rparr>)\<rparr>)
        else ((e', 0, 0), w))"
proof -
  note q = prepare_queues_outcome [of P _ frameSize framesCount]
  have o: "run_state (StreamOut_prepareForWriting P n frameSize framesCount) w =
      (case prepare_queues P (so_dataMQ s \<noteq> None) frameSize framesCount of Inl e \<Rightarrow> ((e, 0, 0), w)
       | Inr bytes \<Rightarrow> ((OK, bytes, pe_tid P), w\<lparr>w_outs := (w_outs w)(n \<mapsto> s\<lparr>so_dataMQ := Some bytes\<rparr>)\<rparr>))"
    using assms by (cases "prepare_queues P (so_dataMQ s \<noteq> None) frameSize framesCount") (simp_all add: StreamOut_prepareForWriting_def)
  have i: "run_state (StreamIn_prepareForReading P m frameSize framesCount) w =
      (case prepare_queues P (so_dataMQ t \<noteq> None) frameSize framesCount of Inl e \<Rightarrow> ((e, 0, 0), w)
       | Inr bytes \<Rightarrow> ((OK, bytes, pe_tid P), w\<lparr>w_ins := (w_ins w)(m \<mapsto> t\<lparr>so_dataMQ := Some bytes\<rparr>)\<rparr>))"
    using assms by (cases "prepare_queues P (so_dataMQ t \<noteq> None) frameSize framesCount") (simp_all add: StreamIn_prepareForReading_def)
  have "\<exists>e. e \<noteq> OK \<and> run_state (StreamOut_prepareForWriting P n frameSize framesCount) w =
      (if queues_granted P (so_dataMQ s) frameSize framesCount
       then ((OK, unat frameSize * unat framesCount, pe_tid P),
         w\<lparr>w_outs := (w_outs w)(n \<mapsto> s\<lparr>so_dataMQ := Some (unat frameSize * unat framesCount)\<rparr>)\<rparr>)
       else ((e, 0, 0), w))"
    unfolding o using q [of "so_dataMQ s"] by (auto split: if_splits intro: exI [of _ INVALID_STATE])
  moreover have "\<exists>e. e \<noteq> OK \<and> run_state (StreamIn_prepareForReading P m frameSize framesCount) w =
      (if queues_granted P (so_dataMQ t) frameSize framesCount
       then ((OK, unat frameSize * unat framesCount, pe_tid P),
         w\<lparr>w_ins := (w_ins w)(m \<mapsto> t\<lparr>so_dataMQ := Some (unat frameSize * unat framesCount)\<rparr>)\<rparr>)
       else ((e, 0, 0), w))"
    unfolding i using q [of "so_dataMQ t"] by (auto split: if_splits intro: exI [of _ INVALID_STATE])
  ultimately show ?thesis by blast
qed

end
