(* ===== verification/Monad_Laws.thy ===== *)
theory Monad_Laws
  imports BT_Prelude "HOL-Library.State_Monad"
begin

text \<open>
  What a program in the state monad keeps: a reflexive and transitive relation between the state before
  and after holds for a composite program when it holds for its parts. The components that are written in the state
  monad interpret this locale for the relations they need.
\<close>

locale step_relation =
  fixes R :: "'s \<Rightarrow> 's \<Rightarrow> bool"
  assumes R_refl: "R s s"
    and R_trans: "R s t \<Longrightarrow> R t u \<Longrightarrow> R s u"
begin

lemma rel_return: "state_io_rel R (State_Monad.return x)"
  by (simp add: state_io_rel_def R_refl)

lemma rel_bind:
  assumes "state_io_rel R m" "\<And>x. state_io_rel R (f x)"
  shows "state_io_rel R (State_Monad.bind m f)"
proof
  fix a s u assume "run_state (State_Monad.bind m f) s = (a, u)"
  then obtain x t where "run_state m s = (x, t)" "run_state (f x) t = (a, u)" by (auto split: prod.splits)
  then show "R s u" using assms R_trans by blast
qed

lemma rel_if: "(c \<Longrightarrow> state_io_rel R m) \<Longrightarrow> (\<not> c \<Longrightarrow> state_io_rel R m') \<Longrightarrow> state_io_rel R (if c then m else m')"
  by simp

lemma rel_option:
  "(x = None \<Longrightarrow> state_io_rel R m) \<Longrightarrow> (\<And>y. x = Some y \<Longrightarrow> state_io_rel R (f y)) \<Longrightarrow>
   state_io_rel R (case x of None \<Rightarrow> m | Some y \<Rightarrow> f y)"
  by (cases x) auto

lemma rel_prod: "(\<And>y z. x = (y, z) \<Longrightarrow> state_io_rel R (f y z)) \<Longrightarrow> state_io_rel R (case x of (y, z) \<Rightarrow> f y z)"
  by (cases x) auto

lemma rel_let: "state_io_rel R (f x) \<Longrightarrow> state_io_rel R (let y = x in f y)"
  by simp

lemma rel_run: "state_io_rel R m \<Longrightarrow> run_state m s = (a, t) \<Longrightarrow> R s t"
  by (rule state_io_relD)

end

end
