(* ===== verification/Hal_Methods.thy ===== *)
theory Hal_Methods
  imports Hal_StreamIn Monad_Laws
begin

text \<open>
  The primary audio HAL: the methods of the stream objects of \<^verbatim>\<open>StreamOut.cpp\<close> and \<^verbatim>\<open>StreamIn.cpp\<close>, all but \<open>close\<close> and
  the destructor, as one relation each, and what they have in common: they call the legacy stream of their object and nothing
  else, and neither stop nor destroy a stream. The threads of the streams run beside them.
\<close>

section \<open>Methods\<close>

text \<open>A method as one step of the world; its result goes to the client.\<close>


inductive out_method :: "('p, 'v) env \<Rightarrow> nat \<Rightarrow> 'v world \<Rightarrow> 'v world \<Rightarrow> bool" for E n where
  getFrameSize: "out_method E n w (snd (run_state (StreamOut_getFrameSize E n) w))"
| getFrameCount: "out_method E n w (snd (run_state (StreamOut_getFrameCount E n) w))"
| getBufferSize: "out_method E n w (snd (run_state (StreamOut_getBufferSize E n) w))"
| getSampleRate: "out_method E n w (snd (run_state (StreamOut_getSampleRate E n) w))"
| getSupportedChannelMasks: "out_method E n w (snd (run_state (StreamOut_getSupportedChannelMasks E n format) w))"
| getSupportedSampleRates: "out_method E n w (snd (run_state (StreamOut_getSupportedSampleRates E n format) w))"
| setSampleRate: "out_method E n w (snd (run_state (StreamOut_setSampleRate E n sampleRateHz) w))"
| getChannelMask: "out_method E n w (snd (run_state (StreamOut_getChannelMask E n) w))"
| setChannelMask: "out_method E n w (snd (run_state (StreamOut_setChannelMask E n channelMask) w))"
| getFormat: "out_method E n w (snd (run_state (StreamOut_getFormat E n) w))"
| getSupportedFormats: "out_method E n w (snd (run_state (StreamOut_getSupportedFormats E n) w))"
| setFormat: "out_method E n w (snd (run_state (StreamOut_setFormat E n format) w))"
| getSupportedProfiles: "out_method E n w (snd (run_state (StreamOut_getSupportedProfiles E n) w))"
| setAudioProperties: "out_method E n w (snd (run_state (StreamOut_setAudioProperties E toHal n config) w))"
| getAudioProperties: "out_method E n w (snd (run_state (StreamOut_getAudioProperties E n) w))"
| addEffect: "out_method E n w (snd (run_state (StreamOut_addEffect E n effectId) w))"
| removeEffect: "out_method E n w (snd (run_state (StreamOut_removeEffect E n effectId) w))"
| standby: "out_method E n w (snd (run_state (StreamOut_standby E n) w))"
| setHwAvSync: "out_method E n w (snd (run_state (StreamOut_setHwAvSync E n hwAvSync) w))"
| setConnectedState: "out_method E n w (snd (run_state (StreamOut_setConnectedState E n address isConnected) w))"
| getDevice: "out_method E n w (snd (run_state (StreamOut_getDevice E n) w))"
| setDevice: "out_method E n w (snd (run_state (StreamOut_setDevice E n address) w))"
| getDevices: "out_method E n w (snd (run_state (StreamOut_getDevices E n) w))"
| setDevices: "out_method E n w (snd (run_state (StreamOut_setDevices E n devices) w))"
| getParameters: "out_method E n w (snd (run_state (StreamOut_getParameters E n context keys) w))"
| setParameters: "out_method E n w (snd (run_state (StreamOut_setParameters E n context parameters) w))"
| getLatency: "out_method E n w (snd (run_state (StreamOut_getLatency E n) w))"
| setVolume: "out_method E n w (snd (run_state (StreamOut_setVolume E n left right) w))"
| prepareForWriting: "out_method E n w (snd (run_state (StreamOut_prepareForWriting P n frameSize framesCount) w))"
| getRenderPosition: "out_method E n w (snd (run_state (StreamOut_getRenderPosition E n) w))"
| getNextWriteTimestamp: "out_method E n w (snd (run_state (StreamOut_getNextWriteTimestamp E n) w))"
| setCallback: "out_method E n w (snd (run_state (StreamOut_setCallback E n callback) w))"
| clearCallback: "out_method E n w (snd (run_state (StreamOut_clearCallback E n) w))"
| pause: "out_method E n w (snd (run_state (StreamOut_pause E n) w))"
| resume: "out_method E n w (snd (run_state (StreamOut_resume E n) w))"
| drain: "out_method E n w (snd (run_state (StreamOut_drain E n type) w))"
| flush: "out_method E n w (snd (run_state (StreamOut_flush E n) w))"
| getPresentationPosition: "out_method E n w (snd (run_state (StreamOut_getPresentationPosition E n) w))"
| start: "out_method E n w (snd (run_state (StreamOut_start E n) w))"
| stop: "out_method E n w (snd (run_state (StreamOut_stop E n) w))"
| createMmapBuffer: "out_method E n w (snd (run_state (StreamOut_createMmapBuffer E n minSizeFrames) w))"
| getMmapPosition: "out_method E n w (snd (run_state (StreamOut_getMmapPosition E n) w))"
| updateSourceMetadata: "out_method E n w (snd (run_state (StreamOut_updateSourceMetadata E n sourceMetadata) w))"
| getDualMonoMode: "out_method E n w (snd (run_state (StreamOut_getDualMonoMode E n) w))"
| setDualMonoMode: "out_method E n w (snd (run_state (StreamOut_setDualMonoMode E n mode) w))"
| getAudioDescriptionMixLevel: "out_method E n w (snd (run_state (StreamOut_getAudioDescriptionMixLevel E n) w))"
| setAudioDescriptionMixLevel: "out_method E n w (snd (run_state (StreamOut_setAudioDescriptionMixLevel E n leveldB) w))"
| getPlaybackRateParameters: "out_method E n w (snd (run_state (StreamOut_getPlaybackRateParameters E n) w))"
| setPlaybackRateParameters: "out_method E n w (snd (run_state (StreamOut_setPlaybackRateParameters E n playbackRate) w))"
| setEventCallback: "out_method E n w (snd (run_state (StreamOut_setEventCallback E n callback) w))"
| setLatencyMode: "out_method E n w (snd (run_state (StreamOut_setLatencyMode E n mode) w))"
| getRecommendedLatencyModes: "out_method E n w (snd (run_state (StreamOut_getRecommendedLatencyModes E AUDIO_LATENCY_MODE_CNT n) w))"
| setLatencyModeCallback: "out_method E n w (snd (run_state (StreamOut_setLatencyModeCallback E n callback) w))"
| debug: "out_method E n w (snd (run_state (Stream_debug E (Out n) fd) w))"
| getSupportedSampleRates_V2: "out_method E n w (snd (run_state (Stream_getSupportedSampleRates_V2 E (Out n)) w))"
| getSupportedChannelMasks_V2: "out_method E n w (snd (run_state (Stream_getSupportedChannelMasks_V2 E (Out n)) w))"
| getParameters_V2: "out_method E n w (snd (run_state (Stream_getParameters_V2 E (Out n) keys) w))"
| setParameters_V2: "out_method E n w (snd (run_state (Stream_setParameters_V2 E (Out n) parameters) w))"
| getAudioProperties_V7: "out_method E n w (snd (run_state (Stream_getAudioProperties_V7 E audioConfigBaseFromHal (Out n)) w))"

inductive in_method :: "('p, 'v) env \<Rightarrow> nat \<Rightarrow> 'v world \<Rightarrow> 'v world \<Rightarrow> bool" for E n where
  getFrameSize: "in_method E n w (snd (run_state (StreamIn_getFrameSize E n) w))"
| getFrameCount: "in_method E n w (snd (run_state (StreamIn_getFrameCount E n) w))"
| getBufferSize: "in_method E n w (snd (run_state (StreamIn_getBufferSize E n) w))"
| getSampleRate: "in_method E n w (snd (run_state (StreamIn_getSampleRate E n) w))"
| getSupportedChannelMasks: "in_method E n w (snd (run_state (StreamIn_getSupportedChannelMasks E n format) w))"
| getSupportedSampleRates: "in_method E n w (snd (run_state (StreamIn_getSupportedSampleRates E n format) w))"
| setSampleRate: "in_method E n w (snd (run_state (StreamIn_setSampleRate E n sampleRateHz) w))"
| getChannelMask: "in_method E n w (snd (run_state (StreamIn_getChannelMask E n) w))"
| setChannelMask: "in_method E n w (snd (run_state (StreamIn_setChannelMask E n channelMask) w))"
| getFormat: "in_method E n w (snd (run_state (StreamIn_getFormat E n) w))"
| getSupportedFormats: "in_method E n w (snd (run_state (StreamIn_getSupportedFormats E n) w))"
| setFormat: "in_method E n w (snd (run_state (StreamIn_setFormat E n format) w))"
| getSupportedProfiles: "in_method E n w (snd (run_state (StreamIn_getSupportedProfiles E n) w))"
| setAudioProperties: "in_method E n w (snd (run_state (StreamIn_setAudioProperties E toHal n config) w))"
| getAudioProperties: "in_method E n w (snd (run_state (StreamIn_getAudioProperties E n) w))"
| addEffect: "in_method E n w (snd (run_state (StreamIn_addEffect E n effectId) w))"
| removeEffect: "in_method E n w (snd (run_state (StreamIn_removeEffect E n effectId) w))"
| standby: "in_method E n w (snd (run_state (StreamIn_standby E n) w))"
| setHwAvSync: "in_method E n w (snd (run_state (StreamIn_setHwAvSync E n hwAvSync) w))"
| setConnectedState: "in_method E n w (snd (run_state (StreamIn_setConnectedState E n address isConnected) w))"
| getDevice: "in_method E n w (snd (run_state (StreamIn_getDevice E n) w))"
| setDevice: "in_method E n w (snd (run_state (StreamIn_setDevice E n address) w))"
| getDevices: "in_method E n w (snd (run_state (StreamIn_getDevices E n) w))"
| setDevices: "in_method E n w (snd (run_state (StreamIn_setDevices E n devices) w))"
| getParameters: "in_method E n w (snd (run_state (StreamIn_getParameters E n context keys) w))"
| setParameters: "in_method E n w (snd (run_state (StreamIn_setParameters E n context parameters) w))"
| start: "in_method E n w (snd (run_state (StreamIn_start E n) w))"
| stop: "in_method E n w (snd (run_state (StreamIn_stop E n) w))"
| createMmapBuffer: "in_method E n w (snd (run_state (StreamIn_createMmapBuffer E n minSizeFrames) w))"
| getMmapPosition: "in_method E n w (snd (run_state (StreamIn_getMmapPosition E n) w))"
| getAudioSource: "in_method E n w (snd (run_state (StreamIn_getAudioSource E n) w))"
| setGain: "in_method E n w (snd (run_state (StreamIn_setGain E n gain) w))"
| prepareForReading: "in_method E n w (snd (run_state (StreamIn_prepareForReading P n frameSize framesCount) w))"
| getInputFramesLost: "in_method E n w (snd (run_state (StreamIn_getInputFramesLost E n) w))"
| getCapturePosition: "in_method E n w (snd (run_state (StreamIn_getCapturePosition E n) w))"
| updateSinkMetadata: "in_method E n w (snd (run_state (StreamIn_updateSinkMetadata E n sinkMetadata) w))"
| getActiveMicrophones: "in_method E n w (snd (run_state (StreamIn_getActiveMicrophones E AUDIO_MICROPHONE_MAX_COUNT n) w))"
| setMicrophoneDirection: "in_method E n w (snd (run_state (StreamIn_setMicrophoneDirection E isValidHidlEnum n direction) w))"
| setMicrophoneFieldDimension: "in_method E n w (snd (run_state (StreamIn_setMicrophoneFieldDimension E n zoom) w))"
| debug: "in_method E n w (snd (run_state (Stream_debug E (In n) fd) w))"
| getSupportedSampleRates_V2: "in_method E n w (snd (run_state (Stream_getSupportedSampleRates_V2 E (In n)) w))"
| getSupportedChannelMasks_V2: "in_method E n w (snd (run_state (Stream_getSupportedChannelMasks_V2 E (In n)) w))"
| getParameters_V2: "in_method E n w (snd (run_state (Stream_getParameters_V2 E (In n) keys) w))"
| setParameters_V2: "in_method E n w (snd (run_state (Stream_setParameters_V2 E (In n) parameters) w))"
| getAudioProperties_V7: "in_method E n w (snd (run_state (Stream_getAudioProperties_V7 E audioConfigBaseFromHal (In n)) w))"

section \<open>What methods do\<close>

fun target_of :: "'v hal_call \<Rightarrow> target" where
  "target_of (Call t f args) = t"

definition own_calls :: "target \<Rightarrow> 'v world \<Rightarrow> 'v world \<Rightarrow> bool" where
  "own_calls t w w' \<longleftrightarrow> (\<exists>calls. w_trace w' = w_trace w @ calls \<and> (\<forall>c\<in>set calls. target_of c = t)) \<and>
     (\<forall>k. map_option so_stop (w_outs w' k) = map_option so_stop (w_outs w k)) \<and>
     (\<forall>k. map_option so_stop (w_ins w' k) = map_option so_stop (w_ins w k))"

named_theorems own_intros \<open>programs that only call one legacy stream\<close>

lemma own_calls_trans:
  assumes "own_calls t u v" "own_calls t v w"
  shows "own_calls t u w"
proof -
  obtain a b where "w_trace v = w_trace u @ a" "\<forall>c\<in>set a. target_of c = t" "w_trace w = w_trace v @ b" "\<forall>c\<in>set b. target_of c = t"
    using assms unfolding own_calls_def by blast
  then have "w_trace w = w_trace u @ (a @ b) \<and> (\<forall>c\<in>set (a @ b). target_of c = t)" by auto
  then show ?thesis using assms unfolding own_calls_def by auto
qed

interpretation own: step_relation "own_calls t" for t
  by unfold_locales (auto simp: own_calls_def intro: own_calls_trans)

declare own.rel_return [own_intros] own.rel_bind [own_intros] own.rel_if [own_intros] own.rel_option [own_intros]
  own.rel_prod [own_intros] own.rel_let [own_intros]

lemma own_hal [own_intros]: "state_io_rel (own_calls t) (hal E t f args)" "state_io_rel (own_calls t) (hal_result E t f args)"
  by (auto simp: state_io_rel_def own_calls_def)

lemma own_optional [own_intros]: "state_io_rel (own_calls t) (optional_result E t f args)"
  unfolding optional_result_def by (intro own_intros)

lemma own_objects [own_intros]: "state_io_rel (own_calls t) (read_out n)" "state_io_rel (own_calls t) (read_in n)"
  by (auto simp: state_io_rel_def own_calls_def)

lemma own_write [own_intros]:
  "(\<And>s. so_stop (f s) = so_stop s) \<Longrightarrow> state_io_rel (own_calls t) (write_out n f)"
  "(\<And>s. so_stop (f s) = so_stop s) \<Longrightarrow> state_io_rel (own_calls t) (write_in n f)"
  by (auto simp: state_io_rel_def own_calls_def option.map_comp comp_def)

lemma own_params [own_intros]:
  "state_io_rel (own_calls t) (getParams E t keys)" "state_io_rel (own_calls t) (setParams E t keys)"
  unfolding getParams_def setParams_def by (intro own_intros)+

lemma own_getParam [own_intros]:
  "state_io_rel (own_calls t) (getParam_string E t name context)" "state_io_rel (own_calls t) (getParam_int E t name)"
  "state_io_rel (own_calls t) (getParametersImpl E t pairs keys)"
  unfolding getParam_string_def getParam_int_def getParametersImpl_def by (intro own_intros)+

lemma own_setParam [own_intros]:
  "state_io_rel (own_calls t) (setParam_int E t name i)" "state_io_rel (own_calls t) (setParam_address E t name address)"
  "state_io_rel (own_calls t) (setParametersImpl E t pairs keys)"
  unfolding setParam_int_def setParam_address_def setParametersImpl_def by (intro own_intros)+

lemma own_profiles [own_intros]: "state_io_rel (own_calls t) (getSupportedProfiles_loop E t formats result tempProfiles)"
  by (induction E t formats result tempProfiles rule: getSupportedProfiles_loop.induct)
    (subst getSupportedProfiles_loop.simps, auto intro!: own_intros)+

lemma own_specified [own_intros]: "state_io_rel (own_calls t) rest \<Longrightarrow> state_io_rel (own_calls t) (set_specified E t key value rest)"
  unfolding set_specified_def by (intro own_intros)

lemmas stream_defs = Stream_getFrameCount_def Stream_getBufferSize_def Stream_getSampleRate_def Stream_getChannelMask_def
  Stream_getFormat_def Stream_getSupportedSampleRates_def Stream_getSupportedChannelMasks_def Stream_getSupportedFormats_def
  Stream_getSupportedSampleRates_V2_def Stream_getSupportedChannelMasks_V2_def Stream_setSampleRate_def Stream_setChannelMask_def
  Stream_setFormat_def Stream_getAudioProperties_def Stream_getSupportedProfiles_def Stream_getAudioProperties_V7_def
  Stream_setAudioProperties_def Stream_addEffect_def Stream_removeEffect_def Stream_standby_def Stream_setHwAvSync_def
  Stream_getDevice_def Stream_setDevice_def Stream_setConnectedState_def Stream_getDevices_def Stream_setDevices_def
  Stream_getParameters_def Stream_setParameters_def Stream_getParameters_V2_def Stream_setParameters_V2_def
  StreamMmap_start_def StreamMmap_stop_def StreamMmap_createMmapBuffer_def StreamMmap_getMmapPosition_def


lemmas StreamOut_methods =
  StreamOut_getFrameSize_def StreamOut_getFrameCount_def StreamOut_getBufferSize_def StreamOut_getSampleRate_def
  StreamOut_getSupportedChannelMasks_def StreamOut_getSupportedSampleRates_def StreamOut_setSampleRate_def
  StreamOut_getChannelMask_def StreamOut_setChannelMask_def StreamOut_getFormat_def StreamOut_getSupportedFormats_def
  StreamOut_setFormat_def StreamOut_getSupportedProfiles_def StreamOut_setAudioProperties_def StreamOut_getAudioProperties_def
  StreamOut_addEffect_def StreamOut_removeEffect_def StreamOut_standby_def StreamOut_setHwAvSync_def
  StreamOut_setConnectedState_def StreamOut_getDevice_def StreamOut_setDevice_def StreamOut_getDevices_def
  StreamOut_setDevices_def StreamOut_getParameters_def StreamOut_setParameters_def StreamOut_getLatency_def
  StreamOut_setVolume_def StreamOut_prepareForWriting_def StreamOut_getRenderPosition_def StreamOut_getNextWriteTimestamp_def
  StreamOut_setCallback_def StreamOut_clearCallback_def StreamOut_pause_def StreamOut_resume_def StreamOut_drain_def
  StreamOut_flush_def StreamOut_getPresentationPosition_def StreamOut_start_def StreamOut_stop_def StreamOut_createMmapBuffer_def
  StreamOut_getMmapPosition_def StreamOut_getDualMonoMode_def StreamOut_setDualMonoMode_def
  StreamOut_getAudioDescriptionMixLevel_def StreamOut_setAudioDescriptionMixLevel_def StreamOut_getPlaybackRateParameters_def
  StreamOut_setPlaybackRateParameters_def StreamOut_setEventCallback_def StreamOut_setLatencyMode_def
  StreamOut_getRecommendedLatencyModes_def StreamOut_setLatencyModeCallback_def

lemmas StreamIn_methods =
  StreamIn_getFrameSize_def StreamIn_getFrameCount_def StreamIn_getBufferSize_def StreamIn_getSampleRate_def
  StreamIn_getSupportedChannelMasks_def StreamIn_getSupportedSampleRates_def StreamIn_setSampleRate_def
  StreamIn_getChannelMask_def StreamIn_setChannelMask_def StreamIn_getFormat_def StreamIn_getSupportedFormats_def
  StreamIn_setFormat_def StreamIn_getSupportedProfiles_def StreamIn_setAudioProperties_def StreamIn_getAudioProperties_def
  StreamIn_addEffect_def StreamIn_removeEffect_def StreamIn_standby_def StreamIn_setHwAvSync_def StreamIn_setConnectedState_def
  StreamIn_getDevice_def StreamIn_setDevice_def StreamIn_getDevices_def StreamIn_setDevices_def StreamIn_getParameters_def
  StreamIn_setParameters_def StreamIn_start_def StreamIn_stop_def StreamIn_createMmapBuffer_def StreamIn_getMmapPosition_def
  StreamIn_getAudioSource_def StreamIn_setGain_def StreamIn_prepareForReading_def StreamIn_getInputFramesLost_def
  StreamIn_getCapturePosition_def StreamIn_getActiveMicrophones_def
  StreamIn_setMicrophoneDirection_def StreamIn_setMicrophoneFieldDimension_def

lemma own_sum [own_intros]:
  "(\<And>x. s = Inl x \<Longrightarrow> state_io_rel R (f x)) \<Longrightarrow> (\<And>y. s = Inr y \<Longrightarrow> state_io_rel R (g y)) \<Longrightarrow>
   state_io_rel R (case s of Inl x \<Rightarrow> f x | Inr y \<Rightarrow> g y)"
  by (cases s) auto

lemma own_debug [own_intros]: "state_io_rel (own_calls t) (Stream_debug E t fd)"
  unfolding Stream_debug_def by (auto intro!: own_intros split: option.split list.split)

lemma own_run: "state_io_rel (own_calls t) m \<Longrightarrow> own_calls t w (snd (run_state m w))"
  by (auto simp: state_io_rel_def)

lemma own_position [own_intros]:
  "state_io_rel (own_calls (Out n)) (getPresentationPositionImpl E n x)"
  "state_io_rel (own_calls (In n)) (getCapturePositionImpl E n y)"
  unfolding getPresentationPositionImpl_def getCapturePositionImpl_def by (intro own_intros)+

lemma own_metadata [own_intros]:
  "state_io_rel (own_calls (Out n)) (StreamOut_updateSourceMetadata E n source)"
  "state_io_rel (own_calls (In n)) (StreamIn_updateSinkMetadata E n sink)"
  unfolding StreamOut_updateSourceMetadata_def doUpdateSourceMetadata_def doUpdateSourceMetadataV7_def
    StreamIn_updateSinkMetadata_def doUpdateSinkMetadata_def doUpdateSinkMetadataV7_def
  by (intro own_intros)+

lemma out_method_own: "out_method E n w w' \<Longrightarrow> own_calls (Out n) w w'"
  by (induction rule: out_method.induct)
    (rule own_run, (simp only: StreamOut_methods stream_defs split_beta)?, (rule own_intros | simp; fail)+)+

lemma in_method_own: "in_method E n w w' \<Longrightarrow> own_calls (In n) w w'"
  by (induction rule: in_method.induct)
    (rule own_run, (simp only: StreamIn_methods stream_defs split_beta)?, (rule own_intros | simp; fail)+)+

end
