(* ===== verification/Thread_Laws.thy ===== *)
theory Thread_Laws
  imports BT_Prelude
begin

text \<open>
  The threads that serve the message queues of the streams, as an interface: where such a thread stands, the flag it waits for, and the
  order to stop. A thread that keeps the laws of the interface ends soon after it was told to stop, whatever the other parties do,
  without a wait that nobody ends.
\<close>

section \<open>Where a thread stands\<close>

datatype thread_pc = At_loop | At_wait | At_read | At_execute | At_reply | Finished

text \<open>How many of its own steps a thread that was told to stop is away from its end, at most.\<close>

fun distance :: "thread_pc \<Rightarrow> nat" where
  "distance At_wait = 5"
| "distance At_read = 4"
| "distance At_execute = 3"
| "distance At_reply = 2"
| "distance At_loop = 1"
| "distance Finished = 0"

lemma distance_bound: "distance p \<le> 5"
  by (cases p) auto

lemma distance_Finished [simp]: "distance p = 0 \<longleftrightarrow> p = Finished"
  by (cases p) auto

text \<open>The places are ordered by this distance.\<close>

lemma distance_inject: "distance p = distance q \<longleftrightarrow> p = q"
  by (cases p; cases q) auto

instantiation thread_pc :: linorder
begin

definition less_eq_thread_pc :: "thread_pc \<Rightarrow> thread_pc \<Rightarrow> bool" where
  "less_eq_thread_pc p q \<longleftrightarrow> distance p \<le> distance q"

definition less_thread_pc :: "thread_pc \<Rightarrow> thread_pc \<Rightarrow> bool" where
  "less_thread_pc p q \<longleftrightarrow> distance p < distance q"

instance
  by standard (auto simp: less_eq_thread_pc_def less_thread_pc_def distance_inject)

end

section \<open>Runs\<close>

text \<open>A step of the thread that is not the end of a wait without a wake-up.\<close>

definition awake_step :: "('s \<Rightarrow> 's \<Rightarrow> bool) \<Rightarrow> ('s \<Rightarrow> thread_pc) \<Rightarrow> ('s \<Rightarrow> bool) \<Rightarrow> 's \<Rightarrow> 's \<Rightarrow> bool" where
  "awake_step thread_step pc event s s' \<longleftrightarrow> thread_step s s' \<and> (pc s = At_wait \<longrightarrow> event s)"

text \<open>A run of the thread and the other parties, with the number of the thread's own steps.\<close>

inductive counted_run :: "('s \<Rightarrow> 's \<Rightarrow> bool) \<Rightarrow> ('s \<Rightarrow> 's \<Rightarrow> bool) \<Rightarrow> nat \<Rightarrow> 's \<Rightarrow> 's \<Rightarrow> bool" for thread_step step where
  run_none: "counted_run thread_step step 0 s s"
| run_thread: "counted_run thread_step step k s s' \<Longrightarrow> thread_step s' s'' \<Longrightarrow> counted_run thread_step step (Suc k) s s''"
| run_other: "counted_run thread_step step k s s' \<Longrightarrow> step s' s'' \<Longrightarrow> counted_run thread_step step k s s''"

section \<open>Threads that end\<close>

text \<open>
  The laws: a step of the thread takes it nearer to its end once it was told to stop; the order stands; the
  thread goes to sleep only when it has not been told to stop; another party does not move it, and
  one that tells it to stop sets the flag.
\<close>

locale stoppable_thread =
  fixes thread_step step :: "'s \<Rightarrow> 's \<Rightarrow> bool" and pc :: "'s \<Rightarrow> thread_pc" and event stop :: "'s \<Rightarrow> bool"
  assumes thread_nearer: "thread_step s s' \<Longrightarrow> stop s \<Longrightarrow> pc s' < pc s"
    and thread_stop: "thread_step s s' \<Longrightarrow> stop s' = stop s"
    and thread_sleeps: "thread_step s s' \<Longrightarrow> pc s' = At_wait \<Longrightarrow> \<not> stop s'"
    and thread_enabled: "pc s \<noteq> Finished \<Longrightarrow> pc s = At_wait \<longrightarrow> event s \<Longrightarrow> \<exists>s'. thread_step s s'"
    and step_stop: "step s s' \<Longrightarrow> stop s \<Longrightarrow> stop s'"
    and step_pc: "step s s' \<Longrightarrow> pc s' = pc s \<or> thread_step s s'"
    and step_wakes: "step s s' \<Longrightarrow> pc s' = pc s \<Longrightarrow> pc s = At_wait \<Longrightarrow> stop s' \<Longrightarrow> \<not> stop s \<or> event s \<Longrightarrow> event s'"
begin

text \<open>No wake-up is lost.\<close>

definition no_lost_wakeup :: "'s \<Rightarrow> bool" where
  "no_lost_wakeup s \<longleftrightarrow> (pc s = At_wait \<longrightarrow> stop s \<longrightarrow> event s)"

lemma no_lost_wakeup_thread: "thread_step s s' \<Longrightarrow> no_lost_wakeup s'"
  using thread_sleeps by (auto simp: no_lost_wakeup_def)

lemma no_lost_wakeup_step: "step s s' \<Longrightarrow> no_lost_wakeup s \<Longrightarrow> no_lost_wakeup s'"
  using step_pc [of s s'] no_lost_wakeup_thread step_wakes [of s s'] by (auto simp: no_lost_wakeup_def)

lemma step_nearer: "step s s' \<Longrightarrow> stop s \<Longrightarrow> pc s' \<le> pc s"
  using step_pc [of s s'] thread_nearer [of s s'] by auto

lemma counted_run_inv:
  assumes "counted_run thread_step step k s s'" and "stop s" and "no_lost_wakeup s"
  shows "stop s' \<and> no_lost_wakeup s' \<and> k + distance (pc s') \<le> distance (pc s)"
  using assms
proof (induction rule: counted_run.induct)
  case (run_thread k s s' s'')
  then have "stop s'" "k + distance (pc s') \<le> distance (pc s)" by auto
  then show ?case
    using run_thread.hyps(2) thread_stop [of s' s''] thread_nearer [of s' s''] no_lost_wakeup_thread [of s' s'']
    by (auto simp: less_thread_pc_def)
next
  case (run_other k s s' s'')
  then show ?case
    using step_stop [of s' s''] step_nearer [of s' s''] no_lost_wakeup_step [of s' s'']
    by (auto simp: less_eq_thread_pc_def)
qed simp

lemma stopped_thread_ends:
  assumes "counted_run thread_step step k s s'" and "stop s" and "no_lost_wakeup s"
  shows "k \<le> 5 \<and> (pc s' = Finished \<or> (\<exists>s''. awake_step thread_step pc event s' s''))"
proof -
  note inv = counted_run_inv [OF assms]
  have "k \<le> 5" using inv distance_bound [of "pc s"] by simp
  moreover have "\<exists>s''. awake_step thread_step pc event s' s''" if "pc s' \<noteq> Finished"
    using thread_enabled [of s'] inv that by (auto simp: awake_step_def no_lost_wakeup_def)
  ultimately show ?thesis by blast
qed

end

end
