(* ===== verification/Hal_Threads.thy ===== *)
theory Hal_Threads
  imports Hal_Methods Thread_Laws
begin

text \<open>
  The primary audio HAL, the write thread of \<^verbatim>\<open>StreamOut.cpp\<close>. The thread, the client on the other side of
  the message queues and the methods of the stream object interleave; a step of the thread is what it does up
  to the next point where another party can see it. Command and status queues hold one element.
\<close>

section \<open>Commands and statuses\<close>

datatype WriteCommand = WRITE | GET_PRESENTATION_POSITION | GET_LATENCY | OtherCommand int

datatype write_reply = Written u64 | PresentationPosition u64 int int | LatencyMs u32

record WriteStatus =
  ws_replyTo :: WriteCommand
  ws_retval :: Result
  ws_reply :: write_reply

text \<open>The last four fields are histories: what the thread has written to the legacy stream, the commands and the data the client
  has put into the queues, and the statuses it has taken out.\<close>

record 'v out_thread =
  ot_world :: "'v world"
  ot_pc :: thread_pc
  ot_event :: bool
  ot_commandMQ :: "WriteCommand list"
  ot_dataMQ :: "u8 list"
  ot_statusMQ :: "WriteStatus list"
  ot_status :: WriteStatus
  ot_written :: "u8 list list"
  ot_sent :: "WriteCommand list"
  ot_data :: "u8 list"
  ot_received :: "WriteStatus list"

section \<open>WriteThread\<close>

definition doWrite :: "('p, 'v) env \<Rightarrow> nat \<Rightarrow> 'v out_thread \<Rightarrow> 'v out_thread" where
  "doWrite E n s =
     (let data = ot_dataMQ s;
          (r, w) = run_state (hal E (Out n) ''write'' [Bytes data]) (ot_world s);
          status = (if rp_status r \<ge> 0 then (ot_status s)\<lparr>ws_retval := OK, ws_reply := Written (word_of_int (rp_status r))\<rparr>
                    else (ot_status s)\<lparr>ws_retval := analyzeStatus (rp_status r), ws_reply := Written 0\<rparr>)
      in s\<lparr>ot_world := w, ot_dataMQ := [], ot_written := ot_written s @ [data], ot_status := status\<rparr>)"

text \<open>On failure the reply, which the client does not read then, is left as it is.\<close>

definition doGetPresentationPosition :: "('p, 'v) env \<Rightarrow> nat \<Rightarrow> 'v out_thread \<Rightarrow> 'v out_thread" where
  "doGetPresentationPosition E n s =
     (let ((retval, frames, sec, nsec), w) = run_state (getPresentationPositionImpl E n (0, 0, 0)) (ot_world s);
          status = (if retval = OK then (ot_status s)\<lparr>ws_retval := OK, ws_reply := PresentationPosition frames sec nsec\<rparr>
                    else (ot_status s)\<lparr>ws_retval := retval\<rparr>)
      in s\<lparr>ot_world := w, ot_status := status\<rparr>)"

definition doGetLatency :: "('p, 'v) env \<Rightarrow> nat \<Rightarrow> 'v out_thread \<Rightarrow> 'v out_thread" where
  "doGetLatency E n s =
     (let (latency, w) = run_state (StreamOut_getLatency E n) (ot_world s)
      in s\<lparr>ot_world := w, ot_status := (ot_status s)\<lparr>ws_retval := OK, ws_reply := LatencyMs latency\<rparr>\<rparr>)"

definition execute_command :: "('p, 'v) env \<Rightarrow> nat \<Rightarrow> 'v out_thread \<Rightarrow> 'v out_thread" where
  "execute_command E n s =
     (case ws_replyTo (ot_status s) of
        WRITE \<Rightarrow> doWrite E n s
      | GET_PRESENTATION_POSITION \<Rightarrow> doGetPresentationPosition E n s
      | GET_LATENCY \<Rightarrow> doGetLatency E n s
      | OtherCommand _ \<Rightarrow> s\<lparr>ot_status := (ot_status s)\<lparr>ws_retval := NOT_SUPPORTED\<rparr>\<rparr>)"

definition stopped :: "nat \<Rightarrow> 'v world \<Rightarrow> bool" where
  "stopped n w = (case w_outs w n of Some s \<Rightarrow> so_stop s | None \<Rightarrow> True)"

text \<open>The waiting thread goes on when the flag is set, or when the wait ends without it.\<close>

inductive threadLoop_step :: "('p, 'v) env \<Rightarrow> nat \<Rightarrow> 'v out_thread \<Rightarrow> 'v out_thread \<Rightarrow> bool" for E n where
  loop: "ot_pc s = At_loop \<Longrightarrow> threadLoop_step E n s (s\<lparr>ot_pc := if stopped n (ot_world s) then Finished else At_wait\<rparr>)"
| woken: "ot_pc s = At_wait \<Longrightarrow> ot_event s \<Longrightarrow> threadLoop_step E n s (s\<lparr>ot_pc := At_read, ot_event := False\<rparr>)"
| spurious: "ot_pc s = At_wait \<Longrightarrow> threadLoop_step E n s (s\<lparr>ot_pc := At_loop\<rparr>)"
| nothing: "ot_pc s = At_read \<Longrightarrow> ot_commandMQ s = [] \<Longrightarrow> threadLoop_step E n s (s\<lparr>ot_pc := At_loop\<rparr>)"
| command: "ot_pc s = At_read \<Longrightarrow> ot_commandMQ s = c # cs \<Longrightarrow>
    threadLoop_step E n s (s\<lparr>ot_pc := At_execute, ot_commandMQ := cs, ot_status := (ot_status s)\<lparr>ws_replyTo := c\<rparr>\<rparr>)"
| execute: "ot_pc s = At_execute \<Longrightarrow> threadLoop_step E n s ((execute_command E n s)\<lparr>ot_pc := At_reply\<rparr>)"
| reply: "ot_pc s = At_reply \<Longrightarrow>
    threadLoop_step E n s (s\<lparr>ot_pc := At_loop, ot_statusMQ := (if ot_statusMQ s = [] then [ot_status s] else ot_statusMQ s)\<rparr>)"

section \<open>The client and the methods\<close>

text \<open>
  The client follows the protocol of the interface: it sends a command when it has taken the status of the
  one before, and puts data into the queue as far as there is room, before it sends the command. \<open>close\<close> is the method, which
  the destructor calls too; \<open>join\<close> is the rest of the destructor, which waits for the thread. Every other method may run as long as the object
  exists, whatever the thread is doing and whether or not the stream has been closed.
\<close>

inductive out_step :: "('p, 'v) env \<Rightarrow> nat \<Rightarrow> nat \<Rightarrow> 'v out_thread \<Rightarrow> 'v out_thread \<Rightarrow> bool" for E n capacity where
  thread: "threadLoop_step E n s s' \<Longrightarrow> out_step E n capacity s s'"
| send_data: "length (ot_dataMQ s) + length data \<le> capacity \<Longrightarrow> length (ot_sent s) = length (ot_received s) \<Longrightarrow>
    out_step E n capacity s (s\<lparr>ot_dataMQ := ot_dataMQ s @ data, ot_data := ot_data s @ data\<rparr>)"
| send_command: "length (ot_sent s) = length (ot_received s) \<Longrightarrow>
    out_step E n capacity s (s\<lparr>ot_commandMQ := ot_commandMQ s @ [c], ot_sent := ot_sent s @ [c], ot_event := True\<rparr>)"
| take_status: "ot_statusMQ s = x # xs \<Longrightarrow>
    out_step E n capacity s (s\<lparr>ot_statusMQ := xs, ot_received := ot_received s @ [x]\<rparr>)"
| close: "run_state (StreamOut_close E n) (ot_world s) = (Some r, w) \<Longrightarrow> w_outs (ot_world s) n \<noteq> None \<Longrightarrow>
    out_step E n capacity s (s\<lparr>ot_world := w, ot_event := ot_event s \<or> r = OK\<rparr>)"
| join: "stopped n (ot_world s) \<Longrightarrow> w_outs (ot_world s) n \<noteq> None \<Longrightarrow> ot_pc s = Finished \<Longrightarrow>
    run_state (StreamOut_dtor_rest E n) (ot_world s) = (Some (), w) \<Longrightarrow> out_step E n capacity s (s\<lparr>ot_world := w\<rparr>)"
| other_method: "w_outs (ot_world s) n \<noteq> None \<Longrightarrow> out_method E n (ot_world s) w \<Longrightarrow> out_step E n capacity s (s\<lparr>ot_world := w\<rparr>)"

definition thread_start :: "nat \<Rightarrow> 'v out_thread \<Rightarrow> bool" where
  "thread_start n s \<longleftrightarrow> ot_pc s = At_loop \<and> ot_commandMQ s = [] \<and> ot_dataMQ s = [] \<and> ot_statusMQ s = [] \<and> ot_written s = [] \<and>
     ot_sent s = [] \<and> ot_data s = [] \<and> ot_received s = [] \<and> w_outs (ot_world s) n \<noteq> None \<and>
     Call Dev ''close_output_stream'' [N (int n)] \<notin> set (w_trace (ot_world s)) \<and> \<not> stopped n (ot_world s)"

inductive out_reachable :: "('p, 'v) env \<Rightarrow> nat \<Rightarrow> nat \<Rightarrow> 'v out_thread \<Rightarrow> bool" for E n capacity where
  start: "thread_start n s \<Longrightarrow> out_reachable E n capacity s"
| step: "out_reachable E n capacity s \<Longrightarrow> out_step E n capacity s s' \<Longrightarrow> out_reachable E n capacity s'"

inductive_cases threadLoop_stepE: "threadLoop_step E n s s'"
inductive_cases out_stepE: "out_step E n capacity s s'"

section \<open>What a step leaves alone\<close>

lemma out_method_stop: "out_method E n w w' \<Longrightarrow> stopped n w' = stopped n w"
proof -
  assume "out_method E n w w'"
  then have "map_option so_stop (w_outs w' n) = map_option so_stop (w_outs w n)" using out_method_own unfolding own_calls_def by blast
  then show ?thesis by (auto simp: stopped_def split: option.splits)
qed

lemma out_method_close:
  "out_method E n w w' \<Longrightarrow> Call Dev f args \<in> set (w_trace w') \<longleftrightarrow> Call Dev f args \<in> set (w_trace w)"
proof -
  assume "out_method E n w w'"
  then obtain calls where "w_trace w' = w_trace w @ calls" "\<forall>c\<in>set calls. target_of c = Out n"
    using out_method_own unfolding own_calls_def by blast
  then show ?thesis by auto
qed

lemma execute_command_frame:
  "ot_pc (execute_command E n s) = ot_pc s" "ot_event (execute_command E n s) = ot_event s"
  "ot_commandMQ (execute_command E n s) = ot_commandMQ s" "ot_statusMQ (execute_command E n s) = ot_statusMQ s"
  "ws_replyTo (ot_status (execute_command E n s)) = ws_replyTo (ot_status s)"
  "ot_sent (execute_command E n s) = ot_sent s" "ot_data (execute_command E n s) = ot_data s"
  "ot_received (execute_command E n s) = ot_received s"
  "w_outs (ot_world (execute_command E n s)) = w_outs (ot_world s)"
  "concat (ot_written (execute_command E n s)) @ ot_dataMQ (execute_command E n s) = concat (ot_written s) @ ot_dataMQ s"
  by (cases "ws_replyTo (ot_status s)";
      auto simp: execute_command_def doWrite_def doGetPresentationPosition_def doGetLatency_def Let_def getPresentationPositionImpl_def
        StreamOut_getLatency_def split: prod.splits)+


section \<open>Commands and data\<close>








section \<open>Use of a closed stream\<close>

abbreviation close_call :: "nat \<Rightarrow> 'v hal_call" where
  "close_call n \<equiv> Call Dev ''close_output_stream'' [N (int n)]"

text \<open>No call of the legacy stream follows the call that closes it, and it is closed at most once.\<close>

definition last_use :: "'v hal_call \<Rightarrow> target \<Rightarrow> 'v hal_call list \<Rightarrow> bool" where
  "last_use call t trace \<longleftrightarrow> (\<forall>before after. trace = before @ call # after \<longrightarrow>
     call \<notin> set after \<and> (\<forall>c\<in>set after. target_of c \<noteq> t))"

definition closed_last :: "nat \<Rightarrow> 'v hal_call list \<Rightarrow> bool" where
  "closed_last n trace = last_use (close_call n) (Out n) trace"

lemma last_use_snoc:
  assumes "last_use call t trace" "call \<notin> set trace \<or> (target_of c \<noteq> t \<and> c \<noteq> call)"
  shows "last_use call t (trace @ [c])"
  unfolding last_use_def
proof (intro allI impI)
  fix before after assume eq: "trace @ [c] = before @ call # after"
  show "call \<notin> set after \<and> (\<forall>c\<in>set after. target_of c \<noteq> t)"
  proof (cases after rule: rev_cases)
    case (snoc xs x)
    then have x: "trace = before @ call # xs" "x = c" using eq by auto
    then have "call \<notin> set xs \<and> (\<forall>c\<in>set xs. target_of c \<noteq> t)" using assms(1) unfolding last_use_def by blast
    then show ?thesis using assms(2) x snoc by auto
  qed simp
qed

lemma last_use_fresh: "call \<notin> set trace \<Longrightarrow> last_use call t trace"
  by (auto simp: last_use_def)

lemmas closed_last_snoc = last_use_snoc [of "close_call n" "Out n" for n, folded closed_last_def]
lemmas closed_last_fresh = last_use_fresh [of "close_call n" _ "Out n" for n, folded closed_last_def]

text \<open>One more call: what a command of the thread does to the trace.\<close>

lemma execute_command_trace:
  "w_trace (ot_world (execute_command E n s)) = w_trace (ot_world s) \<or>
   (\<exists>f args. w_trace (ot_world (execute_command E n s)) = w_trace (ot_world s) @ [Call (Out n) f args])"
  by (cases "ws_replyTo (ot_status s)")
     (auto simp: execute_command_def doWrite_def doGetPresentationPosition_def doGetLatency_def Let_def getPresentationPositionImpl_def
        StreamOut_getLatency_def split: prod.splits)

definition early_inv :: "nat \<Rightarrow> 'v out_thread \<Rightarrow> bool" where
  "early_inv n s \<longleftrightarrow> closed_last n (w_trace (ot_world s)) \<and>
     (close_call n \<in> set (w_trace (ot_world s)) \<longrightarrow> w_outs (ot_world s) n = None \<and> ot_pc s = Finished)"

lemma early_inv_thread: "threadLoop_step E n s s' \<Longrightarrow> early_inv n s \<Longrightarrow> early_inv n s'"
proof (induction rule: threadLoop_step.induct)
  case (execute s)
  then have "close_call n \<notin> set (w_trace (ot_world s))" by (auto simp: early_inv_def)
  then show ?case
    using execute_command_trace [of E n s] by (auto simp: early_inv_def closed_last_fresh)
qed (auto simp: early_inv_def)

lemma early_inv_step: "out_step E n capacity s s' \<Longrightarrow> e_major E \<le> 5 \<Longrightarrow> early_inv n s \<Longrightarrow> early_inv n s'"
proof (induction rule: out_step.induct)
  case (thread s s')
  then show ?case using early_inv_thread by blast
next
  case (close s r w)
  then show ?case by (auto simp: early_inv_def StreamOut_close_def split: if_splits)
next
  case (join s w)
  then show ?case
    by (auto simp: early_inv_def run_closeOutputStream StreamOut_dtor_rest_def Let_def closed_last_snoc split: if_splits)
next
  case (other_method s w)
  then have "close_call n \<notin> set (w_trace (ot_world s))"
    by (auto simp: early_inv_def)
  then show ?case using out_method_close [OF other_method(2)] by (auto simp: early_inv_def closed_last_fresh)
qed (auto simp: early_inv_def)

lemma early_inv_reachable: "out_reachable E n capacity s \<Longrightarrow> e_major E \<le> 5 \<Longrightarrow> early_inv n s"
proof (induction rule: out_reachable.induct)
  case (start s)
  then show ?case by (simp add: thread_start_def early_inv_def closed_last_fresh)
qed (auto intro: early_inv_step)

text \<open>C19: up to version 5 of the interface, in every interleaving, the legacy stream is closed at most once and
  neither the write thread nor a method calls it afterwards: the destructor closes it only after the thread has ended.\<close>

theorem no_use_after_close:
  assumes "out_reachable E n capacity s" and "e_major E \<le> 5"
  shows "closed_last n (w_trace (ot_world s))"
  using early_inv_reachable [OF assms] by (simp add: early_inv_def)

text \<open>From version 6 on \<open>close\<close> closes the legacy stream while the thread may be about to write to it: it has left the loop's test
  behind. With a stream that is open, a write to the closed stream is reachable.\<close>

lemma close_races_with_write:
  fixes E :: "('p, 'v) env" and s :: "'v out_thread"
  assumes "thread_start n s" "6 \<le> e_major E" "w_openedStreamsCount (ot_world s) > 0"
  shows "\<exists>s'. out_reachable E n capacity s' \<and> (\<exists>trace. w_trace (ot_world s') = trace @ [close_call n, Call (Out n) ''write'' [Bytes []]])"
proof -
  define s1 where "s1 = s\<lparr>ot_commandMQ := [WRITE], ot_sent := [WRITE], ot_event := True\<rparr>"
  define s2 where "s2 = s1\<lparr>ot_pc := At_read, ot_event := False\<rparr>"
  define s3 where "s3 = s2\<lparr>ot_pc := At_execute, ot_commandMQ := [], ot_status := (ot_status s)\<lparr>ws_replyTo := WRITE\<rparr>\<rparr>"
  define w where "w = snd (run_state (StreamOut_close E n) (ot_world s))"
  define s4 where "s4 = s3\<lparr>ot_world := w, ot_event := ot_event s3 \<or> OK = OK\<rparr>"
  note start = assms(1) [unfolded thread_start_def]
  have r1: "out_reachable E n capacity s1"
    using out_step.send_command [of s E n capacity WRITE] start unfolding s1_def
    by (auto intro: out_reachable.step [OF out_reachable.start [OF assms(1)]])
  have "out_step E n capacity s1 (s1\<lparr>ot_pc := At_wait\<rparr>)"
    using threadLoop_step.loop [of s1 E n] start by (auto simp: s1_def intro: out_step.thread)
  then have "out_reachable E n capacity (s1\<lparr>ot_pc := At_wait\<rparr>)" using r1 out_reachable.step by blast
  moreover have "out_step E n capacity (s1\<lparr>ot_pc := At_wait\<rparr>) s2"
    using threadLoop_step.woken [of "s1\<lparr>ot_pc := At_wait\<rparr>" E n] by (auto simp: s1_def s2_def intro: out_step.thread)
  ultimately have r2: "out_reachable E n capacity s2" using out_reachable.step by blast
  have "out_step E n capacity s2 s3"
    using threadLoop_step.command [of s2 WRITE "[]" E n] by (auto simp: s1_def s2_def s3_def intro: out_step.thread)
  then have r3: "out_reachable E n capacity s3" using r2 out_reachable.step by blast
  have cl: "run_state (StreamOut_close E n) (ot_world s3) = (Some OK, w)" "w_trace w = w_trace (ot_world s) @ [close_call n]"
    using start assms(2,3)
    by (auto simp: w_def StreamOut_close_def run_closeOutputStream Let_def stopped_def s1_def s2_def s3_def split: option.splits)
  then have "out_step E n capacity s3 s4"
    unfolding s4_def using start by (intro out_step.close) (auto simp: s1_def s2_def s3_def)
  then have "out_reachable E n capacity s4" using r3 out_reachable.step by blast
  moreover have "out_step E n capacity s4 ((execute_command E n s4)\<lparr>ot_pc := At_reply\<rparr>)"
    by (intro out_step.thread threadLoop_step.execute) (simp add: s4_def s3_def)
  ultimately have "out_reachable E n capacity ((execute_command E n s4)\<lparr>ot_pc := At_reply\<rparr>)" using out_reachable.step by blast
  moreover have "w_trace (ot_world (execute_command E n s4)) = w_trace (ot_world s) @ [close_call n, Call (Out n) ''write'' [Bytes []]]"
    using cl(2) start by (simp add: execute_command_def doWrite_def s4_def s3_def s2_def s1_def)
  ultimately show ?thesis by (intro exI [of _ "(execute_command E n s4)\<lparr>ot_pc := At_reply\<rparr>"]) auto
qed

section \<open>The thread ends\<close>

text \<open>The write thread keeps the laws of a thread that can be stopped.\<close>

lemma write_thread_sleeps: "threadLoop_step E n s s' \<Longrightarrow> ot_pc s' = At_wait \<Longrightarrow> \<not> stopped n (ot_world s')"
  by (auto elim!: threadLoop_stepE split: if_splits)

lemma write_thread_stop: "threadLoop_step E n s s' \<Longrightarrow> stopped n (ot_world s') = stopped n (ot_world s)"
  by (auto elim!: threadLoop_stepE simp: stopped_def execute_command_frame)

lemma write_thread_nearer: "threadLoop_step E n s s' \<Longrightarrow> stopped n (ot_world s) \<Longrightarrow> ot_pc s' < ot_pc s"
  by (auto simp: less_thread_pc_def elim!: threadLoop_stepE)

lemma write_thread_enabled: "ot_pc s \<noteq> Finished \<Longrightarrow> ot_pc s = At_wait \<longrightarrow> ot_event s \<Longrightarrow> \<exists>s'. threadLoop_step E n s s'"
  by (cases "ot_pc s"; cases "ot_commandMQ s") (auto intro: threadLoop_step.intros)

lemma write_step_stop: "out_step E n capacity s s' \<Longrightarrow> stopped n (ot_world s) \<Longrightarrow> stopped n (ot_world s')"
  by (erule out_stepE)
     (auto simp: stopped_def StreamOut_close_def run_closeOutputStream StreamOut_dtor_rest_def Let_def split: if_splits option.splits
       dest: write_thread_stop [unfolded stopped_def] out_method_stop [unfolded stopped_def])

lemma write_step_pc: "out_step E n capacity s s' \<Longrightarrow> ot_pc s' = ot_pc s \<or> threadLoop_step E n s s'"
  by (auto elim!: out_stepE)

lemma write_step_wakes:
  assumes "out_step E n capacity s s'" "ot_pc s' = ot_pc s" "ot_pc s = At_wait" "stopped n (ot_world s')" "\<not> stopped n (ot_world s) \<or> ot_event s"
  shows "ot_event s'"
  using assms
  by (elim out_stepE)
     (auto dest: write_thread_sleeps out_method_stop [unfolded stopped_def] simp: stopped_def StreamOut_close_def run_closeOutputStream StreamOut_dtor_rest_def Let_def split: if_splits option.splits)

interpretation write_thread: stoppable_thread "threadLoop_step E n" "out_step E n capacity" ot_pc ot_event "\<lambda>s. stopped n (ot_world s)"
  for E :: "('p, 'v) env" and n capacity
  by (unfold_locales;
      rule write_thread_nearer write_thread_stop write_thread_sleeps write_thread_enabled write_step_stop write_step_pc write_step_wakes;
      assumption)

lemma write_no_lost_wakeup: "out_reachable E n capacity s \<Longrightarrow> write_thread.no_lost_wakeup n s"
proof (induction rule: out_reachable.induct)
  case (start s)
  then show ?case by (simp add: thread_start_def write_thread.no_lost_wakeup_def)
qed (rule write_thread.no_lost_wakeup_step)

text \<open>C18: once a stream has been closed its write thread ends, so that the destructor, which waits for it, returns: in every
  interleaving with the client and the methods the thread takes at most five more steps of its own, and until
  it has ended it can take the next one without having to wait for anybody.\<close>

theorem write_thread_ends:
  assumes "out_reachable E n capacity s" and "stopped n (ot_world s)"
    and "counted_run (threadLoop_step E n) (out_step E n capacity) k s s'"
  shows "k \<le> 5 \<and> (ot_pc s' = Finished \<or> (\<exists>s''. awake_step (threadLoop_step E n) ot_pc ot_event s' s''))"
  by (rule write_thread.stopped_thread_ends [OF assms(3,2) write_no_lost_wakeup [OF assms(1)]])

end
