(* ===== verification/Hal_ReadThread.thy ===== *)
theory Hal_ReadThread
  imports Hal_Threads
begin

text \<open>
  The primary audio HAL, the read thread of \<^verbatim>\<open>StreamIn.cpp\<close>, between the client and the legacy stream: what goes through its queues,
  in which order, and that it ends when the stream is closed.
\<close>

section \<open>ReadThread\<close>

datatype ReadCommand = READ | GET_CAPTURE_POSITION | OtherReadCommand int

datatype read_reply = BytesRead u64 | CapturePosition u64 u64

record ReadStatus =
  rs_replyTo :: ReadCommand
  rs_retval :: Result
  rs_reply :: read_reply

record ReadParameters =
  rd_command :: ReadCommand
  rd_read :: u64

text \<open>The data queue and its capacity; the buffer of the thread has the size of the queue. The last four fields are histories: what the
  legacy stream has delivered, the commands the client has sent, and the statuses and the data it has taken out.\<close>

record 'v in_thread =
  it_world :: "'v world"
  it_pc :: thread_pc
  it_event :: bool
  it_commandMQ :: "ReadParameters list"
  it_dataMQ :: "u8 list"
  it_capacity :: nat
  it_statusMQ :: "ReadStatus list"
  it_parameters :: ReadParameters
  it_status :: ReadStatus
  it_delivered :: "u8 list"
  it_sent :: "ReadParameters list"
  it_received :: "ReadStatus list"
  it_taken :: "u8 list"

text \<open>What the legacy stream returns: the status is the number of bytes, taken from the buffer.\<close>

definition doRead :: "('p, 'v) env \<Rightarrow> nat \<Rightarrow> 'v in_thread \<Rightarrow> 'v in_thread" where
  "doRead E n s =
     (let availableToWrite = it_capacity s - length (it_dataMQ s);
          requestedToRead = unat (rd_read (it_parameters s));
          requestedToRead = (if requestedToRead > availableToWrite then availableToWrite else requestedToRead);
          (r, w) = run_state (hal E (In n) ''read'' [N (int requestedToRead)]) (it_world s);
          readResult = rp_status r;
          s = s\<lparr>it_world := w\<rparr>
      in if readResult \<ge> 0
         then s\<lparr>it_status := (it_status s)\<lparr>rs_retval := OK, rs_reply := BytesRead (word_of_int readResult)\<rparr>,
                it_delivered := it_delivered s @ take (nat readResult) (rp_bytes r),
                it_dataMQ := (if nat readResult \<le> availableToWrite then it_dataMQ s @ take (nat readResult) (rp_bytes r) else it_dataMQ s)\<rparr>
         else s\<lparr>it_status := (it_status s)\<lparr>rs_retval := analyzeStatus readResult\<rparr>\<rparr>)"

definition doGetCapturePosition :: "('p, 'v) env \<Rightarrow> nat \<Rightarrow> 'v in_thread \<Rightarrow> 'v in_thread" where
  "doGetCapturePosition E n s =
     (let ((retval, frames, time), w) = run_state (getCapturePositionImpl E n (0, 0)) (it_world s);
          status = (if retval = OK then (it_status s)\<lparr>rs_retval := OK, rs_reply := CapturePosition frames time\<rparr>
                    else (it_status s)\<lparr>rs_retval := retval\<rparr>)
      in s\<lparr>it_world := w, it_status := status\<rparr>)"

definition execute_read :: "('p, 'v) env \<Rightarrow> nat \<Rightarrow> 'v in_thread \<Rightarrow> 'v in_thread" where
  "execute_read E n s =
     (let s = s\<lparr>it_status := (it_status s)\<lparr>rs_replyTo := rd_command (it_parameters s)\<rparr>\<rparr> in
      case rd_command (it_parameters s) of
        READ \<Rightarrow> doRead E n s
      | GET_CAPTURE_POSITION \<Rightarrow> doGetCapturePosition E n s
      | OtherReadCommand _ \<Rightarrow> s\<lparr>it_status := (it_status s)\<lparr>rs_retval := NOT_SUPPORTED\<rparr>\<rparr>)"

definition stopped_in :: "nat \<Rightarrow> 'v world \<Rightarrow> bool" where
  "stopped_in n w = (case w_ins w n of Some s \<Rightarrow> so_stop s | None \<Rightarrow> True)"

inductive readLoop_step :: "('p, 'v) env \<Rightarrow> nat \<Rightarrow> 'v in_thread \<Rightarrow> 'v in_thread \<Rightarrow> bool" for E n where
  loop: "it_pc s = At_loop \<Longrightarrow> readLoop_step E n s (s\<lparr>it_pc := if stopped_in n (it_world s) then Finished else At_wait\<rparr>)"
| woken: "it_pc s = At_wait \<Longrightarrow> it_event s \<Longrightarrow> readLoop_step E n s (s\<lparr>it_pc := At_read, it_event := False\<rparr>)"
| spurious: "it_pc s = At_wait \<Longrightarrow> readLoop_step E n s (s\<lparr>it_pc := At_loop\<rparr>)"
| nothing: "it_pc s = At_read \<Longrightarrow> it_commandMQ s = [] \<Longrightarrow> readLoop_step E n s (s\<lparr>it_pc := At_loop\<rparr>)"
| command: "it_pc s = At_read \<Longrightarrow> it_commandMQ s = p # ps \<Longrightarrow>
    readLoop_step E n s (s\<lparr>it_pc := At_execute, it_commandMQ := ps, it_parameters := p\<rparr>)"
| execute: "it_pc s = At_execute \<Longrightarrow> readLoop_step E n s ((execute_read E n s)\<lparr>it_pc := At_reply\<rparr>)"
| reply: "it_pc s = At_reply \<Longrightarrow>
    readLoop_step E n s (s\<lparr>it_pc := At_loop, it_statusMQ := (if it_statusMQ s = [] then [it_status s] else it_statusMQ s)\<rparr>)"

section \<open>The client and the methods\<close>

text \<open>
  The client keeps the protocol of the interface: it sends a command when it has taken the status of the one before. It
  may take data out of the queue at any time. \<open>close\<close> is the method, which the destructor calls too, \<open>join\<close> is the rest of the
  destructor, and every other method may run as long as the object exists.
\<close>

inductive in_step :: "('p, 'v) env \<Rightarrow> nat \<Rightarrow> 'v in_thread \<Rightarrow> 'v in_thread \<Rightarrow> bool" for E n where
  thread: "readLoop_step E n s s' \<Longrightarrow> in_step E n s s'"
| send_command: "length (it_sent s) = length (it_received s) \<Longrightarrow>
    in_step E n s (s\<lparr>it_commandMQ := it_commandMQ s @ [c], it_sent := it_sent s @ [c], it_event := True\<rparr>)"
| take_status: "it_statusMQ s = x # xs \<Longrightarrow>
    in_step E n s (s\<lparr>it_statusMQ := xs, it_received := it_received s @ [x]\<rparr>)"
| take_data: "it_dataMQ s = data @ rest \<Longrightarrow>
    in_step E n s (s\<lparr>it_dataMQ := rest, it_taken := it_taken s @ data\<rparr>)"
| close: "run_state (StreamIn_close E n) (it_world s) = (Some r, w) \<Longrightarrow> w_ins (it_world s) n \<noteq> None \<Longrightarrow>
    in_step E n s (s\<lparr>it_world := w, it_event := it_event s \<or> r = OK\<rparr>)"
| join: "stopped_in n (it_world s) \<Longrightarrow> w_ins (it_world s) n \<noteq> None \<Longrightarrow> it_pc s = Finished \<Longrightarrow>
    run_state (StreamIn_dtor_rest E n) (it_world s) = (Some (), w) \<Longrightarrow> in_step E n s (s\<lparr>it_world := w\<rparr>)"
| other_method: "w_ins (it_world s) n \<noteq> None \<Longrightarrow> in_method E n (it_world s) w \<Longrightarrow> in_step E n s (s\<lparr>it_world := w\<rparr>)"

text \<open>The queue of data has a size that a status can report.\<close>

definition read_start :: "nat \<Rightarrow> 'v in_thread \<Rightarrow> bool" where
  "read_start n s \<longleftrightarrow> it_pc s = At_loop \<and> it_commandMQ s = [] \<and> it_dataMQ s = [] \<and> it_statusMQ s = [] \<and> it_delivered s = [] \<and>
     it_sent s = [] \<and> it_received s = [] \<and> it_taken s = [] \<and> it_capacity s < 2 ^ 64 \<and> w_ins (it_world s) n \<noteq> None \<and>
     Call Dev ''close_input_stream'' [N (int n)] \<notin> set (w_trace (it_world s)) \<and> \<not> stopped_in n (it_world s)"

inductive in_reachable :: "('p, 'v) env \<Rightarrow> nat \<Rightarrow> 'v in_thread \<Rightarrow> bool" for E n where
  start: "read_start n s \<Longrightarrow> in_reachable E n s"
| step: "in_reachable E n s \<Longrightarrow> in_step E n s s' \<Longrightarrow> in_reachable E n s'"

inductive_cases readLoop_stepE: "readLoop_step E n s s'"
inductive_cases in_stepE: "in_step E n s s'"

section \<open>What a command leaves alone\<close>

lemma in_method_stop: "in_method E n w w' \<Longrightarrow> stopped_in n w' = stopped_in n w"
proof -
  assume "in_method E n w w'"
  then have "map_option so_stop (w_ins w' n) = map_option so_stop (w_ins w n)" using in_method_own unfolding own_calls_def by blast
  then show ?thesis by (auto simp: stopped_in_def split: option.splits)
qed

lemma in_method_close:
  "in_method E n w w' \<Longrightarrow> Call Dev f args \<in> set (w_trace w') \<longleftrightarrow> Call Dev f args \<in> set (w_trace w)"
proof -
  assume "in_method E n w w'"
  then obtain calls where "w_trace w' = w_trace w @ calls" "\<forall>c\<in>set calls. target_of c = In n"
    using in_method_own unfolding own_calls_def by blast
  then show ?thesis by auto
qed

lemmas execute_read_defs = execute_read_def doRead_def doGetCapturePosition_def getCapturePositionImpl_def

lemma execute_read_frame:
  "it_pc (execute_read E n s) = it_pc s" "it_event (execute_read E n s) = it_event s"
  "it_commandMQ (execute_read E n s) = it_commandMQ s" "it_statusMQ (execute_read E n s) = it_statusMQ s"
  "it_parameters (execute_read E n s) = it_parameters s" "it_capacity (execute_read E n s) = it_capacity s"
  "it_sent (execute_read E n s) = it_sent s" "it_received (execute_read E n s) = it_received s"
  "it_taken (execute_read E n s) = it_taken s" "w_ins (it_world (execute_read E n s)) = w_ins (it_world s)"
  "rs_replyTo (it_status (execute_read E n s)) = rd_command (it_parameters s)"
  by (cases "rd_command (it_parameters s)"; auto simp: execute_read_defs Let_def split: prod.splits)+

lemma execute_read_capacity:
  "length (it_dataMQ s) \<le> it_capacity s \<Longrightarrow> length (it_dataMQ (execute_read E n s)) \<le> it_capacity s"
  by (cases "rd_command (it_parameters s)") (auto simp: execute_read_defs Let_def split: prod.splits)

lemma execute_read_trace:
  "w_trace (it_world (execute_read E n s)) = w_trace (it_world s) \<or>
   (\<exists>f args. w_trace (it_world (execute_read E n s)) = w_trace (it_world s) @ [Call (In n) f args])"
  by (cases "rd_command (it_parameters s)") (auto simp: execute_read_defs Let_def split: prod.splits)

section \<open>Commands and data\<close>

text \<open>What the legacy stream keeps to: it returns an error or the number of bytes it has put into the buffer, which are
  no more than it was asked for.\<close>

definition reads_as_asked :: "('p, 'v) env \<Rightarrow> nat \<Rightarrow> bool" where
  "reads_as_asked E n \<longleftrightarrow> (\<forall>trace k. let r = e_reply E trace (Call (In n) ''read'' [N (int k)]) in
     rp_status r \<le> int k \<and> nat (rp_status r) \<le> length (rp_bytes r))"

text \<open>How many bytes a status reports.\<close>

fun bytes_reported :: "ReadStatus \<Rightarrow> nat" where
  "bytes_reported st = (if rs_replyTo st = READ \<and> rs_retval st = OK
     then (case rs_reply st of BytesRead k \<Rightarrow> unat k | CapturePosition _ _ \<Rightarrow> 0) else 0)"

declare bytes_reported.simps [simp del]

definition pending_status :: "'v in_thread \<Rightarrow> ReadStatus list" where
  "pending_status s = (if it_pc s = At_reply then [it_status s] else [])"

definition being_read :: "'v in_thread \<Rightarrow> ReadCommand list" where
  "being_read s = (if it_pc s = At_execute then [rd_command (it_parameters s)] else [])"

text \<open>All statuses so far, and all commands without one.\<close>

definition statuses :: "'v in_thread \<Rightarrow> ReadStatus list" where
  "statuses s = it_received s @ it_statusMQ s @ pending_status s"

definition unanswered :: "'v in_thread \<Rightarrow> ReadCommand list" where
  "unanswered s = being_read s @ map rd_command (it_commandMQ s)"

definition read_inv :: "'v in_thread \<Rightarrow> bool" where
  "read_inv s \<longleftrightarrow> map rs_replyTo (statuses s) @ unanswered s = map rd_command (it_sent s) \<and>
     length (it_sent s) \<le> Suc (length (it_received s)) \<and> length (it_dataMQ s) \<le> it_capacity s \<and> it_capacity s < 2 ^ 64"

lemma read_inv_length:
  "read_inv s \<Longrightarrow> length (it_received s) + length (it_statusMQ s) + length (pending_status s) + length (unanswered s) = length (it_sent s)"
  unfolding read_inv_def statuses_def by (auto dest!: arg_cong [of _ _ length])

lemmas read_inv_defs = read_inv_def statuses_def unanswered_def pending_status_def being_read_def

text \<open>The queue of statuses is empty when a status is written.\<close>

lemma statusMQ_empty: "read_inv s \<Longrightarrow> it_pc s = At_reply \<Longrightarrow> it_statusMQ s = []"
proof -
  assume inv: "read_inv s" and pc: "it_pc s = At_reply"
  have "length (it_sent s) \<le> Suc (length (it_received s))" using inv by (simp add: read_inv_def)
  moreover have "length (pending_status s) = 1" using pc by (simp add: pending_status_def)
  ultimately have "length (it_statusMQ s) = 0" using read_inv_length [OF inv] by linarith
  then show ?thesis by simp
qed

lemma read_inv_thread: "readLoop_step E n s s' \<Longrightarrow> read_inv s \<Longrightarrow> read_inv s'"
proof (induction rule: readLoop_step.induct)
  case (execute s)
  then show ?case by (auto simp: read_inv_defs execute_read_frame execute_read_capacity)
next
  case (reply s)
  then show ?case using statusMQ_empty [OF reply.prems reply.hyps] by (auto simp: read_inv_defs)
qed (auto simp: read_inv_defs split: if_splits)

lemma read_inv_step: "in_step E n s s' \<Longrightarrow> read_inv s \<Longrightarrow> read_inv s'"
proof (induction rule: in_step.induct)
  case (thread s s')
  then show ?case by (rule read_inv_thread)
next
  case (send_command s c)
  then have "it_statusMQ s = []" "pending_status s = []" "unanswered s = []" using read_inv_length [of s] by auto
  then show ?case using send_command by (auto simp: read_inv_defs split: if_splits)
qed (auto simp: read_inv_defs)

lemma read_inv_reachable: "in_reachable E n s \<Longrightarrow> read_inv s"
proof (induction rule: in_reachable.induct)
  case (start s)
  then show ?case by (simp add: read_start_def read_inv_defs)
qed (rule read_inv_step)

definition delivery_inv :: "'v in_thread \<Rightarrow> bool" where
  "delivery_inv s \<longleftrightarrow> it_taken s @ it_dataMQ s = it_delivered s \<and>
     sum_list (map bytes_reported (statuses s)) = length (it_delivered s)"

lemma execute_read_delivery:
  assumes "reads_as_asked E n" "length (it_dataMQ s) \<le> it_capacity s" "it_capacity s < 2 ^ 64"
  shows "\<exists>data. it_delivered (execute_read E n s) = it_delivered s @ data \<and> it_dataMQ (execute_read E n s) = it_dataMQ s @ data \<and>
     bytes_reported (it_status (execute_read E n s)) = length data"
proof (cases "rd_command (it_parameters s)")
  case READ
  define room where "room = it_capacity s - length (it_dataMQ s)"
  define k where "k = min (unat (rd_read (it_parameters s))) room"
  define r where "r = e_reply E (w_trace (it_world s)) (Call (In n) ''read'' [N (int k)])"
  have r: "rp_status r \<le> int k" "nat (rp_status r) \<le> length (rp_bytes r)"
    using assms(1) by (auto simp: reads_as_asked_def r_def Let_def)
  have "k \<le> room" "room < 2 ^ 64" using assms(3) by (simp_all add: k_def room_def)
  then have fits: "nat (rp_status r) \<le> room" "nat (rp_status r) < 2 ^ 64" using r(1) by linarith+
  then have len: "unat (word_of_int (rp_status r) :: u64) = nat (rp_status r)" if "0 \<le> rp_status r"
    using that by (simp add: unat_eq_nat_uint uint_word_of_int take_bit_int_eq_self nat_less_iff)
  have "analyzeStatus (rp_status r) \<noteq> OK" if "rp_status r < 0" using that by (simp add: analyzeStatus_def)
  then show ?thesis
    using READ r(2) fits(1) len
    by (auto simp: execute_read_defs Let_def bytes_reported.simps min_def k_def [unfolded min_def] room_def r_def)
next
  case GET_CAPTURE_POSITION
  then show ?thesis by (auto simp: execute_read_defs Let_def bytes_reported.simps split: prod.splits)
next
  case (OtherReadCommand c)
  then show ?thesis by (auto simp: execute_read_defs bytes_reported.simps)
qed

lemma delivery_inv_thread:
  "readLoop_step E n s s' \<Longrightarrow> reads_as_asked E n \<Longrightarrow> read_inv s \<Longrightarrow> delivery_inv s \<Longrightarrow> delivery_inv s'"
proof (induction rule: readLoop_step.induct)
  case (execute s)
  then obtain data where "it_delivered (execute_read E n s) = it_delivered s @ data"
      "it_dataMQ (execute_read E n s) = it_dataMQ s @ data" "bytes_reported (it_status (execute_read E n s)) = length data"
    using execute_read_delivery [of E n s] by (auto simp: read_inv_def)
  then show ?case
    using execute by (auto simp: delivery_inv_def statuses_def pending_status_def execute_read_frame)
next
  case (reply s)
  then show ?case
    using statusMQ_empty [of s] by (auto simp: delivery_inv_def statuses_def pending_status_def)
qed (auto simp: delivery_inv_def statuses_def pending_status_def split: if_splits)

lemma delivery_inv_step:
  "in_step E n s s' \<Longrightarrow> reads_as_asked E n \<Longrightarrow> read_inv s \<Longrightarrow> delivery_inv s \<Longrightarrow> delivery_inv s'"
proof (induction rule: in_step.induct)
  case (thread s s')
  then show ?case by (rule delivery_inv_thread)
qed (auto simp: delivery_inv_def statuses_def pending_status_def)

lemma delivery_inv_reachable: "in_reachable E n s \<Longrightarrow> reads_as_asked E n \<Longrightarrow> delivery_inv s"
proof (induction rule: in_reachable.induct)
  case (start s)
  then show ?case by (simp add: read_start_def delivery_inv_def statuses_def pending_status_def)
next
  case (step s s')
  then show ?case using delivery_inv_step read_inv_reachable by blast
qed

text \<open>C11: in every interleaving of the read thread with a client that keeps the protocol and with the closing of the stream, the commands
  are answered one by one in the order they were sent and no status is lost; the bytes the client has taken out, followed by
  those in the queue, are exactly the bytes the legacy stream has delivered; and the counts in the statuses add up to the number
  of these bytes, so a client that takes out what a status reports is never short and never behind. This rests on a legacy
  stream that never returns more than it was asked for.\<close>

theorem read_thread_faithful:
  assumes "in_reachable E n s" and "reads_as_asked E n"
  shows "map rs_replyTo (statuses s) @ unanswered s = map rd_command (it_sent s) \<and>
     it_taken s @ it_dataMQ s = it_delivered s \<and>
     sum_list (map bytes_reported (statuses s)) = length (it_delivered s)"
  using read_inv_reachable [OF assms(1)] delivery_inv_reachable [OF assms]
  by (simp add: read_inv_def delivery_inv_def)

text \<open>Whatever the legacy stream returns, the queue is never filled beyond its capacity.\<close>

lemma read_thread_capacity: "in_reachable E n s \<Longrightarrow> length (it_dataMQ s) \<le> it_capacity s"
  using read_inv_reachable by (auto simp: read_inv_def)

section \<open>Use of a closed stream\<close>

abbreviation close_in_call :: "nat \<Rightarrow> 'v hal_call" where
  "close_in_call n \<equiv> Call Dev ''close_input_stream'' [N (int n)]"

definition early_in_inv :: "nat \<Rightarrow> 'v in_thread \<Rightarrow> bool" where
  "early_in_inv n s \<longleftrightarrow> last_use (close_in_call n) (In n) (w_trace (it_world s)) \<and>
     (close_in_call n \<in> set (w_trace (it_world s)) \<longrightarrow> w_ins (it_world s) n = None \<and> it_pc s = Finished)"

lemma early_in_inv_thread: "readLoop_step E n s s' \<Longrightarrow> early_in_inv n s \<Longrightarrow> early_in_inv n s'"
proof (induction rule: readLoop_step.induct)
  case (execute s)
  then have "close_in_call n \<notin> set (w_trace (it_world s))" by (auto simp: early_in_inv_def)
  then show ?case
    using execute_read_trace [of E n s] by (auto simp: early_in_inv_def last_use_fresh)
qed (auto simp: early_in_inv_def)

lemma early_in_inv_step: "in_step E n s s' \<Longrightarrow> e_major E \<le> 5 \<Longrightarrow> early_in_inv n s \<Longrightarrow> early_in_inv n s'"
proof (induction rule: in_step.induct)
  case (thread s s')
  then show ?case using early_in_inv_thread by blast
next
  case (close s r w)
  then show ?case by (auto simp: early_in_inv_def StreamIn_close_def split: if_splits)
next
  case (join s w)
  then show ?case
    by (auto simp: early_in_inv_def run_closeInputStream StreamIn_dtor_rest_def Let_def last_use_snoc split: if_splits)
next
  case (other_method s w)
  then have "close_in_call n \<notin> set (w_trace (it_world s))"
    by (auto simp: early_in_inv_def)
  then show ?case using in_method_close [OF other_method(2)] by (auto simp: early_in_inv_def last_use_fresh)
qed (auto simp: early_in_inv_def)

text \<open>Up to version 5 the legacy stream is closed at most once and not called afterwards.\<close>

lemma no_read_after_close: "in_reachable E n s \<Longrightarrow> e_major E \<le> 5 \<Longrightarrow> last_use (close_in_call n) (In n) (w_trace (it_world s))"
proof -
  have "early_in_inv n s" if "in_reachable E n s" "e_major E \<le> 5"
    using that
  proof (induction rule: in_reachable.induct)
    case (start s)
    then show ?case by (simp add: read_start_def early_in_inv_def last_use_fresh)
  qed (auto intro: early_in_inv_step)
  then show "in_reachable E n s \<Longrightarrow> e_major E \<le> 5 \<Longrightarrow> ?thesis" by (simp add: early_in_inv_def)
qed

text \<open>From version 6 on \<open>close\<close> closes the legacy stream while the thread may be about to read from it.\<close>

lemma close_races_with_read:
  fixes E :: "('p, 'v) env" and s :: "'v in_thread"
  assumes "read_start n s" "6 \<le> e_major E" "w_openedStreamsCount (it_world s) > 0"
  shows "\<exists>s' trace k. in_reachable E n s' \<and> w_trace (it_world s') = trace @ [close_in_call n, Call (In n) ''read'' [N k]]"
proof -
  let ?p = "\<lparr>rd_command = READ, rd_read = 0\<rparr>"
  define s1 where "s1 = s\<lparr>it_commandMQ := [?p], it_sent := [?p], it_event := True\<rparr>"
  define s2 where "s2 = s1\<lparr>it_pc := At_read, it_event := False\<rparr>"
  define s3 where "s3 = s2\<lparr>it_pc := At_execute, it_commandMQ := [], it_parameters := ?p\<rparr>"
  define w where "w = snd (run_state (StreamIn_close E n) (it_world s))"
  define s4 where "s4 = s3\<lparr>it_world := w, it_event := it_event s3 \<or> OK = OK\<rparr>"
  note start = assms(1) [unfolded read_start_def]
  have run: "in_reachable E n t \<Longrightarrow> readLoop_step E n t t' \<Longrightarrow> in_reachable E n t'" for t t' :: "'v in_thread"
    by (blast intro: in_reachable.step in_step.thread)
  have "in_reachable E n s1"
    using in_step.send_command [of s E n ?p] start unfolding s1_def
    by (auto intro: in_reachable.step [OF in_reachable.start [OF assms(1)]])
  moreover have "readLoop_step E n s1 (s1\<lparr>it_pc := At_wait\<rparr>)"
    using readLoop_step.loop [of s1 E n] start by (simp add: s1_def)
  moreover have "readLoop_step E n (s1\<lparr>it_pc := At_wait\<rparr>) s2"
    using readLoop_step.woken [of "s1\<lparr>it_pc := At_wait\<rparr>" E n] by (simp add: s1_def s2_def)
  moreover have "readLoop_step E n s2 s3"
    using readLoop_step.command [of s2 ?p "[]" E n] by (simp add: s1_def s2_def s3_def)
  ultimately have r3: "in_reachable E n s3" by (meson run)
  have cl: "run_state (StreamIn_close E n) (it_world s3) = (Some OK, w)" "w_trace w = w_trace (it_world s) @ [close_in_call n]"
    using start assms(2,3)
    by (auto simp: w_def StreamIn_close_def run_closeInputStream Let_def stopped_in_def s1_def s2_def s3_def split: option.splits)
  have "in_step E n s3 s4"
    unfolding s4_def using cl(1) start by (intro in_step.close) (auto simp: s1_def s2_def s3_def)
  then have "in_reachable E n s4" using r3 in_reachable.step by blast
  then have "in_reachable E n ((execute_read E n s4)\<lparr>it_pc := At_reply\<rparr>)"
    by (rule run) (rule readLoop_step.execute, simp add: s4_def s3_def)
  moreover have "\<exists>k. w_trace (it_world (execute_read E n s4)) = w_trace (it_world s) @ [close_in_call n, Call (In n) ''read'' [N k]]"
    using cl(2) by (auto simp: execute_read_defs Let_def s4_def s3_def)
  ultimately show ?thesis by (intro exI [of _ "(execute_read E n s4)\<lparr>it_pc := At_reply\<rparr>"]) auto
qed

section \<open>The thread ends\<close>

lemma read_thread_sleeps: "readLoop_step E n s s' \<Longrightarrow> it_pc s' = At_wait \<Longrightarrow> \<not> stopped_in n (it_world s')"
  by (auto elim!: readLoop_stepE split: if_splits)

lemma read_thread_stop: "readLoop_step E n s s' \<Longrightarrow> stopped_in n (it_world s') = stopped_in n (it_world s)"
  by (auto elim!: readLoop_stepE simp: stopped_in_def execute_read_frame)

lemma read_thread_nearer: "readLoop_step E n s s' \<Longrightarrow> stopped_in n (it_world s) \<Longrightarrow> it_pc s' < it_pc s"
  by (auto simp: less_thread_pc_def elim!: readLoop_stepE)

lemma read_thread_enabled: "it_pc s \<noteq> Finished \<Longrightarrow> it_pc s = At_wait \<longrightarrow> it_event s \<Longrightarrow> \<exists>s'. readLoop_step E n s s'"
  by (cases "it_pc s"; cases "it_commandMQ s") (auto intro: readLoop_step.intros)

lemma read_step_stop: "in_step E n s s' \<Longrightarrow> stopped_in n (it_world s) \<Longrightarrow> stopped_in n (it_world s')"
  by (erule in_stepE)
     (auto simp: stopped_in_def StreamIn_close_def run_closeInputStream StreamIn_dtor_rest_def Let_def split: if_splits option.splits
       dest: read_thread_stop [unfolded stopped_in_def] in_method_stop [unfolded stopped_in_def])

lemma read_step_pc: "in_step E n s s' \<Longrightarrow> it_pc s' = it_pc s \<or> readLoop_step E n s s'"
  by (auto elim!: in_stepE)

lemma read_step_wakes:
  assumes "in_step E n s s'" "it_pc s' = it_pc s" "it_pc s = At_wait" "stopped_in n (it_world s')" "\<not> stopped_in n (it_world s) \<or> it_event s"
  shows "it_event s'"
  using assms
  by (elim in_stepE)
     (auto dest: read_thread_sleeps in_method_stop [unfolded stopped_in_def] simp: stopped_in_def StreamIn_close_def run_closeInputStream StreamIn_dtor_rest_def Let_def split: if_splits option.splits)

interpretation read_thread: stoppable_thread "readLoop_step E n" "in_step E n" it_pc it_event "\<lambda>s. stopped_in n (it_world s)"
  for E :: "('p, 'v) env" and n
  by (unfold_locales;
      rule read_thread_nearer read_thread_stop read_thread_sleeps read_thread_enabled read_step_stop read_step_pc read_step_wakes;
      assumption)

lemma read_no_lost_wakeup: "in_reachable E n s \<Longrightarrow> read_thread.no_lost_wakeup n s"
proof (induction rule: in_reachable.induct)
  case (start s)
  then show ?case by (simp add: read_start_def read_thread.no_lost_wakeup_def)
qed (rule read_thread.no_lost_wakeup_step)

text \<open>Once the stream has been closed the read thread ends: it takes at most five more steps of its own, and until then it can
  take the next one without having to wait for anybody.\<close>

lemma read_thread_ends:
  assumes "in_reachable E n s" and "stopped_in n (it_world s)"
    and "counted_run (readLoop_step E n) (in_step E n) k s s'"
  shows "k \<le> 5 \<and> (it_pc s' = Finished \<or> (\<exists>s''. awake_step (readLoop_step E n) it_pc it_event s' s''))"
  by (rule read_thread.stopped_thread_ends [OF assms(3,2) read_no_lost_wakeup [OF assms(1)]])

section \<open>Witnesses\<close>

text \<open>A microphone that has three bytes to give.\<close>

definition microphone :: "((string \<times> string) list, nat) env" where
  "microphone = (example_env 5)\<lparr>e_reply := (\<lambda>trace c. case c of Call t f [N k] \<Rightarrow>
      if 3 \<le> k then fine\<lparr>rp_status := 3, rp_bytes := [7, 8, 9]\<rparr> else fine
    | _ \<Rightarrow> fine)\<rparr>"

definition listening :: "nat in_thread" where
  "listening = \<lparr>it_world = empty_world\<lparr>w_ins := [0 \<mapsto> new_obj]\<rparr>, it_pc = At_loop, it_event = False, it_commandMQ = [], it_dataMQ = [],
     it_capacity = 8, it_statusMQ = [], it_parameters = \<lparr>rd_command = READ, rd_read = 0\<rparr>,
     it_status = \<lparr>rs_replyTo = READ, rs_retval = OK, rs_reply = BytesRead 0\<rparr>,
     it_delivered = [], it_sent = [], it_received = [], it_taken = []\<rparr>"

lemma microphone_reads: "reads_as_asked microphone 0"
  by (auto simp: reads_as_asked_def microphone_def fine_def)

lemma listening_start: "read_start 0 listening"
  by (simp add: read_start_def listening_def empty_world_def stopped_in_def new_obj_def)

definition asking :: "nat in_thread" where
  "asking = listening\<lparr>it_commandMQ := [\<lparr>rd_command = READ, rd_read = 4\<rparr>], it_sent := [\<lparr>rd_command = READ, rd_read = 4\<rparr>],
     it_event := True\<rparr>"

definition busy :: "nat in_thread" where
  "busy = asking\<lparr>it_pc := At_execute, it_event := False, it_commandMQ := [], it_parameters := \<lparr>rd_command = READ, rd_read = 4\<rparr>\<rparr>"

lemma busy_reachable: "in_reachable microphone 0 busy"
proof -
  have run: "in_reachable microphone 0 s \<Longrightarrow> readLoop_step microphone 0 s s' \<Longrightarrow> in_reachable microphone 0 s'" for s s'
    by (blast intro: in_reachable.step in_step.thread)
  have "in_reachable microphone 0 asking"
    using in_step.send_command [of listening microphone 0 "\<lparr>rd_command = READ, rd_read = 4\<rparr>"]
    by (intro in_reachable.step [OF in_reachable.start [OF listening_start]]) (simp add: asking_def listening_def)
  moreover have "readLoop_step microphone 0 asking (asking\<lparr>it_pc := At_wait\<rparr>)"
    using readLoop_step.loop [of asking microphone 0] by (simp add: asking_def listening_def stopped_in_def new_obj_def)
  moreover have "readLoop_step microphone 0 (asking\<lparr>it_pc := At_wait\<rparr>) (asking\<lparr>it_pc := At_read, it_event := False\<rparr>)"
    using readLoop_step.woken [of "asking\<lparr>it_pc := At_wait\<rparr>" microphone 0] by (simp add: asking_def)
  moreover have "readLoop_step microphone 0 (asking\<lparr>it_pc := At_read, it_event := False\<rparr>) busy"
    using readLoop_step.command [of "asking\<lparr>it_pc := At_read, it_event := False\<rparr>" "\<lparr>rd_command = READ, rd_read = 4\<rparr>" "[]" microphone 0]
    by (simp add: asking_def busy_def listening_def)
  ultimately show ?thesis by (meson run)
qed

definition answered :: "nat in_thread" where
  "answered = (execute_read microphone 0 busy)\<lparr>it_pc := At_reply\<rparr>"

lemma answered_reachable: "in_reachable microphone 0 answered"
  using busy_reachable readLoop_step.execute [of busy microphone 0]
  by (auto simp: answered_def busy_def intro: in_reachable.step in_step.thread)

theorem read_thread_faithful_witness:
  "in_reachable microphone 0 answered \<and> it_dataMQ answered = [7, 8, 9] \<and> sum_list (map bytes_reported (statuses answered)) = 3"
proof -
  have data: "it_dataMQ answered = [7, 8, 9]" "it_taken answered = []"
    by (simp_all add: answered_def execute_read_defs busy_def asking_def listening_def Let_def microphone_def fine_def)
  have "it_delivered answered = [7, 8, 9]" "sum_list (map bytes_reported (statuses answered)) = length (it_delivered answered)"
    using read_thread_faithful [OF answered_reachable microphone_reads] data by auto
  then show ?thesis using data answered_reachable by simp
qed

end
