(* ===== verification/Hal_Device.thy ===== *)
theory Hal_Device
  imports Hal_StreamIn Monad_Laws
begin

text \<open>
  The primary audio HAL, fifth part: \<^verbatim>\<open>Device.cpp\<close>, \<^verbatim>\<open>PrimaryDevice.cpp\<close> and \<^verbatim>\<open>DevicesFactory.cpp\<close>. A world is one
  device with its streams; a \<open>PrimaryDevice\<close> shares the world of the device it wraps.
\<close>

section \<open>Parameters of the device\<close>

definition Device_initCheck :: "('p, 'v) env \<Rightarrow> ('v, Result) hal_m" where
  "Device_initCheck E = hal_result E Dev ''init_check'' []"

definition Device_setMasterVolume :: "('p, 'v) env \<Rightarrow> cfloat \<Rightarrow> ('v, Result) hal_m" where
  "Device_setMasterVolume E volume =
     (if \<not> e_has E Dev ''set_master_volume'' then return NOT_SUPPORTED
      else if \<not> isGainNormalized volume then return INVALID_ARGUMENTS
      else hal_result E Dev ''set_master_volume'' [F volume])"

definition Device_getMasterVolume :: "('p, 'v) env \<Rightarrow> ('v, Result \<times> cfloat) hal_m" where
  "Device_getMasterVolume E =
     (if e_has E Dev ''get_master_volume''
      then do { r \<leftarrow> hal E Dev ''get_master_volume'' []; return (analyzeStatus (rp_status r), rp_float r) }
      else return (NOT_SUPPORTED, Finite 0))"

definition Device_setMicMute :: "('p, 'v) env \<Rightarrow> bool \<Rightarrow> ('v, Result) hal_m" where
  "Device_setMicMute E mute = hal_result E Dev ''set_mic_mute'' [B mute]"

definition Device_getMicMute :: "('p, 'v) env \<Rightarrow> ('v, Result \<times> bool) hal_m" where
  "Device_getMicMute E = do { r \<leftarrow> hal E Dev ''get_mic_mute'' []; return (analyzeStatus (rp_status r), rp_number r \<noteq> 0) }"

definition Device_setMasterMute :: "('p, 'v) env \<Rightarrow> bool \<Rightarrow> ('v, Result) hal_m" where
  "Device_setMasterMute E mute = optional_result E Dev ''set_master_mute'' [B mute]"

definition Device_getMasterMute :: "('p, 'v) env \<Rightarrow> ('v, Result \<times> bool) hal_m" where
  "Device_getMasterMute E =
     (if e_has E Dev ''get_master_mute''
      then do { r \<leftarrow> hal E Dev ''get_master_mute'' []; return (analyzeStatus (rp_status r), rp_number r \<noteq> 0) }
      else return (NOT_SUPPORTED, False))"

definition Device_getInputBufferSize :: "('p, 'v) env \<Rightarrow> 'v \<Rightarrow> ('v, Result \<times> u64) hal_m" where
  "Device_getInputBufferSize E config =
     (let c = e_conv E AudioConfigToHal [config] in
      if rp_status c \<noteq> 0 then return (INVALID_ARGUMENTS, 0)
      else do {
        r \<leftarrow> hal E Dev ''get_input_buffer_size'' [V (rp_value c)];
        let halBufferSize = word_of_int (rp_number r);
        return (if halBufferSize \<noteq> 0 then (OK, halBufferSize) else (INVALID_ARGUMENTS, 0))
      })"

section \<open>Opening streams\<close>

text \<open>The new object takes the next number, and the count goes up.\<close>

definition add_out :: "('v, nat) hal_m" where
  "add_out = State (\<lambda>w. (w_next w, w\<lparr>w_next := Suc (w_next w), w_outs := (w_outs w)(w_next w \<mapsto> new_obj),
     w_openedStreamsCount := w_openedStreamsCount w + 1\<rparr>))"

definition add_in :: "('v, nat) hal_m" where
  "add_in = State (\<lambda>w. (w_next w, w\<lparr>w_next := Suc (w_next w), w_ins := (w_ins w)(w_next w \<mapsto> new_obj),
     w_openedStreamsCount := w_openedStreamsCount w + 1\<rparr>))"

lemma run_add_out [simp]: "run_state add_out w = (w_next w, w\<lparr>w_next := Suc (w_next w), w_outs := (w_outs w)(w_next w \<mapsto> new_obj),
     w_openedStreamsCount := w_openedStreamsCount w + 1\<rparr>)"
  by (simp add: add_out_def)

lemma run_add_in [simp]: "run_state add_in w = (w_next w, w\<lparr>w_next := Suc (w_next w), w_ins := (w_ins w)(w_next w \<mapsto> new_obj),
     w_openedStreamsCount := w_openedStreamsCount w + 1\<rparr>)"
  by (simp add: add_in_def)

text \<open>The result, the stream and the suggested configuration, which is the default one when a conversion fails.\<close>

definition Device_openOutputStreamCore :: "('p, 'v) env \<Rightarrow> int \<Rightarrow> 'v \<Rightarrow> 'v \<Rightarrow> 'v \<Rightarrow> ('v, Result \<times> nat option \<times> 'v) hal_m" where
  "Device_openOutputStreamCore E ioHandle device config flags =
     (let noConfig = rp_value (e_conv E DefaultValue []);
          halConfig = e_conv E AudioConfigToHal [config];
          halDevice = e_conv E DeviceAddressToHal [device];
          halFlags = e_conv E AudioOutputFlagsToHal [flags]
      in if rp_status halConfig \<noteq> 0 then return (INVALID_ARGUMENTS, None, noConfig)
         else if rp_status halDevice \<noteq> 0 then return (INVALID_ARGUMENTS, None, noConfig)
         else if rp_status halFlags \<noteq> 0 then return (INVALID_ARGUMENTS, None, noConfig)
         else do {
           r \<leftarrow> hal E Dev ''open_output_stream''
             [N ioHandle, N (rp_number halDevice), N (rp_number halFlags), V (rp_value halConfig),
              S (case rp_text halDevice of Some s \<Rightarrow> s | None \<Rightarrow> [])];
           streamOut \<leftarrow> (if rp_status r = 0 then do { n \<leftarrow> add_out; return (Some n) } else return None);
           return (analyzeStatus (rp_status r), streamOut, rp_value (e_conv E AudioConfigFromHalOut [rp_value r]))
         })"

definition Device_openInputStreamCore :: "('p, 'v) env \<Rightarrow> int \<Rightarrow> 'v \<Rightarrow> 'v \<Rightarrow> 'v \<Rightarrow> 'v \<Rightarrow> ('v, Result \<times> nat option \<times> 'v) hal_m" where
  "Device_openInputStreamCore E ioHandle device config flags source =
     (let noConfig = rp_value (e_conv E DefaultValue []);
          halConfig = e_conv E AudioConfigToHal [config];
          halDevice = e_conv E DeviceAddressToHal [device];
          halFlags = e_conv E AudioInputFlagsToHal [flags];
          halSource = e_conv E AudioSourceToHal [source]
      in if rp_status halConfig \<noteq> 0 then return (INVALID_ARGUMENTS, None, noConfig)
         else if rp_status halDevice \<noteq> 0 then return (INVALID_ARGUMENTS, None, noConfig)
         else if rp_status halFlags \<noteq> 0 \<or> rp_status halSource \<noteq> 0 then return (INVALID_ARGUMENTS, None, noConfig)
         else do {
           r \<leftarrow> hal E Dev ''open_input_stream''
             [N ioHandle, N (rp_number halDevice), V (rp_value halConfig), N (rp_number halFlags),
              S (case rp_text halDevice of Some s \<Rightarrow> s | None \<Rightarrow> []), N (rp_number halSource)];
           streamIn \<leftarrow> (if rp_status r = 0 then do { n \<leftarrow> add_in; return (Some n) } else return None);
           return (analyzeStatus (rp_status r), streamIn, rp_value (e_conv E AudioConfigFromHalIn [rp_value r]))
         })"

text \<open>Version 4 and later; version 2 calls the core functions directly.\<close>

definition Device_openOutputStreamImpl :: "('p, 'v) env \<Rightarrow> int \<Rightarrow> 'v \<Rightarrow> 'v \<Rightarrow> 'v \<Rightarrow> 'v \<Rightarrow> ('v, Result \<times> nat option \<times> 'v) hal_m" where
  "Device_openOutputStreamImpl E ioHandle device config sourceMetadata flags =
     (let c = e_conv E (if e_major E \<le> 6 then SourceMetadataToHal else SourceMetadataToHalV7) [sourceMetadata] in
      if rp_status c \<noteq> 0 then return (analyzeStatus (rp_status c), None, rp_value (e_conv E DefaultValue []))
      else do {
        (result, streamOut, suggestedConfig) \<leftarrow> Device_openOutputStreamCore E ioHandle device config flags;
        (case streamOut of
           Some n \<Rightarrow> do { r \<leftarrow> StreamOut_updateSourceMetadata E n sourceMetadata; return () }
         | None \<Rightarrow> return ());
        return (result, streamOut, suggestedConfig)
      })"

text \<open>The metadata of an input stream, with the sources of its tracks.\<close>

record 'v SinkMetadata =
  sm_value :: 'v
  sm_sources :: "'v list"

definition Device_openInputStreamImpl :: "('p, 'v) env \<Rightarrow> int \<Rightarrow> 'v \<Rightarrow> 'v \<Rightarrow> 'v \<Rightarrow> 'v SinkMetadata \<Rightarrow> ('v, Result \<times> nat option \<times> 'v) hal_m" where
  "Device_openInputStreamImpl E ioHandle device config flags sinkMetadata =
     (let noConfig = rp_value (e_conv E DefaultValue []) in
      case sm_sources sinkMetadata of
        [] \<Rightarrow> return (INVALID_ARGUMENTS, None, noConfig)
      | source # _ \<Rightarrow>
          let c = e_conv E (if e_major E \<le> 6 then SinkMetadataToHal else SinkMetadataToHalV7) [sm_value sinkMetadata] in
          if rp_status c \<noteq> 0 then return (analyzeStatus (rp_status c), None, noConfig)
          else do {
            (result, streamIn, suggestedConfig) \<leftarrow> Device_openInputStreamCore E ioHandle device config flags source;
            (case streamIn of
               Some n \<Rightarrow> do { r \<leftarrow> StreamIn_updateSinkMetadata E n (sm_value sinkMetadata); return () }
             | None \<Rightarrow> return ());
            return (result, streamIn, suggestedConfig)
          })"

definition Device_openOutputStream :: "('p, 'v) env \<Rightarrow> int \<Rightarrow> 'v \<Rightarrow> 'v \<Rightarrow> 'v \<Rightarrow> 'v \<Rightarrow> ('v, Result \<times> nat option \<times> 'v) hal_m" where
  "Device_openOutputStream E ioHandle device config flags sourceMetadata =
     (if e_major E = 2 then Device_openOutputStreamCore E ioHandle device config flags
      else Device_openOutputStreamImpl E ioHandle device config sourceMetadata flags)"

text \<open>Version 2 passes the source, the others the metadata.\<close>

definition Device_openInputStream :: "('p, 'v) env \<Rightarrow> int \<Rightarrow> 'v \<Rightarrow> 'v \<Rightarrow> 'v \<Rightarrow> 'v + 'v SinkMetadata \<Rightarrow> ('v, Result \<times> nat option \<times> 'v) hal_m" where
  "Device_openInputStream E ioHandle device config flags source =
     (case source of
        Inl source \<Rightarrow> Device_openInputStreamCore E ioHandle device config flags source
      | Inr sinkMetadata \<Rightarrow> Device_openInputStreamImpl E ioHandle device config flags sinkMetadata)"

section \<open>Patches and ports\<close>

definition Device_supportsAudioPatches :: "('p, 'v) env \<Rightarrow> bool" where
  "Device_supportsAudioPatches E \<longleftrightarrow> e_version E \<ge> AUDIO_DEVICE_API_VERSION_3_0"

definition createOrUpdateAudioPatch :: "('p, 'v) env \<Rightarrow> int \<Rightarrow> 'v list \<Rightarrow> 'v list \<Rightarrow> ('v, Result \<times> int) hal_m" where
  "createOrUpdateAudioPatch E patch sources sinks =
     (if e_version E \<ge> AUDIO_DEVICE_API_VERSION_3_0
      then let halSources = e_conv E AudioPortConfigsToHal sources; halSinks = e_conv E AudioPortConfigsToHal sinks in
        if rp_status halSources \<noteq> 0 then return (analyzeStatus (rp_status halSources), patch)
        else if rp_status halSinks \<noteq> 0 then return (analyzeStatus (rp_status halSinks), patch)
        else do {
          r \<leftarrow> hal E Dev ''create_audio_patch'' [Vs (rp_values halSources), Vs (rp_values halSinks), N patch];
          let retval = analyzeStatus (rp_status r);
          return (retval, if retval = OK then rp_number r else patch)
        }
      else return (NOT_SUPPORTED, patch))"

definition Device_createAudioPatch :: "('p, 'v) env \<Rightarrow> 'v list \<Rightarrow> 'v list \<Rightarrow> ('v, Result \<times> int) hal_m" where
  "Device_createAudioPatch E sources sinks = createOrUpdateAudioPatch E 0 sources sinks"

definition Device_updateAudioPatch :: "('p, 'v) env \<Rightarrow> int \<Rightarrow> 'v list \<Rightarrow> 'v list \<Rightarrow> ('v, Result \<times> int) hal_m" where
  "Device_updateAudioPatch E previousPatch sources sinks =
     (if previousPatch \<noteq> 0 then createOrUpdateAudioPatch E previousPatch sources sinks
      else return (INVALID_ARGUMENTS, previousPatch))"

definition Device_releaseAudioPatch :: "('p, 'v) env \<Rightarrow> int \<Rightarrow> ('v, Result) hal_m" where
  "Device_releaseAudioPatch E patch =
     (if e_version E \<ge> AUDIO_DEVICE_API_VERSION_3_0 then hal_result E Dev ''release_audio_patch'' [N patch]
      else return NOT_SUPPORTED)"

definition getAudioPortImpl :: "('p, 'v) env \<Rightarrow> 'v \<Rightarrow> hal_fn \<Rightarrow> ('v, Result \<times> 'v) hal_m" where
  "getAudioPortImpl E port halGetter =
     (let c = e_conv E AudioPortToHal [port] in
      if rp_status c \<noteq> 0 then return (analyzeStatus (rp_status c), port)
      else do {
        r \<leftarrow> hal E Dev halGetter [V (rp_value c)];
        let retval = analyzeStatus (rp_status r);
        return (if retval = OK
                then let d = e_conv E AudioPortFromHal [rp_value r] in
                  (if rp_status d \<noteq> 0 then (analyzeStatus (rp_status d), port) else (retval, rp_value d))
                else (retval, port))
      })"

definition Device_getAudioPort :: "('p, 'v) env \<Rightarrow> 'v \<Rightarrow> ('v, Result \<times> 'v) hal_m" where
  "Device_getAudioPort E port =
     (if e_major E \<ge> 7 \<and> e_version E \<ge> AUDIO_DEVICE_API_VERSION_3_2 then getAudioPortImpl E port ''get_audio_port_v7''
      else getAudioPortImpl E port ''get_audio_port'')"

definition Device_setAudioPortConfig :: "('p, 'v) env \<Rightarrow> 'v \<Rightarrow> ('v, Result) hal_m" where
  "Device_setAudioPortConfig E config =
     (if e_version E \<ge> AUDIO_DEVICE_API_VERSION_3_0
      then let c = e_conv E AudioPortConfigToHal [config] in
        (if rp_status c \<noteq> 0 then return (analyzeStatus (rp_status c))
         else hal_result E Dev ''set_audio_port_config'' [V (rp_value c)])
      else return NOT_SUPPORTED)"

section \<open>Key-value parameters\<close>

text \<open>Without a value the number is what the conversion has left; version 2 replaces it by \<open>AUDIO_HW_SYNC_INVALID\<close>, 0.\<close>

definition Device_getHwAvSync :: "('p, 'v) env \<Rightarrow> ('v, Result \<times> int) hal_m" where
  "Device_getHwAvSync E = getParam_int E Dev (e_text E KeyHwAvSync)"

definition Device_getHwAvSync_V2 :: "('p, 'v) env \<Rightarrow> ('v, int) hal_m" where
  "Device_getHwAvSync_V2 E = do {
     (retval, halHwAvSync) \<leftarrow> getParam_int E Dev (e_text E KeyHwAvSync);
     return (if retval = OK then halHwAvSync else 0)
   }"

definition Device_setScreenState :: "('p, 'v) env \<Rightarrow> bool \<Rightarrow> ('v, Result) hal_m" where
  "Device_setScreenState E turnedOn = setParam_bool E Dev (e_text E KeyScreenState) turnedOn"

definition Device_getParameters :: "('p, 'v) env \<Rightarrow> (string \<times> string) list \<Rightarrow> string list \<Rightarrow> ('v, Result \<times> (string \<times> string) list) hal_m" where
  "Device_getParameters E context keys = getParametersImpl E Dev (if e_major E = 2 then [] else context) keys"

definition Device_setParameters :: "('p, 'v) env \<Rightarrow> (string \<times> string) list \<Rightarrow> (string \<times> string) list \<Rightarrow> ('v, Result) hal_m" where
  "Device_setParameters E context parameters = setParametersImpl E Dev (if e_major E = 2 then [] else context) parameters"

text \<open>The text written to the descriptor, if the handle has just one; the reports are those of \<^verbatim>\<open>libmemunreachable\<close>.\<close>

definition Device_debug :: "('p, 'v) env \<Rightarrow> string \<Rightarrow> string \<Rightarrow> int list option \<Rightarrow> string list \<Rightarrow> ('v, string) hal_m" where
  "Device_debug E memoryAddresses unreachableMemoryString fd options =
     (case fd of
        Some [fd0] \<Rightarrow> do {
          let dumpMem = ''-m'' \<in> set options;
          let unreachableMemory = ''--unreachable'' \<in> set options;
          let text1 = (if dumpMem then CHR 0x0A # ''Dumping memory:'' @ CHR 0x0A # memoryAddresses else []);
          let text2 = (if unreachableMemory then CHR 0x0A # ''Dumping unreachable memory:'' @ CHR 0x0A # unreachableMemoryString else []);
          r \<leftarrow> hal E Dev ''dump'' [N fd0];
          return (text1 @ text2)
        }
      | _ \<Rightarrow> return [])"

definition Device_getMicrophones :: "('p, 'v) env \<Rightarrow> nat \<Rightarrow> ('v, (Result \<times> 'v list) ub) hal_m" where
  "Device_getMicrophones E AUDIO_MICROPHONE_MAX_COUNT =
     (if \<not> e_has E Dev ''get_microphones'' then return (Some (NOT_SUPPORTED, []))
      else do {
        r \<leftarrow> hal E Dev ''get_microphones'' [N (int AUDIO_MICROPHONE_MAX_COUNT)];
        return (if rp_status r \<noteq> 0 then Some (NOT_SUPPORTED, [])
                else map_option (Pair OK) (microphones_of E AUDIO_MICROPHONE_MAX_COUNT r))
      })"

definition Device_setConnectedState :: "('p, 'v) env \<Rightarrow> 'v \<Rightarrow> bool \<Rightarrow> ('v, Result) hal_m" where
  "Device_setConnectedState E address isConnected =
     setParam_address E Dev (e_text E (if isConnected then KeyDeviceConnect else KeyDeviceDisconnect)) address"

section \<open>Closing the device\<close>

definition Device_doClose :: "('p, 'v) env \<Rightarrow> ('v, Result) hal_m" where
  "Device_doClose E = do {
     w \<leftarrow> State_Monad.get;
     if w_isClosed w \<or> w_openedStreamsCount w \<noteq> 0 then return INVALID_STATE
     else do {
       State_Monad.set (w\<lparr>w_isClosed := True\<rparr>);
       hal_result E Dev ''audio_hw_device_close'' []
     }
   }"

definition Device_close :: "('p, 'v) env \<Rightarrow> ('v, Result) hal_m" where
  "Device_close E = Device_doClose E"

definition Device_dtor :: "('p, 'v) env \<Rightarrow> ('v, unit) hal_m" where
  "Device_dtor E = do { r \<leftarrow> Device_doClose E; return () }"

section \<open>Effects of the device\<close>

definition Device_addDeviceEffect :: "('p, 'v) env \<Rightarrow> int \<Rightarrow> u64 \<Rightarrow> ('v, Result) hal_m" where
  "Device_addDeviceEffect E device effectId =
     (if e_version E < AUDIO_DEVICE_API_VERSION_3_1 \<or> \<not> e_has E Dev ''add_device_effect'' then return NOT_SUPPORTED
      else case e_effect E effectId of
        Some halEffect \<Rightarrow> hal_result E Dev ''add_device_effect'' [N device, V halEffect]
      | None \<Rightarrow> return INVALID_ARGUMENTS)"

definition Device_removeDeviceEffect :: "('p, 'v) env \<Rightarrow> int \<Rightarrow> u64 \<Rightarrow> ('v, Result) hal_m" where
  "Device_removeDeviceEffect E device effectId =
     (if e_version E < AUDIO_DEVICE_API_VERSION_3_1 \<or> \<not> e_has E Dev ''remove_device_effect'' then return NOT_SUPPORTED
      else case e_effect E effectId of
        Some halEffect \<Rightarrow> hal_result E Dev ''remove_device_effect'' [N device, V halEffect]
      | None \<Rightarrow> return INVALID_ARGUMENTS)"

definition Device_setConnectedState_7_1 :: "('p, 'v) env \<Rightarrow> 'v \<Rightarrow> bool \<Rightarrow> ('v, Result) hal_m" where
  "Device_setConnectedState_7_1 E devicePort isConnected =
     (if e_version E \<ge> AUDIO_DEVICE_API_VERSION_3_2 \<and> e_has E Dev ''set_device_connected_state_v7''
      then let c = e_conv E AudioPortToHal [devicePort] in
        (if rp_status c \<noteq> 0 then return (analyzeStatus (rp_status c))
         else hal_result E Dev ''set_device_connected_state_v7'' [V (rp_value c), B isConnected])
      else return NOT_SUPPORTED)"

section \<open>Methods that only call the legacy HAL\<close>

text \<open>The calls that end the life of something.\<close>

fun close_of :: "nat + nat \<Rightarrow> 'v hal_call" where
  "close_of (Inl n) = Call Dev ''close_output_stream'' [N (int n)]"
| "close_of (Inr n) = Call Dev ''close_input_stream'' [N (int n)]"

fun number_of :: "nat + nat \<Rightarrow> nat" where
  "number_of (Inl n) = n"
| "number_of (Inr n) = n"

definition close_device_call :: "'v hal_call" where
  "close_device_call = Call Dev ''audio_hw_device_close'' []"

definition harmless :: "'v hal_call \<Rightarrow> bool" where
  "harmless c \<longleftrightarrow> (\<forall>x. c \<noteq> close_of x) \<and> c \<noteq> close_device_call"

definition quiet :: "'v world \<Rightarrow> 'v world \<Rightarrow> bool" where
  "quiet w w' \<longleftrightarrow> (\<exists>calls. (\<forall>c\<in>set calls. harmless c) \<and> w' = w\<lparr>w_trace := w_trace w @ calls\<rparr>)"

named_theorems quiet_intros \<open>methods that only call harmless functions of the legacy HAL\<close>

lemma quiet_refl [simp]: "quiet w w"
  unfolding quiet_def by (rule exI [of _ "[]"]) simp

lemma quiet_trans:
  assumes "quiet w w'" "quiet w' w''"
  shows "quiet w w''"
proof -
  obtain a b where "\<forall>c\<in>set a. harmless c" "\<forall>c\<in>set b. harmless c" "w' = w\<lparr>w_trace := w_trace w @ a\<rparr>"
    "w'' = w'\<lparr>w_trace := w_trace w' @ b\<rparr>"
    using assms unfolding quiet_def by blast
  then show ?thesis unfolding quiet_def by (intro exI [of _ "a @ b"]) auto
qed

interpretation quietly: step_relation quiet
  by unfold_locales (auto intro: quiet_trans)

declare quietly.rel_return [quiet_intros] quietly.rel_bind [quiet_intros] quietly.rel_if [quiet_intros]
  quietly.rel_option [quiet_intros] quietly.rel_prod [quiet_intros]

lemma close_of_function: "Call t f args = close_of x \<Longrightarrow> f = ''close_output_stream'' \<or> f = ''close_input_stream''"
  by (cases x) auto

lemma harmless_hal: "f \<noteq> ''close_output_stream'' \<Longrightarrow> f \<noteq> ''close_input_stream'' \<Longrightarrow> f \<noteq> ''audio_hw_device_close'' \<Longrightarrow> harmless (Call t f args)"
  unfolding harmless_def close_device_call_def using close_of_function by blast

lemma quiet_hal [quiet_intros]:
  "f \<noteq> ''close_output_stream'' \<Longrightarrow> f \<noteq> ''close_input_stream'' \<Longrightarrow> f \<noteq> ''audio_hw_device_close'' \<Longrightarrow> state_io_rel quiet (hal E t f args)"
  by (auto simp: state_io_rel_def quiet_def harmless_hal intro!: exI [of _ "[Call t f args]"])

lemma quiet_result [quiet_intros]:
  "f \<noteq> ''close_output_stream'' \<Longrightarrow> f \<noteq> ''close_input_stream'' \<Longrightarrow> f \<noteq> ''audio_hw_device_close'' \<Longrightarrow> state_io_rel quiet (hal_result E t f args)"
  unfolding hal_result_def by (intro quiet_intros)

lemma quiet_params [quiet_intros]:
  "state_io_rel quiet (getParams E t keys)" "state_io_rel quiet (setParams E t keys)"
  unfolding getParams_def setParams_def by (intro quiet_intros; simp)+

lemma quiet_getParam [quiet_intros]:
  "state_io_rel quiet (getParam_string E t name context)" "state_io_rel quiet (getParam_int E t name)"
  "state_io_rel quiet (getParam_bool E t name)" "state_io_rel quiet (getParametersImpl E t pairs keys)"
  unfolding getParam_string_def getParam_int_def getParam_bool_def getParametersImpl_def Let_def
  by (intro quiet_intros)+

lemma quiet_setParam [quiet_intros]:
  "state_io_rel quiet (setParam_string E t name s)" "state_io_rel quiet (setParam_bool E t name b)"
  "state_io_rel quiet (setParam_int E t name i)" "state_io_rel quiet (setParam_float E t name x)"
  "state_io_rel quiet (setParam_address E t name address)" "state_io_rel quiet (setParametersImpl E t pairs keys)"
  unfolding setParam_string_def setParam_bool_def setParam_int_def setParam_float_def setParam_address_def setParametersImpl_def Let_def
  by (intro quiet_intros)+

lemma quiet_updateMetadata [quiet_intros]:
  "state_io_rel quiet (StreamOut_updateSourceMetadata E n source)" "state_io_rel quiet (StreamIn_updateSinkMetadata E n sink)"
  unfolding StreamOut_updateSourceMetadata_def doUpdateSourceMetadata_def doUpdateSourceMetadataV7_def
    StreamIn_updateSinkMetadata_def doUpdateSinkMetadata_def doUpdateSinkMetadataV7_def Let_def
  by (intro quiet_intros; simp)+

section \<open>Streams and their count\<close>

fun obj :: "'v world \<Rightarrow> nat + nat \<Rightarrow> stream_obj option" where
  "obj w (Inl n) = w_outs w n"
| "obj w (Inr n) = w_ins w n"

text \<open>The streams whose legacy stream is open: with version 6 and later until they are closed, before until they are destroyed.\<close>

definition live :: "('p, 'v) env \<Rightarrow> 'v world \<Rightarrow> (nat + nat) set" where
  "live E w = {x. \<exists>s. obj w x = Some s \<and> (6 \<le> e_major E \<longrightarrow> \<not> so_stop s)}"

lemma obj_trace [simp]: "obj (w\<lparr>w_trace := t\<rparr>) x = obj w x"
  by (cases x) auto

lemma live_trace [simp]: "live E (w\<lparr>w_trace := t\<rparr>) = live E w"
  by (simp add: live_def)

definition balanced :: "nat \<Rightarrow> int \<Rightarrow> (nat + nat) set \<Rightarrow> 'v hal_call list \<Rightarrow> bool" where
  "balanced next count L trace \<longleftrightarrow> (\<forall>x\<in>L. number_of x < next) \<and> count = int (card L) \<and>
     (\<forall>x. count_list trace (close_of x) \<le> (if x \<in> L \<or> next \<le> number_of x then 0 else 1))"

lemma balancedD:
  assumes "balanced next count L trace"
  shows "x \<in> L \<Longrightarrow> number_of x < next" and "count = int (card L)"
    and "count_list trace (close_of x) \<le> (if x \<in> L \<or> next \<le> number_of x then 0 else 1)"
  using assms unfolding balanced_def by blast+

lemma balancedI:
  "(\<And>x. x \<in> L \<Longrightarrow> number_of x < next) \<Longrightarrow> count = int (card L) \<Longrightarrow>
   (\<And>x. count_list trace (close_of x) \<le> (if x \<in> L \<or> next \<le> number_of x then 0 else 1)) \<Longrightarrow> balanced next count L trace"
  unfolding balanced_def by blast

lemma balanced_finite:
  assumes "balanced next count L trace"
  shows "finite L"
proof -
  have "x \<in> Inl ` {..<next} \<union> Inr ` {..<next}" if "x \<in> L" for x
    using balancedD(1) [OF assms that] by (cases x) auto
  then have "L \<subseteq> Inl ` {..<next} \<union> Inr ` {..<next}" by blast
  then show ?thesis by (rule finite_subset) simp
qed

lemma balanced_open:
  assumes "balanced next count L trace" "number_of x = next"
  shows "balanced (Suc next) (count + 1) (insert x L) trace"
proof (rule balancedI)
  have "x \<notin> L" using balancedD(1) [OF assms(1)] assms(2) by blast
  then show "count + 1 = int (card (insert x L))"
    using balanced_finite [OF assms(1)] balancedD(2) [OF assms(1)] by simp
  show "number_of y < Suc next" if "y \<in> insert x L" for y
    using that assms(2) balancedD(1) [OF assms(1), of y] by auto
  show "count_list trace (close_of y) \<le> (if y \<in> insert x L \<or> Suc next \<le> number_of y then 0 else 1)" for y
    using balancedD(3) [OF assms(1), of y] assms(2) by (auto split: if_splits)
qed

lemma close_of_inj: "close_of x = close_of y \<longleftrightarrow> x = y"
  by (cases x; cases y) auto

lemma balanced_close:
  assumes "balanced next count L trace" "x \<in> L"
  shows "balanced next (count - 1) (L - {x}) (trace @ [close_of x])" and "count > 0"
proof -
  have fin: "finite L" using balanced_finite [OF assms(1)] .
  have "card L > 0" using assms(2) fin card_gt_0_iff by blast
  then show "count > 0" using balancedD(2) [OF assms(1)] by simp
  show "balanced next (count - 1) (L - {x}) (trace @ [close_of x])"
  proof (rule balancedI)
    show "number_of y < next" if "y \<in> L - {x}" for y using that balancedD(1) [OF assms(1)] by blast
    show "count - 1 = int (card (L - {x}))"
      using \<open>card L > 0\<close> balancedD(2) [OF assms(1)] card_Diff_singleton [OF assms(2)] by simp
    show "count_list (trace @ [close_of x]) (close_of y) \<le> (if y \<in> L - {x} \<or> next \<le> number_of y then 0 else 1)" for y
    proof (cases "y = x")
      case True
      have "number_of x < next" using balancedD(1) [OF assms] .
      then show ?thesis using True balancedD(3) [OF assms(1), of x] assms(2) by simp
    next
      case False
      then have "count_list (trace @ [close_of x]) (close_of y) = count_list trace (close_of y)" by (simp add: close_of_inj)
      then show ?thesis using False balancedD(3) [OF assms(1), of y] by auto
    qed
  qed
qed

lemma balanced_calls:
  assumes "balanced next count L trace" "\<forall>c\<in>set calls. \<forall>x. c \<noteq> close_of x"
  shows "balanced next count L (trace @ calls)"
proof -
  have "count_list calls (close_of x) = 0" for x using assms(2) by (metis count_list_0_iff)
  then show ?thesis using assms(1) by (simp add: balanced_def)
qed

definition hal_inv :: "('p, 'v) env \<Rightarrow> 'v world \<Rightarrow> bool" where
  "hal_inv E w \<longleftrightarrow> (\<forall>n\<ge>w_next w. w_outs w n = None \<and> w_ins w n = None) \<and>
     balanced (w_next w) (w_openedStreamsCount w) (live E w) (w_trace w) \<and>
     count_list (w_trace w) close_device_call = (if w_isClosed w then 1 else 0)"

lemma hal_inv_quiet:
  assumes "hal_inv E w" "quiet w w'"
  shows "hal_inv E w'"
proof -
  obtain calls where c: "\<forall>c\<in>set calls. harmless c" "w' = w\<lparr>w_trace := w_trace w @ calls\<rparr>"
    using assms(2) unfolding quiet_def by blast
  have "count_list calls close_device_call = 0" using c(1) by (metis count_list_0_iff harmless_def)
  moreover have "live E w' = live E w" by (simp add: c(2))
  moreover have "balanced (w_next w) (w_openedStreamsCount w) (live E w) (w_trace w @ calls)"
    using assms(1) c(1) by (intro balanced_calls) (auto simp: hal_inv_def harmless_def)
  ultimately show ?thesis using assms(1) by (simp add: hal_inv_def c(2))
qed

section \<open>Steps\<close>

lemma harmless_not_close: "harmless c \<Longrightarrow> c \<noteq> close_of x"
  by (simp add: harmless_def)

lemma close_of_not_device: "close_device_call \<noteq> close_of x"
  by (cases x) (simp_all add: close_device_call_def)

lemma live_add_out:
  "w_outs w (w_next w) = None \<Longrightarrow> live E (w\<lparr>w_next := i, w_outs := (w_outs w)(w_next w \<mapsto> new_obj), w_openedStreamsCount := c\<rparr>) = insert (Inl (w_next w)) (live E w)"
proof (intro set_eqI)
  fix x assume "w_outs w (w_next w) = None"
  then show "x \<in> live E (w\<lparr>w_next := i, w_outs := (w_outs w)(w_next w \<mapsto> new_obj), w_openedStreamsCount := c\<rparr>) \<longleftrightarrow> x \<in> insert (Inl (w_next w)) (live E w)"
    by (cases x) (auto simp: live_def new_obj_def)
qed

lemma live_add_in:
  "w_ins w (w_next w) = None \<Longrightarrow> live E (w\<lparr>w_next := i, w_ins := (w_ins w)(w_next w \<mapsto> new_obj), w_openedStreamsCount := c\<rparr>) = insert (Inr (w_next w)) (live E w)"
proof (intro set_eqI)
  fix x assume "w_ins w (w_next w) = None"
  then show "x \<in> live E (w\<lparr>w_next := i, w_ins := (w_ins w)(w_next w \<mapsto> new_obj), w_openedStreamsCount := c\<rparr>) \<longleftrightarrow> x \<in> insert (Inr (w_next w)) (live E w)"
    by (cases x) (auto simp: live_def new_obj_def)
qed

lemma hal_inv_add:
  assumes "hal_inv E w"
  shows "hal_inv E (snd (run_state add_out w))" and "hal_inv E (snd (run_state add_in w))"
  using assms balanced_open [of "w_next w" _ _ _ "Inl (w_next w)"] balanced_open [of "w_next w" _ _ _ "Inr (w_next w)"]
  by (auto simp: hal_inv_def live_add_out live_add_in)

text \<open>A method that keeps the invariant, in the form the steps compose.\<close>

definition keeps :: "('p, 'v) env \<Rightarrow> ('v, 'a) hal_m \<Rightarrow> bool" where
  "keeps E m \<longleftrightarrow> (\<forall>w. hal_inv E w \<longrightarrow> hal_inv E (snd (run_state m w)))"

lemma keeps_quiet: "state_io_rel quiet m \<Longrightarrow> keeps E m"
  unfolding keeps_def using hal_inv_quiet by (metis quietly.rel_run prod.collapse)

lemma keeps_bind: "keeps E m \<Longrightarrow> (\<And>x. keeps E (f x)) \<Longrightarrow> keeps E (State_Monad.bind m f)"
  unfolding keeps_def by (auto split: prod.splits)

lemma keeps_if: "keeps E a \<Longrightarrow> keeps E b \<Longrightarrow> keeps E (if c then a else b)"
  by simp

lemma keeps_add: "keeps E add_out" "keeps E add_in"
  unfolding keeps_def using hal_inv_add by blast+

lemma keeps_return: "keeps E (return x)"
  by (simp add: keeps_def)

lemma keeps_hal:
  "f \<noteq> ''close_output_stream'' \<Longrightarrow> f \<noteq> ''close_input_stream'' \<Longrightarrow> f \<noteq> ''audio_hw_device_close'' \<Longrightarrow> keeps E (hal E t f args)"
  by (rule keeps_quiet) (rule quiet_hal)

lemma keeps_option: "keeps E a \<Longrightarrow> (\<And>x. keeps E (f x)) \<Longrightarrow> keeps E (case x of None \<Rightarrow> a | Some x \<Rightarrow> f x)"
  by (simp split: option.splits)

lemma keeps_prod: "(\<And>x y. keeps E (f x y)) \<Longrightarrow> keeps E (case p of (x, y) \<Rightarrow> f x y)"
  by (simp split: prod.splits)

lemmas keeps_intros = keeps_bind keeps_if keeps_add keeps_return keeps_hal keeps_option keeps_prod
  keeps_quiet [OF quiet_updateMetadata(1)] keeps_quiet [OF quiet_updateMetadata(2)]

lemma keeps_open:
  "keeps E (Device_openOutputStream E ioHandle device config flags source)"
  "keeps E (Device_openInputStream E ioHandle device config flags sink)"
  unfolding Device_openOutputStream_def Device_openInputStream_def Device_openOutputStreamImpl_def Device_openInputStreamImpl_def
    Device_openOutputStreamCore_def Device_openInputStreamCore_def Let_def
  by (auto intro!: keeps_intros split: sum.splits list.splits)

lemma live_update_out:
  "live E (w\<lparr>w_outs := (w_outs w)(n := z)\<rparr>) =
     live E w - {Inl n} \<union> (if \<exists>s. z = Some s \<and> (6 \<le> e_major E \<longrightarrow> \<not> so_stop s) then {Inl n} else {})"
proof (intro set_eqI)
  fix x show "x \<in> live E (w\<lparr>w_outs := (w_outs w)(n := z)\<rparr>) \<longleftrightarrow>
    x \<in> live E w - {Inl n} \<union> (if \<exists>s. z = Some s \<and> (6 \<le> e_major E \<longrightarrow> \<not> so_stop s) then {Inl n} else {})"
    by (cases x) (auto simp: live_def)
qed

lemma live_update_in:
  "live E (w\<lparr>w_ins := (w_ins w)(n := z)\<rparr>) =
     live E w - {Inr n} \<union> (if \<exists>s. z = Some s \<and> (6 \<le> e_major E \<longrightarrow> \<not> so_stop s) then {Inr n} else {})"
proof (intro set_eqI)
  fix x show "x \<in> live E (w\<lparr>w_ins := (w_ins w)(n := z)\<rparr>) \<longleftrightarrow>
    x \<in> live E w - {Inr n} \<union> (if \<exists>s. z = Some s \<and> (6 \<le> e_major E \<longrightarrow> \<not> so_stop s) then {Inr n} else {})"
    by (cases x) (auto simp: live_def)
qed

lemma live_count [simp]: "live E (w\<lparr>w_openedStreamsCount := c\<rparr>) = live E w"
proof -
  have "obj (w\<lparr>w_openedStreamsCount := c\<rparr>) x = obj w x" for x by (cases x) auto
  then show ?thesis by (simp add: live_def)
qed

lemma in_live: "Inl n \<in> live E w \<longleftrightarrow> (\<exists>s. w_outs w n = Some s \<and> (6 \<le> e_major E \<longrightarrow> \<not> so_stop s))"
  "Inr n \<in> live E w \<longleftrightarrow> (\<exists>s. w_ins w n = Some s \<and> (6 \<le> e_major E \<longrightarrow> \<not> so_stop s))"
  by (simp_all add: live_def)

text \<open>The object of a live stream is replaced by one that is not live, and the legacy stream is closed.\<close>

lemma hal_inv_close_out:
  assumes inv: "hal_inv E w" and live: "Inl n \<in> live E w" and z: "\<forall>s. z = Some s \<longrightarrow> 6 \<le> e_major E \<and> so_stop s"
  shows "w_openedStreamsCount w \<noteq> 0"
    and "hal_inv E (w\<lparr>w_outs := (w_outs w)(n := z), w_trace := w_trace w @ [close_of (Inl n)],
       w_openedStreamsCount := w_openedStreamsCount w - 1\<rparr>)"
proof -
  let ?w = "w\<lparr>w_outs := (w_outs w)(n := z), w_trace := w_trace w @ [close_of (Inl n)], w_openedStreamsCount := w_openedStreamsCount w - 1\<rparr>"
  have b: "balanced (w_next w) (w_openedStreamsCount w) (live E w) (w_trace w)" using inv by (simp add: hal_inv_def)
  then show "w_openedStreamsCount w \<noteq> 0" using balanced_close(2) [OF b live] by simp
  have n: "n < w_next w" using balancedD(1) [OF b live] by simp
  have "live E ?w = live E (w\<lparr>w_outs := (w_outs w)(n := z)\<rparr>)" by (metis live_count live_trace)
  then have "live E ?w = live E w - {Inl n}" using z by (auto simp: live_update_out)
  then show "hal_inv E ?w"
    using balanced_close(1) [OF b live] inv n by (auto simp: hal_inv_def close_device_call_def)
qed

lemma hal_inv_close_in:
  assumes inv: "hal_inv E w" and live: "Inr n \<in> live E w" and z: "\<forall>s. z = Some s \<longrightarrow> 6 \<le> e_major E \<and> so_stop s"
  shows "w_openedStreamsCount w \<noteq> 0"
    and "hal_inv E (w\<lparr>w_ins := (w_ins w)(n := z), w_trace := w_trace w @ [close_of (Inr n)],
       w_openedStreamsCount := w_openedStreamsCount w - 1\<rparr>)"
proof -
  let ?w = "w\<lparr>w_ins := (w_ins w)(n := z), w_trace := w_trace w @ [close_of (Inr n)], w_openedStreamsCount := w_openedStreamsCount w - 1\<rparr>"
  have b: "balanced (w_next w) (w_openedStreamsCount w) (live E w) (w_trace w)" using inv by (simp add: hal_inv_def)
  then show "w_openedStreamsCount w \<noteq> 0" using balanced_close(2) [OF b live] by simp
  have n: "n < w_next w" using balancedD(1) [OF b live] by simp
  have "live E ?w = live E (w\<lparr>w_ins := (w_ins w)(n := z)\<rparr>)" by (metis live_count live_trace)
  then have "live E ?w = live E w - {Inr n}" using z by (auto simp: live_update_in)
  then show "hal_inv E ?w"
    using balanced_close(1) [OF b live] inv n by (auto simp: hal_inv_def close_device_call_def)
qed

text \<open>The object of a stream is replaced by one that is live exactly when it was.\<close>

lemma hal_inv_object:
  assumes "hal_inv E w" "w_outs w n = Some s" "(6 \<le> e_major E \<longrightarrow> \<not> so_stop s') \<longleftrightarrow> (6 \<le> e_major E \<longrightarrow> \<not> so_stop s)"
  shows "hal_inv E (w\<lparr>w_outs := (w_outs w)(n \<mapsto> s')\<rparr>)"
proof -
  have "live E (w\<lparr>w_outs := (w_outs w)(n \<mapsto> s')\<rparr>) = live E w" using assms(2,3) by (auto simp: live_update_out in_live)
  then show ?thesis using assms(1,2) by (fastforce simp: hal_inv_def)
qed

lemma hal_inv_object_in:
  assumes "hal_inv E w" "w_ins w n = Some s" "(6 \<le> e_major E \<longrightarrow> \<not> so_stop s') \<longleftrightarrow> (6 \<le> e_major E \<longrightarrow> \<not> so_stop s)"
  shows "hal_inv E (w\<lparr>w_ins := (w_ins w)(n \<mapsto> s')\<rparr>)"
proof -
  have "live E (w\<lparr>w_ins := (w_ins w)(n \<mapsto> s')\<rparr>) = live E w" using assms(2,3) by (auto simp: live_update_in in_live)
  then show ?thesis using assms(1,2) by (fastforce simp: hal_inv_def)
qed

text \<open>Closing and destroying an existing stream keep the invariant and do not abort.\<close>

lemma StreamOut_close_ok:
  assumes inv: "hal_inv E w" and s: "w_outs w n = Some s"
  shows "\<exists>r w'. run_state (StreamOut_close E n) w = (Some r, w') \<and> hal_inv E w' \<and>
     w_outs w' n = Some (s\<lparr>so_stop := True\<rparr>) \<and> (r = OK \<longleftrightarrow> \<not> so_stop s) \<and> (r = INVALID_STATE \<longleftrightarrow> so_stop s)"
proof (cases "so_stop s")
  case True
  then show ?thesis using assms by (simp add: StreamOut_close_def)
next
  case stop: False
  show ?thesis
  proof (cases "6 \<le> e_major E")
    case True
    have "Inl n \<in> live E w" using s stop by (simp add: in_live)
    then show ?thesis
      using hal_inv_close_out [OF inv, of n "Some (s\<lparr>so_stop := True\<rparr>)"] s stop True
      by (simp add: StreamOut_close_def run_closeOutputStream)
  next
    case False
    then show ?thesis
      using hal_inv_object [OF inv s, of "s\<lparr>so_stop := True\<rparr>"] s stop by (simp add: StreamOut_close_def)
  qed
qed

lemma StreamIn_close_ok:
  assumes inv: "hal_inv E w" and s: "w_ins w n = Some s"
  shows "\<exists>r w'. run_state (StreamIn_close E n) w = (Some r, w') \<and> hal_inv E w' \<and>
     w_ins w' n = Some (s\<lparr>so_stop := True\<rparr>) \<and> (r = OK \<longleftrightarrow> \<not> so_stop s) \<and> (r = INVALID_STATE \<longleftrightarrow> so_stop s)"
proof (cases "so_stop s")
  case True
  then show ?thesis using assms by (simp add: StreamIn_close_def)
next
  case stop: False
  show ?thesis
  proof (cases "6 \<le> e_major E")
    case True
    have "Inr n \<in> live E w" using s stop by (simp add: in_live)
    then show ?thesis
      using hal_inv_close_in [OF inv, of n "Some (s\<lparr>so_stop := True\<rparr>)"] s stop True
      by (simp add: StreamIn_close_def run_closeInputStream)
  next
    case False
    then show ?thesis
      using hal_inv_object_in [OF inv s, of "s\<lparr>so_stop := True\<rparr>"] s stop by (simp add: StreamIn_close_def)
  qed
qed

lemma swap_updates:
  "w\<lparr>w_trace := t, w_openedStreamsCount := c, w_outs := out\<rparr> = w\<lparr>w_outs := out, w_trace := t, w_openedStreamsCount := c\<rparr>"
  "w\<lparr>w_trace := t, w_openedStreamsCount := c, w_ins := ins\<rparr> = w\<lparr>w_ins := ins, w_trace := t, w_openedStreamsCount := c\<rparr>"
  for w :: "'v world"
  by simp_all

lemma StreamOut_dtor_ok:
  assumes inv: "hal_inv E w" and s: "w_outs w n = Some s"
  shows "\<exists>w'. run_state (StreamOut_dtor E n) w = (Some (), w') \<and> hal_inv E w' \<and> w_outs w' n = None"
proof -
  obtain r w1 where close: "run_state (StreamOut_close E n) w = (Some r, w1)" "hal_inv E w1" "w_outs w1 n = Some (s\<lparr>so_stop := True\<rparr>)"
    using StreamOut_close_ok [OF assms] by blast
  show ?thesis
  proof (cases "6 \<le> e_major E")
    case True
    then have "Inl n \<notin> live E w1" using close(3) by (simp add: in_live)
    then have "live E (w1\<lparr>w_outs := (w_outs w1)(n := None)\<rparr>) = live E w1" by (auto simp: live_update_out)
    then show ?thesis using close True by (simp add: StreamOut_dtor_def StreamOut_dtor_rest_def hal_inv_def)
  next
    case False
    then have "Inl n \<in> live E w1" using close(3) by (simp add: in_live)
    then show ?thesis
      using hal_inv_close_out [OF close(2), of n None] close False by (simp add: StreamOut_dtor_def StreamOut_dtor_rest_def run_closeOutputStream swap_updates)
  qed
qed

lemma StreamIn_dtor_ok:
  assumes inv: "hal_inv E w" and s: "w_ins w n = Some s"
  shows "\<exists>w'. run_state (StreamIn_dtor E n) w = (Some (), w') \<and> hal_inv E w' \<and> w_ins w' n = None"
proof -
  obtain r w1 where close: "run_state (StreamIn_close E n) w = (Some r, w1)" "hal_inv E w1" "w_ins w1 n = Some (s\<lparr>so_stop := True\<rparr>)"
    using StreamIn_close_ok [OF assms] by blast
  show ?thesis
  proof (cases "6 \<le> e_major E")
    case True
    then have "Inr n \<notin> live E w1" using close(3) by (simp add: in_live)
    then have "live E (w1\<lparr>w_ins := (w_ins w1)(n := None)\<rparr>) = live E w1" by (auto simp: live_update_in)
    then show ?thesis using close True by (simp add: StreamIn_dtor_def StreamIn_dtor_rest_def hal_inv_def)
  next
    case False
    then have "Inr n \<in> live E w1" using close(3) by (simp add: in_live)
    then show ?thesis
      using hal_inv_close_in [OF close(2), of n None] close False by (simp add: StreamIn_dtor_def StreamIn_dtor_rest_def run_closeInputStream swap_updates)
  qed
qed

lemma StreamOut_close_twice:
  assumes "hal_inv E w" "w_outs w n = Some s"
  shows "\<exists>w'. run_state (StreamOut_close E n) w = (Some (if so_stop s then INVALID_STATE else OK), w') \<and>
     run_state (StreamOut_close E n) w' = (Some INVALID_STATE, w')"
proof -
  obtain r w' where c: "run_state (StreamOut_close E n) w = (Some r, w')" "w_outs w' n = Some (s\<lparr>so_stop := True\<rparr>)"
    "r = OK \<longleftrightarrow> \<not> so_stop s" "r = INVALID_STATE \<longleftrightarrow> so_stop s"
    using StreamOut_close_ok [OF assms] by blast
  have "run_state (StreamOut_close E n) w' = (Some INVALID_STATE, w')" using c(2) by (simp add: StreamOut_close_def)
  then show ?thesis using c by auto
qed

lemma StreamIn_close_twice:
  assumes "hal_inv E w" "w_ins w n = Some s"
  shows "\<exists>w'. run_state (StreamIn_close E n) w = (Some (if so_stop s then INVALID_STATE else OK), w') \<and>
     run_state (StreamIn_close E n) w' = (Some INVALID_STATE, w')"
proof -
  obtain r w' where c: "run_state (StreamIn_close E n) w = (Some r, w')" "w_ins w' n = Some (s\<lparr>so_stop := True\<rparr>)"
    "r = OK \<longleftrightarrow> \<not> so_stop s" "r = INVALID_STATE \<longleftrightarrow> so_stop s"
    using StreamIn_close_ok [OF assms] by blast
  have "run_state (StreamIn_close E n) w' = (Some INVALID_STATE, w')" using c(2) by (simp add: StreamIn_close_def)
  then show ?thesis using c by auto
qed

lemma live_closed [simp]: "live E (w\<lparr>w_isClosed := b\<rparr>) = live E w"
proof -
  have "obj (w\<lparr>w_isClosed := b\<rparr>) x = obj w x" for x by (cases x) auto
  then show ?thesis by (simp add: live_def)
qed

lemma hal_inv_no_streams:
  assumes "hal_inv E w"
  shows "w_openedStreamsCount w = 0 \<longleftrightarrow> live E w = {}"
proof -
  note b = assms [unfolded hal_inv_def, THEN conjunct2, THEN conjunct1]
  show ?thesis using balanced_finite [OF b] balancedD(2) [OF b] by simp
qed

lemma keeps_doClose: "keeps E (Device_doClose E)"
  unfolding keeps_def
proof (intro allI impI)
  fix w assume inv: "hal_inv E w"
  show "hal_inv E (snd (run_state (Device_doClose E) w))"
  proof (cases "w_isClosed w \<or> w_openedStreamsCount w \<noteq> 0")
    case True
    then show ?thesis using inv by (auto simp: Device_doClose_def)
  next
    case False
    have "balanced (w_next w) (w_openedStreamsCount w) (live E w) (w_trace w @ [close_device_call])"
      using inv by (intro balanced_calls) (simp_all add: hal_inv_def close_of_not_device)
    then show ?thesis using False inv by (simp add: Device_doClose_def hal_inv_def close_device_call_def)
  qed
qed

text \<open>The other methods that change a stream object.\<close>

lemma keeps_write_out:
  assumes "\<And>s. so_stop (f s) = so_stop s"
  shows "keeps E (write_out n f)"
  unfolding keeps_def
proof (intro allI impI)
  fix w assume inv: "hal_inv E w"
  show "hal_inv E (snd (run_state (write_out n f) w))"
  proof (cases "w_outs w n")
    case None
    then have "(w_outs w)(n := None) = w_outs w" by auto
    then show ?thesis using inv None by simp
  next
    case (Some s)
    then show ?thesis using hal_inv_object [OF inv Some, of "f s"] assms by simp
  qed
qed

lemma keeps_write_in:
  assumes "\<And>s. so_stop (f s) = so_stop s"
  shows "keeps E (write_in n f)"
  unfolding keeps_def
proof (intro allI impI)
  fix w assume inv: "hal_inv E w"
  show "hal_inv E (snd (run_state (write_in n f) w))"
  proof (cases "w_ins w n")
    case None
    then have "(w_ins w)(n := None) = w_ins w" by auto
    then show ?thesis using inv None by simp
  next
    case (Some s)
    then show ?thesis using hal_inv_object_in [OF inv Some, of "f s"] assms by simp
  qed
qed

lemma keeps_read: "keeps E (read_out n)" "keeps E (read_in n)"
  by (simp_all add: keeps_def)

lemma keeps_object_methods:
  "keeps E (StreamOut_prepareForWriting P n frameSize framesCount)" "keeps E (StreamIn_prepareForReading P n frameSize framesCount)"
  "keeps E (StreamOut_setCallback E n c)" "keeps E (StreamOut_clearCallback E n)" "keeps E (StreamOut_setEventCallback E n c)"
  "keeps E (StreamOut_setLatencyModeCallback E n c)"
  unfolding StreamOut_prepareForWriting_def StreamIn_prepareForReading_def StreamOut_setCallback_def StreamOut_clearCallback_def
    StreamOut_setEventCallback_def StreamOut_setLatencyModeCallback_def
  by (auto intro!: keeps_intros keeps_read keeps_write_out keeps_write_in split: sum.splits)

section \<open>Histories\<close>

text \<open>A step of a device: a stream is opened, closed or destroyed, the device is closed, a stream object is changed, or a
  method only calls the legacy HAL.\<close>

inductive device_step :: "('p, 'v) env \<Rightarrow> 'v world \<Rightarrow> 'v world \<Rightarrow> bool" for E where
  open_out: "device_step E w (snd (run_state (Device_openOutputStream E ioHandle device config flags source) w))"
| open_in: "device_step E w (snd (run_state (Device_openInputStream E ioHandle device config flags sink) w))"
| close_out: "w_outs w n \<noteq> None \<Longrightarrow> device_step E w (snd (run_state (StreamOut_close E n) w))"
| close_in: "w_ins w n \<noteq> None \<Longrightarrow> device_step E w (snd (run_state (StreamIn_close E n) w))"
| destroy_out: "w_outs w n \<noteq> None \<Longrightarrow> device_step E w (snd (run_state (StreamOut_dtor E n) w))"
| destroy_in: "w_ins w n \<noteq> None \<Longrightarrow> device_step E w (snd (run_state (StreamIn_dtor E n) w))"
| close_device: "device_step E w (snd (run_state (Device_doClose E) w))"
| prepare_out: "device_step E w (snd (run_state (StreamOut_prepareForWriting P n frameSize framesCount) w))"
| prepare_in: "device_step E w (snd (run_state (StreamIn_prepareForReading P n frameSize framesCount) w))"
| callback: "m \<in> {StreamOut_setCallback E n c, StreamOut_clearCallback E n, StreamOut_setEventCallback E n c,
    StreamOut_setLatencyModeCallback E n c} \<Longrightarrow> device_step E w (snd (run_state m w))"
| other: "quiet w w' \<Longrightarrow> device_step E w w'"

definition new_device :: "'v world \<Rightarrow> bool" where
  "new_device w \<longleftrightarrow> \<not> w_isClosed w \<and> w_openedStreamsCount w = 0 \<and> w_outs w = Map.empty \<and> w_ins w = Map.empty \<and>
     (\<forall>c\<in>set (w_trace w). harmless c)"

inductive device_reachable :: "('p, 'v) env \<Rightarrow> 'v world \<Rightarrow> bool" for E where
  start: "new_device w \<Longrightarrow> device_reachable E w"
| step: "device_reachable E w \<Longrightarrow> device_step E w w' \<Longrightarrow> device_reachable E w'"

lemma new_device_inv:
  assumes "new_device w"
  shows "hal_inv E w"
proof -
  have "obj w x = None" for x using assms by (cases x) (auto simp: new_device_def)
  then have "live E w = {}" by (simp add: live_def)
  moreover have "count_list (w_trace w) (close_of x) = 0" for x
    using assms harmless_not_close by (metis count_list_0_iff new_device_def)
  moreover have "count_list (w_trace w) close_device_call = 0"
    using assms by (metis count_list_0_iff harmless_def new_device_def)
  ultimately show ?thesis using assms by (simp add: hal_inv_def new_device_def balanced_def)
qed

lemma keeps_run: "keeps E m \<Longrightarrow> hal_inv E w \<Longrightarrow> hal_inv E (snd (run_state m w))"
  by (simp add: keeps_def)

lemma device_step_inv: "device_step E w w' \<Longrightarrow> hal_inv E w \<Longrightarrow> hal_inv E w'"
proof (induction rule: device_step.induct)
  case (close_out w n)
  then show ?case using StreamOut_close_ok by fastforce
next
  case (close_in w n)
  then show ?case using StreamIn_close_ok by fastforce
next
  case (destroy_out w n)
  then show ?case using StreamOut_dtor_ok by fastforce
next
  case (destroy_in w n)
  then show ?case using StreamIn_dtor_ok by fastforce
next
  case (callback m n c w)
  then show ?case using keeps_run keeps_object_methods(3-6) by blast
next
  case (other w w')
  then show ?case using hal_inv_quiet by blast
qed (blast intro: keeps_run keeps_open keeps_doClose keeps_object_methods)+

lemma device_inv: "device_reachable E w \<Longrightarrow> hal_inv E w"
  by (induction rule: device_reachable.induct) (auto intro: new_device_inv device_step_inv)

text \<open>C12: in every reachable state of a device the count of opened streams is the number of streams whose legacy stream is
  open, and no legacy stream has been closed more than once, or at all if it is still open.\<close>

theorem stream_count_exact:
  assumes "device_reachable E w"
  shows "w_openedStreamsCount w = int (card (live E w)) \<and>
     count_list (w_trace w) (close_of x) \<le> (if x \<in> live E w then 0 else 1)"
proof
  note b = device_inv [OF assms, unfolded hal_inv_def, THEN conjunct2, THEN conjunct1]
  show "w_openedStreamsCount w = int (card (live E w))" using balancedD(2) [OF b] .
  show "count_list (w_trace w) (close_of x) \<le> (if x \<in> live E w then 0 else 1)"
    using balancedD(3) [OF b, of x] by (auto split: if_splits)
qed

text \<open>C20: closing or destroying an existing stream, output or input, never aborts the process, in every reachable state; the first \<open>close\<close>
  of the object succeeds, and any further one reports \<open>INVALID_STATE\<close> and changes nothing.\<close>

theorem closing_never_aborts:
  assumes "device_reachable E w"
  shows "(\<forall>n s. w_outs w n = Some s \<longrightarrow>
      (\<exists>w'. run_state (StreamOut_close E n) w = (Some (if so_stop s then INVALID_STATE else OK), w') \<and>
        run_state (StreamOut_close E n) w' = (Some INVALID_STATE, w')) \<and>
      (\<exists>w'. run_state (StreamOut_dtor E n) w = (Some (), w') \<and> w_outs w' n = None)) \<and>
    (\<forall>n s. w_ins w n = Some s \<longrightarrow>
      (\<exists>w'. run_state (StreamIn_close E n) w = (Some (if so_stop s then INVALID_STATE else OK), w') \<and>
        run_state (StreamIn_close E n) w' = (Some INVALID_STATE, w')) \<and>
      (\<exists>w'. run_state (StreamIn_dtor E n) w = (Some (), w') \<and> w_ins w' n = None))"
  using StreamOut_close_twice [OF device_inv [OF assms]] StreamOut_dtor_ok [OF device_inv [OF assms]]
    StreamIn_close_twice [OF device_inv [OF assms]] StreamIn_dtor_ok [OF device_inv [OF assms]] by meson

text \<open>C24: the device refuses to close while a stream is open or after it has been closed, without touching the legacy
  device; otherwise it closes it, and in no history is the legacy device closed twice.\<close>

theorem device_closes_last:
  assumes "device_reachable E w"
  shows "(if w_isClosed w \<or> live E w \<noteq> {} then run_state (Device_doClose E) w = (INVALID_STATE, w)
      else snd (run_state (Device_doClose E) w) = w\<lparr>w_isClosed := True, w_trace := w_trace w @ [close_device_call]\<rparr>) \<and>
     count_list (w_trace w) close_device_call \<le> 1"
proof -
  note inv = device_inv [OF assms]
  have "run_state (Device_doClose E) w = (INVALID_STATE, w)" if "w_isClosed w \<or> live E w \<noteq> {}"
    using that hal_inv_no_streams [OF inv] by (auto simp: Device_doClose_def)
  moreover have "snd (run_state (Device_doClose E) w) = w\<lparr>w_isClosed := True, w_trace := w_trace w @ [close_device_call]\<rparr>"
    if "\<not> w_isClosed w" "live E w = {}"
    using that hal_inv_no_streams [OF inv] by (auto simp: Device_doClose_def close_device_call_def)
  moreover have "count_list (w_trace w) close_device_call \<le> 1" using inv by (auto simp: hal_inv_def)
  ultimately show ?thesis by auto
qed

text \<open>A device that has been closed still opens streams, on a legacy device that no longer exists.\<close>

lemma closed_device_opens:
  assumes "rp_status (e_conv E AudioConfigToHal [config]) = 0" "rp_status (e_conv E DeviceAddressToHal [device]) = 0"
    "rp_status (e_conv E AudioOutputFlagsToHal [flags]) = 0"
  shows "\<exists>args calls. w_trace (snd (run_state (Device_openOutputStreamCore E ioHandle device config flags) (w\<lparr>w_isClosed := True\<rparr>)))
     = w_trace w @ Call Dev ''open_output_stream'' args # calls"
  using assms by (auto simp: Device_openOutputStreamCore_def Let_def)

end
