(* ===== verification/Hal_Primary.thy ===== *)
theory Hal_Primary
  imports Hal_Device Hal_Threads
begin

text \<open>
  The primary audio HAL, sixth part: \<^verbatim>\<open>PrimaryDevice.cpp\<close> and \<^verbatim>\<open>DevicesFactory.cpp\<close>.
\<close>

section \<open>Methods of the wrapped device\<close>

definition PrimaryDevice_initCheck :: "('p, 'v) env \<Rightarrow> ('v, Result) hal_m" where
  "PrimaryDevice_initCheck E = Device_initCheck E"

definition PrimaryDevice_setMasterVolume :: "('p, 'v) env \<Rightarrow> cfloat \<Rightarrow> ('v, Result) hal_m" where
  "PrimaryDevice_setMasterVolume E volume = Device_setMasterVolume E volume"

definition PrimaryDevice_getMasterVolume :: "('p, 'v) env \<Rightarrow> ('v, Result \<times> cfloat) hal_m" where
  "PrimaryDevice_getMasterVolume E = Device_getMasterVolume E"

definition PrimaryDevice_setMicMute :: "('p, 'v) env \<Rightarrow> bool \<Rightarrow> ('v, Result) hal_m" where
  "PrimaryDevice_setMicMute E mute = Device_setMicMute E mute"

definition PrimaryDevice_getMicMute :: "('p, 'v) env \<Rightarrow> ('v, Result \<times> bool) hal_m" where
  "PrimaryDevice_getMicMute E = Device_getMicMute E"

definition PrimaryDevice_setMasterMute :: "('p, 'v) env \<Rightarrow> bool \<Rightarrow> ('v, Result) hal_m" where
  "PrimaryDevice_setMasterMute E mute = Device_setMasterMute E mute"

definition PrimaryDevice_getMasterMute :: "('p, 'v) env \<Rightarrow> ('v, Result \<times> bool) hal_m" where
  "PrimaryDevice_getMasterMute E = Device_getMasterMute E"

definition PrimaryDevice_getInputBufferSize :: "('p, 'v) env \<Rightarrow> 'v \<Rightarrow> ('v, Result \<times> u64) hal_m" where
  "PrimaryDevice_getInputBufferSize E config = Device_getInputBufferSize E config"

definition PrimaryDevice_openOutputStream :: "('p, 'v) env \<Rightarrow> int \<Rightarrow> 'v \<Rightarrow> 'v \<Rightarrow> 'v \<Rightarrow> 'v \<Rightarrow> ('v, Result \<times> nat option \<times> 'v) hal_m" where
  "PrimaryDevice_openOutputStream E ioHandle device config flags sourceMetadata = Device_openOutputStream E ioHandle device config flags sourceMetadata"

definition PrimaryDevice_openInputStream :: "('p, 'v) env \<Rightarrow> int \<Rightarrow> 'v \<Rightarrow> 'v \<Rightarrow> 'v \<Rightarrow> 'v + 'v SinkMetadata \<Rightarrow> ('v, Result \<times> nat option \<times> 'v) hal_m" where
  "PrimaryDevice_openInputStream E ioHandle device config flags source = Device_openInputStream E ioHandle device config flags source"

definition PrimaryDevice_supportsAudioPatches :: "('p, 'v) env \<Rightarrow> bool" where
  "PrimaryDevice_supportsAudioPatches E = Device_supportsAudioPatches E"

definition PrimaryDevice_createAudioPatch :: "('p, 'v) env \<Rightarrow> 'v list \<Rightarrow> 'v list \<Rightarrow> ('v, Result \<times> int) hal_m" where
  "PrimaryDevice_createAudioPatch E sources sinks = Device_createAudioPatch E sources sinks"

definition PrimaryDevice_releaseAudioPatch :: "('p, 'v) env \<Rightarrow> int \<Rightarrow> ('v, Result) hal_m" where
  "PrimaryDevice_releaseAudioPatch E patch = Device_releaseAudioPatch E patch"

definition PrimaryDevice_getAudioPort :: "('p, 'v) env \<Rightarrow> 'v \<Rightarrow> ('v, Result \<times> 'v) hal_m" where
  "PrimaryDevice_getAudioPort E port = Device_getAudioPort E port"

definition PrimaryDevice_setAudioPortConfig :: "('p, 'v) env \<Rightarrow> 'v \<Rightarrow> ('v, Result) hal_m" where
  "PrimaryDevice_setAudioPortConfig E config = Device_setAudioPortConfig E config"

definition PrimaryDevice_setScreenState :: "('p, 'v) env \<Rightarrow> bool \<Rightarrow> ('v, Result) hal_m" where
  "PrimaryDevice_setScreenState E turnedOn = Device_setScreenState E turnedOn"

definition PrimaryDevice_getHwAvSync :: "('p, 'v) env \<Rightarrow> ('v, Result \<times> int) hal_m" where
  "PrimaryDevice_getHwAvSync E = Device_getHwAvSync E"

definition PrimaryDevice_getParameters :: "('p, 'v) env \<Rightarrow> (string \<times> string) list \<Rightarrow> string list \<Rightarrow> ('v, Result \<times> (string \<times> string) list) hal_m" where
  "PrimaryDevice_getParameters E context keys = Device_getParameters E context keys"

definition PrimaryDevice_setParameters :: "('p, 'v) env \<Rightarrow> (string \<times> string) list \<Rightarrow> (string \<times> string) list \<Rightarrow> ('v, Result) hal_m" where
  "PrimaryDevice_setParameters E context parameters = Device_setParameters E context parameters"

definition PrimaryDevice_getMicrophones :: "('p, 'v) env \<Rightarrow> nat \<Rightarrow> ('v, (Result \<times> 'v list) ub) hal_m" where
  "PrimaryDevice_getMicrophones E AUDIO_MICROPHONE_MAX_COUNT = Device_getMicrophones E AUDIO_MICROPHONE_MAX_COUNT"

definition PrimaryDevice_setConnectedState :: "('p, 'v) env \<Rightarrow> 'v \<Rightarrow> bool \<Rightarrow> ('v, Result) hal_m" where
  "PrimaryDevice_setConnectedState E address isConnected = Device_setConnectedState E address isConnected"

definition PrimaryDevice_close :: "('p, 'v) env \<Rightarrow> ('v, Result) hal_m" where
  "PrimaryDevice_close E = Device_close E"

definition PrimaryDevice_addDeviceEffect :: "('p, 'v) env \<Rightarrow> int \<Rightarrow> u64 \<Rightarrow> ('v, Result) hal_m" where
  "PrimaryDevice_addDeviceEffect E device effectId = Device_addDeviceEffect E device effectId"

definition PrimaryDevice_removeDeviceEffect :: "('p, 'v) env \<Rightarrow> int \<Rightarrow> u64 \<Rightarrow> ('v, Result) hal_m" where
  "PrimaryDevice_removeDeviceEffect E device effectId = Device_removeDeviceEffect E device effectId"

definition PrimaryDevice_updateAudioPatch :: "('p, 'v) env \<Rightarrow> int \<Rightarrow> 'v list \<Rightarrow> 'v list \<Rightarrow> ('v, Result \<times> int) hal_m" where
  "PrimaryDevice_updateAudioPatch E previousPatch sources sinks = Device_updateAudioPatch E previousPatch sources sinks"

definition PrimaryDevice_debug :: "('p, 'v) env \<Rightarrow> string \<Rightarrow> string \<Rightarrow> int list option \<Rightarrow> string list \<Rightarrow> ('v, string) hal_m" where
  "PrimaryDevice_debug E memoryAddresses unreachableMemoryString fd options = Device_debug E memoryAddresses unreachableMemoryString fd options"

section \<open>Methods of the primary device\<close>

definition PrimaryDevice_setVoiceVolume :: "('p, 'v) env \<Rightarrow> cfloat \<Rightarrow> ('v, Result) hal_m" where
  "PrimaryDevice_setVoiceVolume E volume =
     (if \<not> isGainNormalized volume then return INVALID_ARGUMENTS else hal_result E Dev ''set_voice_volume'' [F volume])"

text \<open>The numbers of the modes are those of the legacy HAL, an argument.\<close>

datatype AudioMode = NORMAL | RINGTONE | IN_CALL | IN_COMMUNICATION | CALL_SCREEN | OtherMode int

definition mode_valid :: "nat \<Rightarrow> AudioMode \<Rightarrow> bool" where
  "mode_valid major mode =
     (case mode of NORMAL \<Rightarrow> True | RINGTONE \<Rightarrow> True | IN_CALL \<Rightarrow> True | IN_COMMUNICATION \<Rightarrow> True
      | CALL_SCREEN \<Rightarrow> major \<ge> 6 | OtherMode _ \<Rightarrow> False)"

definition PrimaryDevice_setMode :: "('p, 'v) env \<Rightarrow> (AudioMode \<Rightarrow> int) \<Rightarrow> AudioMode \<Rightarrow> ('v, Result) hal_m" where
  "PrimaryDevice_setMode E audio_mode mode =
     (if \<not> mode_valid (e_major E) mode then return INVALID_ARGUMENTS else hal_result E Dev ''set_mode'' [N (audio_mode mode)])"

definition PrimaryDevice_getBtScoNrecEnabled :: "('p, 'v) env \<Rightarrow> ('v, Result \<times> bool) hal_m" where
  "PrimaryDevice_getBtScoNrecEnabled E = getParam_bool E Dev (e_text E KeyBtNrec)"

definition PrimaryDevice_setBtScoNrecEnabled :: "('p, 'v) env \<Rightarrow> bool \<Rightarrow> ('v, Result) hal_m" where
  "PrimaryDevice_setBtScoNrecEnabled E enabled = setParam_bool E Dev (e_text E KeyBtNrec) enabled"

definition PrimaryDevice_getBtScoWidebandEnabled :: "('p, 'v) env \<Rightarrow> ('v, Result \<times> bool) hal_m" where
  "PrimaryDevice_getBtScoWidebandEnabled E = getParam_bool E Dev (e_text E KeyBtScoWb)"

definition PrimaryDevice_setBtScoWidebandEnabled :: "('p, 'v) env \<Rightarrow> bool \<Rightarrow> ('v, Result) hal_m" where
  "PrimaryDevice_setBtScoWidebandEnabled E enabled = setParam_bool E Dev (e_text E KeyBtScoWb) enabled"

text \<open>\<open>TtyMode(-1)\<close> and every other number that is not a mode are one value.\<close>

datatype TtyMode = TTY_OFF | TTY_VCO | TTY_HCO | TTY_FULL | TTY_INVALID

definition convertTtyModeFromHIDL :: "('p, 'v) env \<Rightarrow> TtyMode \<Rightarrow> string option" where
  "convertTtyModeFromHIDL E mode =
     (case mode of TTY_OFF \<Rightarrow> Some (e_text E ValueTtyOff) | TTY_VCO \<Rightarrow> Some (e_text E ValueTtyVco)
      | TTY_HCO \<Rightarrow> Some (e_text E ValueTtyHco) | TTY_FULL \<Rightarrow> Some (e_text E ValueTtyFull) | TTY_INVALID \<Rightarrow> None)"

definition convertTtyModeToHIDL :: "('p, 'v) env \<Rightarrow> string \<Rightarrow> TtyMode" where
  "convertTtyModeToHIDL E halMode =
     (if halMode = e_text E ValueTtyOff then TTY_OFF
      else if halMode = e_text E ValueTtyVco then TTY_VCO
      else if halMode = e_text E ValueTtyHco then TTY_HCO
      else if halMode = e_text E ValueTtyFull then TTY_FULL
      else TTY_INVALID)"

definition PrimaryDevice_getTtyMode :: "('p, 'v) env \<Rightarrow> ('v, Result \<times> TtyMode) hal_m" where
  "PrimaryDevice_getTtyMode E = do {
     (retval, halMode) \<leftarrow> getParam_string E Dev (e_text E KeyTtyMode) (ap_empty (e_ap E));
     return (if retval \<noteq> OK then (retval, TTY_OFF)
             else let mode = convertTtyModeToHIDL E halMode in
               if mode = TTY_INVALID then (INVALID_STATE, TTY_OFF) else (OK, mode))
   }"

definition PrimaryDevice_setTtyMode :: "('p, 'v) env \<Rightarrow> TtyMode \<Rightarrow> ('v, Result) hal_m" where
  "PrimaryDevice_setTtyMode E mode =
     (case convertTtyModeFromHIDL E mode of
        None \<Rightarrow> return INVALID_ARGUMENTS
      | Some modeStr \<Rightarrow> setParam_string E Dev (e_text E KeyTtyMode) modeStr)"

definition PrimaryDevice_getHacEnabled :: "('p, 'v) env \<Rightarrow> ('v, Result \<times> bool) hal_m" where
  "PrimaryDevice_getHacEnabled E = getParam_bool E Dev (e_text E KeyHac)"

definition PrimaryDevice_setHacEnabled :: "('p, 'v) env \<Rightarrow> bool \<Rightarrow> ('v, Result) hal_m" where
  "PrimaryDevice_setHacEnabled E enabled = setParam_bool E Dev (e_text E KeyHac) enabled"

section \<open>Version 4 and later\<close>

definition PrimaryDevice_setBtScoHeadsetDebugName :: "('p, 'v) env \<Rightarrow> string \<Rightarrow> ('v, Result) hal_m" where
  "PrimaryDevice_setBtScoHeadsetDebugName E name = setParam_string E Dev (e_text E KeyBtScoHeadsetName) name"

definition PrimaryDevice_getBtHfpEnabled :: "('p, 'v) env \<Rightarrow> ('v, Result \<times> bool) hal_m" where
  "PrimaryDevice_getBtHfpEnabled E = getParam_bool E Dev (e_text E KeyHfpEnable)"

definition PrimaryDevice_setBtHfpEnabled :: "('p, 'v) env \<Rightarrow> bool \<Rightarrow> ('v, Result) hal_m" where
  "PrimaryDevice_setBtHfpEnabled E enabled = setParam_bool E Dev (e_text E KeyHfpEnable) enabled"

definition PrimaryDevice_setBtHfpSampleRate :: "('p, 'v) env \<Rightarrow> u32 \<Rightarrow> ('v, Result) hal_m" where
  "PrimaryDevice_setBtHfpSampleRate E sampleRateHz = setParam_int E Dev (e_text E KeyHfpSetSamplingRate) (sint sampleRateHz)"

text \<open>\<open>std::round\<close>; the product is rounded to a float by a function of the machine.\<close>

definition c_round :: "real \<Rightarrow> int" where
  "c_round x = (if x \<ge> 0 then \<lfloor>x + 1 / 2\<rfloor> else - \<lfloor>- x + 1 / 2\<rfloor>)"

definition PrimaryDevice_setBtHfpVolume :: "('p, 'v) env \<Rightarrow> (real \<Rightarrow> real) \<Rightarrow> cfloat \<Rightarrow> ('v, Result) hal_m" where
  "PrimaryDevice_setBtHfpVolume E to_float volume =
     (case volume of
        Finite x \<Rightarrow>
          if \<not> isGainNormalized volume then return INVALID_ARGUMENTS
          else setParam_int E Dev (e_text E KeyHfpVolume) (c_round (to_float (x * 15)))
      | _ \<Rightarrow> return INVALID_ARGUMENTS)"

definition PrimaryDevice_updateRotation :: "('p, 'v) env \<Rightarrow> u8 \<Rightarrow> ('v, Result) hal_m" where
  "PrimaryDevice_updateRotation E rotation = setParam_int E Dev (e_text E KeyRotation) (uint rotation * 90)"

section \<open>DevicesFactory\<close>

abbreviation AUDIO_DEVICE_API_VERSION_MIN :: int where "AUDIO_DEVICE_API_VERSION_MIN \<equiv> 0x200"

text \<open>The status and the version of the device, if there is one.\<close>

definition loadAudioInterface :: "('p, 'v) env \<Rightarrow> string \<Rightarrow> ('v, int \<times> int option) hal_m" where
  "loadAudioInterface E if_name = do {
     rc \<leftarrow> hal E Dev ''hw_get_module_by_class'' [S (e_text E ModuleId), S if_name];
     if rp_status rc \<noteq> 0 then return (rp_status rc, None)
     else do {
       rc \<leftarrow> hal E Dev ''audio_hw_device_open'' [];
       if rp_status rc \<noteq> 0 then return (rp_status rc, None)
       else if rp_number rc < AUDIO_DEVICE_API_VERSION_MIN
       then do { r \<leftarrow> hal E Dev ''audio_hw_device_close'' []; return (- EINVAL, None) }
       else return (0, Some (rp_number rc))
     }
   }"

datatype device_shim = PlainDevice int | Primary int

definition openDevice_shim :: "('p, 'v) env \<Rightarrow> (int \<Rightarrow> device_shim) \<Rightarrow> string \<Rightarrow> ('v, Result \<times> device_shim option) hal_m" where
  "openDevice_shim E shim moduleName = do {
     (halStatus, halDevice) \<leftarrow> loadAudioInterface E moduleName;
     return (if halStatus = 0 then (OK, map_option shim halDevice)
             else if halStatus = - EINVAL then (NOT_INITIALIZED, None)
             else (INVALID_ARGUMENTS, None))
   }"

datatype factory_device = PRIMARY | A2DP | USB | R_SUBMIX | STUB | OtherDevice int

definition DevicesFactory_openDevice_V2 :: "('p, 'v) env \<Rightarrow> factory_device \<Rightarrow> ('v, Result \<times> device_shim option) hal_m" where
  "DevicesFactory_openDevice_V2 E device =
     (case device of
        PRIMARY \<Rightarrow> openDevice_shim E Primary (e_text E ModulePrimary)
      | A2DP \<Rightarrow> openDevice_shim E PlainDevice (e_text E ModuleA2dp)
      | USB \<Rightarrow> openDevice_shim E PlainDevice (e_text E ModuleUsb)
      | R_SUBMIX \<Rightarrow> openDevice_shim E PlainDevice (e_text E ModuleRemoteSubmix)
      | STUB \<Rightarrow> openDevice_shim E PlainDevice (e_text E ModuleStub)
      | OtherDevice _ \<Rightarrow> return (INVALID_ARGUMENTS, None))"

definition DevicesFactory_openDevice :: "('p, 'v) env \<Rightarrow> string \<Rightarrow> ('v, Result \<times> device_shim option) hal_m" where
  "DevicesFactory_openDevice E moduleName =
     (if moduleName = e_text E ModulePrimary then openDevice_shim E Primary moduleName
      else openDevice_shim E PlainDevice moduleName)"

definition DevicesFactory_openPrimaryDevice :: "('p, 'v) env \<Rightarrow> ('v, Result \<times> device_shim option) hal_m" where
  "DevicesFactory_openPrimaryDevice E = openDevice_shim E Primary (e_text E ModulePrimary)"

fun primary_getDevice :: "device_shim \<Rightarrow> device_shim" where
  "primary_getDevice (Primary d) = PlainDevice d"
| "primary_getDevice (PlainDevice d) = PlainDevice d"

definition DevicesFactory_openDevice_7_1 :: "('p, 'v) env \<Rightarrow> string \<Rightarrow> ('v, Result \<times> device_shim option) hal_m" where
  "DevicesFactory_openDevice_7_1 E moduleName =
     (if moduleName = e_text E ModulePrimary
      then do {
        (result, primary) \<leftarrow> openDevice_shim E Primary (e_text E ModulePrimary);
        return (case primary of
            Some p \<Rightarrow> if result = OK then (result, Some (primary_getDevice p)) else (result, None)
          | None \<Rightarrow> (result, None))
      }
      else openDevice_shim E PlainDevice moduleName)"

section \<open>The primary device\<close>

lemma run_getParam_string:
  "run_state (getParam_string E t name context) w =
     (let A = e_ap E; call = Call t ''get_parameters'' [S (ap_keysToString A (ap_addKey A name context))];
          (status, value) = ap_get A name (ap_parse A (case rp_text (e_reply E (w_trace w) call) of Some s \<Rightarrow> s | None \<Rightarrow> []))
      in ((getHalStatusToResult status, value), w\<lparr>w_trace := w_trace w @ [call]\<rparr>))"
  by (simp add: getParam_string_def getParams_def Let_def split: prod.splits)

text \<open>What a legacy HAL does that keeps a parameter: it accepts the value, and its answer to the next query holds it.\<close>

definition remembers :: "('p, 'v) env \<Rightarrow> 'v world \<Rightarrow> string \<Rightarrow> string \<Rightarrow> bool" where
  "remembers E w key value \<longleftrightarrow>
     (let A = e_ap E; set_call = Call Dev ''set_parameters'' [S (ap_toString A (ap_add A key value (ap_empty A)))];
          get_call = Call Dev ''get_parameters'' [S (ap_keysToString A (ap_addKey A key (ap_empty A)))]
      in rp_status (e_reply E (w_trace w) set_call) = 0 \<and>
         (\<exists>s. rp_text (e_reply E (w_trace w @ [set_call]) get_call) = Some s \<and> ap_get A key (ap_parse A s) = (0, value)))"

text \<open>With a legacy HAL that keeps its parameters, and four different names for the modes, a TTY mode that has been set is read back.\<close>

lemma ttyMode_roundtrip:
  assumes "distinct [e_text E ValueTtyOff, e_text E ValueTtyVco, e_text E ValueTtyHco, e_text E ValueTtyFull]"
    and "convertTtyModeFromHIDL E mode = Some value" and "remembers E w (e_text E KeyTtyMode) value"
  shows "\<exists>w1 w2. run_state (PrimaryDevice_setTtyMode E mode) w = (OK, w1) \<and> run_state (PrimaryDevice_getTtyMode E) w1 = ((OK, mode), w2)"
proof -
  have inv: "convertTtyModeToHIDL E value = mode \<and> mode \<noteq> TTY_INVALID"
    using assms(1,2) by (cases mode) (auto simp: convertTtyModeToHIDL_def convertTtyModeFromHIDL_def)
  show ?thesis
    using assms(2,3) inv
    by (auto simp: PrimaryDevice_setTtyMode_def PrimaryDevice_getTtyMode_def setParam_string_def setParams_def run_getParam_string
        remembers_def Let_def analyzeStatus_def getHalStatusToResult_def split: prod.splits)
qed

text \<open>Whatever the float arithmetic of the machine, as long as it is monotone and exact at 0 and 15, a volume between 0 and 1 is
  sent as one number from 0 to 15, and any other volume, not-a-number included, is refused without a call.\<close>

lemma hfpVolume_range:
  assumes "mono to_float" "to_float 0 = 0" "to_float 15 = 15"
  shows "if isGainNormalized volume
    then \<exists>v\<in>{0..15}. w_trace (snd (run_state (PrimaryDevice_setBtHfpVolume E to_float volume) w)) = w_trace w @
      [Call Dev ''set_parameters'' [S (ap_toString (e_ap E) (ap_addInt (e_ap E) (e_text E KeyHfpVolume) v (ap_empty (e_ap E))))]]
    else run_state (PrimaryDevice_setBtHfpVolume E to_float volume) w = (INVALID_ARGUMENTS, w)"
proof (cases "isGainNormalized volume")
  case True
  then obtain x where x: "volume = Finite x" "0 \<le> x" "x \<le> 1" by (cases volume) auto
  then have "to_float 0 \<le> to_float (x * 15)" "to_float (x * 15) \<le> to_float 15" using assms(1) by (auto intro: monoD)
  then have "c_round (to_float (x * 15)) \<in> {0..15}" using assms(2,3) by (auto simp: c_round_def le_floor_iff floor_le_iff)
  then show ?thesis using x by (auto simp: PrimaryDevice_setBtHfpVolume_def setParam_int_def setParams_def)
next
  case False
  then show ?thesis by (cases volume) (auto simp: PrimaryDevice_setBtHfpVolume_def)
qed

section \<open>Patches\<close>

text \<open>A patch handle changes only when the legacy HAL reports success, and a failed conversion keeps the HAL out of it.\<close>

lemma patch_unchanged_on_error:
  "run_state (createOrUpdateAudioPatch E patch sources sinks) w = ((r, patch'), w') \<Longrightarrow> r \<noteq> OK \<Longrightarrow> patch' = patch"
  by (auto simp: createOrUpdateAudioPatch_def Let_def split: if_splits)

lemma patch_conversion_error:
  "rp_status (e_conv E AudioPortConfigsToHal sources) \<noteq> 0 \<or> rp_status (e_conv E AudioPortConfigsToHal sinks) \<noteq> 0 \<Longrightarrow>
   snd (run_state (createOrUpdateAudioPatch E patch sources sinks) w) = w"
  by (auto simp: createOrUpdateAudioPatch_def Let_def)

section \<open>The factory\<close>

text \<open>A device is handed out exactly when its module is found, it opens, and its version is at least 2.0, and as a primary device exactly
  for the name of the primary module. Of the devices that open, those handed out stay open and the others have been closed. The
  failures reported as \<open>NOT_INITIALIZED\<close> are just those with status \<open>-EINVAL\<close>.\<close>

lemma factory_exact:
  fixes E :: "('p, 'v) env" and name :: string and w :: "'v world"
  defines "find_module \<equiv> Call Dev ''hw_get_module_by_class'' [S (e_text E ModuleId), S name]"
  defines "open_device \<equiv> Call Dev ''audio_hw_device_open'' []"
  defines "found \<equiv> rp_status (e_reply E (w_trace w) find_module)"
  defines "opened \<equiv> e_reply E (w_trace w @ [find_module]) open_device"
  shows "run_state (DevicesFactory_openDevice E name) w =
    (if found \<noteq> 0 then ((if found = - EINVAL then NOT_INITIALIZED else INVALID_ARGUMENTS, None), w\<lparr>w_trace := w_trace w @ [find_module]\<rparr>)
     else if rp_status opened \<noteq> 0
     then ((if rp_status opened = - EINVAL then NOT_INITIALIZED else INVALID_ARGUMENTS, None), w\<lparr>w_trace := w_trace w @ [find_module, open_device]\<rparr>)
     else if rp_number opened < 0x200
     then ((NOT_INITIALIZED, None), w\<lparr>w_trace := w_trace w @ [find_module, open_device, close_device_call]\<rparr>)
     else ((OK, Some ((if name = e_text E ModulePrimary then Primary else PlainDevice) (rp_number opened))),
       w\<lparr>w_trace := w_trace w @ [find_module, open_device]\<rparr>))"
  unfolding assms
  by (simp add: DevicesFactory_openDevice_def openDevice_shim_def loadAudioInterface_def close_device_call_def)

section \<open>Witnesses\<close>

definition opened :: "nat \<Rightarrow> nat world" where
  "opened major = snd (run_state (Device_openOutputStream (example_env major) 0 0 0 0 0) empty_world)"

lemma opened_fields:
  "w_outs (opened 7) 0 = Some new_obj" "w_isClosed (opened 7) = False" "w_openedStreamsCount (opened 7) = 1"
  by (simp_all add: opened_def empty_world_def Device_openOutputStream_def Device_openOutputStreamImpl_def Device_openOutputStreamCore_def
      StreamOut_updateSourceMetadata_def doUpdateSourceMetadata_def Let_def)

lemma empty_reachable: "device_reachable E empty_world"
  by (rule device_reachable.start) (simp add: new_device_def empty_world_def)

lemma opened_reachable: "device_reachable (example_env 7) (opened 7)"
  unfolding opened_def by (intro device_reachable.step [OF empty_reachable] device_step.open_out)

theorem stream_count_exact_witness: "1 = int (card (live (example_env 7) (opened 7)))"
  using stream_count_exact [OF opened_reachable] by (simp add: opened_fields)

definition listening_too :: "nat world" where
  "listening_too = snd (run_state (Device_openInputStream (example_env 7) 0 0 0 0 (Inl 0)) (opened 7))"

lemma listening_too_fields: "w_outs listening_too 0 = Some new_obj" "w_ins listening_too 1 = Some new_obj"
  by (simp_all add: listening_too_def opened_def empty_world_def Device_openOutputStream_def Device_openOutputStreamImpl_def
      Device_openOutputStreamCore_def Device_openInputStream_def Device_openInputStreamImpl_def Device_openInputStreamCore_def
      StreamOut_updateSourceMetadata_def doUpdateSourceMetadata_def StreamIn_updateSinkMetadata_def doUpdateSinkMetadata_def Let_def)

lemma listening_too_reachable: "device_reachable (example_env 7) listening_too"
  unfolding listening_too_def by (intro device_reachable.step [OF opened_reachable] device_step.open_in)

theorem closing_never_aborts_witness:
  "(\<exists>w'. run_state (StreamOut_close (example_env 7) 0) listening_too = (Some OK, w') \<and>
     run_state (StreamOut_close (example_env 7) 0) w' = (Some INVALID_STATE, w')) \<and>
   (\<exists>w'. run_state (StreamIn_close (example_env 7) 1) listening_too = (Some OK, w') \<and>
     run_state (StreamIn_close (example_env 7) 1) w' = (Some INVALID_STATE, w'))"
proof -
  note c = closing_never_aborts [OF listening_too_reachable]
  show ?thesis
    using c [THEN conjunct1, rule_format, OF listening_too_fields(1)] c [THEN conjunct2, rule_format, OF listening_too_fields(2)]
    by (simp add: new_obj_def)
qed

lemma opened_live: "live (example_env 7) (opened 7) \<noteq> {}"
  using in_live(1) [of 0 "example_env 7" "opened 7"] opened_fields(1) by (auto simp: new_obj_def)

lemma empty_live: "live E empty_world = {}"
proof -
  have "obj empty_world x = None" for x by (cases x) (auto simp: empty_world_def)
  then show ?thesis by (simp add: live_def)
qed

theorem device_closes_last_witness:
  "run_state (Device_doClose (example_env 7)) (opened 7) = (INVALID_STATE, opened 7) \<and>
   w_isClosed (snd (run_state (Device_doClose (example_env 7)) empty_world))"
proof
  show "run_state (Device_doClose (example_env 7)) (opened 7) = (INVALID_STATE, opened 7)"
    using device_closes_last [OF opened_reachable] by (simp add: opened_live)
  have isOpen: "\<not> w_isClosed empty_world" by (simp add: empty_world_def)
  have "snd (run_state (Device_doClose (example_env 7)) empty_world)
      = empty_world\<lparr>w_isClosed := True, w_trace := w_trace empty_world @ [close_device_call]\<rparr>"
    using device_closes_last [OF empty_reachable, of "example_env 7"] isOpen empty_live [of "example_env 7"] by simp
  then show "w_isClosed (snd (run_state (Device_doClose (example_env 7)) empty_world))" by simp
qed

definition ready :: prepare_env where
  "ready = \<lparr>pe_commandMQ_valid = True, pe_dataMQ_valid = (\<lambda>_. True), pe_statusMQ_valid = True, pe_eventFlag = (0, True),
     pe_buffer = True, pe_run = 0, pe_tid = 42\<rparr>"

theorem prepare_exact_witness:
  "fst (run_state (StreamOut_prepareForWriting ready 0 4 960) listening_too) = (OK, 3840, 42) \<and>
   fst (run_state (StreamIn_prepareForReading ready 1 4 960) listening_too) = (OK, 3840, 42) \<and>
   fst (fst (run_state (StreamOut_prepareForWriting ready 0 0x10000 0x8001) listening_too)) \<noteq> OK \<and>
   fst (fst (run_state (StreamIn_prepareForReading ready 1 0x10000 0x8001) listening_too)) \<noteq> OK"
  using prepare_exact [OF listening_too_fields, of ready 4 960] prepare_exact [OF listening_too_fields, of ready "0x10000" "0x8001"]
  by (auto simp: queues_granted_def allocated_def ready_def new_obj_def)

definition initial_status :: WriteStatus where
  "initial_status = \<lparr>ws_replyTo = WRITE, ws_retval = OK, ws_reply = Written 0\<rparr>"

definition started :: "nat out_thread" where
  "started = \<lparr>ot_world = opened 5, ot_pc = At_loop, ot_event = False, ot_commandMQ = [], ot_dataMQ = [], ot_statusMQ = [],
     ot_status = initial_status, ot_written = [], ot_sent = [], ot_data = [], ot_received = []\<rparr>"


lemma started_thread: "thread_start 0 started"
  by (simp add: thread_start_def started_def stopped_def opened_def empty_world_def Device_openOutputStream_def
      Device_openOutputStreamImpl_def Device_openOutputStreamCore_def StreamOut_updateSourceMetadata_def doUpdateSourceMetadata_def
      Let_def new_obj_def)



definition closing :: "nat out_thread" where
  "closing = started\<lparr>ot_world := snd (run_state (StreamOut_close (example_env 5) 0) (opened 5)), ot_event := True\<rparr>"

lemma opened_open: "w_outs (opened 5) 0 = Some new_obj"
  by (simp add: opened_def empty_world_def Device_openOutputStream_def Device_openOutputStreamImpl_def Device_openOutputStreamCore_def
      StreamOut_updateSourceMetadata_def doUpdateSourceMetadata_def Let_def)

lemma opened_count: "w_openedStreamsCount (opened 5) = 1"
  by (simp add: opened_def empty_world_def Device_openOutputStream_def Device_openOutputStreamImpl_def Device_openOutputStreamCore_def
      StreamOut_updateSourceMetadata_def doUpdateSourceMetadata_def Let_def)

lemma closing_reachable: "out_reachable (example_env 5) 0 1024 closing" "stopped 0 (ot_world closing)"
proof -
  have "run_state (StreamOut_close (example_env 5) 0) (opened 5) = (Some OK, ot_world closing)"
    using opened_open by (simp add: closing_def StreamOut_close_def new_obj_def)
  then show "out_reachable (example_env 5) 0 1024 closing"
    using out_step.close [of "example_env 5" 0 started OK "ot_world closing" 1024] opened_open
    by (intro out_reachable.step [OF out_reachable.start [OF started_thread]]) (simp add: closing_def started_def)
  show "stopped 0 (ot_world closing)"
    using opened_open by (simp add: closing_def StreamOut_close_def new_obj_def stopped_def)
qed

text \<open>The stream is closed, its thread ends, the destructor closes the legacy stream.\<close>

definition ended :: "nat out_thread" where
  "ended = closing\<lparr>ot_pc := Finished\<rparr>"

definition destroyed :: "nat out_thread" where
  "destroyed = ended\<lparr>ot_world := snd (run_state (StreamOut_dtor_rest (example_env 5) 0) (ot_world ended))\<rparr>"

lemma destroyed_reachable: "out_reachable (example_env 5) 0 1024 destroyed"
proof -
  have "threadLoop_step (example_env 5) 0 closing ended"
    using threadLoop_step.loop [of closing "example_env 5" 0] closing_reachable(2)
    by (simp add: ended_def closing_def started_def)
  then have r: "out_reachable (example_env 5) 0 1024 ended"
    using closing_reachable(1) by (blast intro: out_reachable.step out_step.thread)
  have "w_openedStreamsCount (ot_world ended) = 1" "w_outs (ot_world ended) 0 \<noteq> None"
    using opened_open by (simp_all add: ended_def closing_def StreamOut_close_def new_obj_def opened_count)
  then show ?thesis
    using closing_reachable(2) unfolding destroyed_def
    by (intro out_reachable.step [OF r] out_step.join) (simp_all add: ended_def StreamOut_dtor_rest_def run_closeOutputStream)
qed

lemma destroyed_trace: "close_call 0 \<in> set (w_trace (ot_world destroyed))"
  using opened_open by (simp add: destroyed_def StreamOut_dtor_rest_def run_closeOutputStream)

theorem no_use_after_close_witness:
  "close_call 0 \<in> set (w_trace (ot_world destroyed)) \<and> closed_last 0 (w_trace (ot_world destroyed))"
  using no_use_after_close [OF destroyed_reachable] destroyed_trace by simp

theorem write_thread_ends_witness:
  "ot_pc closing = At_loop \<and> (\<exists>s. awake_step (threadLoop_step (example_env 5) 0) ot_pc ot_event closing s)"
  using write_thread_ends [OF closing_reachable counted_run.run_none] by (simp add: closing_def started_def)

lemma getParameters_exact_witness:
  "snd (fst (run_state (getParametersImpl (example_env 7) Dev [] [''key'']) (empty_world\<lparr>w_trace := [Call Dev ''set_parameters'' [S ''a=b'']]\<rparr>)))
     = [(''a'', ''b'')]"
  using getParameters_exact(2) [of "example_env 7" Dev "[]" "[''key'']" "empty_world\<lparr>w_trace := [Call Dev ''set_parameters'' [S ''a=b'']]\<rparr>"]
  by (simp add: pair_store_def)

lemma ttyMode_roundtrip_witness:
  "\<exists>w1 w2. run_state (PrimaryDevice_setTtyMode (example_env 7) TTY_HCO) empty_world = (OK, w1) \<and>
     run_state (PrimaryDevice_getTtyMode (example_env 7)) w1 = ((OK, TTY_HCO), w2)"
proof -
  have "e_text (example_env 7) ValueTtyHco = ''tty_hco''" "e_text (example_env 7) KeyTtyMode = ''tty_mode''"
    by (simp_all add: example_env_def)
  moreover have "distinct [e_text (example_env 7) ValueTtyOff, e_text (example_env 7) ValueTtyVco, e_text (example_env 7) ValueTtyHco,
      e_text (example_env 7) ValueTtyFull]"
    by (simp add: example_env_def)
  moreover have "remembers (example_env 7) empty_world ''tty_mode'' ''tty_hco''"
    by (simp add: remembers_def pair_store_def empty_world_def Let_def)
  ultimately show ?thesis
    using ttyMode_roundtrip [of "example_env 7" TTY_HCO "''tty_hco''" empty_world] by (simp add: convertTtyModeFromHIDL_def)
qed

lemma hfpVolume_range_witness:
  "\<exists>v\<in>{0..15}. w_trace (snd (run_state (PrimaryDevice_setBtHfpVolume (example_env 7) (\<lambda>x. x) (Finite 1)) empty_world)) =
     [Call Dev ''set_parameters'' [S (ap_toString pair_store (ap_addInt pair_store (e_text (example_env 7) KeyHfpVolume) v []))]]"
  using hfpVolume_range [of "\<lambda>x. x" "Finite 1" "example_env 7" empty_world]
  by (simp add: mono_def empty_world_def pair_store_def)

end
