(* ===== verification/Decimal.thy ===== *)
theory Decimal
  imports BT_Prelude
begin

text \<open>
  Decimal numbers as the programs print them: \<^verbatim>\<open>std::to_string\<close> and the directives \<^verbatim>\<open>%d\<close> and \<^verbatim>\<open>%0wd\<close>.
\<close>

definition digit_char :: "nat \<Rightarrow> char" where
  "digit_char d = char_of (48 + d)"

fun nat_string :: "nat \<Rightarrow> string" where
  "nat_string n = (if n < 10 then [digit_char n] else nat_string (n div 10) @ [digit_char (n mod 10)])"

declare nat_string.simps [simp del]

definition int_string :: "int \<Rightarrow> string" where
  "int_string i = (if i < 0 then CHR ''-'' # nat_string (nat (- i)) else nat_string (nat i))"

definition zero_padded :: "nat \<Rightarrow> nat \<Rightarrow> string" where
  "zero_padded w n = replicate (w - length (nat_string n)) (CHR ''0'') @ nat_string n"

subsection \<open>Reading a number back\<close>

definition decimal_value :: "string \<Rightarrow> nat" where
  "decimal_value s = foldl (\<lambda>n c. 10 * n + (of_char c - 48)) 0 s"

lemma of_char_digit [simp]: "d < 10 \<Longrightarrow> of_char (digit_char d) = (48 + d :: nat)"
  by (simp add: digit_char_def)

lemma decimal_value_nat_string [simp]: "decimal_value (nat_string n) = n"
proof (induction n rule: nat_string.induct)
  case (1 n)
  show ?case
  proof (cases "n < 10")
    case True
    then show ?thesis by (subst nat_string.simps) (simp add: decimal_value_def)
  next
    case False
    then show ?thesis using 1 [OF False] by (subst nat_string.simps) (simp add: decimal_value_def)
  qed
qed

lemma nat_string_inject [simp]: "nat_string m = nat_string n \<longleftrightarrow> m = n"
  by (metis decimal_value_nat_string)

lemma decimal_value_zeros: "decimal_value (replicate k (CHR ''0'') @ s) = decimal_value s"
  by (induction k) (simp_all add: decimal_value_def)

lemma decimal_value_padded [simp]: "decimal_value (zero_padded w n) = n"
  by (simp add: zero_padded_def decimal_value_zeros)

lemma nat_string_digits: "set (nat_string n) \<subseteq> {c. 48 \<le> (of_char c :: nat) \<and> (of_char c :: nat) \<le> 57}"
proof (induction n rule: nat_string.induct)
  case (1 n)
  show ?case
  proof (cases "n < 10")
    case True
    then show ?thesis by (subst nat_string.simps) simp
  next
    case False
    then show ?thesis using 1 [OF False] by (subst nat_string.simps) simp
  qed
qed

lemma length_nat_string_le: "n < 10 ^ w \<Longrightarrow> 0 < w \<Longrightarrow> length (nat_string n) \<le> w"
proof (induction n arbitrary: w rule: nat_string.induct)
  case (1 n)
  show ?case
  proof (cases "n < 10")
    case True
    then show ?thesis using 1(3) by (subst nat_string.simps) simp
  next
    case False
    then obtain v where v: "w = Suc v" "0 < v" using 1(2,3) by (cases w; cases "w = 1") auto
    then have "n div 10 < 10 ^ v" using 1(2) by simp
    then have "length (nat_string (n div 10)) \<le> v" using 1(1) [OF False _ v(2)] by blast
    then show ?thesis using False v by (subst nat_string.simps) simp
  qed
qed

lemma length_zero_padded: "n < 10 ^ w \<Longrightarrow> 0 < w \<Longrightarrow> length (zero_padded w n) = w"
  using length_nat_string_le [of n w] by (simp add: zero_padded_def)

end
