(* ===== verification/Ota.thy ===== *)
theory Ota
  imports Decimal Monad_Laws
begin

text \<open>
  The update service \<^verbatim>\<open>ota/phh-ota.cpp\<close>: two images, \<open>system_otaphh_a\<close> and \<open>system_otaphh_b\<close>; the file
  \<^verbatim>\<open>/metadata/phh/img\<close> names the one to boot. \<open>new-slot\<close> prepares the other im, \<open>switch-slot\<close> tests it and
  selects it, \<open>delete-other-slot\<close> removes the im that is not in use.

  The im manager, the kernel and the property service are an environment: a reply for each call,
  depending on all calls and replies before it. Undefined behaviour is the result \<^const>\<open>None\<close>. The one file the
  program reads back is part of the state. Output for logs is left out.
\<close>

section \<open>The environment\<close>

datatype ota_call =
    OpenManager
  | MapImageDevice string nat
  | GetMappedImageDevice string
  | UnmapImageDevice string
  | DeleteBackingImage string
  | CreateBackingImage string nat bool
  | Mount string string
  | Umount string bool
  | Mkdir string nat
  | Chown string nat nat
  | Chmod string nat
  | WriteStringToFile string string
  | SetProperty string string
  | GetBoolProperty string bool
  | Stat string
  | Sleep nat
  | Unlink string
  | Mknod string nat nat
  | Setxattr string string string
  | PrintLine string

datatype write_outcome = Stored | Not_opened | Removed

record ota_reply =
  or_ok :: bool
  or_text :: string
  or_reports :: "(u64 \<times> u64) list"
  or_timed_out :: bool
  or_block :: bool
  or_device :: "nat \<times> nat"
  or_write :: write_outcome

type_synonym ota_trace = "(ota_call \<times> ota_reply) list"
type_synonym ota_env = "ota_trace \<Rightarrow> ota_call \<Rightarrow> ota_reply"

record ota_world =
  ow_trace :: ota_trace
  ow_img :: "string option"

type_synonym 'a ota_m = "(ota_world, 'a) state"

abbreviation ret :: "'a \<Rightarrow> 'a ota_m" where "ret \<equiv> State_Monad.return"

definition sys :: "ota_env \<Rightarrow> ota_call \<Rightarrow> ota_reply ota_m" where
  "sys E c = State (\<lambda>w. let r = E (ow_trace w) c in (r, w\<lparr>ow_trace := ow_trace w @ [(c, r)]\<rparr>))"

text \<open>Writing the file: when the write fails after the file has been opened, the library removes it.\<close>

definition write_img :: "ota_env \<Rightarrow> string \<Rightarrow> unit ota_m" where
  "write_img E slot = do {
     r \<leftarrow> sys E (WriteStringToFile slot ''/metadata/phh/img'');
     State (\<lambda>w. ((), w\<lparr>ow_img := (case or_write r of Stored \<Rightarrow> Some slot | Not_opened \<Rightarrow> ow_img w | Removed \<Rightarrow> None)\<rparr>))
   }"

section \<open>Slots, progress and errors\<close>

definition next_slot_of :: "string option \<Rightarrow> string" where
  "next_slot_of img = (case img of Some (c # _) \<Rightarrow> if c = CHR ''a'' then ''b'' else ''a'' | _ \<Rightarrow> ''a'')"

definition getNextSlot :: "string ota_m" where
  "getNextSlot = State (\<lambda>w. (next_slot_of (ow_img w), w))"

text \<open>The last percentage is the static variable.\<close>

definition writeProgress :: "ota_env \<Rightarrow> u64 \<Rightarrow> u64 \<Rightarrow> int \<Rightarrow> int option ota_m" where
  "writeProgress E current total_size last_percent =
     (if total_size = 0 then ret None
      else let percent = sint (ucast ((100 * current) div total_size) :: u32) in
      if percent \<noteq> last_percent
      then do { r \<leftarrow> sys E (SetProperty ''phh.ota.progress'' (int_string percent)); ret (Some percent) }
      else ret (Some last_percent))"

definition writeImageError :: "ota_env \<Rightarrow> string \<Rightarrow> unit ota_m" where
  "writeImageError E error = do { r \<leftarrow> sys E (SetProperty ''phh.ota.error'' error); ret () }"

text \<open>The callback of \<open>CreateBackingImage\<close>, for the reports the library makes; it stops at the first report
  the callback answers with \<open>false\<close>.\<close>

fun create_reports :: "ota_env \<Rightarrow> (u64 \<times> u64) list \<Rightarrow> int \<Rightarrow> int option ota_m" where
  "create_reports E [] percent = ret (Some percent)"
| "create_reports E ((c, t) # reports) percent = do {
     p \<leftarrow> writeProgress E c t percent;
     case p of
       None \<Rightarrow> ret None
     | Some percent \<Rightarrow> do {
         cancel \<leftarrow> sys E (GetBoolProperty ''phh.ota.cancel'' False);
         if or_ok cancel then ret (Some percent) else create_reports E reports percent
       }
   }"

section \<open>Checking an image\<close>

definition mountPoint :: string where "mountPoint = ''/mnt/phh_ota_check''"

text \<open>The device of the image, mapped now or before; \<^const>\<open>None\<close> when there is none.\<close>

definition mapped_device :: "ota_env \<Rightarrow> string \<Rightarrow> string option ota_m" where
  "mapped_device E im = do {
     m \<leftarrow> sys E (MapImageDevice im 10000);
     if or_ok m then ret (Some (or_text m))
     else do {
       g \<leftarrow> sys E (GetMappedImageDevice im);
       if or_ok g then ret (Some (or_text g))
       else do { u \<leftarrow> sys E (UnmapImageDevice im); ret None }
     }
   }"

definition test_mount :: "ota_env \<Rightarrow> string \<Rightarrow> string \<Rightarrow> bool ota_m" where
  "test_mount E im devPath = do {
     r \<leftarrow> sys E (Mkdir ''/mnt'' 493);
     r \<leftarrow> sys E (Mkdir mountPoint 493);
     mounted \<leftarrow> sys E (Mount devPath mountPoint);
     (if or_ok mounted then do {
        u \<leftarrow> sys E (Umount mountPoint False);
        if or_ok u then ret () else do { u \<leftarrow> sys E (Umount mountPoint True); ret () }
      } else ret ());
     u \<leftarrow> sys E (UnmapImageDevice im);
     ret (or_ok mounted)
   }"

definition checkOta :: "ota_env \<Rightarrow> string \<Rightarrow> bool ota_m" where
  "checkOta E im = do {
     images \<leftarrow> sys E OpenManager;
     if \<not> or_ok images then ret False
     else do {
       devPath \<leftarrow> mapped_device E im;
       case devPath of
         None \<Rightarrow> ret False
       | Some devPath \<Rightarrow> if devPath = [] then ret False else test_mount E im devPath
     }
   }"

section \<open>The commands\<close>

definition slot_image :: "string \<Rightarrow> string" where "slot_image slot = ''system_otaphh_'' @ slot"

text \<open>Every use of the manager that could not be opened is undefined; \<open>imgManager\<close> says whether it was. Modes are decimal: 448
  is 0700, 436 is 0664, 493 is 0755 and 505 is 0771. \<open>Mknod\<close> makes a block device.\<close>

definition unmap_images :: "ota_env \<Rightarrow> bool \<Rightarrow> int option ota_m" where
  "unmap_images E imgManager =
     (if \<not> imgManager then ret None
      else do {
        r \<leftarrow> sys E (UnmapImageDevice (slot_image ''a''));
        r \<leftarrow> sys E (UnmapImageDevice (slot_image ''b''));
        ret (Some 0)
      })"

definition switch_slot :: "ota_env \<Rightarrow> int option ota_m" where
  "switch_slot E = do {
     writeImageError E [];
     next_slot \<leftarrow> getNextSlot;
     checked \<leftarrow> checkOta E (slot_image next_slot);
     if \<not> checked then do { writeImageError E ''Failed to mount OTA image.''; ret (Some (- 1)) }
     else do {
       r \<leftarrow> sys E (Mkdir ''/metadata/phh'' 448);
       write_img E next_slot;
       ret (Some 0)
     }
   }"

text \<open>The loop leaves the structure uninitialised when no call succeeds, which is \<^const>\<open>None\<close>.\<close>

fun stat_loop :: "ota_env \<Rightarrow> string \<Rightarrow> nat \<Rightarrow> ota_reply option ota_m" where
  "stat_loop E path 0 = ret None"
| "stat_loop E path (Suc n) = do {
     r \<leftarrow> sys E (Stat path);
     if or_ok r then ret (Some r) else do { s \<leftarrow> sys E (Sleep 1); stat_loop E path n }
   }"

definition publish_device :: "ota_env \<Rightarrow> string \<Rightarrow> int option ota_m" where
  "publish_device E imageName = do {
     m \<leftarrow> sys E (MapImageDevice imageName 0);
     let blockDev = (if or_ok m then or_text m else []);
     r \<leftarrow> sys E (PrintLine blockDev);
     sb \<leftarrow> stat_loop E blockDev 10;
     case sb of
       None \<Rightarrow> ret None
     | Some sb \<Rightarrow>
         if \<not> or_block sb then ret (Some (- 1))
         else do {
           r \<leftarrow> sys E (Unlink ''/dev/phh-ota'');
           r \<leftarrow> sys E (Mknod ''/dev/phh-ota'' (fst (or_device sb)) (snd (or_device sb)));
           r \<leftarrow> sys E (Chmod ''/dev/phh-ota'' 436);
           r \<leftarrow> sys E (Chown ''/dev/phh-ota'' 0 1000);
           r \<leftarrow> sys E (Setxattr ''/dev/phh-ota'' ''security.selinux'' ''u:object_r:phhota_dev:s0'');
           ret (Some 0)
         }
   }"

definition new_slot :: "ota_env \<Rightarrow> bool \<Rightarrow> int option ota_m" where
  "new_slot E imgManager = do {
     writeImageError E [];
     next_slot \<leftarrow> getNextSlot;
     let imageName = slot_image next_slot;
     if \<not> imgManager then ret None
     else do {
       r \<leftarrow> sys E (UnmapImageDevice imageName);
       r \<leftarrow> sys E (DeleteBackingImage imageName);
       adaptivePacing \<leftarrow> sys E (GetBoolProperty ''phh.ota.adaptive_pacing'' True);
       backRes \<leftarrow> sys E (CreateBackingImage imageName (2300 * 1024 * 1024) (or_ok adaptivePacing));
       progress \<leftarrow> create_reports E (or_reports backRes) (- 1);
       case progress of
         None \<Rightarrow> ret None
       | Some _ \<Rightarrow>
           if \<not> or_ok backRes then do {
             writeImageError E (if or_timed_out backRes
               then ''Image creation paused too long under system pressure. Please retry.'' else or_text backRes);
             ret (Some (- 1))
           }
           else publish_device E imageName
     }
   }"

definition delete_image :: "ota_env \<Rightarrow> string \<Rightarrow> unit ota_m" where
  "delete_image E slot = do {
     r \<leftarrow> sys E (UnmapImageDevice (slot_image slot));
     r \<leftarrow> sys E (DeleteBackingImage (slot_image slot));
     ret ()
   }"

text \<open>\<open>current_slot\<close> is the variable \<^verbatim>\<open>PHH_OTA_SLOT\<close> of the environment, the slot the system was booted from.\<close>

definition delete_other_slot :: "ota_env \<Rightarrow> bool \<Rightarrow> string option \<Rightarrow> int option ota_m" where
  "delete_other_slot E imgManager current_slot =
     (case current_slot of
        None \<Rightarrow>
          if \<not> imgManager then ret None
          else do { delete_image E ''a''; delete_image E ''b''; ret (Some 0) }
      | Some s \<Rightarrow>
          if take 1 s = ''a'' then (if \<not> imgManager then ret None else do { delete_image E ''b''; ret (Some 0) })
          else if take 1 s = ''b'' then (if \<not> imgManager then ret None else do { delete_image E ''a''; ret (Some 0) })
          else ret (Some 0))"

text \<open>\<open>main\<close>: the argument is the second element of \<^verbatim>\<open>argv\<close>, if there is one.\<close>

definition ota_prologue :: "ota_env \<Rightarrow> bool ota_m" where
  "ota_prologue E = do {
     r \<leftarrow> sys E (Mkdir ''/metadata/gsi/phh'' 505);
     r \<leftarrow> sys E (Chown ''/metadata/gsi/phh'' 0 1000);
     r \<leftarrow> sys E (Mkdir ''/data/gsi/phh'' 505);
     r \<leftarrow> sys E (Chown ''/data/gsi/phh'' 0 1000);
     manager \<leftarrow> sys E OpenManager;
     ret (or_ok manager)
   }"

definition ota_command :: "ota_env \<Rightarrow> bool \<Rightarrow> string option \<Rightarrow> string option \<Rightarrow> int option ota_m" where
  "ota_command E imgManager current_slot argument =
     (if argument = Some ''unmap'' then unmap_images E imgManager
      else if argument = Some ''switch-slot'' then switch_slot E
      else if argument = Some ''new-slot'' then new_slot E imgManager
      else if argument = Some ''delete-other-slot'' then delete_other_slot E imgManager current_slot
      else ret (Some 1))"

definition ota_main :: "ota_env \<Rightarrow> string option \<Rightarrow> string option \<Rightarrow> int option ota_m" where
  "ota_main E current_slot argument = do {
     imgManager \<leftarrow> ota_prologue E;
     ota_command E imgManager current_slot argument
   }"

lemma ota_command_simps [simp]:
  "ota_command E m s (Some ''unmap'') = unmap_images E m"
  "ota_command E m s (Some ''switch-slot'') = switch_slot E"
  "ota_command E m s (Some ''new-slot'') = new_slot E m"
  "ota_command E m s (Some ''delete-other-slot'') = delete_other_slot E m s"
  by (simp_all add: ota_command_def)

section \<open>Calls and images\<close>

fun image_of :: "ota_call \<Rightarrow> string option" where
  "image_of (MapImageDevice im _) = Some im"
| "image_of (GetMappedImageDevice im) = Some im"
| "image_of (UnmapImageDevice im) = Some im"
| "image_of (DeleteBackingImage im) = Some im"
| "image_of (CreateBackingImage im _ _) = Some im"
| "image_of _ = None"

fun destroys :: "string \<Rightarrow> ota_call \<Rightarrow> bool" where
  "destroys im (DeleteBackingImage i) \<longleftrightarrow> i = im"
| "destroys im (CreateBackingImage i _ _) \<longleftrightarrow> i = im"
| "destroys im _ \<longleftrightarrow> False"

lemma destroys_image: "destroys im c \<Longrightarrow> image_of c = Some im"
  by (cases c) auto

text \<open>An image is checked when its device has been mounted since it was last created or deleted.\<close>

fun track :: "string \<Rightarrow> string option \<times> bool \<Rightarrow> ota_call \<times> ota_reply \<Rightarrow> string option \<times> bool" where
  "track im (path, ok) (c, r) =
     (if destroys im c then (None, False)
      else case c of
        MapImageDevice i _ \<Rightarrow> (if i = im \<and> or_ok r then (Some (or_text r), ok) else (path, ok))
      | GetMappedImageDevice i \<Rightarrow> (if i = im \<and> or_ok r then (Some (or_text r), ok) else (path, ok))
      | Mount d _ \<Rightarrow> (path, ok \<or> (or_ok r \<and> path = Some d))
      | _ \<Rightarrow> (path, ok))"

definition checked :: "string \<Rightarrow> ota_trace \<Rightarrow> bool" where
  "checked im calls = snd (foldl (track im) (None, False) calls)"

lemma track_keeps: "\<not> destroys im c \<Longrightarrow> snd (track im (path, True) (c, r))"
  by (cases c) auto

lemma checked_snoc: "checked im (calls @ [x]) \<longleftrightarrow> snd (track im (foldl (track im) (None, False) calls) x)"
  by (simp add: checked_def)

lemma checked_append:
  assumes "checked im calls" and "\<forall>(c, r)\<in>set after. \<not> destroys im c"
  shows "checked im (calls @ after)"
  using assms(2)
proof (induction after rule: rev_induct)
  case Nil
  then show ?case using assms(1) by simp
next
  case (snoc x after)
  obtain c r where x: "x = (c, r)" by (cases x)
  have "checked im (calls @ after)" using snoc by auto
  then obtain path where "foldl (track im) (None, False) (calls @ after) = (path, True)"
    unfolding checked_def by (metis prod.collapse)
  moreover have "\<not> destroys im c" using snoc.prems x by auto
  ultimately have "snd (track im (foldl (track im) (None, False) (calls @ after)) x)"
    by (simp only: x track_keeps simp_thms)
  then show ?case using checked_snoc [of im "calls @ after" x] by simp
qed

text \<open>The calls a program makes while it leaves the file alone.\<close>

definition logs :: "(ota_call \<Rightarrow> bool) \<Rightarrow> ota_world \<Rightarrow> ota_world \<Rightarrow> bool" where
  "logs P w w' \<longleftrightarrow> ow_img w' = ow_img w \<and> (\<exists>calls. ow_trace w' = ow_trace w @ calls \<and> (\<forall>(c, r)\<in>set calls. P c))"

lemma logs_trans:
  assumes "logs P w w'" "logs P w' w''"
  shows "logs P w w''"
proof -
  obtain a b where "ow_img w' = ow_img w" "ow_trace w' = ow_trace w @ a" "\<forall>(c, r)\<in>set a. P c"
    "ow_img w'' = ow_img w'" "ow_trace w'' = ow_trace w' @ b" "\<forall>(c, r)\<in>set b. P c"
    using assms unfolding logs_def by blast
  then show ?thesis unfolding logs_def by (intro conjI exI [of _ "a @ b"]) auto
qed

interpretation logs: step_relation "logs P" for P
  by unfold_locales (auto simp: logs_def intro: logs_trans)

lemma run_sys [simp]: "run_state (sys E c) w = (E (ow_trace w) c, w\<lparr>ow_trace := ow_trace w @ [(c, E (ow_trace w) c)]\<rparr>)"
  by (simp add: sys_def Let_def)

lemma run_getNextSlot [simp]: "run_state getNextSlot w = (next_slot_of (ow_img w), w)"
  by (simp add: getNextSlot_def)

named_theorems logs_intros \<open>programs that leave the file alone and make calls with a property\<close>

declare logs.rel_return [logs_intros] logs.rel_bind [logs_intros] logs.rel_if [logs_intros]
  logs.rel_option [logs_intros] logs.rel_let [logs_intros]

lemma logs_sys [logs_intros]: "P c \<Longrightarrow> state_io_rel (logs P) (sys E c)"
  by (auto simp: state_io_rel_def logs_def)

lemma logs_getNextSlot [logs_intros]: "state_io_rel (logs P) getNextSlot"
  by (auto simp: state_io_rel_def logs_def)

lemma logs_error [logs_intros]: "(\<And>e. P (SetProperty ''phh.ota.error'' e)) \<Longrightarrow> state_io_rel (logs P) (writeImageError E error)"
  unfolding writeImageError_def by (intro logs_intros)

lemma logs_progress [logs_intros]:
  "(\<And>p. P (SetProperty ''phh.ota.progress'' p)) \<Longrightarrow> state_io_rel (logs P) (writeProgress E c t percent)"
  unfolding writeProgress_def Let_def by (intro logs_intros)

lemma logs_reports [logs_intros]:
  assumes "\<And>p. P (SetProperty ''phh.ota.progress'' p)" "P (GetBoolProperty ''phh.ota.cancel'' False)"
  shows "state_io_rel (logs P) (create_reports E reports percent)"
proof (induction reports arbitrary: percent)
  case Nil
  show ?case by (simp add: logs.rel_return)
next
  case (Cons x reports)
  obtain c t where "x = (c, t)" by (cases x)
  then show ?case using assms Cons by (auto intro!: logs_intros)
qed

lemma logs_stat [logs_intros]:
  "(\<And>p. P (Stat p)) \<Longrightarrow> P (Sleep 1) \<Longrightarrow> state_io_rel (logs P) (stat_loop E path n)"
  by (induction n) (auto intro!: logs_intros)

lemma logs_mapped [logs_intros]:
  assumes "P (MapImageDevice im 10000)" "P (GetMappedImageDevice im)" "P (UnmapImageDevice im)"
  shows "state_io_rel (logs P) (mapped_device E im)"
  unfolding mapped_device_def by (intro logs_intros assms)

lemma logs_check [logs_intros]:
  assumes "\<And>c. image_of c = Some im \<and> \<not> destroys im c \<or> image_of c = None \<Longrightarrow> P c"
  shows "state_io_rel (logs P) (checkOta E im)"
  unfolding checkOta_def test_mount_def by (intro logs_intros) (auto intro!: assms)

lemma logs_publish [logs_intros]:
  assumes "\<And>c. image_of c = Some im \<and> \<not> destroys im c \<or> image_of c = None \<Longrightarrow> P c"
  shows "state_io_rel (logs P) (publish_device E im)"
  unfolding publish_device_def by (intro logs_intros) (auto intro!: assms)

lemma logs_delete [logs_intros]:
  "P (UnmapImageDevice (slot_image slot)) \<Longrightarrow> P (DeleteBackingImage (slot_image slot)) \<Longrightarrow> state_io_rel (logs P) (delete_image E slot)"
  unfolding delete_image_def by (intro logs_intros)

section \<open>The other slot is prepared\<close>

text \<open>From a state in which the file has a known content the slot is known.\<close>

definition logs_from :: "string option \<Rightarrow> (ota_call \<Rightarrow> bool) \<Rightarrow> ota_world \<Rightarrow> ota_world \<Rightarrow> bool" where
  "logs_from img P w w' \<longleftrightarrow> (ow_img w = img \<longrightarrow> logs P w w')"

interpretation from_img: step_relation "logs_from img P" for img P
  by unfold_locales (auto simp: logs_from_def logs.R_refl intro: logs_trans, simp add: logs_def)

lemma from_logs: "state_io_rel (logs P) m \<Longrightarrow> state_io_rel (logs_from img P) m"
  by (auto simp: state_io_rel_def logs_from_def)

lemma from_next: "state_io_rel (logs_from img P) (f (next_slot_of img)) \<Longrightarrow> state_io_rel (logs_from img P) (State_Monad.bind getNextSlot f)"
  by (auto simp: state_io_rel_def logs_from_def)

definition concerns :: "string \<Rightarrow> ota_call \<Rightarrow> bool" where
  "concerns im c \<longleftrightarrow> image_of c = None \<or> image_of c = Some im"

lemma new_slot_logs: "state_io_rel (logs_from img (concerns (slot_image (next_slot_of img)))) (new_slot E m)"
  unfolding new_slot_def
  by (rule from_img.rel_bind, rule from_logs, rule logs_error, simp add: concerns_def, rule from_next, rule from_logs)
     (intro logs_intros; auto simp: concerns_def)

lemma main_command:
  assumes "run_state (ota_main E current_slot argument) w = (r, w')"
  obtains w1 m where "logs (\<lambda>c. image_of c = None) w w1" "run_state (ota_command E m current_slot argument) w1 = (r, w')"
proof -
  obtain m w1 where run: "run_state (ota_prologue E) w = (m, w1)" by (cases "run_state (ota_prologue E) w")
  have "state_io_rel (logs (\<lambda>c. image_of c = None)) (ota_prologue E)"
    unfolding ota_prologue_def by (intro logs_intros) simp_all
  then have "logs (\<lambda>c. image_of c = None) w w1" using run by (rule logs.rel_run)
  then show ?thesis using that assms run by (simp add: ota_main_def)
qed

lemma logs_mono: "logs P w w' \<Longrightarrow> (\<And>c. P c \<Longrightarrow> Q c) \<Longrightarrow> logs Q w w'"
  unfolding logs_def by fast

lemma new_slot_run:
  assumes "run_state (ota_main E current_slot (Some ''new-slot'')) w = (r, w')"
  shows "logs (concerns (slot_image (next_slot_of (ow_img w)))) w w'"
proof -
  obtain w1 m where w1: "logs (\<lambda>c. image_of c = None) w w1" and run: "run_state (new_slot E m) w1 = (r, w')"
    using main_command [OF assms] by (metis ota_command_simps(3))
  have "ow_img w1 = ow_img w" using w1 by (simp add: logs_def)
  then have "logs (concerns (slot_image (next_slot_of (ow_img w)))) w1 w'"
    using from_img.rel_run [OF new_slot_logs run] by (simp add: logs_from_def)
  then show ?thesis using logs_mono [OF w1] logs_trans by (metis concerns_def)
qed

section \<open>Switching\<close>

lemma mapped_device_path:
  assumes "run_state (mapped_device E im) w = (Some d, w')"
  shows "fst (foldl (track im) (None, False) (ow_trace w')) = Some d"
  using assms by (cases "foldl (track im) (None, False) (ow_trace w)")
    (auto simp: mapped_device_def split: if_splits)

lemma test_mount_checked:
  assumes "run_state (test_mount E im d) w = (True, w')" and "fst (foldl (track im) (None, False) (ow_trace w)) = Some d"
  shows "checked im (ow_trace w')"
  using assms by (cases "foldl (track im) (None, False) (ow_trace w)")
    (auto simp: test_mount_def checked_def split: if_splits)

lemma checkOta_checked:
  assumes "run_state (checkOta E im) w = (True, w')"
  shows "checked im (ow_trace w')"
proof -
  define w0 where "w0 = w\<lparr>ow_trace := ow_trace w @ [(OpenManager, E (ow_trace w) OpenManager)]\<rparr>"
  obtain x w1 where run: "run_state (mapped_device E im) w0 = (x, w1)" by (cases "run_state (mapped_device E im) w0")
  then obtain d where "x = Some d" "run_state (test_mount E im d) w1 = (True, w')"
    using assms by (auto simp: checkOta_def w0_def split: if_splits option.splits)
  then show ?thesis using test_mount_checked mapped_device_path run by blast
qed

lemma run_write_img: "run_state (write_img E slot) w =
  (let r = E (ow_trace w) (WriteStringToFile slot ''/metadata/phh/img'')
   in ((), w\<lparr>ow_trace := ow_trace w @ [(WriteStringToFile slot ''/metadata/phh/img'', r)],
       ow_img := (case or_write r of Stored \<Rightarrow> Some slot | Not_opened \<Rightarrow> ow_img w | Removed \<Rightarrow> None)\<rparr>))"
  by (simp add: write_img_def Let_def split: write_outcome.split)

definition harmless_call :: "ota_call \<Rightarrow> bool" where
  "harmless_call c \<longleftrightarrow> (\<forall>im. \<not> destroys im c)"

lemma logs_check_harmless: "state_io_rel (logs harmless_call) (checkOta E im)"
proof (rule logs_check)
  fix c assume c: "image_of c = Some im \<and> \<not> destroys im c \<or> image_of c = None"
  show "harmless_call c" unfolding harmless_call_def
  proof (intro allI notI)
    fix i assume "destroys i c"
    then show False using c destroys_image [of i c] by auto
  qed
qed

text \<open>How a switch ends: with the file written, or with an error.\<close>

lemma switch_slot_run:
  assumes "run_state (switch_slot E) w = (r, w')"
  defines "slot \<equiv> next_slot_of (ow_img w)"
  shows "\<exists>w1 c reply. logs harmless_call w w1 \<and> harmless_call c \<and> ow_trace w' = ow_trace w1 @ [(c, reply)] \<and>
    (r = Some 0 \<and> checked (slot_image slot) (ow_trace w1) \<and> c = WriteStringToFile slot ''/metadata/phh/img'' \<and>
       ow_img w' = (case or_write reply of Stored \<Rightarrow> Some slot | Not_opened \<Rightarrow> ow_img w | Removed \<Rightarrow> None) \<or>
     r = Some (- 1) \<and> c = SetProperty ''phh.ota.error'' ''Failed to mount OTA image.'' \<and> ow_img w' = ow_img w)"
proof -
  define w0 where "w0 = snd (run_state (writeImageError E []) w)"
  have e: "run_state (writeImageError E s) v = ((), v\<lparr>ow_trace := ow_trace v @ [(SetProperty ''phh.ota.error'' s, E (ow_trace v) (SetProperty ''phh.ota.error'' s))]\<rparr>)" for s v
    by (simp add: writeImageError_def)
  have w0: "logs harmless_call w w0" by (simp add: w0_def e logs_def harmless_call_def)
  then have img: "ow_img w0 = ow_img w" by (simp add: logs_def)
  obtain ok w2 where check: "run_state (checkOta E (slot_image slot)) w0 = (ok, w2)" by (cases "run_state (checkOta E (slot_image slot)) w0")
  have w2: "logs harmless_call w w2"
    using logs_trans [OF w0] logs.rel_run [OF logs_check_harmless check] by blast
  have run: "run_state (switch_slot E) w = run_state (if \<not> ok then do { writeImageError E ''Failed to mount OTA image.''; ret (Some (- 1)) }
      else do { r \<leftarrow> sys E (Mkdir ''/metadata/phh'' 448); write_img E slot; ret (Some 0) }) w2"
    using check img unfolding w0_def slot_def by (simp add: switch_slot_def e)
  show ?thesis
  proof (cases ok)
    case True
    define w3 where "w3 = w2\<lparr>ow_trace := ow_trace w2 @ [(Mkdir ''/metadata/phh'' 448, E (ow_trace w2) (Mkdir ''/metadata/phh'' 448))]\<rparr>"
    have w3: "logs harmless_call w w3"
      using logs_trans [OF w2, of w3] by (simp add: w3_def logs_def harmless_call_def)
    have "checked (slot_image slot) (ow_trace w2)" using checkOta_checked [of E _ w0 w2] check True by simp
    then have "checked (slot_image slot) (ow_trace w3)" by (simp add: w3_def checked_append)
    moreover have "ow_img w3 = ow_img w" using w3 by (simp add: logs_def)
    ultimately show ?thesis
      using assms(1) run True w3 by (intro exI [of _ w3] exI [of _ "WriteStringToFile slot ''/metadata/phh/img''"]
          exI [of _ "E (ow_trace w3) (WriteStringToFile slot ''/metadata/phh/img'')"])
        (auto simp: run_write_img Let_def w3_def harmless_call_def split: write_outcome.split)
  next
    case False
    moreover have "ow_img w2 = ow_img w" using w2 by (simp add: logs_def)
    ultimately show ?thesis
      using assms(1) run w2 by (intro exI [of _ w2]) (auto simp: e harmless_call_def)
  qed
qed

section \<open>The selected image\<close>

lemma unmap_logs: "state_io_rel (logs harmless_call) (unmap_images E m)"
  unfolding unmap_images_def by (intro logs_intros) (simp_all add: harmless_call_def)

lemma delete_other_logs:
  assumes "img = None \<or> img = Some ''a'' \<or> img = Some ''b''"
  shows "state_io_rel (logs (\<lambda>c. \<forall>s. img = Some s \<longrightarrow> \<not> destroys (slot_image s) c)) (delete_other_slot E m img)"
  using assms unfolding delete_other_slot_def
  by (elim disjE; simp; safe; intro logs_intros; simp add: slot_image_def)

lemma next_slot_cases: "next_slot_of img = ''a'' \<or> next_slot_of img = ''b''"
  by (auto simp: next_slot_of_def split: option.splits list.splits)

lemma next_slot_other: "img = Some ''a'' \<or> img = Some ''b'' \<Longrightarrow> Some (next_slot_of img) \<noteq> img"
  by (auto simp: next_slot_of_def)

text \<open>
  The states the program can bring about. Each run has an environment of its own; the last rule is the removal of the file by
  \<^verbatim>\<open>vndk.rc\<close>. Where the first argument holds, \<open>delete-other-slot\<close> is only run when the system has booted from the selected slot,
  which the program does not check.
\<close>

inductive ota_reachable :: "bool \<Rightarrow> ota_world \<Rightarrow> bool" for careful where
  start: "ow_img w = None \<Longrightarrow> ota_reachable careful w"
| run: "ota_reachable careful w \<Longrightarrow> careful \<and> argument = Some ''delete-other-slot'' \<longrightarrow> current_slot = ow_img w \<Longrightarrow>
    run_state (ota_main E current_slot argument) w = (r, w') \<Longrightarrow> ota_reachable careful w'"
| uninstall: "ota_reachable careful w \<Longrightarrow> ota_reachable careful (w\<lparr>ow_img := None\<rparr>)"

text \<open>An image is vetted when it was checked at some point and has not been created again since; it may have been deleted.\<close>

definition vetted :: "string \<Rightarrow> ota_trace \<Rightarrow> bool" where
  "vetted im calls \<longleftrightarrow> (\<exists>before after. calls = before @ after \<and> checked im before \<and>
     (\<forall>(c, r)\<in>set after. destroys im c \<longrightarrow> c = DeleteBackingImage im))"

lemma vetted_append:
  assumes "vetted im calls" "\<forall>(c, r)\<in>set after. destroys im c \<longrightarrow> c = DeleteBackingImage im"
  shows "vetted im (calls @ after)"
proof -
  obtain a b where "calls = a @ b" "checked im a" "\<forall>(c, r)\<in>set b. destroys im c \<longrightarrow> c = DeleteBackingImage im"
    using assms(1) unfolding vetted_def by blast
  then show ?thesis using assms(2) unfolding vetted_def by (intro exI [of _ a] exI [of _ "b @ after"]) auto
qed

text \<open>What is known of the image of the selected slot.\<close>

definition selected_ok :: "(string \<Rightarrow> ota_trace \<Rightarrow> bool) \<Rightarrow> ota_world \<Rightarrow> bool" where
  "selected_ok Q w \<longleftrightarrow> (\<forall>s. ow_img w = Some s \<longrightarrow> (s = ''a'' \<or> s = ''b'') \<and> Q (slot_image s) (ow_trace w))"

text \<open>A claim about images that a successful check establishes and that only the calls that destroy the image can end.\<close>

locale image_claim =
  fixes Q :: "string \<Rightarrow> ota_trace \<Rightarrow> bool"
  assumes Q_checked: "checked im calls \<Longrightarrow> Q im calls"
    and Q_append: "Q im calls \<Longrightarrow> \<forall>(c, r)\<in>set after. \<not> destroys im c \<Longrightarrow> Q im (calls @ after)"
begin

lemma selected_ok_logs:
  assumes "selected_ok Q w" and "logs P w w'" and "\<And>s c. ow_img w = Some s \<Longrightarrow> P c \<Longrightarrow> \<not> destroys (slot_image s) c"
  shows "selected_ok Q w'"
proof -
  obtain calls where "ow_img w' = ow_img w" "ow_trace w' = ow_trace w @ calls" "\<forall>(c, r)\<in>set calls. P c"
    using assms(2) unfolding logs_def by blast
  then show ?thesis using assms(1,3) unfolding selected_ok_def by (auto intro!: Q_append)
qed

lemma harmless_keeps_selected: "selected_ok Q w \<Longrightarrow> logs harmless_call w w' \<Longrightarrow> selected_ok Q w'"
  by (erule selected_ok_logs, assumption) (simp add: harmless_call_def)

lemma switch_slot_selected:
  assumes "selected_ok Q w" and "run_state (switch_slot E) w = (r, w')"
  shows "selected_ok Q w'"
proof -
  let ?slot = "next_slot_of (ow_img w)"
  obtain w1 c reply where w1: "logs harmless_call w w1" "harmless_call c" "ow_trace w' = ow_trace w1 @ [(c, reply)]"
    and ended: "checked (slot_image ?slot) (ow_trace w1) \<and>
        ow_img w' = (case or_write reply of Stored \<Rightarrow> Some ?slot | Not_opened \<Rightarrow> ow_img w | Removed \<Rightarrow> None) \<or>
      ow_img w' = ow_img w"
    using switch_slot_run [of E w r w'] assms(2) by auto
  have "selected_ok Q w1" using harmless_keeps_selected [OF assms(1) w1(1)] .
  moreover have "ow_img w1 = ow_img w" using w1(1) by (simp add: logs_def)
  moreover have "Q im (ow_trace w1) \<Longrightarrow> Q im (ow_trace w')" for im
    using Q_append [of im "ow_trace w1" "[(c, reply)]"] w1(2,3) by (simp add: harmless_call_def)
  ultimately show ?thesis
    using ended Q_checked next_slot_cases [of "ow_img w"] unfolding selected_ok_def
    by (auto split: write_outcome.splits)
qed

lemma new_slot_selected:
  assumes "selected_ok Q w" and "run_state (new_slot E m) w = (r, w')"
  shows "selected_ok Q w'"
proof -
  have slots: "ow_img w = None \<or> ow_img w = Some ''a'' \<or> ow_img w = Some ''b''"
    using assms(1) by (cases "ow_img w") (auto simp: selected_ok_def)
  have "logs (concerns (slot_image (next_slot_of (ow_img w)))) w w'"
    using from_img.rel_run [OF new_slot_logs] assms(2) by (simp add: logs_from_def)
  then show ?thesis
  proof (rule selected_ok_logs [OF assms(1)])
    fix s c assume "ow_img w = Some s" "concerns (slot_image (next_slot_of (ow_img w))) c"
    moreover have "s \<noteq> next_slot_of (ow_img w)" using slots calculation(1) next_slot_other [of "ow_img w"] by auto
    ultimately show "\<not> destroys (slot_image s) c"
      using destroys_image [of "slot_image s" c] by (auto simp: concerns_def slot_image_def)
  qed
qed

text \<open>Every command but \<open>delete-other-slot\<close> keeps the claim.\<close>

lemma ota_main_selected:
  assumes ok: "selected_ok Q w" and run: "run_state (ota_main E current_slot argument) w = (r, w')"
    and delete: "\<And>w1 m. argument = Some ''delete-other-slot'' \<Longrightarrow> selected_ok Q w1 \<Longrightarrow> ow_img w1 = ow_img w \<Longrightarrow>
      run_state (delete_other_slot E m current_slot) w1 = (r, w') \<Longrightarrow> selected_ok Q w'"
  shows "selected_ok Q w'"
proof -
  obtain w1 m where w1: "logs (\<lambda>c. image_of c = None) w w1" "run_state (ota_command E m current_slot argument) w1 = (r, w')"
    using main_command [OF run] by blast
  have ok1: "selected_ok Q w1" using selected_ok_logs [OF ok w1(1)] destroys_image by fastforce
  have img: "ow_img w1 = ow_img w" using w1(1) by (simp add: logs_def)
  consider "argument = Some ''unmap''" | "argument = Some ''switch-slot''" | "argument = Some ''new-slot''"
    | "argument = Some ''delete-other-slot''" | "ota_command E m current_slot argument = ret (Some 1)"
    by (cases "argument \<in> {Some ''unmap'', Some ''switch-slot'', Some ''new-slot'', Some ''delete-other-slot''}")
      (auto simp: ota_command_def)
  then show ?thesis
  proof cases
    case 1
    then show ?thesis using w1(2) harmless_keeps_selected [OF ok1 logs.rel_run [OF unmap_logs]] by simp
  next
    case 2
    then show ?thesis using w1(2) switch_slot_selected [OF ok1] by simp
  next
    case 3
    then show ?thesis using w1(2) new_slot_selected [OF ok1] by simp
  next
    case 4
    then show ?thesis using w1(2) delete [OF 4 ok1 img] by simp
  next
    case 5
    then show ?thesis using ok1 w1(2) by simp
  qed
qed

end

interpretation checked_image: image_claim checked
  by unfold_locales (simp, rule checked_append)

lemma checked_vetted: "checked im calls \<Longrightarrow> vetted im calls"
  unfolding vetted_def by (intro exI [of _ calls] exI [of _ "[]"]) simp

interpretation vetted_image: image_claim vetted
  by unfold_locales (auto intro: checked_vetted vetted_append)

lemma delete_other_deletes:
  "state_io_rel (logs (\<lambda>c. \<forall>im. destroys im c \<longrightarrow> c = DeleteBackingImage im)) (delete_other_slot E m img)"
  unfolding delete_other_slot_def by (intro logs_intros) auto

lemma delete_other_vetted:
  assumes "selected_ok vetted w" "run_state (delete_other_slot E m img) w = (r, w')"
  shows "selected_ok vetted w'"
proof -
  obtain calls where "ow_img w' = ow_img w" "ow_trace w' = ow_trace w @ calls"
    "\<forall>(c, r)\<in>set calls. \<forall>im. destroys im c \<longrightarrow> c = DeleteBackingImage im"
    using logs.rel_run [OF delete_other_deletes assms(2)] unfolding logs_def by blast
  then show ?thesis using assms(1) unfolding selected_ok_def by (auto intro!: vetted_append)
qed

lemma delete_other_checked:
  assumes ok: "selected_ok checked w" and run: "run_state (delete_other_slot E m (ow_img w)) w = (r, w')"
  shows "selected_ok checked w'"
proof -
  have "ow_img w = None \<or> ow_img w = Some ''a'' \<or> ow_img w = Some ''b''"
    using ok by (cases "ow_img w") (auto simp: selected_ok_def)
  from delete_other_logs [OF this] run
  have "logs (\<lambda>c. \<forall>s. ow_img w = Some s \<longrightarrow> \<not> destroys (slot_image s) c) w w'" by (rule logs.rel_run)
  then show ?thesis by (rule checked_image.selected_ok_logs [OF ok]) simp
qed

lemma reachable_vetted: "ota_reachable careful w \<Longrightarrow> selected_ok vetted w"
proof (induction rule: ota_reachable.induct)
  case (run w argument current_slot E r w')
  then show ?case using vetted_image.ota_main_selected delete_other_vetted by blast
qed (simp_all add: selected_ok_def)

lemma reachable_selected: "ota_reachable True w \<Longrightarrow> selected_ok checked w"
proof (induction rule: ota_reachable.induct)
  case (run w argument current_slot E r w')
  show ?case
    by (rule checked_image.ota_main_selected [OF run.IH run.hyps(3)])
      (use run.hyps(2) delete_other_checked in force)
qed (simp_all add: selected_ok_def)

section \<open>Progress\<close>

text \<open>The percentages that are published.\<close>

fun progress_values :: "ota_trace \<Rightarrow> string list" where
  "progress_values [] = []"
| "progress_values ((SetProperty key v, r) # calls) =
     (if key = ''phh.ota.progress'' then v # progress_values calls else progress_values calls)"
| "progress_values (x # calls) = progress_values calls"

lemma progress_values_append: "progress_values (a @ b) = progress_values a @ progress_values b"
  by (induction a rule: progress_values.induct) auto

definition percent :: "u64 \<Rightarrow> u64 \<Rightarrow> int" where
  "percent c t = int (100 * unat c div unat t)"

lemma writeProgress_percent:
  assumes "0 < t" "c \<le> t" "100 * unat t < 2 ^ 64"
  shows "sint (ucast ((100 * c) div t) :: u32) = percent c t" "0 \<le> percent c t" "percent c t \<le> 100"
proof -
  have le: "unat c \<le> unat t" "0 < unat t" using assms(1,2) by (simp_all add: word_le_nat_alt unat_gt_0 word_gt_0)
  then have "unat (100 * c) = 100 * unat c" using assms(3) by (subst unat_mult_lem [THEN iffD1]) auto
  then have q: "unat ((100 * c) div t) = 100 * unat c div unat t" by (simp add: unat_div)
  have b: "100 * unat c div unat t \<le> 100" using le div_le_mono [of "100 * unat c" "100 * unat t" "unat t"] by simp
  have "uint ((100 * c) div t) = int (100 * unat c div unat t)" using q by (simp only: uint_nat)
  then have "uint (ucast ((100 * c) div t) :: u32) = percent c t"
    using b unfolding percent_def by (simp add: unsigned_ucast_eq take_bit_int_eq_self)
  then show "sint (ucast ((100 * c) div t) :: u32) = percent c t"
    using b unfolding percent_def by (simp add: sint_uint signed_take_bit_int_eq_self)
  show "0 \<le> percent c t" "percent c t \<le> 100" using b by (simp_all add: percent_def)
qed

lemma percent_mono: "c \<le> d \<Longrightarrow> percent c t \<le> percent d t"
  by (simp add: percent_def word_le_nat_alt div_le_mono)

lemma create_reports_values:
  assumes "0 < t" "100 * unat t < 2 ^ 64"
    and "sorted (map fst reports)" "\<forall>(c, t')\<in>set reports. t' = t \<and> c \<le> t \<and> p \<le> percent c t"
  shows "\<exists>p' w' ps. run_state (create_reports E reports p) w = (Some p', w') \<and> ow_img w' = ow_img w \<and>
     (\<exists>calls. ow_trace w' = ow_trace w @ calls \<and> progress_values calls = map int_string ps) \<and>
     sorted_wrt (<) (p # ps) \<and> set ps \<subseteq> {0..100}"
  using assms(3,4)
proof (induction reports arbitrary: p w)
  case Nil
  show ?case by (intro exI [of _ p] exI [of _ w] exI [of _ "[]"]) simp
next
  case (Cons x reports)
  obtain c where x: "x = (c, t)" "c \<le> t" "p \<le> percent c t" using Cons.prems(2) by (cases x) auto
  note pc = writeProgress_percent [OF assms(1) x(2) assms(2)]
  have later: "\<forall>(d, t')\<in>set reports. t' = t \<and> d \<le> t \<and> percent c t \<le> percent d t"
    using Cons.prems x(1) percent_mono by fastforce
  have tz: "t \<noteq> 0" using assms(1) by auto
  let ?set = "\<lambda>w. w\<lparr>ow_trace := ow_trace w @ [(SetProperty ''phh.ota.progress'' (int_string (percent c t)),
      E (ow_trace w) (SetProperty ''phh.ota.progress'' (int_string (percent c t))))]\<rparr>"
  define w1 where "w1 = (if percent c t \<noteq> p then ?set w else w)"
  have wp: "run_state (writeProgress E c t p) w = (Some (percent c t), w1)"
    using tz pc(1) by (auto simp: writeProgress_def w1_def Let_def)
  define qs where "qs = (if percent c t \<noteq> p then [percent c t] else [])"
  have w1: "ow_img w1 = ow_img w" "\<exists>calls. ow_trace w1 = ow_trace w @ calls \<and> progress_values calls = map int_string qs"
    by (auto simp: w1_def qs_def)
  let ?c = "GetBoolProperty ''phh.ota.cancel'' False"
  define w2 where "w2 = w1\<lparr>ow_trace := ow_trace w1 @ [(?c, E (ow_trace w1) ?c)]\<rparr>"
  have w2: "ow_img w2 = ow_img w" "\<exists>calls. ow_trace w2 = ow_trace w @ calls \<and> progress_values calls = map int_string qs"
    using w1 by (auto simp: w2_def progress_values_append)
  have run: "run_state (create_reports E (x # reports) p) w =
     (if or_ok (E (ow_trace w1) ?c) then (Some (percent c t), w2) else run_state (create_reports E reports (percent c t)) w2)"
    by (simp add: x(1) wp w2_def)
  show ?case
  proof (cases "or_ok (E (ow_trace w1) ?c)")
    case True
    then show ?thesis using run w2 pc x(3) by (intro exI [of _ "percent c t"] exI [of _ w2] exI [of _ qs]) (auto simp: qs_def)
  next
    case False
    have s: "sorted (map fst reports)" using Cons.prems(1) by simp
    obtain p' w' ps where rest: "run_state (create_reports E reports (percent c t)) w2 = (Some p', w')" "ow_img w' = ow_img w2"
      "\<exists>calls. ow_trace w' = ow_trace w2 @ calls \<and> progress_values calls = map int_string ps"
      "sorted_wrt (<) (percent c t # ps)" "set ps \<subseteq> {0..100}"
      using Cons.IH [OF s later, of w2] by blast
    have "\<exists>calls. ow_trace w' = ow_trace w @ calls \<and> progress_values calls = map int_string (qs @ ps)"
      using w2(2) rest(3) by (auto simp: progress_values_append)
    moreover have "sorted_wrt (<) (p # qs @ ps)" using rest(4) x(3) by (auto simp: qs_def)
    moreover have "set (qs @ ps) \<subseteq> {0..100}" using rest(5) pc by (auto simp: qs_def)
    ultimately show ?thesis using run False rest(1,2) w2(1) by (intro exI [of _ p'] exI [of _ w'] exI [of _ "qs @ ps"]) auto
  qed
qed

section \<open>Properties\<close>

text \<open>C16: in every state the program can bring about, the file names no slot or one of the two, and the image of that slot was mounted
  successfully at some point and has not been created or overwritten since: no sequence of commands, whatever the image manager and the kernel answer,
  selects an image that was never tested. It may only have been deleted, by \<open>delete-other-slot\<close>; where that command is
  only run in a system booted from the selected slot, it has not, and the image counts as mounted since it was last created or deleted.\<close>

theorem selected_image_checked:
  assumes "ota_reachable careful w" and "ow_img w = Some slot"
  shows "slot \<in> {''a'', ''b''} \<and> vetted (slot_image slot) (ow_trace w) \<and> (careful \<longrightarrow> checked (slot_image slot) (ow_trace w))"
  using reachable_vetted [OF assms(1)] reachable_selected [of w] assms by (auto simp: selected_ok_def)

text \<open>The condition is needed: after a switch, and before the reboot, \<open>delete-other-slot\<close> deletes the image that has just been selected.\<close>

lemma delete_pending_selection:
  assumes "ow_img w = Some ''b''" "run_state (delete_other_slot E True (Some ''a'')) w = (r, w')"
  shows "ow_img w' = Some ''b'' \<and> \<not> checked (slot_image ''b'') (ow_trace w')"
  using assms
  by (cases "foldl (track (slot_image ''b'')) (None, False) (ow_trace w)")
     (auto simp: delete_other_slot_def delete_image_def checked_def slot_image_def)

text \<open>C17: preparing a slot, whatever happens on the way, neither changes the selection nor touches the image of the
  selected slot: every call of the image manager is about the other one.\<close>

theorem new_slot_spares_selected:
  assumes "run_state (ota_main E current_slot (Some ''new-slot'')) w = (r, w')"
    and "ow_img w = Some slot" and "slot \<in> {''a'', ''b''}"
  shows "ow_img w' = Some slot \<and>
     (\<exists>calls. ow_trace w' = ow_trace w @ calls \<and> (\<forall>(c, reply)\<in>set calls. image_of c \<noteq> Some (slot_image slot)))"
proof -
  have "slot_image (next_slot_of (Some slot)) \<noteq> slot_image slot"
    using next_slot_other [of "Some slot"] assms(3) by (auto simp: slot_image_def)
  then show ?thesis using new_slot_run [OF assms(1)] assms(2) unfolding logs_def concerns_def by fastforce
qed

text \<open>Switching ends in one of two ways. It exits with status zero after the image of the other slot has been mounted and
  unmounted, and the last thing it does is to write that slot to the file; or it exits with -1, the
  selection is unchanged and the last thing it does is to publish the error. It never creates or deletes an image.\<close>

lemma switch_slot_exact:
  assumes "run_state (ota_main E current_slot (Some ''switch-slot'')) w = (r, w')"
  defines "slot \<equiv> next_slot_of (ow_img w)"
  shows "\<exists>calls c reply. ow_trace w' = ow_trace w @ calls @ [(c, reply)] \<and> (\<forall>(d, _)\<in>set calls. \<forall>im. \<not> destroys im d) \<and>
     (r = Some 0 \<and> checked (slot_image slot) (ow_trace w @ calls) \<and> c = WriteStringToFile slot ''/metadata/phh/img'' \<and>
       ow_img w' = (case or_write reply of Stored \<Rightarrow> Some slot | Not_opened \<Rightarrow> ow_img w | Removed \<Rightarrow> None) \<or>
     r = Some (- 1) \<and> c = SetProperty ''phh.ota.error'' ''Failed to mount OTA image.'' \<and> ow_img w' = ow_img w)"
proof -
  obtain w1 m where w1: "logs (\<lambda>c. image_of c = None) w w1" and run: "run_state (switch_slot E) w1 = (r, w')"
    using main_command [OF assms(1)] by (metis ota_command_simps(2))
  have img: "ow_img w1 = ow_img w" using w1 by (simp add: logs_def)
  have pre: "logs harmless_call w w1" using logs_mono [OF w1] destroys_image by (metis harmless_call_def option.distinct(1))
  obtain w2 c reply where w2: "logs harmless_call w1 w2" "ow_trace w' = ow_trace w2 @ [(c, reply)]"
    and ended: "r = Some 0 \<and> checked (slot_image slot) (ow_trace w2) \<and> c = WriteStringToFile slot ''/metadata/phh/img'' \<and>
       ow_img w' = (case or_write reply of Stored \<Rightarrow> Some slot | Not_opened \<Rightarrow> ow_img w | Removed \<Rightarrow> None) \<or>
     r = Some (- 1) \<and> c = SetProperty ''phh.ota.error'' ''Failed to mount OTA image.'' \<and> ow_img w' = ow_img w"
    using switch_slot_run [OF run] unfolding img slot_def by blast
  obtain calls where "ow_trace w2 = ow_trace w @ calls" "\<forall>(d, r)\<in>set calls. harmless_call d"
    using logs_trans [OF pre w2(1)] unfolding logs_def by blast
  then show ?thesis using w2(2) ended
    by (intro exI [of _ calls] exI [of _ c] exI [of _ reply]) (auto simp: harmless_call_def)
qed

text \<open>For reports that grow towards a total of less than \<open>2^64 / 100\<close> bytes the progress is always defined, the published
  percentages lie between 0 and 100 and increase strictly, so the property is written at most 101 times.\<close>

lemma progress_bounded:
  assumes "0 < t" "100 * unat t < 2 ^ 64"
    and "sorted (map fst reports)" "\<forall>(c, t')\<in>set reports. t' = t \<and> c \<le> t"
  shows "\<exists>p w' ps calls. run_state (create_reports E reports (- 1)) w = (Some p, w') \<and>
     ow_trace w' = ow_trace w @ calls \<and> progress_values calls = map int_string ps \<and>
     sorted_wrt (<) ps \<and> set ps \<subseteq> {0..100} \<and> length ps \<le> 101"
proof -
  have "\<forall>(c, t')\<in>set reports. t' = t \<and> c \<le> t \<and> - 1 \<le> percent c t" using assms(4) by (auto simp: percent_def)
  then obtain p w' ps calls where run: "run_state (create_reports E reports (- 1)) w = (Some p, w')"
    "ow_trace w' = ow_trace w @ calls" "progress_values calls = map int_string ps"
    "sorted_wrt (<) ps" "set ps \<subseteq> {0..100}"
    using create_reports_values [OF assms(1-3), of "- 1" E w] by auto
  have "length ps = card (set ps)" using run(4) by (simp add: strict_sorted_iff distinct_card)
  also have "\<dots> \<le> card {0..100 :: int}" using run(5) by (intro card_mono) auto
  finally show ?thesis using run by auto
qed

section \<open>Weak points\<close>

text \<open>Without a report of the total, or with a device that does not appear, the program is undefined; a
  selection that cannot be written is reported as success; and once a slot has been selected, \<open>delete-other-slot\<close> in a system
  booted from neither slot deletes the selected image.\<close>

lemma progress_total_zero: "run_state (writeProgress E c 0 p) w = (None, w)"
  by (simp add: writeProgress_def)

lemma stat_loop_fails: "(\<And>calls. \<not> or_ok (E calls (Stat path))) \<Longrightarrow> fst (run_state (stat_loop E path n) w) = None"
  by (induction n arbitrary: w) (auto split: prod.splits)

lemma publish_undefined:
  assumes "\<And>calls. or_ok (E calls (MapImageDevice im 0))" "\<And>calls. or_text (E calls (MapImageDevice im 0)) = path"
    and "\<And>calls. \<not> or_ok (E calls (Stat path))"
  shows "fst (run_state (publish_device E im) w) = None"
proof -
  have "fst (run_state (stat_loop E path 10) u) = None" for u using stat_loop_fails [of E path 10 u] assms(3) by blast
  then show ?thesis using assms(1,2) by (simp add: publish_device_def split_beta)
qed

lemma switch_write_failure_unnoticed:
  assumes "run_state (switch_slot E) w = (Some 0, w')" and "\<And>calls c. or_write (E calls c) = Not_opened"
  shows "ow_img w' = ow_img w"
proof -
  obtain ok w1 where "run_state (checkOta E (slot_image (next_slot_of (ow_img w))))
      (snd (run_state (writeImageError E []) w)) = (ok, w1)" by (metis surj_pair)
  moreover have "ow_img w1 = ow_img w"
    using logs.rel_run [OF logs_check_harmless calculation] by (simp add: logs_def writeImageError_def)
  ultimately show ?thesis using assms by (cases ok) (auto simp: switch_slot_def run_write_img Let_def writeImageError_def)
qed

lemma delete_forgets_selected:
  assumes "run_state (delete_other_slot E True None) w = (r, w')"
  shows "r = Some 0 \<and> \<not> checked (slot_image ''a'') (ow_trace w') \<and> \<not> checked (slot_image ''b'') (ow_trace w')"
  using assms
  by (cases "foldl (track (slot_image ''a'')) (None, False) (ow_trace w)"; cases "foldl (track (slot_image ''b'')) (None, False) (ow_trace w)")
     (auto simp: delete_other_slot_def delete_image_def checked_def slot_image_def)

section \<open>Witnesses\<close>

definition example_reply :: ota_reply where
  "example_reply = \<lparr>or_ok = True, or_text = ''/dev/block/dm-7'', or_reports = [(0, 1000), (5, 1000), (1000, 1000)], or_timed_out = False,
     or_block = True, or_device = (254, 7), or_write = Stored\<rparr>"

definition example_ota :: ota_env where
  "example_ota calls c = (case c of GetBoolProperty _ d \<Rightarrow> example_reply\<lparr>or_ok := d\<rparr> | _ \<Rightarrow> example_reply)"

definition switched :: ota_world where
  "switched = snd (run_state (ota_main example_ota None (Some ''switch-slot'')) \<lparr>ow_trace = [], ow_img = None\<rparr>)"

lemma switched_run: "run_state (ota_main example_ota None (Some ''switch-slot'')) \<lparr>ow_trace = [], ow_img = None\<rparr> = (Some 0, switched)"
  "ow_img switched = Some ''a''"
  unfolding switched_def
  by (simp_all add: ota_main_def ota_prologue_def switch_slot_def checkOta_def mapped_device_def test_mount_def run_write_img
      writeImageError_def example_ota_def example_reply_def next_slot_of_def Let_def)

lemma switched_reachable: "ota_reachable True switched"
  by (rule ota_reachable.run [OF ota_reachable.start _ switched_run(1)]) simp_all

theorem selected_image_checked_witness: "checked ''system_otaphh_a'' (ow_trace switched)"
  using selected_image_checked [OF switched_reachable switched_run(2)] by (simp add: slot_image_def)

theorem new_slot_spares_selected_witness:
  "\<exists>r w'. run_state (ota_main example_ota (Some ''a'') (Some ''new-slot'')) switched = (r, w') \<and> ow_img w' = Some ''a''"
proof -
  obtain r w' where run: "run_state (ota_main example_ota (Some ''a'') (Some ''new-slot'')) switched = (r, w')" by (metis surj_pair)
  then show ?thesis using new_slot_spares_selected [OF run switched_run(2)] by simp
qed

lemma switch_slot_exact_witness:
  "\<exists>calls reply. ow_trace switched = calls @ [(WriteStringToFile ''a'' ''/metadata/phh/img'', reply)]"
  using switch_slot_exact [OF switched_run(1)] by (auto simp: next_slot_of_def)

definition example_reports :: "(u64 \<times> u64) list" where
  "example_reports = [(0, 1000), (5, 1000), (1000, 1000)]"

lemma progress_bounded_witness:
  "\<exists>p w' ps calls. run_state (create_reports example_ota example_reports (- 1)) switched = (Some p, w') \<and>
     ow_trace w' = ow_trace switched @ calls \<and> progress_values calls = map int_string ps \<and>
     sorted_wrt (<) ps \<and> set ps \<subseteq> {0..100} \<and> length ps \<le> 101"
proof (rule progress_bounded)
  show "(0 :: u64) < 1000" "100 * unat (1000 :: u64) < 2 ^ 64" by simp_all
  show "sorted (map fst example_reports)" "\<forall>(c, t')\<in>set example_reports. t' = 1000 \<and> c \<le> 1000"
    by (simp_all add: example_reports_def)
qed

end
