(* ===== verification/C_Strings.thy ===== *)
theory C_Strings
  imports Decimal
begin

text \<open>
  Strings and numbers of the C library as the programs use them: strings that end at a zero, \<^verbatim>\<open>memmem\<close>, \<^verbatim>\<open>strtoll\<close> and \<^verbatim>\<open>atoi\<close>.
\<close>

section \<open>Strings\<close>

abbreviation NUL :: char where "NUL \<equiv> char_of (0 :: nat)"

text \<open>The string that starts where a piece of memory starts; without a zero it is read beyond the end.\<close>

definition c_string :: "string \<Rightarrow> string ub" where
  "c_string s = (if NUL \<in> set s then Some (takeWhile (\<lambda>c. c \<noteq> NUL) s) else None)"

text \<open>\<open>memmem\<close>: what follows the first occurrence.\<close>

fun after_match :: "string \<Rightarrow> string \<Rightarrow> string option" where
  "after_match needle [] = (if needle = [] then Some [] else None)"
| "after_match needle (c # cs) =
     (if take (length needle) (c # cs) = needle then Some (drop (length needle) (c # cs)) else after_match needle cs)"

text \<open>Where \<open>memmem\<close> finds the key.\<close>

lemma after_match_eq: "after_match needle s =
  (if take (length needle) s = needle then Some (drop (length needle) s)
   else case s of [] \<Rightarrow> None | _ # cs \<Rightarrow> after_match needle cs)"
  by (cases s) auto

lemma after_match_first:
  assumes "\<And>k. k < length before \<Longrightarrow> take (length needle) (drop k (before @ needle @ rest)) \<noteq> needle"
  shows "after_match needle (before @ needle @ rest) = Some rest"
  using assms
proof (induction before)
  case Nil
  show ?case by (simp add: after_match_eq [of needle "needle @ rest"])
next
  case (Cons c before)
  have "take (length needle) (drop k (before @ needle @ rest)) \<noteq> needle" if "k < length before" for k
    using Cons.prems [of "Suc k"] that by simp
  moreover have "take (length needle) ((c # before) @ needle @ rest) \<noteq> needle" using Cons.prems [of 0] by simp
  ultimately show ?case using Cons.IH by simp
qed

lemma after_match_sound: "after_match needle img = Some rest \<Longrightarrow> \<exists>before. img = before @ needle @ rest"
proof (induction img)
  case Nil
  then show ?case by (auto split: if_splits)
next
  case (Cons c img)
  show ?case
  proof (cases "take (length needle) (c # img) = needle")
    case True
    then have "c # img = [] @ needle @ rest"
      using Cons.prems append_take_drop_id [of "length needle" "c # img"] by simp
    then show ?thesis by blast
  next
    case False
    then obtain before where "img = before @ needle @ rest" using Cons by auto
    then have "c # img = (c # before) @ needle @ rest" by simp
    then show ?thesis by blast
  qed
qed

lemma c_string_value: "NUL \<notin> set value \<Longrightarrow> c_string (value @ NUL # rest) = Some value"
  unfolding c_string_def by (subst takeWhile_append2) auto

lemma c_string_append: "NUL \<in> set s \<Longrightarrow> c_string (s @ t) = c_string s"
  by (simp add: c_string_def)

section \<open>Numbers\<close>

definition is_space :: "char \<Rightarrow> bool" where
  "is_space c \<longleftrightarrow> (let n = of_char c :: nat in n = 32 \<or> 9 \<le> n \<and> n \<le> 13)"

definition digit_of :: "char \<Rightarrow> nat option" where
  "digit_of c = (let n = of_char c :: nat in
     if 48 \<le> n \<and> n \<le> 57 then Some (n - 48)
     else if 97 \<le> n \<and> n \<le> 122 then Some (n - 87)
     else if 65 \<le> n \<and> n \<le> 90 then Some (n - 55)
     else None)"

fun digits_value :: "nat \<Rightarrow> nat \<Rightarrow> string \<Rightarrow> nat" where
  "digits_value base acc [] = acc"
| "digits_value base acc (c # cs) =
     (case digit_of c of
        Some d \<Rightarrow> if d < base then digits_value base (base * acc + d) cs else acc
      | None \<Rightarrow> acc)"

fun sign_of :: "string \<Rightarrow> bool \<times> string" where
  "sign_of [] = (False, [])"
| "sign_of (c # cs) = (if c = CHR ''-'' then (True, cs) else if c = CHR ''+'' then (False, cs) else (False, c # cs))"

text \<open>The prefix of a hexadecimal number; base 0 lets the number choose.\<close>

definition radix_of :: "nat \<Rightarrow> string \<Rightarrow> nat \<times> string" where
  "radix_of base s =
     (if (base = 0 \<or> base = 16) \<and> (take 2 s = ''0x'' \<or> take 2 s = ''0X'') then (16, drop 2 s)
      else if base = 0 then (if take 1 s = ''0'' then 8 else 10, s)
      else (base, s))"

text \<open>\<^verbatim>\<open>strtoll\<close> stays within 64 bits, \<^verbatim>\<open>atoi\<close> is undefined outside of the range of \<^verbatim>\<open>int\<close>.\<close>

definition strtoll :: "nat \<Rightarrow> string \<Rightarrow> int" where
  "strtoll base s =
     (let (negative, s) = sign_of (dropWhile is_space s);
          (base, s) = radix_of base s;
          v = int (digits_value base 0 s)
      in if negative then max (- (2 ^ 63)) (- v) else min (2 ^ 63 - 1) v)"

definition atoi :: "string \<Rightarrow> int ub" where
  "atoi s =
     (let (negative, s) = sign_of (dropWhile is_space s);
          v = (if negative then - int (digits_value 10 0 s) else int (digits_value 10 0 s))
      in if - (2 ^ 31) \<le> v \<and> v < 2 ^ 31 then Some v else None)"

subsection \<open>Reading a number back\<close>

lemma digits_value_append:
  "(\<And>c. c \<in> set s \<Longrightarrow> \<exists>d < base. digit_of c = Some d) \<Longrightarrow>
   digits_value base acc (s @ t) = digits_value base (digits_value base acc s) t"
proof (induction s arbitrary: acc)
  case (Cons c s)
  obtain d where "d < base" "digit_of c = Some d" using Cons.prems [of c] by auto
  then show ?case using Cons by simp
qed simp

lemma digit_of_digit_char [simp]: "d < 10 \<Longrightarrow> digit_of (digit_char d) = Some d"
  by (simp add: digit_of_def Let_def)

lemma nat_string_digit: "c \<in> set (nat_string n) \<Longrightarrow> \<exists>d < 10. digit_of c = Some d"
  using nat_string_digits [of n] by (force simp: digit_of_def Let_def)

lemma digits_value_nat_string [simp]: "digits_value 10 0 (nat_string n) = n"
proof (induction n rule: nat_string.induct)
  case (1 n)
  show ?case
  proof (cases "n < 10")
    case True
    then show ?thesis by (subst nat_string.simps) simp
  next
    case False
    then show ?thesis
      using 1 [OF False] nat_string_digit [of _ "n div 10"]
      by (subst nat_string.simps) (simp add: digits_value_append)
  qed
qed

lemma nat_string_not_Nil [simp]: "nat_string n \<noteq> []"
  by (subst nat_string.simps) simp

lemma nat_string_plain:
  "dropWhile is_space (nat_string n) = nat_string n" "sign_of (nat_string n) = (False, nat_string n)"
proof -
  obtain c cs where n: "nat_string n = c # cs" by (cases "nat_string n") simp_all
  then have "48 \<le> (of_char c :: nat)" using nat_string_digits [of n] by simp
  then have "\<not> is_space c" "c \<noteq> CHR ''-''" "c \<noteq> CHR ''+''" by (auto simp: is_space_def Let_def)
  then show "dropWhile is_space (nat_string n) = nat_string n" "sign_of (nat_string n) = (False, nat_string n)"
    by (simp_all add: n)
qed

lemma atoi_int_string:
  assumes "- (2 ^ 31) \<le> i" "i < 2 ^ 31"
  shows "atoi (int_string i) = Some i"
proof (cases "i < 0")
  case True
  then show ?thesis using assms by (simp add: atoi_def int_string_def is_space_def Let_def)
next
  case False
  then show ?thesis using assms by (simp add: atoi_def int_string_def nat_string_plain)
qed

subsection \<open>Hexadecimal numbers\<close>

definition hex_char :: "nat \<Rightarrow> char" where
  "hex_char d = (if d < 10 then char_of (48 + d) else char_of (87 + d))"

fun hex_string :: "nat \<Rightarrow> string" where
  "hex_string n = (if n < 16 then [hex_char n] else hex_string (n div 16) @ [hex_char (n mod 16)])"

declare hex_string.simps [simp del]

lemma digit_of_hex_char [simp]: "d < 16 \<Longrightarrow> digit_of (hex_char d) = Some d"
  by (auto simp: digit_of_def hex_char_def Let_def)

lemma hex_string_digit: "c \<in> set (hex_string n) \<Longrightarrow> \<exists>d < 16. digit_of c = Some d"
proof (induction n rule: hex_string.induct)
  case (1 n)
  show ?case
  proof (cases "n < 16")
    case True
    then show ?thesis using 1(2) by (subst (asm) hex_string.simps) auto
  next
    case False
    then have "c \<in> set (hex_string (n div 16)) \<or> c = hex_char (n mod 16)" using 1(2) by (subst (asm) hex_string.simps) auto
    then show ?thesis using 1(1) [OF False] by auto
  qed
qed

lemma digits_value_hex_string [simp]: "digits_value 16 0 (hex_string n) = n"
proof (induction n rule: hex_string.induct)
  case (1 n)
  show ?case
  proof (cases "n < 16")
    case True
    then show ?thesis by (subst hex_string.simps) simp
  next
    case False
    then show ?thesis
      using 1 [OF False] hex_string_digit [of _ "n div 16"]
      by (subst hex_string.simps) (simp add: digits_value_append)
  qed
qed

lemma hex_string_not_Nil [simp]: "hex_string n \<noteq> []"
  by (subst hex_string.simps) simp

lemma digit_of_no_sign: "digit_of c = Some d \<Longrightarrow> \<not> is_space c \<and> c \<noteq> CHR ''-'' \<and> c \<noteq> CHR ''+''"
  by (auto simp: digit_of_def is_space_def Let_def split: if_splits)

lemma hex_string_plain:
  "dropWhile is_space (hex_string n) = hex_string n" "sign_of (hex_string n) = (False, hex_string n)"
  "radix_of 16 (hex_string n) = (16, hex_string n)"
proof -
  obtain c cs where n: "hex_string n = c # cs" by (cases "hex_string n") simp_all
  then show "dropWhile is_space (hex_string n) = hex_string n" "sign_of (hex_string n) = (False, hex_string n)"
    using hex_string_digit [of c n] digit_of_no_sign [of c] by auto
  have "CHR ''x'' \<notin> set (hex_string n)" "CHR ''X'' \<notin> set (hex_string n)"
    using hex_string_digit [of "CHR ''x''" n] hex_string_digit [of "CHR ''X''" n] by (auto simp: digit_of_def)
  then have "take 2 (hex_string n) \<noteq> ''0x''" "take 2 (hex_string n) \<noteq> ''0X''"
    using set_take_subset [of 2 "hex_string n"] by auto
  then show "radix_of 16 (hex_string n) = (16, hex_string n)" by (simp add: radix_of_def)
qed

lemma strtoll_hex_string: "n < 2 ^ 63 \<Longrightarrow> strtoll 16 (hex_string n) = int n"
  by (simp add: strtoll_def hex_string_plain)

lemma strtoll_hex_word: "word_of_int (strtoll 16 (hex_string (unat w))) = (w :: u32)"
proof -
  have "unat w < 2 ^ 63" using unsigned_less [of w, where 'a = nat] by simp
  then show ?thesis by (simp add: strtoll_hex_string)
qed

end
