(* ===== verification/Boot_Spl.thy ===== *)
theory Boot_Spl
  imports C_Strings
begin

text \<open>
  \<^verbatim>\<open>fixSPL/getSPL.c\<close>: prints the Android version or the security patch level of a boot image. Both are in a
  word of the image's header; where it is zero they are looked up among the properties in the image.

  A file is the string of its bytes, and a name without a file is one that cannot be opened. Undefined behaviour is
  \<^const>\<open>None\<close>: the image that could not be opened is searched through a null pointer, and a value at the
  end of the image without a terminating zero is read beyond the buffer. The messages to \<^verbatim>\<open>stderr\<close> are left out, but
  for the reads they make.
\<close>

section \<open>The program\<close>

text \<open>\<open>read\<close> of four bytes into a word that is zero; at the end of the file the rest stays zero.\<close>

definition word_at :: "nat \<Rightarrow> string \<Rightarrow> u32" where
  "word_at offset file = foldr (\<lambda>c v. of_nat (of_char c) + 256 * v) (take 4 (drop offset file)) 0"

definition PROP_OS_VERSION :: string where "PROP_OS_VERSION = ''com.android.build.boot.os_version'' @ [NUL]"
definition PROP_SPL :: string where "PROP_SPL = ''com.android.build.boot.security_patch'' @ [NUL]"

definition print_header :: "u32 \<Rightarrow> string \<Rightarrow> string" where
  "print_header val what =
     (let android = unat (drop_bit 11 val); spl = unat (val AND 0x7ff);
          a = android div 2 ^ 14; b = (android div 2 ^ 7) mod 128; c = android mod 128;
          y = 2000 + spl div 2 ^ 4; m = spl mod 16
      in if what = ''android'' then nat_string a @ ''.'' @ nat_string b @ ''.'' @ nat_string c
         else if what = ''spl'' then zero_padded 4 y @ ''-'' @ zero_padded 2 m @ ''-'' @ zero_padded 2 1
         else [])"

definition print_property :: "string \<Rightarrow> string \<Rightarrow> bool \<Rightarrow> string \<Rightarrow> string ub" where
  "print_property key file wanted suffix =
     (case after_match key file of
        None \<Rightarrow> Some []
      | Some p \<Rightarrow> map_option (\<lambda>s. if wanted then s @ suffix else []) (c_string p))"

definition getSPL :: "(string \<Rightarrow> string option) \<Rightarrow> string list \<Rightarrow> (int \<times> string) ub" where
  "getSPL files argv =
     (if length argv \<noteq> 3 then Some (- 1, [])
      else let what = argv ! 2 in
      case files (argv ! 1) of
        None \<Rightarrow> None
      | Some file \<Rightarrow>
          let val = word_at 44 file in
          if val AND 0x7ff \<noteq> 0 then Some (0, print_header val what)
          else do {
            s \<leftarrow> print_property PROP_OS_VERSION file (what = ''android'') ''.0.0'';
            t \<leftarrow> print_property PROP_SPL file (what = ''spl'') [];
            Some (0, s @ t)
          })"

section \<open>The header\<close>

text \<open>The word of a version \<open>a.b.c\<close> and the patch level of month \<open>m\<close> of year \<open>y\<close>, and its bytes.\<close>

definition header_word :: "nat \<Rightarrow> nat \<Rightarrow> nat \<Rightarrow> nat \<Rightarrow> nat \<Rightarrow> nat" where
  "header_word a b c y m = ((a * 128 + b) * 128 + c) * 2048 + ((y - 2000) * 16 + m)"

definition header_bytes :: "nat \<Rightarrow> string" where
  "header_bytes n = [char_of n, char_of (n div 256), char_of (n div 65536), char_of (n div 16777216)]"

lemma word_at_header:
  assumes "length before = 44" "n < 2 ^ 32"
  shows "word_at 44 (before @ header_bytes n @ after) = of_nat n"
proof -
  let ?v = "n mod 256 + 256 * (n div 256 mod 256 + 256 * (n div 65536 mod 256 + 256 * (n div 16777216 mod 256)))"
  have "take 4 (drop 44 (before @ header_bytes n @ after)) = header_bytes n"
    using assms(1) by (simp add: header_bytes_def)
  then have "word_at 44 (before @ header_bytes n @ after) = of_nat ?v"
    unfolding word_at_def by (simp add: header_bytes_def)
  moreover have "?v = n"
  proof -
    define q1 q2 q3 where q: "q1 = n div 256" "q2 = q1 div 256" "q3 = q2 div 256"
    have d: "n div 65536 = q2" "n div 16777216 = q3"
      unfolding q using div_mult2_eq [of n 256 256] div_mult2_eq [of n "256 * 256" 256] by simp_all
    have "q3 < 256" using assms(2) unfolding d(2) [symmetric] by (simp add: less_mult_imp_div_less)
    then have "q2 mod 256 + 256 * (q3 mod 256) = q2" unfolding q(3) by simp
    then have "q1 mod 256 + 256 * (q2 mod 256 + 256 * (q3 mod 256)) = q1" unfolding q(2) by simp
    then show ?thesis unfolding d q(1) [symmetric] unfolding q(1) by simp
  qed
  ultimately show ?thesis by (simp only:)
qed

lemma header_fields:
  assumes "a < 128" "b < 128" "c < 128" "2000 \<le> y" "y < 2128" "m < 16"
  shows "header_word a b c y m < 2 ^ 32"
    and "unat (drop_bit 11 (of_nat (header_word a b c y m) :: u32)) = (a * 128 + b) * 128 + c"
    and "unat ((of_nat (header_word a b c y m) :: u32) AND 0x7ff) = (y - 2000) * 16 + m"
proof -
  let ?n = "header_word a b c y m" and ?s = "(y - 2000) * 16 + m" and ?v = "(a * 128 + b) * 128 + c"
  have eq: "?v = 16384 * a + 128 * b + c" by (simp add: algebra_simps)
  have s: "?s < 2048" and v: "?v < 2097152" unfolding eq using assms by linarith+
  have "x * 2048 + z < 4294967296" if "x < 2097152" "z < 2048" for x z :: nat using that by linarith
  then have "?n < 4294967296" unfolding header_word_def using s v by blast
  then show n: "?n < 2 ^ 32" by simp
  then have u: "unat (of_nat ?n :: u32) = ?n" by (simp add: unsigned_of_nat take_bit_nat_eq_self)
  have "unat (drop_bit 11 (of_nat ?n :: u32)) = ?n div 2048"
    using u by (simp add: drop_bit_eq_div unat_div)
  moreover have parts: "(x * 2048 + z) div 2048 = x" "(x * 2048 + z) mod 2048 = z" if "z < 2048" for x z :: nat
    using that by simp_all
  ultimately show "unat (drop_bit 11 (of_nat ?n :: u32)) = ?v" using parts(1) [OF s] by (simp only: header_word_def)
  have "(of_nat ?n :: u32) AND 0x7ff = take_bit 11 (of_nat ?n)" by (simp add: take_bit_eq_mask mask_eq_exp_minus_1)
  then have "unat ((of_nat ?n :: u32) AND 0x7ff) = ?n mod 2048" using u by (simp add: take_bit_eq_mod unat_mod)
  then show "unat ((of_nat ?n :: u32) AND 0x7ff) = ?s" using parts(2) [OF s] by (simp only: header_word_def)
qed

section \<open>Properties\<close>

text \<open>C39: an image whose header holds version \<open>a.b.c\<close> and the patch level of a month makes the program print exactly these, and the
  numbers can be read back from the text.\<close>

theorem getSPL_header_roundtrip:
  assumes "a < 128" "b < 128" "c < 128" "2000 \<le> y" "y < 2128" "0 < m" "m < 16"
    and "length before = 44" and "files name = Some (before @ header_bytes (header_word a b c y m) @ after)"
  shows "getSPL files [prog, name, ''android''] = Some (0, nat_string a @ ''.'' @ nat_string b @ ''.'' @ nat_string c) \<and>
     getSPL files [prog, name, ''spl''] = Some (0, zero_padded 4 y @ ''-'' @ zero_padded 2 m @ ''-01'') \<and>
     map decimal_value [nat_string a, nat_string b, nat_string c, zero_padded 4 y, zero_padded 2 m] = [a, b, c, y, m]"
proof -
  let ?w = "of_nat (header_word a b c y m) :: u32"
  note f = header_fields [OF assms(1-5,7)]
  have w: "word_at 44 (before @ header_bytes (header_word a b c y m) @ after) = ?w" by (rule word_at_header [OF assms(8) f(1)])
  have "unat (?w AND 0x7ff) \<noteq> 0" using f(3) assms(6) by linarith
  then have nz: "?w AND 0x7ff \<noteq> 0" by auto
  have "((a * 128 + b) * 128 + c) div 16384 = a \<and> ((a * 128 + b) * 128 + c) div 128 mod 128 = b \<and> ((a * 128 + b) * 128 + c) mod 128 = c"
  proof -
    define x where "x = a * 128 + b"
    have x: "x div 128 = a" "x mod 128 = b" using assms(2) by (simp_all add: x_def)
    have "(x * 128 + c) div 128 = x" "(x * 128 + c) mod 128 = c" using assms(3) by simp_all
    then show ?thesis using x div_mult2_eq [of "x * 128 + c" 128 128] unfolding x_def [symmetric] by simp
  qed
  moreover have "2000 + ((y - 2000) * 16 + m) div 16 = y" "((y - 2000) * 16 + m) mod 16 = m" using assms(4,7) by simp_all
  moreover have "zero_padded 2 1 = ''01''" by code_simp
  ultimately show ?thesis
    using nz assms(9) w f(2,3) by (simp add: getSPL_def print_header_def Let_def)
qed

text \<open>When the header holds no patch level, the image names it as a property, and no other property precedes, the program prints the
  value of the property, up to its terminating zero.\<close>

lemma getSPL_property:
  assumes "files name = Some file" and "word_at 44 file AND 0x7ff = 0"
    and "file = before @ PROP_SPL @ value @ NUL # rest" and "NUL \<notin> set value"
    and "\<And>k. k < length before \<Longrightarrow> take (length PROP_SPL) (drop k file) \<noteq> PROP_SPL"
    and "after_match PROP_OS_VERSION file = None"
  shows "getSPL files [prog, name, ''spl''] = Some (0, value)"
proof -
  have "after_match PROP_SPL file = Some (value @ NUL # rest)"
    unfolding assms(3) by (rule after_match_first) (use assms(3,5) in auto)
  then show ?thesis using assms(1,2,6) c_string_value [OF assms(4)] by (simp add: getSPL_def print_property_def Let_def)
qed

text \<open>An image that cannot be opened, or whose last property is cut off, is undefined, whatever is asked for.\<close>

lemma getSPL_missing_file: "files name = None \<Longrightarrow> getSPL files [prog, name, what] = None"
  by (simp add: getSPL_def)

lemma getSPL_cut_off:
  assumes "files name = Some file" "word_at 44 file AND 0x7ff = 0"
    and "after_match PROP_SPL file = Some value" "NUL \<notin> set value"
  shows "getSPL files [prog, name, what] = None"
  using assms by (auto simp: getSPL_def print_property_def c_string_def Let_def split: option.splits)

section \<open>Witnesses\<close>

definition example_boot_image :: string where
  "example_boot_image = replicate 44 NUL @ header_bytes (header_word 11 0 0 2021 6) @ ''boot''"

theorem getSPL_header_roundtrip_witness:
  "getSPL [''boot.img'' \<mapsto> example_boot_image] [''getSPL'', ''boot.img'', ''spl''] = Some (0, zero_padded 4 2021 @ ''-'' @ zero_padded 2 6 @ ''-01'')"
  using getSPL_header_roundtrip [of 11 0 0 2021 6 "replicate 44 NUL" "[''boot.img'' \<mapsto> example_boot_image]" "''boot.img''" "''boot''"]
  by (simp add: example_boot_image_def)

end
