(* ===== verification/Cmd_Tools.thy ===== *)
theory Cmd_Tools
  imports C_Strings
begin

text \<open>
  The command line tools under \<^verbatim>\<open>cmds/\<close> that turn their arguments into calls of a vendor service or of the kernel. A tool
  yields its exit status and the calls it makes, in order. Arguments include the name of the program; reading one that
  is not there, or a service that was not found, is undefined. What is printed is left out.
\<close>

section \<open>Arguments\<close>

type_synonym 'c tool = "(int \<times> 'c list) ub"

definition arg :: "string list \<Rightarrow> nat \<Rightarrow> string ub" where
  "arg argv i = (if i < length argv then Some (argv ! i) else None)"

definition int_arg :: "string list \<Rightarrow> nat \<Rightarrow> int ub" where
  "int_arg argv i = Option.bind (arg argv i) atoi"

text \<open>A call of a service through the pointer to it.\<close>

definition call_service :: "bool \<Rightarrow> 'c \<Rightarrow> 'c tool" where
  "call_service found c = (if found then Some (0, [c]) else None)"

lemma int_arg_simps [simp]:
  "i < length argv \<Longrightarrow> int_arg argv i = atoi (argv ! i)" "i \<ge> length argv \<Longrightarrow> int_arg argv i = None"
  by (simp_all add: int_arg_def arg_def)

section \<open>Lights\<close>

datatype LightType = BACKLIGHT | KEYBOARD | BUTTONS | BATTERY | NOTIFICATIONS | ATTENTION | BLUETOOTH | WIFI | SUB_BACKLIGHT

datatype Flash = Flash_NONE | TIMED | HARDWARE

datatype Brightness = USER | OtherBrightness int

record LightState =
  color :: u32
  flashMode :: Flash
  flashOnMs :: int
  flashOffMs :: int
  brightnessMode :: Brightness

text \<open>The comparisons with the names one after the other; the variable starts without a value.\<close>

definition light_type :: "string \<Rightarrow> LightType ub" where
  "light_type typeArg =
     (let type = None;
          type = if typeArg = ''BACKLIGHT'' then Some BACKLIGHT else type;
          type = if typeArg = ''KEYBOARD'' then Some KEYBOARD else type;
          type = if typeArg = ''BUTTONS'' then Some BUTTONS else type;
          type = if typeArg = ''BATTERY'' then Some BATTERY else type;
          type = if typeArg = ''NOTIFICATIONS'' then Some NOTIFICATIONS else type;
          type = if typeArg = ''ATTENTION'' then Some ATTENTION else type;
          type = if typeArg = ''BLUETOOTH'' then Some BLUETOOTH else type;
          type = if typeArg = ''WIFI'' then Some WIFI else type
      in type)"

definition seh_light_type :: "string \<Rightarrow> LightType ub" where
  "seh_light_type typeArg = (if typeArg = ''SUB_BACKLIGHT'' then Some SUB_BACKLIGHT else light_type typeArg)"

definition flash_mode :: "string \<Rightarrow> Flash \<Rightarrow> Flash" where
  "flash_mode flashArg mode =
     (let mode = if flashArg = ''NONE'' then Flash_NONE else mode;
          mode = if flashArg = ''TIMED'' then TIMED else mode;
          mode = if flashArg = ''HARDWARE'' then HARDWARE else mode
      in mode)"

text \<open>The state set from the arguments; the one before it, a parameter, is what the interface's structure starts with. The flash arguments
  are there with \<open>n\<close> arguments in all, the first of them at \<open>i\<close>.\<close>

definition light_state :: "LightState \<Rightarrow> string list \<Rightarrow> nat \<Rightarrow> nat \<Rightarrow> LightState ub" where
  "light_state state argv n i = do {
     c \<leftarrow> arg argv 2;
     let state = state\<lparr>color := word_of_int (strtoll 16 c), flashMode := Flash_NONE, brightnessMode := USER\<rparr>;
     if length argv = n
     then do {
       flashArg \<leftarrow> arg argv i;
       on \<leftarrow> int_arg argv (i + 1);
       off \<leftarrow> int_arg argv (i + 2);
       Some (state\<lparr>flashMode := flash_mode flashArg (flashMode state), flashOnMs := on, flashOffMs := off\<rparr>)
     }
     else Some state
   }"

definition lightsctl :: "bool \<Rightarrow> LightState \<Rightarrow> string list \<Rightarrow> (LightType \<times> LightState) tool" where
  "lightsctl found init argv =
     (if \<not> found then None
      else if length argv \<le> 1 then Some (0, [])
      else if length argv \<noteq> 3 \<and> length argv \<noteq> 6 then Some (1, [])
      else do {
        type \<leftarrow> light_type (argv ! 1);
        state \<leftarrow> light_state init argv 6 3;
        Some (0, [(type, state)])
      })"

text \<open>The same for Samsung's service of version 2.0.\<close>

definition lightsctl_sec :: "bool \<Rightarrow> LightState \<Rightarrow> string list \<Rightarrow> (LightType \<times> LightState) tool" where
  "lightsctl_sec found init argv =
     (if \<not> found then None
      else if length argv \<le> 1 then Some (0, [])
      else if length argv \<noteq> 3 \<and> length argv \<noteq> 6 then Some (1, [])
      else do {
        type \<leftarrow> light_type (argv ! 1);
        state \<leftarrow> light_state init argv 6 3;
        Some (0, [(type, state)])
      })"

text \<open>Version 3.0 has one more light and one more number, the extended brightness.\<close>

definition lightsctl_seh :: "bool \<Rightarrow> LightState \<Rightarrow> string list \<Rightarrow> (LightType \<times> LightState \<times> u32) tool" where
  "lightsctl_seh found init argv =
     (if \<not> found then None
      else if length argv \<le> 1 then Some (0, [])
      else if length argv \<noteq> 4 \<and> length argv \<noteq> 7 then Some (1, [])
      else do {
        type \<leftarrow> seh_light_type (argv ! 1);
        extended \<leftarrow> arg argv 3;
        state \<leftarrow> light_state init argv 7 4;
        Some (0, [(type, state, word_of_int (strtoll 0 extended))])
      })"

text \<open>The light is a number here, and how many arguments there are is not tested.\<close>

definition lightsctl_huawei :: "bool \<Rightarrow> LightState \<Rightarrow> string list \<Rightarrow> (u32 \<times> LightState) tool" where
  "lightsctl_huawei found init argv =
     (if \<not> found then None
      else do {
        a \<leftarrow> arg argv 1;
        state \<leftarrow> light_state init argv 6 3;
        Some (0, [(word_of_int (strtoll 10 a), state)])
      })"

text \<open>The AIDL service names its lights, with identifier and type; the last of the type wanted is set.\<close>

definition light_id :: "LightType \<Rightarrow> (int \<times> LightType) list \<Rightarrow> int" where
  "light_id type lights = foldl (\<lambda>lightId (i, t). if t = type then i else lightId) (- 1) lights"

definition lightsctl_aidl :: "bool \<Rightarrow> (int \<times> LightType) list \<Rightarrow> LightState \<Rightarrow> string list \<Rightarrow> (int \<times> LightState) tool" where
  "lightsctl_aidl found lights init argv =
     (if \<not> found then None
      else if length argv \<le> 1 then Some (0, [])
      else if length argv \<noteq> 3 \<and> length argv \<noteq> 6 then Some (1, [])
      else do {
        type \<leftarrow> light_type (argv ! 1);
        state \<leftarrow> light_state init argv 6 3;
        Some (0, [(light_id type lights, state)])
      })"

section \<open>Touch screen and display\<close>

text \<open>Two calls of the kernel, as there are two layouts of the argument; whether the device could be opened is not tested.\<close>

definition xiaomi_touch :: "string list \<Rightarrow> int list tool" where
  "xiaomi_touch argv =
     (if length argv \<noteq> 3 then Some (- 1, [])
      else do {
        mode \<leftarrow> int_arg argv 1;
        enabled \<leftarrow> int_arg argv 2;
        if mode < 0 \<or> mode > 20 then Some (- 1, [])
        else if enabled \<noteq> 0 \<and> enabled \<noteq> 1 then Some (- 1, [])
        else Some (0, [[0, mode, enabled], [mode, enabled, 0]])
      })"

text \<open>The number of a display mode by name. Only the last comparison has the alternative.\<close>

definition display_mode :: "string \<Rightarrow> int ub" where
  "display_mode modeArg =
     (let mode = - 1 :: int;
          mode = if modeArg = ''ADAPT'' then 0 else mode;
          mode = if modeArg = ''ENHANCE'' then 1 else mode;
          mode = if modeArg = ''STANDARD'' then 2 else mode;
          mode = if modeArg = ''EYECARE'' then 3 else mode;
          mode = if modeArg = ''MONOCHROME'' then 4 else mode;
          mode = if modeArg = ''SUNLIGHT'' then 8 else mode;
          mode = if modeArg = ''NIGHTLIGHT'' then 9 else mode
      in if modeArg = ''HIGHLIGHT'' then Some 11 else atoi modeArg)"

definition xiaomi_display_feature :: "bool \<Rightarrow> string list \<Rightarrow> (int \<times> int \<times> int \<times> int) tool" where
  "xiaomi_display_feature found argv =
     (if \<not> found then Some (- 1, [])
      else if length argv \<noteq> 3 then Some (- 2, [])
      else do {
        mode \<leftarrow> display_mode (argv ! 1);
        value \<leftarrow> int_arg argv 2;
        Some (0, [(0, mode, value, 255)])
      })"

section \<open>Motors and vibrators\<close>

datatype motor_call = InitMotor | ReleaseMotor | PopupMotor int | TakebackMotor int | TakebackMotorShortly

definition xiaomi_motor :: "bool \<Rightarrow> string list \<Rightarrow> motor_call tool" where
  "xiaomi_motor found argv =
     (if \<not> found then Some (- 1, [])
      else if length argv < 2 then Some (- 1, [])
      else let cmd = argv ! 1 in
      if cmd = ''init'' then Some (0, [InitMotor])
      else if cmd = ''release'' then Some (0, [ReleaseMotor])
      else if cmd = ''popup''
      then (if length argv \<noteq> 3 then Some (- 1, []) else do { cookie \<leftarrow> int_arg argv 2; Some (0, [PopupMotor cookie]) })
      else if cmd = ''takeback''
      then (if length argv \<noteq> 3 then Some (- 1, []) else do { cookie \<leftarrow> int_arg argv 2; Some (0, [TakebackMotor cookie]) })
      else if cmd = ''takebackShortly'' then Some (0, [TakebackMotorShortly])
      else Some (0, []))"

datatype op_motor_call = ReadMotorData int int | WriteMotorData int int int

definition oneplus_motor :: "bool \<Rightarrow> string list \<Rightarrow> op_motor_call tool" where
  "oneplus_motor found argv =
     (if \<not> found then Some (- 1, [])
      else if length argv < 2 then Some (- 1, [])
      else let cmd = argv ! 1 in
      if cmd = ''read'' then Some (0, [ReadMotorData 1 16])
      else if cmd = ''down'' then Some (0, [WriteMotorData 1 0 1])
      else if cmd = ''up'' then Some (0, [WriteMotorData 1 1 1])
      else Some (0, []))"

text \<open>Direction, angle and speed.\<close>

definition asus_motor :: "string list \<Rightarrow> (int \<times> int \<times> int) tool" where
  "asus_motor argv =
     (if length argv \<noteq> 2 then Some (1, [])
      else do { dir \<leftarrow> int_arg argv 1; Some (0, [(dir, 180, 4)]) })"

datatype vibrator_call = SupportsAmplitudeControl | VibratorOn u32 | SetAmplitude u8

definition vibrator_lge :: "bool \<Rightarrow> string list \<Rightarrow> vibrator_call tool" where
  "vibrator_lge found argv =
     (if \<not> found then None
      else do {
        cmd \<leftarrow> arg argv 1;
        if cmd = ''on''
        then do {
          v \<leftarrow> (if length argv \<ge> 3 then int_arg argv 2 else Some 100);
          Some (0, [SupportsAmplitudeControl, VibratorOn (word_of_int v)])
        }
        else if cmd = ''amplitude''
        then do {
          v \<leftarrow> (if length argv \<ge> 3 then int_arg argv 2 else Some 127);
          Some (0, [SupportsAmplitudeControl, SetAmplitude (word_of_int v)])
        }
        else Some (0, [SupportsAmplitudeControl])
      })"

section \<open>Fingerprint extensions, radio, display and power\<close>

definition goodix_fp :: "bool \<Rightarrow> string list \<Rightarrow> (int \<times> int) tool" where
  "goodix_fp found argv =
     (if length argv \<noteq> 3 then Some (1, [])
      else do { a \<leftarrow> int_arg argv 1; b \<leftarrow> int_arg argv 2; call_service found (a, b) })"

text \<open>The status sent is read from the name of the program.\<close>

definition op_fp :: "bool \<Rightarrow> string list \<Rightarrow> int tool" where
  "op_fp found argv =
     (if length argv \<noteq> 2 then Some (1, [])
      else do { v \<leftarrow> int_arg argv 0; call_service found v })"

definition xiaomi_fp :: "bool \<Rightarrow> string list \<Rightarrow> (u32 \<times> u32) tool" where
  "xiaomi_fp found argv =
     (if \<not> found then Some (- 1, [])
      else if length argv \<noteq> 3 then Some (- 2, [])
      else Some (0, [(word_of_int (strtoll 16 (argv ! 1)), word_of_int (strtoll 16 (argv ! 2)))]))"

definition slsi_booted :: "bool \<Rightarrow> unit tool" where
  "slsi_booted found = Some (0, if found then [()] else [])"

definition slsi_ddiscaler :: "bool \<Rightarrow> string list \<Rightarrow> (int \<times> int) tool" where
  "slsi_ddiscaler found argv = do { a \<leftarrow> int_arg argv 1; b \<leftarrow> int_arg argv 2; call_service found (a, b) }"

definition mtk_power :: "bool \<Rightarrow> string list \<Rightarrow> (int \<times> int) tool" where
  "mtk_power found argv =
     (if \<not> found then Some (- 1, [])
      else do { a \<leftarrow> int_arg argv 1; b \<leftarrow> int_arg argv 2; Some (0, [(a, b)]) })"

text \<open>The services of these two are found by name.\<close>

definition mtk_sms_fwk_ready :: "(string \<Rightarrow> bool) \<Rightarrow> string list \<Rightarrow> int tool" where
  "mtk_sms_fwk_ready found argv = do { name \<leftarrow> arg argv 1; Some (0, if found name then [1] else []) }"

definition sec_ril :: "(string \<Rightarrow> bool) \<Rightarrow> string list \<Rightarrow> (int \<times> int \<times> bool) tool" where
  "sec_ril found argv = do {
     name \<leftarrow> arg argv 1;
     m \<leftarrow> int_arg argv 2;
     call_service (found name) (5555, m, True)
   }"

section \<open>What the tools do\<close>

text \<open>How the arguments of the tools for the lights are written.\<close>

fun light_name :: "LightType \<Rightarrow> string" where
  "light_name BACKLIGHT = ''BACKLIGHT''" | "light_name KEYBOARD = ''KEYBOARD''" | "light_name BUTTONS = ''BUTTONS''"
| "light_name BATTERY = ''BATTERY''" | "light_name NOTIFICATIONS = ''NOTIFICATIONS''" | "light_name ATTENTION = ''ATTENTION''"
| "light_name BLUETOOTH = ''BLUETOOTH''" | "light_name WIFI = ''WIFI''" | "light_name SUB_BACKLIGHT = ''SUB_BACKLIGHT''"

fun flash_name :: "Flash \<Rightarrow> string" where
  "flash_name Flash_NONE = ''NONE''" | "flash_name TIMED = ''TIMED''" | "flash_name HARDWARE = ''HARDWARE''"

lemma seh_light_type_name: "seh_light_type (light_name t) = Some t"
  by (cases t) (simp_all add: seh_light_type_def light_type_def)

lemma light_type_name: "t \<noteq> SUB_BACKLIGHT \<Longrightarrow> light_type (light_name t) = Some t"
  by (cases t) (simp_all add: light_type_def)

lemma light_type_unknown: "light_type s = None \<longleftrightarrow> (\<forall>t. t \<noteq> SUB_BACKLIGHT \<longrightarrow> s \<noteq> light_name t)"
proof
  assume "light_type s = None"
  then show "\<forall>t. t \<noteq> SUB_BACKLIGHT \<longrightarrow> s \<noteq> light_name t" using light_type_name by fastforce
next
  assume a: "\<forall>t. t \<noteq> SUB_BACKLIGHT \<longrightarrow> s \<noteq> light_name t"
  then show "light_type s = None"
    using a [rule_format, of BACKLIGHT] a [rule_format, of KEYBOARD] a [rule_format, of BUTTONS] a [rule_format, of BATTERY]
      a [rule_format, of NOTIFICATIONS] a [rule_format, of ATTENTION] a [rule_format, of BLUETOOTH] a [rule_format, of WIFI]
    by (simp add: light_type_def)
qed

lemma flash_mode_name: "flash_mode (flash_name f) m = f"
  by (cases f) (simp_all add: flash_mode_def)

definition int32 :: "int \<Rightarrow> bool" where
  "int32 i \<longleftrightarrow> - (2 ^ 31) \<le> i \<and> i < 2 ^ 31"

lemma light_state_roundtrip:
  assumes "int32 on" "int32 off"
  shows "light_state init [p, t, hex_string (unat c), flash_name f, int_string on, int_string off] 6 3 =
     Some \<lparr>color = c, flashMode = f, flashOnMs = on, flashOffMs = off, brightnessMode = USER\<rparr>"
  using assms
  by (simp add: light_state_def arg_def strtoll_hex_word flash_mode_name atoi_int_string int32_def)

text \<open>What is written as arguments of the tool for the lights is what the service is asked for: the type by its name, the colour in
  hexadecimal, the flash mode by its name and the times in decimal; and the tool reads a variable without a value exactly
  when the name of the light is none of the eight.\<close>

lemma lightsctl_roundtrip:
  assumes "int32 on" "int32 off"
  shows "(t \<noteq> SUB_BACKLIGHT \<longrightarrow>
       lightsctl True init [p, light_name t, hex_string (unat c), flash_name f, int_string on, int_string off] =
       Some (0, [(t, \<lparr>color = c, flashMode = f, flashOnMs = on, flashOffMs = off, brightnessMode = USER\<rparr>)])) \<and>
     (lightsctl True init [p, s, hex_string (unat c), flash_name f, int_string on, int_string off] = None \<longleftrightarrow>
       (\<forall>t. t \<noteq> SUB_BACKLIGHT \<longrightarrow> s \<noteq> light_name t))"
  using light_type_unknown [of s] light_state_roundtrip [OF assms]
  by (cases "light_type s") (auto simp: lightsctl_def light_type_name)

lemma lightsctl_roundtrip_witness:
  "lightsctl True init [''lightsctl'', ''BATTERY'', hex_string (unat (0xff8000 :: u32)), ''TIMED'', int_string 500, int_string 250] =
     Some (0, [(BATTERY, \<lparr>color = 0xff8000, flashMode = TIMED, flashOnMs = 500, flashOffMs = 250, brightnessMode = USER\<rparr>)])"
  using lightsctl_roundtrip [of 500 250 BATTERY init "''lightsctl''" "0xff8000" TIMED "[]"]
  by (simp add: int32_def del: unsigned_numeral)

text \<open>With the AIDL service a light nobody has is set as number -1.\<close>

lemma light_id_missing: "t \<notin> snd ` set lights \<Longrightarrow> light_id t lights = - 1"
  unfolding light_id_def by (induction lights rule: rev_induct) auto

lemma light_id_last: "light_id t (lights @ [(i, t)]) = i"
  by (simp add: light_id_def)

text \<open>Of the names of display modes only the last one works: the others are read as a number, which is zero.\<close>

lemma atoi_letter:
  assumes "\<not> is_space c" "c \<noteq> CHR ''-''" "c \<noteq> CHR ''+''" "\<not> digit_of c \<in> Some ` {..<10}"
  shows "atoi (c # cs) = Some 0"
  using assms by (auto simp: atoi_def split: option.split)

lemma display_mode_names:
  assumes "m \<in> {''ADAPT'', ''ENHANCE'', ''STANDARD'', ''EYECARE'', ''MONOCHROME'', ''SUNLIGHT'', ''NIGHTLIGHT''}" "int32 v"
  shows "xiaomi_display_feature True [p, m, int_string v] = Some (0, [(0, 0, v, 255)])"
proof -
  have "atoi m = Some 0"
    using assms(1) by (elim insertE emptyE; hypsubst; subst atoi_letter) (auto simp: is_space_def digit_of_def)
  moreover have "m \<noteq> ''HIGHLIGHT''" using assms(1) by auto
  ultimately show ?thesis
    using assms(2) by (simp add: xiaomi_display_feature_def display_mode_def atoi_int_string int32_def)
qed

lemma display_mode_highlight:
  "int32 v \<Longrightarrow> xiaomi_display_feature True [p, ''HIGHLIGHT'', int_string v] = Some (0, [(0, 11, v, 255)])"
  by (simp add: xiaomi_display_feature_def display_mode_def atoi_int_string int32_def)

text \<open>Mode 20, which is the number of modes and not a mode, passes the test.\<close>

lemma xiaomi_touch_mode:
  assumes "int32 m" "int32 e"
  shows "xiaomi_touch [p, int_string m, int_string e] =
     (if m \<in> {0..20} \<and> e \<in> {0, 1} then Some (0, [[0, m, e], [m, e, 0]]) else Some (- 1, []))"
  using assms by (auto simp: xiaomi_touch_def atoi_int_string int32_def)

text \<open>The status the fingerprint tool of OnePlus sends does not depend on its argument.\<close>

lemma op_fp_ignores_argument: "op_fp found [p, s] = op_fp found [p, t]"
  by (simp add: op_fp_def)

end
