(* ===== verification/Cmd_Events.thy ===== *)
theory Cmd_Events
  imports C_Strings
begin

text \<open>
  The command line tools under \<^verbatim>\<open>cmds/\<close> that work on files and devices: \<^verbatim>\<open>persistprops\<close>, which shows and sets the
  persistent properties, \<^verbatim>\<open>uevent\<close>, which prints the events of the kernel, \<^verbatim>\<open>oplus-alert-slider\<close>, which follows the
  position of a switch, and \<^verbatim>\<open>evgrab\<close>, which keeps the events of an input device from others.
\<close>

section \<open>Persistent properties\<close>

type_synonym props = "(string \<times> string) list"

text \<open>The code generated for the message: it reads as much as it can and tells whether that was all, and it writes.\<close>

record properties_format =
  ParseFromArray :: "string \<Rightarrow> bool \<times> props"
  SerializeToArray :: "props \<Rightarrow> string"

fun put_property :: "string \<Rightarrow> string \<Rightarrow> props \<Rightarrow> props" where
  "put_property property val [] = [(property, val)]"
| "put_property property val ((name, old) # ps) =
     (if name = property then (name, val) # ps else (name, old) # put_property property val ps)"

text \<open>The exit status, the properties listed, and the file afterwards. Without a file the size of the buffer is not a size.\<close>

definition persistprops :: "properties_format \<Rightarrow> string option \<Rightarrow> string list \<Rightarrow> (int \<times> props \<times> string) ub" where
  "persistprops F file argv =
     (case file of
        None \<Rightarrow> None
      | Some data \<Rightarrow>
          let (parsed, props) = ParseFromArray F data in
          if length argv = 1 then Some (0, props, data)
          else if length argv \<noteq> 3 then Some (- 1, props, data)
          else Some (0, props, SerializeToArray F (put_property (argv ! 1) (argv ! 2) props)))"

lemma put_property_lookup: "map_of (put_property k v ps) = (map_of ps)(k \<mapsto> v)"
  by (induction k v ps rule: put_property.induct) (auto simp: fun_eq_iff)

lemma put_property_names: "map fst (put_property k v ps) = (if k \<in> fst ` set ps then map fst ps else map fst ps @ [k])"
  by (induction k v ps rule: put_property.induct) auto

lemma put_property_others: "filter (\<lambda>p. fst p \<noteq> k) (put_property k v ps) = filter (\<lambda>p. fst p \<noteq> k) ps"
  by (induction k v ps rule: put_property.induct) auto

text \<open>C31: setting a property and listing the properties afterwards shows its new value, the other properties as they were and in
  their order; the names stay where they are, and a new one comes last. This holds for a format that reads what it has written.\<close>

theorem persistprops_set:
  assumes format: "\<And>ps. ParseFromArray F (SerializeToArray F ps) = (True, ps)"
  shows "\<exists>ps' file'. persistprops F (Some (SerializeToArray F ps)) [prog, k, v] = Some (0, ps, file') \<and>
     persistprops F (Some file') [prog] = Some (0, ps', file') \<and>
     map_of ps' = (map_of ps)(k \<mapsto> v) \<and> filter (\<lambda>p. fst p \<noteq> k) ps' = filter (\<lambda>p. fst p \<noteq> k) ps \<and>
     map fst ps' = (if k \<in> fst ` set ps then map fst ps else map fst ps @ [k])"
  by (intro exI [of _ "put_property k v ps"] exI [of _ "SerializeToArray F (put_property k v ps)"])
     (simp add: persistprops_def format put_property_lookup put_property_names put_property_others)

subsection \<open>A format\<close>

text \<open>A format that reads what it has written: a string comes after its length in unary.\<close>

definition put_string :: "string \<Rightarrow> string" where
  "put_string s = replicate (length s) (CHR ''+'') @ CHR '':'' # s"

definition get_string :: "string \<Rightarrow> string \<times> string" where
  "get_string s = (let n = length (takeWhile (\<lambda>c. c = CHR ''+'') s) in (take n (drop (Suc n) s), drop (Suc (2 * n)) s))"

lemma get_put_string [simp]: "get_string (put_string s @ rest) = (s, rest)"
proof -
  have "takeWhile (\<lambda>c. c = CHR ''+'') (put_string s @ rest) = replicate (length s) (CHR ''+'')"
    unfolding put_string_def by (simp add: takeWhile_tail)
  then show ?thesis by (simp add: get_string_def put_string_def Let_def)
qed

definition put_props :: "props \<Rightarrow> string" where
  "put_props ps = concat (map (\<lambda>(k, v). CHR ''*'' # put_string k @ put_string v) ps)"

fun get_props :: "nat \<Rightarrow> string \<Rightarrow> props" where
  "get_props (Suc fuel) (c # s) = (let (k, s) = get_string s; (v, s) = get_string s in (k, v) # get_props fuel s)"
| "get_props _ _ = []"

lemma get_put_props: "length (put_props ps) \<le> fuel \<Longrightarrow> get_props fuel (put_props ps) = ps"
proof (induction ps arbitrary: fuel)
  case (Cons p ps)
  then show ?case by (cases fuel) (auto simp: put_props_def split: prod.splits)
qed (cases fuel; simp add: put_props_def)

definition plain_format :: properties_format where
  "plain_format = \<lparr>ParseFromArray = (\<lambda>s. (True, get_props (length s) s)), SerializeToArray = put_props\<rparr>"

theorem persistprops_set_witness:
  "\<exists>ps' file'. persistprops plain_format (Some (put_props [(''a'', ''1''), (''b'', ''2'')])) [''persistprops'', ''a'', ''3''] =
       Some (0, [(''a'', ''1''), (''b'', ''2'')], file') \<and>
     persistprops plain_format (Some file') [''persistprops''] = Some (0, ps', file') \<and>
     map_of ps' ''a'' = Some ''3'' \<and> map_of ps' ''b'' = Some ''2'' \<and> map fst ps' = [''a'', ''b'']"
proof -
  have "ParseFromArray plain_format (SerializeToArray plain_format ps) = (True, ps)" for ps
    by (simp add: plain_format_def get_put_props)
  from persistprops_set [OF this, of "[(''a'', ''1''), (''b'', ''2'')]" "''persistprops''" "''a''" "''3''"]
  show ?thesis by (auto simp: plain_format_def)
qed

text \<open>A file that cannot be read is replaced all the same: whether it was read is not tested, and what could not be read is lost.\<close>

lemma persistprops_unreadable:
  assumes "ParseFromArray F data = (False, [])"
  shows "persistprops F (Some data) [prog, k, v] = Some (0, [], SerializeToArray F [(k, v)])"
  using assms by (simp add: persistprops_def)

section \<open>Events of the kernel\<close>

text \<open>The lines printed for what the buffer holds from a position on, up to the length of the message.\<close>

function uevent_lines :: "string \<Rightarrow> nat \<Rightarrow> nat \<Rightarrow> string list ub" where
  "uevent_lines buffer buflen pos =
     (if pos < buflen
      then do {
        s \<leftarrow> c_string (drop pos buffer);
        rest \<leftarrow> uevent_lines buffer buflen (pos + (length s + 1));
        Some ((CHR 0x09 # s @ [CHR 0x0A]) # rest)
      }
      else Some [])"
  by pat_completeness auto
termination by (relation "measure (\<lambda>(buffer, buflen, pos). buflen - pos)") auto

declare uevent_lines.simps [simp del]

text \<open>One message: it overwrites the beginning of the buffer, which holds what was there before. The filter is the argument.\<close>

definition HOTPLUG_BUFFER :: nat where "HOTPLUG_BUFFER = 1024 + 512"

definition uevent :: "string list \<Rightarrow> string \<Rightarrow> string \<Rightarrow> string list ub" where
  "uevent argv before message =
     (let received = take HOTPLUG_BUFFER message;
          buffer = received @ drop (length received) before;
          buflen = length received
      in do {
        s \<leftarrow> c_string buffer;
        if length argv \<ge> 2 \<and> after_match (argv ! 1) s = None then Some []
        else do {
          rest \<leftarrow> uevent_lines buffer buflen (length s);
          Some ((s @ [CHR 0x0A]) # rest)
        }
      })"

definition terminated :: "string list \<Rightarrow> string" where
  "terminated parts = concat (map (\<lambda>s. s @ [NUL]) parts)"

definition tabbed :: "string \<Rightarrow> string" where
  "tabbed s = CHR 0x09 # s @ [CHR 0x0A]"

lemma uevent_lines_parts:
  assumes "\<forall>s\<in>set parts. NUL \<notin> set s"
  shows "uevent_lines (pre @ terminated parts @ post) (length pre + length (terminated parts)) (length pre) = Some (map tabbed parts)"
  using assms
proof (induction parts arbitrary: pre)
  case Nil
  then show ?case by (simp add: terminated_def uevent_lines.simps)
next
  case (Cons s parts)
  have "uevent_lines ((pre @ s @ [NUL]) @ terminated parts @ post) (length (pre @ s @ [NUL]) + length (terminated parts))
      (length (pre @ s @ [NUL])) = Some (map tabbed parts)"
    using Cons.prems by (intro Cons.IH) simp
  moreover have "c_string (s @ NUL # t) = Some s" for t using Cons.prems by (simp add: c_string_value)
  ultimately show ?case
    by (subst uevent_lines.simps) (simp add: terminated_def tabbed_def ac_simps)
qed

text \<open>A message of parts that end at a zero is printed field by field, if its header passes the filter. The loop starts
  at the end of the header, not behind it, so an empty line comes first.\<close>

lemma uevent_prints_fields:
  assumes "NUL \<notin> set header" "\<forall>s\<in>set parts. NUL \<notin> set s" "length (terminated (header # parts)) \<le> HOTPLUG_BUFFER"
  shows "uevent argv before (terminated (header # parts)) =
     Some (if length argv \<ge> 2 \<and> after_match (argv ! 1) header = None then []
           else (header @ [CHR 0x0A]) # tabbed [] # map tabbed parts)"
proof -
  define post where "post = drop (length (terminated (header # parts))) before"
  have received: "take HOTPLUG_BUFFER (terminated (header # parts)) = terminated (header # parts)" using assms(3) by simp
  have buffer: "terminated (header # parts) @ post = header @ terminated ([] # parts) @ post"
    by (simp add: terminated_def)
  have "uevent_lines (header @ terminated ([] # parts) @ post) (length header + length (terminated ([] # parts))) (length header)
      = Some (map tabbed ([] # parts))"
    using assms(2) by (intro uevent_lines_parts) auto
  moreover have "length (terminated (header # parts)) = length header + length (terminated ([] # parts))"
    by (simp add: terminated_def)
  moreover have "c_string (terminated (header # parts) @ post) = Some header"
    using assms(1) by (simp add: terminated_def c_string_value)
  ultimately show ?thesis
    unfolding uevent_def Let_def received post_def [symmetric] by (simp add: buffer)
qed

text \<open>A message that fills the buffer without a zero is read beyond the end of the buffer.\<close>

lemma uevent_overrun:
  assumes "NUL \<notin> set message" "HOTPLUG_BUFFER \<le> length message" "length before = HOTPLUG_BUFFER"
  shows "uevent argv before message = None"
  using assms by (auto simp: uevent_def Let_def c_string_def dest: in_set_takeD)

section \<open>Input devices\<close>

text \<open>The search for a device by its name, which is there if the device can be opened.\<close>

fun find_device :: "(nat \<Rightarrow> string option) \<Rightarrow> (string \<Rightarrow> bool) \<Rightarrow> nat list \<Rightarrow> nat option" where
  "find_device names wanted [] = None"
| "find_device names wanted (i # is) =
     (case names i of
        None \<Rightarrow> find_device names wanted is
      | Some name \<Rightarrow> if wanted name then Some i else find_device names wanted is)"

definition is_wanted :: "(nat \<Rightarrow> string option) \<Rightarrow> (string \<Rightarrow> bool) \<Rightarrow> nat \<Rightarrow> bool" where
  "is_wanted names wanted i \<longleftrightarrow> (case names i of Some name \<Rightarrow> wanted name | None \<Rightarrow> False)"

lemma find_device_Cons:
  "find_device names wanted (i # is) = (if is_wanted names wanted i then Some i else find_device names wanted is)"
  by (simp add: is_wanted_def split: option.split)

lemma find_device_None: "find_device names wanted is = None \<longleftrightarrow> (\<forall>i\<in>set is. \<not> is_wanted names wanted i)"
  by (induction "is") (simp_all add: find_device_Cons del: find_device.simps(2))

lemma find_device_first:
  "find_device names wanted [m..<n] = Some i \<Longrightarrow> m \<le> i \<and> i < n \<and> is_wanted names wanted i \<and> (\<forall>j\<in>{m..<i}. \<not> is_wanted names wanted j)"
proof (induction "n - m" arbitrary: m)
  case (Suc k)
  then have m: "[m..<n] = m # [Suc m..<n]" "m < n" by (simp_all add: upt_conv_Cons)
  show ?case
  proof (cases "is_wanted names wanted m")
    case True
    then show ?thesis using Suc.prems m(2) unfolding m(1) find_device_Cons by simp
  next
    case False
    then have "Suc m \<le> i \<and> i < n \<and> is_wanted names wanted i \<and> (\<forall>j\<in>{Suc m..<i}. \<not> is_wanted names wanted j)"
      using Suc.hyps(1) [of "Suc m"] Suc.hyps(2) Suc.prems unfolding m(1) find_device_Cons by simp
    moreover have "{m..<i} = insert m {Suc m..<i}" if "Suc m \<le> i" using that by auto
    ultimately show ?thesis using False by auto
  qed
qed simp

text \<open>The device \<^verbatim>\<open>evgrab\<close> keeps, after which it reads events for ever; without one it ends. \<^verbatim>\<open>Trim\<close> and \<^verbatim>\<open>Split\<close> are from a library.\<close>

definition evgrab :: "(string \<Rightarrow> string) \<Rightarrow> (string \<Rightarrow> string list) \<Rightarrow> (nat \<Rightarrow> string option) \<Rightarrow> string \<Rightarrow> nat option" where
  "evgrab Trim Split names prop =
     (let s = Trim prop in
      if s = '''' then None
      else find_device names (\<lambda>name. \<exists>v\<in>set (Split s). v = name) [0..<30])"

lemma evgrab_first:
  "evgrab Trim Split names prop = Some i \<Longrightarrow> i < 30 \<and>
     is_wanted names (\<lambda>name. name \<in> set (Split (Trim prop))) i \<and>
     (\<forall>j<i. \<not> is_wanted names (\<lambda>name. name \<in> set (Split (Trim prop))) j)"
  using find_device_first [of names "\<lambda>name. name \<in> set (Split (Trim prop))" 0 30 i]
  by (simp add: evgrab_def Let_def split: if_splits)

section \<open>The alert slider\<close>

text \<open>The position of the switch; a read that fails makes the program write before its buffer.\<close>

definition read_tristate :: "string option \<Rightarrow> int ub" where
  "read_tristate contents =
     (case contents of
        None \<Rightarrow> None
      | Some p \<Rightarrow> Option.bind (c_string (take 15 p @ [NUL])) atoi)"

record input_event =
  ev_code :: nat
  ev_value :: int

definition ringer_command :: "int \<Rightarrow> string list" where
  "ringer_command state =
     (if state = 1 then [''service call audio 41 i32 0 s16 android'']
      else if state = 2 then [''service call audio 41 i32 1 s16 android'']
      else if state = 3 then [''service call audio 41 i32 2 s16 android'']
      else [])"

text \<open>The events until the device ends, each with what the file of the switch holds when it is read, which happens twice.\<close>

fun slider_loop :: "(input_event \<times> string option \<times> string option) list \<Rightarrow> string list ub" where
  "slider_loop [] = Some []"
| "slider_loop ((ev, first, second) # events) =
     (if \<not> (ev_code ev = 61 \<and> ev_value ev = 0) then slider_loop events
      else do {
        state \<leftarrow> read_tristate first;
        shown \<leftarrow> read_tristate second;
        rest \<leftarrow> slider_loop events;
        Some (ringer_command state @ rest)
      })"

definition alert_slider :: "(nat \<Rightarrow> string option) \<Rightarrow> (input_event \<times> string option \<times> string option) list \<Rightarrow> string list ub" where
  "alert_slider names events =
     (case find_device names (\<lambda>name. name = ''oplus,hall_tri_state_key'') [0..<255] of
        None \<Rightarrow> Some []
      | Some fd \<Rightarrow> slider_loop events)"

text \<open>As the kernel writes the position.\<close>

definition position_file :: "nat \<Rightarrow> string" where
  "position_file p = nat_string p @ [CHR 0x0A]"

lemma read_position:
  assumes "p < 10"
  shows "read_tristate (Some (position_file p)) = Some (int p)"
proof -
  have p: "nat_string p = [digit_char p]" using assms by (subst nat_string.simps) simp
  have ne: "digit_char p \<noteq> NUL" using of_char_digit [OF assms] by auto
  then have "c_string (take 15 (position_file p) @ [NUL]) = Some (nat_string p @ [CHR 0x0A])"
    by (simp add: c_string_def position_file_def p char_of_def)
  moreover have "atoi (nat_string p @ [CHR 0x0A]) = Some (int p)"
  proof -
    have "\<not> is_space (digit_char p)" "digit_char p \<noteq> CHR ''-''" "digit_char p \<noteq> CHR ''+''"
      using digit_of_no_sign [of "digit_char p" p] assms by simp_all
    then show ?thesis using assms by (simp add: p atoi_def digit_of_def)
  qed
  ultimately show ?thesis by (simp add: read_tristate_def)
qed

text \<open>The ringer follows the switch: for every time it comes to rest the command for its position is run, in order.\<close>

lemma slider_follows_switch:
  assumes "\<forall>p\<in>set ps. p < 10"
  shows "slider_loop (map (\<lambda>p. (\<lparr>ev_code = 61, ev_value = 0\<rparr>, Some (position_file p), Some (position_file p))) ps) =
     Some (concat (map (\<lambda>p. ringer_command (int p)) ps))"
  using assms by (induction ps) (simp_all add: read_position)

lemma slider_unreadable: "slider_loop ((\<lparr>ev_code = 61, ev_value = 0\<rparr>, None, second) # events) = None"
  by (simp add: read_tristate_def)

end
