(* ===== verification/Spec2Isabelle.thy ===== *)
theory Spec2Isabelle
  imports Provider_Requests Stream_Fixed Ase_Settings Le_Codecs_Provider Hidl_Port Sparse_Image Fingerprint Hal_ReadThread Hal_Primary Ota Boot_Spl Cmd_Tools Cmd_Events
begin

text \<open>
  A verification library for \<^verbatim>\<open>device_phh_treble\<close>, the Android device tree of the generic system image.
  The library models the C++ code of its Bluetooth audio subsystem (\<^verbatim>\<open>src/bluetooth/audio\<close>), of its
  primary audio HAL (\<^verbatim>\<open>src/audio/hal\<close>), of its fingerprint adapter (\<^verbatim>\<open>src/hal/oplus-fp\<close>), its sparse
  image converter (\<^verbatim>\<open>src/cmds/simg2img_simple.cpp\<close>), its update program (\<^verbatim>\<open>src/ota/phh-ota.cpp\<close>) and the
  reader of boot image versions (\<^verbatim>\<open>src/fixSPL/getSPL.c\<close>) as HOL functions and step relations, and proves what
  the parts promise to each other.

  \<^bold>\<open>The program.\<close> Bluetooth audio: the Bluetooth stack opens an audio provider for a session type
  (\<^verbatim>\<open>hal/BluetoothAudioProviderFactory.cpp\<close>) and starts a session on it with an audio configuration
  (\<^verbatim>\<open>hal/*AudioProvider.cpp\<close>). A provider validates the configuration
  (\<^verbatim>\<open>utils/aidl_session/BluetoothAudioCodecs.cpp\<close>), or, for A2DP offload, lets a codec parse it
  (\<^verbatim>\<open>hal/A2dpOffloadCodec*.cpp\<close>), and reports to the session of its type, a process-wide object
  (\<^verbatim>\<open>utils/aidl_session/BluetoothAudioSession.cpp\<close>). On the other side the audio module opens
  streams (\<^verbatim>\<open>hw/stream_apis.cc\<close>) whose ports (\<^verbatim>\<open>hw/device_port_proxy.cc\<close>) register with the
  session, are notified of its changes, ask the stack to start and suspend, and write PCM data to
  the queue of the session. An older generation of session and port (\<^verbatim>\<open>utils/session\<close>,
  \<^verbatim>\<open>hw/device_port_proxy_hidl.cc\<close>) serves the HIDL interface; where the AIDL service is
  available its calls are passed on to the AIDL sessions, their types and configurations converted
  (\<^verbatim>\<open>utils/aidl_session/HidlToAidlMiddleware.cpp\<close>).

  Independent of these, the primary audio HAL wraps a legacy HAL: a factory opens devices
  (\<^verbatim>\<open>DevicesFactory.cpp\<close>), a device opens streams and counts them (\<^verbatim>\<open>Device.cpp\<close>), an output or input
  stream has message queues served by a thread of its own (\<^verbatim>\<open>StreamOut.cpp\<close>, \<^verbatim>\<open>StreamIn.cpp\<close>), and the primary
  device adds telephony settings (\<^verbatim>\<open>PrimaryDevice.cpp\<close>). The fingerprint adapter stands between the
  framework and a vendor service that leaves out callbacks the framework waits for. The converter
  expands a sparse image from its standard input to its standard output. The update program keeps two system
  images, prepares the one that is not selected, and selects it when it can be mounted.

  \<^bold>\<open>Conventions.\<close> Machine integers are words where wrap-around or bits matter, and integers or naturals
  with the bound stated where they do not. Undefined behaviour (a null or end dereference, an
  index out of range, a division by zero, an uninitialised read) is \<^const>\<open>None\<close> of the type
  \<open>'a ub\<close>. Interfaces whose code is elsewhere are arguments: the numbers of the AIDL session types,
  default values of AIDL structures, replies of the stack, message queues, the clock, sizes and keys
  from the audio headers, \<open>android::base::Split\<close>, the down-mixing routine. What a theorem needs of
  them is a named hypothesis (\<open>numbering\<close>, \<open>is_split\<close>, \<open>params_ok\<close>), met by a concrete value in its
  witness. Locks are not modelled: an operation that holds its lock to the end is one step, and
  where the code releases it (the transfer loops, the waits of a port) what happens meanwhile is an
  argument: \<open>pcm_obs\<close> for each iteration, a list of notifications for a wait. Logging is left out, but for the null pointers a message
  dereferences.
  The primary audio HAL is compiled for several versions of its interface; the version is a field of
  the environment \<open>env\<close>, every \<open>#if\<close> a case distinction. Its methods are in the state monad over \<open>world\<close>, which
  holds the history of the calls to the legacy HAL; the replies are an arbitrary function of that history.

  \<^bold>\<open>Theories.\<close>
  \<^item> \<open>BT_Prelude\<close>, \<open>Audio_Types\<close>: types of words, undefined behaviour, shared lemmas, the AIDL
    enumerations.
  \<^item> \<open>A2dp_Bits\<close> (\<^verbatim>\<open>hal/A2dpBits.h\<close>): bit ranges of an element, with laws relating \<open>get_range\<close>,
    \<open>set_range\<close> and \<open>find_active_bit\<close> to the bits.
  \<^item> \<open>A2dp_Codec\<close>, \<open>Codec_Sbc\<close>, \<open>Codec_Aac\<close>, \<open>Codec_Factory\<close>: the two codecs and the choice between
    them. The locale \<open>a2dp_codec\<close> is what the factory relies on (a configuration that is built
    parses); \<open>sbc\<close> and \<open>aac\<close> interpret it, and \<open>codec_factory\<close> is proved over it.
  \<^item> \<open>Audio_Codecs\<close> (\<^verbatim>\<open>BluetoothAudioCodecs.cpp\<close>): capabilities and validators, and that they agree.
  \<^item> \<open>Audio_Session\<close> (definitions) and \<open>Session_Laws\<close>: the session. \<open>session_step\<close> is one operation,
    \<open>session_reachable\<close> the states; the locale \<open>observer_registry\<close> is what a port relies on when it
    registers, interpreted as \<open>aidl\<close>. The loops of the data path are total functions: their measure
    is the number of elements left plus the milliseconds of the timeout, so no fuel is needed.
  \<^item> \<open>Providers\<close>: all providers and their factory over a world of sessions and death notifications.
  \<^item> \<open>LeAudio_Offload\<close> (\<^verbatim>\<open>hal/LeAudioOffloadAudioProvider.cpp\<close>): the matching of ASE, quality of service
    and broadcast settings with capabilities and requirements.
  \<^item> \<open>Provider_Requests\<close>: the requests for LE audio configurations as calls of a provider, which the base class refuses and the
    LE audio offload provider overrides; \<open>le_requests\<close> is a sequence of them.
  \<^item> \<open>Ase_Settings\<close>, \<open>Le_Codecs_Provider\<close>
    (\<^verbatim>\<open>utils/aidl_session/BluetoothLeAudioAseConfigurationSettingProvider.cpp\<close>,
    \<^verbatim>\<open>BluetoothLeAudioCodecsProvider.cpp\<close>): how settings, capabilities and codec informations are built
    from the parsed setting files. The locale \<open>named_elements\<close> is what a lookup by name relies on, interpreted
    for the three tables of the capability file.
  \<^item> \<open>Hidl_Codecs\<close>, \<open>Hidl_Middleware\<close>, \<open>Hidl_Session\<close>: the HIDL codec database (bit sets of 32-bit
    words), the conversions and the table of legacy callbacks, and the sessions of versions 2.0 and
    2.1. \<open>own_*\<close> is the code of a session without AIDL, \<open>Hidl_*\<close> chooses between it and the
    middleware. \<open>hidl\<close> is a second interpretation of \<open>observer_registry\<close>; the simulation \<open>sim\<close> relates
    every sequence of requests to the AIDL session.
  \<^item> \<open>Port_Proxy\<close>: the AIDL port, its state machine (\<open>port_auto\<close> is the abstract automaton that
    \<open>deliver\<close> refines, lemma \<open>deliver_events\<close>), set-up and tear-down.
  \<^item> \<open>Port_Interface\<close>: the virtual methods of \<open>BluetoothAudioPort\<close> as a record, the locale
    \<open>audio_port\<close> with what a stream relies on, interpreted by the two AIDL ports.
  \<^item> \<open>Hidl_Port\<close>: the HIDL ports, refining the AIDL ones under \<open>abs_port\<close>, with their interpretations
    \<open>hidl_out\<close> and \<open>hidl_in\<close> of \<open>audio_port\<close>.
  \<^item> \<open>HW_Utils\<close>, \<open>Stream_Apis\<close>, \<open>Stream_Fixed\<close>: parameter strings, streams and the module that opens them, with
    lemmas proved once in \<open>audio_port\<close> (\<open>write_contract\<close> is what a write promises over any port); the operations with a fixed answer.
  \<^item> \<open>Hal_Base\<close> (\<^verbatim>\<open>ParametersUtil.cpp\<close>, \<^verbatim>\<open>Util.h\<close>), \<open>Hal_Stream\<close> (\<^verbatim>\<open>Stream.cpp\<close>, \<^verbatim>\<open>Stream.h\<close>), \<open>Hal_StreamOut\<close>,
    \<open>Hal_StreamIn\<close>: parameters and the methods of the streams. \<open>Hal_Device\<close>: the device; \<open>device_step\<close> is
    one call of a method of the device or of one of its streams, \<open>device_reachable\<close> the states, \<open>hal_inv\<close> their
    invariant, kept by every method (\<open>keeps\<close>, with a lemma per combinator of the monad). \<open>Hal_Threads\<close> and \<open>Hal_ReadThread\<close>:
    the threads as program counters; \<open>out_reachable\<close> and \<open>in_reachable\<close> are the states of the interleavings of a thread, its client
    the other methods of the stream (\<open>out_method\<close>, \<open>in_method\<close> in \<open>Hal_Methods\<close>, one rule for each), its closing and its destruction, of which
    \<open>StreamOut_dtor_rest\<close> is the part after the join. \<open>Thread_Laws\<close>: the locale \<open>stoppable_thread\<close>, of threads that end when told to stop,
    interpreted as \<open>write_thread\<close> and \<open>read_thread\<close>; the places of a thread are ordered by their distance from its end. \<open>Hal_Primary\<close>: the primary device, the factory, and the witnesses of this part, whose
    concrete environment is in \<open>Hal_Example\<close>.
  \<^item> \<open>Fingerprint\<close> (\<^verbatim>\<open>BiometricsFingerprint.cpp\<close>): the adapter over a vendor given by its answers and callbacks.
  \<^item> \<open>Sparse_Image\<close> (\<^verbatim>\<open>simg2img_simple.cpp\<close>): the converter over a kernel that decides how much each call transfers.
    The specification does not use the code: \<open>chunk_file\<close> is a header followed by encoded chunks, \<open>sparse_image\<close> the format as its
    comments describe it (any minor version, any multiple of four as block size, any fill, sizes that do not wrap),
    \<open>expand\<close> the plain image, \<open>supported\<close> the images the converter takes. The copying loop is a total function, as a call that
    transfers nothing ends the program; the measure is the number of bytes left.
  \<^item> \<open>Monad_Laws\<close>: the locale \<open>step_relation\<close>, what composite programs in the state monad keep, interpreted in
    \<open>Hal_Device\<close> (\<open>quietly\<close>), \<open>Hal_Methods\<close> (\<open>own\<close>: a method calls only its own stream and stops none) and \<open>Ota\<close> (\<open>logs\<close>, \<open>from_img\<close>). \<open>Decimal\<close>, \<open>C_Strings\<close>: numbers as text and back,
    strings and conversions of the C library.
  \<^item> \<open>Ota\<close> (\<^verbatim>\<open>phh-ota.cpp\<close>): the commands over an image manager and a kernel that answer every call depending on the
    history; \<open>ota_reachable\<close> are the states after any sequence of runs; its flag says that \<open>delete-other-slot\<close> was only run in a
    system booted from the selected slot. \<open>vetted\<close> reads off the history that an image has been mounted since it was last created,
    \<open>checked\<close> that it has not been deleted since either; the locale \<open>image_claim\<close> has what the proofs need of such a claim
    and is interpreted for both.
  \<^item> \<open>Boot_Spl\<close> (\<^verbatim>\<open>getSPL.c\<close>): the words of the header and the search for properties.
  \<^item> \<open>Cmd_Tools\<close>, \<open>Cmd_Events\<close> (\<^verbatim>\<open>cmds/\<close>): the command line tools, from arguments to exit status and calls; the loop over
    an event of the kernel has the bytes left as its measure.
  \<^item> this theory: properties that span providers, sessions and ports.

  \<^bold>\<open>What is shown.\<close> Codecs: parsing is total and exact, negotiation succeeds exactly on common
  capabilities and yields a configuration that parses, with one common bit in each mask and bitpools that are stated exactly.
  Sessions: an invariant of all reachable states, which observers are notified, transfer loops that terminate and move a prefix of the
  data; ending a session that is ready disables its ports. Providers: accepted configurations make exactly one session ready, others change
  nothing; LE audio settings and capabilities are exactly those of the files, and configurations are
  returned exactly when both sides admit them, none with a codec that was disabled. Ports and streams: exact
  conditions for starting and suspending, set-up and opening undone by tear-down and closing (opening and closing
  a stream for AIDL ports), what a write may report and when its data reaches the queue, for AIDL and HIDL ports. HIDL: sessions of the 2.0 types and
  ports refine their AIDL counterparts as long as queues are valid; the middleware forwards every callback, and which valid configurations it
  keeps valid is stated exactly. Primary audio HAL: the count of open streams is
  exact, closing streams of either direction never aborts, the threads answer every command in order and lose no data, and end
  when their stream is closed; up to version 5 neither the write thread nor any method uses a legacy output stream after it has been closed; queues
  are set up exactly for sizes within bounds. Fingerprint: a cancel reaches the client unless the vendor reported it to another
  callback object, missing enumerations are substituted. Converter: what it reports as success is the plain image of its input, and it
  succeeds on exactly the sparse images it supports. Updates: only a tested image is ever selected, and it is not created or overwritten
  while it is selected; only \<open>delete-other-slot\<close> can delete it. Boot images: versions are printed as the
  header encodes them. Tools: a property that is set is listed, and nothing else changes.

  A group of properties and lemmas
  pins down behaviour that does not look intended: undefined behaviour for a hint without a codec, a maximum bitpool above the
  remote's, a session that stops being ready silently, a delay report that is never used, a stream stuck after a
  refused start, a broadcast configuration written through a null pointer, an LE audio configuration
  whose conversion aborts, a chunk size that wraps around, fills and minor versions the format allows and the converter refuses, a buffer bound of two
  gigabytes documented as one, a legacy stream closed under its write thread from version 6 on, a closed device that opens streams, a
  cancel that the registered client does not hear of, a selection that is lost silently, a selected image that is deleted before the reboot,
  names of display modes that are ignored, a file of properties that is replaced because it could not be read.

  \<^bold>\<open>Not modelled.\<close> The generated readers of the LE audio setting files; the wrappers of the HIDL session of
  version 2.0, which nothing calls; the debug dumps and the map of effects of the primary audio HAL; \<^verbatim>\<open>oppo-fp\<close>, the same
  adapter for another vendor; the services, which register objects with the service manager; the tools for the cameras, whose
  work is in callbacks of a vendor's service, and a probe of a vendor's library; what the tools print for the user; tests.
\<close>

section \<open>Properties across components\<close>

text \<open>C5: a request to start that waits on a registered port is completed by the provider: when the
  stack accepts the request and the provider of the port's session type then reports the stream
  started or failed, the notifications that report makes \<open>Start\<close> return \<open>true\<close> with the port started
  exactly when the status is success; otherwise the port is back in standby.\<close>

theorem streamStarted_completes_Start:
  assumes "registries_ok code (w_sessions w)" "sessions_ok (w_sessions w)" "registered code p (w_sessions w)"
    and "port_state p = STANDBY" "IsSessionReady (session_of (port_session_type p) (w_sessions w))"
    and "port_session_type p \<noteq> ST_UNKNOWN" "p_stack_iface v \<noteq> None" "p_session_type v = Some (port_session_type p)"
  shows "\<exists>ns w' m'. streamStarted status v w = Some (AS_OK, ns, w') \<and>
     Start code True ns p (w_sessions w) =
       (status = BAS_SUCCESS, [SC_startStream False],
        p\<lparr>port_state := if status = BAS_SUCCESS then STARTED else STANDBY\<rparr>, m')"
proof -
  let ?st = "port_session_type p"
  let ?ns = "map (\<lambda>(c, cb). N_control_result (cb_client cb) c True status) (s_observers (session_of ?st (w_sessions w)))"
  have "callbacks_set (session_of ?st (w_sessions w))" using current_ok [OF assms(2), of ?st] by simp
  then have "\<exists>w'. streamStarted status v w = Some (AS_OK, ?ns, w')"
    using assms(7,8) by (simp add: streamStarted_def report_def Report_ReportControlStatus_def on_session_eq
        ReportControlStatus_all)
  moreover have "own_events p ?ns = [Some status]" by (rule status_events [OF assms(1,3,6)])
  then have "\<exists>m'. Start code True ?ns p (w_sessions w) =
       (status = BAS_SUCCESS, [SC_startStream False],
        p\<lparr>port_state := if status = BAS_SUCCESS then STARTED else STANDBY\<rparr>, m')"
    using assms(4,5) registered_observer(3) [OF assms(1,3,6)] by (simp add: Start_eq Let_def)
  ultimately show ?thesis by blast
qed

text \<open>C6: ending a session never fails, and the ports learn of it exactly when the session was ready: when a provider that has a session
  ends it, or the process behind the session dies, a port registered with a ready session is disabled, whatever it
  was doing, so that writes to it are dropped. From a session that was not ready, one that was started with an invalid queue for example, nobody is
  notified and the ports keep the state they had; nor are they when the provider has no session to end.\<close>

theorem endSession_disables_ports:
  assumes "registries_ok code (w_sessions w)" "sessions_ok (w_sessions w)" "registered code p (w_sessions w)"
    and "port_session_type p \<noteq> ST_UNKNOWN" "p_session_type v = Some (port_session_type p)"
  defines "was_ready \<equiv> IsSessionReady (session_of (port_session_type p) (w_sessions w))"
  shows "\<exists>ns v' w' ms w''. endSession unlink v w = Some (AS_OK, ns, v', w') \<and>
     foldl (deliver code) p ns = (if was_ready \<and> p_stack_iface v \<noteq> None then p\<lparr>port_state := DISABLED\<rparr> else p) \<and>
     binderDiedCallbackAidl (Context (port_session_type p)) w = Some (ms, w'') \<and>
     foldl (deliver code) p ms = (if was_ready then p\<lparr>port_state := DISABLED\<rparr> else p)"
proof -
  let ?st = "port_session_type p"
  let ?ns = "if was_ready then session_changed_all (session_of ?st (w_sessions w)) else []"
  have told: "foldl (deliver code) p ?ns = (if was_ready then p\<lparr>port_state := DISABLED\<rparr> else p)"
  proof (cases was_ready)
    case True
    then show ?thesis using change_events [OF assms(1,3,4)] registered_observer(3) [OF assms(1,3,4)] by (simp add: deliver_events)
  qed simp
  have died: "\<exists>w''. binderDiedCallbackAidl (Context ?st) w = Some (?ns, w'')"
    using report_ended [OF assms(2), of ?st] by (simp add: binderDiedCallbackAidl_def was_ready_def)
  have ended: "\<exists>v' w'. endSession unlink v w = Some (AS_OK, if p_stack_iface v \<noteq> None then ?ns else [], v', w')"
  proof (cases "p_stack_iface v")
    case (Some h)
    then show ?thesis using end_started [OF assms(2,5) Some, of unlink] by (auto simp: was_ready_def)
  qed (simp add: endSession_def)
  show ?thesis using told died ended by (cases "p_stack_iface v") (fastforce split: if_splits)+
qed

section \<open>Witnesses\<close>

definition registered_world :: audio_world where
  "registered_world = example_world\<lparr>w_sessions := [A2DP_SOFTWARE_ENCODING_DATAPATH \<mapsto>
     example_session\<lparr>s_observers := [(256, port_callbacks example_port_used)]\<rparr>]\<rparr>"

lemma registered_world_ok:
  "registries_ok example_code (w_sessions registered_world)"
  "sessions_ok (w_sessions registered_world)"
  "registered example_code example_port_used (w_sessions registered_world)"
  "IsSessionReady (session_of A2DP_SOFTWARE_ENCODING_DATAPATH (w_sessions registered_world))"
proof -
  let ?m = "w_sessions registered_world"
  have s: "session_of A2DP_SOFTWARE_ENCODING_DATAPATH ?m = example_session\<lparr>s_observers := [(256, port_callbacks example_port_used)]\<rparr>"
    "st \<noteq> A2DP_SOFTWARE_ENCODING_DATAPATH \<Longrightarrow> session_of st ?m = BluetoothAudioSession st" for st
    by (simp_all add: registered_world_def GetSessionInstance_def)
  have "registry_inv example_code example_session"
    by (rule session_reachable_registry [OF example_session_reachable numbering_example]) simp
  then have r: "registry_inv example_code (session_of A2DP_SOFTWARE_ENCODING_DATAPATH ?m)"
    unfolding s(1) by (simp add: registry_inv_def example_session_def)
  have n: "registry_inv example_code (BluetoothAudioSession st)" if "st \<noteq> ST_UNKNOWN" for st
    using that numbering_example by (simp add: registry_inv_def BluetoothAudioSession_def)
  show "registries_ok example_code ?m"
    unfolding registries_ok_def
  proof (intro allI impI)
    fix st assume "st \<noteq> ST_UNKNOWN"
    then show "registry_inv example_code (session_of st ?m) \<and> s_session_type (session_of st ?m) = st"
      using r n s by (cases "st = A2DP_SOFTWARE_ENCODING_DATAPATH")
        (simp_all add: BluetoothAudioSession_def example_session_def)
  qed
  show "sessions_ok ?m"
    by (simp add: sessions_ok_def registered_world_def callbacks_set_def port_callbacks_def example_session_def
        BluetoothAudioSession_def)
  show "registered example_code example_port_used ?m"
    using example_port_in_use(1) s(1) by (simp add: registered_def example_port_used_def port_callbacks_def)
  show "IsSessionReady (session_of A2DP_SOFTWARE_ENCODING_DATAPATH ?m)"
    using example_session_ready by (simp add: s(1) IsSessionReady_iff)
qed

lemma example_port_used_fields:
  "port_session_type example_port_used = A2DP_SOFTWARE_ENCODING_DATAPATH" "port_state example_port_used = STANDBY"
  by (simp_all add: example_port_used_def)

theorem streamStarted_completes_Start_witness:
  "\<exists>ns w' m'. streamStarted BAS_SUCCESS (example_provider\<lparr>p_stack_iface := Some 9\<rparr>) registered_world = Some (AS_OK, ns, w') \<and>
     Start example_code True ns example_port_used (w_sessions registered_world) =
       (True, [SC_startStream False], example_port_used\<lparr>port_state := STARTED\<rparr>, m')"
  using streamStarted_completes_Start [OF registered_world_ok(1-3), of "example_provider\<lparr>p_stack_iface := Some 9\<rparr>" BAS_SUCCESS]
    registered_world_ok(4) by (simp add: example_port_used_fields example_provider_def)

theorem endSession_disables_ports_witness:
  "\<exists>ns v' w'. endSession (\<lambda>h c. remove1 (h, c)) (example_provider\<lparr>p_stack_iface := Some 9\<rparr>) registered_world
       = Some (AS_OK, ns, v', w') \<and>
     foldl (deliver example_code) example_port_used ns = example_port_used\<lparr>port_state := DISABLED\<rparr>"
  using endSession_disables_ports [OF registered_world_ok(1-3), of "example_provider\<lparr>p_stack_iface := Some 9\<rparr>"
      "\<lambda>h c. remove1 (h, c)"] registered_world_ok(4)
  by (auto simp: example_port_used_fields example_provider_def)

end
